(* ===== verification/Prelude.thy ===== *)
theory Prelude
  imports Main "HOL-Library.Word"
begin

text \<open>
  Shared types and generic lemmas of the development: bytes and 32-bit words, the sequencing
  combinators for the \<open>do { if (!f()) continue; ... } while (false)\<close> idiom that the program
  uses for every multi-step operation, and facts on lists cut into fixed-size chunks.
\<close>

unbundle bit_operations_syntax

section \<open>Machine types\<close>

type_synonym byte = "8 word"
type_synonym u32 = "32 word"
type_synonym bytes = "byte list"

text \<open>
  An operation on a state \<open>'s\<close> returns the C++ \<open>bool\<close> together with the new state; \<open>None\<close> is
  undefined behaviour (an access outside an array or a vector), which the source does not check.
\<close>

type_synonym 's op = "'s \<Rightarrow> (bool \<times> 's) option"

named_theorems op_defs "definitions of the primitive operations"
named_theorems emits_intros "what each request generator appends to the queues"
named_theorems layout_simps "offsets and sizes of the configuration block"

section \<open>Sequencing operations\<close>

text \<open>
  \<open>run_all [f, g, h]\<close> is \<open>do { if (!f()) continue; if (!g()) continue; if (!h()) continue;
  b_result = true; } while (false)\<close>: it stops at the first operation that returns false and keeps
  the state that operation left behind.
\<close>

fun run_all :: "'s op list \<Rightarrow> 's op" where
  "run_all [] s = Some (True, s)"
| "run_all (f # fs) s =
     (case f s of
        None \<Rightarrow> None
      | Some (b, s') \<Rightarrow> if b then run_all fs s' else Some (False, s'))"

text \<open>\<open>if (c) if (!f()) continue;\<close>\<close>

definition when_op :: "('s \<Rightarrow> bool) \<Rightarrow> 's op \<Rightarrow> 's op" where
  "when_op c f s = (if c s then f s else Some (True, s))"

lemma run_all_append:
  "run_all (fs @ gs) s =
     (case run_all fs s of
        None \<Rightarrow> None
      | Some (b, s') \<Rightarrow> if b then run_all gs s' else Some (False, s'))"
  by (induction fs arbitrary: s) (auto split: option.splits)

lemma when_op_True [simp]: "c s \<Longrightarrow> when_op c f s = f s"
  by (simp add: when_op_def)

lemma when_op_False [simp]: "\<not> c s \<Longrightarrow> when_op c f s = Some (True, s)"
  by (simp add: when_op_def)

section \<open>Chunks\<close>

text \<open>A list cut into pieces of at most \<open>n\<close> elements, in order.\<close>

function chunks :: "nat \<Rightarrow> 'a list \<Rightarrow> 'a list list" where
  "chunks n xs = (if xs = [] \<or> n = 0 then [] else take n xs # chunks n (drop n xs))"
  by pat_completeness auto
termination
  by (relation "measure (\<lambda>(n, xs). length xs)") auto

declare chunks.simps [simp del]

lemma chunks_Nil [simp]: "chunks n [] = []"
  by (simp add: chunks.simps)

lemma chunks_step:
  "0 < n \<Longrightarrow> xs \<noteq> [] \<Longrightarrow> chunks n xs = take n xs # chunks n (drop n xs)"
  by (simp add: chunks.simps [of n xs])

text \<open>Induction over the cuts.\<close>

lemma chunks_cut_induct [consumes 1, case_names Nil Cut]:
  assumes "0 < n" and "P []"
    and "\<And>xs. 0 < n \<Longrightarrow> xs \<noteq> [] \<Longrightarrow> P (drop n xs) \<Longrightarrow> P xs"
  shows "P xs"
proof (induction xs rule: length_induct)
  case (1 xs)
  show ?case
  proof (cases "xs = []")
    case True
    then show ?thesis using assms(2) by simp
  next
    case False
    then have "length (drop n xs) < length xs" using assms(1) by simp
    with 1 have "P (drop n xs)" by blast
    then show ?thesis using assms False by blast
  qed
qed

lemma concat_chunks: "0 < n \<Longrightarrow> concat (chunks n xs) = xs"
  by (induction xs rule: chunks_cut_induct) (simp_all add: chunks_step)

lemma length_chunks_le: "0 < n \<Longrightarrow> c \<in> set (chunks n xs) \<Longrightarrow> length c \<le> n"
  by (induction xs rule: chunks_cut_induct) (auto simp: chunks_step)

lemma chunks_nonempty: "0 < n \<Longrightarrow> c \<in> set (chunks n xs) \<Longrightarrow> c \<noteq> []"
  by (induction xs rule: chunks_cut_induct) (auto simp: chunks_step)

lemma chunks_concat_same:
  "0 < n \<Longrightarrow> \<forall>c\<in>set cs. length c = n \<Longrightarrow> chunks n (concat cs) = cs"
proof (induction cs)
  case (Cons c cs)
  then have "c @ concat cs \<noteq> []" by auto
  with Cons show ?case by (simp add: chunks_step)
qed simp

lemma length_chunks:
  assumes "0 < n"
  shows "length (chunks n xs) = (length xs + n - 1) div n"
  using assms
proof (induction xs rule: chunks_cut_induct)
  case (Cut xs)
  have step: "length (chunks n xs) = Suc (length (chunks n (drop n xs)))"
    using Cut by (simp add: chunks_step)
  show ?case
  proof (cases "n \<le> length xs")
    case True
    then have "length xs + n - 1 = (length xs - n + n - 1) + n" using \<open>0 < n\<close> by simp
    then have "(length xs + n - 1) div n = Suc ((length (drop n xs) + n - 1) div n)"
      using \<open>0 < n\<close> by (simp only: div_add_self2 length_drop)
    then show ?thesis using step Cut.IH by simp
  next
    case False
    have "0 < length xs" using Cut.hyps by simp
    then have "length xs + n - 1 = (length xs - 1) + n" "length xs - 1 < n"
      using False by linarith+
    then have "(length xs + n - 1) div n = Suc 0"
      using \<open>0 < n\<close> by (simp only: div_add_self2 div_less)
    then show ?thesis using step False by simp
  qed
qed (use assms in simp)

section \<open>Cutting lists\<close>

text \<open>\<open>subrange xs off n\<close> is the range \<open>[begin + off, begin + off + n)\<close> of a vector.\<close>

definition subrange :: "'a list \<Rightarrow> nat \<Rightarrow> nat \<Rightarrow> 'a list" where
  "subrange xs off n = take n (drop off xs)"

lemma length_subrange: "off + n \<le> length xs \<Longrightarrow> length (subrange xs off n) = n"
  by (simp add: subrange_def)

lemma subrange_all: "length xs = n \<Longrightarrow> subrange xs 0 n = xs"
  by (simp add: subrange_def)

lemma subrange_append_mid:
  "length xs = off \<Longrightarrow> length ys = n \<Longrightarrow> subrange (xs @ ys @ zs) off n = ys"
  by (simp add: subrange_def)

text \<open>Overwriting \<open>length ys\<close> elements of \<open>xs\<close> from \<open>off\<close> on, as \<open>memcpy\<close> does.\<close>

definition overlay :: "'a list \<Rightarrow> nat \<Rightarrow> 'a list \<Rightarrow> 'a list" where
  "overlay xs off ys = take off xs @ ys @ drop (off + length ys) xs"

lemma length_overlay:
  "off + length ys \<le> length xs \<Longrightarrow> length (overlay xs off ys) = length xs"
  by (simp add: overlay_def)

lemma subrange_overlay_same:
  "off + length ys \<le> length xs \<Longrightarrow> subrange (overlay xs off ys) off (length ys) = ys"
  by (simp add: subrange_def overlay_def)

lemma nth_overlay:
  "off + length ys \<le> length xs \<Longrightarrow> i < length xs \<Longrightarrow>
     overlay xs off ys ! i =
       (if i < off then xs ! i
        else if i < off + length ys then ys ! (i - off)
        else xs ! i)"
  by (auto simp: overlay_def nth_append min_def)

lemma subrange_overlay_other:
  assumes "off + length ys \<le> length xs" "k + n \<le> length xs"
    and "k + n \<le> off \<or> off + length ys \<le> k"
  shows "subrange (overlay xs off ys) k n = subrange xs k n"
proof (rule nth_equalityI)
  show "length (subrange (overlay xs off ys) k n) = length (subrange xs k n)"
    using assms by (simp add: length_subrange length_overlay)
next
  fix i
  assume "i < length (subrange (overlay xs off ys) k n)"
  then have "i < n" by (simp add: subrange_def)
  then show "subrange (overlay xs off ys) k n ! i = subrange xs k n ! i"
    using assms by (auto simp: subrange_def nth_overlay length_overlay)
qed

end
