(* ===== verification/Convert.thy ===== *)
theory Convert
  imports Prelude
begin

text \<open>
  The text conversions that the server and the tools share: trimming, hexadecimal text, multi-strings
  (strings that end with a null, the last one with two), the check for UTF-8, tokens, and BCD
  (\<open>src/shared/lib/inc/mp_cconvert.h\<close>, \<open>mp_cstring.h\<close>, \<open>mp_coperation.h\<close>). The narrow and the wide
  versions of a function differ in the width of a character only and are one definition over
  \<open>'w word list\<close>. Character classes are those of the C locale.
\<close>

section \<open>White space\<close>

definition white_space :: "'w::len word \<Rightarrow> bool" where
  "white_space c = (c \<in> {0x20, 0x09, 0x0C, 0x0B, 0x0A, 0x0D})"

text \<open>\<open>find_first_not_of\<close> and \<open>find_last_not_of\<close>: a text of nothing but white space stays as it is.\<close>

definition remove_white_space_of_prepostfix :: "bool \<Rightarrow> bool \<Rightarrow> 'w::len word list \<Rightarrow> 'w word list" where
  "remove_white_space_of_prepostfix b_prefix b_postfix s_in =
     (let t = dropWhile white_space s_in;
          s_out = (if b_prefix \<and> t \<noteq> [] then t else s_in);
          u = rev (dropWhile white_space (rev s_out))
      in if b_postfix \<and> u \<noteq> [] then u else s_out)"

abbreviation trim :: "'w::len word list \<Rightarrow> 'w word list" where
  "trim \<equiv> remove_white_space_of_prepostfix True True"

lemma trim_not_white:
  assumes "s = [] \<or> \<not> white_space (hd s) \<and> \<not> white_space (last s)"
  shows "remove_white_space_of_prepostfix a b s = s"
proof (cases "s = []")
  case False
  then have h: "\<not> white_space (hd s)" "\<not> white_space (hd (rev s))"
    using assms by (simp_all add: hd_rev)
  have d: "dropWhile white_space s = s" using h(1) by (cases s) auto
  have r: "dropWhile white_space (rev s) = rev s" using h(2) False by (cases "rev s") auto
  show ?thesis using d r by (simp add: remove_white_space_of_prepostfix_def Let_def)
qed (simp add: remove_white_space_of_prepostfix_def Let_def)

section \<open>Hexadecimal text\<close>

definition hex_char :: "nat \<Rightarrow> 'w::len word" where
  "hex_char n = (if n < 10 then of_nat (0x30 + n) else of_nat (0x61 + (n - 10)))"

text \<open>\<open>std::hex\<close> with \<open>setfill('0')\<close> and \<open>setw(2)\<close>.\<close>

definition hex_of_byte :: "byte \<Rightarrow> 'w::len word list" where
  "hex_of_byte c = [hex_char (unat c div 16), hex_char (unat c mod 16)]"

fun hex_string_from_binary :: "'w::len word list \<Rightarrow> bytes \<Rightarrow> 'w word list" where
  "hex_string_from_binary s_delimiter [] = []"
| "hex_string_from_binary s_delimiter [c] = hex_of_byte c"
| "hex_string_from_binary s_delimiter (c # cs) =
     hex_of_byte c @ s_delimiter @ hex_string_from_binary s_delimiter cs"

definition to_lower_char :: "'w::len word \<Rightarrow> 'w word" where
  "to_lower_char c = (if 0x41 \<le> c \<and> c \<le> 0x5A then c + 0x20 else c)"

text \<open>\<open>find\<close> of a separator: what is in front of it and what is behind it.\<close>

fun split_first :: "'a list \<Rightarrow> 'a list \<Rightarrow> ('a list \<times> 'a list) option" where
  "split_first sep [] = (if sep = [] then Some ([], []) else None)"
| "split_first sep (c # cs) =
     (if take (length sep) (c # cs) = sep then Some ([], drop (length sep) (c # cs))
      else map_option (\<lambda>(a, b). (c # a, b)) (split_first sep cs))"

lemma split_first_Some: "split_first sep s = Some (a, b) \<Longrightarrow> s = a @ sep @ b"
proof (induction s arbitrary: a)
  case (Cons c cs)
  show ?case
  proof (cases "take (length sep) (c # cs) = sep")
    case True
    have "c # cs = take (length sep) (c # cs) @ drop (length sep) (c # cs)"
      by (rule append_take_drop_id [symmetric])
    then show ?thesis using Cons.prems True by simp
  next
    case False
    then show ?thesis using Cons by auto
  qed
qed (simp split: if_splits)

text \<open>The tokens: pairs of characters, or what is between the separators. A single space at the front
  is skipped; what is between separators is trimmed, the rest behind the last one is not.\<close>

function hex_tokens :: "'w::len word list \<Rightarrow> 'w word list \<Rightarrow> 'w word list list" where
  "hex_tokens sep s =
     (if sep = [] then []
      else
        (case split_first sep s of
           None \<Rightarrow> [map to_lower_char s]
         | Some (a, b) \<Rightarrow>
             if a = [] \<and> sep = [0x20] then hex_tokens sep b
             else map to_lower_char (trim a) # hex_tokens sep b))"
  by pat_completeness auto
termination
  by (relation "measure (\<lambda>(sep, s). length s)") (auto dest!: split_first_Some)

declare hex_tokens.simps [simp del]

definition nibble_value :: "'w::len word \<Rightarrow> nat option" where
  "nibble_value c =
     (let c_nibble = (ucast c :: byte)
      in if 0x30 \<le> c_nibble \<and> c_nibble \<le> 0x39 then Some (unat c_nibble - 0x30)
         else if 0x61 \<le> c_nibble \<and> c_nibble \<le> 0x66 then Some (unat c_nibble - 0x61 + 10)
         else None)"

definition token_byte :: "'w::len word list \<Rightarrow> byte option" where
  "token_byte t =
     (case t of
        [a] \<Rightarrow> map_option of_nat (nibble_value a)
      | [a, b] \<Rightarrow>
          (case (nibble_value a, nibble_value b) of
             (Some x, Some y) \<Rightarrow> Some (of_nat (x * 16 + y))
           | _ \<Rightarrow> None)
      | _ \<Rightarrow> None)"

text \<open>An error in any token empties the result.\<close>

definition binary_from_hex_string :: "'w::len word list \<Rightarrow> 'w word list \<Rightarrow> bytes" where
  "binary_from_hex_string s_hex s_seperator =
     (if s_seperator = [] \<and> length s_hex mod 2 \<noteq> 0 then []
      else
        let tokens = (if s_seperator = [] then chunks 2 (map to_lower_char s_hex)
                      else hex_tokens s_seperator s_hex);
            bs = map token_byte tokens
        in if None \<in> set bs then [] else map the bs)"

text \<open>The text of a byte and its value.\<close>

lemma nibble_hex_char:
  assumes "n < 16" "8 \<le> LENGTH('w::len)"
  shows "nibble_value (hex_char n :: 'w word) = Some n \<and> to_lower_char (hex_char n :: 'w word) = hex_char n
     \<and> \<not> white_space (hex_char n :: 'w word)"
proof -
  have big: "(2::nat) ^ 8 \<le> 2 ^ LENGTH('w)" using assms(2) by (rule power_increasing) simp
  have v: "unat (of_nat m :: 'w word) = m" "unat (ucast (of_nat m :: 'w word) :: byte) = m" if "m < 256" for m
    using that big by (simp_all add: unat_of_nat take_bit_eq_mod unsigned_ucast_eq)
  have c: "take_bit LENGTH('w) (numeral k :: nat) = numeral k" if "numeral k < (256::nat)" for k
    by (rule take_bit_nat_eq_self) (use less_le_trans [OF that] big in simp)
  have b: "unat (ucast (hex_char n :: 'w word) :: byte) = (if n < 10 then 0x30 + n else 0x57 + n)"
    "unat (hex_char n :: 'w word) = (if n < 10 then 0x30 + n else 0x57 + n)"
    using v [of "0x30 + n"] v [of "0x61 + (n - 10)"] assms(1) by (auto simp: hex_char_def)
  have "nibble_value (hex_char n :: 'w word) = Some n"
    using assms(1) by (simp add: nibble_value_def Let_def word_le_nat_alt b)
  moreover have "to_lower_char (hex_char n :: 'w word) = hex_char n"
    using assms(1) by (auto simp: to_lower_char_def word_le_nat_alt b c)
  moreover have "\<not> white_space (hex_char n :: 'w word)"
    using assms(1) by (auto simp: white_space_def word_unat_eq_iff b c)
  ultimately show ?thesis by blast
qed

lemma token_byte_hex:
  assumes "8 \<le> LENGTH('w::len)"
  shows "token_byte (hex_of_byte c :: 'w word list) = Some c"
    "map to_lower_char (hex_of_byte c :: 'w word list) = hex_of_byte c"
    "trim (hex_of_byte c :: 'w word list) = hex_of_byte c"
    "0x20 \<notin> set (hex_of_byte c :: 'w word list)"
proof -
  have lt: "unat c < 256" using unsigned_less [of c] by simp
  then have n: "unat c div 16 < 16" "unat c mod 16 < 16" by simp_all
  note h = nibble_hex_char [OF n(1) assms] nibble_hex_char [OF n(2) assms]
  have "(of_nat (unat c div 16 * 16 + unat c mod 16) :: byte) = c"
    by (simp only: div_mult_mod_eq) simp
  then show "token_byte (hex_of_byte c :: 'w word list) = Some c"
    using h by (simp add: token_byte_def hex_of_byte_def)
  show "map to_lower_char (hex_of_byte c :: 'w word list) = hex_of_byte c"
    "trim (hex_of_byte c :: 'w word list) = hex_of_byte c"
    "0x20 \<notin> set (hex_of_byte c :: 'w word list)"
    using h by (auto simp: hex_of_byte_def white_space_def intro!: trim_not_white)
qed

lemma hex_string_no_delimiter: "hex_string_from_binary [] v = concat (map hex_of_byte v)"
  by (induction "[] :: 'w::len word list" v rule: hex_string_from_binary.induct) simp_all

lemma split_first_here:
  "c \<notin> set a \<Longrightarrow> split_first [c] (a @ c # b) = Some (a, b)"
  by (induction a) auto

lemma split_first_none: "c \<notin> set a \<Longrightarrow> split_first [c] a = None"
  by (induction a) auto

lemma hex_tokens_spaces:
  assumes "8 \<le> LENGTH('w::len)" "v \<noteq> []"
  shows "hex_tokens [0x20] (hex_string_from_binary [0x20 :: 'w word] v) = map hex_of_byte v"
  using assms(2)
proof (induction "[0x20 :: 'w word]" v rule: hex_string_from_binary.induct)
  case (2 c)
  then show ?case
    using token_byte_hex [OF assms(1), of c] by (simp add: hex_tokens.simps split_first_none)
next
  case (3 c c' cs)
  have "hex_of_byte c \<noteq> ([] :: 'w word list)" by (simp add: hex_of_byte_def)
  then show ?case
    using 3 token_byte_hex [OF assms(1), of c]
      split_first_here [of "0x20 :: 'w word" "hex_of_byte c" "hex_string_from_binary [0x20] (c' # cs)"]
    by (subst hex_tokens.simps) simp
qed simp

lemma hex_roundtrip:
  assumes "8 \<le> LENGTH('w::len)" "d = [] \<or> d = [0x20 :: 'w word]"
  shows "binary_from_hex_string (hex_string_from_binary d v) d = v"
  using assms(2)
proof
  assume d: "d = []"
  have len: "length (concat (map hex_of_byte v) :: 'w word list) = 2 * length v"
    by (induction v) (simp_all add: hex_of_byte_def)
  have "map to_lower_char (concat (map hex_of_byte v) :: 'w word list) = concat (map hex_of_byte v)"
    using token_byte_hex(2) [OF assms(1)] by (induction v) simp_all
  moreover have "chunks 2 (concat (map hex_of_byte v) :: 'w word list) = map hex_of_byte v"
    by (rule chunks_concat_same) (simp_all add: hex_of_byte_def)
  ultimately show ?thesis
    using len token_byte_hex(1) [OF assms(1)]
    by (simp add: binary_from_hex_string_def d hex_string_no_delimiter Let_def o_def image_iff)
next
  assume d: "d = [0x20]"
  show ?thesis
  proof (cases "v = []")
    case True
    then show ?thesis
      by (simp add: d binary_from_hex_string_def Let_def hex_tokens.simps token_byte_def)
  next
    case False
    then show ?thesis
      using token_byte_hex(1) [OF assms(1)] hex_tokens_spaces [OF assms(1) False]
      by (simp add: binary_from_hex_string_def d Let_def o_def image_iff)
  qed
qed

text \<open>Hexadecimal text can be read back: for narrow and for wide text, without separator and with
  blanks, the bytes that \<open>binary_from_hex_string\<close> finds are those that \<open>hex_string_from_binary\<close> wrote.\<close>

theorem hex_text_roundtrip:
  "binary_from_hex_string (hex_string_from_binary [] v :: byte list) [] = v
   \<and> binary_from_hex_string (hex_string_from_binary [0x20] v :: byte list) [0x20] = v
   \<and> binary_from_hex_string (hex_string_from_binary [] v :: 16 word list) [] = v
   \<and> binary_from_hex_string (hex_string_from_binary [0x20] v :: 16 word list) [0x20] = v"
  by (simp add: hex_roundtrip)

text \<open>A wide character is cut to its low byte before it is looked at: U+0131 counts as the digit 1.\<close>

lemma wide_digit_is_cut:
  "binary_from_hex_string [0x0131, 0x0132 :: 16 word] [] = [0x12]"
  by (simp add: binary_from_hex_string_def Let_def chunks.simps to_lower_char_def token_byte_def nibble_value_def)

section \<open>Multi-strings\<close>

text \<open>
  \<open>change\<close> with a destination writes the strings, each with its null, and one more null; without one it
  returns the size in bytes. An empty list writes nothing, not even the final null.
\<close>

definition multi_string :: "'w::len word list list \<Rightarrow> 'w word list" where
  "multi_string list_s_src =
     (if list_s_src = [] then [] else concat (map (\<lambda>s. s @ [0]) list_s_src) @ [0])"

definition multi_string_size :: "nat \<Rightarrow> 'w::len word list list \<Rightarrow> nat" where
  "multi_string_size n_char list_s_src =
     (if list_s_src = [] then 0
      else sum_list (map (\<lambda>s. (length s + 1) * n_char) list_s_src) + n_char)"

text \<open>The other direction reads memory up to the double null; \<open>None\<close> is a read behind its end.\<close>

function from_multi_string :: "'w::len word list \<Rightarrow> 'w word list list option" where
  "from_multi_string p_ss_multi_src =
     (case p_ss_multi_src of
        [] \<Rightarrow> None
      | c # cs \<Rightarrow>
          if c = 0 then Some []
          else
            (case dropWhile (\<lambda>c. c \<noteq> 0) p_ss_multi_src of
               [] \<Rightarrow> None
             | _ # rest \<Rightarrow>
                 map_option (\<lambda>ss. takeWhile (\<lambda>c. c \<noteq> 0) p_ss_multi_src # ss) (from_multi_string rest)))"
  by pat_completeness auto
termination
proof (relation "measure length", goal_cases)
  case (2 p c cs d rest)
  then have "length (d # rest) \<le> length p" using length_dropWhile_le [of "\<lambda>c. c \<noteq> 0" p] by metis
  then show ?case by simp
qed simp

declare from_multi_string.simps [simp del]

text \<open>The version for sets inserts the strings; a string that comes twice is counted once.\<close>

definition set_from_multi_string :: "'w::len word list \<Rightarrow> ('w word list set \<times> nat) option" where
  "set_from_multi_string p = map_option (\<lambda>ss. (set ss, card (set ss))) (from_multi_string p)"

lemma length_multi_string:
  "n_char * length (multi_string ss) = multi_string_size n_char ss"
proof -
  have "n_char * length (concat (map (\<lambda>s. s @ [0]) ss)) = sum_list (map (\<lambda>s. (length s + 1) * n_char) ss)"
    by (induction ss) (simp_all add: algebra_simps)
  then show ?thesis by (simp add: multi_string_def multi_string_size_def algebra_simps)
qed

lemma from_multi_step:
  assumes "s \<noteq> []" "0 \<notin> set s"
  shows "from_multi_string (s @ 0 # rest) = map_option ((#) s) (from_multi_string rest)"
proof -
  have tw: "takeWhile (\<lambda>c. c \<noteq> 0) (s @ 0 # rest) = s" using assms(2)
    by (induction s) auto
  have dw: "dropWhile (\<lambda>c. c \<noteq> 0) (s @ 0 # rest) = 0 # rest" using assms(2)
    by (induction s) auto
  obtain c cs where "s = c # cs" "c \<noteq> 0" using assms by (cases s) auto
  then show ?thesis
    using tw dw by (subst from_multi_string.simps) (simp add: comp_def)
qed

lemma multi_string_read_back:
  assumes "ss \<noteq> []" "\<forall>s\<in>set ss. s \<noteq> [] \<and> 0 \<notin> set s"
  shows "from_multi_string (multi_string ss @ rest) = Some ss"
proof -
  have "from_multi_string (concat (map (\<lambda>s. s @ [0]) ss) @ 0 # rest) = Some ss"
    using assms(2)
  proof (induction ss)
    case Nil
    then show ?case by (simp add: from_multi_string.simps)
  next
    case (Cons s ss)
    then show ?case using from_multi_step [of s "concat (map (\<lambda>s. s @ [0]) ss) @ 0 # rest"] by simp
  qed
  then show ?thesis using assms(1) by (simp add: multi_string_def)
qed

section \<open>UTF-8\<close>

text \<open>The number of continuation bytes that a first byte announces; \<open>None\<close> for a byte that is no first byte.
  The third test also takes the bytes from 0xF8 on.\<close>

definition utf8_n_char :: "byte \<Rightarrow> nat option" where
  "utf8_n_char c_one =
     (if c_one AND 0x80 = 0 then Some 0
      else if c_one AND 0xF8 = 0xF0 then Some 3
      else if c_one AND 0xE0 = 0xE0 then Some 2
      else if c_one AND 0xE0 = 0xC0 then Some 1
      else None)"

text \<open>\<open>while (b_result && n_char--)\<close>\<close>

fun utf8_tail :: "nat \<Rightarrow> bytes \<Rightarrow> bool \<times> bytes" where
  "utf8_tail 0 cs = (True, cs)"
| "utf8_tail (Suc n) [] = (False, [])"
| "utf8_tail (Suc n) (c # cs) = (if c AND 0xC0 \<noteq> 0x80 then (False, cs) else utf8_tail n cs)"

text \<open>
  The loop over the characters. At a byte that is no first byte it clears \<open>b_result\<close> and goes on
  with \<open>continue\<close> without having moved the offset.
\<close>

partial_function (option) utf8_loop :: "bool \<Rightarrow> bytes \<Rightarrow> bool option" where
  "utf8_loop b_result cs =
     (case cs of
        [] \<Rightarrow> Some b_result
      | c_one # cs1 \<Rightarrow>
          (case utf8_n_char c_one of
             None \<Rightarrow> utf8_loop False cs
           | Some n_char \<Rightarrow>
               if b_result
               then (case utf8_tail n_char cs1 of (b, cs2) \<Rightarrow> utf8_loop b cs2)
               else utf8_loop False cs1))"

text \<open>A size of 0 asks for a string that ends with a null; \<open>None\<close> also when there is none.\<close>

definition is_all_utf8 :: "bytes \<Rightarrow> nat \<Rightarrow> bool option" where
  "is_all_utf8 s_data n_data =
     (if n_data = 0 \<and> 0 \<notin> set s_data \<or> length s_data < n_data then None
      else
        let s = (if n_data = 0 then takeWhile (\<lambda>c. c \<noteq> 0) s_data else take n_data s_data)
        in if s = [] then Some False else utf8_loop True s)"

text \<open>What the loop accepts: a sequence of characters, each a first byte with its continuation bytes.\<close>

inductive utf8_text :: "bytes \<Rightarrow> bool" where
  utf8_Nil: "utf8_text []"
| utf8_char: "utf8_n_char c = Some (length t) \<Longrightarrow> \<forall>x\<in>set t. x AND 0xC0 = 0x80 \<Longrightarrow> utf8_text cs
     \<Longrightarrow> utf8_text (c # t @ cs)"

inductive_cases utf8_ConsE: "utf8_text (c # cs)"

lemma utf8_no_first_byte: "utf8_n_char c = None \<longleftrightarrow> c AND 0xC0 = 0x80"
proof -
  have "list_all (\<lambda>n. (utf8_n_char (of_nat n) = None) = (of_nat n AND 0xC0 = (0x80 :: byte))) [0..<256]"
    by code_simp
  moreover have "unat c \<in> set [0..<256]" using unsigned_less [of c] by simp
  ultimately have "(utf8_n_char (of_nat (unat c)) = None) = (of_nat (unat c) AND 0xC0 = (0x80 :: byte))"
    unfolding list_all_iff by blast
  then show ?thesis by simp
qed

lemma utf8_tail_True:
  "utf8_tail n cs = (True, cs') \<longleftrightarrow> (\<exists>t. cs = t @ cs' \<and> length t = n \<and> (\<forall>x\<in>set t. x AND 0xC0 = 0x80))"
proof (induction n cs rule: utf8_tail.induct)
  case (3 n c cs)
  show ?case
  proof (cases "c AND 0xC0 = 0x80")
    case True
    then show ?thesis using 3 by (auto simp: Cons_eq_append_conv)
  next
    case False
    then show ?thesis by (auto simp: Cons_eq_append_conv)
  qed
qed auto

lemma utf8_loop_accepts:
  assumes "utf8_loop b cs = Some r"
  shows "r \<longrightarrow> b \<and> utf8_text cs"
proof (rule utf8_loop.raw_induct [where P = "\<lambda>b cs r. r \<longrightarrow> b \<and> utf8_text cs", OF _ assms])
  fix f b cs r
  assume ih: "\<And>b cs r. f b cs = Some r \<Longrightarrow> r \<longrightarrow> b \<and> utf8_text cs"
    and body: "(case cs of [] \<Rightarrow> Some b
      | c_one # cs1 \<Rightarrow>
          (case utf8_n_char c_one of None \<Rightarrow> f False cs
           | Some n_char \<Rightarrow>
               if b then (case utf8_tail n_char cs1 of (b, cs2) \<Rightarrow> f b cs2) else f False cs1)) = Some r"
  show "r \<longrightarrow> b \<and> utf8_text cs"
  proof (cases cs)
    case Nil
    then show ?thesis using body by (simp add: utf8_Nil)
  next
    case (Cons c cs1)
    obtain b2 cs2 where t: "utf8_tail (the (utf8_n_char c)) cs1 = (b2, cs2)" by fastforce
    show ?thesis
    proof (cases "utf8_n_char c = None \<or> \<not> b")
      case True
      then show ?thesis using body Cons ih [of False cs r] ih [of False cs1 r] by (cases "utf8_n_char c") auto
    next
      case False
      then obtain n where n: "utf8_n_char c = Some n" "b" by auto
      then have "r \<longrightarrow> b2 \<and> utf8_text cs2" using body Cons t ih [of b2 cs2 r] by simp
      moreover have "utf8_text (c # cs1)" if "b2" "utf8_text cs2"
        using that t n utf8_tail_True [of n cs1 cs2] utf8_char [of c] by auto
      ultimately show ?thesis using n Cons by blast
    qed
  qed
qed

lemma utf8_loop_prefix: "utf8_text a \<Longrightarrow> utf8_loop True (a @ r) = utf8_loop True r"
proof (induction rule: utf8_text.induct)
  case (utf8_char c t cs)
  have "utf8_tail (length t) (t @ cs @ r) = (True, cs @ r)" using utf8_char(2) utf8_tail_True by blast
  then show ?case using utf8_char by (subst utf8_loop.simps) simp
qed simp

lemma utf8_loop_stuck: "utf8_n_char c = None \<Longrightarrow> utf8_loop b (c # cs) = None"
proof (rule ccontr)
  let ?P = "\<lambda>b xs r. \<forall>c cs. xs = c # cs \<longrightarrow> utf8_n_char c \<noteq> None"
  assume c: "utf8_n_char c = None" and "utf8_loop b (c # cs) \<noteq> None"
  then obtain r where r: "utf8_loop b (c # cs) = Some r" by blast
  have "?P b (c # cs) r"
  proof (rule utf8_loop.raw_induct [where P = ?P, OF _ r])
    fix f b xs r
    assume ih: "\<And>b xs r. f b xs = Some r \<Longrightarrow> ?P b xs r"
      and body: "(case xs of [] \<Rightarrow> Some b
        | c_one # cs1 \<Rightarrow>
            (case utf8_n_char c_one of None \<Rightarrow> f False xs
             | Some n_char \<Rightarrow>
                 if b then (case utf8_tail n_char cs1 of (b, cs2) \<Rightarrow> f b cs2) else f False cs1)) = Some r"
    show "?P b xs r"
    proof (intro allI impI)
      fix c cs
      assume xs: "xs = c # cs"
      show "utf8_n_char c \<noteq> None"
      proof
        assume "utf8_n_char c = None"
        then show False using body ih [of False xs r] xs by simp
      qed
    qed
  qed
  then show False using c by blast
qed

text \<open>C34. The check for UTF-8 answers yes exactly for a sequence of characters, each a first byte with as
  many continuation bytes as it announces. It does not answer at all when a continuation byte
  stands where a character should begin: the loop then goes on without moving.\<close>

theorem utf8_check_outcome:
  assumes "s \<noteq> []"
  shows "(is_all_utf8 s (length s) = Some True \<longleftrightarrow> utf8_text s)
     \<and> (\<forall>a x r. utf8_text a \<longrightarrow> s = a @ x # r \<longrightarrow> x AND 0xC0 = 0x80 \<longrightarrow> is_all_utf8 s (length s) = None)"
proof -
  have run: "is_all_utf8 s (length s) = utf8_loop True s" using assms by (simp add: is_all_utf8_def)
  have "utf8_loop True s = Some True" if "utf8_text s"
    using utf8_loop_prefix [OF that, of "[]"] by (simp add: utf8_loop.simps)
  moreover have "utf8_loop True (a @ x # r) = None" if "utf8_text a" "x AND 0xC0 = 0x80" for a x r
    using utf8_loop_prefix [OF that(1)] utf8_loop_stuck utf8_no_first_byte [of x] that(2) by simp
  ultimately show ?thesis using run utf8_loop_accepts [of True s True] by auto
qed

lemma utf8_examples: "utf8_text [0x41]" "utf8_text [0x41, 0xC3, 0xA9]"
proof -
  have "utf8_text [0xC3, 0xA9]"
    using utf8_char [of "0xC3" "[0xA9]" "[]"] utf8_Nil by (simp add: utf8_n_char_def)
  then show "utf8_text [0x41, 0xC3, 0xA9]"
    using utf8_char [of "0x41" "[]" "[0xC3, 0xA9]"] by (simp add: utf8_n_char_def)
  show "utf8_text [0x41]" using utf8_char [of "0x41" "[]" "[]"] utf8_Nil by (simp add: utf8_n_char_def)
qed

theorem utf8_check_outcome_witness:
  "is_all_utf8 [0x41, 0xC3, 0xA9] (length [0x41, 0xC3, 0xA9 :: byte]) = Some True
   \<and> is_all_utf8 [0x41, 0x80] (length [0x41, 0x80 :: byte]) = None"
proof
  show "is_all_utf8 [0x41, 0xC3, 0xA9] (length [0x41, 0xC3, 0xA9 :: byte]) = Some True"
    using utf8_check_outcome [of "[0x41, 0xC3, 0xA9]"] utf8_examples(2) by blast
  have "[0x41, 0x80] = [0x41] @ 0x80 # ([] :: bytes)" "(0x80 :: byte) AND 0xC0 = 0x80" by simp_all
  then show "is_all_utf8 [0x41, 0x80] (length [0x41, 0x80 :: byte]) = None"
    using utf8_check_outcome [of "[0x41, 0x80]"] utf8_examples(1) by blast
qed

section \<open>Multi-strings of UTF-8\<close>

text \<open>
  The scan for the strings; each is kept with its null. A null as the last byte, the end of the bytes
  without a double null, and a string that is not UTF-8 give no string at all.
\<close>

fun scan_multi :: "bytes \<Rightarrow> bytes list \<Rightarrow> bytes \<Rightarrow> bytes list" where
  "scan_multi cur v_pair_string [] = []"
| "scan_multi cur v_pair_string (c # cs) =
     (if c \<noteq> 0 then scan_multi (cur @ [c]) v_pair_string cs
      else
        (case cs of
           [] \<Rightarrow> []
         | d # ds \<Rightarrow>
             if d = 0 then v_pair_string @ [cur @ [0]]
             else scan_multi [] (v_pair_string @ [cur @ [0]]) cs))"

text \<open>\<open>None\<close>: the check of a string does not come to an end.\<close>

fun all_utf8 :: "bytes list \<Rightarrow> bool option" where
  "all_utf8 [] = Some True"
| "all_utf8 (s # ss) =
     (case is_all_utf8 s (length s) of
        None \<Rightarrow> None
      | Some b \<Rightarrow> if b then all_utf8 ss else Some False)"

text \<open>
  \<open>to_wide\<close> is \<open>get_unicode_from_mcsc\<close>, the conversion by the C library. The first result is the
  number that is returned: it counts the strings that the conversion makes empty, the list does not
  hold them.
\<close>

definition change_from_utf8_multistring ::
  "(bytes \<Rightarrow> 'w list) \<Rightarrow> bytes \<Rightarrow> (nat \<times> 'w list list \<times> nat) option" where
  "change_from_utf8_multistring to_wide p_ss_multi_utf8 =
     (let v_pair_string = scan_multi [] [] p_ss_multi_utf8
      in map_option (\<lambda>b.
           if v_pair_string = [] \<or> \<not> b then (0, [], 0)
           else
             (let list_s_dst = filter (\<lambda>s. s \<noteq> []) (map (\<lambda>s. to_wide (takeWhile (\<lambda>c. c \<noteq> 0) s)) v_pair_string)
              in (length v_pair_string, list_s_dst, sum_list (map length list_s_dst))))
         (all_utf8 v_pair_string))"

lemma scan_multi_string:
  assumes "0 \<notin> set s"
  shows "scan_multi cur v (s @ 0 # c # cs) =
     (if c = 0 then v @ [cur @ s @ [0]] else scan_multi [] (v @ [cur @ s @ [0]]) (c # cs))"
  using assms by (induction s arbitrary: cur) auto

lemma scan_multi_strings:
  assumes "ss \<noteq> []" "\<forall>s\<in>set ss. s \<noteq> [] \<and> 0 \<notin> set s"
  shows "scan_multi [] v (multi_string ss @ rest) = v @ map (\<lambda>s. s @ [0]) ss"
  using assms
proof (induction ss arbitrary: v)
  case (Cons s ss)
  show ?case
  proof (cases ss)
    case Nil
    then show ?thesis
      using Cons.prems scan_multi_string [of s "[]" v 0 rest] by (simp add: multi_string_def)
  next
    case (Cons t ts)
    have ss: "multi_string (s # ss) @ rest = s @ 0 # multi_string ss @ rest"
      using Cons by (simp add: multi_string_def)
    obtain c cs where c: "multi_string ss @ rest = c # cs" "c \<noteq> 0"
      using Cons Cons.prems(2) by (cases t) (auto simp: multi_string_def)
    show ?thesis
      unfolding ss c(1)
      using Cons.IH [of "v @ [s @ [0]]"] Cons.prems(2) scan_multi_string [of s "[]" v c cs] c Cons by simp
  qed
qed simp

lemma utf8_text_null: "utf8_text s \<Longrightarrow> utf8_text (s @ [0])"
proof (induction rule: utf8_text.induct)
  case utf8_Nil
  then show ?case using utf8_char [of 0 "[]" "[]"] utf8_text.utf8_Nil by (simp add: utf8_n_char_def)
next
  case (utf8_char c t cs)
  then show ?case using utf8_text.utf8_char [of c t "cs @ [0]"] by simp
qed

lemma all_utf8_strings:
  "\<forall>s\<in>set ss. utf8_text s \<Longrightarrow> all_utf8 (map (\<lambda>s. s @ [0]) ss) = Some True"
proof (induction ss)
  case (Cons s ss)
  have "is_all_utf8 (s @ [0]) (length (s @ [0])) = utf8_loop True (s @ [0])"
    by (simp add: is_all_utf8_def del: take_append)
  also have "\<dots> = Some True"
    using utf8_loop_prefix [OF utf8_text_null, of s "[]"] Cons.prems by (simp add: utf8_loop.simps)
  finally show ?case using Cons by simp
qed simp

lemma multi_string_utf8:
  assumes "ss \<noteq> []" "\<forall>s\<in>set ss. s \<noteq> [] \<and> 0 \<notin> set s \<and> utf8_text s"
  shows "change_from_utf8_multistring to_wide (multi_string ss @ rest) =
     Some (length ss, filter (\<lambda>s. s \<noteq> []) (map to_wide ss), sum_list (map (\<lambda>s. length (to_wide s)) ss))"
proof -
  have "scan_multi [] [] (multi_string ss @ rest) = map (\<lambda>s. s @ [0]) ss"
    using scan_multi_strings [of ss "[]"] assms by simp
  moreover have "takeWhile (\<lambda>c. c \<noteq> 0) (s @ [0]) = s" if "s \<in> set ss" for s
  proof -
    have "\<forall>c\<in>set s. c \<noteq> 0" using that assms(2) by auto
    then show ?thesis by (induction s) auto
  qed
  then have "map (\<lambda>s. to_wide (takeWhile (\<lambda>c. c \<noteq> 0) s)) (map (\<lambda>s. s @ [0]) ss) = map to_wide ss"
    by simp
  moreover have "sum_list (map length (filter (\<lambda>s. s \<noteq> []) (map to_wide ss))) =
      sum_list (map (\<lambda>s. length (to_wide s)) ss)"
    by (induction ss) auto
  ultimately show ?thesis
    using all_utf8_strings [of ss] assms by (simp add: change_from_utf8_multistring_def Let_def del: map_map)
qed

section \<open>Tokens\<close>

text \<open>The loop of \<open>tokenizer\<close> on what is left of the text from \<open>n_start\<close> on.\<close>

function token_loop :: "bool \<Rightarrow> 'a list \<Rightarrow> 'a list \<Rightarrow> 'a list list" where
  "token_loop b_ignore sep rest =
     (let pre = takeWhile (\<lambda>c. c \<in> set sep) rest; tok = dropWhile (\<lambda>c. c \<in> set sep) rest
      in if tok = [] then (if b_ignore then [] else replicate (length rest + 1) [])
         else if \<forall>c\<in>set rest. c \<notin> set sep then [rest]
         else if pre \<noteq> [] then (if b_ignore then [] else replicate (length pre) []) @ token_loop b_ignore sep tok
         else takeWhile (\<lambda>c. c \<notin> set sep) rest
                # token_loop b_ignore sep (tl (dropWhile (\<lambda>c. c \<notin> set sep) rest)))"
  by pat_completeness auto
termination
proof (relation "measure (\<lambda>(b, sep, rest). length rest)", goal_cases)
  case (2 b sep rest pre tok)
  have "pre @ tok = rest" using 2 by simp
  then have "length rest = length pre + length tok" by auto
  then show ?case using 2 by auto
next
  case (3 b sep rest pre tok)
  have "rest \<noteq> []" using 3 by auto
  then have "length (tl (dropWhile (\<lambda>c. c \<notin> set sep) rest)) < length rest"
    using length_dropWhile_le [of "\<lambda>c. c \<notin> set sep" rest] by (cases rest) auto
  then show ?case by simp
qed simp

declare token_loop.simps [simp del]

definition tokenizer :: "bool \<Rightarrow> 'a list \<Rightarrow> 'a list \<Rightarrow> 'a list list" where
  "tokenizer b_if_token_empty_then_ignore s_src s_separator =
     (if s_src = [] then []
      else if s_separator = [] then [s_src]
      else token_loop b_if_token_empty_then_ignore s_separator s_src)"

text \<open>The reference: cut at every separator.\<close>

fun cut_at :: "'a list \<Rightarrow> 'a list \<Rightarrow> 'a list list" where
  "cut_at sep [] = [[]]"
| "cut_at sep (c # cs) =
     (if c \<in> set sep then [] # cut_at sep cs
      else (case cut_at sep cs of t # ts \<Rightarrow> (c # t) # ts | [] \<Rightarrow> [[c]]))"

lemma cut_at_nonempty [simp]: "cut_at sep s \<noteq> []"
  by (induction s) (auto split: list.splits)

lemma cut_at_separators:
  "\<forall>c\<in>set p. c \<in> set sep \<Longrightarrow> cut_at sep (p @ s) = replicate (length p) [] @ cut_at sep s"
  by (induction p) auto

lemma cut_at_token:
  "\<forall>c\<in>set t. c \<notin> set sep \<Longrightarrow> cut_at sep (t @ s) = (t @ hd (cut_at sep s)) # tl (cut_at sep s)"
  by (induction t) (auto simp: neq_Nil_conv split: list.splits)

lemma token_loop_cut:
  "token_loop b sep rest = (if b then filter (\<lambda>t. t \<noteq> []) (cut_at sep rest) else cut_at sep rest)"
proof (induction b sep rest rule: token_loop.induct)
  case (1 b sep rest)
  let ?pre = "takeWhile (\<lambda>c. c \<in> set sep) rest" and ?tok = "dropWhile (\<lambda>c. c \<in> set sep) rest"
  let ?t = "takeWhile (\<lambda>c. c \<notin> set sep) rest" and ?d = "dropWhile (\<lambda>c. c \<notin> set sep) rest"
  have pre: "\<forall>c\<in>set ?pre. c \<in> set sep" "\<forall>c\<in>set ?t. c \<notin> set sep" by (auto dest: set_takeWhileD)
  have rest: "?pre @ ?tok = rest" "?t @ ?d = rest" by simp_all
  have f: "filter (\<lambda>t. t \<noteq> []) (replicate n []) = []" for n :: nat by (induction n) auto
  consider (all) "?tok = []" | (none) "?tok \<noteq> []" "\<forall>c\<in>set rest. c \<notin> set sep"
    | (sep) "?tok \<noteq> []" "\<not> (\<forall>c\<in>set rest. c \<notin> set sep)" "?pre \<noteq> []"
    | (tok) "?tok \<noteq> []" "\<not> (\<forall>c\<in>set rest. c \<notin> set sep)" "?pre = []" by blast
  then show ?case
  proof cases
    case all
    then have "?pre = rest" using rest(1) by simp
    then have "\<forall>c\<in>set rest. c \<in> set sep" using pre(1) by metis
    then have "cut_at sep rest = replicate (length rest + 1) []"
      using cut_at_separators [of rest sep "[]"] by (simp add: replicate_append_same)
    then show ?thesis using all f [of "length rest + 1"] by (subst token_loop.simps) simp
  next
    case none
    then have "cut_at sep rest = [rest]" using cut_at_token [of rest sep "[]"] by simp
    moreover have "rest \<noteq> []" using none by auto
    ultimately show ?thesis using none by (subst token_loop.simps) simp
  next
    case sep
    have "cut_at sep rest = replicate (length ?pre) [] @ cut_at sep ?tok"
      using cut_at_separators [OF pre(1), of ?tok] rest(1) by simp
    moreover have "token_loop b sep rest = (if b then [] else replicate (length ?pre) []) @ token_loop b sep ?tok"
      unfolding token_loop.simps [of b sep rest] Let_def using sep by (simp only: if_not_P not_False_eq_True if_True if_False)
    moreover have "token_loop b sep ?tok =
        (if b then filter (\<lambda>t. t \<noteq> []) (cut_at sep ?tok) else cut_at sep ?tok)"
      by (rule "1.IH"(1) [OF refl refl sep])
    ultimately show ?thesis using f [of "length ?pre"] by (cases b) simp_all
  next
    case tok
    obtain c d where d: "?d = c # d" using tok(2) rest(2) pre(2) by (cases ?d) auto
    have c: "c \<in> set sep" using hd_dropWhile [of "\<lambda>c. c \<notin> set sep" rest] d by simp
    have "?t \<noteq> []" using tok(1,3) by (cases rest) auto
    moreover have "cut_at sep rest = ?t # cut_at sep d"
      using cut_at_token [OF pre(2), of ?d] rest(2) d c by simp
    moreover have "token_loop b sep rest = ?t # token_loop b sep d"
      unfolding token_loop.simps [of b sep rest] Let_def using tok d by (simp only: if_not_P if_True if_False list.sel simp_thms)
    moreover have "token_loop b sep d = (if b then filter (\<lambda>t. t \<noteq> []) (cut_at sep d) else cut_at sep d)"
      using "1.IH"(2) [OF refl refl] tok d by simp
    ultimately show ?thesis by (cases b) simp_all
  qed
qed

text \<open>Tokenizing is cutting at every separator: with \<open>b_if_token_empty_then_ignore\<close> the empty pieces are
  left out, without it all of them are there, also those at both ends.\<close>

theorem tokenizer_cuts:
  assumes "s \<noteq> []" "sep \<noteq> []"
  shows "tokenizer True s sep = filter (\<lambda>t. t \<noteq> []) (cut_at sep s) \<and> tokenizer False s sep = cut_at sep s"
  using assms by (simp add: tokenizer_def token_loop_cut)

theorem tokenizer_cuts_witness:
  "tokenizer True [44, 97, 44, 44, 98 :: nat] [44] = [[97], [98]]
   \<and> tokenizer False [44, 97, 44, 44, 98 :: nat] [44] = [[], [97], [], [98]]"
  using tokenizer_cuts [of "[44, 97, 44, 44, 98 :: nat]" "[44]"] by simp

end
