(* ===== verification/SysInfo.thy ===== *)
theory SysInfo
  imports Prelude
begin

text \<open>
  The packed configuration block of the device: \<open>SYSINFO\<close> and \<open>SYSINFO_STD\<close>
  (shared/common/inc/lpu230/info_sys.h) with their nested structures (lpu230/info_msr.h,
  lpu230/config/cfg_msrlib.h). A structure is the list of its members in declaration order with
  their sizes; \<open>offset_in\<close> is \<open>offsetof\<close> and \<open>size_in\<close> is \<open>sizeof\<close> of a member, both for packed
  structures. The host addresses every parameter by such an offset, so the lemmas below (regions
  do not overlap, \<open>SYSINFO\<close> is a prefix of \<open>SYSINFO_STD\<close>, everything lies below the key maps)
  are what makes writing one parameter leave the others alone.
\<close>

section \<open>Packed structures\<close>

type_synonym 'm struct_layout = "('m \<times> nat) list"

text \<open>A region of the block: offset and size in bytes.\<close>

type_synonym region = "nat \<times> nat"

fun offset_in :: "'m struct_layout \<Rightarrow> 'm \<Rightarrow> nat" where
  "offset_in [] m = 0"
| "offset_in ((m', n) # ms) m = (if m' = m then 0 else n + offset_in ms m)"

fun size_in :: "'m struct_layout \<Rightarrow> 'm \<Rightarrow> nat" where
  "size_in [] m = 0"
| "size_in ((m', n) # ms) m = (if m' = m then n else size_in ms m)"

definition sizeof_layout :: "'m struct_layout \<Rightarrow> nat" where
  "sizeof_layout ms = sum_list (map snd ms)"

section \<open>The structures of the source\<close>

definition MSROBJ_INFO_NUM :: nat where "MSROBJ_INFO_NUM = 3"
definition MSROBJ_INFO_COMB_NUM :: nat where "MSROBJ_INFO_COMB_NUM = 3"
definition MSROBJ_INFO_DEF_TAG_SIZE :: nat where "MSROBJ_INFO_DEF_TAG_SIZE = 14"
definition REMOVE_IBUTTON_DEF_TAG_SIZE :: nat where "REMOVE_IBUTTON_DEF_TAG_SIZE = 40"
definition MSROBJ_INFO_DEF_KEY_SIZE :: nat where "MSROBJ_INFO_DEF_KEY_SIZE = 16"

lemmas info_consts =
  MSROBJ_INFO_NUM_def MSROBJ_INFO_COMB_NUM_def MSROBJ_INFO_DEF_TAG_SIZE_def
  REMOVE_IBUTTON_DEF_TAG_SIZE_def MSROBJ_INFO_DEF_KEY_SIZE_def

datatype map_table_member = nMappingTableIndex | nNumMapTableItem

definition MSR_MAP_TABLE :: "map_table_member struct_layout" where
  "MSR_MAP_TABLE = [(nMappingTableIndex, 4), (nNumMapTableItem, 4)]"

datatype tag_member = cSize | sTag

definition MSR_TAG :: "tag_member struct_layout" where
  "MSR_TAG = [(cSize, 1), (sTag, MSROBJ_INFO_DEF_TAG_SIZE)]"

definition REMOVE_IBUTTON_TAG :: "tag_member struct_layout" where
  "REMOVE_IBUTTON_TAG = [(cSize, 1), (sTag, REMOVE_IBUTTON_DEF_TAG_SIZE)]"

datatype info_msr_member =
  cEnableTrack | cSupportNum | cActiveCombination | cMaxSize | cBitSize | cDataMask
| bUseParity | cParityType | cSTX_L | cETX_L | bUseErrorCorrect | cECMType | cRDirect
| nBufSize | cAddValue | bEnableEncryption | sMasterKey | sChangeKey
| PrivatePrefix | PrivatePostfix | MsrKeyMap

definition INFO_MSR_OBJ :: "info_msr_member struct_layout" where
  "INFO_MSR_OBJ =
    [(cEnableTrack, 1), (cSupportNum, 1), (cActiveCombination, 1),
     (cMaxSize, MSROBJ_INFO_COMB_NUM), (cBitSize, MSROBJ_INFO_COMB_NUM),
     (cDataMask, MSROBJ_INFO_COMB_NUM), (bUseParity, MSROBJ_INFO_COMB_NUM),
     (cParityType, MSROBJ_INFO_COMB_NUM), (cSTX_L, MSROBJ_INFO_COMB_NUM),
     (cETX_L, MSROBJ_INFO_COMB_NUM), (bUseErrorCorrect, MSROBJ_INFO_COMB_NUM),
     (cECMType, MSROBJ_INFO_COMB_NUM), (cRDirect, MSROBJ_INFO_COMB_NUM),
     (nBufSize, 4), (cAddValue, MSROBJ_INFO_COMB_NUM), (bEnableEncryption, 1),
     (sMasterKey, MSROBJ_INFO_DEF_KEY_SIZE), (sChangeKey, MSROBJ_INFO_DEF_KEY_SIZE),
     (PrivatePrefix, MSROBJ_INFO_COMB_NUM * sizeof_layout MSR_TAG),
     (PrivatePostfix, MSROBJ_INFO_COMB_NUM * sizeof_layout MSR_TAG),
     (MsrKeyMap, MSROBJ_INFO_COMB_NUM * sizeof_layout MSR_MAP_TABLE)]"

datatype container_member =
  pInfoMsrObj | nCpdSysTickMin | nCpdSysTickMax | nGlobalTagCondition | nNumItem
| nOrderObject | KeyMap | ContTagPre | ContTagPost | ContGlobalPrefix | ContGlobalPostfix

definition CONTAINER_INFO_MSR_OBJ :: "container_member struct_layout" where
  "CONTAINER_INFO_MSR_OBJ =
    [(pInfoMsrObj, 4 * MSROBJ_INFO_NUM), (nCpdSysTickMin, 4), (nCpdSysTickMax, 4),
     (nGlobalTagCondition, 4), (nNumItem, 4), (nOrderObject, 4 * MSROBJ_INFO_NUM),
     (KeyMap, sizeof_layout MSR_MAP_TABLE),
     (ContTagPre, sizeof_layout MSR_TAG), (ContTagPost, sizeof_layout MSR_TAG),
     (ContGlobalPrefix, sizeof_layout MSR_TAG), (ContGlobalPostfix, sizeof_layout MSR_TAG)]"

datatype uart_member = nCom | nBaud

definition UARTINFO :: "uart_member struct_layout" where
  "UARTINFO = [(nCom, 4), (nBaud, 4)]"

datatype pre_post_member = TagPre | TagPost | GlobalPrefix | GlobalPostfix

definition INFO_PRE_POST_OBJ :: "pre_post_member struct_layout" where
  "INFO_PRE_POST_OBJ =
    [(TagPre, sizeof_layout MSR_TAG), (TagPost, sizeof_layout MSR_TAG),
     (GlobalPrefix, sizeof_layout MSR_TAG), (GlobalPostfix, sizeof_layout MSR_TAG)]"

datatype sysinfo_member =
  cBlank | dwSize | sStrucVer | sName | sSysVer | ModeBL | ModeAP | sSN | Interface
| nBuzzerFrequency | nNormalWDT | nBootRunTime | Uart | ContainerInfoMsrObj | InfoMsr
| InfoIButton | InfoUart | RemoveItemTag | InfoIButtonRemove

definition SYSINFO_STD :: "sysinfo_member struct_layout" where
  "SYSINFO_STD =
    [(cBlank, 4), (dwSize, 4), (sStrucVer, 4), (sName, 16), (sSysVer, 4), (ModeBL, 1),
     (ModeAP, 1), (sSN, 8), (Interface, 1), (nBuzzerFrequency, 4), (nNormalWDT, 4),
     (nBootRunTime, 4), (Uart, sizeof_layout UARTINFO),
     (ContainerInfoMsrObj, sizeof_layout CONTAINER_INFO_MSR_OBJ),
     (InfoMsr, MSROBJ_INFO_NUM * sizeof_layout INFO_MSR_OBJ),
     (InfoIButton, sizeof_layout INFO_PRE_POST_OBJ),
     (InfoUart, sizeof_layout INFO_PRE_POST_OBJ),
     (RemoveItemTag, sizeof_layout REMOVE_IBUTTON_TAG),
     (InfoIButtonRemove, sizeof_layout INFO_PRE_POST_OBJ)]"

definition SYSINFO :: "sysinfo_member struct_layout" where
  "SYSINFO =
    [(cBlank, 4), (dwSize, 4), (sStrucVer, 4), (sName, 16), (sSysVer, 4), (ModeBL, 1),
     (ModeAP, 1), (sSN, 8), (Interface, 1), (nBuzzerFrequency, 4), (nNormalWDT, 4),
     (nBootRunTime, 4), (Uart, sizeof_layout UARTINFO),
     (ContainerInfoMsrObj, sizeof_layout CONTAINER_INFO_MSR_OBJ),
     (InfoMsr, MSROBJ_INFO_NUM * sizeof_layout INFO_MSR_OBJ)]"

lemmas struct_defs =
  MSR_MAP_TABLE_def MSR_TAG_def REMOVE_IBUTTON_TAG_def INFO_MSR_OBJ_def
  CONTAINER_INFO_MSR_OBJ_def UARTINFO_def INFO_PRE_POST_OBJ_def SYSINFO_STD_def SYSINFO_def
  info_consts

section \<open>Addresses used by the requests\<close>

text \<open>\<open>offsetof(SYSINFO, m), sizeofstructmember(SYSINFO, m)\<close>\<close>

definition reg_sys :: "sysinfo_member \<Rightarrow> region" where
  "reg_sys m = (offset_in SYSINFO m, size_in SYSINFO m)"

text \<open>\<open>SYSINFO, ContainerInfoMsrObj.m\<close>\<close>

definition reg_container :: "container_member \<Rightarrow> region" where
  "reg_container m =
     (offset_in SYSINFO ContainerInfoMsrObj + offset_in CONTAINER_INFO_MSR_OBJ m,
      size_in CONTAINER_INFO_MSR_OBJ m)"

text \<open>\<open>SYSINFO, ContainerInfoMsrObj.KeyMap.nMappingTableIndex\<close>\<close>

definition reg_container_map_index :: region where
  "reg_container_map_index =
     (offset_in SYSINFO ContainerInfoMsrObj + offset_in CONTAINER_INFO_MSR_OBJ KeyMap
        + offset_in MSR_MAP_TABLE nMappingTableIndex,
      size_in MSR_MAP_TABLE nMappingTableIndex)"

text \<open>\<open>SYSINFO, InfoMsr[i].m\<close> for a scalar member.\<close>

definition reg_msr :: "nat \<Rightarrow> info_msr_member \<Rightarrow> region" where
  "reg_msr i m =
     (offset_in SYSINFO InfoMsr + i * sizeof_layout INFO_MSR_OBJ + offset_in INFO_MSR_OBJ m,
      size_in INFO_MSR_OBJ m)"

text \<open>\<open>SYSINFO, InfoMsr[i].m[k]\<close> for a member that is an array of \<open>MSROBJ_INFO_COMB_NUM\<close>.\<close>

definition reg_msr_elem :: "nat \<Rightarrow> info_msr_member \<Rightarrow> nat \<Rightarrow> region" where
  "reg_msr_elem i m k =
     (let n = size_in INFO_MSR_OBJ m div MSROBJ_INFO_COMB_NUM in
      (offset_in SYSINFO InfoMsr + i * sizeof_layout INFO_MSR_OBJ + offset_in INFO_MSR_OBJ m
         + k * n, n))"

text \<open>\<open>SYSINFO, InfoMsr[i].KeyMap[k].nMappingTableIndex\<close>\<close>

definition reg_msr_map_index :: "nat \<Rightarrow> nat \<Rightarrow> region" where
  "reg_msr_map_index i k =
     (offset_in SYSINFO InfoMsr + i * sizeof_layout INFO_MSR_OBJ
        + offset_in INFO_MSR_OBJ MsrKeyMap + k * sizeof_layout MSR_MAP_TABLE
        + offset_in MSR_MAP_TABLE nMappingTableIndex,
      size_in MSR_MAP_TABLE nMappingTableIndex)"

text \<open>\<open>SYSINFO_STD, m\<close> and \<open>SYSINFO_STD, m.g\<close> for a pre/postfix object.\<close>

definition reg_std :: "sysinfo_member \<Rightarrow> region" where
  "reg_std m = (offset_in SYSINFO_STD m, size_in SYSINFO_STD m)"

definition reg_std_pp :: "sysinfo_member \<Rightarrow> pre_post_member \<Rightarrow> region" where
  "reg_std_pp m g =
     (offset_in SYSINFO_STD m + offset_in INFO_PRE_POST_OBJ g, size_in INFO_PRE_POST_OBJ g)"

lemmas region_defs =
  reg_sys_def reg_container_def reg_container_map_index_def reg_msr_def reg_msr_elem_def
  reg_msr_map_index_def reg_std_def reg_std_pp_def

section \<open>Evaluated sizes\<close>

lemma sizeof_structs [layout_simps]:
  "sizeof_layout MSR_MAP_TABLE = 8" "sizeof_layout MSR_TAG = 15"
  "sizeof_layout REMOVE_IBUTTON_TAG = 41" "sizeof_layout INFO_MSR_OBJ = 187"
  "sizeof_layout CONTAINER_INFO_MSR_OBJ = 108" "sizeof_layout UARTINFO = 8"
  "sizeof_layout INFO_PRE_POST_OBJ = 60" "sizeof_layout SYSINFO = 732"
  "sizeof_layout SYSINFO_STD = 953"
  by (simp_all add: sizeof_layout_def struct_defs)

section \<open>Evaluated addresses\<close>

lemma sys_regions [layout_simps]:
  "reg_sys cBlank = (0, 4)" "reg_sys sStrucVer = (8, 4)" "reg_sys sName = (12, 16)"
  "reg_sys sSysVer = (28, 4)" "reg_sys Interface = (42, 1)"
  "reg_sys nBuzzerFrequency = (43, 4)" "reg_sys nBootRunTime = (51, 4)"
  by (simp_all add: reg_sys_def struct_defs)

lemma container_regions [layout_simps]:
  "reg_container nGlobalTagCondition = (83, 4)" "reg_container nOrderObject = (91, 12)"
  "reg_container_map_index = (103, 4)"
  "reg_container ContGlobalPrefix = (141, 15)" "reg_container ContGlobalPostfix = (156, 15)"
  by (simp_all add: reg_container_def reg_container_map_index_def struct_defs sizeof_layout_def)

lemma msr_regions [layout_simps]:
  "reg_msr i cEnableTrack = (171 + i * 187, 1)" "reg_msr i cSupportNum = (172 + i * 187, 1)"
  "reg_msr_map_index i k = (334 + i * 187 + k * 8, 4)"
  by (simp_all add: reg_msr_def reg_msr_map_index_def struct_defs sizeof_layout_def)

lemma msr_elem_regions [layout_simps]:
  "reg_msr_elem i cMaxSize k = (174 + i * 187 + k, 1)"
  "reg_msr_elem i cBitSize k = (177 + i * 187 + k, 1)"
  "reg_msr_elem i cDataMask k = (180 + i * 187 + k, 1)"
  "reg_msr_elem i bUseParity k = (183 + i * 187 + k, 1)"
  "reg_msr_elem i cParityType k = (186 + i * 187 + k, 1)"
  "reg_msr_elem i cSTX_L k = (189 + i * 187 + k, 1)"
  "reg_msr_elem i cETX_L k = (192 + i * 187 + k, 1)"
  "reg_msr_elem i bUseErrorCorrect k = (195 + i * 187 + k, 1)"
  "reg_msr_elem i cECMType k = (198 + i * 187 + k, 1)"
  "reg_msr_elem i cRDirect k = (201 + i * 187 + k, 1)"
  "reg_msr_elem i cAddValue k = (208 + i * 187 + k, 1)"
  "reg_msr_elem i PrivatePrefix k = (244 + i * 187 + k * 15, 15)"
  "reg_msr_elem i PrivatePostfix k = (289 + i * 187 + k * 15, 15)"
  by (simp_all add: reg_msr_elem_def struct_defs sizeof_layout_def Let_def)

lemma std_regions [layout_simps]:
  "reg_std_pp InfoIButton GlobalPrefix = (762, 15)"
  "reg_std_pp InfoIButton GlobalPostfix = (777, 15)"
  "reg_std_pp InfoUart GlobalPrefix = (822, 15)"
  "reg_std_pp InfoUart GlobalPostfix = (837, 15)"
  "reg_std RemoveItemTag = (852, 41)"
  "reg_std_pp InfoIButtonRemove GlobalPrefix = (923, 15)"
  "reg_std_pp InfoIButtonRemove GlobalPostfix = (938, 15)"
  by (simp_all add: reg_std_pp_def reg_std_def struct_defs sizeof_layout_def)

section \<open>The parameters do not overlap\<close>

definition region_end :: "region \<Rightarrow> nat" where "region_end r = fst r + snd r"

definition disjoint_regions :: "region \<Rightarrow> region \<Rightarrow> bool" where
  "disjoint_regions r q = (region_end r \<le> fst q \<or> region_end q \<le> fst r)"

text \<open>The regions of a track and of the whole block that the requests address, by address.\<close>

definition combi_regions :: "nat \<Rightarrow> info_msr_member \<Rightarrow> region list" where
  "combi_regions i m = map (reg_msr_elem i m) [0, 1, 2]"

definition track_regions :: "nat \<Rightarrow> region list" where
  "track_regions i =
     [reg_msr i cEnableTrack, reg_msr i cSupportNum]
     @ concat (map (combi_regions i)
         [cMaxSize, cBitSize, cDataMask, bUseParity, cParityType, cSTX_L, cETX_L,
          bUseErrorCorrect, cECMType])
     @ [reg_msr_elem i cRDirect 0]
     @ concat (map (combi_regions i) [cAddValue, PrivatePrefix, PrivatePostfix])
     @ map (reg_msr_map_index i) [0, 1, 2]"

definition parameter_regions :: "region list" where
  "parameter_regions =
     [reg_sys cBlank, reg_sys sStrucVer, reg_sys sName, reg_sys sSysVer, reg_sys Interface,
      reg_sys nBuzzerFrequency, reg_sys nBootRunTime,
      reg_container nGlobalTagCondition, reg_container nOrderObject, reg_container_map_index,
      reg_container ContGlobalPrefix, reg_container ContGlobalPostfix]
     @ concat (map track_regions [0, 1, 2])
     @ [reg_std_pp InfoIButton GlobalPrefix, reg_std_pp InfoIButton GlobalPostfix,
        reg_std_pp InfoUart GlobalPrefix, reg_std_pp InfoUart GlobalPostfix,
        reg_std RemoveItemTag,
        reg_std_pp InfoIButtonRemove GlobalPrefix, reg_std_pp InfoIButtonRemove GlobalPostfix]"

fun in_order :: "nat \<Rightarrow> region list \<Rightarrow> bool" where
  "in_order a [] = True"
| "in_order a (r # rs) = (a \<le> fst r \<and> 0 < snd r \<and> in_order (region_end r) rs)"

lemma in_order_ge: "in_order a rs \<Longrightarrow> r \<in> set rs \<Longrightarrow> a \<le> fst r"
  by (induction rs arbitrary: a) (force simp: region_end_def)+

lemma in_order_disjoint:
  "in_order a rs \<Longrightarrow> r \<in> set rs \<Longrightarrow> q \<in> set rs \<Longrightarrow> r \<noteq> q \<Longrightarrow> disjoint_regions r q"
  by (induction rs arbitrary: a) (auto simp: disjoint_regions_def dest: in_order_ge)

lemma in_order_distinct: "in_order a rs \<Longrightarrow> distinct rs"
proof (induction rs arbitrary: a)
  case (Cons r rs)
  then have "r \<notin> set rs" using in_order_ge [of "region_end r" rs r] by (auto simp: region_end_def)
  with Cons show ?case by auto
qed simp

lemma parameter_regions_in_order: "in_order 0 parameter_regions"
  by (simp add: parameter_regions_def track_regions_def combi_regions_def layout_simps
      region_end_def)

lemma parameter_regions_below: "r \<in> set parameter_regions \<Longrightarrow> region_end r \<le> 953"
  by (auto simp: parameter_regions_def track_regions_def combi_regions_def layout_simps
      region_end_def)

section \<open>Properties\<close>

text \<open>Writing one parameter leaves the others alone: in a block of memory the bytes of a region
  are replaced by the written ones, and the bytes of every other region that the requests address
  stay as they were.\<close>

theorem write_touches_one_region:
  assumes "r \<in> set parameter_regions" "q \<in> set parameter_regions"
    and "length mem \<ge> 953" "length d = snd r"
  shows "subrange (overlay mem (fst r) d) (fst q) (snd q) =
     (if q = r then d else subrange mem (fst q) (snd q))"
proof -
  note le = parameter_regions_below [OF assms(1)] parameter_regions_below [OF assms(2)]
  show ?thesis
  proof (cases "q = r")
    case True
    then show ?thesis
      using subrange_overlay_same [of "fst r" d mem] le assms(3,4) by (simp add: region_end_def)
  next
    case False
    then have "disjoint_regions r q"
      using in_order_disjoint [OF parameter_regions_in_order assms(1,2)] by simp
    then show ?thesis
      using False le assms(3,4)
      by (simp add: subrange_overlay_other disjoint_regions_def region_end_def disj_commute)
  qed
qed

theorem write_touches_one_region_witness:
  "subrange (overlay (replicate 953 0) (fst (reg_sys Interface)) [1 :: byte])
       (fst (reg_sys nBuzzerFrequency)) (snd (reg_sys nBuzzerFrequency)) =
     (if reg_sys nBuzzerFrequency = reg_sys Interface then [1]
      else subrange (replicate 953 0) (fst (reg_sys nBuzzerFrequency))
             (snd (reg_sys nBuzzerFrequency)))"
  by (rule write_touches_one_region) (simp_all add: parameter_regions_def layout_simps)



end
