(* ===== verification/Codec.thy ===== *)
theory Codec
  imports SysInfo
begin

text \<open>
  How the members of the configuration block are laid out in bytes on a little-endian host: 32-bit
  integers (the \<open>reinterpret_cast<unsigned char*>(&n)\<close> of the request generators), single bytes,
  flags, the tags \<open>MSR_TAG\<close> and \<open>REMOVE_IBUTTON_TAG\<close>, the blanks and the track order. The locale
  \<open>byte_codec\<close> states what every one of them promises, so that the lemmas about sending a value
  and reading it back are proved once.
\<close>

section \<open>The contract\<close>

locale byte_codec =
  fixes enc :: "'a \<Rightarrow> bytes"
    and dec :: "bytes \<Rightarrow> 'a"
    and size :: nat
    and fits :: "'a \<Rightarrow> bool"
  assumes enc_length: "fits x \<Longrightarrow> length (enc x) = size"
    and dec_enc: "fits x \<Longrightarrow> dec (enc x @ rest) = x"
begin

lemma enc_inject: "fits x \<Longrightarrow> fits y \<Longrightarrow> enc x = enc y \<Longrightarrow> x = y"
  using dec_enc [of x "[]"] dec_enc [of y "[]"] by simp

lemma enc_prefix_free:
  "fits x \<Longrightarrow> fits y \<Longrightarrow> enc x @ r = enc y @ r' \<Longrightarrow> x = y \<and> r = r'"
  using dec_enc [of x r] dec_enc [of y r'] by (metis same_append_eq)

text \<open>A value written into a block of memory is read back from there.\<close>

lemma dec_overlay:
  assumes "fits x" "off + size \<le> length mem"
  shows "dec (drop off (overlay mem off (enc x))) = x"
  using assms dec_enc [of x "drop (off + size) mem"] by (simp add: overlay_def enc_length)

lemma dec_overlay_other:
  assumes "fits x" "off + size \<le> length mem" "k + n \<le> length mem"
    and "k + n \<le> off \<or> off + size \<le> k"
  shows "subrange (overlay mem off (enc x)) k n = subrange mem k n"
  using assms by (intro subrange_overlay_other) (simp_all add: enc_length)

end

section \<open>Integers\<close>

text \<open>The four bytes of a \<open>uint32_t\<close>, lowest first, and \<open>memcpy(&n, s_data, sizeof(n))\<close>.\<close>

definition le32 :: "u32 \<Rightarrow> bytes" where
  "le32 w = [ucast w, ucast (drop_bit 8 w), ucast (drop_bit 16 w), ucast (drop_bit 24 w)]"

definition un_le32 :: "bytes \<Rightarrow> u32" where
  "un_le32 bs =
     ucast (bs ! 0) OR push_bit 8 (ucast (bs ! 1)) OR push_bit 16 (ucast (bs ! 2))
       OR push_bit 24 (ucast (bs ! 3))"

lemma length_le32 [simp]: "length (le32 w) = 4"
  by (simp add: le32_def)

lemma un_le32_le32: "un_le32 (le32 w @ rest) = w"
proof (rule bit_word_eqI)
  fix n
  assume "n < LENGTH(32)"
  consider "n < 8" | "8 \<le> n" "n < 16" | "16 \<le> n" "n < 24" | "24 \<le> n" by linarith
  then show "bit (un_le32 (le32 w @ rest)) n \<longleftrightarrow> bit w n"
    using \<open>n < LENGTH(32)\<close> by cases (auto simp: un_le32_def le32_def bit_simps)
qed

interpretation u32_codec: byte_codec le32 un_le32 4 "\<lambda>_. True"
  by unfold_locales (simp_all add: un_le32_le32)

text \<open>
  One byte of the block. A \<open>uint32_t\<close> member that is stored as a byte is truncated on the way out
  (\<open>uint8_t data = (uint8_t)n\<close>) and widened on the way in (\<open>(uint32_t)s_data[0]\<close>); a flag is
  sent as 0 or 1 and read as \<open>s_data[0] != 0\<close>.
\<close>

definition enc_byte :: "byte \<Rightarrow> bytes" where "enc_byte b = [b]"
definition dec_byte :: "bytes \<Rightarrow> byte" where "dec_byte bs = bs ! 0"
definition enc_u32_byte :: "u32 \<Rightarrow> bytes" where "enc_u32_byte w = [ucast w]"
definition dec_u32_byte :: "bytes \<Rightarrow> u32" where "dec_u32_byte bs = ucast (bs ! 0)"
definition enc_flag :: "bool \<Rightarrow> bytes" where "enc_flag b = [if b then 1 else 0]"
definition dec_flag :: "bytes \<Rightarrow> bool" where "dec_flag bs = (bs ! 0 \<noteq> 0)"

lemmas byte_enc_defs =
  enc_byte_def dec_byte_def enc_u32_byte_def dec_u32_byte_def enc_flag_def dec_flag_def

lemma ucast_low_byte: "(w :: u32) < 256 \<Longrightarrow> ucast (ucast w :: byte) = w"
  by (simp add: word_less_nat_alt word_unat_eq_iff unsigned_ucast_eq unsigned_take_bit_eq
      take_bit_nat_eq_self_iff)

interpretation byte_code: byte_codec enc_byte dec_byte 1 "\<lambda>_. True"
  by unfold_locales (simp_all add: byte_enc_defs)

interpretation u32_byte_code: byte_codec enc_u32_byte dec_u32_byte 1 "\<lambda>w. w < 256"
  by unfold_locales (simp_all add: byte_enc_defs ucast_low_byte)

interpretation flag_code: byte_codec enc_flag dec_flag 1 "\<lambda>_. True"
  by unfold_locales (simp_all add: byte_enc_defs)

text \<open>
  A flag that is stored as a \<open>uint32_t\<close> (\<open>nGlobalTagCondition\<close>), and the language index, an
  \<open>enum : unsigned char\<close> that is stored as a \<open>uint32_t\<close>.
\<close>

definition enc_flag32 :: "bool \<Rightarrow> bytes" where "enc_flag32 b = le32 (if b then 1 else 0)"
definition dec_flag32 :: "bytes \<Rightarrow> bool" where "dec_flag32 bs = (un_le32 bs \<noteq> 0)"
definition enc_byte32 :: "byte \<Rightarrow> bytes" where "enc_byte32 b = le32 (ucast b)"
definition dec_byte32 :: "bytes \<Rightarrow> byte" where "dec_byte32 bs = ucast (un_le32 bs)"

lemmas word_enc_defs = enc_flag32_def dec_flag32_def enc_byte32_def dec_byte32_def

lemma ucast_widen_byte: "ucast (ucast (b :: byte) :: u32) = b"
  by (rule bit_word_eqI) (simp add: bit_simps)

interpretation flag32_code: byte_codec enc_flag32 dec_flag32 4 "\<lambda>_. True"
  by unfold_locales (simp_all add: word_enc_defs un_le32_le32)

interpretation byte32_code: byte_codec enc_byte32 dec_byte32 4 "\<lambda>_. True"
  by unfold_locales (simp_all add: word_enc_defs un_le32_le32 ucast_widen_byte)

section \<open>Tags\<close>

text \<open>
  \<open>_get_tag_from_type_tag\<close>: an empty tag leaves the structure as it is (and returns false, which no
  caller looks at); a non-empty one is copied byte by byte, \<open>sTag[cSize++] = *iter\<close>, with no check
  of the \<open>cap\<close> bytes that \<open>sTag\<close> has.
\<close>

definition get_tag_from_type_tag :: "nat \<Rightarrow> bytes \<Rightarrow> bytes \<Rightarrow> (bool \<times> bytes) option" where
  "get_tag_from_type_tag cap out_tag v_in_tag =
     (if v_in_tag = [] then Some (False, out_tag)
      else if length v_in_tag > cap then None
      else Some (True, of_nat (length v_in_tag) # overlay (tl out_tag) 0 v_in_tag))"

text \<open>A zeroed tag structure filled by \<open>_get_tag_from_type_tag\<close>, as every generator does.\<close>

definition filled_tag :: "nat \<Rightarrow> bytes \<Rightarrow> bytes option" where
  "filled_tag cap v_in_tag =
     map_option snd (get_tag_from_type_tag cap (replicate (cap + 1) 0) v_in_tag)"

text \<open>Reading a tag: \<open>v.resize(cSize); copy(&sTag[0], &sTag[cSize])\<close>.\<close>

definition dec_tag :: "bytes \<Rightarrow> bytes" where
  "dec_tag bs = take (unat (bs ! 0)) (drop 1 bs)"

definition enc_tag :: "nat \<Rightarrow> bytes \<Rightarrow> bytes" where
  "enc_tag cap v = of_nat (length v) # v @ replicate (cap - length v) 0"

lemma filled_tag_eq:
  "filled_tag cap v = (if length v \<le> cap then Some (enc_tag cap v) else None)"
  by (auto simp: filled_tag_def get_tag_from_type_tag_def enc_tag_def overlay_def)

lemma unat_of_nat_byte: "n < 256 \<Longrightarrow> unat (of_nat n :: byte) = n"
  by (simp add: unat_of_nat take_bit_nat_eq_self_iff)

lemma dec_enc_tag: "length v \<le> cap \<Longrightarrow> cap < 256 \<Longrightarrow> dec_tag (enc_tag cap v @ rest) = v"
  by (simp add: dec_tag_def enc_tag_def unat_of_nat_byte)

lemma length_enc_tag: "length v \<le> cap \<Longrightarrow> length (enc_tag cap v) = cap + 1"
  by (simp add: enc_tag_def)

interpretation msr_tag_code: byte_codec "enc_tag MSROBJ_INFO_DEF_TAG_SIZE" dec_tag 15
  "\<lambda>v. length v \<le> MSROBJ_INFO_DEF_TAG_SIZE"
  by unfold_locales (simp_all add: length_enc_tag dec_enc_tag info_consts)

interpretation remove_tag_code: byte_codec "enc_tag REMOVE_IBUTTON_DEF_TAG_SIZE" dec_tag 41
  "\<lambda>v. length v \<le> REMOVE_IBUTTON_DEF_TAG_SIZE"
  by unfold_locales (simp_all add: length_enc_tag dec_enc_tag info_consts)

section \<open>Bits of a byte\<close>

lemma byte_masks:
  "(0x0F :: byte) = mask 4" "(0xF0 :: byte) = NOT (mask 4)" "(0xF7 :: byte) = NOT (2 ^ 3)"
  by (simp_all add: mask_eq_exp_minus_1)

lemma byte_bit_tests:
  "(b :: byte) AND 1 = 0 \<longleftrightarrow> \<not> bit b 0" "b AND 2 = 0 \<longleftrightarrow> \<not> bit b 1"
  "b AND 4 = 0 \<longleftrightarrow> \<not> bit b 2" "b AND 8 = 0 \<longleftrightarrow> \<not> bit b 3"
  using and_exp_eq_0_iff_not_bit [of b 0] and_exp_eq_0_iff_not_bit [of b 1]
    and_exp_eq_0_iff_not_bit [of b 2] and_exp_eq_0_iff_not_bit [of b 3]
  by simp_all

lemma nibble_bits: "(i :: byte) \<le> 15 \<Longrightarrow> bit i n \<Longrightarrow> n < 4"
proof -
  assume "i \<le> 15" "bit i n"
  then have "take_bit 4 i = i"
    by (simp add: word_le_nat_alt word_unat_eq_iff unsigned_take_bit_eq take_bit_nat_eq_self_iff)
  then show "n < 4" using \<open>bit i n\<close> by (metis bit_take_bit_iff)
qed
lemma high_nibble:
  assumes "(i :: byte) \<le> 15"
  shows "drop_bit 4 ((b AND 0x0F) OR push_bit 4 i) = i"
    "((b AND 0x0F) OR push_bit 4 i) AND 0x0F = b AND 0x0F"
  unfolding byte_masks
  by (rule bit_word_eqI; use nibble_bits [OF assms] in \<open>auto simp: bit_simps\<close>)+

lemma low_nibble:
  assumes "(i :: byte) \<le> 15"
  shows "((b AND 0xF0) OR i) AND 0x0F = i"
    "drop_bit 4 ((b AND 0xF0) OR i) = drop_bit 4 b"
  unfolding byte_masks
  by (rule bit_word_eqI; auto simp: bit_simps dest: nibble_bits [OF assms] bit_imp_le_length)+

lemma high_nibble_same:
  assumes "(i :: byte) \<le> 15" "push_bit 4 i = b AND 0xF0"
  shows "drop_bit 4 b = i"
proof -
  have "drop_bit 4 (push_bit 4 i) = i"
    by (rule bit_word_eqI) (auto simp: bit_simps dest: nibble_bits [OF assms(1)])
  moreover have "drop_bit 4 (b AND 0xF0) = drop_bit 4 b"
    unfolding byte_masks by (rule bit_word_eqI) (auto simp: bit_simps dest: bit_imp_le_length)
  ultimately show ?thesis using assms(2) by simp
qed

lemma nibble_shift:
  "(i :: byte) \<le> 15 \<Longrightarrow> drop_bit 4 (push_bit 4 i) = i"
  "(i :: byte) \<le> 15 \<Longrightarrow> drop_bit 4 i = 0"
  by (rule bit_word_eqI; auto simp: bit_simps dest: nibble_bits bit_imp_le_length)+

lemma nibble_mask_shift: "drop_bit 4 (b :: byte) AND 0x0F = drop_bit 4 b"
  unfolding byte_masks
  by (rule bit_word_eqI) (auto simp: bit_simps dest: bit_imp_le_length)

lemmas nibble_simps = nibble_shift nibble_mask_shift

end
