(* ===== verification/IoPacket.thy ===== *)
theory IoPacket
  imports Convert Codec "HOL-Library.List_Lexorder"
begin

text \<open>
  The packets between the daemon and its clients (\<open>src/shared/lib/inc/mp_cio_packet.h\<close>, class
  \<open>cio_packet\<close>): one vector of bytes, read and written through the packed structure
  \<open>type_packect\<close> (17 bytes in front of the data field; \<open>unsigned long\<close> has 32 bits, as on Windows),
  and the kind of the data field. Reading a header in a vector that is too short for it is \<open>None\<close>.
\<close>

section \<open>Codes\<close>

definition text_of :: "string \<Rightarrow> 'w::len word list" where
  "text_of s = map of_char s"

abbreviation "cmd_invalid \<equiv> 0x30 :: byte"
abbreviation "cmd_request \<equiv> 0x54 :: byte"
abbreviation "cmd_response \<equiv> 0x52 :: byte"
abbreviation "cmd_system_request \<equiv> 0x53 :: byte"
abbreviation "cmd_self_request \<equiv> 0x49 :: byte"

abbreviation "act_mgmt_unknown \<equiv> 0x55 :: byte"
abbreviation "act_mgmt_get_version \<equiv> 0x56 :: byte"
abbreviation "act_mgmt_get_echo \<equiv> 0x45 :: byte"
abbreviation "act_mgmt_get_device_list \<equiv> 0x4C :: byte"
abbreviation "act_mgmt_ctl_show \<equiv> 0x53 :: byte"
abbreviation "act_mgmt_file_operation \<equiv> 0x46 :: byte"
abbreviation "act_mgmt_dev_plug_in \<equiv> 0x50 :: byte"
abbreviation "act_mgmt_advance_operation \<equiv> 0x41 :: byte"
abbreviation "act_mgmt_dev_kernel_operation \<equiv> 0x4B :: byte"
abbreviation "act_mgmt_recover_operation \<equiv> 0x52 :: byte"
abbreviation "act_dev_independent_bootloader \<equiv> 0x62 :: byte"
abbreviation "act_dev_open \<equiv> 0x6F :: byte"
abbreviation "act_dev_close \<equiv> 0x63 :: byte"
abbreviation "act_dev_write \<equiv> 0x73 :: byte"
abbreviation "act_dev_read \<equiv> 0x72 :: byte"
abbreviation "act_dev_transmit \<equiv> 0x74 :: byte"
abbreviation "act_dev_cancel \<equiv> 0x78 :: byte"
abbreviation "act_dev_sub_bootloader \<equiv> 0x30 :: byte"

abbreviation "owner_manager \<equiv> 0x4D :: byte"
abbreviation "owner_device \<equiv> 0x44 :: byte"

abbreviation "data_field_binary \<equiv> 0x48 :: byte"
abbreviation "data_field_string_utf8 \<equiv> 0x53 :: byte"

abbreviation "invalid_session_number \<equiv> 0xFFFFFFFF :: u32"

definition action_names :: "(byte \<times> string) list" where
  "action_names =
    [(act_mgmt_unknown, ''act_mgmt_unknown''), (act_mgmt_recover_operation, ''act_mgmt_recover_operation''),
     (act_mgmt_get_version, ''act_mgmt_get_version''), (act_mgmt_get_echo, ''act_mgmt_get_echo''),
     (act_mgmt_get_device_list, ''act_mgmt_get_device_list''), (act_mgmt_ctl_show, ''act_mgmt_ctl_show''),
     (act_mgmt_file_operation, ''act_mgmt_file_operation''), (act_mgmt_dev_plug_in, ''act_mgmt_dev_plug_in''),
     (act_mgmt_advance_operation, ''act_mgmt_advance_operation''),
     (act_mgmt_dev_kernel_operation, ''act_mgmt_dev_kernel_operation''),
     (act_dev_independent_bootloader, ''act_dev_independent_bootloader''), (act_dev_open, ''act_dev_open''),
     (act_dev_close, ''act_dev_close''), (act_dev_write, ''act_dev_write''), (act_dev_read, ''act_dev_read''),
     (act_dev_transmit, ''act_dev_transmit''), (act_dev_cancel, ''act_dev_cancel''),
     (act_dev_sub_bootloader, ''act_dev_sub_bootloader'')]"

definition get_action_code_by_string :: "byte \<Rightarrow> string" where
  "get_action_code_by_string a =
     (case map_of action_names a of Some s \<Rightarrow> s | None \<Rightarrow> ''undefined_action_code'')"

definition error_names :: "string list" where
  "error_names =
    [''json'', ''session'', ''request_type'', ''device_path'', ''device_object'', ''action_code'',
     ''device_open'', ''device_not_open'', ''device_close'', ''device_operation'', ''device_misformat'',
     ''device_subsystem'', ''device_busy_for_update'', ''file_exsit'', ''file_none'', ''file_not_selected'',
     ''file_operation'', ''bootload_mismatch_condition'', ''overflow_buffer'', ''allocation_memory'']"

definition get_error_message :: "int \<Rightarrow> string" where
  "get_error_message reason =
     (if reason < 20 \<and> reason \<ge> 0 then error_names ! nat reason else ''unknown_error'')"

section \<open>The structure of the bytes\<close>

record type_packect =
  c_cmd :: byte
  n_session :: u32
  c_owner :: byte
  dw_device_index :: u32
  c_act :: byte
  c_in_id :: byte
  c_out_id :: byte
  n_data :: u32

definition header_bytes :: "type_packect \<Rightarrow> bytes" where
  "header_bytes h = [c_cmd h] @ le32 (n_session h) @ [c_owner h] @ le32 (dw_device_index h)
     @ [c_act h, c_in_id h, c_out_id h] @ le32 (n_data h)"

text \<open>\<open>(type_packect * )&m_v_packet[0]\<close>.\<close>

definition packet_view :: "bytes \<Rightarrow> type_packect option" where
  "packet_view v =
     (if length v < 17 then None
      else Some \<lparr>c_cmd = v ! 0, n_session = un_le32 (subrange v 1 4), c_owner = v ! 5,
        dw_device_index = un_le32 (subrange v 6 4), c_act = v ! 10, c_in_id = v ! 11, c_out_id = v ! 12,
        n_data = un_le32 (subrange v 13 4)\<rparr>)"

definition packet_store :: "type_packect \<Rightarrow> bytes \<Rightarrow> bytes" where
  "packet_store h v = header_bytes h @ drop 17 v"

lemma length_header_bytes [simp]: "length (header_bytes h) = 17"
  by (simp add: header_bytes_def)

lemma length_packet_store: "17 \<le> length v \<Longrightarrow> length (packet_store h v) = length v"
  by (simp add: packet_store_def)

lemma le32_un_le32: "length bs = 4 \<Longrightarrow> le32 (un_le32 bs) = bs"
proof -
  assume "length bs = 4"
  then obtain a b c d where bs: "bs = [a, b, c, d]"
    by (auto simp: length_Suc_conv numeral_eq_Suc)
  have "ucast w = b \<longleftrightarrow> (\<forall>n<8. bit w n = bit b n)" for w :: u32 and b :: byte
    by (auto simp: bit_eq_iff bit_simps)
  then show ?thesis
    by (simp add: bs le32_def un_le32_def) (auto simp: bit_simps dest: bit_imp_le_length)
qed

lemma packet_view_header: "packet_view (header_bytes h @ d) = Some h"
proof -
  have "un_le32 (subrange (header_bytes h @ d) 1 4) = n_session h"
    "un_le32 (subrange (header_bytes h @ d) 6 4) = dw_device_index h"
    "un_le32 (subrange (header_bytes h @ d) 13 4) = n_data h"
    using un_le32_le32 [of _ "[]"] by (simp_all add: subrange_def header_bytes_def)
  moreover have "(header_bytes h @ d) ! 0 = c_cmd h" "(header_bytes h @ d) ! 5 = c_owner h"
    "(header_bytes h @ d) ! 10 = c_act h" "(header_bytes h @ d) ! 11 = c_in_id h"
    "(header_bytes h @ d) ! 12 = c_out_id h"
    by (simp_all add: header_bytes_def le32_def)
  ultimately show ?thesis by (simp add: packet_view_def)
qed

lemma packet_view_store [simp]: "packet_view (packet_store h v) = Some h"
  by (simp add: packet_store_def packet_view_header)

lemma packet_view_Some: "packet_view v = Some h \<Longrightarrow> v = header_bytes h @ drop 17 v"
proof -
  assume v: "packet_view v = Some h"
  then have l: "17 \<le> length v" by (simp add: packet_view_def split: if_splits)
  have s: "length (subrange v k 4) = 4" if "k + 4 \<le> 17" for k
    using that l by (simp add: length_subrange)
  have "header_bytes h = [v ! 0] @ subrange v 1 4 @ [v ! 5] @ subrange v 6 4
     @ [v ! 10, v ! 11, v ! 12] @ subrange v 13 4"
    using v l by (auto simp: packet_view_def header_bytes_def le32_un_le32 s)
  also have "\<dots> = take 17 v"
    using l by (intro nth_equalityI) (auto simp: subrange_def nth_append nth_Cons' less_Suc_eq numeral_eq_Suc)
  finally show ?thesis by simp
qed

section \<open>Valid packets\<close>

definition valid_cmds :: "byte list" where
  "valid_cmds = [cmd_request, cmd_response, cmd_self_request, cmd_system_request]"

definition valid_owners :: "byte list" where
  "valid_owners = [owner_manager, owner_device]"

definition valid_data_field_types :: "byte list" where
  "valid_data_field_types = [data_field_binary, data_field_string_utf8]"

definition manager_actions :: "byte list" where
  "manager_actions =
    [act_mgmt_unknown, act_mgmt_get_device_list, act_mgmt_recover_operation, act_mgmt_get_version,
     act_mgmt_get_echo, act_mgmt_ctl_show, act_mgmt_file_operation, act_mgmt_advance_operation,
     act_mgmt_dev_plug_in]"

definition device_actions :: "byte list" where
  "device_actions =
    [act_dev_open, act_dev_close, act_dev_write, act_dev_read, act_dev_transmit, act_dev_cancel,
     act_dev_sub_bootloader]"

definition packet_is_valid :: "bytes \<Rightarrow> bool" where
  "packet_is_valid v_packet =
     (case packet_view v_packet of
        None \<Rightarrow> False
      | Some p \<Rightarrow>
          c_cmd p \<in> set valid_cmds \<and> c_owner p \<in> set valid_owners
          \<and> (if c_act p \<in> set manager_actions then c_owner p = owner_manager
             else if c_act p \<in> set device_actions then c_owner p = owner_device
             else c_act p = act_mgmt_dev_kernel_operation)
          \<and> length v_packet = 17 + unat (n_data p))"

text \<open>
  \<open>_build\<close>; \<open>ps_data\<close> is \<open>None\<close> for a null pointer, otherwise the memory behind it; reading behind that
  memory is \<open>None\<close>.
\<close>

definition packet_build :: "type_packect \<Rightarrow> bytes option \<Rightarrow> bytes option" where
  "packet_build h ps_data =
     (if n_data h > 0 \<and> ps_data = None then Some []
      else
        (let n = unat (n_data h); s_data = (case ps_data of Some d \<Rightarrow> d | None \<Rightarrow> []) in
         if length s_data < n then None
         else let v_packet = header_bytes h @ take n s_data
              in Some (if packet_is_valid v_packet then v_packet else [])))"

record cio_packet =
  m_v_packet :: bytes
  m_type_data_field :: byte
  m_b_must_be_recover :: bool
  m_s_option :: "16 word list"

definition echo_header :: type_packect where
  "echo_header = \<lparr>c_cmd = cmd_request, n_session = invalid_session_number, c_owner = owner_manager,
     dw_device_index = 0, c_act = act_mgmt_get_echo, c_in_id = 0, c_out_id = 0, n_data = 0\<rparr>"

definition cio_packet_default :: cio_packet where
  "cio_packet_default =
     \<lparr>m_v_packet = the (packet_build echo_header None), m_type_data_field = data_field_binary,
      m_b_must_be_recover = False, m_s_option = []\<rparr>"

text \<open>The constructor from bytes: bytes that are no valid packet become an echo request.\<close>

definition cio_packet_of :: "byte \<Rightarrow> bytes \<Rightarrow> cio_packet" where
  "cio_packet_of data_field_type v_packet =
     \<lparr>m_v_packet = (if packet_is_valid v_packet then v_packet else the (packet_build echo_header None)),
      m_type_data_field = data_field_type, m_b_must_be_recover = False, m_s_option = []\<rparr>"

text \<open>The constructor from the fields: it keeps an empty vector for fields that do not agree.\<close>

definition cio_packet_fields :: "type_packect \<Rightarrow> byte \<Rightarrow> bytes option \<Rightarrow> cio_packet option" where
  "cio_packet_fields h data_field_type ps_data =
     map_option (\<lambda>v. \<lparr>m_v_packet = v, m_type_data_field = data_field_type,
        m_b_must_be_recover = False, m_s_option = []\<rparr>) (packet_build h ps_data)"

definition cio_packet_vector :: "type_packect \<Rightarrow> byte \<Rightarrow> bytes \<Rightarrow> cio_packet option" where
  "cio_packet_vector h data_field_type v_data =
     cio_packet_fields (h\<lparr>n_data := of_nat (length v_data)\<rparr>) data_field_type
       (if v_data = [] then None else Some v_data)"

definition build :: "type_packect \<Rightarrow> byte \<Rightarrow> bytes option \<Rightarrow> cio_packet option" where
  "build h data_field_type ps_data =
     map_option (cio_packet_of data_field_type) (packet_build h ps_data)"

definition self_request :: "u32 \<Rightarrow> u32 \<Rightarrow> byte \<Rightarrow> type_packect" where
  "self_request session index act = \<lparr>c_cmd = cmd_self_request, n_session = session, c_owner = owner_device,
     dw_device_index = index, c_act = act, c_in_id = 0, c_out_id = 0, n_data = 0\<rparr>"

definition build_close :: "u32 \<Rightarrow> u32 \<Rightarrow> cio_packet option" where
  "build_close session index = build (self_request session index act_dev_close) data_field_binary None"

definition build_cancel :: "u32 \<Rightarrow> u32 \<Rightarrow> cio_packet option" where
  "build_cancel session index = build (self_request session index act_dev_cancel) data_field_binary None"

definition packet_assign :: "cio_packet \<Rightarrow> cio_packet \<Rightarrow> cio_packet" where
  "packet_assign src p = p\<lparr>m_v_packet := m_v_packet src, m_type_data_field := m_type_data_field src,
     m_b_must_be_recover := m_b_must_be_recover src, m_s_option := m_s_option src\<rparr>"

section \<open>Getters and setters of the header\<close>

abbreviation header :: "cio_packet \<Rightarrow> type_packect option" where
  "header p \<equiv> packet_view (m_v_packet p)"

definition is_valid :: "cio_packet \<Rightarrow> bool" where
  "is_valid p = packet_is_valid (m_v_packet p)"

definition is_request :: "cio_packet \<Rightarrow> bool option" where
  "is_request p = map_option (\<lambda>h. c_cmd h = cmd_request) (header p)"
definition is_response :: "cio_packet \<Rightarrow> bool option" where
  "is_response p = map_option (\<lambda>h. c_cmd h = cmd_response) (header p)"
definition is_self :: "cio_packet \<Rightarrow> bool option" where
  "is_self p = map_option (\<lambda>h. c_cmd h = cmd_self_request) (header p)"
definition is_system :: "cio_packet \<Rightarrow> bool option" where
  "is_system p = map_option (\<lambda>h. c_cmd h = cmd_system_request) (header p)"
definition is_owner_manager :: "cio_packet \<Rightarrow> bool option" where
  "is_owner_manager p = map_option (\<lambda>h. c_owner h = owner_manager) (header p)"
definition get_owner :: "cio_packet \<Rightarrow> byte option" where
  "get_owner p = map_option c_owner (header p)"
definition get_session_number :: "cio_packet \<Rightarrow> u32 option" where
  "get_session_number p = map_option n_session (header p)"
definition get_device_index :: "cio_packet \<Rightarrow> u32 option" where
  "get_device_index p = map_option dw_device_index (header p)"
definition get_action :: "cio_packet \<Rightarrow> byte option" where
  "get_action p = map_option c_act (header p)"
definition get_action_by_string :: "cio_packet \<Rightarrow> string option" where
  "get_action_by_string p = map_option (\<lambda>h. get_action_code_by_string (c_act h)) (header p)"
definition get_in_id :: "cio_packet \<Rightarrow> byte option" where
  "get_in_id p = map_option c_in_id (header p)"
definition get_out_id :: "cio_packet \<Rightarrow> byte option" where
  "get_out_id p = map_option c_out_id (header p)"
definition empty_data_field :: "cio_packet \<Rightarrow> bool option" where
  "empty_data_field p = map_option (\<lambda>h. n_data h = 0) (header p)"
definition get_data_field_raw_size :: "cio_packet \<Rightarrow> nat option" where
  "get_data_field_raw_size p = map_option (\<lambda>h. unat (n_data h)) (header p)"

text \<open>A write through the structure.\<close>

definition write_header :: "(type_packect \<Rightarrow> type_packect) \<Rightarrow> cio_packet \<Rightarrow> cio_packet option" where
  "write_header f p =
     map_option (\<lambda>h. p\<lparr>m_v_packet := packet_store (f h) (m_v_packet p)\<rparr>) (header p)"

definition set_cmd :: "byte \<Rightarrow> cio_packet \<Rightarrow> cio_packet option" where
  "set_cmd c = write_header (c_cmd_update (\<lambda>_. c))"
definition set_session_number :: "u32 \<Rightarrow> cio_packet \<Rightarrow> cio_packet option" where
  "set_session_number n = write_header (n_session_update (\<lambda>_. n))"
definition set_owner :: "byte \<Rightarrow> u32 \<Rightarrow> cio_packet \<Rightarrow> cio_packet option" where
  "set_owner c i = write_header (\<lambda>h. h\<lparr>c_owner := c, dw_device_index := i\<rparr>)"
definition set_device_index :: "u32 \<Rightarrow> cio_packet \<Rightarrow> cio_packet option" where
  "set_device_index i = write_header (dw_device_index_update (\<lambda>_. i))"
definition set_action :: "byte \<Rightarrow> cio_packet \<Rightarrow> cio_packet option" where
  "set_action c = write_header (c_act_update (\<lambda>_. c))"
definition set_in_id :: "byte \<Rightarrow> cio_packet \<Rightarrow> cio_packet option" where
  "set_in_id c = write_header (c_in_id_update (\<lambda>_. c))"
definition set_out_id :: "byte \<Rightarrow> cio_packet \<Rightarrow> cio_packet option" where
  "set_out_id c = write_header (c_out_id_update (\<lambda>_. c))"
definition set_recover_reserve :: "bool \<Rightarrow> cio_packet \<Rightarrow> cio_packet" where
  "set_recover_reserve b p = p\<lparr>m_b_must_be_recover := b\<rparr>"
definition set_option :: "16 word list \<Rightarrow> cio_packet \<Rightarrow> cio_packet" where
  "set_option s p = p\<lparr>m_s_option := s\<rparr>"

lemma header_write: "write_header f p = Some p' \<Longrightarrow> header p' = map_option f (header p)"
  by (auto simp: write_header_def)

end
