(* ===== verification/IoData.thy ===== *)
theory IoData
  imports IoPacket
begin

text \<open>
  The data field of \<open>cio_packet\<close>: binary data, or a multi-string of UTF-8. The conversions between
  wide characters and multi-byte characters are those of the C library: \<open>to_mcs\<close> and \<open>to_wide\<close>
  are parameters. Reading and writing outside the vector is \<open>None\<close>.
\<close>

type_synonym wstring = "16 word list"

section \<open>Writing\<close>

text \<open>\<open>vector::resize\<close>, and a size that is cut to \<open>unsigned int\<close>.\<close>

definition resize_to :: "nat \<Rightarrow> bytes \<Rightarrow> bytes" where
  "resize_to n v = take n v @ replicate (n - length v) 0"

definition as_u32 :: "nat \<Rightarrow> u32" where
  "as_u32 n = of_nat n"

text \<open>\<open>copy_btb\<close> of the front \<open>n_src\<close> bytes of \<open>src\<close> to the position \<open>off\<close> of a vector.\<close>

definition copy_btb :: "bytes \<Rightarrow> nat \<Rightarrow> u32 \<Rightarrow> bytes \<Rightarrow> u32 \<Rightarrow> bytes option" where
  "copy_btb v off n_dst src n_src =
     (if n_src = 0 \<or> n_dst = 0 \<or> n_dst < n_src then Some v
      else if off + unat n_src \<le> length v then Some (overlay v off (take (unat n_src) src))
      else None)"

definition put_null :: "nat \<Rightarrow> bytes \<Rightarrow> bytes option" where
  "put_null off v = (if off < length v then Some (v[off := 0]) else None)"

definition bind_packet :: "bytes option \<Rightarrow> cio_packet \<Rightarrow> cio_packet option" where
  "bind_packet v p = map_option (\<lambda>v. p\<lparr>m_v_packet := v\<rparr>) v"

definition set_data_field :: "bytes \<Rightarrow> bool \<Rightarrow> cio_packet \<Rightarrow> cio_packet option" where
  "set_data_field v_data b_append p =
     (let v = m_v_packet p; n = length v_data; c = as_u32 n in
      case packet_view v of
        None \<Rightarrow> None
      | Some h \<Rightarrow>
          if v_data = [] then
            if b_append then Some p
            else Some (p\<lparr>m_v_packet := packet_store (h\<lparr>n_data := 0\<rparr>) (resize_to 17 v)\<rparr>)
          else if b_append \<and> n_data h > 0 then
            if m_type_data_field p = data_field_binary then
              bind_packet (map_option (packet_store (h\<lparr>n_data := n_data h + c\<rparr>))
                (copy_btb (resize_to (length v + n) v) (17 + unat (n_data h)) c v_data c)) p
            else
              (let m = n_data h + as_u32 (n + 1) in
               bind_packet
                 (Option.bind (map_option (packet_store (h\<lparr>n_data := m\<rparr>))
                    (copy_btb (resize_to (length v + 1 + n) v) (17 + unat (n_data h - 1)) c v_data c))
                  (\<lambda>v. Option.bind (put_null (17 + unat (m - 1)) v) (put_null (17 + unat (m - 2))))) p)
          else if m_type_data_field p = data_field_binary then
            bind_packet (copy_btb (packet_store (h\<lparr>n_data := c\<rparr>) (resize_to (17 + n) v)) 17 c v_data c) p
          else
            bind_packet
              (Option.bind (copy_btb (packet_store (h\<lparr>n_data := c + 2\<rparr>) (resize_to (17 + n + 2) v))
                  17 (c + 2) v_data c)
                (\<lambda>v. Option.bind (put_null (17 + n) v) (put_null (17 + n + 1)))) p)"

text \<open>The loop that doubles every colon: \<open>find\<close> from \<open>n_pos\<close> on, then \<open>replace\<close>.\<close>

function double_loop :: "'w::len word list \<Rightarrow> nat \<Rightarrow> 'w word list" where
  "double_loop s n_pos =
     (let k = n_pos + length (takeWhile (\<lambda>c. c \<noteq> 0x3A) (drop n_pos s)) in
      if length s \<le> k then s
      else let s' = take k s @ [0x3A, 0x3A] @ drop (k + 1) s in
           if k + 2 < length s' then double_loop s' (k + 2) else s')"
  by pat_completeness auto
termination
  by (relation "measure (\<lambda>(s, n). length s - n)") auto

declare double_loop.simps [simp del]

definition set_data_by_utf8_plain :: "(wstring \<Rightarrow> bytes) \<Rightarrow> wstring \<Rightarrow> bool \<Rightarrow> cio_packet \<Rightarrow> cio_packet option" where
  "set_data_by_utf8_plain to_mcs s_data b_append p =
     (if m_type_data_field p = data_field_binary \<and> b_append then Some p
      else let p' = p\<lparr>m_type_data_field := data_field_string_utf8\<rparr> in
           if s_data = [] then set_data_field [] b_append p'
           else set_data_field (to_mcs s_data) b_append p')"

definition set_data_by_utf8 :: "(wstring \<Rightarrow> bytes) \<Rightarrow> wstring \<Rightarrow> bool \<Rightarrow> cio_packet \<Rightarrow> cio_packet option" where
  "set_data_by_utf8 to_mcs s_data b_append p =
     (if m_type_data_field p = data_field_binary \<and> b_append then Some p
      else let p' = p\<lparr>m_type_data_field := data_field_string_utf8\<rparr> in
           if s_data = [] then set_data_field [] b_append p'
           else set_data_field (to_mcs (double_loop s_data 0)) b_append p')"

fun append_all :: "(wstring \<Rightarrow> bytes) \<Rightarrow> wstring list \<Rightarrow> cio_packet \<Rightarrow> cio_packet option" where
  "append_all to_mcs [] p = Some p"
| "append_all to_mcs (s # ss) p = Option.bind (set_data_by_utf8 to_mcs s True p) (append_all to_mcs ss)"

definition set_data_by_list :: "(wstring \<Rightarrow> bytes) \<Rightarrow> wstring list \<Rightarrow> cio_packet \<Rightarrow> cio_packet option" where
  "set_data_by_list to_mcs list_wstring p =
     (case list_wstring of
        [] \<Rightarrow> set_data_by_utf8 to_mcs [] False p
      | s # ss \<Rightarrow> Option.bind (set_data_by_utf8 to_mcs s False p) (append_all to_mcs ss))"

definition set_data_by_set :: "(wstring \<Rightarrow> bytes) \<Rightarrow> wstring set \<Rightarrow> cio_packet \<Rightarrow> cio_packet option" where
  "set_data_by_set to_mcs set_wstring = set_data_by_list to_mcs (sorted_list_of_set set_wstring)"

definition set_data :: "bytes \<Rightarrow> bool \<Rightarrow> cio_packet \<Rightarrow> cio_packet option" where
  "set_data v_data b_append p =
     (case (if m_type_data_field p = data_field_string_utf8 \<and> b_append
            then map_option Not (empty_data_field p) else Some False) of
        None \<Rightarrow> None
      | Some True \<Rightarrow> Some p
      | Some False \<Rightarrow> set_data_field v_data b_append (p\<lparr>m_type_data_field := data_field_binary\<rparr>))"

definition set_data_sucesss :: "(wstring \<Rightarrow> bytes) \<Rightarrow> cio_packet \<Rightarrow> cio_packet option" where
  "set_data_sucesss to_mcs = set_data_by_utf8 to_mcs (text_of ''success'') False"

definition set_data_reason :: "string \<Rightarrow> (wstring \<Rightarrow> bytes) \<Rightarrow> wstring \<Rightarrow> cio_packet \<Rightarrow> cio_packet option" where
  "set_data_reason word_text to_mcs s_resason p =
     Option.bind (set_data_by_utf8 to_mcs (text_of word_text) False p)
       (\<lambda>p. if s_resason = [] then Some p else set_data_by_utf8 to_mcs s_resason True p)"

definition set_data_error :: "(wstring \<Rightarrow> bytes) \<Rightarrow> wstring \<Rightarrow> cio_packet \<Rightarrow> cio_packet option" where
  "set_data_error = set_data_reason ''error''"

definition set_data_cancel :: "(wstring \<Rightarrow> bytes) \<Rightarrow> wstring \<Rightarrow> cio_packet \<Rightarrow> cio_packet option" where
  "set_data_cancel = set_data_reason ''cancel''"

definition set_data_error_for_update :: "(wstring \<Rightarrow> bytes) \<Rightarrow> wstring \<Rightarrow> cio_packet \<Rightarrow> cio_packet option" where
  "set_data_error_for_update to_mcs s_resason =
     set_data_by_list to_mcs [text_of ''error'', text_of ''0'', text_of ''0'', s_resason]"

definition set_kernel_device_open :: "(wstring \<Rightarrow> bytes) \<Rightarrow> bool \<Rightarrow> cio_packet \<Rightarrow> cio_packet option" where
  "set_kernel_device_open to_mcs b = set_data_by_utf8 to_mcs (text_of ''this_packet_is_kernel_device_open'') True"

definition set_kernel_device_close :: "(wstring \<Rightarrow> bytes) \<Rightarrow> bool \<Rightarrow> cio_packet \<Rightarrow> cio_packet option" where
  "set_kernel_device_close to_mcs b = set_data_by_utf8 to_mcs (text_of ''this_packet_is_kernel_device_close'') True"

section \<open>Reading\<close>

definition get_data_field :: "cio_packet \<Rightarrow> bytes option" where
  "get_data_field p =
     (case header p of
        None \<Rightarrow> None
      | Some h \<Rightarrow> if 17 + unat (n_data h) \<le> length (m_v_packet p)
                 then Some (subrange (m_v_packet p) 17 (unat (n_data h))) else None)"

definition get_data_list :: "(bytes \<Rightarrow> wstring) \<Rightarrow> cio_packet \<Rightarrow> wstring list option" where
  "get_data_list to_wide p =
     (if m_type_data_field p \<noteq> data_field_string_utf8 then Some []
      else case get_data_field p of
             None \<Rightarrow> None
           | Some v \<Rightarrow> if v = [] then Some []
                      else map_option (\<lambda>(n, l, m). l) (change_from_utf8_multistring to_wide v))"

definition get_data_set :: "(bytes \<Rightarrow> wstring) \<Rightarrow> cio_packet \<Rightarrow> wstring set option" where
  "get_data_set to_wide p = map_option set (get_data_list to_wide p)"

text \<open>One string: the first of the set, in the order of the set.\<close>

definition get_data_string :: "(bytes \<Rightarrow> wstring) \<Rightarrow> cio_packet \<Rightarrow> wstring option" where
  "get_data_string to_wide p =
     map_option (\<lambda>s. if s = {} then [] else Min s) (get_data_set to_wide p)"

text \<open>The comparison of the front of the data field with a text.\<close>

definition data_starts_with :: "string \<Rightarrow> cio_packet \<Rightarrow> bool option" where
  "data_starts_with s p =
     (case header p of
        None \<Rightarrow> None
      | Some h \<Rightarrow> if unat (n_data h) < length s then Some False
                 else if length (m_v_packet p) < 17 + length s then None
                 else Some (subrange (m_v_packet p) 17 (length s) = text_of s))"

definition is_success :: "cio_packet \<Rightarrow> bool option" where
  "is_success = data_starts_with ''success''"
definition is_error :: "cio_packet \<Rightarrow> bool option" where
  "is_error = data_starts_with ''error''"
definition is_cancel :: "cio_packet \<Rightarrow> bool option" where
  "is_cancel = data_starts_with ''cancel''"

definition second_is :: "string \<Rightarrow> (bytes \<Rightarrow> wstring) \<Rightarrow> cio_packet \<Rightarrow> bool option" where
  "second_is s to_wide p =
     map_option (\<lambda>l. 2 \<le> length l \<and> l ! 0 = text_of ''success'' \<and> l ! 1 = text_of s) (get_data_list to_wide p)"

definition is_kernel_device_open :: "(bytes \<Rightarrow> wstring) \<Rightarrow> cio_packet \<Rightarrow> bool option" where
  "is_kernel_device_open = second_is ''this_packet_is_kernel_device_open''"
definition is_kernel_device_close :: "(bytes \<Rightarrow> wstring) \<Rightarrow> cio_packet \<Rightarrow> bool option" where
  "is_kernel_device_close = second_is ''this_packet_is_kernel_device_close''"

section \<open>Whole packets\<close>

text \<open>The response to a request that cannot be served; \<open>None\<close> for the request is the null pointer.\<close>

definition build_common_error_response ::
  "(wstring \<Rightarrow> bytes) \<Rightarrow> cio_packet option \<Rightarrow> wstring \<Rightarrow> cio_packet option" where
  "build_common_error_response to_mcs ptr_request s_error_resason =
     (case (case ptr_request of
              None \<Rightarrow> Some (echo_header\<lparr>c_act := act_mgmt_unknown\<rparr>)
            | Some p \<Rightarrow> header p) of
        None \<Rightarrow> None
      | Some h \<Rightarrow> Option.bind (build (h\<lparr>c_cmd := cmd_response, n_data := 0\<rparr>) data_field_string_utf8 None)
                  (set_data_error to_mcs s_error_resason))"

definition set_data_from_send_data_to_session_request ::
  "(wstring \<Rightarrow> bytes) \<Rightarrow> (bytes \<Rightarrow> wstring) \<Rightarrow> cio_packet \<Rightarrow> wstring \<Rightarrow> u32 \<Rightarrow> cio_packet \<Rightarrow> cio_packet option" where
  "set_data_from_send_data_to_session_request to_mcs to_wide request s_session_dst_name n_session_src p =
     (case get_data_list to_wide request of
        None \<Rightarrow> None
      | Some [] \<Rightarrow> Some (packet_assign request p)
      | Some (s # ss) \<Rightarrow>
          Option.bind (set_cmd cmd_system_request (packet_assign request p))
           (\<lambda>p. Option.bind (set_session_number n_session_src p)
           (\<lambda>p. Option.bind (set_data_by_utf8 to_mcs s False p)
           (\<lambda>p. Option.bind (set_data_by_utf8 to_mcs s_session_dst_name True p)
           (\<lambda>p. if n_session_src \<noteq> invalid_session_number
                then (if ss = [] then None else append_all to_mcs (tl ss) p)
                else append_all to_mcs ss p)))))"

definition adjust_device_filter :: "(16 word \<Rightarrow> 16 word) \<Rightarrow> wstring set \<Rightarrow> bool \<times> wstring set" where
  "adjust_device_filter lower s = (True, map lower ` {f \<in> s. f \<noteq> []})"

section \<open>What is stored\<close>

text \<open>The bytes of a packet with the header \<open>h\<close> and the data \<open>d\<close>, and the codes that make it valid.\<close>

definition packet_bytes :: "type_packect \<Rightarrow> bytes \<Rightarrow> bytes" where
  "packet_bytes h d = header_bytes (h\<lparr>n_data := of_nat (length d)\<rparr>) @ d"

definition codes_ok :: "type_packect \<Rightarrow> bool" where
  "codes_ok p = (c_cmd p \<in> set valid_cmds \<and> c_owner p \<in> set valid_owners
     \<and> (if c_act p \<in> set manager_actions then c_owner p = owner_manager
        else if c_act p \<in> set device_actions then c_owner p = owner_device
        else c_act p = act_mgmt_dev_kernel_operation))"

text \<open>The data field after a write, without the vector.\<close>

definition stored_data :: "byte \<Rightarrow> bool \<Rightarrow> bytes \<Rightarrow> bytes \<Rightarrow> bytes" where
  "stored_data t b_append v d =
     (if v = [] then (if b_append then d else [])
      else if b_append \<and> d \<noteq> [] then (if t = data_field_binary then d @ v else butlast d @ v @ [0, 0])
      else if t = data_field_binary then v else v @ [0, 0])"

lemma unat_as_u32: "n < 2 ^ 32 \<Longrightarrow> unat (as_u32 n) = n"
  by (simp add: as_u32_def unat_of_nat take_bit_nat_eq_self)

lemma packet_is_valid_bytes:
  "length d < 2 ^ 32 \<Longrightarrow> packet_is_valid (packet_bytes h d) = codes_ok h"
  by (simp add: packet_is_valid_def packet_bytes_def packet_view_header codes_ok_def unat_of_nat take_bit_nat_eq_self)

lemma packet_is_valid_split:
  assumes "packet_is_valid v"
  obtains h d where "v = packet_bytes h d" "codes_ok h" "length d < 2 ^ 32" "h = h\<lparr>n_data := of_nat (length d)\<rparr>"
proof -
  obtain h where h: "packet_view v = Some h" "length v = 17 + unat (n_data h)" "codes_ok h"
    using assms by (auto simp: packet_is_valid_def codes_ok_def split: option.splits)
  let ?d = "drop 17 v"
  have n: "length ?d = unat (n_data h)" using h(2) by simp
  then have e: "h\<lparr>n_data := of_nat (length ?d)\<rparr> = h" by simp
  show thesis
  proof (rule that [of h ?d])
    show "v = packet_bytes h ?d" using packet_view_Some [OF h(1)] by (simp only: packet_bytes_def e)
    show "length ?d < 2 ^ 32" using unsigned_less [of "n_data h"] n by simp
    show "h = h\<lparr>n_data := of_nat (length ?d)\<rparr>" using e by simp
  qed (rule h(3))
qed

lemma packet_view_bytes [simp]: "packet_view (packet_bytes h d) = Some (h\<lparr>n_data := of_nat (length d)\<rparr>)"
  by (simp add: packet_bytes_def packet_view_header)

lemma copy_btb_whole:
  assumes "length xs = off" "length ys = length v" "length v < 2 ^ 32" "v \<noteq> []" "as_u32 (length v) \<le> n"
  shows "copy_btb (xs @ ys @ r) off n v (as_u32 (length v)) = Some (xs @ v @ r)"
proof -
  have l: "unat (as_u32 (length v)) = length v" using assms(3) by (rule unat_as_u32)
  then have "as_u32 (length v) \<noteq> 0" using assms(4) by auto
  moreover have "n \<noteq> 0" using assms(5) calculation by auto
  moreover have "\<not> n < as_u32 (length v)" using assms(5) by simp
  ultimately show ?thesis using assms(1,2) l by (simp add: copy_btb_def overlay_def)
qed

lemma put_null_at: "length xs = off \<Longrightarrow> put_null off (xs @ y # r) = Some (xs @ 0 # r)"
  by (simp add: put_null_def list_update_append)

lemma put_two_nulls:
  assumes "length xs = off"
  shows "Option.bind (put_null off (xs @ [a, b])) (put_null (off + 1)) = Some (xs @ [0, 0])"
    "Option.bind (put_null (off + 1) (xs @ [a, b])) (put_null off) = Some (xs @ [0, 0])"
  using assms put_null_at [of "xs @ [0]" "off + 1" b "[]"] put_null_at [of "xs @ [a]" "off + 1" b "[]"]
  by (simp_all add: put_null_at)

lemma last_two: "length r = n + 2 \<Longrightarrow> \<exists>y z. r = take n r @ [y, z]"
proof -
  assume "length r = n + 2"
  then have "length (drop n r) = Suc (Suc 0)" by simp
  then obtain y z where "drop n r = [y, z]" unfolding length_Suc_conv by (auto simp del: length_drop)
  then show ?thesis by (metis append_take_drop_id)
qed

lemma as_u32_add: "as_u32 (a + b) = as_u32 a + as_u32 b"
  by (simp add: as_u32_def)

lemma append_binary:
  assumes "length d + length v < 2 ^ 32" "v \<noteq> []"
  shows "map_option (packet_store (h\<lparr>n_data := as_u32 (length d) + as_u32 (length v)\<rparr>))
     (copy_btb (resize_to (length (packet_bytes h d) + length v) (packet_bytes h d)) (17 + length d)
        (as_u32 (length v)) v (as_u32 (length v))) = Some (packet_bytes h (d @ v))"
proof -
  have "resize_to (length (packet_bytes h d) + length v) (packet_bytes h d)
      = packet_bytes h d @ replicate (length v) 0 @ []"
    by (simp add: resize_to_def)
  moreover have "length (packet_bytes h d) = 17 + length d" by (simp add: packet_bytes_def)
  ultimately show ?thesis
    using copy_btb_whole [of "packet_bytes h d" "17 + length d" "replicate (length v) 0" v "as_u32 (length v)" "[]"] assms
    by (simp add: packet_store_def packet_bytes_def as_u32_def)
qed

lemma append_text:
  assumes "length d + length v + 2 < 2 ^ 32" "v \<noteq> []" "d \<noteq> []" "m = as_u32 (length d) + as_u32 (length v + 1)"
  shows "Option.bind (map_option (packet_store (h\<lparr>n_data := m\<rparr>))
       (copy_btb (resize_to (length (packet_bytes h d) + 1 + length v) (packet_bytes h d))
          (17 + unat (as_u32 (length d) - 1)) (as_u32 (length v)) v (as_u32 (length v))))
     (\<lambda>v. Option.bind (put_null (17 + unat (m - 1)) v) (put_null (17 + unat (m - 2))))
     = Some (packet_bytes h (butlast d @ v @ [0, 0]))"
proof -
  define e x where "e = butlast d" and "x = last d"
  have d: "d = e @ [x]" using assms(3) by (simp add: e_def x_def)
  obtain w y where v: "v = w @ [y]" using assms(2) by (cases v rule: rev_cases) auto
  have m: "m = as_u32 (length e + length v + 2)" unfolding assms(4) d by (simp add: as_u32_def algebra_simps)
  have m1: "m - 1 = as_u32 (length e + length v + 1)" and m2: "m - 2 = as_u32 (length e + length v)"
    unfolding m by (simp_all add: as_u32_def)
  have l: "as_u32 (length d) - 1 = as_u32 (length e)" unfolding d by (simp add: as_u32_def)
  have u: "unat (as_u32 (length d) - 1) = length e" "unat (m - 1) = length e + length v + 1"
      "unat (m - 2) = length e + length v"
    unfolding l m1 m2 using assms(1) d by (simp_all add: unat_as_u32)
  have "resize_to (length (packet_bytes h d) + 1 + length v) (packet_bytes h d)
      = (header_bytes (h\<lparr>n_data := of_nat (length d)\<rparr>) @ e) @ (x # replicate (length w) 0) @ [0, 0]"
    by (simp add: resize_to_def packet_bytes_def d v replicate_app_Cons_same)
  then have "copy_btb (resize_to (length (packet_bytes h d) + 1 + length v) (packet_bytes h d))
          (17 + length e) (as_u32 (length v)) v (as_u32 (length v))
      = Some ((header_bytes (h\<lparr>n_data := of_nat (length d)\<rparr>) @ e) @ v @ [0, 0])"
    using copy_btb_whole [of "header_bytes (h\<lparr>n_data := of_nat (length d)\<rparr>) @ e" "17 + length e"
        "x # replicate (length w) 0" v "as_u32 (length v)" "[0, 0]"] assms(1,2) v by simp
  moreover have "packet_store (h\<lparr>n_data := m\<rparr>) ((header_bytes (h\<lparr>n_data := of_nat (length d)\<rparr>) @ e) @ v @ [0, 0])
      = (header_bytes (h\<lparr>n_data := m\<rparr>) @ e @ v) @ [0, 0]"
    by (simp add: packet_store_def)
  moreover have "packet_bytes h (butlast d @ v @ [0, 0]) = (header_bytes (h\<lparr>n_data := m\<rparr>) @ e @ v) @ [0, 0]"
    by (simp add: packet_bytes_def m as_u32_def e_def)
  ultimately show ?thesis
    unfolding u using put_two_nulls(2) [of "header_bytes (h\<lparr>n_data := m\<rparr>) @ e @ v" "17 + (length e + length v)" 0 0]
    by simp
qed

text \<open>Storing data in a packet does what the abstract rule says, on every branch: the data field holds
  the new data, or the old data followed by the new one, UTF-8 text ends with two zero bytes and text that
  is appended takes the place of the second one; the length in the header follows.\<close>

theorem set_data_field_stores:
  assumes "m_v_packet p = packet_bytes h d" "length d + length v + 2 < 2 ^ 32"
  shows "set_data_field v b p
    = Some (p\<lparr>m_v_packet := packet_bytes h (stored_data (m_type_data_field p) b v d)\<rparr>)"
proof -
  let ?t = "m_type_data_field p" and ?V = "packet_bytes h d" and ?c = "as_u32 (length v)"
  have ud: "unat (as_u32 (length d)) = length d" using assms(2) by (simp add: unat_as_u32)
  have pos: "as_u32 (length d) > 0 \<longleftrightarrow> d \<noteq> []" using ud by (metis length_0_conv unat_eq_0 word_neq_0_conv)
  have n: "of_nat (length d) = as_u32 (length d)" by (simp add: as_u32_def)
  have k: "packet_store (h\<lparr>n_data := x\<rparr>) (resize_to (17 + j) ?V)
      = header_bytes (h\<lparr>n_data := x\<rparr>) @ take j d @ replicate (j - length d) 0" for x j
    by (simp add: packet_store_def resize_to_def packet_bytes_def)
  have fits: "length v < 2 ^ 32" using assms(2) by simp
  consider (empty) "v = []" | (binary) "v \<noteq> []" "b" "d \<noteq> []" "?t = data_field_binary"
    | (utf8) "v \<noteq> []" "b" "d \<noteq> []" "?t \<noteq> data_field_binary"
    | (new_binary) "v \<noteq> []" "\<not> (b \<and> d \<noteq> [])" "?t = data_field_binary"
    | (new_text) "v \<noteq> []" "\<not> (b \<and> d \<noteq> [])" "?t \<noteq> data_field_binary" by blast
  then show ?thesis
  proof cases
    case empty
    then show ?thesis
      using assms(1) by (simp add: set_data_field_def stored_data_def packet_store_def resize_to_def packet_bytes_def
          packet_view_header Let_def)
  next
    case binary
    then show ?thesis
      using append_binary [of d v h] assms pos ud
      by (simp add: set_data_field_def stored_data_def bind_packet_def n Let_def del: map_option_eq_Some)
  next
    case utf8
    then show ?thesis
      using append_text [OF assms(2) utf8(1) utf8(3) refl, of h] assms(1) pos ud
      by (simp add: set_data_field_def stored_data_def bind_packet_def n Let_def del: map_option_eq_Some)
  next
    case new_binary
    have "copy_btb (packet_store (h\<lparr>n_data := ?c\<rparr>) (resize_to (17 + length v) ?V)) 17 ?c v ?c
        = Some (packet_bytes h v)"
      using copy_btb_whole [of "header_bytes (h\<lparr>n_data := ?c\<rparr>)" 17
          "take (length v) d @ replicate (length v - length d) 0" v ?c "[]"] fits new_binary(1)
      unfolding k by (simp add: packet_bytes_def as_u32_def)
    then show ?thesis
      using new_binary assms(1) pos by (auto simp: set_data_field_def stored_data_def bind_packet_def n Let_def del: map_option_eq_Some)
  next
    case new_text
    let ?j = "length v + 2"
    let ?r = "take ?j d @ replicate (?j - length d) 0"
    have "length ?r = length v + 2" by simp
    then obtain y z where r: "?r = take (length v) ?r @ [y, z]" by (blast dest: last_two)
    have "?c \<le> ?c + 2"
      using assms(2) by (simp add: word_le_nat_alt unat_as_u32 as_u32_add [symmetric, of _ 2, unfolded as_u32_def [of 2], simplified])
    then have "copy_btb (header_bytes (h\<lparr>n_data := ?c + 2\<rparr>) @ ?r) 17 (?c + 2) v ?c
        = Some ((header_bytes (h\<lparr>n_data := ?c + 2\<rparr>) @ v) @ [y, z])"
      using copy_btb_whole [of "header_bytes (h\<lparr>n_data := ?c + 2\<rparr>)" 17 "take (length v) ?r" v "?c + 2" "[y, z]"] fits new_text(1)
      by (subst r) simp
    moreover have "Option.bind (put_null (17 + length v) ((header_bytes (h\<lparr>n_data := ?c + 2\<rparr>) @ v) @ [y, z]))
        (put_null (17 + length v + 1)) = Some (packet_bytes h (v @ [0, 0]))"
      using put_two_nulls(1) [of "header_bytes (h\<lparr>n_data := ?c + 2\<rparr>) @ v" "17 + length v" y z]
      by (simp add: packet_bytes_def as_u32_def add.commute)
    moreover have "packet_store (h\<lparr>n_data := ?c + 2\<rparr>) (resize_to (17 + length v + 2) ?V)
        = header_bytes (h\<lparr>n_data := ?c + 2\<rparr>) @ ?r"
      using k [of "?c + 2" ?j] by (simp only: add.assoc)
    ultimately have "Option.bind (copy_btb (packet_store (h\<lparr>n_data := ?c + 2\<rparr>) (resize_to (17 + length v + 2) ?V))
        17 (?c + 2) v ?c) (\<lambda>w. Option.bind (put_null (17 + length v) w) (put_null (17 + length v + 1)))
        = Some (packet_bytes h (v @ [0, 0]))" by (simp only: bind.bind_lunit)
    then show ?thesis
      using new_text assms(1) pos
      by (auto simp: set_data_field_def stored_data_def bind_packet_def n Let_def simp del: bind_eq_Some_conv)
  qed
qed

theorem set_data_field_stores_witness:
  "set_data_field [1, 2] True (cio_packet_of data_field_string_utf8 (packet_bytes echo_header [7, 0, 0]))
    = Some ((cio_packet_of data_field_string_utf8 (packet_bytes echo_header [7, 0, 0]))
        \<lparr>m_v_packet := packet_bytes echo_header [7, 0, 1, 2, 0, 0]\<rparr>)"
proof -
  have "packet_is_valid (packet_bytes echo_header [7, 0, 0])"
    by (subst packet_is_valid_bytes)
      (simp_all add: codes_ok_def echo_header_def valid_cmds_def valid_owners_def manager_actions_def)
  then have "m_v_packet (cio_packet_of data_field_string_utf8 (packet_bytes echo_header [7, 0, 0]))
      = packet_bytes echo_header [7, 0, 0]"
    by (simp add: cio_packet_of_def)
  then show ?thesis
    using set_data_field_stores [of "cio_packet_of data_field_string_utf8 (packet_bytes echo_header [7, 0, 0])"
        echo_header "[7, 0, 0]" "[1, 2]" True]
    by (simp add: stored_data_def cio_packet_of_def)
qed

section \<open>Packets are valid\<close>

text \<open>A packet that all constructors make: valid bytes and a known kind of data.\<close>

definition packet_ok :: "cio_packet \<Rightarrow> bool" where
  "packet_ok p = (is_valid p \<and> m_type_data_field p \<in> set valid_data_field_types)"

lemma echo_packet: "packet_build echo_header None = Some (packet_bytes echo_header [])"
  "packet_is_valid (packet_bytes echo_header [])"
proof -
  show v: "packet_is_valid (packet_bytes echo_header [])"
    by (simp add: packet_is_valid_bytes codes_ok_def echo_header_def valid_cmds_def valid_owners_def manager_actions_def)
  have "packet_bytes echo_header [] = header_bytes echo_header" by (simp add: packet_bytes_def echo_header_def)
  then show "packet_build echo_header None = Some (packet_bytes echo_header [])"
    using v by (simp add: packet_build_def echo_header_def Let_def)
qed

lemma cio_packet_of_valid: "is_valid (cio_packet_of t v)"
  using echo_packet by (simp add: cio_packet_of_def is_valid_def)

lemma set_data_field_valid:
  assumes "is_valid p" "length (m_v_packet p) + length v + 2 < 2 ^ 32"
  shows "\<exists>p'. set_data_field v b p = Some p' \<and> is_valid p' \<and> m_type_data_field p' = m_type_data_field p
    \<and> length (m_v_packet p') \<le> length (m_v_packet p) + length v + 2"
proof -
  obtain h d where p: "m_v_packet p = packet_bytes h d" "codes_ok h" "length d < 2 ^ 32"
    using assms(1) packet_is_valid_split unfolding is_valid_def by metis
  have l: "length (packet_bytes h e) = 17 + length e" for e by (simp add: packet_bytes_def)
  then have b: "length d + length v + 2 < 2 ^ 32" using assms(2) p(1) by simp
  let ?e = "stored_data (m_type_data_field p) b v d"
  have e: "length ?e \<le> length d + length v + 2" by (auto simp: stored_data_def)
  then have "packet_is_valid (packet_bytes h ?e)" using b p(2) by (subst packet_is_valid_bytes) auto
  then show ?thesis using set_data_field_stores [OF p(1) b] e p(1) by (auto simp: is_valid_def l)
qed



section \<open>Colons\<close>

definition double_colons :: "'w::len word list \<Rightarrow> 'w word list" where
  "double_colons s = concat (map (\<lambda>c. if c = 0x3A then [c, c] else [c]) s)"

lemma double_colons_none: "0x3A \<notin> set s \<Longrightarrow> double_colons s = s"
  by (induction s) (auto simp: double_colons_def)

lemma double_colons_append: "double_colons (a @ b) = double_colons a @ double_colons b"
  by (simp add: double_colons_def)

lemma split_at_element: "s = xs @ c # g \<Longrightarrow> length xs = k \<Longrightarrow> take k s = xs \<and> drop (k + 1) s = g"
  by auto

lemma split_behind: "length xs = k \<Longrightarrow> take k (xs @ g) = xs \<and> drop k (xs @ g) = g"
  by auto

lemma double_loop_doubles: "double_loop s n = take n s @ double_colons (drop n s)"
proof (induction s n rule: double_loop.induct)
  case (1 s n)
  let ?f = "takeWhile (\<lambda>c. c \<noteq> 0x3A) (drop n s)" and ?g = "dropWhile (\<lambda>c. c \<noteq> 0x3A) (drop n s)"
  let ?k = "n + length ?f"
  have f: "double_colons ?f = ?f" by (rule double_colons_none) (auto dest: set_takeWhileD)
  have fg: "drop n s = ?f @ ?g" by simp
  then have len: "length s - n = length ?f + length ?g" by (metis length_append length_drop)
  show ?case
  proof (cases "length s \<le> ?k")
    case True
    then have "length ?g = 0" using len by linarith
    then have e: "?f = drop n s" using fg by (simp only: length_0_conv append_Nil2)
    have "double_colons (drop n s) = drop n s" using f unfolding e .
    then show ?thesis using True by (simp add: double_loop.simps [of s n] Let_def)
  next
    case False
    then have n: "n \<le> length s" and "0 < length ?g" using len by linarith+
    then obtain c g where c: "?g = c # g" by (cases ?g) simp_all
    then have "c = 0x3A" using hd_dropWhile [of "\<lambda>c. c \<noteq> 0x3A" "drop n s"] by (metis list.discI list.sel(1))
    with c have g: "?g = 0x3A # g" by simp
    have s: "s = (take n s @ ?f) @ 0x3A # g" using append_take_drop_id [of n s] fg g by simp
    have l: "length (take n s @ ?f) = ?k" using n by simp
    have tk: "take ?k s = take n s @ ?f" "drop (?k + 1) s = g"
      using split_at_element [OF s l] by (simp_all only:)
    let ?s = "(take n s @ ?f @ [0x3A, 0x3A]) @ g"
    have l2: "length (take n s @ ?f @ [0x3A, 0x3A]) = ?k + 2" using l by simp
    have result: "take n s @ double_colons (drop n s) = (take n s @ ?f @ [0x3A, 0x3A]) @ double_colons g"
      by (subst fg, subst g) (simp add: double_colons_append f, simp add: double_colons_def)
    have step: "double_loop s n = (if ?k + 2 < length ?s then double_loop ?s (?k + 2) else ?s)"
      using False unfolding double_loop.simps [of s n] Let_def tk by simp
    show ?thesis
    proof (cases "?k + 2 < length ?s")
      case True
      have "double_loop ?s (?k + 2) = take (?k + 2) ?s @ double_colons (drop (?k + 2) ?s)"
        using 1 [OF refl False refl] True unfolding tk by simp
      also have "\<dots> = (take n s @ ?f @ [0x3A, 0x3A]) @ double_colons g"
        using split_behind [OF l2, of g] by (simp only:)
      finally show ?thesis using step True result by simp
    next
      case no: False
      then have "g = []" using l2 by (simp only: length_append) simp
      then show ?thesis using step no result by (simp add: double_colons_def)
    qed
  qed
qed

end
