(* ===== verification/IoText.thy ===== *)
theory IoText
  imports IoData
begin

text \<open>
  Text in packets: what is written as a list of strings is read back as that list, with its colons doubled;
  success, error and cancel packets; the answers that are built from other packets.
\<close>

section \<open>Lists of strings\<close>

abbreviation encoded :: "(wstring \<Rightarrow> bytes) \<Rightarrow> wstring \<Rightarrow> bytes" where
  "encoded to_mcs s \<equiv> to_mcs (double_colons s)"

lemma get_data_field_bytes:
  "m_v_packet p = packet_bytes h d \<Longrightarrow> length d < 2 ^ 32 \<Longrightarrow> get_data_field p = Some d"
  by (simp add: get_data_field_def unat_of_nat take_bit_nat_eq_self)
    (simp add: packet_bytes_def subrange_def)

lemma set_data_by_utf8_stores:
  assumes "m_v_packet p = packet_bytes h d" "length d + length (encoded to_mcs s) + 2 < 2 ^ 32" "s \<noteq> []"
    "b \<longrightarrow> m_type_data_field p = data_field_string_utf8"
  shows "set_data_by_utf8 to_mcs s b p
    = Some (p\<lparr>m_type_data_field := data_field_string_utf8,
              m_v_packet := packet_bytes h (stored_data data_field_string_utf8 b (encoded to_mcs s) d)\<rparr>)"
  using set_data_field_stores [of "p\<lparr>m_type_data_field := data_field_string_utf8\<rparr>" h d "encoded to_mcs s" b] assms
  by (auto simp: set_data_by_utf8_def double_loop_doubles Let_def)

lemma multi_string_snoc:
  "ss \<noteq> [] \<Longrightarrow> butlast (multi_string ss) @ v @ [0, 0] = multi_string (ss @ [v])"
  by (simp add: multi_string_def butlast_append)

lemma append_all_stores:
  assumes "m_v_packet p = packet_bytes h (multi_string xs)" "xs \<noteq> []"
    "m_type_data_field p = data_field_string_utf8"
    "\<forall>s\<in>set ss. s \<noteq> [] \<and> encoded to_mcs s \<noteq> []"
    "length (multi_string (xs @ map (encoded to_mcs) ss)) + 1 < 2 ^ 32"
  shows "append_all to_mcs ss p
    = Some (p\<lparr>m_v_packet := packet_bytes h (multi_string (xs @ map (encoded to_mcs) ss))\<rparr>)"
  using assms
proof (induction ss arbitrary: p xs)
  case Nil
  then show ?case by simp
next
  case (Cons s ss)
  let ?e = "encoded to_mcs s"
  have l: "length (multi_string xs) + length ?e + 2 < 2 ^ 32"
    using Cons.prems(2,5) by (simp add: multi_string_def)
  have ms: "multi_string xs \<noteq> []" using Cons.prems(2) by (simp add: multi_string_def)
  have "stored_data data_field_string_utf8 True ?e (multi_string xs) = multi_string (xs @ [?e])"
    using Cons.prems(2,4) ms multi_string_snoc [OF Cons.prems(2), of ?e] by (simp add: stored_data_def)
  then have "set_data_by_utf8 to_mcs s True p = Some (p\<lparr>m_v_packet := packet_bytes h (multi_string (xs @ [?e]))\<rparr>)"
    using set_data_by_utf8_stores [where to_mcs = to_mcs and s = s and b = True, OF Cons.prems(1) l] Cons.prems(3,4) by simp
  then show ?case
    using Cons.IH [of "p\<lparr>m_v_packet := packet_bytes h (multi_string (xs @ [?e]))\<rparr>" "xs @ [?e]"] Cons.prems by simp
qed

lemma set_data_by_list_stores:
  assumes "m_v_packet p = packet_bytes h d" "ss \<noteq> []" "\<forall>s\<in>set ss. s \<noteq> [] \<and> encoded to_mcs s \<noteq> []"
    "length d + length (multi_string (map (encoded to_mcs) ss)) + 1 < 2 ^ 32"
  shows "set_data_by_list to_mcs ss p
    = Some (p\<lparr>m_type_data_field := data_field_string_utf8,
              m_v_packet := packet_bytes h (multi_string (map (encoded to_mcs) ss))\<rparr>)"
proof -
  obtain s t where ss: "ss = s # t" using assms(2) by (cases ss) auto
  let ?e = "encoded to_mcs s"
  have l: "length d + length ?e + 2 < 2 ^ 32" using assms(4) by (simp add: ss multi_string_def)
  have "stored_data data_field_string_utf8 False ?e d = multi_string [?e]"
    using assms(3) ss by (simp add: stored_data_def multi_string_def)
  then have "set_data_by_utf8 to_mcs s False p
      = Some (p\<lparr>m_type_data_field := data_field_string_utf8, m_v_packet := packet_bytes h (multi_string [?e])\<rparr>)"
    using set_data_by_utf8_stores [where to_mcs = to_mcs and s = s and b = False, OF assms(1) l] assms(3) ss by simp
  then show ?thesis
    using append_all_stores [of "p\<lparr>m_type_data_field := data_field_string_utf8, m_v_packet := packet_bytes h (multi_string [?e])\<rparr>"
        h "[?e]" t to_mcs] assms(3,4)
    by (simp add: set_data_by_list_def ss)
qed


lemma utf8_ascii: "\<forall>c\<in>set s. c AND 0x80 = 0 \<Longrightarrow> utf8_text s"
proof (induction s)
  case (Cons c cs)
  then show ?case using utf8_text.utf8_char [of c "[]" cs] by (simp add: utf8_n_char_def)
qed (rule utf8_text.utf8_Nil)


section \<open>Answers\<close>

lemma data_starts_with_bytes:
  assumes "m_v_packet p = packet_bytes h d" "length d < 2 ^ 32"
  shows "data_starts_with s p = Some (take (length s) d = text_of s)"
proof -
  have n: "unat (of_nat (length d) :: u32) = length d" using assms(2) by (simp add: unat_of_nat take_bit_nat_eq_self)
  have "length (text_of s :: bytes) = length s" by (simp add: text_of_def)
  then have "take (length s) d = text_of s \<Longrightarrow> length s \<le> length d" by (metis length_take min.cobounded1)
  then show ?thesis
    using assms(1) n by (auto simp: data_starts_with_def packet_bytes_def packet_view_header subrange_def)
qed

text \<open>C33. The answer to a request that cannot be served is a valid response of text that carries the session,
  the owner, the device, the action and the ids of the request, and says \<open>error\<close> and the reason.\<close>

theorem error_response_answers_request:
  assumes "is_valid req" "header req = Some h" "to_mcs (text_of ''error'') = text_of ''error''"
    "reason \<noteq> []" "encoded to_mcs reason \<noteq> []" "length (encoded to_mcs reason) + 20 < 2 ^ 32"
  shows "\<exists>p. build_common_error_response to_mcs (Some req) reason = Some p \<and> is_valid p
    \<and> header p = Some (h\<lparr>c_cmd := cmd_response, n_data := as_u32 (length (encoded to_mcs reason) + 8)\<rparr>)
    \<and> get_data_field p = Some (multi_string [text_of ''error'', encoded to_mcs reason])
    \<and> is_error p = Some True \<and> is_success p = Some False \<and> is_cancel p = Some False"
proof -
  let ?r = "h\<lparr>c_cmd := cmd_response, n_data := 0\<rparr>"
  let ?m = "multi_string [text_of ''error'', encoded to_mcs reason]"
  have "codes_ok h" using assms(1,2) by (simp add: is_valid_def packet_is_valid_def codes_ok_def)
  then have ok: "codes_ok ?r" by (simp add: codes_ok_def valid_cmds_def)
  have e: "packet_bytes ?r [] = header_bytes ?r" by (simp add: packet_bytes_def)
  have "packet_is_valid (header_bytes ?r)" using packet_is_valid_bytes [of "[]" ?r] ok e by simp
  then have "build ?r data_field_string_utf8 None
      = Some \<lparr>m_v_packet = packet_bytes ?r [], m_type_data_field = data_field_string_utf8,
          m_b_must_be_recover = False, m_s_option = []\<rparr>" (is "_ = Some ?p")
    by (simp add: build_def packet_build_def cio_packet_of_def e Let_def)
  moreover have de: "double_colons (text_of ''error'' :: wstring) = text_of ''error''"
    by (rule double_colons_none) (simp add: text_of_def)
  have "append_all to_mcs [reason] = set_data_by_utf8 to_mcs reason True"
    by (rule ext) (simp add: bind_eq_None_conv split: bind_splits)
  then have "set_data_error to_mcs reason ?p = set_data_by_list to_mcs [text_of ''error'', reason] ?p"
    using assms(4) by (simp add: set_data_error_def set_data_reason_def set_data_by_list_def del: append_all.simps)
  moreover have "set_data_by_list to_mcs [text_of ''error'', reason] ?p
      = Some (?p\<lparr>m_type_data_field := data_field_string_utf8,
                m_v_packet := packet_bytes ?r (multi_string (map (encoded to_mcs) [text_of ''error'', reason]))\<rparr>)"
    by (rule set_data_by_list_stores [where d = "[]"])
      (use assms(3-6) de in \<open>auto simp: multi_string_def text_of_def\<close>)
  ultimately have p: "build_common_error_response to_mcs (Some req) reason = Some (?p\<lparr>m_v_packet := packet_bytes ?r ?m\<rparr>)"
    using assms(2,3) de by (simp add: build_common_error_response_def)
  have l: "length ?m < 2 ^ 32" "length ?m = length (encoded to_mcs reason) + 8"
    using assms(6) by (simp_all add: multi_string_def text_of_def)
  have s: "data_starts_with s (?p\<lparr>m_v_packet := packet_bytes ?r ?m\<rparr>) = Some (take (length s) ?m = text_of s)" for s
    by (rule data_starts_with_bytes [OF _ l(1)]) simp
  have g: "get_data_field (?p\<lparr>m_v_packet := packet_bytes ?r ?m\<rparr>) = Some ?m"
    by (rule get_data_field_bytes [OF _ l(1), of _ ?r]) simp
  have v: "is_valid (?p\<lparr>m_v_packet := packet_bytes ?r ?m\<rparr>)"
    using packet_is_valid_bytes [OF l(1), of ?r] ok by (simp add: is_valid_def)
  have h: "header (?p\<lparr>m_v_packet := packet_bytes ?r ?m\<rparr>)
      = Some (h\<lparr>c_cmd := cmd_response, n_data := as_u32 (length (encoded to_mcs reason) + 8)\<rparr>)"
    using l(2) by (simp add: as_u32_def)
  have "is_error (?p\<lparr>m_v_packet := packet_bytes ?r ?m\<rparr>) = Some True"
    "is_success (?p\<lparr>m_v_packet := packet_bytes ?r ?m\<rparr>) = Some False"
    "is_cancel (?p\<lparr>m_v_packet := packet_bytes ?r ?m\<rparr>) = Some False"
    unfolding is_error_def is_success_def is_cancel_def s by (simp_all add: multi_string_def text_of_def)
  then show ?thesis using p g v h by blast
qed

theorem error_response_answers_request_witness:
  "\<exists>p. build_common_error_response (map ucast) (Some cio_packet_default) (text_of ''json'') = Some p
    \<and> is_error p = Some True \<and> is_success p = Some False"
proof -
  have v: "is_valid cio_packet_default" using echo_packet by (simp add: cio_packet_default_def is_valid_def)
  have h: "header cio_packet_default = Some (echo_header\<lparr>n_data := of_nat (length ([] :: bytes))\<rparr>)"
    using echo_packet by (simp only: cio_packet_default_def cio_packet.simps option.sel packet_view_bytes)
  have e: "map ucast (text_of ''error'' :: wstring) = (text_of ''error'' :: bytes)" by (simp add: text_of_def)
  have r: "map ucast (double_colons (text_of ''json'' :: wstring)) = (text_of ''json'' :: bytes)"
    by (simp add: text_of_def double_colons_def)
  show ?thesis
    using error_response_answers_request [where to_mcs = "map ucast", OF v h e, of "text_of ''json''"] unfolding r by (auto simp: text_of_def)
qed

text \<open>The tests look at the front of the data only: a text that begins with the word counts as the word. One
  string that is read from a packet is not the first one but the smallest.\<close>

lemma smallest_string_is_read:
  "get_data_string (map ucast) (cio_packet_of data_field_string_utf8
      (packet_bytes echo_header (multi_string [text_of ''success'', text_of ''a''])))
    = Some (text_of ''a'')"
proof -
  let ?m = "multi_string [text_of ''success'', text_of ''a''] :: bytes"
  let ?p = "cio_packet_of data_field_string_utf8 (packet_bytes echo_header ?m)"
  have m: "length ?m < 2 ^ 32" by (simp add: multi_string_def text_of_def)
  have "packet_is_valid (packet_bytes echo_header ?m)"
    by (subst packet_is_valid_bytes [OF m])
      (simp add: codes_ok_def echo_header_def valid_cmds_def valid_owners_def manager_actions_def)
  then have "get_data_field ?p = Some ?m"
    by (intro get_data_field_bytes [of _ echo_header]) (use m in \<open>simp_all add: cio_packet_of_def\<close>)
  moreover have "?m \<noteq> []" by (simp add: multi_string_def)
  moreover have "map_option (\<lambda>(n, l, k). l) (change_from_utf8_multistring (map ucast) ?m)
      = Some [text_of ''success'', text_of ''a'' :: wstring]"
  proof -
    have "\<forall>s\<in>set [text_of ''success'', text_of ''a'' :: bytes]. s \<noteq> [] \<and> 0 \<notin> set s \<and> utf8_text s"
      by (simp add: text_of_def) (auto intro!: utf8_ascii)
    then show ?thesis
      using multi_string_utf8 [of "[text_of ''success'', text_of ''a'' :: bytes]" "map ucast" "[]"]
      by (auto simp: text_of_def)
  qed
  ultimately have "get_data_set (map ucast) ?p = Some {text_of ''success'', text_of ''a''}"
    by (auto simp: get_data_set_def get_data_list_def cio_packet_of_def)
  then show ?thesis by (simp add: get_data_string_def text_of_def)
qed

end
