(* ===== verification/CtlBase.thy ===== *)
theory CtlBase
  imports IoText
begin

text \<open>
  What the request handlers of the daemon share (\<open>mp_cbase_ctl_fn_.h\<close>, \<open>mp_cbase_ctl_fn_.cpp\<close>,
  \<open>mp_cqitem_dev.h\<close>): the items for the device thread, the state of one session of a device, the answers
  and the result of processing a request. Requests are told apart by the unique id of their packet object.
\<close>

section \<open>Ordered maps\<close>

text \<open>\<open>std::map\<close>: pairs in the order of the keys; mostly the keys are session numbers.\<close>

type_synonym ('k, 'v) ordered_map = "('k \<times> 'v) list"
type_synonym 'v session_map = "(u32 \<times> 'v) list"

fun map_put :: "'k::linorder \<Rightarrow> 'v \<Rightarrow> ('k, 'v) ordered_map \<Rightarrow> ('k, 'v) ordered_map" where
  "map_put k v [] = [(k, v)]"
| "map_put k v ((k', v') # m) =
     (if k < k' then (k, v) # (k', v') # m else if k = k' then (k, v) # m else (k', v') # map_put k v m)"

definition map_erase :: "'k \<Rightarrow> ('k, 'v) ordered_map \<Rightarrow> ('k, 'v) ordered_map" where
  "map_erase k m = filter (\<lambda>e. fst e \<noteq> k) m"

abbreviation map_ok :: "('k::linorder, 'v) ordered_map \<Rightarrow> bool" where
  "map_ok m \<equiv> sorted_wrt (<) (map fst m)"

lemma map_put_keys: "set (map fst (map_put k v m)) = insert k (set (map fst m))"
proof (induction k v m rule: map_put.induct)
  case (2 k v k' v' m)
  then show ?case by (cases "k < k'"; cases "k = k'") (simp_all add: insert_commute)
qed simp

lemma map_put_ok: "map_ok m \<Longrightarrow> map_ok (map_put k v m)"
proof (induction k v m rule: map_put.induct)
  case (2 k v k' v' m)
  have "\<forall>x\<in>set (map fst (map_put k v m)). k' < x" if "k' < k"
    using 2(2) that unfolding map_put_keys by simp
  then show ?case using 2 by (cases "k < k'"; cases "k = k'") fastforce+
qed simp

lemma map_erase_ok: "map_ok m \<Longrightarrow> map_ok (map_erase k m)"
  by (induction m) (auto simp: map_erase_def)

lemma map_of_map_put: "map_of (map_put k v m) = (map_of m)(k \<mapsto> v)"
  by (induction m) (auto simp: fun_eq_iff)

lemma map_of_map_erase: "map_of (map_erase k m) = (map_of m)(k := None)"
  by (induction m) (auto simp: map_erase_def fun_eq_iff)

lemma map_ok_distinct: "map_ok m \<Longrightarrow> distinct (map fst m)"
  by (induction m) auto

type_synonym u16 = "16 word"

section \<open>Items for the device thread\<close>

datatype type_result = result_not_yet | result_success | result_error | result_cancel
datatype type_request = req_only_tx | req_only_rx | req_tx_rx | req_cancel

text \<open>The callback of an item, by name.\<close>

datatype type_cb = cb_dev_read_on_exclusive | cb_dev_read_on_shared | cb_dev_for_sync_req

record cqitem_dev =
  qi_tx :: bytes
  qi_need_read :: bool
  qi_cb :: type_cb
  qi_session :: u32
  qi_uid :: nat
  qi_rx :: bytes
  qi_result :: type_result

definition new_qitem :: "nat \<Rightarrow> bytes \<Rightarrow> bool \<Rightarrow> type_cb \<Rightarrow> u32 \<Rightarrow> cqitem_dev" where
  "new_qitem n_uid v_tx b_need_read cb session =
     \<lparr>qi_tx = v_tx, qi_need_read = b_need_read, qi_cb = cb, qi_session = session, qi_uid = n_uid,
      qi_rx = [], qi_result = result_not_yet\<rparr>"

definition get_request_type :: "cqitem_dev \<Rightarrow> type_request" where
  "get_request_type q =
     (if qi_tx q = [] \<and> qi_need_read q then req_only_rx
      else if qi_tx q \<noteq> [] \<and> qi_need_read q then req_tx_rx
      else if qi_tx q \<noteq> [] \<and> \<not> qi_need_read q then req_only_tx
      else req_cancel)"

definition is_complete :: "cqitem_dev \<Rightarrow> bool" where
  "is_complete q = (qi_result q \<noteq> result_not_yet)"

definition set_result :: "type_result \<Rightarrow> bytes \<Rightarrow> cqitem_dev \<Rightarrow> cqitem_dev" where
  "set_result result v_rx q = q\<lparr>qi_result := result, qi_rx := v_rx\<rparr>"

definition reset_result :: "cqitem_dev \<Rightarrow> cqitem_dev" where
  "reset_result q = q\<lparr>qi_result := result_not_yet, qi_rx := []\<rparr>"

section \<open>The state of a session\<close>

datatype type_evt = ev_none | ev_open | ev_close | ev_sync | ev_asy | ev_rx
datatype type_state = st_undefined | st_not | st_idl | st_asy

fun st_code :: "type_state \<Rightarrow> int" where
  "st_code st_undefined = -1"
| "st_code st_not = 0"
| "st_code st_idl = 1"
| "st_code st_asy = 2"

text \<open>\<open>_m_trans_table_base\<close>; an index of -1 is outside the table.\<close>

fun trans_table :: "type_state \<Rightarrow> type_evt \<Rightarrow> type_state option" where
  "trans_table st_undefined e = None"
| "trans_table s ev_none = None"
| "trans_table st_not ev_open = Some st_idl"
| "trans_table st_not e = Some st_not"
| "trans_table st_idl ev_open = Some st_idl"
| "trans_table st_idl ev_close = Some st_not"
| "trans_table st_idl ev_sync = Some st_idl"
| "trans_table st_idl ev_asy = Some st_asy"
| "trans_table st_idl ev_rx = Some st_idl"
| "trans_table st_asy ev_open = Some st_asy"
| "trans_table st_asy ev_close = Some st_not"
| "trans_table st_asy ev_sync = Some st_idl"
| "trans_table st_asy ev_asy = Some st_asy"
| "trans_table st_asy ev_rx = Some st_idl"

record cstate =
  m_st_cur :: type_state
  m_ev_last :: type_evt

definition cstate_reset :: cstate where
  "cstate_reset = \<lparr>m_st_cur = st_not, m_ev_last = ev_none\<rparr>"

text \<open>Changed or not, the new state and the old one.\<close>

type_synonym type_result_evt = "bool \<times> type_state \<times> type_state"

definition cstate_set :: "type_evt \<Rightarrow> cstate \<Rightarrow> (type_result_evt \<times> cstate) option" where
  "cstate_set evt s =
     map_option (\<lambda>st_new. ((st_new \<noteq> m_st_cur s, st_new, m_st_cur s), \<lparr>m_st_cur = st_new, m_ev_last = evt\<rparr>))
       (trans_table (m_st_cur s) evt)"

definition get_event_from_request_action :: "byte \<Rightarrow> type_evt" where
  "get_event_from_request_action act =
     (if act = act_dev_open then ev_open
      else if act = act_dev_close then ev_close
      else if act = act_dev_transmit \<or> act = act_dev_cancel \<or> act = act_dev_write then ev_sync
      else if act = act_dev_read then ev_asy
      else ev_none)"

text \<open>The largest state of the other sessions, and whether there are others.\<close>

definition get_combination_state_in_map_except_selected_session ::
  "cstate session_map \<Rightarrow> u32 \<Rightarrow> bool \<times> type_state" where
  "get_combination_state_in_map_except_selected_session m session =
     (if m = [] \<or> (map_of m session \<noteq> None \<and> length m = 1) then (False, st_not)
      else (True, foldl (\<lambda>st e. if fst e = session \<or> st_code (m_st_cur (snd e)) \<le> st_code st then st
                                 else m_st_cur (snd e)) st_not m))"

definition get_mask_from_state :: "type_state \<Rightarrow> int" where
  "get_mask_from_state st = (if st = st_undefined then 0 else 2 ^ nat (st_code st))"

text \<open>The switch is on the variable that was just set to \<open>st_undefined\<close>, not on the mask.\<close>

definition get_state_from_mask :: "int \<Rightarrow> type_state" where
  "get_state_from_mask n_mask =
     (let st = st_undefined in
      if st_code st = 1 then st_not else if st_code st = 2 then st_idl else if st_code st = 4 then st_asy else st)"

section \<open>Requests and answers\<close>

record request =
  r_uid :: nat
  r_packet :: cio_packet

text \<open>The header of a request. Every packet object that reaches the handlers is valid, so it has one.\<close>

definition r_header :: "request \<Rightarrow> type_packect" where
  "r_header r = (case header (r_packet r) of Some h \<Rightarrow> h | None \<Rightarrow> echo_header)"

abbreviation r_session :: "request \<Rightarrow> u32" where "r_session r \<equiv> n_session (r_header r)"
abbreviation r_action :: "request \<Rightarrow> byte" where "r_action r \<equiv> c_act (r_header r)"
abbreviation r_is_self :: "request \<Rightarrow> bool" where "r_is_self r \<equiv> c_cmd (r_header r) = cmd_self_request"
abbreviation r_recover :: "request \<Rightarrow> bool" where "r_recover r \<equiv> m_b_must_be_recover (r_packet r)"

definition r_set_recover :: "bool \<Rightarrow> request \<Rightarrow> request" where
  "r_set_recover b r = r\<lparr>r_packet := set_recover_reserve b (r_packet r)\<rparr>"

lemma r_set_recover_same [simp]:
  "r_header (r_set_recover b r) = r_header r" "r_uid (r_set_recover b r) = r_uid r"
  "r_recover (r_set_recover b r) = b"
  by (simp_all add: r_set_recover_def r_header_def set_recover_reserve_def)

text \<open>
  What a response says. Every response object is a copy of its request with the command changed and the
  data field set anew, so the request and the last thing that was set make the packet.
\<close>

datatype answer =
  ans_copy | ans_success | ans_data bytes | ans_error wstring | ans_cancel wstring

definition answer_packet :: "(wstring \<Rightarrow> bytes) \<Rightarrow> request \<Rightarrow> answer \<Rightarrow> cio_packet option" where
  "answer_packet to_mcs r a =
     Option.bind (set_cmd cmd_response (r_packet r))
       (\<lambda>p. case a of
          ans_copy \<Rightarrow> Some p
        | ans_success \<Rightarrow> set_data_sucesss to_mcs p
        | ans_data v \<Rightarrow> set_data v False p
        | ans_error s \<Rightarrow> set_data_error to_mcs s p
        | ans_cancel s \<Rightarrow> set_data_cancel to_mcs s p)"

text \<open>\<open>_set_response\<close>: nothing, when the item has no result yet.\<close>

definition set_response :: "cqitem_dev \<Rightarrow> answer option" where
  "set_response qi =
     (case qi_result qi of
        result_not_yet \<Rightarrow> None
      | result_success \<Rightarrow> Some (if qi_rx qi = [] then ans_success else ans_data (qi_rx qi))
      | result_error \<Rightarrow> Some (ans_error (text_of (get_error_message 9)))
      | result_cancel \<Rightarrow> Some (ans_cancel []))"

definition set_response_result_only :: "type_result \<Rightarrow> wstring \<Rightarrow> answer" where
  "set_response_result_only result s_result =
     (case result of
        result_success \<Rightarrow> ans_success
      | result_error \<Rightarrow> ans_error s_result
      | result_cancel \<Rightarrow> ans_cancel s_result
      | result_not_yet \<Rightarrow> ans_error s_result)"

definition generate_error_response :: "int \<Rightarrow> answer" where
  "generate_error_response n_reason =
     ans_error (if n_reason = -1 then [] else text_of (get_error_message n_reason))"

section \<open>The result of processing\<close>

record cresult =
  m_st_session_old :: type_state
  m_st_session_new :: type_state
  m_st_combination_old :: type_state
  m_st_combination_new :: type_state
  m_b_process_exist_session :: bool
  m_b_process_result :: bool
  m_b_process_complete :: bool
  m_ptr_req :: request
  m_ptr_rsp :: "answer option"
  m_s_dev_path :: wstring

definition new_cresult :: "request \<Rightarrow> wstring \<Rightarrow> cresult" where
  "new_cresult r s_dev_path =
     \<lparr>m_st_session_old = st_not, m_st_session_new = st_not, m_st_combination_old = st_not,
      m_st_combination_new = st_not, m_b_process_exist_session = False, m_b_process_result = False,
      m_b_process_complete = True, m_ptr_req = r, m_ptr_rsp = None, m_s_dev_path = s_dev_path\<rparr>"

definition get_cur_event :: "cresult \<Rightarrow> type_evt" where
  "get_cur_event res = get_event_from_request_action (r_action (m_ptr_req res))"

definition process_get_result :: "cresult \<Rightarrow> bool \<times> bool" where
  "process_get_result res = (m_b_process_result res, m_b_process_complete res)"

definition process_set_req_packet :: "request \<Rightarrow> cresult \<Rightarrow> cresult" where
  "process_set_req_packet r res = res\<lparr>m_ptr_req := r, m_ptr_rsp := Some (ans_error [])\<rparr>"

definition error_complete :: "int \<Rightarrow> wstring \<Rightarrow> cresult \<Rightarrow> cresult" where
  "error_complete n_reason s_dev_path res =
     res\<lparr>m_ptr_rsp := Some (generate_error_response n_reason), m_b_process_exist_session := n_reason \<noteq> 1,
         m_s_dev_path := s_dev_path, m_b_process_result := False, m_b_process_complete := True\<rparr>"

text \<open>Success with binary data: the data are appended to the text \<open>success\<close>, which \<open>set_data\<close> refuses.\<close>

definition success_complete :: "wstring \<Rightarrow> cresult \<Rightarrow> cresult" where
  "success_complete s_dev_path res =
     res\<lparr>m_ptr_rsp := Some ans_success, m_b_process_exist_session := True,
         m_s_dev_path := s_dev_path, m_b_process_result := True, m_b_process_complete := True\<rparr>"

definition success_complete_with :: "answer option \<Rightarrow> wstring \<Rightarrow> cresult \<Rightarrow> cresult" where
  "success_complete_with ptr_response s_dev_path res =
     res\<lparr>m_ptr_rsp := Some (case ptr_response of None \<Rightarrow> ans_success | Some a \<Rightarrow> a), m_b_process_exist_session := True,
         m_s_dev_path := s_dev_path, m_b_process_result := True, m_b_process_complete := True\<rparr>"

definition success_ing :: "wstring \<Rightarrow> cresult \<Rightarrow> cresult" where
  "success_ing s_dev_path res =
     res\<lparr>m_b_process_exist_session := True, m_s_dev_path := s_dev_path, m_b_process_result := True,
         m_b_process_complete := False\<rparr>"

definition set_selected_session_state :: "type_result_evt \<Rightarrow> cresult \<Rightarrow> cresult" where
  "set_selected_session_state st_result res =
     res\<lparr>m_st_session_new := fst (snd st_result), m_st_session_old := snd (snd st_result)\<rparr>"

definition set_combination_state :: "type_state \<Rightarrow> type_state \<Rightarrow> cresult \<Rightarrow> cresult" where
  "set_combination_state st_new st_old res = res\<lparr>m_st_combination_old := st_old, m_st_combination_new := st_new\<rparr>"

definition is_changed_state_of_selected_session :: "cresult \<Rightarrow> bool" where
  "is_changed_state_of_selected_session res = (m_st_session_old res \<noteq> m_st_session_new res)"

definition is_changed_combination_state_of_all_session :: "cresult \<Rightarrow> bool" where
  "is_changed_combination_state_of_all_session res = (m_st_combination_old res \<noteq> m_st_combination_new res)"

section \<open>Opening\<close>

text \<open>
  The HID library as far as opening a device needs it: whether it runs, and for a path whether the device is
  there, with its state and whether it can be shared.
\<close>

record hid_env =
  e_is_ini :: bool
  e_device :: "wstring \<Rightarrow> (bool \<times> bool) option"

text \<open>The device path of an open request, empty for an error, and whether sharing was asked for.\<close>

definition get_device_path_from_req :: "(bytes \<Rightarrow> wstring) \<Rightarrow> hid_env \<Rightarrow> request \<Rightarrow> (wstring \<times> bool) option" where
  "get_device_path_from_req to_wide env r =
     (if \<not> e_is_ini env then Some ([], False)
      else if m_type_data_field (r_packet r) \<noteq> data_field_string_utf8 then Some ([], False)
      else map_option (\<lambda>l. case l of
             [] \<Rightarrow> ([], False)
           | [s] \<Rightarrow> (s, False)
           | s # s_mode # l' \<Rightarrow> (s, s_mode = text_of ''share'')) (get_data_list to_wide (r_packet r)))"

definition is_openable :: "bool \<Rightarrow> bool \<Rightarrow> nat \<Rightarrow> bool" where
  "is_openable b_support b_request n_open_cnt =
     (if n_open_cnt > 0 \<and> n_open_cnt \<ge> 20 then False
      else [True, False, False, False, True, False, True, True]
             ! ((if b_support then 4 else 0) + (if b_request then 2 else 0) + (if n_open_cnt > 0 then 1 else 0)))"

definition open_device_by_req :: "hid_env \<Rightarrow> wstring \<Rightarrow> bool \<Rightarrow> nat \<Rightarrow> bool" where
  "open_device_by_req env s_dev_path b_open_by_shared_mode n_open_cnt =
     (case e_device env s_dev_path of
        None \<Rightarrow> False
      | Some (b_open, b_support_shared) \<Rightarrow>
          b_open \<and> is_openable b_support_shared b_open_by_shared_mode n_open_cnt)"

text \<open>The mask of a state is never read back.\<close>

lemma state_from_mask_undefined: "get_state_from_mask (get_mask_from_state st) = st_undefined"
  by (simp add: get_state_from_mask_def)

end
