(* ===== verification/Decimal.thy ===== *)
theory Decimal
  imports Convert Codec
begin

text \<open>
  Numbers as text and as BCD (\<open>src/shared/lib/inc/mp_cconvert.h\<close>). \<open>std::stoul\<close> and the output of numbers
  by streams are those of the C++ library with a 32-bit \<open>unsigned long\<close> (Windows).
\<close>

section \<open>Numbers as text\<close>

function digits :: "nat \<Rightarrow> nat \<Rightarrow> nat list" where
  "digits n_base n =
     (if n_base < 2 then [] else if n < n_base then [n] else digits n_base (n div n_base) @ [n mod n_base])"
  by pat_completeness auto
termination
  by (relation "measure (\<lambda>(b, n). n)") (auto intro: div_less_dividend)

declare digits.simps [simp del]

definition number_text :: "nat \<Rightarrow> nat \<Rightarrow> 'w::len word list" where
  "number_text n_base n = map hex_char (digits n_base n)"

definition get_string_byte :: "byte \<Rightarrow> nat \<Rightarrow> 'w::len word list \<Rightarrow> 'w word list" where
  "get_string_byte c_src n_base s_prefix =
     (if n_base = 10 then s_prefix @ number_text 10 (unat c_src)
      else if n_base = 16 then s_prefix @ hex_of_byte c_src
      else [])"

fun get_string_bytes ::
  "bytes \<Rightarrow> nat \<Rightarrow> 'w::len word list \<Rightarrow> 'w word list \<Rightarrow> 'w word list" where
  "get_string_bytes [] n_base s_prefix s_delimiter = []"
| "get_string_bytes [c] n_base s_prefix s_delimiter = get_string_byte c n_base s_prefix"
| "get_string_bytes (c # cs) n_base s_prefix s_delimiter =
     get_string_byte c n_base s_prefix @ s_delimiter @ get_string_bytes cs n_base s_prefix s_delimiter"

definition get_string_u32 :: "u32 \<Rightarrow> nat \<Rightarrow> 'w::len word list \<Rightarrow> 'w word list" where
  "get_string_u32 dw_src n_base s_prefix =
     (if n_base = 10 \<or> n_base = 16 then s_prefix @ number_text n_base (unat dw_src) else [])"

section \<open>Text as a number\<close>

definition digit_value :: "'w::len word \<Rightarrow> nat option" where
  "digit_value c =
     (if 0x30 \<le> c \<and> c \<le> 0x39 then Some (unat c - 0x30)
      else if 0x61 \<le> c \<and> c \<le> 0x7A then Some (unat c - 0x61 + 10)
      else if 0x41 \<le> c \<and> c \<le> 0x5A then Some (unat c - 0x41 + 10)
      else None)"

definition digit_of :: "nat \<Rightarrow> 'w::len word \<Rightarrow> nat option" where
  "digit_of n_base c = (case digit_value c of Some d \<Rightarrow> if d < n_base then Some d else None | None \<Rightarrow> None)"

text \<open>The longest run of digits at the front; what follows it is not looked at.\<close>

fun leading_digits :: "nat \<Rightarrow> 'w::len word list \<Rightarrow> nat list" where
  "leading_digits n_base [] = []"
| "leading_digits n_base (c # cs) =
     (case digit_of n_base c of Some d \<Rightarrow> d # leading_digits n_base cs | None \<Rightarrow> [])"

definition number_value :: "nat \<Rightarrow> nat list \<Rightarrow> nat" where
  "number_value n_base ds = foldl (\<lambda>n d. n * n_base + d) 0 ds"

text \<open>\<open>std::stoul\<close>; \<open>None\<close> is one of its exceptions: no digits, or a number out of range.\<close>

definition stoul :: "nat \<Rightarrow> 'w::len word list \<Rightarrow> u32 option" where
  "stoul n_base s =
     (let s1 = dropWhile white_space s;
          b_minus = (s1 \<noteq> [] \<and> hd s1 = 0x2D);
          s2 = (if s1 \<noteq> [] \<and> (hd s1 = 0x2D \<or> hd s1 = 0x2B) then tl s1 else s1);
          s3 = (if n_base = 16 \<and> length s2 > 2 \<and> s2 ! 0 = 0x30 \<and> (s2 ! 1 = 0x78 \<or> s2 ! 1 = 0x58)
                   \<and> digit_of 16 (s2 ! 2) \<noteq> None then drop 2 s2 else s2);
          ds = leading_digits n_base s3; n = number_value n_base ds
      in if ds = [] \<or> n \<ge> 2 ^ 32 then None
         else Some (if b_minus then - of_nat n else of_nat n))"

definition remove_spaces :: "'w::len word list \<Rightarrow> 'w word list" where
  "remove_spaces s = filter (\<lambda>c. \<not> white_space c) s"

text \<open>\<open>Some\<close> is the result true with the value.\<close>

definition get_value :: "'w::len word list \<Rightarrow> nat \<Rightarrow> u32 option" where
  "get_value s_src n_base =
     (if s_src = [] then None
      else if n_base \<noteq> 10 \<and> n_base \<noteq> 16 then None
      else stoul n_base (remove_spaces s_src))"

definition get_value_byte :: "'w::len word list \<Rightarrow> nat \<Rightarrow> byte option" where
  "get_value_byte s_src n_base =
     (case get_value s_src n_base of
        None \<Rightarrow> None
      | Some l_value \<Rightarrow> if l_value > 0xFF then None else Some (ucast l_value))"

text \<open>The base from the text: \<open>0x\<close> in front or \<open>h\<close> behind.\<close>

definition base_of_text :: "'w::len word list \<Rightarrow> 'w word list \<times> nat" where
  "base_of_text s_char =
     (if length s_char > 2 then
        (if s_char ! 0 = 0x30 \<and> s_char ! 1 = 0x78 then (drop 2 s_char, 16)
         else if last s_char = 0x68 \<or> last s_char = 0x48 then (butlast s_char, 16)
         else (s_char, 10))
      else if length s_char = 2 then
        (if last s_char = 0x68 \<or> last s_char = 0x48 then (butlast s_char, 16) else (s_char, 10))
      else (s_char, 10))"

definition get_value_auto :: "'w::len word list \<Rightarrow> u32 option" where
  "get_value_auto s_src =
     (if s_src = [] then None
      else case base_of_text (remove_spaces s_src) of (s_char, n_base) \<Rightarrow> get_value s_char n_base)"

definition get_value_byte_auto :: "'w::len word list \<Rightarrow> byte option" where
  "get_value_byte_auto s_src =
     (if s_src = [] then None
      else case base_of_text (remove_spaces s_src) of (s_char, n_base) \<Rightarrow> get_value_byte s_char n_base)"

section \<open>BCD\<close>

definition bcd_char :: "'w::len word \<Rightarrow> 'w word" where
  "bcd_char c = (if c > 0x39 then c - 0x41 + 10 else c - 0x30)"

fun pack_bcd :: "'w::len word list \<Rightarrow> bytes" where
  "pack_bcd (a # b # cs) = ucast (push_bit 4 (bcd_char a) + bcd_char b) # pack_bcd cs"
| "pack_bcd _ = []"

text \<open>The wide version, of a text; a wanted size of 0 takes what comes out.\<close>

definition bcd_code :: "'w::len word list \<Rightarrow> nat \<Rightarrow> bool \<Rightarrow> bool \<times> bytes" where
  "bcd_code s_decimal n_bcd_size b_left_zero_padding =
     (let s_in = (if length s_decimal mod 2 \<noteq> 0
                  then (if b_left_zero_padding then 0x30 # s_decimal else s_decimal @ [0x30]) else s_decimal);
          v_bcd = pack_bcd s_in
      in if n_bcd_size > 0 then
           (if n_bcd_size < length v_bcd then (False, [])
            else (True, if b_left_zero_padding then replicate (n_bcd_size - length v_bcd) 0 @ v_bcd
                        else v_bcd @ replicate (n_bcd_size - length v_bcd) 0))
         else (True, v_bcd))"

definition get_bcd_code_from_decimal_stirng :: "16 word list \<Rightarrow> nat \<Rightarrow> bool \<Rightarrow> bool \<times> bytes" where
  "get_bcd_code_from_decimal_stirng s_decimal = bcd_code s_decimal"

definition get_bcd_code :: "u32 \<Rightarrow> nat \<Rightarrow> bool \<Rightarrow> bool \<times> bytes" where
  "get_bcd_code n_in = bcd_code (number_text 10 (unat n_in) :: byte list)"

text \<open>The version with a filler: nibble by nibble into a prepared array; a character that is no digit
  ends the loop and leaves what was written so far.\<close>

fun bcd_fill :: "bool \<Rightarrow> nat \<Rightarrow> bytes \<Rightarrow> bytes \<Rightarrow> (bool \<times> bytes) option" where
  "bcd_fill b_high hex_cur [] v = Some (True, v)"
| "bcd_fill b_high hex_cur (c # cs) v =
     (let digit = c - 0x30
      in if sint digit < 0 \<or> sint digit > 9 then Some (False, v)
         else if hex_cur \<ge> length v then None
         else if b_high
           then bcd_fill False hex_cur cs (v[hex_cur := (push_bit 4 digit AND 0xF0) OR (v ! hex_cur AND 0x0F)])
         else bcd_fill True (Suc hex_cur) cs (v[hex_cur := digit OR (v ! hex_cur AND 0xF0)]))"

definition get_bcd_code_with_filler ::
  "bytes \<Rightarrow> nat \<Rightarrow> byte \<Rightarrow> bool \<Rightarrow> (bool \<times> bytes) option" where
  "get_bcd_code_with_filler s_decimal n_bcd_size c_filler b_left_justify =
     (let n = length s_decimal; hex_req = n div 2 + n mod 2
      in if hex_req > n_bcd_size then Some (False, [])
         else bcd_fill (b_left_justify \<or> n mod 2 = 0) (if b_left_justify then 0 else n_bcd_size - hex_req)
                s_decimal (replicate n_bcd_size c_filler))"

definition is_digit :: "byte \<Rightarrow> bool" where
  "is_digit c = (0x30 \<le> c \<and> c \<le> 0x39)"

fun ascii_bcd :: "bytes \<Rightarrow> bytes option" where
  "ascii_bcd (a # b # cs) =
     (if \<not> is_digit a \<or> \<not> is_digit b then None
      else map_option ((#) (push_bit 4 (a - 0x30) + (b - 0x30))) (ascii_bcd cs))"
| "ascii_bcd _ = Some []"

definition get_bcd_code_ascii :: "bytes \<Rightarrow> bool \<times> bytes" where
  "get_bcd_code_ascii v_ascii_numeric =
     (if v_ascii_numeric = [] \<or> length v_ascii_numeric mod 2 \<noteq> 0 then (False, [])
      else case ascii_bcd v_ascii_numeric of None \<Rightarrow> (False, []) | Some v \<Rightarrow> (True, v))"

text \<open>Two digits per byte; the check for an overflow comes before the multiplication only.\<close>

fun bcd_value_loop :: "u32 \<Rightarrow> bytes \<Rightarrow> u32 option" where
  "bcd_value_loop l_out [] = Some l_out"
| "bcd_value_loop l_out (c # cs) =
     (if l_out > 0xFFFFFFFF div 100 then None
      else if drop_bit 4 c > 9 then None
      else if c AND 0x0F > 9 then None
      else bcd_value_loop (l_out * 100 + ucast (drop_bit 4 c) * 10 + ucast (c AND 0x0F)) cs)"

definition get_value_from_bcd_code :: "bytes \<Rightarrow> u32 option" where
  "get_value_from_bcd_code ps_bcd = (if ps_bcd = [] then None else bcd_value_loop 0 ps_bcd)"

section \<open>Reading back\<close>

lemma number_value_digits: "2 \<le> b \<Longrightarrow> number_value b (digits b n) = n"
proof (induction b n rule: digits.induct)
  case (1 b n)
  show ?case
  proof (cases "n < b")
    case True
    then show ?thesis using 1 by (simp add: digits.simps [of b n] number_value_def)
  next
    case False
    then have "number_value b (digits b (n div b)) = n div b" using 1 by simp
    then show ?thesis using 1(2) False by (simp add: digits.simps [of b n] number_value_def)
  qed
qed

lemma digits_less: "2 \<le> b \<Longrightarrow> d \<in> set (digits b n) \<Longrightarrow> d < b"
proof (induction b n rule: digits.induct)
  case (1 b n)
  then show ?case by (subst (asm) (2) digits.simps) (auto split: if_splits)
qed

lemma digits_nonempty [simp]: "2 \<le> b \<Longrightarrow> digits b n \<noteq> []"
  by (subst digits.simps) auto

text \<open>What the characters of numbers are not.\<close>

lemma hex_char_text:
  assumes "n < 16" "8 \<le> LENGTH('w::len)"
  shows "digit_value (hex_char n :: 'w word) = Some n"
    "(hex_char n :: 'w word) \<notin> {0x2D, 0x2B, 0x78, 0x58, 0x68, 0x48}"
    "\<not> white_space (0x30 :: 'w word)" "\<not> white_space (0x78 :: 'w word)" "(0x78 :: 'w word) \<noteq> 0x30"
proof -
  have big: "(2::nat) ^ 8 \<le> 2 ^ LENGTH('w)" using assms(2) by (rule power_increasing) simp
  have c: "take_bit LENGTH('w) (numeral k :: nat) = numeral k" if "numeral k < (256::nat)" for k
    by (rule take_bit_nat_eq_self) (use less_le_trans [OF that] big in simp)
  have v: "unat (of_nat m :: 'w word) = m" if "m < 256" for m
    using that big by (simp add: unat_of_nat take_bit_nat_eq_self)
  have b: "unat (hex_char n :: 'w word) = (if n < 10 then 0x30 + n else 0x57 + n)"
    using v [of "0x30 + n"] v [of "0x61 + (n - 10)"] assms(1) by (auto simp: hex_char_def)
  show "digit_value (hex_char n :: 'w word) = Some n"
    using assms(1) by (auto simp: digit_value_def word_le_nat_alt b c)
  show "(hex_char n :: 'w word) \<notin> {0x2D, 0x2B, 0x78, 0x58, 0x68, 0x48}"
    using assms(1) by (auto simp: word_unat_eq_iff b c)
  show "\<not> white_space (0x30 :: 'w word)" "\<not> white_space (0x78 :: 'w word)" "(0x78 :: 'w word) \<noteq> 0x30"
    by (simp_all add: white_space_def word_unat_eq_iff c)
qed

lemma leading_digits_text:
  assumes "8 \<le> LENGTH('w::len)" "b \<le> 16"
  shows "\<forall>d\<in>set ds. d < b \<Longrightarrow> leading_digits b (map hex_char ds :: 'w word list) = ds"
  using hex_char_text(1) [OF _ assms(1)] assms(2) by (induction ds) (simp_all add: digit_of_def)

lemma remove_spaces_text:
  assumes "8 \<le> LENGTH('w::len)" "\<forall>d\<in>set ds. d < 16"
  shows "remove_spaces (map hex_char ds :: 'w word list) = map hex_char ds"
  using assms nibble_hex_char [where 'w = 'w] by (auto simp: remove_spaces_def)

lemma stoul_text:
  assumes "8 \<le> LENGTH('w::len)" "b = 10 \<or> b = 16" "n < 2 ^ 32"
  shows "stoul b (number_text b n :: 'w word list) = Some (of_nat n)"
proof -
  let ?s = "number_text b n :: 'w word list"
  have b: "2 \<le> b" "b \<le> 16" using assms(2) by auto
  have d: "\<forall>d\<in>set (digits b n). d < b" "\<forall>d\<in>set (digits b n). d < 16"
    using digits_less [OF b(1)] b(2) by (auto intro: less_le_trans)
  obtain k ks where ks: "digits b n = k # ks" using digits_nonempty [OF b(1), of n] by (cases "digits b n") auto
  have w: "dropWhile white_space ?s = ?s"
    using nibble_hex_char [where 'w = 'w] d(2) assms(1) by (simp add: number_text_def ks)
  have h: "hd ?s \<noteq> 0x2D" "hd ?s \<noteq> 0x2B" using hex_char_text(2) [OF _ assms(1), of k] d(2) by (simp_all add: number_text_def ks)
  have x: "\<not> (length ?s > 2 \<and> ?s ! 0 = 0x30 \<and> (?s ! 1 = 0x78 \<or> ?s ! 1 = 0x58))"
    using hex_char_text(2) [OF _ assms(1), of "digits b n ! 1"] d(2) by (auto simp: number_text_def)
  have l: "leading_digits b ?s = digits b n"
    unfolding number_text_def by (rule leading_digits_text [OF assms(1) b(2) d(1)])
  show ?thesis
    unfolding stoul_def w using h x l assms(3) number_value_digits [OF b(1), of n] digits_nonempty [OF b(1), of n]
    by (auto simp: Let_def)
qed

lemma get_value_text:
  assumes "8 \<le> LENGTH('w::len)" "b = 10 \<or> b = 16"
  shows "get_value (number_text b (unat n) :: 'w word list) b = Some n"
proof -
  have b: "2 \<le> b" "b \<le> 16" using assms(2) by auto
  have "remove_spaces (number_text b (unat n) :: 'w word list) = number_text b (unat n)"
    unfolding number_text_def
    by (rule remove_spaces_text [OF assms(1)]) (use digits_less [OF b(1)] b(2) in \<open>auto intro: less_le_trans\<close>)
  moreover have "(number_text b (unat n) :: 'w word list) \<noteq> []" using b by (simp add: number_text_def)
  ultimately show ?thesis using stoul_text [OF assms, of "unat n"] assms(2) unsigned_less [of n] by (auto simp: get_value_def)
qed

lemma get_value_auto_text:
  assumes "8 \<le> LENGTH('w::len)"
  shows "get_value_auto (number_text 10 (unat n) :: 'w word list) = Some n"
    "get_value_auto ([0x30, 0x78] @ number_text 16 (unat n) :: 'w word list) = Some n"
proof -
  have d: "\<forall>d\<in>set (digits b (unat n)). d < 16" if "b = 10 \<or> b = 16" for b
    using digits_less [of b] that by fastforce
  have r: "remove_spaces (number_text b (unat n) :: 'w word list) = number_text b (unat n)" if "b = 10 \<or> b = 16" for b
    unfolding number_text_def by (rule remove_spaces_text [OF assms d [OF that]])
  let ?t = "number_text 10 (unat n) :: 'w word list" and ?ds = "digits 10 (unat n)"
  have ne: "?ds \<noteq> []" "digits 16 (unat n) \<noteq> []" by simp_all
  have "last ?ds < 16" "1 < length ?ds \<Longrightarrow> ?ds ! 1 < 16" using d [of 10] ne by simp_all
  then have "last ?t \<notin> {0x68, 0x48}" "1 < length ?ds \<Longrightarrow> ?t ! 1 \<noteq> 0x78"
    using hex_char_text(2) [OF _ assms, of "last ?ds"] hex_char_text(2) [OF _ assms, of "?ds ! 1"] ne
    by (auto simp: number_text_def last_map)
  then have "base_of_text ?t = (?t, 10)" by (auto simp: base_of_text_def number_text_def)
  moreover have "?t \<noteq> []" using ne by (simp add: number_text_def)
  ultimately show "get_value_auto ?t = Some n"
    using r [of 10] get_value_text [OF assms, of 10 n] by (simp add: get_value_auto_def)
  let ?h = "number_text 16 (unat n) :: 'w word list"
  have "remove_spaces ([0x30, 0x78] @ ?h) = [0x30, 0x78] @ ?h"
    using r [of 16] hex_char_text(3,4) [of 0, OF _ assms] by (simp add: remove_spaces_def)
  moreover have "base_of_text ([0x30, 0x78] @ ?h) = (?h, 16)"
    using ne by (simp add: base_of_text_def number_text_def)
  ultimately show "get_value_auto ([0x30, 0x78] @ ?h) = Some n"
    using get_value_text [OF assms, of 16 n] by (simp add: get_value_auto_def)
qed

text \<open>A number that was written as text, decimal or hexadecimal, narrow or wide, is read back, also when
  the base is taken from the text.\<close>

theorem number_text_roundtrip:
  "get_value (get_string_u32 n 10 [] :: 16 word list) 10 = Some n
   \<and> get_value (get_string_u32 n 16 [] :: 16 word list) 16 = Some n
   \<and> get_value_auto (get_string_u32 n 10 [] :: 16 word list) = Some n
   \<and> get_value_auto (get_string_u32 n 16 [0x30, 0x78] :: 16 word list) = Some n"
  using get_value_text [where 'w = 16, of 10 n] get_value_text [where 'w = 16, of 16 n]
    get_value_auto_text [where 'w = 16, of n]
  by (simp add: get_string_u32_def)

text \<open>What follows the digits is not looked at.\<close>

lemma trailing_text_ignored: "get_value [0x31, 0x32, 0x7A, 0x7A :: 16 word] 10 = Some 12"
  by (simp add: get_value_def stoul_def remove_spaces_def white_space_def digit_of_def digit_value_def
      number_value_def Let_def)

section \<open>BCD read back\<close>

definition bcd_digits :: "bytes \<Rightarrow> nat list" where
  "bcd_digits bs = concat (map (\<lambda>c. [unat c div 16, unat c mod 16]) bs)"

lemma foldl_grows: "(l :: nat) \<le> foldl (\<lambda>n d. n * 10 + d) l ds"
proof (induction ds arbitrary: l)
  case (Cons d ds)
  have "l \<le> l * 10 + d" by simp
  also have "\<dots> \<le> foldl (\<lambda>n d. n * 10 + d) (l * 10 + d) ds" by (rule Cons.IH)
  finally show ?case by simp
qed simp

lemma unat_nibbles: "unat (drop_bit 4 (c :: byte)) = unat c div 16" "unat (c AND 0x0F) = unat c mod 16"
proof -
  show "unat (drop_bit 4 c) = unat c div 16"
    by (simp only: unsigned_drop_bit_eq) (simp add: drop_bit_eq_div take_bit_eq_mod unsigned_less [of c, simplified])
  have "(0x0F :: byte) = mask 4" by (simp add: mask_eq_decr_exp)
  then have "c AND 0x0F = take_bit 4 c" by (simp only: take_bit_eq_mask)
  then have "unat (c AND 0x0F) = take_bit 4 (unat c)" by (simp only: unsigned_take_bit_eq)
  then show "unat (c AND 0x0F) = unat c mod 16" by (simp only: take_bit_eq_mod) simp
qed

lemma bcd_value_loop_value:
  assumes "\<forall>d\<in>set (bcd_digits cs). d < 10" "foldl (\<lambda>n d. n * 10 + d) l (bcd_digits cs) < 2 ^ 32"
  shows "bcd_value_loop (of_nat l) cs = Some (of_nat (foldl (\<lambda>n d. n * 10 + d) l (bcd_digits cs)))"
  using assms
proof (induction cs arbitrary: l)
  case Nil
  then show ?case by (simp add: bcd_digits_def)
next
  case (Cons c cs)
  let ?h = "unat c div 16" and ?l = "unat c mod 16"
  let ?n = "(l * 10 + ?h) * 10 + ?l"
  have v: "foldl (\<lambda>n d. n * 10 + d) l (bcd_digits (c # cs)) = foldl (\<lambda>n d. n * 10 + d) ?n (bcd_digits cs)"
    by (simp add: bcd_digits_def)
  then have "?n < 2 ^ 32" using Cons.prems(2) foldl_grows [of ?n "bcd_digits cs"] by linarith
  then have small: "l \<le> 42949672" by simp
  then have ul: "unat (of_nat l :: u32) = l" by (simp add: unat_of_nat take_bit_nat_eq_self)
  have d: "?h < 10" "?l < 10" using Cons.prems(1) by (simp_all add: bcd_digits_def)
  have u: "(ucast (drop_bit 4 c) :: u32) = of_nat ?h" "(ucast (c AND 0x0F) :: u32) = of_nat ?l"
    using of_nat_unat [of "drop_bit 4 c", where ?'a = u32] of_nat_unat [of "c AND 0x0F", where ?'a = u32]
    unfolding unat_nibbles by simp_all
  have "(of_nat l * 100 + ucast (drop_bit 4 c) * 10 + ucast (c AND 0x0F) :: u32) = of_nat ?n"
    unfolding u by (simp add: algebra_simps)
  moreover have "\<not> (of_nat l :: u32) > 0xFFFFFFFF div 100"
    using small by (simp add: word_less_nat_alt ul)
  moreover have "\<not> drop_bit 4 c > 9" "\<not> c AND 0x0F > 9"
    using d by (simp_all add: word_less_nat_alt unat_nibbles)
  moreover have "bcd_value_loop (of_nat ?n) cs = Some (of_nat (foldl (\<lambda>n d. n * 10 + d) ?n (bcd_digits cs)))"
    by (rule Cons.IH) (use Cons.prems v in \<open>simp_all add: bcd_digits_def\<close>)
  ultimately show ?case by (simp only: v bcd_value_loop.simps if_False)
qed

lemma bcd_char_digit:
  assumes "n < 10"
  shows "unat (bcd_char (hex_char n :: byte)) = n"
proof -
  have u: "unat (of_nat (0x30 + n) :: byte) = 0x30 + n" using assms by (simp only: unat_of_nat) (simp add: take_bit_nat_eq_self)
  have "hex_char n = (of_nat (0x30 + n) :: byte)" using assms by (simp add: hex_char_def)
  moreover have "\<not> (of_nat (0x30 + n) :: byte) > 0x39" using assms u by (simp add: word_less_nat_alt)
  moreover have "(of_nat (0x30 + n) :: byte) - 0x30 = of_nat n" by simp
  ultimately show ?thesis using assms by (simp add: bcd_char_def unat_of_nat take_bit_nat_eq_self)
qed

lemma pack_bcd_digits:
  assumes "\<forall>d\<in>set ds. d < 10" "even (length ds)"
  shows "bcd_digits (pack_bcd (map hex_char ds :: byte list)) = ds"
  using assms
proof (induction ds rule: induct_list012)
  case (3 a b ds)
  have ab: "a < 10" "b < 10" using 3 by simp_all
  let ?c = "push_bit 4 (bcd_char (hex_char a)) + bcd_char (hex_char b) :: byte"
  have "unat (push_bit 4 (bcd_char (hex_char a :: byte))) = 16 * a"
    using ab bcd_char_digit [OF ab(1)] by (simp add: push_bit_eq_mult unat_word_ariths)
  then have "unat ?c = 16 * a + b" using ab bcd_char_digit [OF ab(2)] by (simp add: unat_word_ariths)
  then show ?case using 3 ab by (simp add: bcd_digits_def)
qed (simp_all add: bcd_digits_def)

text \<open>BCD can be read back: the code that \<open>get_bcd_code\<close> makes of a number, padded on the left, has that
  number as its value; and every code of digits whose value fits into 32 bits is read with that value.\<close>

theorem bcd_roundtrip:
  "get_value_from_bcd_code (snd (get_bcd_code n 0 True)) = Some n
   \<and> (\<forall>bs. bs \<noteq> [] \<longrightarrow> (\<forall>d\<in>set (bcd_digits bs). d < 10) \<longrightarrow> number_value 10 (bcd_digits bs) < 2 ^ 32
        \<longrightarrow> get_value_from_bcd_code bs = Some (of_nat (number_value 10 (bcd_digits bs))))"
proof -
  have read: "get_value_from_bcd_code bs = Some (of_nat (number_value 10 (bcd_digits bs)))"
    if "bs \<noteq> []" "\<forall>d\<in>set (bcd_digits bs). d < 10" "number_value 10 (bcd_digits bs) < 2 ^ 32" for bs
    using that bcd_value_loop_value [of bs 0] by (simp add: get_value_from_bcd_code_def number_value_def)
  let ?d = "digits 10 (unat n)"
  let ?e = "if length ?d mod 2 \<noteq> 0 then 0 # ?d else ?d"
  have d: "\<forall>d\<in>set ?e. d < 10" using digits_less [of 10 _ "unat n"] by auto
  have z: "hex_char 0 = (0x30 :: byte)" by (simp add: hex_char_def)
  have code: "snd (get_bcd_code n 0 True) = pack_bcd (map hex_char ?e :: byte list)"
    by (simp add: get_bcd_code_def bcd_code_def Let_def number_text_def flip: z)
  have "even (length ?e)" by (simp add: mod2_eq_if)
  then have digits: "bcd_digits (pack_bcd (map hex_char ?e :: byte list)) = ?e"
    by (rule pack_bcd_digits [OF d])
  have val: "number_value 10 ?e = unat n"
    using number_value_digits [of 10 "unat n"] by (simp add: number_value_def)
  have "?e \<noteq> []" by simp
  then have "pack_bcd (map hex_char ?e :: byte list) \<noteq> []"
    using digits by (cases "pack_bcd (map hex_char ?e :: byte list)") (auto simp: bcd_digits_def)
  moreover have "unat n < 2 ^ 32" using unsigned_less [of n] by simp
  ultimately have "get_value_from_bcd_code (pack_bcd (map hex_char ?e :: byte list))
    = Some (of_nat (number_value 10 (bcd_digits (pack_bcd (map hex_char ?e :: byte list)))))"
    by (intro read) (use d in \<open>simp_all only: digits val, simp_all\<close>)
  then have "get_value_from_bcd_code (snd (get_bcd_code n 0 True)) = Some n"
    unfolding code digits val by simp
  then show ?thesis using read by blast
qed

theorem bcd_roundtrip_witness:
  "get_value_from_bcd_code (snd (get_bcd_code 1234 0 True)) = Some 1234
   \<and> get_value_from_bcd_code [0x42, 0x94, 0x96, 0x72, 0x95] = Some 4294967295"
proof -
  have "bcd_digits [0x42, 0x94, 0x96, 0x72, 0x95] = [4, 2, 9, 4, 9, 6, 7, 2, 9, 5]"
    by (simp add: bcd_digits_def)
  then have "\<forall>d\<in>set (bcd_digits [0x42, 0x94, 0x96, 0x72, 0x95]). d < 10"
    and "number_value 10 (bcd_digits [0x42, 0x94, 0x96, 0x72, 0x95]) = 4294967295"
    by (simp_all add: number_value_def)
  then have "get_value_from_bcd_code [0x42, 0x94, 0x96, 0x72, 0x95] = Some 4294967295"
    using conjunct2 [OF bcd_roundtrip [of 0], rule_format, of "[0x42, 0x94, 0x96, 0x72, 0x95]"] by fastforce
  then show ?thesis using conjunct1 [OF bcd_roundtrip, of 1234] by simp
qed

text \<open>Four values behind the largest one are accepted and wrap around; more digits can follow them.\<close>

lemma bcd_overflow_accepted:
  "get_value_from_bcd_code [0x42, 0x94, 0x96, 0x72, 0x96] = Some 0"
  "get_value_from_bcd_code [0x42, 0x94, 0x96, 0x72, 0x96, 0x12] = Some 12"
  by (simp_all add: get_value_from_bcd_code_def)

end
