(* ===== verification/CtlSvr.thy ===== *)
theory CtlSvr
  imports CtlBase Decimal "HOL-Library.Multiset"
begin

text \<open>
  The control of the daemon (\<open>cctl_svr\<close> in \<open>src/shared/lib/src/server/mp_cctl_svr_.cpp\<close>): the names of the
  sessions, the workers (one for the management requests, one for every session, one for every device), the
  devices that a session uses, and the way of a request to the queue of its worker. A worker is its queue of
  requests here, that of a device with the path of the device.
\<close>

record dev_entry =
  de_path :: wstring
  de_queue :: "cio_packet list"

record ctl_svr =
  cs_names :: "wstring session_map"
  cs_kernels :: "cio_packet list session_map"
  cs_main :: "cio_packet list option"
  cs_new_index :: u16
  cs_devices :: "(u16, dev_entry) ordered_map"
  cs_sets :: "u16 list session_map"

definition ctl_svr_ini :: ctl_svr where
  "ctl_svr_ini = \<lparr>cs_names = [], cs_kernels = [], cs_main = None, cs_new_index = 1, cs_devices = [], cs_sets = []\<rparr>"

text \<open>The header of a packet. Every packet that reaches the control is valid, so it has one.\<close>

definition p_header :: "cio_packet \<Rightarrow> type_packect" where
  "p_header p = (case header p of Some h \<Rightarrow> h | None \<Rightarrow> echo_header)"

section \<open>Workers\<close>

definition create_kernel_ctl :: "u32 \<Rightarrow> ctl_svr \<Rightarrow> ctl_svr" where
  "create_kernel_ctl session s =
     (if map_of (cs_kernels s) session = None then s\<lparr>cs_kernels := map_put session [] (cs_kernels s)\<rparr> else s)"

definition remove_kernel_ctl :: "u32 \<Rightarrow> ctl_svr \<Rightarrow> ctl_svr" where
  "remove_kernel_ctl session s = s\<lparr>cs_kernels := map_erase session (cs_kernels s)\<rparr>"

definition create_main_ctl_and_set_callack :: "ctl_svr \<Rightarrow> ctl_svr" where
  "create_main_ctl_and_set_callack s = s\<lparr>cs_main := Some []\<rparr>"

text \<open>The next index skips 0; an old device under the same index is replaced.\<close>

definition create_new_dev_ctl :: "wstring \<Rightarrow> ctl_svr \<Rightarrow> u16 \<times> ctl_svr" where
  "create_new_dev_ctl s_path s =
     (let w = cs_new_index s; w' = w + 1 in
      (w, s\<lparr>cs_devices := map_put w \<lparr>de_path = s_path, de_queue = []\<rparr> (cs_devices s),
            cs_new_index := (if w' = 0 then 1 else w')\<rparr>))"

text \<open>The index of the first device with the path; \<open>None\<close> stands for no device.\<close>

definition get_dev_ctl_by_path :: "wstring \<Rightarrow> ctl_svr \<Rightarrow> u16 option" where
  "get_dev_ctl_by_path s_device_path s =
     (if s_device_path = [] then None
      else map_option fst (find (\<lambda>(w, d). de_path d = s_device_path) (cs_devices s)))"

definition remove_dev_ctl :: "wstring \<Rightarrow> ctl_svr \<Rightarrow> u16 \<times> ctl_svr" where
  "remove_dev_ctl s_device_path s =
     (case get_dev_ctl_by_path s_device_path s of
        None \<Rightarrow> (0, s)
      | Some w \<Rightarrow> (w, s\<lparr>cs_devices := map_erase w (cs_devices s)\<rparr>))"

definition get_device_path_from_device_index :: "u16 \<Rightarrow> ctl_svr \<Rightarrow> wstring" where
  "get_device_path_from_device_index w s = (case map_of (cs_devices s) w of None \<Rightarrow> [] | Some d \<Rightarrow> de_path d)"

definition get_device_index_from_device_path :: "wstring \<Rightarrow> ctl_svr \<Rightarrow> u16" where
  "get_device_index_from_device_path s_path s = (case get_dev_ctl_by_path s_path s of None \<Rightarrow> 0 | Some w \<Rightarrow> w)"

section \<open>The devices of a session\<close>

definition get_device_index_set_of_session :: "u32 \<Rightarrow> ctl_svr \<Rightarrow> u16 list" where
  "get_device_index_set_of_session session s = (case map_of (cs_sets s) session of None \<Rightarrow> [] | Some v \<Rightarrow> v)"

definition insert_device_index_to_device_index_set_of_session :: "u32 \<Rightarrow> u16 \<Rightarrow> ctl_svr \<Rightarrow> ctl_svr" where
  "insert_device_index_to_device_index_set_of_session session w s =
     (if w = 0 then s
      else s\<lparr>cs_sets := map_put session (insort_insert w (get_device_index_set_of_session session s)) (cs_sets s)\<rparr>)"

definition erase_device_index_from_device_index_set_of_session :: "u32 \<Rightarrow> u16 \<Rightarrow> ctl_svr \<Rightarrow> ctl_svr" where
  "erase_device_index_from_device_index_set_of_session session w s =
     (case map_of (cs_sets s) session of
        None \<Rightarrow> s
      | Some v \<Rightarrow> s\<lparr>cs_sets := map_put session (remove1 w v) (cs_sets s)\<rparr>)"

definition erase_device_index_set_of_session :: "u32 \<Rightarrow> ctl_svr \<Rightarrow> ctl_svr" where
  "erase_device_index_set_of_session session s = s\<lparr>cs_sets := map_erase session (cs_sets s)\<rparr>"

text \<open>The first session that uses a device.\<close>

definition get_session_number_from_device_index :: "u16 \<Rightarrow> ctl_svr \<Rightarrow> u32" where
  "get_session_number_from_device_index w s =
     (case find (\<lambda>(session, v). w \<in> set v) (cs_sets s) of None \<Rightarrow> invalid_session_number | Some (session, _) \<Rightarrow> session)"

section \<open>The names of the sessions\<close>

definition set_session_name :: "u32 \<Rightarrow> wstring \<Rightarrow> ctl_svr \<Rightarrow> bool \<times> ctl_svr" where
  "set_session_name session s_session_name s =
     (if s_session_name = [] then (False, s)
      else if map_of (cs_names s) session \<noteq> None then (False, s)
      else (True, s\<lparr>cs_names := map_put session s_session_name (cs_names s)\<rparr>))"

definition get_session_name :: "u32 \<Rightarrow> ctl_svr \<Rightarrow> wstring" where
  "get_session_name session s = (case map_of (cs_names s) session of None \<Rightarrow> [] | Some n \<Rightarrow> n)"

definition is_exist_session_name :: "wstring \<Rightarrow> ctl_svr \<Rightarrow> bool" where
  "is_exist_session_name s_session_name s = (s_session_name \<noteq> [] \<and> s_session_name \<in> set (map snd (cs_names s)))"

definition remove_session_name :: "u32 \<Rightarrow> ctl_svr \<Rightarrow> ctl_svr" where
  "remove_session_name session s = s\<lparr>cs_names := map_erase session (cs_names s)\<rparr>"

definition get_session_number_from_session_name :: "wstring \<Rightarrow> ctl_svr \<Rightarrow> u32" where
  "get_session_number_from_session_name s_session_name s =
     (if s_session_name = [] then invalid_session_number
      else case find (\<lambda>(session, n). n = s_session_name) (cs_names s) of
             None \<Rightarrow> invalid_session_number | Some (session, _) \<Rightarrow> session)"

text \<open>The loop over the counter, which is an \<open>unsigned long\<close>.\<close>

definition auto_name :: "u32 \<Rightarrow> u32 \<Rightarrow> wstring" where
  "auto_name session n_count = number_text 10 (unat session) @ text_of ''_auto_by_cm_'' @ number_text 10 (unat n_count)"

partial_function (option) name_loop :: "u32 \<Rightarrow> u32 \<Rightarrow> ctl_svr \<Rightarrow> wstring option" where
  "name_loop session n_count s =
     (if is_exist_session_name (auto_name session n_count) s then name_loop session (n_count + 1) s
      else Some (auto_name session n_count))"

definition generate_session_name :: "u32 \<Rightarrow> ctl_svr \<Rightarrow> wstring option" where
  "generate_session_name session s = name_loop session 0 s"

section \<open>The way of a request\<close>

definition push_back_request_to_kernel_ctl :: "cio_packet \<Rightarrow> ctl_svr \<Rightarrow> bool \<times> ctl_svr" where
  "push_back_request_to_kernel_ctl p s =
     (case map_of (cs_kernels s) (n_session (p_header p)) of
        None \<Rightarrow> (False, s)
      | Some q \<Rightarrow> (True, s\<lparr>cs_kernels := map_put (n_session (p_header p)) (q @ [p]) (cs_kernels s)\<rparr>))"

definition push_back_request_to_main_ctl :: "cio_packet \<Rightarrow> ctl_svr \<Rightarrow> bool \<times> ctl_svr" where
  "push_back_request_to_main_ctl p s =
     (case cs_main s of None \<Rightarrow> (False, s) | Some q \<Rightarrow> (True, s\<lparr>cs_main := Some (q @ [p])\<rparr>))"

definition push_to_dev_ctl :: "u16 \<Rightarrow> cio_packet \<Rightarrow> ctl_svr \<Rightarrow> bool \<times> ctl_svr" where
  "push_to_dev_ctl w p s =
     (case map_of (cs_devices s) w of
        None \<Rightarrow> (False, s)
      | Some d \<Rightarrow> (True, s\<lparr>cs_devices := map_put w (d\<lparr>de_queue := de_queue d @ [p]\<rparr>) (cs_devices s)\<rparr>))"

text \<open>The index of the packet is cut to 16 bits.\<close>

definition push_back_request_to_dev_ctl :: "cio_packet \<Rightarrow> ctl_svr \<Rightarrow> bool \<times> ctl_svr" where
  "push_back_request_to_dev_ctl p s = push_to_dev_ctl (ucast (dw_device_index (p_header p))) p s"

definition push_back_request_to_dev_ctl_by_path :: "cio_packet \<Rightarrow> wstring \<Rightarrow> ctl_svr \<Rightarrow> (bool \<times> ctl_svr) option" where
  "push_back_request_to_dev_ctl_by_path p s_device_path s =
     (case get_dev_ctl_by_path s_device_path s of
        None \<Rightarrow> Some (False, s)
      | Some w \<Rightarrow> map_option (\<lambda>p'. push_to_dev_ctl w p' s) (set_device_index (ucast w) p))"

definition main_actions :: "byte list" where
  "main_actions =
     [act_mgmt_recover_operation, act_mgmt_get_version, act_mgmt_get_echo, act_mgmt_get_device_list,
      act_mgmt_ctl_show, act_mgmt_file_operation, act_mgmt_advance_operation]"

definition indexed_actions :: "byte list" where
  "indexed_actions =
     [act_dev_close, act_dev_write, act_dev_read, act_dev_transmit, act_dev_cancel, act_dev_sub_bootloader]"

text \<open>
  The reason of a refusal, or none; the outer \<open>None\<close> is a read outside the packet. The results of the pushes to the
  management and the kernel worker are not looked at. The case of the kernel operation in the last switch is
  never reached, as that action was taken before.
\<close>

definition push_request_to_worker_ctl ::
  "(bytes \<Rightarrow> wstring) \<Rightarrow> cio_packet \<Rightarrow> ctl_svr \<Rightarrow> (int option \<times> ctl_svr) option" where
  "push_request_to_worker_ctl to_wide p s =
     (let h = p_header p; pushed = (\<lambda>(b, s'). (if b then None else Some 4, s')) in
      if c_cmd h = cmd_response then Some (None, snd (push_back_request_to_main_ctl p s))
      else if c_act h = act_mgmt_dev_kernel_operation then Some (None, snd (push_back_request_to_kernel_ctl p s))
      else if c_owner h = owner_manager then
        (if c_act h \<in> set main_actions then Some (None, snd (push_back_request_to_main_ctl p s))
         else Some (Some 5, s))
      else if c_act h = act_dev_open then
        (case get_data_string to_wide p of
           None \<Rightarrow> None
         | Some s_path \<Rightarrow>
             if s_path = [] then Some (Some 3, s)
             else map_option pushed (push_back_request_to_dev_ctl_by_path p s_path s))
      else if c_act h \<in> set indexed_actions then Some (pushed (push_back_request_to_dev_ctl p s))
      else Some (Some 5, s))"

text \<open>The requests of the daemon itself for one device: cancel, then close. Their refusals are logged only.\<close>

definition close_device_of_session :: "(bytes \<Rightarrow> wstring) \<Rightarrow> u32 \<Rightarrow> ctl_svr \<Rightarrow> u16 \<Rightarrow> ctl_svr option" where
  "close_device_of_session to_wide session s w =
     (if w = 0 then Some s
      else if get_device_path_from_device_index w s = [] then Some s
      else Option.bind (build_cancel session (ucast w)) (\<lambda>p_cancel.
           Option.bind (push_request_to_worker_ctl to_wide p_cancel s) (\<lambda>(_, s1).
           Option.bind (build_close session (ucast w)) (\<lambda>p_close.
             map_option snd (push_request_to_worker_ctl to_wide p_close s1)))))"

fun close_devices :: "(bytes \<Rightarrow> wstring) \<Rightarrow> u32 \<Rightarrow> u16 list \<Rightarrow> ctl_svr \<Rightarrow> ctl_svr option" where
  "close_devices to_wide session [] s = Some s"
| "close_devices to_wide session (w # ws) s =
     Option.bind (close_device_of_session to_wide session s w) (close_devices to_wide session ws)"

definition close_all_device_of_session :: "(bytes \<Rightarrow> wstring) \<Rightarrow> u32 \<Rightarrow> ctl_svr \<Rightarrow> (bool \<times> ctl_svr) option" where
  "close_all_device_of_session to_wide session s =
     (let v = get_device_index_set_of_session session s in
      if v = [] then Some (False, s)
      else map_option (Pair True) (close_devices to_wide session v (erase_device_index_set_of_session session s)))"

section \<open>Devices that come and go\<close>

text \<open>What is told to the clients: the session and index of a removed device, the path of an inserted one.\<close>

datatype plug_notice = notice_out u32 u16 wstring | notice_in wstring

text \<open>
  \<open>_cb_dev_pluginout\<close>: the notices, in order, then the devices. The loop that should take the indices out of the sets
  of the sessions works on copies, so the sets stay as they are.
\<close>

definition plug_notices :: "wstring list \<Rightarrow> wstring list \<Rightarrow> ctl_svr \<Rightarrow> plug_notice list" where
  "plug_notices inserted removed s =
     concat (map (\<lambda>s_path. let w = get_device_index_from_device_path s_path s in
                           if w = 0 then []
                           else [notice_out (get_session_number_from_device_index w s) w s_path]) removed)
       @ map notice_in inserted"

definition removed_indices :: "wstring list \<Rightarrow> ctl_svr \<Rightarrow> u16 list" where
  "removed_indices removed s =
     filter (\<lambda>w. w \<noteq> 0) (map (\<lambda>s_path. get_device_index_from_device_path s_path s) removed)"

definition cb_dev_pluginout :: "wstring list \<Rightarrow> wstring list \<Rightarrow> ctl_svr \<Rightarrow> plug_notice list \<times> ctl_svr" where
  "cb_dev_pluginout inserted removed s =
     (plug_notices inserted removed s,
      fold (\<lambda>s_path s. snd (create_new_dev_ctl s_path s)) inserted
        (s\<lparr>cs_devices := filter (\<lambda>e. fst e \<notin> set (removed_indices removed s)) (cs_devices s)\<rparr>))"

section \<open>What the operations keep\<close>

lemma map_put_subset: "set (map_put k v m) \<subseteq> insert (k, v) (set m)"
  by (induction k v m rule: map_put.induct) auto

lemma map_of_in_map: "map_of m k = Some v \<Longrightarrow> (k, v) \<in> set m"
  by (rule map_of_SomeD)

definition set_ok :: "u16 list \<Rightarrow> bool" where
  "set_ok v = (sorted v \<and> distinct v \<and> 0 \<notin> set v)"

definition entry_ok :: "u16 \<times> dev_entry \<Rightarrow> bool" where
  "entry_ok e = (fst e \<noteq> 0 \<and> (\<forall>p\<in>set (de_queue (snd e)). ucast (dw_device_index (p_header p)) = fst e))"

text \<open>
  The maps are ordered; indices of devices are not 0, the next one neither; names are not empty; and every request in the
  queue of a device has the index of that device.
\<close>

definition ctl_ok :: "ctl_svr \<Rightarrow> bool" where
  "ctl_ok s =
     (map_ok (cs_names s) \<and> map_ok (cs_kernels s) \<and> map_ok (cs_devices s) \<and> map_ok (cs_sets s)
      \<and> cs_new_index s \<noteq> 0 \<and> list_all entry_ok (cs_devices s) \<and> list_all (\<lambda>e. snd e \<noteq> []) (cs_names s)
      \<and> list_all (\<lambda>e. set_ok (snd e)) (cs_sets s))"

lemma list_all_put: "list_all P m \<Longrightarrow> P (k, v) \<Longrightarrow> list_all P (map_put k v m)"
  using map_put_subset [of k v m] by (auto simp: list_all_iff)

lemma list_all_erase: "list_all P m \<Longrightarrow> list_all P (map_erase k m)"
  by (auto simp: list_all_iff map_erase_def)

lemma filter_map_ok: "map_ok m \<Longrightarrow> map_ok (filter P m)"
  by (induction m) auto

named_theorems ctl_keeps "operations of the control that keep its invariant"

lemma ctl_ok_ini [ctl_keeps]: "ctl_ok ctl_svr_ini" "ctl_ok s \<Longrightarrow> ctl_ok (create_main_ctl_and_set_callack s)"
  by (simp_all add: ctl_ok_def ctl_svr_ini_def create_main_ctl_and_set_callack_def)

lemma kernels_ctl_ok [ctl_keeps]:
  "ctl_ok s \<Longrightarrow> ctl_ok (create_kernel_ctl session s)" "ctl_ok s \<Longrightarrow> ctl_ok (remove_kernel_ctl session s)"
  by (simp_all add: ctl_ok_def create_kernel_ctl_def remove_kernel_ctl_def map_put_ok map_erase_ok)

lemma create_new_dev_ctl_ok [ctl_keeps]: "ctl_ok s \<Longrightarrow> ctl_ok (snd (create_new_dev_ctl s_path s))"
  by (auto simp: ctl_ok_def create_new_dev_ctl_def Let_def map_put_ok entry_ok_def intro!: list_all_put)

lemma fold_create_ok [ctl_keeps]: "ctl_ok s \<Longrightarrow> ctl_ok (fold (\<lambda>s_path s. snd (create_new_dev_ctl s_path s)) l s)"
  by (induction l arbitrary: s) (auto intro: create_new_dev_ctl_ok)

lemma set_of_session_ok: "ctl_ok s \<Longrightarrow> set_ok (get_device_index_set_of_session session s)"
  by (auto simp: get_device_index_set_of_session_def ctl_ok_def list_all_iff set_ok_def
      split: option.splits dest!: map_of_in_map)

lemma sets_ctl_ok [ctl_keeps]:
  "ctl_ok s \<Longrightarrow> ctl_ok (insert_device_index_to_device_index_set_of_session session w s)"
  "ctl_ok s \<Longrightarrow> ctl_ok (erase_device_index_from_device_index_set_of_session session w s)"
  "ctl_ok s \<Longrightarrow> ctl_ok (erase_device_index_set_of_session session s)"
proof -
  assume s: "ctl_ok s"
  note v = set_of_session_ok [OF s, of session]
  then have "w \<noteq> 0 \<Longrightarrow> set_ok (insort_insert w (get_device_index_set_of_session session s))"
    by (auto simp: set_ok_def sorted_insort_insert distinct_insort_insert set_insort_insert)
  then show "ctl_ok (insert_device_index_to_device_index_set_of_session session w s)"
    using s by (auto simp: insert_device_index_to_device_index_set_of_session_def ctl_ok_def map_put_ok intro!: list_all_put)
  have "set_ok (remove1 w v')" if "map_of (cs_sets s) session = Some v'" for v'
    using v that by (auto simp: set_ok_def get_device_index_set_of_session_def sorted_remove1 dest: in_set_remove1 [THEN iffD1, rotated] set_remove1_subset [THEN subsetD])
  then show "ctl_ok (erase_device_index_from_device_index_set_of_session session w s)"
    using s by (auto simp: erase_device_index_from_device_index_set_of_session_def ctl_ok_def map_put_ok
        intro!: list_all_put split: option.splits)
  show "ctl_ok (erase_device_index_set_of_session session s)"
    using s by (simp add: erase_device_index_set_of_session_def ctl_ok_def map_erase_ok list_all_erase)
qed

lemma names_ctl_ok [ctl_keeps]:
  "ctl_ok s \<Longrightarrow> ctl_ok (snd (set_session_name session s_name s))" "ctl_ok s \<Longrightarrow> ctl_ok (remove_session_name session s)"
  by (auto simp: ctl_ok_def set_session_name_def remove_session_name_def map_put_ok map_erase_ok list_all_erase
      intro!: list_all_put)

lemma pushes_ctl_ok [ctl_keeps]:
  "ctl_ok s \<Longrightarrow> ctl_ok (snd (push_back_request_to_kernel_ctl p s))"
  "ctl_ok s \<Longrightarrow> ctl_ok (snd (push_back_request_to_main_ctl p s))"
  "ctl_ok s \<Longrightarrow> ucast (dw_device_index (p_header p)) = w \<Longrightarrow> ctl_ok (snd (push_to_dev_ctl w p s))"
  by (auto simp: ctl_ok_def push_back_request_to_kernel_ctl_def push_back_request_to_main_ctl_def push_to_dev_ctl_def
      map_put_ok entry_ok_def list_all_iff split: option.splits dest!: map_of_in_map map_put_subset [THEN subsetD])

lemma set_device_index_header:
  "set_device_index i p = Some p' \<Longrightarrow> p_header p' = (p_header p)\<lparr>dw_device_index := i\<rparr>"
  by (auto simp: set_device_index_def write_header_def p_header_def)

lemma ucast_index [simp]: "ucast (ucast w :: u32) = (w :: u16)"
  by (rule bit_word_eqI) (simp add: bit_simps)

lemma push_by_path_ok:
  assumes "ctl_ok s" "push_back_request_to_dev_ctl_by_path p s_path s = Some r"
  shows "ctl_ok (snd r)"
proof (cases "get_dev_ctl_by_path s_path s")
  case (Some w)
  then obtain p' where p: "set_device_index (ucast w) p = Some p'" "r = push_to_dev_ctl w p' s"
    using assms(2) by (auto simp: push_back_request_to_dev_ctl_by_path_def)
  show ?thesis unfolding p(2) by (rule pushes_ctl_ok(3) [OF assms(1)]) (simp add: set_device_index_header [OF p(1)])
qed (use assms in \<open>auto simp: push_back_request_to_dev_ctl_by_path_def\<close>)

lemma push_request_ok [ctl_keeps]:
  assumes "ctl_ok s" "push_request_to_worker_ctl to_wide p s = Some (r, s')"
  shows "ctl_ok s'"
proof -
  have "ctl_ok (snd (push_back_request_to_dev_ctl p s))"
    unfolding push_back_request_to_dev_ctl_def by (rule pushes_ctl_ok(3) [OF assms(1)]) simp
  then show ?thesis
    using assms pushes_ctl_ok(1,2) [OF assms(1), of p] push_by_path_ok [OF assms(1), of p]
    by (auto simp: push_request_to_worker_ctl_def Let_def split: if_splits option.splits prod.splits)
qed

lemma close_device_ok [ctl_keeps]:
  assumes "ctl_ok s" "close_device_of_session to_wide session s w = Some s'"
  shows "ctl_ok s'"
  using assms by (auto simp: close_device_of_session_def bind_eq_Some_conv split: if_splits dest: push_request_ok)

lemma close_devices_ok [ctl_keeps]:
  "ctl_ok s \<Longrightarrow> close_devices to_wide session v s = Some s' \<Longrightarrow> ctl_ok s'"
  by (induction v arbitrary: s) (auto simp: bind_eq_Some_conv dest: close_device_ok)

lemma close_all_ok [ctl_keeps]:
  "ctl_ok s \<Longrightarrow> close_all_device_of_session to_wide session s = Some (b, s') \<Longrightarrow> ctl_ok s'"
  by (auto simp: close_all_device_of_session_def Let_def split: if_splits dest: close_devices_ok [rotated] intro: sets_ctl_ok)

lemma pluginout_ok [ctl_keeps]: "ctl_ok s \<Longrightarrow> ctl_ok (snd (cb_dev_pluginout inserted removed s))"
proof -
  assume "ctl_ok s"
  then have "ctl_ok (s\<lparr>cs_devices := filter P (cs_devices s)\<rparr>)" for P
    by (auto simp: ctl_ok_def list_all_iff filter_map_ok)
  then show ?thesis by (simp add: cb_dev_pluginout_def fold_create_ok)
qed

section \<open>The queues\<close>

text \<open>All requests that wait.\<close>

definition queued :: "ctl_svr \<Rightarrow> cio_packet multiset" where
  "queued s = mset (case cs_main s of None \<Rightarrow> [] | Some q \<Rightarrow> q) + mset (concat (map snd (cs_kernels s)))
     + mset (concat (map (\<lambda>e. de_queue (snd e)) (cs_devices s)))"

lemma put_queue:
  assumes "map_ok m" "map_of m k = Some v" "g v' = g v @ [p]"
  shows "mset (concat (map (\<lambda>e. g (snd e)) (map_put k v' m))) = add_mset p (mset (concat (map (\<lambda>e. g (snd e)) m)))"
  using assms
proof (induction m)
  case (Cons e m)
  show ?case
  proof (cases "fst e = k")
    case False
    then have "k \<in> fst ` set m" using Cons.prems(2) by (cases e) (auto simp: rev_image_eqI dest: map_of_in_map)
    then have "fst e < k" using Cons.prems(1) by auto
    then show ?thesis using Cons False by (cases e) auto
  qed (use Cons in \<open>cases e; auto\<close>)
qed simp

lemma put_new_queue:
  assumes "map_of m k = None" "g v = []"
  shows "concat (map (\<lambda>e. g (snd e)) (map_put k v m)) = concat (map (\<lambda>e. g (snd e)) m)"
  using assms by (induction k v m rule: map_put.induct) (auto split: if_splits)

lemma pushed_once:
  assumes "ctl_ok s"
  shows "push_back_request_to_kernel_ctl p s = (b, s') \<Longrightarrow>
      queued s' = (if b then add_mset p (queued s) else queued s) \<and> b = (map_of (cs_kernels s) (n_session (p_header p)) \<noteq> None)"
    and "push_back_request_to_main_ctl p s = (b, s') \<Longrightarrow>
      queued s' = (if b then add_mset p (queued s) else queued s) \<and> b = (cs_main s \<noteq> None)"
    and "push_to_dev_ctl w p s = (b, s') \<Longrightarrow> queued s' = (if b then add_mset p (queued s) else queued s)
      \<and> b = (map_of (cs_devices s) w \<noteq> None) \<and> (\<not> b \<longrightarrow> s' = s)"
proof -
  have m: "map_ok (cs_kernels s)" "map_ok (cs_devices s)" using assms by (simp_all add: ctl_ok_def)
  show "push_back_request_to_kernel_ctl p s = (b, s') \<Longrightarrow>
      queued s' = (if b then add_mset p (queued s) else queued s) \<and> b = (map_of (cs_kernels s) (n_session (p_header p)) \<noteq> None)"
    using put_queue [OF m(1), where g = "\<lambda>q. q" and p = p]
    by (auto simp: push_back_request_to_kernel_ctl_def queued_def split: option.splits)
  show "push_back_request_to_main_ctl p s = (b, s') \<Longrightarrow>
      queued s' = (if b then add_mset p (queued s) else queued s) \<and> b = (cs_main s \<noteq> None)"
    by (auto simp: push_back_request_to_main_ctl_def queued_def split: option.splits)
  show "push_to_dev_ctl w p s = (b, s') \<Longrightarrow> queued s' = (if b then add_mset p (queued s) else queued s)
      \<and> b = (map_of (cs_devices s) w \<noteq> None) \<and> (\<not> b \<longrightarrow> s' = s)"
    using put_queue [OF m(2), where g = de_queue and p = p]
    by (auto simp: push_to_dev_ctl_def queued_def split: option.splits)
qed

section \<open>Every request reaches its worker\<close>

datatype worker = w_main | w_kernel u32 | w_device u16

fun queue_of :: "ctl_svr \<Rightarrow> worker \<Rightarrow> cio_packet list option" where
  "queue_of s w_main = cs_main s"
| "queue_of s (w_kernel session) = map_of (cs_kernels s) session"
| "queue_of s (w_device w) = map_option de_queue (map_of (cs_devices s) w)"

text \<open>Where a request belongs, or the reason of its refusal.\<close>

definition route :: "(bytes \<Rightarrow> wstring) \<Rightarrow> cio_packet \<Rightarrow> ctl_svr \<Rightarrow> int + worker" where
  "route to_wide p s =
     (let h = p_header p in
      if c_cmd h = cmd_response then Inr w_main
      else if c_act h = act_mgmt_dev_kernel_operation then Inr (w_kernel (n_session h))
      else if c_owner h = owner_manager then (if c_act h \<in> set main_actions then Inr w_main else Inl 5)
      else if c_act h = act_dev_open then
        (case get_data_string to_wide p of
           Some s_path \<Rightarrow> if s_path = [] then Inl 3
             else (case get_dev_ctl_by_path s_path s of None \<Rightarrow> Inl 4 | Some w \<Rightarrow> Inr (w_device w))
         | None \<Rightarrow> Inl 3)
      else if c_act h \<in> set indexed_actions then
        (let w = ucast (dw_device_index h) in
         if map_of (cs_devices s) w = None then Inl 4 else Inr (w_device w))
      else Inl 5)"

definition queued_at :: "worker \<Rightarrow> cio_packet \<Rightarrow> ctl_svr \<Rightarrow> ctl_svr \<Rightarrow> bool" where
  "queued_at w p s s' =
     (\<forall>w'. queue_of s' w' = (if w' = w then map_option (\<lambda>q. q @ [p]) (queue_of s w) else queue_of s w'))"

lemma pushes_queued:
  "queued_at (w_kernel (n_session (p_header p))) p s (snd (push_back_request_to_kernel_ctl p s))"
  "queued_at w_main p s (snd (push_back_request_to_main_ctl p s))"
  "queued_at (w_device w) p s (snd (push_to_dev_ctl w p s))"
  "fst (push_to_dev_ctl w p s) = (map_of (cs_devices s) w \<noteq> None)"
proof -
  have "queue_of (snd (push_back_request_to_kernel_ctl p s)) w'
      = (if w' = w_kernel (n_session (p_header p)) then map_option (\<lambda>q. q @ [p]) (queue_of s w') else queue_of s w')" for w'
    by (cases w') (auto simp: push_back_request_to_kernel_ctl_def map_of_map_put split: option.splits)
  then show "queued_at (w_kernel (n_session (p_header p))) p s (snd (push_back_request_to_kernel_ctl p s))"
    by (simp add: queued_at_def)
  have "queue_of (snd (push_back_request_to_main_ctl p s)) w'
      = (if w' = w_main then map_option (\<lambda>q. q @ [p]) (queue_of s w') else queue_of s w')" for w'
    by (cases w') (auto simp: push_back_request_to_main_ctl_def split: option.splits)
  then show "queued_at w_main p s (snd (push_back_request_to_main_ctl p s))" by (simp add: queued_at_def)
  have "queue_of (snd (push_to_dev_ctl w p s)) w'
      = (if w' = w_device w then map_option (\<lambda>q. q @ [p]) (queue_of s w') else queue_of s w')" for w'
    by (cases w') (auto simp: push_to_dev_ctl_def map_of_map_put split: option.splits)
  then show "queued_at (w_device w) p s (snd (push_to_dev_ctl w p s))" by (simp add: queued_at_def)
  show "fst (push_to_dev_ctl w p s) = (map_of (cs_devices s) w \<noteq> None)"
    by (simp add: push_to_dev_ctl_def split: option.splits)
qed

lemma push_refused: "\<not> fst (push_to_dev_ctl w p s) \<Longrightarrow> snd (push_to_dev_ctl w p s) = s"
  by (simp add: push_to_dev_ctl_def split: option.splits)

lemma dev_ctl_by_path:
  "map_ok (cs_devices s) \<Longrightarrow> get_dev_ctl_by_path s_path s = Some w
     \<Longrightarrow> \<exists>e. map_of (cs_devices s) w = Some e \<and> de_path e = s_path"
proof -
  assume m: "map_ok (cs_devices s)" and "get_dev_ctl_by_path s_path s = Some w"
  then obtain e where "find (\<lambda>(w, d). de_path d = s_path) (cs_devices s) = Some (w, e)"
    by (auto simp: get_dev_ctl_by_path_def split: if_splits)
  then have "(w, e) \<in> set (cs_devices s)" "de_path e = s_path"
    by (auto simp: find_Some_iff in_set_conv_nth)
  then show ?thesis using map_of_is_SomeI [OF map_ok_distinct [OF m]] by blast
qed

lemma request_routed:
  assumes "ctl_ok s" "push_request_to_worker_ctl to_wide p s = Some (r, s')"
  shows "case route to_wide p s of
      Inl n \<Rightarrow> r = Some n \<and> s' = s
    | Inr w \<Rightarrow> r = None \<and> (\<exists>p'. queued_at w p' s s' \<and>
        (p' = p \<or> (\<exists>i. w = w_device i \<and> c_act (p_header p) = act_dev_open \<and> set_device_index (ucast i) p = Some p')))"
proof -
  let ?h = "p_header p"
  consider (resp) "c_cmd ?h = cmd_response"
    | (kern) "c_cmd ?h \<noteq> cmd_response" "c_act ?h = act_mgmt_dev_kernel_operation"
    | (mgmt) "c_cmd ?h \<noteq> cmd_response" "c_act ?h \<noteq> act_mgmt_dev_kernel_operation" "c_owner ?h = owner_manager"
    | (opn) "c_cmd ?h \<noteq> cmd_response" "c_owner ?h \<noteq> owner_manager" "c_act ?h = act_dev_open"
    | (dev) "c_cmd ?h \<noteq> cmd_response" "c_act ?h \<noteq> act_mgmt_dev_kernel_operation" "c_owner ?h \<noteq> owner_manager"
        "c_act ?h \<noteq> act_dev_open"
    by blast
  then show ?thesis
  proof cases
    case opn
    obtain s_path where g: "get_data_string to_wide p = Some s_path"
      using opn assms(2) by (auto simp: push_request_to_worker_ctl_def Let_def split: option.splits)
    show ?thesis
    proof (cases "s_path = [] \<or> get_dev_ctl_by_path s_path s = None")
      case True
      then show ?thesis
        using opn g assms(2)
        by (auto simp: push_request_to_worker_ctl_def route_def push_back_request_to_dev_ctl_by_path_def Let_def)
    next
      case False
      then obtain i where i: "get_dev_ctl_by_path s_path s = Some i" by blast
      have d: "map_of (cs_devices s) i \<noteq> None"
        using dev_ctl_by_path [OF _ i] assms(1) by (auto simp: ctl_ok_def)
      obtain p' where p': "set_device_index (ucast i) p = Some p'"
          "(r, s') = (\<lambda>(b, s'). (if b then None else Some 4, s')) (push_to_dev_ctl i p' s)"
        using opn g i False assms(2)
        by (auto simp: push_request_to_worker_ctl_def push_back_request_to_dev_ctl_by_path_def Let_def)
      then have "r = None" "s' = snd (push_to_dev_ctl i p' s)"
        using pushes_queued(4) [of i p' s] d by (auto split: prod.splits)
      then show ?thesis using p'(1) pushes_queued(3) [of i p' s] opn g i False by (auto simp: route_def Let_def)
    qed
  next
    case dev
    let ?w = "ucast (dw_device_index ?h) :: u16"
    show ?thesis
      using dev assms(2) pushes_queued(3,4) [of ?w p s] push_refused [of ?w p s]
      by (auto simp: push_request_to_worker_ctl_def route_def push_back_request_to_dev_ctl_def Let_def
          split: prod.splits if_splits)
  qed (use assms(2) pushes_queued in \<open>auto simp: push_request_to_worker_ctl_def route_def Let_def split: if_splits\<close>)
qed


lemma header_default: "p_header cio_packet_default = echo_header"
proof -
  have "echo_header\<lparr>n_data := of_nat (length ([] :: bytes))\<rparr> = echo_header" by (simp add: echo_header_def)
  then show ?thesis using packet_view_bytes [of echo_header "[]"]
    by (simp add: p_header_def cio_packet_default_def echo_packet)
qed


section \<open>Names\<close>

lemma number_text_inj:
  assumes "m < 2 ^ 32" "n < 2 ^ 32" "(number_text 10 m :: wstring) = number_text 10 n"
  shows "m = n"
proof -
  have "Some (of_nat m :: u32) = Some (of_nat n)"
    using stoul_text [where 'w = 16, of 10 m] stoul_text [where 'w = 16, of 10 n] assms by simp
  then show ?thesis using assms(1,2) by (simp add: word_of_nat_eq_iff take_bit_nat_eq_self)
qed

lemma auto_name_inj: "auto_name session m = auto_name session n \<Longrightarrow> m = n"
  using number_text_inj [of "unat m" "unat n"] unsigned_less [of m, where ?'a = nat] unsigned_less [of n, where ?'a = nat]
  by (auto simp: auto_name_def intro: unsigned_word_eqI)

lemma unused_name:
  assumes "length (cs_names s) < 2 ^ 32"
  shows "\<exists>k < 2 ^ 32. \<not> is_exist_session_name (auto_name session (of_nat k)) s"
proof (rule ccontr)
  assume a: "\<not> (\<exists>k < 2 ^ 32. \<not> is_exist_session_name (auto_name session (of_nat k)) s)"
  let ?f = "\<lambda>k. auto_name session (of_nat k :: u32)"
  have "inj_on ?f {..<2 ^ 32}"
    by (rule inj_onI) (auto dest!: auto_name_inj simp: word_of_nat_eq_iff take_bit_nat_eq_self)
  then have "card (?f ` {..<2 ^ 32}) = 2 ^ 32" by (simp add: card_image)
  moreover have "?f ` {..<2 ^ 32} \<subseteq> set (map snd (cs_names s))" using a by (auto simp: is_exist_session_name_def)
  then have "card (?f ` {..<2 ^ 32}) \<le> length (cs_names s)"
    by (metis (no_types) List.finite_set card_length card_mono le_trans length_map)
  ultimately show False using assms by simp
qed

lemma find_new_name: "n \<notin> set (map snd m) \<Longrightarrow> find (\<lambda>(k, n'). n' = n) (map_put k n m) = Some (k, n)"
  by (induction k n m rule: map_put.induct) auto

text \<open>C35. A session always gets a name when it asks for one without giving it: the search ends, the name is not in use,
  and it is accepted when the session has none yet.\<close>

theorem generated_name_is_unused:
  assumes "length (cs_names s) < 2 ^ 32"
  shows "\<exists>n. generate_session_name session s = Some n \<and> \<not> is_exist_session_name n s
    \<and> (map_of (cs_names s) session = None \<longrightarrow> fst (set_session_name session n s)
          \<and> get_session_number_from_session_name n (snd (set_session_name session n s)) = session)"
proof -
  let ?free = "\<lambda>k. \<not> is_exist_session_name (auto_name session (of_nat k)) s"
  define N where "N = (LEAST k. ?free k)"
  obtain k where k: "k < 2 ^ 32" "?free k" using unused_name [OF assms] by blast
  have N: "?free N" "N \<le> k" unfolding N_def by (rule LeastI [of ?free, OF k(2)], rule Least_le [of ?free, OF k(2)])
  let ?n = "auto_name session (of_nat N)"
  have "name_loop session (of_nat j) s = Some ?n" if "j \<le> N" for j
    using that
  proof (induction rule: inc_induct)
    case base
    then show ?case using N(1) by (simp add: name_loop.simps)
  next
    case (step j)
    have "\<not> ?free j" using not_less_Least [of j ?free] step(2) by (simp add: N_def)
    then show ?case using step(3) by (subst name_loop.simps) (simp add: add.commute)
  qed
  from this [of 0] have g: "generate_session_name session s = Some ?n" by (simp add: generate_session_name_def)
  have ne: "?n \<noteq> []" by (simp add: auto_name_def text_of_def)
  then have "?n \<notin> set (map snd (cs_names s))" using N(1) by (simp add: is_exist_session_name_def)
  from find_new_name [OF this, of session] show ?thesis
    using g N(1) ne by (simp add: set_session_name_def get_session_number_from_session_name_def)
qed

theorem generated_name_is_unused_witness:
  "\<exists>n. generate_session_name 7 (ctl_svr_ini\<lparr>cs_names := [(5, auto_name 7 0)]\<rparr>) = Some n \<and> n \<noteq> auto_name 7 0"
proof -
  let ?s = "ctl_svr_ini\<lparr>cs_names := [(5, auto_name 7 0)]\<rparr>"
  have "auto_name 7 0 \<noteq> []" by (simp add: auto_name_def text_of_def)
  with generated_name_is_unused [of ?s 7] show ?thesis by (auto simp: is_exist_session_name_def)
qed

text \<open>A name that another session has is accepted; messages then go to the session with the smaller number.\<close>

lemma name_taken_twice:
  "set_session_name 3 (text_of ''a'') (ctl_svr_ini\<lparr>cs_names := [(5, text_of ''a'')]\<rparr>)
     = (True, ctl_svr_ini\<lparr>cs_names := [(3, text_of ''a''), (5, text_of ''a'')]\<rparr>)"
  "get_session_number_from_session_name (text_of ''a'') (ctl_svr_ini\<lparr>cs_names := [(3, text_of ''a''), (5, text_of ''a'')]\<rparr>) = 3"
  by (simp_all add: set_session_name_def get_session_number_from_session_name_def text_of_def)

section \<open>Closing\<close>

definition self_packet :: "u32 \<Rightarrow> u16 \<Rightarrow> byte \<Rightarrow> cio_packet" where
  "self_packet session w act = cio_packet_of data_field_binary (header_bytes (self_request session (ucast w) act))"

lemma self_packet_built:
  assumes "act = act_dev_cancel \<or> act = act_dev_close"
  shows "build (self_request session (ucast w) act) data_field_binary None = Some (self_packet session w act)"
    "p_header (self_packet session w act) = self_request session (ucast w) act"
proof -
  let ?h = "self_request session (ucast w) act"
  have b: "packet_bytes ?h [] = header_bytes ?h" by (simp add: packet_bytes_def self_request_def)
  have "codes_ok ?h"
    using assms by (elim disjE) (simp_all add: codes_ok_def self_request_def valid_cmds_def valid_owners_def
        manager_actions_def device_actions_def)
  then have v: "packet_is_valid (header_bytes ?h)" using packet_is_valid_bytes [of "[]" ?h] by (simp add: b)
  then show "build ?h data_field_binary None = Some (self_packet session w act)"
    by (simp add: build_def packet_build_def self_packet_def self_request_def)
  show "p_header (self_packet session w act) = ?h"
    using v packet_view_header [of ?h "[]"] by (simp add: p_header_def self_packet_def cio_packet_of_def)
qed

lemma push_self:
  assumes "act = act_dev_cancel \<or> act = act_dev_close" "map_of (cs_devices s) w \<noteq> None"
  shows "push_request_to_worker_ctl to_wide (self_packet session w act) s
     = Some (None, snd (push_to_dev_ctl w (self_packet session w act) s))"
proof -
  let ?p = "self_packet session w act"
  have f: "fst (push_to_dev_ctl w ?p s)" using pushes_queued(4) [of w ?p s] assms(2) by simp
  have act: "act \<noteq> act_mgmt_dev_kernel_operation \<and> act \<noteq> act_dev_open \<and> act \<in> set indexed_actions"
    using assms(1) by (elim disjE) (simp_all add: indexed_actions_def)
  have h: "p_header ?p = self_request session (ucast w) act" by (rule self_packet_built(2) [OF assms(1)])
  have "push_request_to_worker_ctl to_wide ?p s
      = Some (case push_to_dev_ctl w ?p s of (b, s') \<Rightarrow> (if b then None else Some 4, s'))"
    unfolding push_request_to_worker_ctl_def Let_def h using act
    by (simp add: self_request_def push_back_request_to_dev_ctl_def h)
  then show ?thesis using f by (simp add: case_prod_unfold)
qed

lemma push_keeps_devices:
  "map_of (cs_devices (snd (push_to_dev_ctl w p s))) w' = None \<longleftrightarrow> map_of (cs_devices s) w' = None"
  "get_device_path_from_device_index w' (snd (push_to_dev_ctl w p s)) = get_device_path_from_device_index w' s"
  "cs_sets (snd (push_to_dev_ctl w p s)) = cs_sets s" "cs_names (snd (push_to_dev_ctl w p s)) = cs_names s"
  by (auto simp: push_to_dev_ctl_def map_of_map_put get_device_path_from_device_index_def split: option.splits)

definition goodbye :: "u32 \<Rightarrow> u16 \<Rightarrow> ctl_svr \<Rightarrow> cio_packet list" where
  "goodbye session w s =
     (if w = 0 \<or> get_device_path_from_device_index w s = [] then []
      else [self_packet session w act_dev_cancel, self_packet session w act_dev_close])"

lemma close_device_steps:
  "\<exists>s'. close_device_of_session to_wide session s w = Some s'
     \<and> (\<forall>w'. queue_of s' w' = (if w' = w_device w then map_option (\<lambda>q. q @ goodbye session w s) (queue_of s w')
            else queue_of s w'))
     \<and> (\<forall>w'. get_device_path_from_device_index w' s' = get_device_path_from_device_index w' s)
     \<and> cs_sets s' = cs_sets s \<and> cs_names s' = cs_names s"
proof (cases "w = 0 \<or> get_device_path_from_device_index w s = []")
  case True
  then show ?thesis by (auto simp: close_device_of_session_def goodbye_def option.map_ident)
next
  case False
  then have d: "map_of (cs_devices s) w \<noteq> None"
    by (auto simp: get_device_path_from_device_index_def split: option.splits)
  let ?p = "self_packet session w act_dev_cancel" and ?q = "self_packet session w act_dev_close"
  let ?s = "snd (push_to_dev_ctl w ?p s)" let ?s' = "snd (push_to_dev_ctl w ?q ?s)"
  have "close_device_of_session to_wide session s w = Some ?s'"
    using False d push_self [where to_wide = to_wide and session = session and w = w and s = s and act = act_dev_cancel]
      push_self [where to_wide = to_wide and session = session and w = w and s = ?s and act = act_dev_close]
    by (simp add: close_device_of_session_def build_cancel_def build_close_def self_packet_built push_keeps_devices)
  moreover have "queue_of ?s' w' = (if w' = w_device w then map_option (\<lambda>q. q @ goodbye session w s) (queue_of s w')
            else queue_of s w')" for w'
    using False pushes_queued(3) [of w ?p s] pushes_queued(3) [of w ?q ?s]
    by (simp add: queued_at_def goodbye_def option.map_comp o_def del: queue_of.simps)
  ultimately show ?thesis by (simp add: push_keeps_devices)
qed

lemma close_devices_steps:
  assumes "distinct v"
  shows "\<exists>s'. close_devices to_wide session v s = Some s'
     \<and> (\<forall>w. queue_of s' w = (case w of
            w_device i \<Rightarrow> map_option (\<lambda>q. q @ (if i \<in> set v then goodbye session i s else [])) (queue_of s w)
          | _ \<Rightarrow> queue_of s w))
     \<and> cs_sets s' = cs_sets s \<and> cs_names s' = cs_names s"
  using assms
proof (induction v arbitrary: s)
  case Nil
  then show ?case by (auto split: worker.splits simp: option.map_ident)
next
  case (Cons i v)
  from close_device_steps [of to_wide session s i] obtain s1 where s1: "close_device_of_session to_wide session s i = Some s1"
      "\<forall>w. queue_of s1 w = (if w = w_device i then map_option (\<lambda>q. q @ goodbye session i s) (queue_of s w) else queue_of s w)"
      "\<forall>w. get_device_path_from_device_index w s1 = get_device_path_from_device_index w s"
      "cs_sets s1 = cs_sets s" "cs_names s1 = cs_names s"
    by (elim exE conjE)
  have g: "goodbye session j s1 = goodbye session j s" for j using s1(3) by (simp add: goodbye_def)
  obtain s2 where s2: "close_devices to_wide session v s1 = Some s2"
      "\<forall>w. queue_of s2 w = (case w of
            w_device j \<Rightarrow> map_option (\<lambda>q. q @ (if j \<in> set v then goodbye session j s1 else [])) (queue_of s1 w)
          | _ \<Rightarrow> queue_of s1 w)"
      "cs_sets s2 = cs_sets s1" "cs_names s2 = cs_names s1"
    using Cons.IH [of s1] Cons.prems by auto
  have "queue_of s2 w = (case w of
            w_device j \<Rightarrow> map_option (\<lambda>q. q @ (if j \<in> set (i # v) then goodbye session j s else [])) (queue_of s w)
          | _ \<Rightarrow> queue_of s w)" for w
    using Cons.prems unfolding s2(2) [rule_format] s1(2) [rule_format] g
    by (auto split: worker.splits simp: option.map_comp o_def option.map_ident simp del: queue_of.simps)
  then show ?case using s1 s2 by (simp del: queue_of.simps)
qed

text \<open>C18. When the connection of a session ends, the devices it used are given back: the session has no devices left, every
  one of them that is still present gets exactly a cancel and then a close request of that session behind what
  waits in its queue, and no other queue, no name and no other session changes.\<close>

theorem closed_session_gives_devices_back:
  assumes "ctl_ok s"
  shows "\<exists>b s'. close_all_device_of_session to_wide session s = Some (b, s')
     \<and> get_device_index_set_of_session session s' = []
     \<and> (\<forall>other. other \<noteq> session \<longrightarrow> get_device_index_set_of_session other s' = get_device_index_set_of_session other s)
     \<and> cs_names s' = cs_names s
     \<and> (\<forall>w. queue_of s' w = (case w of
            w_device i \<Rightarrow> map_option (\<lambda>q. q @ (if i \<in> set (get_device_index_set_of_session session s)
                                              then goodbye session i s else [])) (queue_of s w)
          | _ \<Rightarrow> queue_of s w))"
proof (cases "get_device_index_set_of_session session s = []")
  case True
  then show ?thesis
    by (auto simp: close_all_device_of_session_def option.map_ident split: worker.splits)
next
  case False
  let ?v = "get_device_index_set_of_session session s" and ?s = "erase_device_index_set_of_session session s"
  have d: "distinct ?v" using set_of_session_ok [OF assms] by (simp add: set_ok_def)
  from close_devices_steps [OF d, of to_wide session ?s] obtain s' where s': "close_devices to_wide session ?v ?s = Some s'"
      "\<forall>w. queue_of s' w = (case w of
            w_device i \<Rightarrow> map_option (\<lambda>q. q @ (if i \<in> set ?v then goodbye session i ?s else [])) (queue_of ?s w)
          | _ \<Rightarrow> queue_of ?s w)" "cs_sets s' = cs_sets ?s" "cs_names s' = cs_names ?s"
    by (elim exE conjE)
  have q: "queue_of ?s w = queue_of s w" for w by (cases w) (simp_all add: erase_device_index_set_of_session_def)
  have g: "goodbye session i ?s = goodbye session i s" for i
    by (simp add: goodbye_def get_device_path_from_device_index_def erase_device_index_set_of_session_def)
  have c: "close_all_device_of_session to_wide session s = Some (True, s')"
    using False s'(1) by (simp add: close_all_device_of_session_def)
  have n: "get_device_index_set_of_session session s' = []"
    by (simp add: get_device_index_set_of_session_def s'(3) erase_device_index_set_of_session_def map_of_map_erase)
  have o: "get_device_index_set_of_session other s' = get_device_index_set_of_session other s" if "other \<noteq> session" for other
    using that by (simp add: get_device_index_set_of_session_def s'(3) erase_device_index_set_of_session_def map_of_map_erase)
  have m: "cs_names s' = cs_names s" using s'(4) by (simp add: erase_device_index_set_of_session_def)
  show ?thesis
    by (rule exI [of _ True], rule exI [of _ s'], intro conjI allI impI)
      (fact c, fact n, erule o, fact m, rule s'(2) [rule_format, unfolded q g])
qed

theorem closed_session_gives_devices_back_witness:
  "\<exists>b s'. close_all_device_of_session (map ucast) 7
      (ctl_svr_ini\<lparr>cs_devices := [(1, \<lparr>de_path = text_of ''a'', de_queue = []\<rparr>)], cs_sets := [(7, [1])]\<rparr>) = Some (b, s')
     \<and> queue_of s' (w_device 1) = Some [self_packet 7 1 act_dev_cancel, self_packet 7 1 act_dev_close]"
proof -
  let ?s = "ctl_svr_ini\<lparr>cs_devices := [(1, \<lparr>de_path = text_of ''a'', de_queue = []\<rparr>)], cs_sets := [(7, [1])]\<rparr>"
  have "ctl_ok ?s" by (simp add: ctl_ok_def ctl_svr_ini_def entry_ok_def set_ok_def)
  from closed_session_gives_devices_back [OF this, of "map ucast" 7]
  obtain b s' where c: "close_all_device_of_session (map ucast) 7 ?s = Some (b, s')"
      "queue_of s' (w_device 1) = (case w_device 1 of
            w_device i \<Rightarrow> map_option (\<lambda>q. q @ (if i \<in> set (get_device_index_set_of_session 7 ?s)
                                              then goodbye 7 i ?s else [])) (queue_of ?s (w_device 1))
          | _ \<Rightarrow> queue_of ?s (w_device 1))" by metis
  have "queue_of s' (w_device 1) = Some [self_packet 7 1 act_dev_cancel, self_packet 7 1 act_dev_close]"
    unfolding c(2) by (simp add: get_device_index_set_of_session_def goodbye_def get_device_path_from_device_index_def text_of_def)
  with c(1) show ?thesis by blast
qed

section \<open>Departures\<close>

text \<open>A request without a kernel worker counts as accepted and is lost.\<close>

lemma request_without_kernel_worker_lost:
  assumes "c_cmd (p_header p) = cmd_request" "c_act (p_header p) = act_mgmt_dev_kernel_operation"
    "map_of (cs_kernels s) (n_session (p_header p)) = None"
  shows "push_request_to_worker_ctl to_wide p s = Some (None, s)"
  using assms by (simp add: push_request_to_worker_ctl_def push_back_request_to_kernel_ctl_def)

text \<open>The index of a device that was removed stays in the sets of the sessions, and of the sessions that share it the
  first one is told only.\<close>

lemma removed_index_stays:
  "cs_sets (snd (cb_dev_pluginout [] [s_path] s)) = cs_sets s"
  by (simp add: cb_dev_pluginout_def)

lemma one_session_is_told:
  assumes "get_device_index_from_device_path s_path s = w" "w \<noteq> 0" "cs_sets s = [(3, [w]), (5, [w])]"
  shows "fst (cb_dev_pluginout [] [s_path] s) = [notice_out 3 w s_path]"
  using assms by (simp add: cb_dev_pluginout_def plug_notices_def get_session_number_from_device_index_def)

end
