(* ===== verification/SessionFile.thy ===== *)
theory SessionFile
  imports CtlBase Decimal
begin

text \<open>
  The files that a client opens over its session (\<open>cws_server::csession\<close> in
  \<open>src/shared/lib/inc/websocket/mp_cws_server.h\<close>): a map from the names below the root folder to open streams.
  The files of the host are a store: a name leads to a file, a file has its bytes, and a file that is removed
  while it is open is no longer found by name. A file that exists can be read; which ones can be opened for writing
  or removed is a parameter of the store.
\<close>

section \<open>The files of the host\<close>

record file_store =
  fs_names :: "bytes \<Rightarrow> nat option"
  fs_data :: "nat \<Rightarrow> bytes"
  fs_next :: nat
  fs_writable :: "bytes \<Rightarrow> bool"
  fs_removable :: "bytes \<Rightarrow> bool"

definition file_exists :: "bytes \<Rightarrow> file_store \<Rightarrow> bool" where
  "file_exists s_file fs = (fs_names fs s_file \<noteq> None)"

definition new_file :: "bytes \<Rightarrow> file_store \<Rightarrow> nat \<times> file_store" where
  "new_file s_file fs =
     (fs_next fs, fs\<lparr>fs_names := (fs_names fs)(s_file := Some (fs_next fs)), fs_data := (fs_data fs)(fs_next fs := []),
                     fs_next := fs_next fs + 1\<rparr>)"

definition delete_file :: "bytes \<Rightarrow> file_store \<Rightarrow> bool \<times> file_store" where
  "delete_file s_file fs =
     (if s_file = [] \<or> \<not> file_exists s_file fs \<or> \<not> fs_removable fs s_file then (False, fs)
      else (True, fs\<lparr>fs_names := (fs_names fs)(s_file := None)\<rparr>))"

text \<open>A stream: the file, if it is open, and the position of the next read or write.\<close>

record fstream =
  st_file :: "nat option"
  st_pos :: nat

definition closed_stream :: fstream where
  "closed_stream = \<lparr>st_file = None, st_pos = 0\<rparr>"

text \<open>The three modes in use: \<open>out\<close> (a new or emptied file), \<open>in | out\<close> (an existing file, at its end), and
  \<open>in | out | trunc\<close> (a new or emptied file).\<close>

datatype open_mode = mode_out | mode_in_out | mode_in_out_trunc

definition stream_open :: "bytes \<Rightarrow> open_mode \<Rightarrow> file_store \<Rightarrow> fstream \<times> file_store" where
  "stream_open s_file m fs =
     (if \<not> fs_writable fs s_file then (closed_stream, fs)
      else case fs_names fs s_file of
        None \<Rightarrow>
          (if m = mode_in_out then (closed_stream, fs)
           else case new_file s_file fs of (n, fs') \<Rightarrow> (\<lparr>st_file = Some n, st_pos = 0\<rparr>, fs'))
      | Some n \<Rightarrow>
          (if m = mode_in_out then (\<lparr>st_file = Some n, st_pos = length (fs_data fs n)\<rparr>, fs)
           else (\<lparr>st_file = Some n, st_pos = 0\<rparr>, fs\<lparr>fs_data := (fs_data fs)(n := [])\<rparr>)))"

text \<open>Writing at a position; a gap behind the end is filled with zeros. A closed stream takes nothing.\<close>

definition write_at :: "nat \<Rightarrow> bytes \<Rightarrow> bytes \<Rightarrow> bytes" where
  "write_at pos v d = take pos d @ replicate (pos - length d) 0 @ v @ drop (pos + length v) d"

definition stream_write :: "bytes \<Rightarrow> fstream \<Rightarrow> file_store \<Rightarrow> fstream \<times> file_store" where
  "stream_write v s fs =
     (case st_file s of
        None \<Rightarrow> (s, fs)
      | Some n \<Rightarrow> (s\<lparr>st_pos := st_pos s + length v\<rparr>, fs\<lparr>fs_data := (fs_data fs)(n := write_at (st_pos s) v (fs_data fs n))\<rparr>))"

section \<open>The files of a session\<close>

record session_files =
  sf_root :: wstring
  sf_separator :: "16 word"
  sf_temp_file :: wstring
  sf_using_temp :: bool
  sf_opened :: "(wstring \<times> fstream) list"

definition abs_file :: "(wstring \<Rightarrow> bytes) \<Rightarrow> session_files \<Rightarrow> wstring \<Rightarrow> bytes" where
  "abs_file to_mcs sf s = to_mcs (sf_root sf @ sf_separator sf # s)"

abbreviation opened :: "session_files \<Rightarrow> wstring \<Rightarrow> fstream option" where
  "opened sf \<equiv> map_of (sf_opened sf)"

abbreviation put_stream :: "wstring \<Rightarrow> fstream \<Rightarrow> session_files \<Rightarrow> session_files" where
  "put_stream s st sf \<equiv> sf\<lparr>sf_opened := map_put s st (sf_opened sf)\<rparr>"

definition set_using_temp_file :: "bool \<Rightarrow> session_files \<Rightarrow> session_files" where
  "set_using_temp_file b sf = sf\<lparr>sf_using_temp := b\<rparr>"

definition set_virtual_full_path_of_temp_file :: "wstring \<Rightarrow> session_files \<Rightarrow> session_files" where
  "set_virtual_full_path_of_temp_file s sf = sf\<lparr>sf_temp_file := s\<rparr>"

definition delete_temp_file :: "(wstring \<Rightarrow> bytes) \<Rightarrow> session_files \<Rightarrow> file_store \<Rightarrow> bool \<times> file_store" where
  "delete_temp_file to_mcs sf fs =
     (if sf_temp_file sf = [] then (False, fs)
      else if sf_using_temp sf then (False, fs)
      else delete_file (abs_file to_mcs sf (sf_temp_file sf)) fs)"

text \<open>The streams are closed, but stay in the map.\<close>

definition close_all_opened_file :: "(wstring \<Rightarrow> bytes) \<Rightarrow> session_files \<Rightarrow> file_store \<Rightarrow> session_files \<times> file_store" where
  "close_all_opened_file to_mcs sf fs =
     (sf\<lparr>sf_opened := map (\<lambda>(s, st). (s, st\<lparr>st_file := None\<rparr>)) (sf_opened sf)\<rparr>, snd (delete_temp_file to_mcs sf fs))"

definition get_opened_file_path :: "session_files \<Rightarrow> bool \<times> wstring list" where
  "get_opened_file_path sf =
     (if sf_opened sf = [] then (False, []) else (True, filter (\<lambda>s. s \<noteq> []) (map fst (sf_opened sf))))"

definition get_first_opened_file_path :: "session_files \<Rightarrow> wstring option" where
  "get_first_opened_file_path sf = (case sf_opened sf of [] \<Rightarrow> None | (s, _) # _ \<Rightarrow> Some s)"

definition file_is_open :: "wstring \<Rightarrow> session_files \<Rightarrow> bool" where
  "file_is_open s sf = (s \<noteq> [] \<and> opened sf s \<noteq> None)"

text \<open>The two openings of a new file.\<close>

definition create_stream ::
  "(wstring \<Rightarrow> bytes) \<Rightarrow> wstring \<Rightarrow> session_files \<Rightarrow> file_store \<Rightarrow> bool \<times> session_files \<times> file_store" where
  "create_stream to_mcs s sf fs =
     (let f = abs_file to_mcs sf s in
      if file_exists f fs then (False, sf, fs)
      else case stream_open f mode_out fs of
        (st, fs1) \<Rightarrow>
          if st_file st = None then (False, sf, fs1)
          else case stream_open f mode_in_out fs1 of
            (st2, fs2) \<Rightarrow> if st_file st2 = None then (False, sf, fs2) else (True, put_stream s st2 sf, fs2))"

definition file_firmware ::
  "(wstring \<Rightarrow> bytes) \<Rightarrow> wstring \<Rightarrow> wstring \<Rightarrow> session_files \<Rightarrow> file_store \<Rightarrow> bool \<times> session_files \<times> file_store" where
  "file_firmware to_mcs s_sub s sf fs =
     (if s_sub = [] then (False, sf, fs)
      else if opened sf s \<noteq> None then (False, sf, fs)
      else if s_sub = text_of ''create'' then create_stream to_mcs s sf fs
      else if s_sub = text_of ''delete'' then
        (if \<not> file_exists (abs_file to_mcs sf s) fs then (False, sf, fs)
         else case delete_file (abs_file to_mcs sf s) fs of (b, fs') \<Rightarrow> (b, sf, fs'))
      else (False, sf, fs))"

definition file_create ::
  "(wstring \<Rightarrow> bytes) \<Rightarrow> wstring \<Rightarrow> session_files \<Rightarrow> file_store \<Rightarrow> bool \<times> session_files \<times> file_store" where
  "file_create to_mcs s sf fs =
     (if s = [] then (False, sf, fs)
      else if opened sf s \<noteq> None then (False, sf, fs)
      else create_stream to_mcs s sf fs)"

definition file_open ::
  "(wstring \<Rightarrow> bytes) \<Rightarrow> wstring \<Rightarrow> session_files \<Rightarrow> file_store \<Rightarrow> bool \<times> session_files \<times> file_store" where
  "file_open to_mcs s sf fs =
     (if s = [] then (False, sf, fs)
      else if opened sf s \<noteq> None then (False, sf, fs)
      else if \<not> file_exists (abs_file to_mcs sf s) fs then (False, sf, fs)
      else case stream_open (abs_file to_mcs sf s) mode_in_out fs of
        (st, fs') \<Rightarrow> if st_file st = None then (False, sf, fs') else (True, put_stream s st sf, fs'))"

definition file_close :: "wstring \<Rightarrow> session_files \<Rightarrow> bool \<times> session_files" where
  "file_close s sf =
     (if s = [] then (False, sf)
      else if opened sf s = None then (False, sf)
      else (True, sf\<lparr>sf_opened := map_erase s (sf_opened sf)\<rparr>))"

definition file_truncate ::
  "(wstring \<Rightarrow> bytes) \<Rightarrow> wstring \<Rightarrow> session_files \<Rightarrow> file_store \<Rightarrow> bool \<times> session_files \<times> file_store" where
  "file_truncate to_mcs s sf fs =
     (if s = [] then (False, sf, fs)
      else if opened sf s = None then (False, sf, fs)
      else case stream_open (abs_file to_mcs sf s) mode_in_out_trunc fs of
        (st, fs') \<Rightarrow> (True, put_stream s st sf, fs'))"

definition file_write ::
  "wstring \<Rightarrow> bytes \<Rightarrow> session_files \<Rightarrow> file_store \<Rightarrow> bool \<times> session_files \<times> file_store" where
  "file_write s v_data sf fs =
     (if s = [] then (False, sf, fs)
      else if v_data = [] then (False, sf, fs)
      else case opened sf s of
        None \<Rightarrow> (False, sf, fs)
      | Some st \<Rightarrow> (case stream_write v_data st fs of (st', fs') \<Rightarrow> (True, put_stream s st' sf, fs')))"

text \<open>The size is cut to \<open>int\<close>; -1 is a file that is not open. Asking for it moves the position to the end.\<close>

definition file_get_size :: "wstring \<Rightarrow> session_files \<Rightarrow> file_store \<Rightarrow> int \<times> session_files" where
  "file_get_size s sf fs =
     (if s = [] then (-1, sf)
      else case opened sf s of
        None \<Rightarrow> (-1, sf)
      | Some st \<Rightarrow>
          (case st_file st of
             None \<Rightarrow> (-1, sf)
           | Some n \<Rightarrow>
               (sint (of_nat (length (fs_data fs n)) :: 32 word),
                put_stream s (st\<lparr>st_pos := length (fs_data fs n)\<rparr>) sf)))"

section \<open>Uploading a file\<close>

text \<open>
  Data of a client go to the first open file. The writes of several packets, all of them accepted or not; the
  bytes that are found under a name.
\<close>

definition file_append :: "bytes \<Rightarrow> session_files \<Rightarrow> file_store \<Rightarrow> bool \<times> session_files \<times> file_store" where
  "file_append v_data sf fs =
     (case get_first_opened_file_path sf of None \<Rightarrow> (False, sf, fs) | Some s \<Rightarrow> file_write s v_data sf fs)"

fun append_packets :: "bytes list \<Rightarrow> session_files \<Rightarrow> file_store \<Rightarrow> bool \<times> session_files \<times> file_store" where
  "append_packets [] sf fs = (True, sf, fs)"
| "append_packets (v # vs) sf fs =
     (case file_append v sf fs of
        (b, sf1, fs1) \<Rightarrow> (case append_packets vs sf1 fs1 of (b', sf2, fs2) \<Rightarrow> (b \<and> b', sf2, fs2)))"

definition content :: "file_store \<Rightarrow> bytes \<Rightarrow> bytes option" where
  "content fs f = map_option (fs_data fs) (fs_names fs f)"

text \<open>Every name leads to a file that was created.\<close>

definition store_ok :: "file_store \<Rightarrow> bool" where
  "store_ok fs = ((\<forall>f n. fs_names fs f = Some n \<longrightarrow> n < fs_next fs) \<and> inj_on (fs_names fs) (dom (fs_names fs)))"

lemma write_at_end: "write_at (length d) v d = d @ v"
  by (simp add: write_at_def)

lemma created_stream:
  assumes "create_stream to_mcs s sf fs = (True, sf1, fs1)"
  shows "sf1 = put_stream s \<lparr>st_file = Some (fs_next fs), st_pos = 0\<rparr> sf"
    "fs1 = snd (new_file (abs_file to_mcs sf s) fs)" "\<not> file_exists (abs_file to_mcs sf s) fs"
  using assms
  by (auto simp: create_stream_def stream_open_def new_file_def file_exists_def closed_stream_def Let_def
      split: if_splits option.splits)

lemma append_packets_stored:
  assumes "[] \<notin> set vs" "s \<noteq> []" "sf_opened sf = [(s, \<lparr>st_file = Some n, st_pos = length (fs_data fs n)\<rparr>)]"
  shows "append_packets vs sf fs =
     (True,
      sf\<lparr>sf_opened := [(s, \<lparr>st_file = Some n, st_pos = length (fs_data fs n @ concat vs)\<rparr>)]\<rparr>,
      fs\<lparr>fs_data := (fs_data fs)(n := fs_data fs n @ concat vs)\<rparr>)"
  using assms
proof (induction vs arbitrary: sf fs)
  case Nil
  then have "sf\<lparr>sf_opened := [(s, \<lparr>st_file = Some n, st_pos = length (fs_data fs n)\<rparr>)]\<rparr> = sf"
    using session_files.surjective [of sf] by (metis session_files.update_convs(5))
  then show ?case by simp
next
  case (Cons v vs)
  let ?fs = "fs\<lparr>fs_data := (fs_data fs)(n := fs_data fs n @ v)\<rparr>"
  let ?sf = "sf\<lparr>sf_opened := [(s, \<lparr>st_file = Some n, st_pos = length (fs_data ?fs n)\<rparr>)]\<rparr>"
  have "v \<noteq> []" using Cons.prems(1) by auto
  then have "file_append v sf fs = (True, ?sf, ?fs)"
    using Cons.prems
    by (simp add: file_append_def get_first_opened_file_path_def file_write_def stream_write_def write_at_end)
  moreover have "append_packets vs ?sf ?fs =
     (True, ?sf\<lparr>sf_opened := [(s, \<lparr>st_file = Some n, st_pos = length (fs_data ?fs n @ concat vs)\<rparr>)]\<rparr>,
      ?fs\<lparr>fs_data := (fs_data ?fs)(n := fs_data ?fs n @ concat vs)\<rparr>)"
    using Cons.prems by (intro Cons.IH) simp_all
  ultimately show ?case by (simp add: fun_upd_def cong: if_cong)
qed


definition empty_store :: file_store where
  "empty_store = \<lparr>fs_names = (\<lambda>_. None), fs_data = (\<lambda>_. []), fs_next = 0, fs_writable = (\<lambda>_. True), fs_removable = (\<lambda>_. True)\<rparr>"

definition new_session_files :: session_files where
  "new_session_files =
     \<lparr>sf_root = text_of ''root'', sf_separator = 0x2F, sf_temp_file = text_of ''t'', sf_using_temp = False, sf_opened = []\<rparr>"


section \<open>Departures\<close>

text \<open>The first open file is the one with the smallest name, not the one that was opened first.\<close>

lemma smallest_name_is_written:
  assumes "sf_opened sf = [(text_of ''b'', st)]" "file_create to_mcs (text_of ''a'') sf fs = (True, sf1, fs1)"
  shows "get_first_opened_file_path sf1 = Some (text_of ''a'')"
proof -
  have "create_stream to_mcs (text_of ''a'') sf fs = (True, sf1, fs1)"
    using assms(2) by (simp add: file_create_def split: if_splits)
  from created_stream(1) [OF this] show ?thesis
    using assms(1) by (simp add: get_first_opened_file_path_def text_of_def less_list_code)
qed

text \<open>Truncating reports success when the file cannot be opened again, and so do the writes that follow.\<close>

lemma write_to_closed_stream_reported:
  assumes "s \<noteq> []" "v \<noteq> []" "opened sf s = Some st" "\<not> fs_writable fs (abs_file to_mcs sf s)"
  shows "\<exists>sf'. file_truncate to_mcs s sf fs = (True, sf', fs) \<and> opened sf' s = Some closed_stream
    \<and> file_write s v sf' fs = (True, put_stream s closed_stream sf', fs)"
  using assms
  by (simp add: file_truncate_def stream_open_def file_write_def stream_write_def map_of_map_put closed_stream_def)

end
