(* ===== verification/HidDevSet.thy ===== *)
theory HidDevSet
  imports Prelude "HOL-Library.List_Lexorder"
begin

text \<open>
  The list of the connected HID devices: \<open>clibhid_dev_info\<close>
  (\<open>src/shared/lib/src/hid/mp_clibhid_dev_info.cpp\<close>) and the part of \<open>clibhid\<close>
  (\<open>src/shared/lib/src/hid/mp_clibhid.cpp\<close>) that turns an enumeration of the devices into the sets of
  the present, the removed and the inserted devices. A \<open>std::set\<close> of devices is a list in the order of
  the paths without two equal paths. The enumeration is a parameter, as are the devices that reported
  a critical error.
\<close>

section \<open>Device information\<close>

text \<open>Paths are compared like \<open>std::lexicographical_compare\<close> compares \<open>char\<close>, which is signed.\<close>

datatype dev_path = dev_path (path_chars: bytes)

instantiation dev_path :: linorder
begin

definition less_eq_dev_path :: "dev_path \<Rightarrow> dev_path \<Rightarrow> bool" where
  "less_eq_dev_path p q = (map sint (path_chars p) \<le> map sint (path_chars q))"

definition less_dev_path :: "dev_path \<Rightarrow> dev_path \<Rightarrow> bool" where
  "less_dev_path p q = (map sint (path_chars p) < map sint (path_chars q))"

instance
proof
  fix p q r :: dev_path
  have inj: "map sint (path_chars p) = map sint (path_chars q) \<Longrightarrow> p = q"
    by (rule dev_path.expand, rule map_injective [where f = "sint :: byte \<Rightarrow> int"])
      (auto intro!: injI simp: signed_word_eqI)
  show "(p < q) = (p \<le> q \<and> \<not> q \<le> p)" unfolding less_eq_dev_path_def less_dev_path_def by (rule less_le_not_le)
  show "p \<le> p" unfolding less_eq_dev_path_def by (rule order_refl)
  show "p \<le> q \<Longrightarrow> q \<le> r \<Longrightarrow> p \<le> r" unfolding less_eq_dev_path_def by (rule order_trans)
  show "p \<le> q \<Longrightarrow> q \<le> p \<Longrightarrow> p = q" unfolding less_eq_dev_path_def by (rule inj) (rule antisym)
  show "p \<le> q \<or> q \<le> p" unfolding less_eq_dev_path_def by (rule linear)
qed

end

record dev_info =
  m_w_vid :: "16 word"
  m_w_pid :: "16 word"
  m_n_interface :: int
  m_n_size_in_report :: int
  m_n_size_out_report :: int
  m_vs_path :: bytes
  m_s_extra_path :: bytes
  m_s_pis :: bytes

definition get_path :: "dev_info \<Rightarrow> dev_path" where
  "get_path i = dev_path (m_vs_path i @ m_s_extra_path i)"

text \<open>\<open>operator==\<close> compares the two parts of the path, \<open>operator<\<close> the whole path.\<close>

definition dev_info_eq :: "dev_info \<Rightarrow> dev_info \<Rightarrow> bool" where
  "dev_info_eq a b = (m_vs_path a = m_vs_path b \<and> m_s_extra_path a = m_s_extra_path b)"

definition dev_info_lt :: "dev_info \<Rightarrow> dev_info \<Rightarrow> bool" where
  "dev_info_lt a b = (get_path a < get_path b)"

definition const_usb_vid :: int where "const_usb_vid = 0x134b"
definition const_usb_pid_hidbl :: int where "const_usb_pid_hidbl = 0x0243"
definition const_usb_inf_hidbl :: int where "const_usb_inf_hidbl = - 1"
definition lpu237_usb_pid :: int where "lpu237_usb_pid = 0x0206"
definition lpu237_usb_inf_hid :: int where "lpu237_usb_inf_hid = 1"
definition lpu238_usb_pid :: int where "lpu238_usb_pid = 0x0214"
definition lpu238_usb_inf_hid :: int where "lpu238_usb_inf_hid = 0"

lemmas usb_ids =
  const_usb_vid_def const_usb_pid_hidbl_def const_usb_inf_hidbl_def lpu237_usb_pid_def
  lpu237_usb_inf_hid_def lpu238_usb_pid_def lpu238_usb_inf_hid_def

text \<open>\<open>get_usb_pis_from_path\<close>, the Windows version: the part between the second and the third \<open>#\<close>, up to
  its second \<open>&\<close>; empty when there is no \<open>&\<close>.\<close>

definition split_at :: "byte \<Rightarrow> bytes \<Rightarrow> (bytes \<times> bytes) option" where
  "split_at c s = (if c \<in> set s then Some (takeWhile (\<lambda>x. x \<noteq> c) s, tl (dropWhile (\<lambda>x. x \<noteq> c) s)) else None)"

definition get_usb_pis_from_path :: "bytes \<Rightarrow> bytes" where
  "get_usb_pis_from_path s_path =
     (case split_at 35 s_path of None \<Rightarrow> [] | Some (_, s1) \<Rightarrow>
       (case split_at 35 s1 of None \<Rightarrow> [] | Some (_, s2) \<Rightarrow>
         let s_port = (case split_at 35 s2 of None \<Rightarrow> s2 | Some (p, _) \<Rightarrow> p)
         in (case split_at 38 s_port of None \<Rightarrow> [] | Some (a, r) \<Rightarrow>
              a @ [38] @ (case split_at 38 r of None \<Rightarrow> r | Some (b, _) \<Rightarrow> b))))"

text \<open>The constructor for the devices of the enumeration: path, vendor, product, interface, extra path.\<close>

type_synonym enum_item = "bytes \<times> 16 word \<times> 16 word \<times> int \<times> bytes"

definition new_dev_info :: "enum_item \<Rightarrow> dev_info" where
  "new_dev_info it = (case it of (path, vid, pid, infn, extra) \<Rightarrow>
     let known = (uint vid = const_usb_vid);
         sizes = (if known \<and> uint pid = lpu237_usb_pid \<and> infn = lpu237_usb_inf_hid then (220, 64)
                  else if known \<and> uint pid = lpu238_usb_pid \<and> infn = lpu238_usb_inf_hid then (220, 64)
                  else if known \<and> uint pid = const_usb_pid_hidbl then (64, 64)
                  else (0, 0))
     in \<lparr>m_w_vid = vid, m_w_pid = pid, m_n_interface = infn, m_n_size_in_report = fst sizes,
         m_n_size_out_report = snd sizes, m_vs_path = path, m_s_extra_path = extra,
         m_s_pis = get_usb_pis_from_path path\<rparr>)"

section \<open>Sets of devices\<close>

type_synonym dev_set = "dev_info list"

definition dev_paths :: "dev_set \<Rightarrow> dev_path set" where
  "dev_paths xs = set (map get_path xs)"

definition wf_dev_set :: "dev_set \<Rightarrow> bool" where
  "wf_dev_set xs = (sorted (map get_path xs) \<and> distinct (map get_path xs))"

text \<open>\<open>std::set::emplace\<close> and \<open>insert\<close> keep an element that is already there.\<close>

definition set_emplace :: "dev_info \<Rightarrow> dev_set \<Rightarrow> dev_set" where
  "set_emplace i xs = (if get_path i \<in> set (map get_path xs) then xs else insort_key get_path i xs)"

definition set_erase :: "dev_info \<Rightarrow> dev_set \<Rightarrow> dev_set" where
  "set_erase i xs = filter (\<lambda>x. get_path x \<noteq> get_path i) xs"

definition subtract :: "dev_set \<Rightarrow> dev_set \<Rightarrow> dev_set" where
  "subtract v1 v2 = fold set_erase v2 v1"

definition find_path :: "dev_set \<Rightarrow> bytes \<Rightarrow> dev_info option" where
  "find_path xs s_path = find (\<lambda>x. path_chars (get_path x) = s_path) xs"

definition find_id :: "dev_set \<Rightarrow> int \<Rightarrow> int \<Rightarrow> dev_info option" where
  "find_id xs n_vid n_pid = find (\<lambda>x. m_w_vid x = of_int n_vid \<and> m_w_pid x = of_int n_pid) xs"

type_synonym usb_filter = "int \<times> int \<times> int"

text \<open>Negative members of a filter let everything through.\<close>

fun passes_filter :: "usb_filter \<Rightarrow> dev_info \<Rightarrow> bool" where
  "passes_filter (n_vid, n_pid, n_inf) info =
     (if n_vid < 0 then True
      else if uint (m_w_vid info) \<noteq> n_vid then False
      else if n_pid < 0 then True
      else if uint (m_w_pid info) \<noteq> n_pid then False
      else if n_inf < 0 then True
      else m_n_interface info = n_inf)"

definition filter_dev_info_set :: "dev_set \<Rightarrow> usb_filter \<Rightarrow> dev_set" where
  "filter_dev_info_set xs t_filter =
     fold (\<lambda>info out. if passes_filter t_filter info then set_emplace info out else out) xs []"

section \<open>The library object\<close>

record clibhid =
  m_set_usb_filter :: "usb_filter list"
  m_set_cur_dev_info :: dev_set
  m_set_removed_dev_info :: dev_set
  m_set_inserted_dev_info :: dev_set
  m_set_usb_id_considerated_to_remove :: "(int \<times> int \<times> bytes) list"
  m_map_pair_ptrs :: "(dev_info \<times> bool) list"

definition set_usb_filter :: "usb_filter list \<Rightarrow> clibhid \<Rightarrow> clibhid" where
  "set_usb_filter f lib = lib\<lparr>m_set_usb_filter := f\<rparr>"

definition consider_to_be_removed :: "int \<Rightarrow> int \<Rightarrow> bytes \<Rightarrow> clibhid \<Rightarrow> bool \<times> clibhid" where
  "consider_to_be_removed n_vid n_pid s_pis lib =
     (if (n_vid, n_pid, s_pis) \<in> set (m_set_usb_id_considerated_to_remove lib) then (False, lib)
      else (True, lib\<lparr>m_set_usb_id_considerated_to_remove :=
              (n_vid, n_pid, s_pis) # m_set_usb_id_considerated_to_remove lib\<rparr>))"

definition cancel_considering_dev_as_removed :: "int \<Rightarrow> int \<Rightarrow> bytes \<Rightarrow> clibhid \<Rightarrow> bool \<times> clibhid" where
  "cancel_considering_dev_as_removed n_vid n_pid s_pis lib =
     (if n_vid = - 1 \<or> n_pid = - 1 then (True, lib\<lparr>m_set_usb_id_considerated_to_remove := []\<rparr>)
      else ((n_vid, n_pid, s_pis) \<in> set (m_set_usb_id_considerated_to_remove lib),
            lib\<lparr>m_set_usb_id_considerated_to_remove :=
              removeAll (n_vid, n_pid, s_pis) (m_set_usb_id_considerated_to_remove lib)\<rparr>))"

definition default_usb_filter :: "usb_filter list" where
  "default_usb_filter =
     [(const_usb_vid, lpu237_usb_pid, lpu237_usb_inf_hid),
      (const_usb_vid, lpu238_usb_pid, lpu238_usb_inf_hid),
      (const_usb_vid, const_usb_pid_hidbl, const_usb_inf_hidbl)]"

text \<open>
  \<open>_get_device_set\<close>: the enumeration without what counts as removed, then without the open devices that
  detected a replug or count as removed, then what passes one of the filters.
\<close>

definition considered_removed :: "clibhid \<Rightarrow> 16 word \<Rightarrow> 16 word \<Rightarrow> bytes \<Rightarrow> bool" where
  "considered_removed lib vid pid s_pis =
     ((uint vid, uint pid, s_pis) \<in> set (m_set_usb_id_considerated_to_remove lib))"

definition enumerated_set :: "clibhid \<Rightarrow> enum_item list \<Rightarrow> dev_set" where
  "enumerated_set lib set_dev =
     fold (\<lambda>it st. case it of (path, vid, pid, infn, extra) \<Rightarrow>
            if considered_removed lib vid pid (get_usb_pis_from_path path) then st
            else set_emplace (new_dev_info it) st) set_dev []"

definition must_be_removed :: "clibhid \<Rightarrow> dev_set" where
  "must_be_removed lib =
     fold (\<lambda>(info, b_detect_replugin) st.
            if b_detect_replugin \<or> considered_removed lib (m_w_vid info) (m_w_pid info) (m_s_pis info)
            then set_emplace info st else st) (m_map_pair_ptrs lib) []"

definition get_device_set :: "clibhid \<Rightarrow> enum_item list \<Rightarrow> dev_set" where
  "get_device_set lib set_dev =
     (let st_after_removed = subtract (enumerated_set lib set_dev) (must_be_removed lib)
      in if m_set_usb_filter lib \<noteq> [] \<and> st_after_removed \<noteq> [] then
           fold (\<lambda>f out. fold set_emplace (filter_dev_info_set st_after_removed f) out)
             (m_set_usb_filter lib) []
         else st_after_removed)"

definition set_eq :: "dev_set \<Rightarrow> dev_set \<Rightarrow> bool" where
  "set_eq xs ys = list_all2 dev_info_eq xs ys"

definition update_dev_set :: "enum_item list \<Rightarrow> clibhid \<Rightarrow> bool \<times> clibhid" where
  "update_dev_set set_enum lib =
     (let set_dev = get_device_set lib set_enum
      in if length set_dev = length (m_set_cur_dev_info lib)
            \<and> (set_dev = [] \<or> set_eq set_dev (m_set_cur_dev_info lib))
         then (False, lib\<lparr>m_set_removed_dev_info := [], m_set_inserted_dev_info := []\<rparr>)
         else (True, lib\<lparr>m_set_removed_dev_info := subtract (m_set_cur_dev_info lib) set_dev,
                         m_set_inserted_dev_info := subtract set_dev (m_set_cur_dev_info lib),
                         m_set_cur_dev_info := set_dev\<rparr>))"

text \<open>\<open>_update_device_map\<close>: \<open>is_open\<close> says which of the inserted devices can be opened.\<close>

definition update_device_map :: "(dev_info \<Rightarrow> bool) \<Rightarrow> clibhid \<Rightarrow> clibhid" where
  "update_device_map is_open lib =
     (let kept = filter (\<lambda>(i, _). \<not> list_ex (\<lambda>r. get_path r = get_path i) (m_set_removed_dev_info lib))
                   (m_map_pair_ptrs lib)
      in lib\<lparr>m_map_pair_ptrs :=
           fold (\<lambda>i m. if is_open i \<and> \<not> list_ex (\<lambda>(j, _). get_path j = get_path i) m
                       then m @ [(i, False)] else m) (m_set_inserted_dev_info lib) kept\<rparr>)"

section \<open>Sets stay ordered\<close>

lemma wf_Nil [simp]: "wf_dev_set []"
  by (simp add: wf_dev_set_def)

lemma paths_Nil [simp]: "dev_paths [] = {}"
  by (simp add: dev_paths_def)

lemma distinct_insort_key:
  "distinct (map f xs) \<Longrightarrow> f x \<notin> set (map f xs) \<Longrightarrow> distinct (map f (insort_key f x xs))"
  by (induction xs) (auto simp: set_insort_key)

lemma set_emplace_wf [simp]: "wf_dev_set xs \<Longrightarrow> wf_dev_set (set_emplace i xs)"
  using distinct_insort_key [of get_path xs i]
  by (simp add: wf_dev_set_def set_emplace_def sorted_insort_key)

lemma set_emplace_paths [simp]: "dev_paths (set_emplace i xs) = insert (get_path i) (dev_paths xs)"
  by (auto simp: dev_paths_def set_emplace_def set_insort_key)

lemma fold_emplace_wf:
  "wf_dev_set st \<Longrightarrow> wf_dev_set (fold (\<lambda>x st. if P x then set_emplace (f x) st else st) xs st)"
  by (induction xs arbitrary: st) simp_all

lemma fold_emplace_paths:
  "dev_paths (fold (\<lambda>x st. if P x then set_emplace (f x) st else st) xs st) =
     dev_paths st \<union> {get_path (f x) | x. x \<in> set xs \<and> P x}"
  by (induction xs arbitrary: st) auto

lemma filter_wf: "wf_dev_set xs \<Longrightarrow> wf_dev_set (filter P xs)"
  by (auto simp: wf_dev_set_def distinct_map sorted_filter inj_on_def)

lemma subtract_filter: "subtract v1 v2 = filter (\<lambda>x. get_path x \<notin> dev_paths v2) v1"
proof (induction v2 arbitrary: v1)
  case (Cons a v2)
  then show ?case
    by (simp add: subtract_def set_erase_def dev_paths_def conj_commute)
qed (simp add: subtract_def)

lemma subtract_wf [simp]: "wf_dev_set v1 \<Longrightarrow> wf_dev_set (subtract v1 v2)"
  by (simp add: subtract_filter filter_wf)

lemma subtract_paths [simp]: "dev_paths (subtract v1 v2) = dev_paths v1 - dev_paths v2"
  by (auto simp: subtract_filter dev_paths_def)

lemma filter_dev_info_set_filter:
  assumes "wf_dev_set xs"
  shows "filter_dev_info_set xs f = filter (passes_filter f) xs"
proof -
  have "fold (\<lambda>info out. if P info then set_emplace info out else out) ys out = out @ filter P ys"
    if "wf_dev_set (out @ ys)" for P ys out
    using that
  proof (induction ys arbitrary: out)
    case (Cons y ys)
    have new: "get_path y \<notin> set (map get_path out)" and le: "\<forall>x\<in>set out. get_path x \<le> get_path y"
      and wf: "wf_dev_set ((out @ [y]) @ ys)" "wf_dev_set (out @ ys)"
      using Cons.prems by (auto simp: wf_dev_set_def sorted_append)
    have "insort_key get_path y out = out @ [y]"
      using new le by (induction out) (auto simp: antisym)
    then have "set_emplace y out = out @ [y]" using new by (simp add: set_emplace_def)
    then show ?case using Cons.IH [OF wf(1)] Cons.IH [OF wf(2)] by simp
  qed simp
  from this [of "[]" xs] assms show ?thesis by (simp add: filter_dev_info_set_def)
qed

lemma enumerated_set_wf [simp]: "wf_dev_set (enumerated_set lib es)"
proof -
  have "enumerated_set lib es = fold (\<lambda>it st. if \<not> (case it of (path, vid, pid, infn, extra) \<Rightarrow>
      considered_removed lib vid pid (get_usb_pis_from_path path)) then set_emplace (new_dev_info it) st
      else st) es []"
    unfolding enumerated_set_def by (rule fold_cong) (auto simp: fun_eq_iff)
  then show ?thesis by (simp only:) (rule fold_emplace_wf, simp)
qed

lemma fold_emplace_all:
  "wf_dev_set out \<Longrightarrow> wf_dev_set (fold set_emplace xs out)
     \<and> dev_paths (fold set_emplace xs out) = dev_paths out \<union> dev_paths xs
     \<and> set (fold set_emplace xs out) \<subseteq> set out \<union> set xs"
proof (induction xs arbitrary: out)
  case (Cons x xs)
  have "set (set_emplace x out) \<subseteq> insert x (set out)"
    by (auto simp: set_emplace_def set_insort_key)
  moreover have "dev_paths (x # xs) = insert (get_path x) (dev_paths xs)" by (simp add: dev_paths_def)
  ultimately show ?case using Cons.IH [OF set_emplace_wf [OF Cons.prems], of x] by auto
qed simp

lemma fold_filters:
  assumes "wf_dev_set xs" "wf_dev_set out"
  shows "wf_dev_set (fold (\<lambda>f out. fold set_emplace (filter_dev_info_set xs f) out) fs out)
     \<and> dev_paths (fold (\<lambda>f out. fold set_emplace (filter_dev_info_set xs f) out) fs out)
         = dev_paths out \<union> {get_path i | i. i \<in> set xs \<and> list_ex (\<lambda>f. passes_filter f i) fs}"
  using assms(2)
proof (induction fs arbitrary: out)
  case (Cons f fs)
  let ?o = "fold set_emplace (filter (passes_filter f) xs) out"
  have "wf_dev_set ?o" and p: "dev_paths ?o = dev_paths out \<union> dev_paths (filter (passes_filter f) xs)"
    using fold_emplace_all [OF Cons.prems, of "filter (passes_filter f) xs"] by simp_all
  from Cons.IH [OF this(1)] show ?case
    unfolding fold.simps comp_def filter_dev_info_set_filter [OF assms(1)]
    by (simp add: p) (auto simp: dev_paths_def)
qed simp

text \<open>What is left of the enumeration: nothing that counts as removed, and what passes a filter.\<close>

lemma get_device_set_wf [simp]: "wf_dev_set (get_device_set lib es)"
  using fold_filters [OF subtract_wf [OF enumerated_set_wf] wf_Nil] by (simp add: get_device_set_def Let_def)

lemma get_device_set_passes:
  assumes "m_set_usb_filter lib \<noteq> []" "p \<in> dev_paths (get_device_set lib es)"
  shows "\<exists>i\<in>set (enumerated_set lib es). get_path i = p \<and> list_ex (\<lambda>f. passes_filter f i) (m_set_usb_filter lib)"
proof -
  let ?xs = "subtract (enumerated_set lib es) (must_be_removed lib)"
  have wf: "wf_dev_set ?xs" by simp
  from fold_filters [OF wf wf_Nil, of "m_set_usb_filter lib"] assms
  have "p \<in> {get_path i | i. i \<in> set ?xs \<and> list_ex (\<lambda>f. passes_filter f i) (m_set_usb_filter lib)}"
    by (auto simp: get_device_set_def Let_def split: if_splits)
  then show ?thesis by (auto simp: subtract_filter)
qed

section \<open>The worker that watches the devices\<close>

text \<open>\<open>_ini\<close>: the devices that are there at the start are opened, nothing is reported.\<close>

definition clibhid_ini :: "(dev_info \<Rightarrow> bool) \<Rightarrow> usb_filter list \<Rightarrow> enum_item list \<Rightarrow> clibhid" where
  "clibhid_ini is_open f es =
     (let lib = \<lparr>m_set_usb_filter = f, m_set_cur_dev_info = [], m_set_removed_dev_info = [],
                m_set_inserted_dev_info = [], m_set_usb_id_considerated_to_remove = [],
                m_map_pair_ptrs = []\<rparr>;
          cur = get_device_set lib es
      in lib\<lparr>m_set_cur_dev_info := cur, m_map_pair_ptrs := map (\<lambda>i. (i, False)) (filter is_open cur)\<rparr>)"

text \<open>One round of the worker and what it hands to the callback: the inserted and the removed devices.\<close>

definition worker_round ::
  "(dev_info \<Rightarrow> bool) \<Rightarrow> enum_item list \<Rightarrow> clibhid \<Rightarrow> (dev_set \<times> dev_set) option \<times> clibhid" where
  "worker_round is_open es lib =
     (case update_dev_set es lib of
        (True, lib1) \<Rightarrow>
          (let lib2 = update_device_map is_open lib1
           in (Some (m_set_inserted_dev_info lib2, m_set_removed_dev_info lib2), lib2))
      | (False, lib1) \<Rightarrow> (None, lib1))"

primrec worker_run ::
  "(dev_info \<Rightarrow> bool) \<Rightarrow> enum_item list list \<Rightarrow> clibhid \<Rightarrow> (dev_set \<times> dev_set) option list \<times> clibhid" where
  "worker_run is_open [] lib = ([], lib)"
| "worker_run is_open (es # ess) lib =
     (case worker_round is_open es lib of (ev, lib1) \<Rightarrow>
        case worker_run is_open ess lib1 of (evs, lib2) \<Rightarrow> (ev # evs, lib2))"

text \<open>Someone who only sees the callbacks.\<close>

fun follow :: "(dev_set \<times> dev_set) option \<Rightarrow> dev_path set \<Rightarrow> dev_path set" where
  "follow None ps = ps"
| "follow (Some (inserted, removed)) ps = (ps - dev_paths removed) \<union> dev_paths inserted"

definition map_paths :: "clibhid \<Rightarrow> dev_path set" where
  "map_paths lib = (\<lambda>(i, _). get_path i) ` set (m_map_pair_ptrs lib)"

definition wf_clibhid :: "clibhid \<Rightarrow> bool" where
  "wf_clibhid lib = (wf_dev_set (m_set_cur_dev_info lib) \<and> map_paths lib \<subseteq> dev_paths (m_set_cur_dev_info lib))"

lemma set_eq_paths: "set_eq xs ys \<Longrightarrow> map get_path xs = map get_path ys"
  unfolding set_eq_def by (induction rule: list_all2_induct) (simp_all add: dev_info_eq_def get_path_def)

lemma update_dev_set_cases:
  obtains (same) "update_dev_set es lib =
      (False, lib\<lparr>m_set_removed_dev_info := [], m_set_inserted_dev_info := []\<rparr>)"
    "dev_paths (get_device_set lib es) = dev_paths (m_set_cur_dev_info lib)"
  | (changed) "update_dev_set es lib =
      (True, lib\<lparr>m_set_removed_dev_info := subtract (m_set_cur_dev_info lib) (get_device_set lib es),
                 m_set_inserted_dev_info := subtract (get_device_set lib es) (m_set_cur_dev_info lib),
                 m_set_cur_dev_info := get_device_set lib es\<rparr>)"
proof (cases "length (get_device_set lib es) = length (m_set_cur_dev_info lib)
    \<and> (get_device_set lib es = [] \<or> set_eq (get_device_set lib es) (m_set_cur_dev_info lib))")
  case True
  then have "map get_path (get_device_set lib es) = map get_path (m_set_cur_dev_info lib)"
    using set_eq_paths by auto
  with same True show ?thesis by (simp add: update_dev_set_def Let_def dev_paths_def)
next
  case False
  with changed show ?thesis by (auto simp: update_dev_set_def Let_def)
qed

lemma update_reports_the_difference_lemma:
  assumes "wf_dev_set (m_set_cur_dev_info lib)" "update_dev_set es lib = (b, lib')"
  shows "dev_paths (m_set_cur_dev_info lib') = dev_paths (get_device_set lib es)
     \<and> dev_paths (m_set_removed_dev_info lib')
         = dev_paths (m_set_cur_dev_info lib) - dev_paths (m_set_cur_dev_info lib')
     \<and> dev_paths (m_set_inserted_dev_info lib')
         = dev_paths (m_set_cur_dev_info lib') - dev_paths (m_set_cur_dev_info lib)
     \<and> wf_dev_set (m_set_cur_dev_info lib') \<and> wf_dev_set (m_set_removed_dev_info lib')
     \<and> wf_dev_set (m_set_inserted_dev_info lib')"
proof (cases rule: update_dev_set_cases [of es lib])
  case same
  then have "lib' = lib\<lparr>m_set_removed_dev_info := [], m_set_inserted_dev_info := []\<rparr>"
    using assms(2) by simp
  then show ?thesis using same(2) assms(1) by simp
next
  case changed
  then have "lib' = lib\<lparr>m_set_removed_dev_info := subtract (m_set_cur_dev_info lib) (get_device_set lib es),
      m_set_inserted_dev_info := subtract (get_device_set lib es) (m_set_cur_dev_info lib),
      m_set_cur_dev_info := get_device_set lib es\<rparr>"
    using assms(2) by simp
  then show ?thesis using assms(1) by simp
qed

text \<open>An update leaves the present set equal to what the enumeration found, and reports exactly the
  difference: the removed devices were present and are not any more, the inserted ones are new, and
  all three sets stay ordered and free of duplicates.\<close>

theorem update_reports_the_difference:
  assumes "wf_dev_set (m_set_cur_dev_info lib)" "update_dev_set es lib = (b, lib')"
  shows "dev_paths (m_set_cur_dev_info lib') = dev_paths (get_device_set lib es)
     \<and> dev_paths (m_set_removed_dev_info lib')
         = dev_paths (m_set_cur_dev_info lib) - dev_paths (m_set_cur_dev_info lib')
     \<and> dev_paths (m_set_inserted_dev_info lib')
         = dev_paths (m_set_cur_dev_info lib') - dev_paths (m_set_cur_dev_info lib)
     \<and> wf_dev_set (m_set_cur_dev_info lib') \<and> wf_dev_set (m_set_removed_dev_info lib')
     \<and> wf_dev_set (m_set_inserted_dev_info lib')"
  by (rule update_reports_the_difference_lemma [OF assms])

definition keyboard_item :: enum_item where "keyboard_item = ([0x2F, 0x61], 0x134b, 0x0206, 1, [])"
definition loader_item :: enum_item where "loader_item = ([0x2F, 0x62], 0x134b, 0x0243, 0, [])"

theorem update_reports_the_difference_witness:
  "\<exists>b lib'. update_dev_set [loader_item] (clibhid_ini (\<lambda>_. True) default_usb_filter [keyboard_item]) = (b, lib')
     \<and> (dev_paths (m_set_cur_dev_info lib') = dev_paths (get_device_set
           (clibhid_ini (\<lambda>_. True) default_usb_filter [keyboard_item]) [loader_item])
     \<and> dev_paths (m_set_removed_dev_info lib')
         = dev_paths (m_set_cur_dev_info (clibhid_ini (\<lambda>_. True) default_usb_filter [keyboard_item]))
             - dev_paths (m_set_cur_dev_info lib')
     \<and> dev_paths (m_set_inserted_dev_info lib')
         = dev_paths (m_set_cur_dev_info lib')
             - dev_paths (m_set_cur_dev_info (clibhid_ini (\<lambda>_. True) default_usb_filter [keyboard_item]))
     \<and> wf_dev_set (m_set_cur_dev_info lib') \<and> wf_dev_set (m_set_removed_dev_info lib')
     \<and> wf_dev_set (m_set_inserted_dev_info lib'))"
proof -
  let ?lib = "clibhid_ini (\<lambda>_. True) default_usb_filter [keyboard_item]"
  obtain b lib' where u: "update_dev_set [loader_item] ?lib = (b, lib')"
    by (cases "update_dev_set [loader_item] ?lib")
  have "wf_dev_set (m_set_cur_dev_info ?lib)" by (simp add: clibhid_ini_def Let_def)
  from update_reports_the_difference [OF this u] u show ?thesis by blast
qed

lemma update_device_map_paths:
  "map_paths (update_device_map is_open lib) \<subseteq>
     (map_paths lib - dev_paths (m_set_removed_dev_info lib)) \<union> dev_paths (m_set_inserted_dev_info lib)"
proof -
  have add: "(\<lambda>(i, _). get_path i) ` set (fold (\<lambda>i m. if P i m then m @ [(i, False)] else m) xs m0)
      \<subseteq> (\<lambda>(i, _). get_path i) ` set m0 \<union> dev_paths xs" for P xs m0
  proof (induction xs arbitrary: m0)
    case (Cons x xs)
    have "dev_paths (x # xs) = insert (get_path x) (dev_paths xs)" by (simp add: dev_paths_def)
    moreover note Cons.IH [of "if P x m0 then m0 @ [(x, False)] else m0"]
    ultimately show ?case by (auto split: if_splits)
  qed simp
  have kept: "(\<lambda>(i, _). get_path i) ` set (filter (\<lambda>(i, _). \<not> list_ex (\<lambda>r. get_path r = get_path i)
      (m_set_removed_dev_info lib)) (m_map_pair_ptrs lib)) \<subseteq> map_paths lib - dev_paths (m_set_removed_dev_info lib)"
    by (auto simp: map_paths_def dev_paths_def list_ex_iff)
  have "map_paths (update_device_map is_open lib) \<subseteq> (\<lambda>(i, _). get_path i) ` set (filter (\<lambda>(i, _).
      \<not> list_ex (\<lambda>r. get_path r = get_path i) (m_set_removed_dev_info lib)) (m_map_pair_ptrs lib))
      \<union> dev_paths (m_set_inserted_dev_info lib)"
    unfolding map_paths_def update_device_map_def Let_def
    by (simp del: set_filter)
      (rule add [of "\<lambda>i m. is_open i \<and> \<not> list_ex (\<lambda>(j, _). get_path j = get_path i) m"])
  also have "\<dots> \<subseteq> (map_paths lib - dev_paths (m_set_removed_dev_info lib))
      \<union> dev_paths (m_set_inserted_dev_info lib)"
    using kept by (rule Un_mono) simp
  finally show ?thesis .
qed

lemma worker_round_follow:
  assumes "wf_clibhid lib" "worker_round is_open es lib = (ev, lib')"
  shows "wf_clibhid lib'"
    "follow ev (dev_paths (m_set_cur_dev_info lib)) = dev_paths (m_set_cur_dev_info lib')"
proof -
  obtain b lib1 where u: "update_dev_set es lib = (b, lib1)" by (cases "update_dev_set es lib")
  have wf: "wf_dev_set (m_set_cur_dev_info lib)" "map_paths lib \<subseteq> dev_paths (m_set_cur_dev_info lib)"
    using assms(1) by (simp_all add: wf_clibhid_def)
  have "wf_clibhid lib' \<and>
      follow ev (dev_paths (m_set_cur_dev_info lib)) = dev_paths (m_set_cur_dev_info lib')"
    using u
  proof (cases rule: update_dev_set_cases [of es lib])
    case same
    then have "lib' = lib\<lparr>m_set_removed_dev_info := [], m_set_inserted_dev_info := []\<rparr>" "ev = None"
      using assms(2) by (simp_all add: worker_round_def)
    then show ?thesis using wf by (simp add: wf_clibhid_def map_paths_def)
  next
    case changed
    then have b: "b" and map: "m_map_pair_ptrs lib1 = m_map_pair_ptrs lib" using u by auto
    then have lib': "lib' = update_device_map is_open lib1"
      and ev: "ev = Some (m_set_inserted_dev_info lib1, m_set_removed_dev_info lib1)"
      and cur: "m_set_cur_dev_info lib' = m_set_cur_dev_info lib1"
      using assms(2) u by (auto simp: worker_round_def update_device_map_def Let_def)
    note d = update_reports_the_difference_lemma [OF wf(1) u]
    have "map_paths lib1 = map_paths lib" using map by (simp add: map_paths_def)
    then show ?thesis
      using update_device_map_paths [of is_open lib1] d wf(2) unfolding wf_clibhid_def ev cur follow.simps
      by (auto simp: lib')
  qed
  then show "wf_clibhid lib'"
    "follow ev (dev_paths (m_set_cur_dev_info lib)) = dev_paths (m_set_cur_dev_info lib')" by simp_all
qed

lemma worker_run_follow:
  "wf_clibhid lib \<Longrightarrow> worker_run is_open ess lib = (evs, lib') \<Longrightarrow>
     wf_clibhid lib' \<and> fold follow evs (dev_paths (m_set_cur_dev_info lib)) = dev_paths (m_set_cur_dev_info lib')"
proof (induction ess arbitrary: lib evs)
  case (Cons es ess)
  obtain ev lib1 where r: "worker_round is_open es lib = (ev, lib1)" by (cases "worker_round is_open es lib")
  obtain evs1 lib2 where w: "worker_run is_open ess lib1 = (evs1, lib2)" by (cases "worker_run is_open ess lib1")
  have "evs = ev # evs1" "lib' = lib2" using Cons.prems(2) r w by simp_all
  moreover from this(2) w have "worker_run is_open ess lib1 = (evs1, lib')" by simp
  ultimately show ?case
    using Cons.IH [of lib1 evs1] worker_round_follow [OF Cons.prems(1) r] by simp
qed simp


text \<open>A device that passes no filter is reported as removed by the next update although it is connected.\<close>

lemma unfiltered_device_is_removed:
  assumes "wf_dev_set (m_set_cur_dev_info lib)" "m_set_usb_filter lib \<noteq> []"
    and "i \<in> set (m_set_cur_dev_info lib)"
    and "\<forall>j\<in>set (enumerated_set lib es). get_path j = get_path i \<longrightarrow>
           \<not> list_ex (\<lambda>f. passes_filter f j) (m_set_usb_filter lib)"
    and "update_dev_set es lib = (b, lib')"
  shows "get_path i \<in> dev_paths (m_set_removed_dev_info lib')"
proof -
  have "get_path i \<notin> dev_paths (get_device_set lib es)"
    using get_device_set_passes [OF assms(2), of "get_path i" es] assms(4) by auto
  moreover have "get_path i \<in> dev_paths (m_set_cur_dev_info lib)" using assms(3) by (simp add: dev_paths_def)
  ultimately show ?thesis using update_reports_the_difference_lemma [OF assms(1,5)] by auto
qed

end
