(* ===== verification/VHidInfo.thy ===== *)
theory VHidInfo
  imports CtlBase HidDevSet
begin

text \<open>
  The virtual devices of one physical device (\<open>src/shared/lib/inc/hid/_vhid_info.h\<close>, \<open>_vhid_info_lpu237.h\<close>,
  \<open>_vhid_info_lpu238.h\<close>): the card reader, the second reader and the i-button of an LPU237 are devices with
  paths and map indices of their own, which are derived from those of the physical (primitive) device, and every one
  has its counter of openings. The classes for the LPU237 and the LPU238 differ in their tables only.
\<close>

section \<open>Types and paths\<close>

abbreviation "type_bm_dev_unknown \<equiv> 0x00000000 :: int"
abbreviation "type_bm_dev_winusb \<equiv> 0x00010000 :: int"
abbreviation "type_bm_dev_hid \<equiv> 0x00020000 :: int"
abbreviation "type_bm_dev_virtual \<equiv> 0x00800000 :: int"
abbreviation "type_bm_dev_lpu200_msr \<equiv> 0x00020001 :: int"
abbreviation "type_bm_dev_lpu200_scr0 \<equiv> 0x00020010 :: int"
abbreviation "type_bm_dev_lpu200_ibutton \<equiv> 0x00020020 :: int"

abbreviation "const_map_index_invalid \<equiv> -1 :: int"
abbreviation "const_map_index_inc_unit \<equiv> 0x100 :: int"
abbreviation "const_map_index_max \<equiv> 0x0002FF00 :: int"
abbreviation "const_map_index_min \<equiv> 0x00020100 :: int"
abbreviation "const_map_index_mask_additional_compositive \<equiv> 0xFF :: int"
abbreviation "const_map_index_mask_of_primitive \<equiv> 0x00FFFF00 :: int"

text \<open>Additional path, type, whether it can be opened more than once, and the part of the index; ordered as the set is.\<close>

type_synonym path_type = "bytes \<times> int \<times> bool \<times> int"

definition v_extra_hid_primitive :: "path_type list" where
  "v_extra_hid_primitive = [([], type_bm_dev_hid, False, 0)]"

definition v_extra_lpu237 :: "path_type list" where
  "v_extra_lpu237 =
     [([], type_bm_dev_hid, False, 0),
      (text_of ''&ibutton'', type_bm_dev_lpu200_ibutton, True, 0x20),
      (text_of ''&msr'', type_bm_dev_lpu200_msr, False, 0x01),
      (text_of ''&scr0'', type_bm_dev_lpu200_scr0, False, 0x10)]"

definition v_extra_lpu238 :: "path_type list" where
  "v_extra_lpu238 =
     [([], type_bm_dev_hid, False, 0),
      (text_of ''&ibutton'', type_bm_dev_lpu200_ibutton, True, 0x20),
      (text_of ''&msr'', type_bm_dev_lpu200_msr, False, 0x01)]"

definition get_extra_paths :: "u16 \<Rightarrow> u16 \<Rightarrow> int \<Rightarrow> path_type list" where
  "get_extra_paths w_vid w_pid n_interface =
     (if uint w_vid = const_usb_vid \<and> uint w_pid = lpu237_usb_pid \<and> n_interface = lpu237_usb_inf_hid then v_extra_lpu237
      else if uint w_vid = const_usb_vid \<and> uint w_pid = lpu238_usb_pid \<and> n_interface = lpu238_usb_inf_hid
        then v_extra_lpu238
      else v_extra_hid_primitive)"

text \<open>The first item of the table of the LPU237, otherwise of the LPU238.\<close>

definition find_extra :: "(path_type \<Rightarrow> bool) \<Rightarrow> path_type option" where
  "find_extra ok = (case find ok v_extra_lpu237 of None \<Rightarrow> find ok v_extra_lpu238 | Some x \<Rightarrow> Some x)"

definition is_support_shared_open :: "bytes \<Rightarrow> bool" where
  "is_support_shared_open s_extra_path =
     (let shared = (\<lambda>v. case find (\<lambda>(s, _). s_extra_path = s) v of None \<Rightarrow> False | Some (_, _, b, _) \<Rightarrow> b)
      in shared v_extra_lpu237 \<or> shared v_extra_lpu238)"

definition has_extra :: "bytes \<Rightarrow> path_type \<Rightarrow> bool" where
  "has_extra s_path x =
     (let s = fst x in length s < length s_path \<and> s \<noteq> [] \<and> drop (length s_path - length s) s_path = s)"

definition is_path_compositive_type :: "bytes \<Rightarrow> bool \<times> int \<times> bytes \<times> bool" where
  "is_path_compositive_type s_path =
     (if s_path = [] then (False, type_bm_dev_hid, [], False)
      else case find_extra (has_extra s_path) of
             Some (s, t, b_shared, _) \<Rightarrow> (True, t, take (length s_path - length s) s_path, b_shared)
           | None \<Rightarrow> (False, type_bm_dev_hid, s_path, False))"

section \<open>Map indices\<close>

definition primitive_index_ok :: "int \<Rightarrow> bool" where
  "primitive_index_ok n_primitive =
     (n_primitive \<le> const_map_index_max \<and> n_primitive \<ge> const_map_index_min
      \<and> n_primitive mod const_map_index_inc_unit = 0)"

definition path_type_from_compositive_map_index :: "int \<Rightarrow> path_type" where
  "path_type_from_compositive_map_index n_map_index_compositive =
     (let unknown = ([], type_bm_dev_unknown, False, 0) in
      if n_map_index_compositive < 0 then unknown
      else if \<not> primitive_index_ok (and const_map_index_mask_of_primitive n_map_index_compositive) then unknown
      else case find_extra (\<lambda>(_, t, _).
                  t = type_bm_dev_hid + and const_map_index_mask_additional_compositive n_map_index_compositive) of
             None \<Rightarrow> unknown | Some x \<Rightarrow> x)"

definition get_type_from_compositive_map_index :: "int \<Rightarrow> int" where
  "get_type_from_compositive_map_index n = fst (snd (path_type_from_compositive_map_index n))"

definition get_type_string_from_compositive_map_index :: "int \<Rightarrow> bytes" where
  "get_type_string_from_compositive_map_index n = fst (path_type_from_compositive_map_index n)"

definition get_primitive_map_index_from_compositive_map_index :: "int \<Rightarrow> int \<times> bool" where
  "get_primitive_map_index_from_compositive_map_index n =
     (if n < 0 then (-1, False)
      else let b_compositive_type = (and const_map_index_mask_additional_compositive n \<noteq> 0);
               n_primitive = and const_map_index_max n
           in (if primitive_index_ok n_primitive then n_primitive else -1, b_compositive_type))"

definition get_additional_value_of_compositive_map_index :: "int \<Rightarrow> int" where
  "get_additional_value_of_compositive_map_index type =
     (case find_extra (\<lambda>(_, t, _). t = type) of None \<Rightarrow> 0 | Some (_, _, _, n_add) \<Rightarrow> n_add)"

definition get_compositive_map_index_from_primitive_map_index :: "int \<Rightarrow> int \<Rightarrow> int" where
  "get_compositive_map_index_from_primitive_map_index type n_map_index_primitive =
     n_map_index_primitive + get_additional_value_of_compositive_map_index type"

section \<open>The counters of a physical device\<close>

text \<open>By type: additional path, counter, whether it can be opened more than once, part of the index.\<close>

type_synonym vhid_info = "(int, bytes \<times> nat \<times> bool \<times> int) ordered_map"

definition cnt_of :: "vhid_info \<Rightarrow> int \<Rightarrow> nat" where
  "cnt_of m t = (case map_of m t of None \<Rightarrow> 0 | Some (_, n, _) \<Rightarrow> n)"

definition can_be_open :: "vhid_info \<Rightarrow> int \<Rightarrow> bool \<Rightarrow> bool" where
  "can_be_open m t b_shared_open =
     (case map_of m t of
        None \<Rightarrow> False
      | Some (_, n_cnt, b_shared, _) \<Rightarrow>
          if b_shared then b_shared_open else if b_shared_open then False else n_cnt = 0)"

definition vhid_is_open :: "vhid_info \<Rightarrow> int \<Rightarrow> bool" where
  "vhid_is_open m t = (cnt_of m t > 0)"

text \<open>Done, the new counter, and whether all counters are 0.\<close>

definition ajust_open_cnt :: "int \<Rightarrow> bool \<Rightarrow> vhid_info \<Rightarrow> (bool \<times> nat \<times> bool) \<times> vhid_info" where
  "ajust_open_cnt t b_increase m =
     (case map_of m t of
        None \<Rightarrow> ((False, 0, False), m)
      | Some (s, n, b, a) \<Rightarrow>
          (let n_cnt = (if b_increase then n + 1 else n - 1); m' = map_put t (s, n_cnt, b, a) m
           in ((True, n_cnt, n_cnt = 0 \<and> (\<forall>e\<in>set m'. fst (snd (snd e)) = 0)), m')))"

definition new_vhid_info :: "path_type list \<Rightarrow> int \<Rightarrow> vhid_info" where
  "new_vhid_info v_extra t =
     snd (ajust_open_cnt t True (fold (\<lambda>(s, t, b, a) m. map_put t (s, 0, b, a) m) v_extra []))"

section \<open>Indices and paths name one device\<close>

lemma extra_types: "x \<in> set v_extra_lpu237 \<union> set v_extra_lpu238 \<Longrightarrow> x \<in> set v_extra_lpu237"
  by (auto simp: v_extra_lpu237_def v_extra_lpu238_def)

lemma and_primitive_bits: "k \<in> {0x201..0x2FF} \<Longrightarrow> and 0x2FF k = k \<and> and 0xFFFF k = (k::int)"
proof -
  have "list_all (\<lambda>k. and 0x2FF k = k \<and> and 0xFFFF k = (k::int)) [0x201..0x2FF]" by code_simp
  then show "k \<in> {0x201..0x2FF} \<Longrightarrow> and 0x2FF k = k \<and> and 0xFFFF k = (k::int)"
    unfolding list_all_iff set_upto by blast
qed

lemma index_parts:
  assumes "primitive_index_ok p" "0 \<le> a" "a < 256"
  shows "and const_map_index_max (p + a) = p" "and const_map_index_mask_of_primitive (p + a) = p"
    "and const_map_index_mask_additional_compositive (p + a) = a" "0 \<le> p"
proof -
  obtain k where k: "p = 256 * k" using assms(1) by (auto simp: primitive_index_ok_def)
  then have r: "k \<in> {0x201..0x2FF}" using assms(1) by (auto simp: primitive_index_ok_def)
  have d: "drop_bit 8 (p + a) = k" using assms k by (simp add: drop_bit_eq_div)
  have m: "and (push_bit 8 m) (p + a) = push_bit 8 (and m k)" for m :: int
  proof -
    have "and (push_bit 8 m) (p + a) = push_bit 8 (and m (drop_bit 8 (p + a)))"
      by (rule bit_eqI) (auto simp: bit_simps)
    then show ?thesis by (simp add: d)
  qed
  show "and const_map_index_max (p + a) = p" "and const_map_index_mask_of_primitive (p + a) = p"
    using m [of "0x2FF"] m [of "0xFFFF"] and_primitive_bits [OF r] k by (simp_all add: push_bit_eq_mult)
  have "and (mask 8) (p + a) = a" using assms k by (simp add: and.commute [of "mask 8"] flip: take_bit_eq_mask)
     (simp add: take_bit_eq_mod)
  then show "and const_map_index_mask_additional_compositive (p + a) = a" by (simp add: mask_eq_exp_minus_1)
  show "0 \<le> p" using r k by simp
qed

text \<open>C36. Every virtual device has a map index of its own, and a path of its own: from the index that is computed for a
  type and a physical device, the physical device, the type and the additional path are found again, and from the
  path of the physical device with the additional path, the type, the path of the physical device and whether
  the device can be shared.\<close>

theorem virtual_device_names:
  assumes "(s, t, b_shared, a) \<in> set v_extra_lpu237" "primitive_index_ok p" "s_primitive \<noteq> []"
  shows "let i = get_compositive_map_index_from_primitive_map_index t p in
      get_primitive_map_index_from_compositive_map_index i = (p, t \<noteq> type_bm_dev_hid)
      \<and> get_type_from_compositive_map_index i = t \<and> get_type_string_from_compositive_map_index i = s
      \<and> (s \<noteq> [] \<longrightarrow> is_path_compositive_type (s_primitive @ s) = (True, t, s_primitive, b_shared))"
proof -
  have a: "get_additional_value_of_compositive_map_index t = a \<and> 0 \<le> a \<and> a < 256 \<and> t = type_bm_dev_hid + a
      \<and> find_extra (\<lambda>(_, t', _). t' = t) = Some (s, t, b_shared, a)"
    using assms(1)
    by (auto simp: v_extra_lpu237_def get_additional_value_of_compositive_map_index_def find_extra_def)
  then have "0 \<le> a" "a < 256" by auto
  note i = index_parts [OF assms(2) this]
  have "let i = get_compositive_map_index_from_primitive_map_index t p in
      get_primitive_map_index_from_compositive_map_index i = (p, t \<noteq> type_bm_dev_hid)
      \<and> get_type_from_compositive_map_index i = t \<and> get_type_string_from_compositive_map_index i = s"
    using a i assms(2)
    by (auto simp: get_compositive_map_index_from_primitive_map_index_def Let_def
        get_primitive_map_index_from_compositive_map_index_def get_type_from_compositive_map_index_def
        get_type_string_from_compositive_map_index_def path_type_from_compositive_map_index_def)
  moreover have "is_path_compositive_type (s_primitive @ s) = (True, t, s_primitive, b_shared)" if "s \<noteq> []"
  proof -
    have "has_extra (s_primitive @ s) x = (x = (s, t, b_shared, a))" if x: "x \<in> set v_extra_lpu237" for x
    proof
      show "x = (s, t, b_shared, a) \<Longrightarrow> has_extra (s_primitive @ s) x"
        using \<open>s \<noteq> []\<close> assms(3) by (simp add: has_extra_def)
      assume h: "has_extra (s_primitive @ s) x"
      have ne: "fst x \<noteq> []" using h by (simp add: has_extra_def Let_def)
      have "length (s_primitive @ s) - length (fst x) < length (s_primitive @ s)"
        using ne \<open>s \<noteq> []\<close> by (cases "fst x") simp_all
      from last_drop [OF this] have "last s = last (fst x)"
        using h \<open>s \<noteq> []\<close> by (simp add: has_extra_def Let_def)
      with ne show "x = (s, t, b_shared, a)"
        using assms(1) x \<open>s \<noteq> []\<close> by (auto simp: v_extra_lpu237_def text_of_def)
    qed
    then have f: "find (has_extra (s_primitive @ s)) v = find (\<lambda>x. x = (s, t, b_shared, a)) v"
      if "set v \<subseteq> set v_extra_lpu237" for v
      using that by (intro find_cong) auto
    have "find_extra (has_extra (s_primitive @ s)) = find_extra (\<lambda>x. x = (s, t, b_shared, a))"
      unfolding find_extra_def using extra_types by (subst (1 2) f) auto
    also have "\<dots> = Some (s, t, b_shared, a)"
      using assms(1) by (auto simp: v_extra_lpu237_def find_extra_def)
    finally show ?thesis using assms(3) by (simp add: is_path_compositive_type_def)
  qed
  ultimately show ?thesis by (simp add: Let_def)
qed

theorem virtual_device_names_witness:
  "get_primitive_map_index_from_compositive_map_index 0x20320 = (0x20300, True)
   \<and> get_type_from_compositive_map_index 0x20320 = type_bm_dev_lpu200_ibutton
   \<and> is_path_compositive_type (text_of ''usb1&ibutton'') = (True, type_bm_dev_lpu200_ibutton, text_of ''usb1'', True)"
proof -
  have "get_compositive_map_index_from_primitive_map_index type_bm_dev_lpu200_ibutton 0x20300 = 0x20320"
    by (simp add: get_compositive_map_index_from_primitive_map_index_def find_extra_def v_extra_lpu237_def
        get_additional_value_of_compositive_map_index_def)
  moreover have "text_of ''usb1'' @ text_of ''&ibutton'' = text_of ''usb1&ibutton''" by (simp add: text_of_def)
  ultimately show ?thesis
    using virtual_device_names [of "text_of ''&ibutton''" type_bm_dev_lpu200_ibutton True "0x20" "0x20300" "text_of ''usb1''"]
    by (simp add: v_extra_lpu237_def primitive_index_ok_def Let_def text_of_def)
qed

end
