(* ===== verification/DevList.thy ===== *)
theory DevList
  imports VHidInfo Decimal
begin

text \<open>
  The list of the devices that a client asks for (\<open>_execute_mgmt_get_device_list\<close> in
  \<open>src/shared/lib/src/server/mp_cmain_ctl_fn_.cpp\<close>): the filters of \<open>cdev_util\<close>
  (\<open>src/shared/lib/inc/_dev/mp_cdev_util.h\<close>) and those of \<open>clibhid_dev_info\<close> by type and by text
  (\<open>mp_clibhid_dev_info.cpp\<close>).
\<close>

section \<open>Filters of the LPU200 family\<close>

definition is_lpu200_component_string :: "wstring \<Rightarrow> bool" where
  "is_lpu200_component_string s_data = (s_data = text_of ''msr'' \<or> s_data = text_of ''scr0'' \<or> s_data = text_of ''ibutton'')"

definition is_lpu200_filter :: "wstring list \<Rightarrow> bool \<times> wstring \<times> wstring" where
  "is_lpu200_filter list_wstring_filter =
     (case list_wstring_filter of
        [] \<Rightarrow> (False, [], [])
      | s # l \<Rightarrow>
          if s \<noteq> text_of ''lpu200'' then (False, [], [])
          else (case l of
                  [] \<Rightarrow> (True, s, [])
                | c # _ \<Rightarrow> if is_lpu200_component_string c then (True, s, c) else (False, s, [])))"

definition get_lpu200_component_type :: "wstring \<Rightarrow> int list" where
  "get_lpu200_component_type s_data =
     (if s_data = text_of ''msr'' then [type_bm_dev_lpu200_msr]
      else if s_data = text_of ''scr0'' then [type_bm_dev_lpu200_scr0]
      else if s_data = text_of ''ibutton'' then [type_bm_dev_lpu200_ibutton]
      else [type_bm_dev_lpu200_msr, type_bm_dev_lpu200_scr0, type_bm_dev_lpu200_ibutton])"

definition get_device_type_from_lpu200_filter :: "wstring \<Rightarrow> int" where
  "get_device_type_from_lpu200_filter s_component =
     (case get_lpu200_component_type s_component of [] \<Rightarrow> type_bm_dev_unknown | t # _ \<Rightarrow> t)"

definition contains_text :: "string \<Rightarrow> wstring \<Rightarrow> bool" where
  "contains_text t s = (split_first (text_of t) s \<noteq> None)"

definition get_device_type_from_device_filter :: "wstring set \<Rightarrow> int list" where
  "get_device_type_from_device_filter s =
     concat (map (\<lambda>f. (if contains_text ''hid'' f then [type_bm_dev_hid] else [])
                      @ (if contains_text ''usb'' f then [type_bm_dev_winusb] else [])
                      @ (if contains_text ''virtual'' f then [type_bm_dev_virtual] else [])) (sorted_list_of_set s))"

section \<open>Filtering the set of the devices\<close>

definition filter_by_type :: "dev_set \<Rightarrow> int list \<Rightarrow> dev_set" where
  "filter_by_type xs v_type_filter =
     fold (\<lambda>info out.
        if fst (snd (is_path_compositive_type (path_chars (get_path info)))) \<in> set v_type_filter
        then set_emplace info out else out) xs []"

text \<open>\<open>std::wcstol\<close> with base 16, on at most four characters: 0 when there is no number.\<close>

definition wcstol16 :: "wstring \<Rightarrow> int" where
  "wcstol16 s =
     (let s1 = dropWhile white_space s;
          s2 = (if s1 \<noteq> [] \<and> (hd s1 = 0x2D \<or> hd s1 = 0x2B) then tl s1 else s1);
          s3 = (if length s2 > 2 \<and> s2 ! 0 = 0x30 \<and> (s2 ! 1 = 0x78 \<or> s2 ! 1 = 0x58)
                   \<and> digit_of 16 (s2 ! 2) \<noteq> None then drop 2 s2 else s2);
          n = int (number_value 16 (leading_digits 16 s3))
      in if s1 \<noteq> [] \<and> hd s1 = 0x2D then - n else n)"

text \<open>What stands behind a keyword: nothing when it is missing, otherwise at most \<open>n\<close> characters.\<close>

definition text_behind :: "string \<Rightarrow> nat \<Rightarrow> wstring \<Rightarrow> wstring option" where
  "text_behind key n s = map_option (\<lambda>(_, b). take n b) (split_first (text_of key) s)"

definition usb_filter_of :: "wstring \<Rightarrow> usb_filter option" where
  "usb_filter_of s_item =
     (case text_behind ''vid_'' 4 s_item of
        None \<Rightarrow> None
      | Some v \<Rightarrow>
          if v = [] then None
          else (let n_vid = wcstol16 v in
                case text_behind ''pid_'' 4 s_item of
                  None \<Rightarrow> Some (n_vid, -1, -1)
                | Some p \<Rightarrow>
                    if p = [] then Some (n_vid, -1, -1)
                    else (case text_behind ''mi_'' 2 s_item of
                            None \<Rightarrow> Some (n_vid, wcstol16 p, -1)
                          | Some i \<Rightarrow> Some (n_vid, wcstol16 p, if i = [] then -1 else wcstol16 i))))"

definition filter_by_text :: "dev_set \<Rightarrow> wstring set \<Rightarrow> dev_set" where
  "filter_by_text xs set_wstring_filter =
     (let v = List.map_filter usb_filter_of (sorted_list_of_set set_wstring_filter) in
      if set_wstring_filter = {} then xs
      else if v = [] then xs
      else fold (\<lambda>f out. fold set_emplace (filter_dev_info_set xs f) out) v [])"

definition get_dev_path_by_wstring :: "(bytes \<Rightarrow> wstring) \<Rightarrow> dev_set \<Rightarrow> wstring set" where
  "get_dev_path_by_wstring to_wide xs =
     set (map (\<lambda>i. to_wide (path_chars (get_path i))) (filter (\<lambda>i. m_vs_path i \<noteq> []) xs))"

section \<open>The list\<close>

text \<open>
  Without a filter only the number of the devices is computed, and it is not used; the types that a filter names are
  not used either.
\<close>

definition listed_devices ::
  "(bytes \<Rightarrow> wstring) \<Rightarrow> (16 word \<Rightarrow> 16 word) \<Rightarrow> bool \<Rightarrow> dev_set \<Rightarrow> wstring list \<Rightarrow> wstring set" where
  "listed_devices to_wide lower b_ini cur list_wstring_filter =
     (if \<not> b_ini then {}
      else if set list_wstring_filter = {} then {}
      else case is_lpu200_filter list_wstring_filter of
        (b_lpu200_filter, s_first, s_second) \<Rightarrow>
          if b_lpu200_filter then
            get_dev_path_by_wstring to_wide (filter_by_type cur [get_device_type_from_lpu200_filter s_second])
          else (case adjust_device_filter lower (set list_wstring_filter) of
                  (b, f) \<Rightarrow>
                    if \<not> b then {}
                    else if f = {} then get_dev_path_by_wstring to_wide cur
                    else get_dev_path_by_wstring to_wide (filter_by_text cur f)))"

section \<open>What is listed\<close>

lemma emplace_if_set:
  assumes "distinct (map get_path (ys @ xs))"
  shows "set (fold (\<lambda>i out. if P i then set_emplace i out else out) xs ys) = {i \<in> set xs. P i} \<union> set ys"
  using assms
proof (induction xs arbitrary: ys)
  case (Cons x xs)
  let ?ys = "if P x then set_emplace x ys else ys"
  have n: "get_path x \<notin> set (map get_path ys)" using Cons.prems by auto
  then have s: "set ?ys = (if P x then insert x (set ys) else set ys)"
    by (simp add: set_emplace_def set_insort_key)
  have "distinct (map get_path ?ys)"
    using Cons.prems n by (auto simp: set_emplace_def distinct_insort_key)
  moreover have "set (map get_path ?ys) \<inter> set (map get_path xs) = {}"
    unfolding set_map s using Cons.prems by (auto split: if_splits)
  ultimately have "distinct (map get_path (?ys @ xs))" using Cons.prems by simp
  from Cons.IH [OF this] show ?case by (auto simp: s split: if_splits)
qed simp

lemma emplace_if_subset:
  "set (fold (\<lambda>i out. if P i then set_emplace i out else out) xs ys) \<subseteq> set (filter P xs) \<union> set ys"
proof (induction xs arbitrary: ys)
  case (Cons x xs)
  have "set (if P x then set_emplace x ys else ys) \<subseteq> insert x (set ys)"
    by (auto simp: set_emplace_def set_insort_key)
  then show ?case using Cons.IH [of "if P x then set_emplace x ys else ys"]
    by (auto simp: set_emplace_def set_insort_key split: if_splits)
qed simp

lemma fold_emplace_subset: "set (fold set_emplace xs ys) \<subseteq> set xs \<union> set ys"
  using emplace_if_subset [of "\<lambda>_. True" xs ys] by simp

lemma filter_by_text_subset: "set (filter_by_text xs f) \<subseteq> set xs"
proof -
  have "set (fold (\<lambda>f out. fold set_emplace (filter_dev_info_set xs f) out) v ys) \<subseteq> set xs \<union> set ys" for v ys
  proof (induction v arbitrary: ys)
    case (Cons f v)
    have "set (filter_dev_info_set xs f) \<subseteq> set xs"
      unfolding filter_dev_info_set_def using emplace_if_subset [of "passes_filter f" xs "[]"] by auto
    then have "set (fold set_emplace (filter_dev_info_set xs f) ys) \<subseteq> set xs \<union> set ys"
      using fold_emplace_subset [of "filter_dev_info_set xs f" ys] by blast
    then show ?case using Cons.IH [of "fold set_emplace (filter_dev_info_set xs f) ys"] by auto
  qed simp
  from this [of _ "[]"] show ?thesis by (auto simp: filter_by_text_def Let_def)
qed

text \<open>Without a filter no device is listed, whatever is connected.\<close>

lemma list_without_filter_is_empty: "listed_devices to_wide lower b_ini cur [] = {}"
  by (simp add: listed_devices_def)

text \<open>The family alone, which stands for all its components, lists the card readers only.\<close>

lemma family_filter_lists_msr_only:
  "listed_devices to_wide lower True cur [text_of ''lpu200'']
   = get_dev_path_by_wstring to_wide (filter_by_type cur [type_bm_dev_lpu200_msr])"
  by (simp add: listed_devices_def is_lpu200_filter_def get_device_type_from_lpu200_filter_def
      get_lpu200_component_type_def text_of_def)

text \<open>C37. The list has connected devices only, and with the filter of one component of the LPU200 family it has exactly the
  devices with a path of that component.\<close>

theorem listed_devices_are_connected:
  assumes "wf_dev_set cur"
  shows "listed_devices to_wide lower b_ini cur l \<subseteq> get_dev_path_by_wstring to_wide cur
    \<and> (\<forall>c t. (c, t) \<in> {(text_of ''msr'', type_bm_dev_lpu200_msr), (text_of ''scr0'', type_bm_dev_lpu200_scr0),
          (text_of ''ibutton'', type_bm_dev_lpu200_ibutton)} \<longrightarrow>
        listed_devices to_wide lower True cur [text_of ''lpu200'', c]
          = {to_wide (path_chars (get_path i)) | i. i \<in> set cur \<and> m_vs_path i \<noteq> []
               \<and> fst (snd (is_path_compositive_type (path_chars (get_path i)))) = t})"
proof (intro conjI allI impI)
  have t: "set (filter_by_type cur v) = {i \<in> set cur.
      fst (snd (is_path_compositive_type (path_chars (get_path i)))) \<in> set v}" for v
    unfolding filter_by_type_def using assms by (subst emplace_if_set) (auto simp: wf_dev_set_def)
  have m: "get_dev_path_by_wstring to_wide xs \<subseteq> get_dev_path_by_wstring to_wide cur" if "set xs \<subseteq> set cur" for xs
    using that by (auto simp: get_dev_path_by_wstring_def)
  show "listed_devices to_wide lower b_ini cur l \<subseteq> get_dev_path_by_wstring to_wide cur"
    using m [of "filter_by_type cur [get_device_type_from_lpu200_filter (snd (snd (is_lpu200_filter l)))]"]
      m [OF filter_by_text_subset [of cur]]
    by (auto simp: listed_devices_def t adjust_device_filter_def split: prod.splits if_splits)
  fix c :: wstring and t
  assume c: "(c, t) \<in> {(text_of ''msr'', type_bm_dev_lpu200_msr), (text_of ''scr0'', type_bm_dev_lpu200_scr0),
          (text_of ''ibutton'', type_bm_dev_lpu200_ibutton)}"
  then have "is_lpu200_filter [text_of ''lpu200'', c] = (True, text_of ''lpu200'', c)"
      "get_device_type_from_lpu200_filter c = t"
    by (auto simp: is_lpu200_filter_def is_lpu200_component_string_def get_device_type_from_lpu200_filter_def
        get_lpu200_component_type_def text_of_def)
  then show "listed_devices to_wide lower True cur [text_of ''lpu200'', c]
          = {to_wide (path_chars (get_path i)) | i. i \<in> set cur \<and> m_vs_path i \<noteq> []
               \<and> fst (snd (is_path_compositive_type (path_chars (get_path i)))) = t}"
    by (auto simp: listed_devices_def get_dev_path_by_wstring_def t)
qed

definition example_devices :: dev_set where
  "example_devices =
     [new_dev_info (text_of ''a'', 0x134b, 0x0206, 1, []),
      new_dev_info (text_of ''a'', 0x134b, 0x0206, 1, text_of ''&msr'')]"

theorem listed_devices_are_connected_witness:
  "listed_devices (map ucast) id True example_devices [text_of ''lpu200'', text_of ''msr''] = {text_of ''a&msr''}"
proof -
  let ?i = "new_dev_info (text_of ''a'', 0x134b, 0x0206, 1, [])"
  let ?j = "new_dev_info (text_of ''a'', 0x134b, 0x0206, 1, text_of ''&msr'')"
  have p: "path_chars (get_path ?i) = text_of ''a''" "path_chars (get_path ?j) = text_of ''a'' @ text_of ''&msr''"
      "m_vs_path ?i \<noteq> []" "m_vs_path ?j \<noteq> []"
    by (simp_all add: new_dev_info_def get_path_def text_of_def Let_def)
  have c: "is_path_compositive_type (text_of ''a'') = (False, type_bm_dev_hid, text_of ''a'', False)"
      "is_path_compositive_type (text_of ''a'' @ text_of ''&msr'') = (True, type_bm_dev_lpu200_msr, text_of ''a'', False)"
    by (simp_all add: is_path_compositive_type_def find_extra_def has_extra_def v_extra_lpu237_def v_extra_lpu238_def
        text_of_def)
  have l: "get_path ?i < get_path ?j" unfolding less_dev_path_def p by (simp add: text_of_def)
  have "wf_dev_set example_devices"
    using less_imp_le [OF l] less_imp_neq [OF l] by (simp add: wf_dev_set_def example_devices_def)
  from listed_devices_are_connected [OF this, where to_wide = "map ucast" and lower = id]
  have "listed_devices (map ucast) id True example_devices [text_of ''lpu200'', text_of ''msr'']
      = {map ucast (path_chars (get_path i)) | i. i \<in> set example_devices \<and> m_vs_path i \<noteq> []
               \<and> fst (snd (is_path_compositive_type (path_chars (get_path i)))) = type_bm_dev_lpu200_msr}"
    by blast
  also have "\<dots> = {map ucast (text_of ''a'' @ text_of ''&msr'' :: bytes)}"
    using p c by (auto simp: example_devices_def intro!: exI [of _ ?j])
  also have "map ucast (text_of ''a'' @ text_of ''&msr'' :: bytes) = (text_of ''a&msr'' :: wstring)"
    by (simp add: text_of_def)
  finally show ?thesis .
qed

end
