(* ===== verification/DevQueue.thy ===== *)
theory DevQueue
  imports CtlBase
begin

text \<open>
  The queues of requests of a device (\<open>cdev_ctl_fn::_cq\<close> and \<open>cdev_ctl_fn::_cq_mgmt\<close> in
  \<open>mp_cdev_ctl_fn_.cpp\<close>): read requests wait in one queue per session, requests that are served at once go
  through a queue of their own. Every operation holds the mutex of the queues, so it is one step.
\<close>

section \<open>One queue\<close>

text \<open>An entry: the request, how often its event is set, and what its response says so far.\<close>

record q_item =
  q_req :: request
  q_signal :: nat
  q_rsp :: answer

definition cq_push_back :: "request \<Rightarrow> q_item list \<Rightarrow> q_item list" where
  "cq_push_back r q = q @ [\<lparr>q_req = r, q_signal = 0, q_rsp = ans_copy\<rparr>]"

definition cq_pop_front :: "bool \<Rightarrow> q_item list \<Rightarrow> q_item option \<times> q_item list" where
  "cq_pop_front b_remove q = (case q of [] \<Rightarrow> (None, []) | e # es \<Rightarrow> (Some e, if b_remove then es else q))"

definition cq_remove_front :: "q_item list \<Rightarrow> q_item list" where
  "cq_remove_front q = (case q of [] \<Rightarrow> [] | e # es \<Rightarrow> es)"

text \<open>The response is set and the event is triggered.\<close>

definition q_answer :: "answer \<Rightarrow> q_item \<Rightarrow> q_item" where
  "q_answer a e = e\<lparr>q_rsp := a, q_signal := q_signal e + 1\<rparr>"

definition cq_set_to_all :: "type_result \<Rightarrow> bool \<Rightarrow> q_item list \<Rightarrow> q_item list" where
  "cq_set_to_all result b_must_be_recover_flag q =
     map (\<lambda>e. q_answer (set_response_result_only result [])
                (e\<lparr>q_req := r_set_recover b_must_be_recover_flag (q_req e)\<rparr>)) q"

section \<open>The queues of all sessions\<close>

record q_mgmt =
  m_map_q :: "q_item list session_map"
  m_ptr_cur_req_read :: "request option"
  m_q_sync :: "q_item list"

definition q_mgmt_ini :: q_mgmt where
  "q_mgmt_ini = \<lparr>m_map_q = [], m_ptr_cur_req_read = None, m_q_sync = []\<rparr>"

definition qm_sync_push_back :: "request \<Rightarrow> q_mgmt \<Rightarrow> q_mgmt" where
  "qm_sync_push_back r m = m\<lparr>m_q_sync := cq_push_back r (m_q_sync m)\<rparr>"

definition qm_sync_pop_front :: "bool \<Rightarrow> q_mgmt \<Rightarrow> q_item option \<times> q_mgmt" where
  "qm_sync_pop_front b_remove m =
     (case cq_pop_front b_remove (m_q_sync m) of (e, q) \<Rightarrow> (e, m\<lparr>m_q_sync := q\<rparr>))"

definition qm_sync_remove_front :: "q_mgmt \<Rightarrow> q_mgmt" where
  "qm_sync_remove_front m = m\<lparr>m_q_sync := cq_remove_front (m_q_sync m)\<rparr>"

definition qm_read_is_empty :: "q_mgmt \<Rightarrow> bool" where
  "qm_read_is_empty m = (m_map_q m = [])"

definition qm_read_push_back :: "request \<Rightarrow> q_mgmt \<Rightarrow> bool \<times> q_mgmt" where
  "qm_read_push_back r m =
     (let b_first = (m_map_q m = []);
          q = (case map_of (m_map_q m) (r_session r) of None \<Rightarrow> [] | Some q \<Rightarrow> q);
          m' = m\<lparr>m_map_q := map_put (r_session r) (cq_push_back r q) (m_map_q m)\<rparr>
      in (b_first, if b_first then m'\<lparr>m_ptr_cur_req_read := Some r\<rparr> else m'))"

text \<open>
  The loop over the map that pops the fronts. \<open>erase\<close> gives the iterator of the next element, and the
  loop then steps over that element.
\<close>

fun pop_fronts :: "bool \<Rightarrow> q_item list session_map \<Rightarrow> q_item option list \<times> q_item list session_map" where
  "pop_fronts b_remove [] = ([], [])"
| "pop_fronts b_remove ((k, q) # m) =
     (case cq_pop_front b_remove q of (e, q') \<Rightarrow>
        if q' = [] then
          (case m of
             [] \<Rightarrow> ([e], [])
           | next # m' \<Rightarrow> (case pop_fronts b_remove m' of (es, m'') \<Rightarrow> (e # es, next # m'')))
        else (case pop_fronts b_remove m of (es, m') \<Rightarrow> (e # es, (k, q') # m')))"

definition qm_read_pop_front :: "u32 \<Rightarrow> bool \<Rightarrow> q_mgmt \<Rightarrow> q_item option list \<times> q_mgmt" where
  "qm_read_pop_front session b_remove m =
     (if m_map_q m = [] then ([], m)
      else if session \<noteq> invalid_session_number then
        (case map_of (m_map_q m) session of
           None \<Rightarrow> ([], m)
         | Some q \<Rightarrow>
             (case cq_pop_front b_remove q of (e, q') \<Rightarrow>
                ([e], m\<lparr>m_map_q := (if q' = [] then map_erase session (m_map_q m)
                                    else map_put session q' (m_map_q m))\<rparr>)))
      else (case pop_fronts b_remove (m_map_q m) of (es, m') \<Rightarrow> (es, m\<lparr>m_map_q := m'\<rparr>)))"

text \<open>
  The result of the device for the read requests: per session the front request. For a cancel request only
  its own session, otherwise all sessions except those that are marked for recovery, whose mark is
  taken away. The entries that were answered, and the uids of the requests that need more reading.
\<close>

definition answer_front_read :: "cqitem_dev \<Rightarrow> q_item list \<Rightarrow> request list \<times> nat list \<times> q_item list" where
  "answer_front_read qi q =
     (case q of
        [] \<Rightarrow> ([], [], [])
      | e # es \<Rightarrow>
          if r_recover (q_req e) then ([], [r_uid (q_req e)], e\<lparr>q_req := r_set_recover False (q_req e)\<rparr> # es)
          else (case set_response qi of
                  None \<Rightarrow> ([], [], q)
                | Some a \<Rightarrow> ([q_req e], [], q_answer a e # es)))"

definition answer_front_cancel :: "cqitem_dev \<Rightarrow> q_item list \<Rightarrow> request list \<times> nat list \<times> q_item list" where
  "answer_front_cancel qi q =
     (case q of
        [] \<Rightarrow> ([], [], [])
      | e # es \<Rightarrow>
          if r_session (q_req e) \<noteq> qi_session qi then ([], [r_uid (q_req e)], q)
          else (case set_response qi of
                  None \<Rightarrow> ([], [], q)
                | Some a \<Rightarrow> ([q_req e], [], q_answer a e # es)))"

fun answer_fronts ::
  "(q_item list \<Rightarrow> request list \<times> nat list \<times> q_item list) \<Rightarrow> q_item list session_map
     \<Rightarrow> request list \<times> nat list \<times> q_item list session_map" where
  "answer_fronts f [] = ([], [], [])"
| "answer_fronts f ((k, q) # m) =
     (case f q of (rs, ns, q') \<Rightarrow> case answer_fronts f m of (rs', ns', m') \<Rightarrow> (rs @ rs', ns @ ns', (k, q') # m'))"

definition qm_read_set_response_front :: "cqitem_dev \<Rightarrow> q_mgmt \<Rightarrow> request list \<times> nat list \<times> q_mgmt" where
  "qm_read_set_response_front qi m =
     (case answer_fronts
             (if get_request_type qi \<noteq> req_cancel then answer_front_read qi else answer_front_cancel qi)
             (m_map_q m) of
        (rs, ns, m') \<Rightarrow> (rs, ns, m\<lparr>m_map_q := m'\<rparr>))"

definition qm_read_set_response_to_canceled :: "u32 \<Rightarrow> q_mgmt \<Rightarrow> q_mgmt" where
  "qm_read_set_response_to_canceled session m =
     (case map_of (m_map_q m) session of
        None \<Rightarrow> m
      | Some q \<Rightarrow> m\<lparr>m_map_q := map_put session (cq_set_to_all result_cancel False q) (m_map_q m)\<rparr>)"

definition mark_front :: "q_item list \<Rightarrow> nat \<times> q_item list" where
  "mark_front q = (case q of [] \<Rightarrow> (0, []) | e # es \<Rightarrow> (1, e\<lparr>q_req := r_set_recover True (q_req e)\<rparr> # es))"

definition qm_read_set_request_front_to_recover_of_another_session :: "u32 \<Rightarrow> q_mgmt \<Rightarrow> nat \<times> q_mgmt" where
  "qm_read_set_request_front_to_recover_of_another_session session m =
     (let marked = map (\<lambda>(k, q). if k = session then (k, 0, q) else (k, mark_front q)) (m_map_q m)
      in (sum_list (map (\<lambda>(k, n, q). n) marked), m\<lparr>m_map_q := map (\<lambda>(k, n, q). (k, q)) marked\<rparr>))"

text \<open>The loop that takes out what is complete, with the same step over the element behind an erased one.\<close>

fun take_complete :: "q_item list session_map \<Rightarrow> q_item list \<times> q_item list session_map" where
  "take_complete [] = ([], [])"
| "take_complete ((k, q) # m) =
     (case q of
        [] \<Rightarrow> (case take_complete m of (es, m') \<Rightarrow> (es, (k, q) # m'))
      | e # q' \<Rightarrow>
          if q_signal e = 0 then (case take_complete m of (es, m') \<Rightarrow> (es, (k, q) # m'))
          else if q' = [] then
            (case m of
               [] \<Rightarrow> ([e], [])
             | next # m' \<Rightarrow> (case take_complete m' of (es, m'') \<Rightarrow> (e # es, next # m'')))
          else (case take_complete m of (es, m') \<Rightarrow> (e # es, (k, q') # m')))"

definition qm_read_pop_front_remove_complete_of_all :: "q_mgmt \<Rightarrow> q_item list \<times> q_mgmt" where
  "qm_read_pop_front_remove_complete_of_all m =
     (case take_complete (m_map_q m) of (es, m') \<Rightarrow> (es, m\<lparr>m_map_q := m'\<rparr>))"

text \<open>The same with pairs of request and response.\<close>

definition qm_read_pop_front_remove_complete_of_all_by_rsp_ptr :: "q_mgmt \<Rightarrow> (request \<times> answer) list \<times> q_mgmt" where
  "qm_read_pop_front_remove_complete_of_all_by_rsp_ptr m =
     (case take_complete (m_map_q m) of (es, m') \<Rightarrow> (map (\<lambda>e. (q_req e, q_rsp e)) es, m\<lparr>m_map_q := m'\<rparr>))"

definition qm_read_remove_front :: "u32 \<Rightarrow> q_mgmt \<Rightarrow> q_mgmt" where
  "qm_read_remove_front session m =
     (case map_of (m_map_q m) session of
        None \<Rightarrow> m
      | Some q \<Rightarrow>
          (let q' = cq_remove_front q
           in m\<lparr>m_map_q := (if q' = [] then map_erase session (m_map_q m) else map_put session q' (m_map_q m))\<rparr>))"

fun remove_fronts :: "q_item list session_map \<Rightarrow> q_item list session_map" where
  "remove_fronts [] = []"
| "remove_fronts ((k, q) # m) =
     (let q' = cq_remove_front q
      in if q' = [] then (case m of [] \<Rightarrow> [] | next # m' \<Rightarrow> next # remove_fronts m')
         else (k, q') # remove_fronts m)"

definition qm_read_remove_front_all :: "q_mgmt \<Rightarrow> q_mgmt" where
  "qm_read_remove_front_all m = m\<lparr>m_map_q := remove_fronts (m_map_q m)\<rparr>"

end
