(* ===== verification/DevState.thy ===== *)
theory DevState
  imports DevQueue
begin

text \<open>
  The requests of the sessions that share one device (\<open>cdev_ctl_fn\<close> in \<open>mp_cdev_ctl_fn_.cpp\<close>): the mode
  of the device, the state of every session, the callbacks of the device thread and the processing of a
  request in every state. The callbacks that run while a request waits for its event are a parameter of the
  operations; a wait that never ends is \<open>None\<close>. Logging is left out.
\<close>

record dev_ctl =
  d_q :: q_mgmt
  d_shared :: bool
  d_st_combi :: type_state
  d_map :: "cstate session_map"
  d_path :: wstring
  d_started :: "(wstring \<times> cqitem_dev) list"

definition dev_ctl_ini :: dev_ctl where
  "dev_ctl_ini = \<lparr>d_q = q_mgmt_ini, d_shared = False, d_st_combi = st_not, d_map = [], d_path = [], d_started = []\<rparr>"

definition reset_ctl :: "bool \<Rightarrow> dev_ctl \<Rightarrow> dev_ctl" where
  "reset_ctl b_shared_mode d = d\<lparr>d_shared := b_shared_mode, d_st_combi := st_not, d_map := []\<rparr>"

definition get_state_cur :: "u32 \<Rightarrow> dev_ctl \<Rightarrow> bool \<times> type_state \<times> type_state" where
  "get_state_cur session d =
     (case map_of (d_map d) session of
        None \<Rightarrow> (False, st_not, d_st_combi d)
      | Some s \<Rightarrow> (True, m_st_cur s, d_st_combi d))"

definition get_state_another :: "u32 \<Rightarrow> dev_ctl \<Rightarrow> bool \<times> type_state" where
  "get_state_another session d = get_combination_state_in_map_except_selected_session (d_map d) session"

section \<open>Changes of state\<close>

text \<open>The combination state: in shared mode that of the other sessions, when there are any.\<close>

definition new_combi :: "u32 \<Rightarrow> type_state \<Rightarrow> dev_ctl \<Rightarrow> type_state" where
  "new_combi session st_new d =
     (if \<not> d_shared d then st_new
      else case get_state_another session d of (b_exist, st) \<Rightarrow> if b_exist then st else st_new)"

text \<open>After data were received for read requests.\<close>

fun transit_by_rx :: "request list \<Rightarrow> dev_ctl \<Rightarrow> dev_ctl option" where
  "transit_by_rx [] d = Some d"
| "transit_by_rx (r # rs) d =
     (case map_of (d_map d) (r_session r) of
        None \<Rightarrow> transit_by_rx rs d
      | Some s \<Rightarrow>
          if r_action r = act_dev_open \<or> r_action r = act_dev_close then transit_by_rx rs d
          else (case cstate_set ev_rx s of
                  None \<Rightarrow> None
                | Some ((b_changed, st_new, st_old), s') \<Rightarrow>
                    (let d' = d\<lparr>d_map := map_put (r_session r) s' (d_map d)\<rparr>
                     in transit_by_rx rs
                          (if b_changed then d'\<lparr>d_st_combi := new_combi (r_session r) st_new d'\<rparr> else d'))))"

text \<open>After a request was processed with success.\<close>

definition finish_transit :: "u32 \<Rightarrow> type_result_evt \<Rightarrow> cresult \<Rightarrow> dev_ctl \<Rightarrow> cresult \<times> dev_ctl" where
  "finish_transit session r res d =
     (let st_new = fst (snd r); combi = new_combi session st_new d
      in (set_combination_state combi (if d_shared d then d_st_combi d else snd (snd r))
            (set_selected_session_state r res),
          d\<lparr>d_st_combi := combi\<rparr>))"

definition transit_by_result :: "bool \<Rightarrow> cresult \<Rightarrow> dev_ctl \<Rightarrow> (cresult \<times> dev_ctl) option" where
  "transit_by_result b_user_shared_mode res d =
     (let session = r_session (m_ptr_req res); evt = get_cur_event res in
      if evt = ev_open then
        (let d1 = (if d_map d = [] then reset_ctl b_user_shared_mode d else d);
             s = (case map_of (d_map d1) session of None \<Rightarrow> cstate_reset | Some s \<Rightarrow> s)
         in map_option (\<lambda>(r, s'). finish_transit session r res (d1\<lparr>d_map := map_put session s' (d_map d1)\<rparr>))
              (cstate_set evt s))
      else
        case map_of (d_map d) session of
          None \<Rightarrow> Some (res, d)
        | Some s \<Rightarrow>
            map_option (\<lambda>(r, s').
              if evt = ev_close then
                (let d1 = d\<lparr>d_map := map_erase session (d_map d)\<rparr>
                 in finish_transit session r res (if d_map d1 = [] then (reset_ctl False d1)\<lparr>d_path := []\<rparr> else d1))
              else finish_transit session r res (d\<lparr>d_map := map_put session s' (d_map d)\<rparr>))
            (cstate_set evt s))"

section \<open>Callbacks\<close>

text \<open>Encrypted card data begin with three bytes \<open>0xE6\<close>; other data with three negative lengths are dropped.\<close>

definition is_rx_msr_extension_of_lpu23x :: "bytes \<Rightarrow> bool" where
  "is_rx_msr_extension_of_lpu23x v_rx =
     (length v_rx \<ge> 7 \<and> v_rx ! 0 = 0xE6 \<and> v_rx ! 1 = 0xE6 \<and> v_rx ! 2 = 0xE6)"

definition pass_this_response :: "cqitem_dev \<Rightarrow> bool" where
  "pass_this_response qi =
     (qi_result qi = result_success \<and> length (qi_rx qi) \<ge> 3
      \<and> sint (qi_rx qi ! 0) < 0 \<and> sint (qi_rx qi ! 1) < 0 \<and> sint (qi_rx qi ! 2) < 0
      \<and> \<not> is_rx_msr_extension_of_lpu23x (qi_rx qi))"

definition cb_dev_read :: "bool \<Rightarrow> cqitem_dev \<Rightarrow> dev_ctl \<Rightarrow> ((bool \<times> nat list) \<times> dev_ctl) option" where
  "cb_dev_read b_shared qi d =
     (if pass_this_response qi then Some ((False, []), d)
      else case qm_read_set_response_front qi (d_q d) of
        (rs, v_more, q) \<Rightarrow>
          (let more = (if b_shared then v_more else []); d' = d\<lparr>d_q := q\<rparr>
           in if rs = [] then Some ((False, more), d')
              else map_option (\<lambda>d''. ((True, more), d'')) (transit_by_rx rs d')))"

text \<open>The first entry of the queue for requests that are served at once is the one that is answered.\<close>

definition cb_sync :: "cqitem_dev \<Rightarrow> dev_ctl \<Rightarrow> (bool \<times> nat list) \<times> dev_ctl" where
  "cb_sync qi d =
     (case m_q_sync (d_q d) of
        [] \<Rightarrow> ((True, []), d)
      | e # es \<Rightarrow>
          (case set_response qi of
             None \<Rightarrow> ((False, []), d)
           | Some a \<Rightarrow> ((True, []), d\<lparr>d_q := (d_q d)\<lparr>m_q_sync := q_answer a e # es\<rparr>\<rparr>)))"

definition run_callback :: "cqitem_dev \<Rightarrow> dev_ctl \<Rightarrow> ((bool \<times> nat list) \<times> dev_ctl) option" where
  "run_callback qi d =
     (case qi_cb qi of
        cb_dev_read_on_exclusive \<Rightarrow> cb_dev_read False qi d
      | cb_dev_read_on_shared \<Rightarrow> cb_dev_read True qi d
      | cb_dev_for_sync_req \<Rightarrow> Some (cb_sync qi d))"

text \<open>Waiting for the event of the entry of a request: the callbacks run until it is set; then it is cleared.\<close>

definition event_set :: "nat \<Rightarrow> q_item \<Rightarrow> bool" where
  "event_set uid e = (r_uid (q_req e) = uid \<and> q_signal e > 0)"

fun wait_event :: "nat \<Rightarrow> cqitem_dev list \<Rightarrow> dev_ctl \<Rightarrow> (answer \<times> dev_ctl \<times> cqitem_dev list) option" where
  "wait_event uid cbs d =
     (case find (event_set uid) (m_q_sync (d_q d)) of
        Some e \<Rightarrow>
          Some (q_rsp e,
            d\<lparr>d_q := (d_q d)\<lparr>m_q_sync :=
                map (\<lambda>e. if event_set uid e then e\<lparr>q_signal := 0\<rparr> else e) (m_q_sync (d_q d))\<rparr>\<rparr>, cbs)
      | None \<Rightarrow>
          (case cbs of
             [] \<Rightarrow> None
           | c # cs \<Rightarrow> (case run_callback c d of None \<Rightarrow> None | Some (_, d') \<Rightarrow> wait_event uid cs d')))"

declare wait_event.simps [simp del]

section \<open>Starting requests\<close>

definition push_to_device :: "wstring \<Rightarrow> cqitem_dev \<Rightarrow> dev_ctl \<Rightarrow> dev_ctl" where
  "push_to_device s_dev_path qi d = d\<lparr>d_started := d_started d @ [(s_dev_path, qi)]\<rparr>"

definition start_sync :: "wstring \<Rightarrow> bytes \<Rightarrow> bool \<Rightarrow> request \<Rightarrow> dev_ctl \<Rightarrow> dev_ctl" where
  "start_sync s_dev_path v_tx b_need_read r d =
     push_to_device s_dev_path (new_qitem (r_uid r) v_tx b_need_read cb_dev_for_sync_req (r_session r))
       (d\<lparr>d_q := qm_sync_push_back r (d_q d)\<rparr>)"

type_synonym 'a waiting = "cqitem_dev list \<Rightarrow> dev_ctl \<Rightarrow> ('a \<times> dev_ctl \<times> cqitem_dev list) option"

definition start_and_complete_by_sync_req :: "hid_env \<Rightarrow> wstring \<Rightarrow> request \<Rightarrow> answer option waiting" where
  "start_and_complete_by_sync_req env s_dev_path r cbs d =
     (if \<not> e_is_ini env \<or> e_device env s_dev_path = None then Some (None, d, cbs)
      else case get_data_field (r_packet r) of
        None \<Rightarrow> None
      | Some v_tx \<Rightarrow>
          if r_action r \<noteq> act_dev_transmit \<and> r_action r \<noteq> act_dev_cancel \<and> r_action r \<noteq> act_dev_write
          then Some (None, d, cbs)
          else map_option (\<lambda>(a, d', cbs'). (Some a, d', cbs'))
            (wait_event (r_uid r) cbs
               (if r_action r = act_dev_transmit then start_sync s_dev_path v_tx True r d
                else if r_action r = act_dev_cancel then start_sync s_dev_path [] False r d
                else start_sync s_dev_path v_tx False r d)))"

text \<open>The cancel item of a close request. The request that waits is the close request itself.\<close>

definition start_and_complete_by_cancel_self_req :: "hid_env \<Rightarrow> wstring \<Rightarrow> request \<Rightarrow> bool waiting" where
  "start_and_complete_by_cancel_self_req env s_dev_path r cbs d =
     (if \<not> e_is_ini env \<or> e_device env s_dev_path = None then Some (False, d, cbs)
      else map_option (\<lambda>(a, d', cbs'). (True, d', cbs'))
             (wait_event (r_uid r) cbs (start_sync s_dev_path [] False r d)))"

definition start_by_async_req :: "hid_env \<Rightarrow> wstring \<Rightarrow> request \<Rightarrow> dev_ctl \<Rightarrow> (bool \<times> dev_ctl) option" where
  "start_by_async_req env s_dev_path r d =
     (if \<not> e_is_ini env \<or> e_device env s_dev_path = None then Some (False, d)
      else case get_data_field (r_packet r) of
        None \<Rightarrow> None
      | Some v_tx \<Rightarrow>
          if r_action r \<noteq> act_dev_read then Some (False, d)
          else Some (True, push_to_device s_dev_path
            (new_qitem (r_uid r) [] True
               (if d_shared d then cb_dev_read_on_shared else cb_dev_read_on_exclusive) (r_session r))
            (d\<lparr>d_q := snd (qm_read_push_back r (d_q d))\<rparr>)))"

section \<open>Processing\<close>

text \<open>Steps that the states share: open, a request that is served at once, a read request, close.\<close>

definition proc_event_open ::
  "(bytes \<Rightarrow> wstring) \<Rightarrow> hid_env \<Rightarrow> bool \<Rightarrow> cresult \<Rightarrow> dev_ctl \<Rightarrow> (cresult \<times> dev_ctl) option" where
  "proc_event_open to_wide env b_need_low_level res d =
     (case get_device_path_from_req to_wide env (m_ptr_req res) of
        None \<Rightarrow> None
      | Some (s_dev_path, b_user_shared_mode) \<Rightarrow>
          if s_dev_path = [] then Some (error_complete 3 [] res, d)
          else if b_need_low_level \<and> \<not> open_device_by_req env s_dev_path b_user_shared_mode (length (d_map d))
          then Some (error_complete 3 s_dev_path res, d)
          else transit_by_result b_user_shared_mode (success_complete s_dev_path res) (d\<lparr>d_path := s_dev_path\<rparr>))"

definition then_transit :: "cqitem_dev list \<Rightarrow> cresult \<Rightarrow> dev_ctl \<Rightarrow> (cresult \<times> dev_ctl \<times> cqitem_dev list) option" where
  "then_transit cbs res d = map_option (\<lambda>(res', d'). (res', d', cbs)) (transit_by_result False res d)"

definition proc_sync :: "hid_env \<Rightarrow> cresult \<Rightarrow> cresult waiting" where
  "proc_sync env res cbs d =
     (case start_and_complete_by_sync_req env (d_path d) (m_ptr_req res) cbs d of
        None \<Rightarrow> None
      | Some (None, d', cbs') \<Rightarrow> Some (error_complete 9 (d_path d') res, d', cbs')
      | Some (Some a, d', cbs') \<Rightarrow> then_transit cbs' (success_complete_with (Some a) (d_path d') res) d')"

definition proc_asy :: "hid_env \<Rightarrow> cresult \<Rightarrow> cresult waiting" where
  "proc_asy env res cbs d =
     (case start_by_async_req env (d_path d) (m_ptr_req res) d of
        None \<Rightarrow> None
      | Some (b, d') \<Rightarrow>
          if \<not> b then Some (error_complete 9 (d_path d') res, d', cbs)
          else then_transit cbs (success_ing (d_path d') res) d')"

definition proc_cancel_close :: "hid_env \<Rightarrow> cresult \<Rightarrow> cresult waiting" where
  "proc_cancel_close env res cbs d =
     (case start_and_complete_by_cancel_self_req env (m_s_dev_path res) (m_ptr_req res) cbs d of
        None \<Rightarrow> None
      | Some (b, d', cbs') \<Rightarrow>
          if \<not> b then Some (error_complete 9 (d_path d') res, d', cbs')
          else then_transit cbs' (success_complete (d_path d') res) d')"

definition mark_others :: "request \<Rightarrow> dev_ctl \<Rightarrow> dev_ctl" where
  "mark_others r d =
     d\<lparr>d_q := snd (qm_read_set_request_front_to_recover_of_another_session (r_session r) (d_q d))\<rparr>"

definition process_exclusive_st_not :: "(bytes \<Rightarrow> wstring) \<Rightarrow> hid_env \<Rightarrow> cresult \<Rightarrow> cresult waiting" where
  "process_exclusive_st_not to_wide env res cbs d =
     (case get_cur_event res of
        ev_open \<Rightarrow> map_option (\<lambda>(res', d'). (res', d', cbs)) (proc_event_open to_wide env True res d)
      | ev_close \<Rightarrow> Some (error_complete 7 [] res, d, cbs)
      | ev_sync \<Rightarrow> Some (error_complete 7 [] res, d, cbs)
      | ev_asy \<Rightarrow> Some (error_complete 7 [] res, d, cbs)
      | _ \<Rightarrow> Some (res, d, cbs))"

definition process_exclusive_st_idl :: "hid_env \<Rightarrow> cresult \<Rightarrow> cresult waiting" where
  "process_exclusive_st_idl env res cbs d =
     (case get_cur_event res of
        ev_open \<Rightarrow> Some (error_complete 6 [] res, d, cbs)
      | ev_close \<Rightarrow> then_transit cbs (success_complete (d_path d) res) d
      | ev_sync \<Rightarrow> proc_sync env res cbs d
      | ev_asy \<Rightarrow> proc_asy env res cbs d
      | _ \<Rightarrow> Some (res, d, cbs))"

definition process_exclusive_st_asy :: "hid_env \<Rightarrow> cresult \<Rightarrow> cresult waiting" where
  "process_exclusive_st_asy env res cbs d =
     (case get_cur_event res of
        ev_open \<Rightarrow> Some (error_complete 6 [] res, d, cbs)
      | ev_close \<Rightarrow> proc_cancel_close env res cbs d
      | ev_sync \<Rightarrow> proc_sync env res cbs d
      | ev_asy \<Rightarrow> proc_asy env res cbs d
      | _ \<Rightarrow> Some (res, d, cbs))"

definition process_event_on_exclusive_mode :: "(bytes \<Rightarrow> wstring) \<Rightarrow> hid_env \<Rightarrow> request \<Rightarrow> cresult waiting" where
  "process_event_on_exclusive_mode to_wide env r cbs d =
     (let res = new_cresult r (d_path d) in
      case fst (snd (get_state_cur (r_session r) d)) of
        st_not \<Rightarrow> process_exclusive_st_not to_wide env res cbs d
      | st_idl \<Rightarrow> process_exclusive_st_idl env res cbs d
      | st_asy \<Rightarrow> process_exclusive_st_asy env res cbs d
      | st_undefined \<Rightarrow> Some (error_complete 1 [] res, d, cbs))"

text \<open>Shared mode. A session that is not open, while another one is: the device is not asked.\<close>

definition process_shared_not_open :: "(bytes \<Rightarrow> wstring) \<Rightarrow> hid_env \<Rightarrow> cresult \<Rightarrow> cresult waiting" where
  "process_shared_not_open to_wide env res cbs d =
     (case get_cur_event res of
        ev_open \<Rightarrow> map_option (\<lambda>(res', d'). (res', d', cbs)) (proc_event_open to_wide env False res d)
      | ev_close \<Rightarrow> Some (error_complete 7 [] res, d, cbs)
      | ev_sync \<Rightarrow> Some (error_complete 7 [] res, d, cbs)
      | ev_asy \<Rightarrow> Some (error_complete 7 [] res, d, cbs)
      | _ \<Rightarrow> Some (res, d, cbs))"

definition process_shared_idl_idl :: "hid_env \<Rightarrow> cresult \<Rightarrow> cresult waiting" where
  "process_shared_idl_idl env res cbs d =
     (case get_cur_event res of
        ev_open \<Rightarrow> Some (error_complete 6 [] res, d, cbs)
      | ev_close \<Rightarrow> then_transit cbs (success_complete (d_path d) res) d
      | ev_sync \<Rightarrow> proc_sync env res cbs d
      | ev_asy \<Rightarrow> proc_asy env res cbs d
      | _ \<Rightarrow> Some (res, d, cbs))"

definition process_shared_idl_asy :: "hid_env \<Rightarrow> cresult \<Rightarrow> cresult waiting" where
  "process_shared_idl_asy env res cbs d =
     (case get_cur_event res of
        ev_open \<Rightarrow> Some (error_complete 6 [] res, d, cbs)
      | ev_close \<Rightarrow> then_transit cbs (success_complete (d_path d) res) d
      | ev_sync \<Rightarrow> proc_sync env res cbs (mark_others (m_ptr_req res) d)
      | ev_asy \<Rightarrow> proc_asy env res cbs d
      | _ \<Rightarrow> Some (res, d, cbs))"

text \<open>Closing marks no other session for recovery, a request that is served at once does.\<close>

definition process_shared_asy_asy :: "hid_env \<Rightarrow> cresult \<Rightarrow> cresult waiting" where
  "process_shared_asy_asy env res cbs d =
     (case get_cur_event res of
        ev_open \<Rightarrow> Some (error_complete 6 [] res, d, cbs)
      | ev_close \<Rightarrow> proc_cancel_close env res cbs d
      | ev_sync \<Rightarrow> proc_sync env res cbs (mark_others (m_ptr_req res) d)
      | ev_asy \<Rightarrow> proc_asy env res cbs d
      | _ \<Rightarrow> Some (res, d, cbs))"

definition process_event_on_shared_mode :: "(bytes \<Rightarrow> wstring) \<Rightarrow> hid_env \<Rightarrow> request \<Rightarrow> cresult waiting" where
  "process_event_on_shared_mode to_wide env r cbs d =
     (let res = new_cresult r (d_path d);
          st_cur = fst (snd (get_state_cur (r_session r) d));
          st_another = snd (get_state_another (r_session r) d)
      in if st_cur = st_not \<and> st_another = st_not then process_exclusive_st_not to_wide env res cbs d
         else if st_cur = st_not \<and> st_another = st_idl then process_shared_not_open to_wide env res cbs d
         else if st_cur = st_not \<and> st_another = st_asy then process_shared_not_open to_wide env res cbs d
         else if st_cur = st_idl \<and> st_another = st_not then process_exclusive_st_idl env res cbs d
         else if st_cur = st_idl \<and> st_another = st_idl then process_shared_idl_idl env res cbs d
         else if st_cur = st_idl \<and> st_another = st_asy then process_shared_idl_asy env res cbs d
         else if st_cur = st_asy \<and> st_another = st_not then process_exclusive_st_asy env res cbs d
         else if st_cur = st_asy \<and> st_another = st_idl then process_exclusive_st_asy env res cbs d
         else if st_cur = st_asy \<and> st_another = st_asy then process_shared_asy_asy env res cbs d
         else Some (error_complete 1 [] res, d, cbs))"

text \<open>\<open>None\<close> as the result is the null pointer: the action is no event.\<close>

definition process_event :: "(bytes \<Rightarrow> wstring) \<Rightarrow> hid_env \<Rightarrow> request \<Rightarrow> cresult option waiting" where
  "process_event to_wide env r cbs d =
     (if get_event_from_request_action (r_action r) = ev_none then Some (None, d, cbs)
      else map_option (\<lambda>(res, d', cbs'). (Some res, d', cbs'))
        (if d_shared d then process_event_on_shared_mode to_wide env r cbs d
         else process_event_on_exclusive_mode to_wide env r cbs d))"

section \<open>Collecting the responses\<close>

definition get_all_complete_response ::
  "(request \<times> answer) option \<Rightarrow> bool \<Rightarrow> dev_ctl \<Rightarrow> (request \<times> answer) list \<times> dev_ctl" where
  "get_all_complete_response additional b_add_to_last d =
     (case qm_read_pop_front_remove_complete_of_all_by_rsp_ptr (d_q d) of
        (v, q) \<Rightarrow>
          case qm_sync_pop_front True q of
            (e, q') \<Rightarrow>
              (let v' = (case e of None \<Rightarrow> v | Some e \<Rightarrow> v @ [(q_req e, q_rsp e)]); d' = d\<lparr>d_q := q'\<rparr>
               in case additional of
                    None \<Rightarrow> (v', d')
                  | Some (r, a) \<Rightarrow>
                      if \<exists>e\<in>set v'. r_uid (fst e) = r_uid r then (v', d')
                      else (if b_add_to_last then v' @ [(r, a)] else (r, a) # v', d')))"

definition get_front_of_read_queue :: "dev_ctl \<Rightarrow> request list" where
  "get_front_of_read_queue d =
     map q_req (List.map_filter id (fst (qm_read_pop_front invalid_session_number False (d_q d))))"

end
