(* ===== verification/UpdaterParam.thy ===== *)
theory UpdaterParam
  imports CtlBase Decimal
begin

text \<open>
  The parameters of a firmware update that a client starts over the daemon (\<open>cupdater_param_.cpp\<close>,
  \<open>cupdater_mgmt_.cpp\<close>): the keys of a session, the check before the start, the command line of the updater
  program, the end of the program and the notifications. The files of the host are a predicate. The text that
  is only logged is left out; process creation is the item \<open>runner\<close> that records what is started.
\<close>

section \<open>Numbers as text\<close>

text \<open>\<open>std::stoi\<close>; \<open>None\<close> is one of its exceptions.\<close>

definition stoi :: "wstring \<Rightarrow> int option" where
  "stoi s =
     (let s1 = dropWhile white_space s;
          s2 = (if s1 \<noteq> [] \<and> (hd s1 = 0x2D \<or> hd s1 = 0x2B) then tl s1 else s1);
          ds = leading_digits 10 s2;
          n = (if s1 \<noteq> [] \<and> hd s1 = 0x2D then - int (number_value 10 ds) else int (number_value 10 ds))
      in if ds = [] \<or> n < - 2147483648 \<or> n > 2147483647 then None else Some n)"

definition to_wstring :: "int \<Rightarrow> wstring" where
  "to_wstring n = (if n < 0 then 0x2D # number_text 10 (nat (- n)) else number_text 10 (nat n))"

section \<open>Parameters of one session\<close>

text \<open>The watcher of the updater process: whether it is stopped, and what was started.\<close>

record runner =
  run_stop :: bool
  run_gui :: bool
  run_exe :: bytes
  run_args :: "bytes list"

record updater_param =
  up_used :: bool
  up_session :: u32
  up_map :: "wstring \<rightharpoonup> wstring"
  up_exe :: wstring
  up_rsp :: "cio_packet option"
  up_runner :: "runner option"
  up_file_auto :: bool

definition new_param :: "u32 \<Rightarrow> updater_param" where
  "new_param n_session_number =
     \<lparr>up_used = False, up_session = n_session_number, up_map = Map.empty, up_exe = [], up_rsp = None,
      up_runner = None, up_file_auto = False\<rparr>"

definition set_used :: "updater_param \<Rightarrow> updater_param" where
  "set_used p = p\<lparr>up_used := True\<rparr>"

definition param_reset :: "updater_param \<Rightarrow> updater_param" where
  "param_reset p = p\<lparr>up_runner := None, up_used := False, up_map := Map.empty, up_exe := [], up_rsp := None\<rparr>"

abbreviation key_indicator :: wstring where "key_indicator \<equiv> text_of ''run_by_coffee_manager_2nd''"
abbreviation key_file :: wstring where "key_file \<equiv> text_of ''file''"
abbreviation key_device :: wstring where "key_device \<equiv> text_of ''device''"
abbreviation key_quiet :: wstring where "key_quiet \<equiv> text_of ''quiet''"
abbreviation key_notify :: wstring where "key_notify \<equiv> text_of ''notify''"
abbreviation key_session :: wstring where "key_session \<equiv> text_of ''session''"
abbreviation key_firmware_index :: wstring where "key_firmware_index \<equiv> text_of ''firmware_index''"
abbreviation key_model_name :: wstring where "key_model_name \<equiv> text_of ''model_name''"
abbreviation key_system_version :: wstring where "key_system_version \<equiv> text_of ''system_version''"
abbreviation key_progress :: wstring where "key_progress \<equiv> text_of ''_cf_bl_progress_''"
abbreviation key_window :: wstring where "key_window \<equiv> text_of ''_cf_bl_window_''"
abbreviation text_true :: wstring where "text_true \<equiv> text_of ''true''"
abbreviation text_false :: wstring where "text_false \<equiv> text_of ''false''"

definition is_exist_file_key :: "updater_param \<Rightarrow> bool" where
  "is_exist_file_key p = (up_map p key_file \<noteq> None)"

definition param_set :: "wstring \<Rightarrow> wstring \<Rightarrow> updater_param \<Rightarrow> updater_param" where
  "param_set s_key s_value p = p\<lparr>up_map := (up_map p)(s_key \<mapsto> s_value)\<rparr>"

text \<open>\<open>insert\<close> does not replace a value.\<close>

definition param_insert :: "wstring \<Rightarrow> wstring \<Rightarrow> updater_param \<Rightarrow> bool \<times> updater_param" where
  "param_insert s_key s_value p =
     (case up_map p s_key of
        None \<Rightarrow> (True, p\<lparr>up_map := (up_map p)(s_key \<mapsto> s_value)\<rparr>)
      | Some v \<Rightarrow> (False, p))"

text \<open>The host: which files exist, which of them can be removed, and the paths of the installation.\<close>

record host =
  h_exists :: "wstring \<Rightarrow> bool"
  h_removable :: "wstring \<Rightarrow> bool"
  h_temp_rom :: "u32 \<Rightarrow> wstring"
  h_updater :: wstring

definition insert_file :: "host \<Rightarrow> wstring \<Rightarrow> updater_param \<Rightarrow> bool \<times> updater_param" where
  "insert_file h s_value_file_full_abs_path p =
     (if s_value_file_full_abs_path = [] then
        (let s_rom_file = h_temp_rom h (up_session p)
         in if \<not> h_exists h s_rom_file then (False, p)
            else param_insert key_file s_rom_file (p\<lparr>up_file_auto := True\<rparr>))
      else param_insert key_file s_value_file_full_abs_path (p\<lparr>up_file_auto := False\<rparr>))"

definition insert_device :: "wstring \<Rightarrow> updater_param \<Rightarrow> bool \<times> updater_param" where
  "insert_device s_value_device_path p = param_insert key_device s_value_device_path p"

definition insert_run_by_cf2_mode :: "updater_param \<Rightarrow> bool \<times> updater_param" where
  "insert_run_by_cf2_mode p = param_insert key_indicator [] p"

text \<open>The response that the notifications are made from.\<close>

definition set_packet_info :: "byte \<Rightarrow> cio_packet \<Rightarrow> updater_param \<Rightarrow> updater_param option" where
  "set_packet_info act req p =
     map_option (\<lambda>rsp. p\<lparr>up_rsp := Some rsp\<rparr>) (Option.bind (set_cmd cmd_response req) (set_action act))"

definition set_packet_info_for_notify :: "cio_packet \<Rightarrow> updater_param \<Rightarrow> updater_param option" where
  "set_packet_info_for_notify = set_packet_info act_dev_sub_bootloader"

definition set_packet_info_for_notify_in_recover :: "cio_packet \<Rightarrow> updater_param \<Rightarrow> updater_param option" where
  "set_packet_info_for_notify_in_recover = set_packet_info act_mgmt_recover_operation"

definition set_exe_full_abs_path :: "wstring \<Rightarrow> updater_param \<Rightarrow> updater_param" where
  "set_exe_full_abs_path s p = p\<lparr>up_exe := s\<rparr>"

section \<open>The check before the start\<close>

text \<open>The parts between the dots. The pattern is four parts of one to three digits.\<close>

fun dot_parts :: "wstring \<Rightarrow> wstring list" where
  "dot_parts [] = [[]]"
| "dot_parts (c # cs) =
     (if c = 0x2E then [] # dot_parts cs else (c # hd (dot_parts cs)) # tl (dot_parts cs))"

definition version_pattern :: "wstring \<Rightarrow> bool" where
  "version_pattern s =
     (let ps = dot_parts s
      in length ps = 4 \<and> list_all (\<lambda>p. 1 \<le> length p \<and> length p \<le> 3 \<and> list_all (\<lambda>c. 0x30 \<le> c \<and> c \<le> 0x39) p) ps)"

definition version_in_range :: "wstring \<Rightarrow> bool" where
  "version_in_range s =
     list_all (\<lambda>p. case stoi p of None \<Rightarrow> False | Some n \<Rightarrow> \<not> (n < 0 \<or> n > 255)) (dot_parts s)"

definition model_and_version_ok :: "updater_param \<Rightarrow> bool" where
  "model_and_version_ok p =
     (case up_map p key_model_name of
        None \<Rightarrow> False
      | Some s_model \<Rightarrow>
          if length s_model > 16 then False
          else case up_map p key_system_version of
                 None \<Rightarrow> False
               | Some s_version \<Rightarrow>
                   if \<not> version_pattern s_version then False
                   else if \<not> version_in_range s_version then False
                   else length (dot_parts s_version) = 4)"

definition true_or_false_or_none :: "wstring \<Rightarrow> updater_param \<Rightarrow> bool" where
  "true_or_false_or_none s_key p =
     (case up_map p s_key of None \<Rightarrow> True | Some v \<Rightarrow> \<not> (v \<noteq> text_true \<and> v \<noteq> text_false))"

definition firmware_index_ok :: "updater_param \<Rightarrow> bool" where
  "firmware_index_ok p =
     (case up_map p key_firmware_index of
        None \<Rightarrow> True
      | Some v \<Rightarrow> (case stoi v of None \<Rightarrow> False | Some n \<Rightarrow> \<not> n < 0))"

definition can_be_start_firmware_update :: "host \<Rightarrow> bool \<Rightarrow> updater_param \<Rightarrow> bool" where
  "can_be_start_firmware_update h b_recover_mode p =
     (if up_exe p = [] then False
      else if \<not> h_exists h (up_exe p) then False
      else case up_map p key_indicator of
        None \<Rightarrow> False
      | Some s_indicator \<Rightarrow>
          if s_indicator \<noteq> [] then False
          else if \<not> b_recover_mode \<and> \<not> model_and_version_ok p then False
          else if up_map p key_file = None then False
          else if \<not> b_recover_mode \<and> up_map p key_device = None then False
          else if \<not> true_or_false_or_none key_progress p then False
          else if \<not> true_or_false_or_none key_window p then False
          else firmware_index_ok p)"

section \<open>The command line\<close>

definition key_arg :: "wstring \<Rightarrow> wstring" where
  "key_arg s_key = text_of ''--'' @ s_key"

definition value_args :: "wstring \<Rightarrow> updater_param \<Rightarrow> wstring list" where
  "value_args s_key p = (case up_map p s_key of None \<Rightarrow> [] | Some v \<Rightarrow> [key_arg s_key, v])"

text \<open>The vector of arguments: \<open>quiet\<close> only when the window is switched off.\<close>

definition arguments_by_vector :: "host \<Rightarrow> bool \<Rightarrow> updater_param \<Rightarrow> wstring list" where
  "arguments_by_vector h b_recover_mode p =
     (if \<not> can_be_start_firmware_update h b_recover_mode p then []
      else [key_arg key_indicator, key_arg key_session, to_wstring (uint (up_session p))]
        @ value_args key_file p @ value_args key_device p
        @ (if up_map p key_progress = Some text_true then [key_arg key_notify] else [])
        @ (if up_map p key_window = Some text_false then [key_arg key_quiet] else [])
        @ value_args key_firmware_index p)"

text \<open>The same as one text: \<open>quiet\<close> is the default here.\<close>

definition value_text :: "wstring \<Rightarrow> updater_param \<Rightarrow> wstring" where
  "value_text s_key p =
     (case up_map p s_key of None \<Rightarrow> [] | Some v \<Rightarrow> text_of '' --'' @ s_key @ text_of '' '' @ v)"

definition arguments_by_wstring :: "host \<Rightarrow> bool \<Rightarrow> updater_param \<Rightarrow> wstring" where
  "arguments_by_wstring h b_recover_mode p =
     (if \<not> can_be_start_firmware_update h b_recover_mode p then []
      else text_of '' --'' @ key_indicator @ text_of '' --'' @ key_session @ text_of '' ''
        @ to_wstring (uint (up_session p))
        @ value_text key_file p @ value_text key_device p
        @ (if up_map p key_progress = Some text_true then text_of '' --'' @ key_notify else [])
        @ (case up_map p key_window of
             Some v \<Rightarrow> if v \<noteq> text_true then text_of '' --'' @ key_quiet else []
           | None \<Rightarrow> text_of '' --'' @ key_quiet)
        @ value_text key_firmware_index p)"

definition arguments_with_exe_by_wstring :: "host \<Rightarrow> bool \<Rightarrow> updater_param \<Rightarrow> wstring" where
  "arguments_with_exe_by_wstring h b_recover_mode p = up_exe p @ arguments_by_wstring h b_recover_mode p"

definition arguments_with_exe_by_vector :: "host \<Rightarrow> bool \<Rightarrow> updater_param \<Rightarrow> wstring list" where
  "arguments_with_exe_by_vector h b_recover_mode p = up_exe p # arguments_by_vector h b_recover_mode p"

section \<open>Start and end of the program\<close>

definition start_update :: "(wstring \<Rightarrow> bytes) \<Rightarrow> host \<Rightarrow> bool \<Rightarrow> updater_param \<Rightarrow> bool \<times> updater_param" where
  "start_update to_mcs h b_recover_mode p =
     (if (case up_runner p of None \<Rightarrow> False | Some r \<Rightarrow> \<not> run_stop r) then (False, p)
      else (True, p\<lparr>up_runner := Some
              \<lparr>run_stop = False, run_gui = (up_map p key_window = Some text_true), run_exe = to_mcs (up_exe p),
               run_args = map to_mcs (arguments_by_vector h b_recover_mode p)\<rparr>\<rparr>))"

text \<open>The file is removed only when the daemon chose it, as \<open>m_b_file_key_is_set_automatically\<close> has it.\<close>

definition delete_firmware :: "bool \<Rightarrow> updater_param \<Rightarrow> host \<Rightarrow> bool \<times> host" where
  "delete_firmware b_force_delete p h =
     (if \<not> b_force_delete \<and> \<not> up_file_auto p then (False, h)
      else case up_map p key_file of
        None \<Rightarrow> (False, h)
      | Some s_full_abs_path \<Rightarrow>
          if \<not> h_exists h s_full_abs_path then (False, h)
          else if h_removable h s_full_abs_path then (True, h\<lparr>h_exists := (h_exists h)(s_full_abs_path := False)\<rparr>)
          else (False, h))"

definition callback_update_end :: "updater_param \<Rightarrow> host \<Rightarrow> host" where
  "callback_update_end p h = snd (delete_firmware False p h)"

section \<open>The parameters of all sessions\<close>

type_synonym param_mgmt = "updater_param session_map"

definition mgmt_get :: "u32 \<Rightarrow> param_mgmt \<Rightarrow> updater_param option" where
  "mgmt_get n_session_number m = map_of m n_session_number"

definition mgmt_insert :: "u32 \<Rightarrow> param_mgmt \<Rightarrow> bool \<times> updater_param \<times> param_mgmt" where
  "mgmt_insert n_session_number m =
     (case map_of m n_session_number of
        None \<Rightarrow> (True, new_param n_session_number, map_put n_session_number (new_param n_session_number) m)
      | Some p \<Rightarrow> (False, p, m))"

text \<open>Removing an element runs its destructor.\<close>

definition mgmt_erase :: "u32 \<Rightarrow> param_mgmt \<Rightarrow> host \<Rightarrow> bool \<times> param_mgmt \<times> host" where
  "mgmt_erase n_session_number m h =
     (case map_of m n_session_number of
        None \<Rightarrow> (False, m, h)
      | Some p \<Rightarrow> (True, map_erase n_session_number m, snd (delete_firmware False p h)))"

definition mgmt_clear :: "param_mgmt \<Rightarrow> host \<Rightarrow> param_mgmt \<times> host" where
  "mgmt_clear m h = ([], foldl (\<lambda>h e. snd (delete_firmware False (snd e) h)) h m)"

definition run_update :: "(wstring \<Rightarrow> bytes) \<Rightarrow> host \<Rightarrow> u32 \<Rightarrow> bool \<Rightarrow> param_mgmt \<Rightarrow> bool \<times> param_mgmt" where
  "run_update to_mcs h session b_recover_mode m =
     (case map_of m session of
        None \<Rightarrow> (False, m)
      | Some p \<Rightarrow> (case start_update to_mcs h b_recover_mode p of (b, p') \<Rightarrow> (b, map_put session p' m)))"

text \<open>
  A step that the updater program tells: session, step, number of steps, result and a text. The packet for
  the client of the session, if there is one. Old clients count the steps from 0.
\<close>

definition notify_to_server ::
  "(wstring \<Rightarrow> bytes) \<Rightarrow> u32 \<Rightarrow> int \<Rightarrow> int \<Rightarrow> bool \<Rightarrow> wstring \<Rightarrow> param_mgmt \<Rightarrow> cio_packet option" where
  "notify_to_server to_mcs session n_step_cur n_step_max b_step_result s_result_info m =
     (case map_of m session of
        None \<Rightarrow> None
      | Some p \<Rightarrow>
          (case up_rsp p of
             None \<Rightarrow> None
           | Some rsp \<Rightarrow>
               Option.bind (set_data_by_utf8 to_mcs (text_of (if b_step_result then ''success'' else ''error'')) False rsp)
                 (append_all to_mcs
                    [to_wstring (if n_step_max > 0 \<and> n_step_cur > 0 then n_step_cur - 1 else n_step_cur),
                     to_wstring n_step_max, s_result_info])))"

section \<open>The requests of the clients\<close>

fun set_pairs :: "wstring list \<Rightarrow> updater_param \<Rightarrow> updater_param" where
  "set_pairs (s_key # s_value # l) p = set_pairs l (param_set s_key s_value p)"
| "set_pairs l p = p"

text \<open>The request \<open>set\<close>: keys and values. The result is the reason of an error, or success.\<close>

definition boot_set :: "u32 \<Rightarrow> wstring list \<Rightarrow> param_mgmt \<Rightarrow> int option \<times> param_mgmt" where
  "boot_set session l m =
     (if length l < 3 then (Some 10, m)
      else if (length l - 1) mod 2 \<noteq> 0 then (Some 10, m)
      else case mgmt_insert session m of
        (_, p, m') \<Rightarrow>
          (None, map_put session (set_pairs (tl l) (if up_used p then param_reset p else p)) m'))"

text \<open>
  The request \<open>start\<close>. In recover mode there is no device yet. What was stored before an error stays stored.
  \<open>None\<close> is a request packet without a header.
\<close>

definition boot_prepare ::
  "host \<Rightarrow> wstring option \<Rightarrow> cio_packet \<Rightarrow> updater_param \<Rightarrow> (bool \<times> updater_param) option" where
  "boot_prepare h s_dev_path req p =
     (let p1 = snd (insert_run_by_cf2_mode (set_used p));
          (b, p2) = (if is_exist_file_key p1 then (True, p1) else insert_file h [] p1)
      in if \<not> b then Some (False, p2)
         else case s_dev_path of
           None \<Rightarrow>
             map_option (\<lambda>p3. (True, set_exe_full_abs_path (h_updater h) p3))
               (set_packet_info_for_notify_in_recover req p2)
         | Some s \<Rightarrow>
             map_option (\<lambda>p3. (True, set_exe_full_abs_path (h_updater h) p3))
               (set_packet_info_for_notify req (snd (insert_device s p2))))"

definition boot_start ::
  "(wstring \<Rightarrow> bytes) \<Rightarrow> host \<Rightarrow> wstring option \<Rightarrow> u32 \<Rightarrow> cio_packet \<Rightarrow> wstring list \<Rightarrow> param_mgmt
     \<Rightarrow> (int option \<times> param_mgmt) option" where
  "boot_start to_mcs h s_dev_path session req l m =
     (if length l \<noteq> 1 then Some (Some 10, m)
      else case mgmt_get session m of
        None \<Rightarrow> Some (Some 19, m)
      | Some p \<Rightarrow>
          (case boot_prepare h s_dev_path req p of
             None \<Rightarrow> None
           | Some (b, p') \<Rightarrow>
               (let m' = map_put session p' m; b_recover = (s_dev_path = None)
                in if \<not> b then Some (Some 14, m')
                   else if \<not> can_be_start_firmware_update h b_recover p' then Some (Some 17, m')
                   else (case run_update to_mcs h session b_recover m' of
                           (b_run, m'') \<Rightarrow> Some (if b_run then None else Some 17, m'')))))"

definition boot_request ::
  "(wstring \<Rightarrow> bytes) \<Rightarrow> (bytes \<Rightarrow> wstring) \<Rightarrow> host \<Rightarrow> wstring option \<Rightarrow> u32 \<Rightarrow> cio_packet \<Rightarrow> param_mgmt
     \<Rightarrow> (int option \<times> param_mgmt) option" where
  "boot_request to_mcs to_wide h s_dev_path session req m =
     (if m_type_data_field req = data_field_binary then Some (Some 10, m)
      else case get_data_list to_wide req of
        None \<Rightarrow> None
      | Some l \<Rightarrow>
          if l = [] then Some (Some 10, m)
          else if hd l = text_of ''set'' then Some (boot_set session l m)
          else if hd l = text_of ''start'' then boot_start to_mcs h s_dev_path session req l m
          else Some (Some 10, m))"

section \<open>Correctness\<close>

text \<open>Every entry belongs to the session it is stored for.\<close>

definition mgmt_ok :: "param_mgmt \<Rightarrow> bool" where
  "mgmt_ok m = (map_ok m \<and> (\<forall>k p. map_of m k = Some p \<longrightarrow> up_session p = k))"

named_theorems param_ops

lemmas [param_ops] =
  set_used_def param_reset_def param_set_def param_insert_def insert_file_def insert_device_def
  insert_run_by_cf2_mode_def set_packet_info_def set_packet_info_for_notify_def
  set_packet_info_for_notify_in_recover_def set_exe_full_abs_path_def start_update_def

lemma mgmt_ok_put: "mgmt_ok m \<Longrightarrow> up_session p = session \<Longrightarrow> mgmt_ok (map_put session p m)"
  by (simp add: mgmt_ok_def map_put_ok map_of_map_put)

lemma set_pairs_same [simp]:
  "up_session (set_pairs l p) = up_session p" "up_runner (set_pairs l p) = up_runner p"
  "up_file_auto (set_pairs l p) = up_file_auto p" "up_used (set_pairs l p) = up_used p"
  by (induction l p rule: set_pairs.induct) (simp_all add: param_ops)

lemma param_insert_same [simp]:
  "up_session (snd (param_insert k v p)) = up_session p" "up_runner (snd (param_insert k v p)) = up_runner p"
  "up_used (snd (param_insert k v p)) = up_used p" "up_exe (snd (param_insert k v p)) = up_exe p"
  "up_map (snd (param_insert k v p)) k \<noteq> None"
  by (simp_all add: param_insert_def split: option.split)

lemma param_insert_keeps: "up_map p k' = Some v' \<Longrightarrow> up_map (snd (param_insert k v p)) k' = Some v'"
  by (auto simp: param_insert_def split: option.split)

lemma insert_file_same:
  assumes "insert_file h s p = (b, p')"
  shows "up_session p' = up_session p" "up_runner p' = up_runner p" "up_used p' = up_used p"
  using assms by (auto simp: insert_file_def param_insert_def Let_def split: if_splits option.splits)

lemma set_packet_info_same:
  assumes "set_packet_info act req p = Some p'"
  shows "up_session p' = up_session p \<and> up_runner p' = up_runner p \<and> up_used p' = up_used p
    \<and> up_map p' = up_map p \<and> up_rsp p' = Option.bind (set_cmd cmd_response req) (set_action act)"
  using assms by (auto simp: set_packet_info_def)

lemma boot_prepare_same:
  assumes "boot_prepare h s_dev_path req p = Some (b, p')"
  shows "up_session p' = up_session p \<and> up_runner p' = up_runner p \<and> up_used p' \<and> (b \<longrightarrow> up_exe p' = h_updater h)"
  using assms
  by (auto simp: boot_prepare_def Let_def insert_run_by_cf2_mode_def set_used_def insert_device_def
      set_packet_info_for_notify_def set_packet_info_for_notify_in_recover_def set_exe_full_abs_path_def
      insert_file_same dest!: set_packet_info_same split: if_splits option.splits prod.splits)

lemma boot_set_ok: "mgmt_ok m \<Longrightarrow> mgmt_ok (snd (boot_set session l m))"
  by (auto simp: boot_set_def mgmt_insert_def new_param_def param_reset_def mgmt_ok_def map_put_ok map_of_map_put
      split: option.splits)

lemma run_update_ok: "run_update to_mcs h session b m = (b', m') \<Longrightarrow> mgmt_ok m \<Longrightarrow> mgmt_ok m'"
  by (auto simp: run_update_def start_update_def mgmt_ok_def map_put_ok map_of_map_put split: option.splits if_splits)

lemma boot_start_ok:
  assumes "mgmt_ok m" "boot_start to_mcs h s_dev_path session req l m = Some (n, m')"
  shows "mgmt_ok m'"
proof -
  have put: "mgmt_ok (map_put session p' m)"
    if "map_of m session = Some p" "boot_prepare h s_dev_path req p = Some (b, p')" for p p' b
    using that assms(1) boot_prepare_same[OF that(2)] by (intro mgmt_ok_put) (auto simp: mgmt_ok_def)
  show ?thesis
    using assms
    by (auto simp: boot_start_def mgmt_get_def Let_def intro: put run_update_ok
        split: if_splits option.splits prod.splits)
qed


definition example_host :: host where
  "example_host = \<lparr>h_exists = (\<lambda>s. True), h_removable = (\<lambda>s. True), h_temp_rom = (\<lambda>n. text_of ''/r''),
     h_updater = text_of ''/u''\<rparr>"

definition example_params :: param_mgmt where
  "example_params = snd (boot_set 7
     (map text_of [''set'', ''model_name'', ''a'', ''system_version'', ''1.20.0.255'']) [])"

lemma example_params_ok: "mgmt_ok example_params"
  unfolding example_params_def by (rule boot_set_ok) (simp add: mgmt_ok_def)

lemma example_start:
  "map_option fst (boot_start (map ucast) example_host (Some (text_of ''/d'')) 7 cio_packet_default
     [text_of ''start''] example_params) = Some None"
  by code_simp


text \<open>
  A new request \<open>set\<close> while the updater of the session runs drops the watcher, whose destructor ends the
  program; the next start is not refused any more.
\<close>

lemma set_drops_running_update:
  assumes "map_of m session = Some p" "up_used p" "up_runner p = Some r" "\<not> run_stop r"
    "length l \<ge> 3" "odd (length l)"
  shows "\<exists>p' m'. boot_set session l m = (None, m') \<and> map_of m' session = Some p' \<and> up_runner p' = None
    \<and> fst (start_update to_mcs h b p') \<and> \<not> fst (start_update to_mcs h b p)"
  using assms
  by (auto simp: boot_set_def mgmt_insert_def map_of_map_put param_reset_def start_update_def mod_2_eq_odd)

text \<open>
  The mark that the daemon chose the file survives the reset: a file that the client names for a later update
  is removed after that update.
\<close>

lemma client_file_removed:
  assumes "up_file_auto p" "up_map (set_pairs l (param_reset p)) key_file = Some f" "h_exists h f" "h_removable h f"
  shows "\<not> h_exists (callback_update_end (set_pairs l (param_reset p)) h) f"
    "h_exists (callback_update_end (set_pairs l (new_param session)) h) f"
  using assms by (auto simp: callback_update_end_def delete_firmware_def param_reset_def new_param_def)

text \<open>The two forms of the command line differ when the window key is missing.\<close>

lemma quiet_only_in_text:
  assumes "can_be_start_firmware_update h b p" "up_map p key_window = None"
    "up_map p key_file = Some f" "up_map p key_device = None" "up_map p key_progress = None"
    "up_map p key_firmware_index = None"
  shows "arguments_by_vector h b p
      = [key_arg key_indicator, key_arg key_session, to_wstring (uint (up_session p)), key_arg key_file, f]"
    "arguments_by_wstring h b p
      = text_of '' --'' @ key_indicator @ text_of '' --'' @ key_session @ text_of '' '' @ to_wstring (uint (up_session p))
        @ text_of '' --'' @ key_file @ text_of '' '' @ f @ text_of '' --'' @ key_quiet"
  using assms by (simp_all add: arguments_by_vector_def arguments_by_wstring_def value_args_def value_text_def)

end
