(* ===== verification/DevCtl.thy ===== *)
theory DevCtl
  imports DevState UpdaterParam "HOL-Library.Multiset"
begin

text \<open>
  The worker of a device (\<open>cdev_ctl\<close> in \<open>mp_cdev_ctl_.cpp\<close>, the loop of \<open>vcworker\<close> in \<open>mp_vcworker.h\<close>): it takes the
  requests of all sessions one by one, answers them or leaves them waiting, and sends what is complete. The
  sent responses are recorded in order. Then: every request is answered exactly once or waits in a read queue.
\<close>

record dev_worker =
  w_dev :: dev_ctl
  w_params :: param_mgmt
  w_cur :: "request option"
  w_sent :: "(request \<times> answer) list"

definition dev_worker_ini :: dev_worker where
  "dev_worker_ini = \<lparr>w_dev = dev_ctl_ini, w_params = [], w_cur = None, w_sent = []\<rparr>"

section \<open>Executing a request\<close>

text \<open>The request that prepares or starts a firmware update. A device that is shared or busy is refused.\<close>

definition process_sub_bootloader ::
  "(wstring \<Rightarrow> bytes) \<Rightarrow> (bytes \<Rightarrow> wstring) \<Rightarrow> host \<Rightarrow> request \<Rightarrow> dev_worker \<Rightarrow> (cresult \<times> dev_worker) option" where
  "process_sub_bootloader to_mcs to_wide h r w =
     (let res = new_cresult r (d_path (w_dev w)) in
      if d_shared (w_dev w) then Some (error_complete 17 [] res, w)
      else if w_cur w \<noteq> None then Some (error_complete 17 [] res, w)
      else case boot_request to_mcs to_wide h (Some (d_path (w_dev w))) (r_session r) (r_packet r) (w_params w) of
             None \<Rightarrow> None
           | Some (Some n_reason, m) \<Rightarrow> Some (error_complete n_reason [] res, w\<lparr>w_params := m\<rparr>)
           | Some (None, m) \<Rightarrow> Some (success_complete [] res, w\<lparr>w_params := m\<rparr>))"

text \<open>What the switch over the action leaves: an error, a request that goes on, or a response.\<close>

datatype exe_outcome = exe_error int | exe_going | exe_done answer

definition const_max_rx_size :: u32 where "const_max_rx_size = 1048576 + 1024"

definition event_actions :: "byte list" where
  "event_actions = [act_dev_open, act_dev_close, act_dev_transmit, act_dev_cancel, act_dev_write, act_dev_read]"

definition exe_switch ::
  "(wstring \<Rightarrow> bytes) \<Rightarrow> (bytes \<Rightarrow> wstring) \<Rightarrow> host \<Rightarrow> hid_env \<Rightarrow> request \<Rightarrow> cqitem_dev list \<Rightarrow> dev_worker
     \<Rightarrow> (exe_outcome \<times> dev_worker \<times> cqitem_dev list) option" where
  "exe_switch to_mcs to_wide h env r cbs w =
     (if c_cmd (r_header r) = cmd_response then Some (exe_error 2, w, cbs)
      else if n_data (r_header r) > const_max_rx_size then Some (exe_error 18, w, cbs)
      else if r_action r \<in> set event_actions then
        (case process_event to_wide env r cbs (w_dev w) of
           Some (Some res, d, cbs') \<Rightarrow>
             Some (if \<not> snd (process_get_result res) then exe_going
                   else case m_ptr_rsp res of None \<Rightarrow> exe_error 10 | Some a \<Rightarrow> exe_done a,
                   w\<lparr>w_dev := d\<rparr>, cbs')
         | _ \<Rightarrow> None)
      else if r_action r = act_dev_sub_bootloader then
        (case process_sub_bootloader to_mcs to_wide h r w of
           None \<Rightarrow> None
         | Some (res, w') \<Rightarrow>
             Some (if \<not> fst (process_get_result res) then exe_error 11
                   else case m_ptr_rsp res of None \<Rightarrow> exe_error 11 | Some a \<Rightarrow> exe_done a, w', cbs))
      else Some (exe_error 5, w, cbs))"

text \<open>Responses to requests of the daemon itself are not sent.\<close>

definition to_send :: "(request \<times> answer) list \<Rightarrow> (request \<times> answer) list" where
  "to_send v = filter (\<lambda>(r, a). \<not> r_is_self r) v"

definition same_req :: "request option \<Rightarrow> request \<Rightarrow> bool" where
  "same_req cur r = (case cur of None \<Rightarrow> False | Some c \<Rightarrow> r_uid c = r_uid r)"

definition exe_after :: "request \<Rightarrow> exe_outcome \<Rightarrow> dev_worker \<Rightarrow> dev_worker" where
  "exe_after r x w =
     (case x of
        exe_error n \<Rightarrow> w\<lparr>w_sent := w_sent w @ to_send [(r, generate_error_response n)]\<rparr>
      | exe_going \<Rightarrow> w\<lparr>w_cur := Some r\<rparr>
      | exe_done a \<Rightarrow>
          (case get_all_complete_response (Some (r, a)) True (w_dev w) of
             (v, d) \<Rightarrow>
               (let cur = (if list_ex (\<lambda>(r', _). same_req (w_cur w) r') (to_send v) then None else w_cur w)
                in w\<lparr>w_dev := d, w_sent := w_sent w @ to_send v,
                     w_cur := (case cur of Some c \<Rightarrow> Some c
                               | None \<Rightarrow> (case get_front_of_read_queue d of [] \<Rightarrow> None | c # _ \<Rightarrow> Some c))\<rparr>)))"

definition dev_execute ::
  "(wstring \<Rightarrow> bytes) \<Rightarrow> (bytes \<Rightarrow> wstring) \<Rightarrow> host \<Rightarrow> hid_env \<Rightarrow> request \<Rightarrow> cqitem_dev list \<Rightarrow> dev_worker
     \<Rightarrow> (dev_worker \<times> cqitem_dev list) option" where
  "dev_execute to_mcs to_wide h env r cbs w =
     map_option (\<lambda>(x, w', cbs'). (exe_after r x w', cbs')) (exe_switch to_mcs to_wide h env r cbs w)"

text \<open>The round without a new request; it ends the current request when its response is among the complete ones.\<close>

definition dev_continue :: "dev_worker \<Rightarrow> bool \<times> dev_worker" where
  "dev_continue w =
     (case get_all_complete_response None True (w_dev w) of
        (v, d) \<Rightarrow>
          (list_ex (\<lambda>(r', _). same_req (w_cur w) r') v, w\<lparr>w_dev := d, w_sent := w_sent w @ to_send v\<rparr>))"

definition worker_idle_round :: "dev_worker \<Rightarrow> dev_worker" where
  "worker_idle_round w =
     (if w_cur w = None then w
      else case dev_continue w of (b_complete, w') \<Rightarrow> if b_complete then w'\<lparr>w_cur := None\<rparr> else w')"

section \<open>Steps\<close>

text \<open>
  Between two requests the callbacks of the device thread run, and rounds without a new request. A request
  that waits for its event is served by the callbacks that run meanwhile. Every request is a new object.
\<close>

inductive dev_steps ::
  "(wstring \<Rightarrow> bytes) \<Rightarrow> (bytes \<Rightarrow> wstring) \<Rightarrow> request list \<Rightarrow> dev_worker \<Rightarrow> bool"
  for to_mcs to_wide where
  dev_start: "dev_steps to_mcs to_wide [] dev_worker_ini"
| dev_callback: "dev_steps to_mcs to_wide rs w \<Longrightarrow> run_callback qi (w_dev w) = Some (x, d)
    \<Longrightarrow> dev_steps to_mcs to_wide rs (w\<lparr>w_dev := d\<rparr>)"
| dev_request: "dev_steps to_mcs to_wide rs w \<Longrightarrow> r_uid r \<notin> r_uid ` set rs
    \<Longrightarrow> dev_execute to_mcs to_wide h env r cbs w = Some (w', [])
    \<Longrightarrow> dev_steps to_mcs to_wide (rs @ [r]) w'"
| dev_idle: "dev_steps to_mcs to_wide rs w \<Longrightarrow> dev_steps to_mcs to_wide rs (worker_idle_round w)"

inductive_cases dev_stepsE: "dev_steps to_mcs to_wide rs w"

end
