(* ===== verification/IoJson.thy ===== *)
theory IoJson
  imports IoText
begin

text \<open>
  Packets as JSON (\<open>_to_json\<close>, \<open>_build\<close> of a JSON value, \<open>build_from_json\<close> in \<open>mp_cio_packet.h\<close>).
  JSON values are those of \<open>nlohmann::json\<close>; \<open>parse\<close> and \<open>dump\<close> of that library are parameters. Of a
  floating point number only the integral part is kept, which is what its conversion to an integer gives.
\<close>

datatype json =
  JNull | JBool bool | JInt int | JReal int | JString bytes | JArray "json list"
  | JObject "(string \<times> json) list"

section \<open>Writing\<close>

text \<open>The strings of a multi-string, without the empty ones; a rest without a null is a string too.\<close>

fun split_strings :: "bytes \<Rightarrow> bytes \<Rightarrow> bytes list" where
  "split_strings s_data [] = (if s_data \<noteq> [] then [s_data] else [])"
| "split_strings s_data (c # cs) =
     (if c = 0 then (if s_data \<noteq> [] then s_data # split_strings [] cs else split_strings [] cs)
      else split_strings (s_data @ [c]) cs)"

definition data_field_json :: "byte \<Rightarrow> bytes \<Rightarrow> json" where
  "data_field_json data_field_type v_data =
     (if v_data = [] then JNull
      else if data_field_type = data_field_binary then JString (hex_string_from_binary [] v_data)
      else JArray (map JString (split_strings [] v_data)))"

definition packet_json :: "cio_packet \<Rightarrow> json option" where
  "packet_json p =
     (if m_v_packet p = [] then Some JNull
      else case header p of
        None \<Rightarrow> None
      | Some h \<Rightarrow>
          map_option (\<lambda>v_data. JObject
            [(''request_type'', JString
                [if c_cmd h = cmd_request then cmd_request
                 else if c_cmd h = cmd_self_request then cmd_self_request
                 else if c_cmd h = cmd_system_request then cmd_system_request
                 else cmd_response]),
             (''session_number'', JInt (uint (n_session h))),
             (''packet_owner'', JString [if c_owner h = owner_manager then owner_manager else owner_device]),
             (''device_index'', JInt (uint (dw_device_index h))),
             (''action_code'', JString [c_act h]),
             (''in_id'', JInt (uint (c_in_id h))),
             (''out_id'', JInt (uint (c_out_id h))),
             (''data_field_type'', JString [m_type_data_field p]),
             (''data_field'', data_field_json (m_type_data_field p) v_data)])
          (get_data_field p))"

text \<open>\<open>dump\<close> is \<open>None\<close> when it throws: a string is not UTF-8. Then the text is empty.\<close>

definition to_json :: "(json \<Rightarrow> bytes option) \<Rightarrow> cio_packet \<Rightarrow> bytes option" where
  "to_json dump p =
     map_option (\<lambda>j. if j = JNull then [] else case dump j of None \<Rightarrow> [] | Some s_format \<Rightarrow> s_format) (packet_json p)"

section \<open>Reading\<close>

definition json_find :: "json \<Rightarrow> string \<Rightarrow> json option" where
  "json_find j s_name = (case j of JObject kvs \<Rightarrow> map_of kvs s_name | _ \<Rightarrow> None)"

text \<open>A code: a string of one of the valid characters. A number, cut to its type. An id may be missing.\<close>

definition code_field :: "byte list \<Rightarrow> json option \<Rightarrow> byte option" where
  "code_field valid j =
     (case j of Some (JString s_data) \<Rightarrow>
        if length s_data = 1 \<and> s_data ! 0 \<in> set valid then Some (s_data ! 0) else None
      | _ \<Rightarrow> None)"

definition number_field :: "json option \<Rightarrow> 'w::len word option" where
  "number_field j =
     (case j of Some (JInt i) \<Rightarrow> Some (word_of_int i) | Some (JReal i) \<Rightarrow> Some (word_of_int i) | _ \<Rightarrow> None)"

definition id_field :: "json option \<Rightarrow> byte option" where
  "id_field j = (if j = None then Some 0 else number_field j)"

definition valid_action_codes :: "byte list" where
  "valid_action_codes = manager_actions @ [act_mgmt_dev_kernel_operation] @ device_actions"

fun strings_of :: "json list \<Rightarrow> bytes list option" where
  "strings_of [] = Some []"
| "strings_of (JString s # js) = map_option ((#) s) (strings_of js)"
| "strings_of _ = None"

text \<open>The second of two colons is dropped; \<open>b_col\<close> is the count \<open>n_col\<close>, 0 or 1.\<close>

fun undouble :: "bool \<Rightarrow> 'w::len word list \<Rightarrow> 'w word list" where
  "undouble b_col [] = []"
| "undouble b_col (c # cs) =
     (if c = 0x3A then (if b_col then undouble False cs else c # undouble True cs)
      else c # undouble False cs)"

definition data_field_bytes :: "byte \<Rightarrow> json option \<Rightarrow> bytes option" where
  "data_field_bytes data_field_type j =
     (case j of
        None \<Rightarrow> Some []
      | Some (JArray js) \<Rightarrow>
          map_option (\<lambda>ss. let used = filter (\<lambda>s. s \<noteq> []) ss
                           in concat (map (\<lambda>s. s @ [0]) used) @ (if used \<noteq> [] then [0] else []))
            (strings_of js)
      | Some (JString s_data) \<Rightarrow>
          if data_field_type = data_field_binary then
            (let s = trim s_data in
             if s = [] then Some []
             else if 0x20 \<notin> set s \<and> length s mod 2 \<noteq> 0 then None
             else (let v_hex = binary_from_hex_string s (if 0x20 \<in> set s then [0x20] else [])
                   in if v_hex = [] then None else Some v_hex))
          else Some (undouble False s_data @ (if s_data \<noteq> [] then [0, 0] else []))
      | Some (JObject kvs) \<Rightarrow> None
      | Some _ \<Rightarrow> Some [])"

text \<open>\<open>None\<close> is the null pointer; the fields are looked at in this order.\<close>

definition build_json :: "json \<Rightarrow> cio_packet option" where
  "build_json j =
     Option.bind (code_field valid_cmds (json_find j ''request_type'')) (\<lambda>cmd.
     Option.bind (number_field (json_find j ''session_number'')) (\<lambda>session.
     Option.bind (code_field valid_owners (json_find j ''packet_owner'')) (\<lambda>owner.
     Option.bind (number_field (json_find j ''device_index'')) (\<lambda>index.
     Option.bind (code_field valid_action_codes (json_find j ''action_code'')) (\<lambda>act.
     Option.bind (id_field (json_find j ''in_id'')) (\<lambda>in_id.
     Option.bind (id_field (json_find j ''out_id'')) (\<lambda>out_id.
     Option.bind (code_field valid_data_field_types (json_find j ''data_field_type'')) (\<lambda>t.
     Option.bind (data_field_bytes t (json_find j ''data_field'')) (\<lambda>d.
       Some (cio_packet_of t
         (header_bytes \<lparr>c_cmd = cmd, n_session = session, c_owner = owner, dw_device_index = index, c_act = act,
            c_in_id = in_id, c_out_id = out_id, n_data = as_u32 (length d)\<rparr> @ d)))))))))))"

text \<open>The error of the parser comes back as its text.\<close>

definition build_from_json :: "(bytes \<Rightarrow> bytes + json) \<Rightarrow> bytes \<Rightarrow> cio_packet option \<times> bytes" where
  "build_from_json parse v_json =
     (case parse v_json of Inl s_json_error \<Rightarrow> (None, s_json_error) | Inr j \<Rightarrow> (build_json j, []))"

section \<open>Round trips\<close>

text \<open>The doubling of the colons, which the server does when it writes a text, is taken back by the reader
  of a JSON text, for every text.\<close>

theorem colons_roundtrip: "undouble False (double_loop s 0) = s"
proof -
  have "undouble False (double_colons s) = s"
    by (induction s) (auto simp: double_colons_def)
  then show ?thesis by (simp add: double_loop_doubles)
qed

lemma split_strings_string: "0 \<notin> set s \<Longrightarrow> split_strings cur (s @ 0 # r) =
    (if cur @ s \<noteq> [] then (cur @ s) # split_strings [] r else split_strings [] r)"
  by (induction s arbitrary: cur) auto

lemma split_strings_multi:
  assumes "\<forall>s\<in>set ss. s \<noteq> [] \<and> 0 \<notin> set s"
  shows "split_strings [] (concat (map (\<lambda>s. s @ [0]) ss) @ [0]) = ss"
  using assms by (induction ss) (simp_all add: split_strings_string)

lemma strings_of_map: "strings_of (map JString ss) = Some ss"
  by (induction ss) simp_all

lemma hex_of_byte_text:
  "0x20 \<notin> set (hex_string_from_binary [] v :: bytes)" "length (hex_string_from_binary [] v :: bytes) mod 2 = 0"
  "v \<noteq> [] \<Longrightarrow> hex_string_from_binary [] v \<noteq> ([] :: bytes)"
  "\<forall>c\<in>set (hex_string_from_binary [] v :: bytes). \<not> white_space c"
proof -
  have h: "\<not> white_space (hex_char k :: byte)" if "k < 16" for k
    using nibble_hex_char [where 'w = 8, OF that] by simp
  have n: "unat c div 16 < 16" for c :: byte
  proof -
    have "unat c < 256" using unsigned_less [of c] by simp
    then show ?thesis by simp
  qed
  show w: "\<forall>c\<in>set (hex_string_from_binary [] v :: bytes). \<not> white_space c"
    by (auto simp: hex_string_no_delimiter hex_of_byte_def intro!: h n)
  then show "0x20 \<notin> set (hex_string_from_binary [] v :: bytes)" by (auto simp: white_space_def)
  show "length (hex_string_from_binary [] v :: bytes) mod 2 = 0"
    by (induction v) (simp_all add: hex_string_no_delimiter hex_of_byte_def)
  show "v \<noteq> [] \<Longrightarrow> hex_string_from_binary [] v \<noteq> ([] :: bytes)"
    by (cases v) (simp_all add: hex_string_no_delimiter hex_of_byte_def)
qed

lemma data_field_roundtrip_binary:
  "data_field_bytes data_field_binary (Some (data_field_json data_field_binary v)) = Some v"
proof (cases "v = []")
  case True
  then show ?thesis by (simp add: data_field_json_def data_field_bytes_def)
next
  case False
  let ?s = "hex_string_from_binary [] v :: bytes"
  have "trim ?s = ?s"
    by (rule trim_not_white) (use hex_of_byte_text [of v] in auto)
  moreover have "binary_from_hex_string ?s [] = v" using hex_roundtrip [where 'w = 8, of "[]" v] by simp
  ultimately show ?thesis
    using False hex_of_byte_text [of v] by (simp add: data_field_json_def data_field_bytes_def Let_def)
qed

lemma data_field_roundtrip_text:
  assumes "\<forall>s\<in>set ss. s \<noteq> [] \<and> 0 \<notin> set s"
  shows "data_field_bytes data_field_string_utf8 (Some (data_field_json data_field_string_utf8 (multi_string ss)))
    = Some (multi_string ss)"
proof (cases "ss = []")
  case True
  then show ?thesis by (simp add: multi_string_def data_field_json_def data_field_bytes_def)
next
  case False
  have "filter (\<lambda>s. s \<noteq> []) ss = ss" using assms by (simp add: filter_id_conv)
  then show ?thesis
    using False split_strings_multi [OF assms]
    by (simp add: multi_string_def data_field_json_def data_field_bytes_def strings_of_map Let_def)
qed

text \<open>C30. A valid packet that is written as a JSON object and read again is the same packet, with binary data of
  any bytes and with text in the form that the packet keeps it in: null-terminated strings that are not empty
  and a second null at the end.\<close>

theorem json_roundtrip:
  assumes "packet_ok p" "m_b_must_be_recover p = False" "m_s_option p = []"
    "m_type_data_field p = data_field_string_utf8 \<longrightarrow>
       (\<exists>ss. get_data_field p = Some (multi_string ss) \<and> (\<forall>s\<in>set ss. s \<noteq> [] \<and> 0 \<notin> set s))"
  shows "Option.bind (packet_json p) build_json = Some p"
proof -
  let ?t = "m_type_data_field p"
  obtain h d where p: "m_v_packet p = packet_bytes h d" "codes_ok h" "length d < 2 ^ 32"
      "h = h\<lparr>n_data := of_nat (length d)\<rparr>"
    using assms(1) packet_is_valid_split unfolding packet_ok_def is_valid_def by metis
  have t: "?t = data_field_binary \<or> ?t = data_field_string_utf8"
    using assms(1) by (auto simp: packet_ok_def valid_data_field_types_def)
  have g: "get_data_field p = Some d" by (rule get_data_field_bytes [OF p(1,3)])
  have d: "data_field_bytes ?t (Some (data_field_json ?t d)) = Some d"
    using t data_field_roundtrip_binary [of d] assms(4) data_field_roundtrip_text unfolding g by auto
  have c: "c_cmd h \<in> set valid_cmds" "c_owner h \<in> set valid_owners" "c_act h \<in> set valid_action_codes"
    using p(2) by (auto simp: codes_ok_def valid_action_codes_def split: if_splits)
  have cmd: "(if c_cmd h = cmd_request then cmd_request else if c_cmd h = cmd_self_request then cmd_self_request
      else if c_cmd h = cmd_system_request then cmd_system_request else cmd_response) = c_cmd h"
    using c(1) by (auto simp: valid_cmds_def)
  have own: "(if c_owner h = owner_manager then owner_manager else owner_device) = c_owner h"
    using c(2) by (auto simp: valid_owners_def)
  have h: "\<lparr>c_cmd = c_cmd h, n_session = n_session h, c_owner = c_owner h, dw_device_index = dw_device_index h,
      c_act = c_act h, c_in_id = c_in_id h, c_out_id = c_out_id h, n_data = as_u32 (length d)\<rparr>
      = h\<lparr>n_data := of_nat (length d)\<rparr>"
    by (simp add: as_u32_def)
  have ne: "m_v_packet p \<noteq> []" using p(1) by (simp add: packet_bytes_def header_bytes_def)
  let ?j = "JObject
            [(''request_type'', JString [c_cmd h]),
             (''session_number'', JInt (uint (n_session h))),
             (''packet_owner'', JString [c_owner h]),
             (''device_index'', JInt (uint (dw_device_index h))),
             (''action_code'', JString [c_act h]),
             (''in_id'', JInt (uint (c_in_id h))),
             (''out_id'', JInt (uint (c_out_id h))),
             (''data_field_type'', JString [?t]),
             (''data_field'', data_field_json ?t d)]"
  have "packet_json p = Some ?j"
    unfolding packet_json_def p(1) packet_view_bytes using ne g p(1) c(1) by (auto simp: valid_cmds_def own)
  moreover have "build_json ?j = Some (cio_packet_of ?t (packet_bytes h d))"
    using c d assms(1)
    by (simp add: build_json_def json_find_def code_field_def number_field_def id_field_def packet_ok_def
        packet_bytes_def h)
  moreover have "cio_packet_of ?t (packet_bytes h d) = p"
    using assms(1,2,3) p(1) by (simp add: cio_packet_of_def packet_ok_def is_valid_def)
  ultimately show ?thesis by simp
qed

theorem json_roundtrip_witness:
  "Option.bind (packet_json (cio_packet_of data_field_string_utf8
      (packet_bytes echo_header (multi_string [text_of ''ab'', text_of ''c'']))))
     build_json
   = Some (cio_packet_of data_field_string_utf8
      (packet_bytes echo_header (multi_string [text_of ''ab'', text_of ''c''])))"
proof -
  let ?m = "multi_string [text_of ''ab'', text_of ''c''] :: bytes"
  let ?p = "cio_packet_of data_field_string_utf8 (packet_bytes echo_header ?m)"
  have m: "length ?m < 2 ^ 32" by (simp add: multi_string_def text_of_def)
  have v: "packet_is_valid (packet_bytes echo_header ?m)"
    by (subst packet_is_valid_bytes [OF m])
      (simp add: codes_ok_def echo_header_def valid_cmds_def valid_owners_def manager_actions_def)
  then have "get_data_field ?p = Some ?m"
    by (intro get_data_field_bytes [of _ echo_header]) (use m in \<open>simp_all add: cio_packet_of_def\<close>)
  moreover have "\<forall>s\<in>set [text_of ''ab'', text_of ''c'' :: bytes]. s \<noteq> [] \<and> 0 \<notin> set s"
    by (simp add: text_of_def)
  moreover have "packet_ok ?p"
    using cio_packet_of_valid by (simp add: packet_ok_def cio_packet_of_def valid_data_field_types_def is_valid_def)
  ultimately show ?thesis
    by (intro json_roundtrip) (auto simp: cio_packet_of_def)
qed

text \<open>An object whose owner does not agree with its action is read as an echo request without a session.\<close>

lemma mismatch_becomes_echo:
  "build_json (JObject [(''request_type'', JString [cmd_request]), (''session_number'', JInt 5),
      (''packet_owner'', JString [owner_manager]), (''device_index'', JInt 7),
      (''action_code'', JString [act_dev_write]), (''data_field_type'', JString [data_field_binary])])
   = Some cio_packet_default"
proof -
  let ?h = "\<lparr>c_cmd = cmd_request, n_session = 5, c_owner = owner_manager, dw_device_index = 7,
     c_act = act_dev_write, c_in_id = 0, c_out_id = 0, n_data = 0\<rparr>"
  have "\<not> packet_is_valid (header_bytes ?h)"
    using packet_is_valid_bytes [of "[]" ?h]
    by (simp add: packet_bytes_def codes_ok_def manager_actions_def device_actions_def)
  then show ?thesis
    by (simp add: build_json_def json_find_def code_field_def number_field_def id_field_def valid_cmds_def
        valid_owners_def valid_action_codes_def manager_actions_def device_actions_def valid_data_field_types_def
        data_field_bytes_def cio_packet_of_def cio_packet_default_def as_u32_def)
qed

end
