(* ===== verification/MainCtl.thy ===== *)
theory MainCtl
  imports CtlSvr SessionFile DevList DevCtl IoJson
begin

text \<open>
  The management requests (\<open>cmain_ctl_fn\<close> and \<open>cmain_ctl\<close> in
  \<open>src/shared/lib/src/server/mp_cmain_ctl_fn_.cpp\<close> and \<open>mp_cmain_ctl_.cpp\<close>) and the requests of the
  kernel worker of a session (\<open>mp_ckernel_ctl_.cpp\<close>): echo, version, device list, files, names of sessions and
  messages between sessions, update without a device. The state is the whole daemon; what is sent is recorded as the
  session and the text of the packet.
\<close>

section \<open>The daemon and its surroundings\<close>

record svr_env =
  sv_to_mcs :: "wstring \<Rightarrow> bytes"
  sv_to_wide :: "bytes \<Rightarrow> wstring"
  sv_lower :: "16 word \<Rightarrow> 16 word"
  sv_parse :: "bytes \<Rightarrow> bytes + json"
  sv_dump :: "json \<Rightarrow> bytes option"
  sv_hid_ini :: bool
  sv_devices :: dev_set
  sv_host :: host
  sv_root :: wstring
  sv_separator :: "16 word"
  sv_file_list :: "file_store \<Rightarrow> wstring list"

record daemon =
  dm_ctl :: ctl_svr
  dm_sessions :: "session_files session_map"
  dm_files :: file_store
  dm_params :: param_mgmt
  dm_sent :: "(u32 \<times> bytes) list"

definition get_virtual_path_of_temp_rom_file_of_session :: "16 word \<Rightarrow> u32 \<Rightarrow> wstring" where
  "get_virtual_path_of_temp_rom_file_of_session sep session =
     text_of ''temp'' @ [sep] @ text_of ''temp_fw_se_'' @ number_text 10 (unat session) @ text_of ''.rom''"

text \<open>Sending: to an open session, or to all but the one that caused it. An empty text is not sent.\<close>

definition send_data_to_client_by_ip4 :: "bytes \<Rightarrow> u32 \<Rightarrow> daemon \<Rightarrow> daemon" where
  "send_data_to_client_by_ip4 v_data session d =
     (if v_data = [] \<or> map_of (dm_sessions d) session = None then d else d\<lparr>dm_sent := dm_sent d @ [(session, v_data)]\<rparr>)"

definition broadcast_by_ip4 :: "u32 \<Rightarrow> bytes \<Rightarrow> daemon \<Rightarrow> daemon" where
  "broadcast_by_ip4 n_owner_session v_data d =
     (if v_data = [] then d
      else d\<lparr>dm_sent := dm_sent d @ map (\<lambda>s. (s, v_data)) (filter (\<lambda>s. s \<noteq> n_owner_session) (map fst (dm_sessions d)))\<rparr>)"

section \<open>Responses\<close>

text \<open>Most handlers start with an error and put a success, alone or with texts, in its place.\<close>

datatype op_result = op_error | op_success | op_texts "wstring list"

definition error_started :: "svr_env \<Rightarrow> cio_packet \<Rightarrow> cio_packet option" where
  "error_started env request = Option.bind (set_cmd cmd_response request) (set_data_error (sv_to_mcs env) [])"

definition finish_response :: "svr_env \<Rightarrow> op_result \<Rightarrow> cio_packet \<Rightarrow> cio_packet option" where
  "finish_response env r response =
     (case r of
        op_error \<Rightarrow> Some response
      | op_success \<Rightarrow> set_data_sucesss (sv_to_mcs env) response
      | op_texts l \<Rightarrow>
          Option.bind (set_data_by_utf8 (sv_to_mcs env) (text_of ''success'') False response)
            (append_all (sv_to_mcs env) l))"

definition op_response :: "svr_env \<Rightarrow> op_result \<Rightarrow> cio_packet \<Rightarrow> cio_packet option" where
  "op_response env r request = Option.bind (error_started env request) (finish_response env r)"

section \<open>Simple requests\<close>

definition execute_mgmt_get_echo :: "cio_packet \<Rightarrow> cio_packet option" where
  "execute_mgmt_get_echo request = set_cmd cmd_response request"

definition execute_mgmt_get_version :: "svr_env \<Rightarrow> cio_packet \<Rightarrow> cio_packet option" where
  "execute_mgmt_get_version env request =
     Option.bind (set_cmd cmd_response request) (set_data_by_utf8 (sv_to_mcs env) (text_of ''2.15.0'') False)"

definition execute_mgmt_recover_operation ::
  "svr_env \<Rightarrow> cio_packet \<Rightarrow> param_mgmt \<Rightarrow> (cio_packet \<times> param_mgmt) option" where
  "execute_mgmt_recover_operation env request m =
     Option.bind (set_cmd cmd_response request) (\<lambda>response.
     Option.bind (boot_request (sv_to_mcs env) (sv_to_wide env) (sv_host env) None (n_session (p_header request)) request m)
       (\<lambda>(reason, m').
          map_option (\<lambda>p. (p, m'))
            (case reason of
               None \<Rightarrow> set_data_sucesss (sv_to_mcs env) response
             | Some n \<Rightarrow> set_data_error (sv_to_mcs env) (text_of (get_error_message n)) response)))"

definition execute_mgmt_get_device_list :: "svr_env \<Rightarrow> wstring list \<Rightarrow> cio_packet \<Rightarrow> cio_packet option" where
  "execute_mgmt_get_device_list env list_wstring_filter request =
     Option.bind (set_cmd cmd_response request)
       (set_data_by_set (sv_to_mcs env)
          (listed_devices (sv_to_wide env) (sv_lower env) (sv_hid_ini env) (sv_devices env) list_wstring_filter))"

definition show_allowed :: "wstring set \<Rightarrow> bool" where
  "show_allowed s =
     (card s = 3 \<and> text_of ''espresso'' \<in> s \<and> text_of ''cappuccino'' \<in> s
      \<and> (text_of ''show'' \<in> s \<or> text_of ''hide'' \<in> s))"

definition execute_mgmt_ctl_show :: "svr_env \<Rightarrow> cio_packet \<Rightarrow> cio_packet option" where
  "execute_mgmt_ctl_show env request =
     Option.bind (get_data_set (sv_to_wide env) request) (\<lambda>s.
     Option.bind (set_cmd cmd_response request)
       (if show_allowed s then set_data_sucesss (sv_to_mcs env) else set_data_error (sv_to_mcs env) []))"

section \<open>Files\<close>

text \<open>The commands on the files of a session; the path of a file to delete is put together from the root and the name.\<close>

definition on_first_file :: "session_files \<Rightarrow> (wstring \<Rightarrow> op_result \<times> 'a) \<Rightarrow> op_result \<times> 'a \<Rightarrow> op_result \<times> 'a" where
  "on_first_file sf f e = (case get_first_opened_file_path sf of None \<Rightarrow> e | Some s \<Rightarrow> f s)"

definition done_if :: "bool \<times> 'a \<Rightarrow> op_result \<times> 'a" where
  "done_if r = (if fst r then op_success else op_error, snd r)"

definition file_command ::
  "svr_env \<Rightarrow> u32 \<Rightarrow> wstring list \<Rightarrow> session_files \<Rightarrow> file_store \<Rightarrow> op_result \<times> session_files \<times> file_store" where
  "file_command env session l sf fs =
     (let e = (op_error, sf, fs); to_mcs = sv_to_mcs env in
      if l = [] then e
      else if hd l = text_of ''firmware'' then
        (if length l \<noteq> 2 then e
         else done_if (file_firmware to_mcs (l ! 1)
                (get_virtual_path_of_temp_rom_file_of_session (sv_separator env) session) sf fs))
      else if hd l = text_of ''create'' then
        (if length l \<noteq> 2 then e else done_if (file_create to_mcs (l ! 1) sf fs))
      else if hd l = text_of ''open'' then
        (if length l \<noteq> 2 then e else done_if (file_open to_mcs (l ! 1) sf fs))
      else if hd l = text_of ''close'' then
        (if length l \<noteq> 1 then e
         else on_first_file sf (\<lambda>s. case file_close s sf of (b, sf') \<Rightarrow> done_if (b, sf', fs)) e)
      else if hd l = text_of ''delete'' then
        (if length l \<noteq> 2 then e
         else case delete_file (to_mcs (sv_root env @ sv_separator env # l ! 1)) fs of (b, fs') \<Rightarrow> done_if (b, sf, fs'))
      else if hd l = text_of ''truncate'' then
        (if length l \<noteq> 1 then e else on_first_file sf (\<lambda>s. done_if (file_truncate to_mcs s sf fs)) e)
      else if hd l = text_of ''get'' then
        (if length l \<noteq> 2 then e
         else if l ! 1 = text_of ''size'' then
           on_first_file sf
             (\<lambda>s. case file_get_size s sf fs of
                    (n_size, sf') \<Rightarrow> (if n_size < 0 then op_error else op_texts [to_wstring n_size], sf', fs)) e
         else if l ! 1 = text_of ''list'' then (op_texts (sv_file_list env fs), sf, fs)
         else e)
      else e)"

text \<open>The request: binary data are written to the first open file.\<close>

definition file_request ::
  "svr_env \<Rightarrow> u32 \<Rightarrow> cio_packet \<Rightarrow> session_files \<Rightarrow> file_store \<Rightarrow> (op_result \<times> session_files \<times> file_store) option" where
  "file_request env session request sf fs =
     (if m_type_data_field request = data_field_binary then
        map_option (\<lambda>v. if v = [] then (op_error, sf, fs) else done_if (file_append v sf fs)) (get_data_field request)
      else map_option (\<lambda>l. file_command env session l sf fs) (get_data_list (sv_to_wide env) request))"

definition execute_file_operation :: "svr_env \<Rightarrow> cio_packet \<Rightarrow> daemon \<Rightarrow> (cio_packet \<times> daemon) option" where
  "execute_file_operation env request d =
     (let session = n_session (p_header request) in
      case map_of (dm_sessions d) session of
        None \<Rightarrow> map_option (\<lambda>p. (p, d)) (op_response env op_error request)
      | Some sf \<Rightarrow>
          Option.bind (file_request env session request sf (dm_files d)) (\<lambda>(r, sf', fs').
            map_option (\<lambda>p. (p, d\<lparr>dm_sessions := map_put session sf' (dm_sessions d), dm_files := fs'\<rparr>))
              (op_response env r request)))"

section \<open>Names and messages\<close>

text \<open>The result, the control, and the message for another session or for all of them.\<close>

definition advance_command ::
  "svr_env \<Rightarrow> u32 \<Rightarrow> cio_packet \<Rightarrow> wstring list \<Rightarrow> ctl_svr \<Rightarrow> (op_result \<times> ctl_svr \<times> cio_packet option) option" where
  "advance_command env session request l s =
     (let e = Some (op_error, s, None);
          message = (\<lambda>s_name n_dest.
            set_data_from_send_data_to_session_request (sv_to_mcs env) (sv_to_wide env) request s_name n_dest
              cio_packet_default) in
      if l = [] then e
      else if hd l = text_of ''set_session_name'' then
        (if length l > 2 then e
         else map_option (\<lambda>s_session_name.
                case set_session_name session s_session_name s of
                  (b, s') \<Rightarrow> (if b then op_success else op_error, s', None))
              (if length l = 1 then generate_session_name session s else Some (l ! 1)))
      else if hd l = text_of ''get_session_name'' then
        (if length l \<noteq> 1 then e
         else if get_session_name session s = [] then e
         else Some (op_texts [get_session_name session s], s, None))
      else if hd l = text_of ''send_data_to_session'' then
        (if length l < 3 then e
         else (let n_session_dest = get_session_number_from_session_name (l ! 1) s in
               if n_session_dest = invalid_session_number then e
               else if session = n_session_dest then e
               else if get_session_name session s = [] then e
               else map_option (\<lambda>p. (op_success, s, Some p)) (message (get_session_name session s) n_session_dest)))
      else if hd l = text_of ''send_data_to_all'' then
        (if length l < 2 then e
         else if get_session_name session s = [] then e
         else map_option (\<lambda>p. (op_success, s, Some p)) (message (get_session_name session s) invalid_session_number))
      else e)"

definition execute_advance_operation ::
  "svr_env \<Rightarrow> cio_packet \<Rightarrow> daemon \<Rightarrow> (cio_packet \<times> daemon \<times> cio_packet option) option" where
  "execute_advance_operation env request d =
     (let session = n_session (p_header request); e = map_option (\<lambda>p. (p, d, None)) (op_response env op_error request) in
      if map_of (dm_sessions d) session = None then e
      else if m_type_data_field request = data_field_binary then e
      else Option.bind (get_data_list (sv_to_wide env) request) (\<lambda>l.
           Option.bind (advance_command env session request l (dm_ctl d)) (\<lambda>(r, s', other).
             map_option (\<lambda>p. (p, d\<lparr>dm_ctl := s'\<rparr>, other)) (op_response env r request))))"

section \<open>The two workers\<close>

definition error_packet :: "svr_env \<Rightarrow> int \<Rightarrow> cio_packet \<Rightarrow> cio_packet option" where
  "error_packet env n_reason request =
     answer_packet (sv_to_mcs env) \<lparr>r_uid = 0, r_packet = request\<rparr> (generate_error_response n_reason)"

text \<open>The response, and the message to others if there is one.\<close>

definition main_response ::
  "svr_env \<Rightarrow> cio_packet \<Rightarrow> daemon \<Rightarrow> (cio_packet \<times> daemon \<times> cio_packet option) option" where
  "main_response env request d =
     (let h = p_header request; alone = map_option (\<lambda>p. (p, d, None)) in
      if c_cmd h = cmd_response then alone (error_packet env 2 request)
      else if n_data h > const_max_rx_size then alone (error_packet env 18 request)
      else if c_act h = act_mgmt_recover_operation then
        map_option (\<lambda>(p, m). (p, d\<lparr>dm_params := m\<rparr>, None)) (execute_mgmt_recover_operation env request (dm_params d))
      else if c_act h = act_mgmt_get_version then alone (execute_mgmt_get_version env request)
      else if c_act h = act_mgmt_get_echo then alone (execute_mgmt_get_echo request)
      else if c_act h = act_mgmt_get_device_list then
        Option.bind (get_data_list (sv_to_wide env) request) (\<lambda>l. alone (execute_mgmt_get_device_list env l request))
      else if c_act h = act_mgmt_ctl_show then alone (execute_mgmt_ctl_show env request)
      else if c_act h = act_mgmt_file_operation then
        map_option (\<lambda>(p, d'). (p, d', None)) (execute_file_operation env request d)
      else if c_act h = act_mgmt_advance_operation then execute_advance_operation env request d
      else alone (error_packet env 5 request))"

definition send_message :: "svr_env \<Rightarrow> u32 \<Rightarrow> cio_packet \<Rightarrow> daemon \<Rightarrow> daemon option" where
  "send_message env n_owner_session p d =
     (if \<not> is_valid p then Some d
      else map_option (\<lambda>v. if n_session (p_header p) = invalid_session_number then broadcast_by_ip4 n_owner_session v d
                           else send_data_to_client_by_ip4 v (n_session (p_header p)) d)
           (to_json (sv_dump env) p))"

text \<open>The response goes to the session that the request names; requests of the daemon itself have none.\<close>

definition send_responses ::
  "svr_env \<Rightarrow> cio_packet \<Rightarrow> cio_packet \<times> daemon \<times> cio_packet option \<Rightarrow> daemon option" where
  "send_responses env request r =
     (case r of (response, d, other) \<Rightarrow>
        if c_cmd (p_header request) = cmd_self_request then Some d
        else Option.bind (to_json (sv_dump env) response) (\<lambda>v.
             let d' = send_data_to_client_by_ip4 v (n_session (p_header request)) d in
             case other of None \<Rightarrow> Some d' | Some p \<Rightarrow> send_message env (n_session (p_header request)) p d'))"

definition main_execute :: "svr_env \<Rightarrow> cio_packet \<Rightarrow> daemon \<Rightarrow> daemon option" where
  "main_execute env request d = Option.bind (main_response env request d) (send_responses env request)"

text \<open>The kernel worker: nothing but the list of the devices is served.\<close>

definition execute_kernel_operation :: "svr_env \<Rightarrow> cio_packet \<Rightarrow> daemon \<Rightarrow> cio_packet option" where
  "execute_kernel_operation env request d =
     (let e = error_started env request in
      if map_of (dm_sessions d) (n_session (p_header request)) = None then e
      else if m_type_data_field request \<noteq> data_field_string_utf8 then e
      else Option.bind (get_data_list (sv_to_wide env) request) (\<lambda>l.
        if l = [] then e
        else case tokenizer True (hd l) [0x20] of
          s_action # s_type # _ \<Rightarrow>
            if s_type = text_of ''device'' \<and> s_action = text_of ''list'' then execute_mgmt_get_device_list env (tl l) request
            else Option.bind e (set_data_by_list (sv_to_mcs env) [text_of ''error''])
        | _ \<Rightarrow> e))"

definition kernel_execute :: "svr_env \<Rightarrow> cio_packet \<Rightarrow> daemon \<Rightarrow> daemon option" where
  "kernel_execute env request d =
     (let h = p_header request in
      Option.bind
        (if c_cmd h = cmd_response then error_packet env 2 request
         else if n_data h > const_max_rx_size then error_packet env 18 request
         else if c_act h = act_mgmt_dev_kernel_operation then execute_kernel_operation env request d
         else error_packet env 5 request)
        (\<lambda>p. send_responses env request (p, d, None)))"

end
