(* ===== verification/Daemon.thy ===== *)
theory Daemon
  imports MainCtl
begin

text \<open>
  The daemon as a whole: the callbacks of the web server (\<open>src/shared/lib/src/server/mp_cserver_.cpp\<close>), the rounds of
  the management worker and of the kernel workers, devices that come and go, and what holds in every state that
  they reach. The workers of the devices take from their queues; how they answer is the subject of \<open>DevCtl\<close>.
\<close>

section \<open>Callbacks of the web server\<close>

definition session_request :: "byte \<Rightarrow> u32 \<Rightarrow> byte \<Rightarrow> u32 \<Rightarrow> byte \<Rightarrow> type_packect" where
  "session_request cmd session owner index act =
     \<lparr>c_cmd = cmd, n_session = session, c_owner = owner, dw_device_index = index, c_act = act, c_in_id = 0,
      c_out_id = 0, n_data = 0\<rparr>"

abbreviation on_ctl :: "daemon \<Rightarrow> ctl_svr \<Rightarrow> daemon" where
  "on_ctl d s \<equiv> d\<lparr>dm_ctl := s\<rparr>"

definition new_session :: "svr_env \<Rightarrow> u32 \<Rightarrow> session_files" where
  "new_session env session =
     \<lparr>sf_root = sv_root env, sf_separator = sv_separator env,
      sf_temp_file = get_virtual_path_of_temp_rom_file_of_session (sv_separator env) session,
      sf_using_temp = False, sf_opened = []\<rparr>"

text \<open>A new session gets its kernel worker; the echo request tells the client the number of the session.\<close>

definition cb_svr_accept :: "svr_env \<Rightarrow> u32 \<Rightarrow> daemon \<Rightarrow> daemon option" where
  "cb_svr_accept env session d =
     Option.bind (build (session_request cmd_request session owner_manager 0 act_mgmt_get_echo) data_field_binary None)
       (\<lambda>p. map_option (\<lambda>(_, s). d\<lparr>dm_ctl := s, dm_sessions := map_put session (new_session env session) (dm_sessions d)\<rparr>)
              (push_request_to_worker_ctl (sv_to_wide env) p (create_kernel_ctl session (dm_ctl d))))"

text \<open>The files of the session are closed before the callback, and the session is not found any more.\<close>

definition forget_session :: "svr_env \<Rightarrow> u32 \<Rightarrow> daemon \<Rightarrow> daemon" where
  "forget_session env session d =
     (case map_of (dm_sessions d) session of
        None \<Rightarrow> d
      | Some sf \<Rightarrow>
          d\<lparr>dm_files := snd (close_all_opened_file (sv_to_mcs env) sf (dm_files d)),
            dm_sessions := map_erase session (dm_sessions d)\<rparr>)"

definition cb_svr_close :: "svr_env \<Rightarrow> u32 \<Rightarrow> daemon \<Rightarrow> daemon option" where
  "cb_svr_close env session d =
     (let d' = forget_session env session d in
      map_option (\<lambda>(_, s). on_ctl d' (remove_kernel_ctl session (remove_session_name session s)))
        (close_all_device_of_session (sv_to_wide env) session (dm_ctl d')))"

text \<open>
  A text from a client: it becomes a request that is pushed, or an error response that is pushed in its place. The
  response goes to the management worker, which finds that it is no request.
\<close>

definition read_error :: "svr_env \<Rightarrow> cio_packet option \<Rightarrow> int \<Rightarrow> daemon \<Rightarrow> daemon option" where
  "read_error env ptr_request n_reason d =
     Option.bind (build_common_error_response (sv_to_mcs env) ptr_request (text_of (get_error_message n_reason)))
       (\<lambda>p. map_option (\<lambda>(_, s). on_ctl d s) (push_request_to_worker_ctl (sv_to_wide env) p (dm_ctl d)))"

definition cb_svr_read :: "svr_env \<Rightarrow> u32 \<Rightarrow> bytes \<Rightarrow> daemon \<Rightarrow> daemon option" where
  "cb_svr_read env session v_rx d =
     (case fst (build_from_json (sv_parse env) v_rx) of
        None \<Rightarrow> read_error env None 0 d
      | Some p \<Rightarrow>
          if m_v_packet p = [] then read_error env (Some p) 0 d
          else if n_session (p_header p) \<noteq> session then read_error env (Some p) 1 d
          else if c_cmd (p_header p) \<noteq> cmd_request then read_error env (Some p) 2 d
          else Option.bind (push_request_to_worker_ctl (sv_to_wide env) p (dm_ctl d)) (\<lambda>(reason, s).
                 case reason of None \<Rightarrow> Some (on_ctl d s) | Some n \<Rightarrow> read_error env (Some p) n (on_ctl d s)))"

text \<open>A response that was sent: the devices that the session uses follow from it.\<close>

definition cb_svr_write :: "svr_env \<Rightarrow> u32 \<Rightarrow> bytes \<Rightarrow> daemon \<Rightarrow> daemon option" where
  "cb_svr_write env session v_data d =
     (case fst (build_from_json (sv_parse env) v_data) of
        None \<Rightarrow> Some d
      | Some p \<Rightarrow>
          (let h = p_header p; w = (ucast (dw_device_index h) :: u16);
               used = on_ctl d (insert_device_index_to_device_index_set_of_session session w (dm_ctl d));
               unused = on_ctl d (erase_device_index_from_device_index_set_of_session session w (dm_ctl d)) in
           if c_act h \<noteq> act_dev_open \<and> c_act h \<noteq> act_dev_close \<and> c_act h \<noteq> act_mgmt_dev_kernel_operation then Some d
           else Option.bind (is_success p) (\<lambda>b_success.
             if \<not> b_success then Some d
             else if c_act h = act_dev_open then Some used
             else if c_act h = act_dev_close then Some unused
             else Option.bind (is_kernel_device_open (sv_to_wide env) p) (\<lambda>b_open.
                    if b_open then Some used
                    else map_option (\<lambda>b_close. if b_close then unused else d)
                           (is_kernel_device_close (sv_to_wide env) p)))))"

section \<open>Devices that come and go\<close>

definition send_data_to_client_by_ip4_device_plug_out ::
  "svr_env \<Rightarrow> u32 \<Rightarrow> u16 \<Rightarrow> wstring \<Rightarrow> daemon \<Rightarrow> daemon option" where
  "send_data_to_client_by_ip4_device_plug_out env session w s_device_path d =
     (if session = invalid_session_number then Some d
      else Option.bind (build (session_request cmd_system_request session owner_device (ucast w) act_dev_close)
                          data_field_string_utf8 None) (\<lambda>p.
           Option.bind (set_data_by_utf8 (sv_to_mcs env) s_device_path False p) (\<lambda>p.
             map_option (\<lambda>v. send_data_to_client_by_ip4 v session d) (to_json (sv_dump env) p))))"

definition broadcast_by_ip4_device_plug_in :: "svr_env \<Rightarrow> wstring \<Rightarrow> daemon \<Rightarrow> daemon option" where
  "broadcast_by_ip4_device_plug_in env s_device_path d =
     (if s_device_path = [] then Some d
      else Option.bind (build (session_request cmd_system_request invalid_session_number owner_manager 0 act_mgmt_dev_plug_in)
                          data_field_string_utf8 None) (\<lambda>p.
           Option.bind (set_data_by_utf8 (sv_to_mcs env) s_device_path False p) (\<lambda>p.
             map_option (\<lambda>v. broadcast_by_ip4 invalid_session_number v d) (to_json (sv_dump env) p))))"

definition send_notice :: "svr_env \<Rightarrow> plug_notice \<Rightarrow> daemon \<Rightarrow> daemon option" where
  "send_notice env n d =
     (case n of
        notice_out session w s \<Rightarrow> send_data_to_client_by_ip4_device_plug_out env session w s d
      | notice_in s \<Rightarrow> broadcast_by_ip4_device_plug_in env s d)"

fun send_notices :: "svr_env \<Rightarrow> plug_notice list \<Rightarrow> daemon \<Rightarrow> daemon option" where
  "send_notices env [] d = Some d"
| "send_notices env (n # ns) d = Option.bind (send_notice env n d) (send_notices env ns)"

definition dev_pluginout :: "svr_env \<Rightarrow> wstring list \<Rightarrow> wstring list \<Rightarrow> daemon \<Rightarrow> daemon option" where
  "dev_pluginout env inserted removed d =
     (case cb_dev_pluginout inserted removed (dm_ctl d) of
        (ns, s) \<Rightarrow> map_option (\<lambda>d'. on_ctl d' s) (send_notices env ns d))"

section \<open>The workers\<close>

definition main_round :: "svr_env \<Rightarrow> daemon \<Rightarrow> daemon option" where
  "main_round env d =
     (case cs_main (dm_ctl d) of
        Some (p # q) \<Rightarrow> main_execute env p (on_ctl d ((dm_ctl d)\<lparr>cs_main := Some q\<rparr>))
      | _ \<Rightarrow> Some d)"

definition kernel_round :: "svr_env \<Rightarrow> u32 \<Rightarrow> daemon \<Rightarrow> daemon option" where
  "kernel_round env session d =
     (case map_of (cs_kernels (dm_ctl d)) session of
        Some (p # q) \<Rightarrow>
          kernel_execute env p (on_ctl d ((dm_ctl d)\<lparr>cs_kernels := map_put session q (cs_kernels (dm_ctl d))\<rparr>))
      | _ \<Rightarrow> Some d)"

text \<open>The worker of a device takes the front of its queue and answers later.\<close>

definition device_takes :: "u16 \<Rightarrow> daemon \<Rightarrow> daemon" where
  "device_takes w d =
     (case map_of (cs_devices (dm_ctl d)) w of
        None \<Rightarrow> d
      | Some e \<Rightarrow> on_ctl d ((dm_ctl d)\<lparr>cs_devices := map_put w (e\<lparr>de_queue := tl (de_queue e)\<rparr>) (cs_devices (dm_ctl d))\<rparr>))"

text \<open>The start: the devices that are present get their workers.\<close>

definition daemon_start :: "wstring list \<Rightarrow> file_store \<Rightarrow> daemon" where
  "daemon_start devices fs =
     \<lparr>dm_ctl = fold (\<lambda>s_path s. snd (create_new_dev_ctl s_path s)) devices (create_main_ctl_and_set_callack ctl_svr_ini),
      dm_sessions = [], dm_files = fs, dm_params = [], dm_sent = []\<rparr>"

inductive daemon_steps :: "svr_env \<Rightarrow> daemon \<Rightarrow> bool" for env where
  d_start: "daemon_steps env (daemon_start devices fs)"
| d_accept: "daemon_steps env d \<Longrightarrow> session \<noteq> invalid_session_number \<Longrightarrow> map_of (dm_sessions d) session = None
    \<Longrightarrow> cb_svr_accept env session d = Some d' \<Longrightarrow> daemon_steps env d'"
| d_close: "daemon_steps env d \<Longrightarrow> cb_svr_close env session d = Some d' \<Longrightarrow> daemon_steps env d'"
| d_read: "daemon_steps env d \<Longrightarrow> map_of (dm_sessions d) session \<noteq> None \<Longrightarrow> cb_svr_read env session v d = Some d'
    \<Longrightarrow> daemon_steps env d'"
| d_write: "daemon_steps env d \<Longrightarrow> cb_svr_write env session v d = Some d' \<Longrightarrow> daemon_steps env d'"
| d_plug: "daemon_steps env d \<Longrightarrow> dev_pluginout env inserted removed d = Some d' \<Longrightarrow> daemon_steps env d'"
| d_main: "daemon_steps env d \<Longrightarrow> main_round env d = Some d' \<Longrightarrow> daemon_steps env d'"
| d_kernel: "daemon_steps env d \<Longrightarrow> kernel_round env session d = Some d' \<Longrightarrow> daemon_steps env d'"
| d_device: "daemon_steps env d \<Longrightarrow> daemon_steps env (device_takes w d)"

end
