(* ===== verification/PacketHeader.thy ===== *)
theory PacketHeader
  imports IoText
begin

text \<open>
  The header of a packet when its data field is written: nothing but the size changes. What is left of a header
  without the size is the identity of a packet; every response keeps that of its request, but for the command.
\<close>

definition rest_of :: "bytes \<Rightarrow> type_packect option" where
  "rest_of v = map_option (\<lambda>h. h\<lparr>n_data := 0\<rparr>) (packet_view v)"

text \<open>The header of a packet without the size of its data.\<close>

definition identity :: "cio_packet \<Rightarrow> type_packect option" where
  "identity p = rest_of (m_v_packet p)"

lemma packet_view_front:
  assumes "17 \<le> length v" "take 17 v' = take 17 v"
  shows "packet_view v' = packet_view v"
proof -
  have l: "17 \<le> length v'" using assms by (metis length_take min.absorb2 min.cobounded1)
  have n: "v' ! i = v ! i" if "i < 17" for i using assms(2) that by (metis nth_take)
  have "subrange w k 4 = take 4 (drop k (take 17 w))" if "k + 4 \<le> 17" for w :: bytes and k
    using that by (simp add: subrange_def drop_take min_absorb1)
  then have "subrange v' k 4 = subrange v k 4" if "k + 4 \<le> 17" for k using that assms(2) by simp
  then show ?thesis using assms(1) l by (simp add: packet_view_def n)
qed

lemma rest_of_front: "rest_of v = Some h \<Longrightarrow> take 17 v' = take 17 v \<Longrightarrow> rest_of v' = Some h"
proof -
  assume r: "rest_of v = Some h" and t: "take 17 v' = take 17 v"
  from r have "17 \<le> length v" by (simp add: rest_of_def packet_view_def split: if_splits)
  from packet_view_front [OF this t] r show ?thesis by (simp add: rest_of_def)
qed

lemma rest_of_store: "rest_of (packet_store (h\<lparr>n_data := n\<rparr>) v) = Some (h\<lparr>n_data := 0\<rparr>)"
  by (simp add: rest_of_def)

lemma rest_of_copy: "copy_btb v off n src m = Some v' \<Longrightarrow> 17 \<le> off \<Longrightarrow> rest_of v = Some h \<Longrightarrow> rest_of v' = Some h"
  by (erule rest_of_front) (auto simp: copy_btb_def overlay_def split: if_splits)

lemma rest_of_null: "put_null off v = Some v' \<Longrightarrow> 17 \<le> off \<Longrightarrow> rest_of v = Some h \<Longrightarrow> rest_of v' = Some h"
  by (erule rest_of_front) (auto simp: put_null_def split: if_splits)

lemma rest_of_nulls:
  assumes "Option.bind (put_null i v) (put_null j) = Some v'" "17 \<le> i" "17 \<le> j" "rest_of v = Some h"
  shows "rest_of v' = Some h"
proof -
  obtain w where w: "put_null i v = Some w" "put_null j w = Some v'" using assms(1) by (auto simp: bind_eq_Some_conv)
  from rest_of_null [OF w(2) assms(3) rest_of_null [OF w(1) assms(2,4)]] show ?thesis .
qed

lemma bind_packet_identity: "bind_packet r p = Some p' \<Longrightarrow> (\<And>v. r = Some v \<Longrightarrow> rest_of v = i) \<Longrightarrow> identity p' = i"
  by (auto simp: bind_packet_def identity_def)

lemma set_data_field_identity:
  assumes "set_data_field v_data b p = Some p'"
  shows "identity p' = identity p \<and> identity p \<noteq> None"
proof -
  let ?v = "m_v_packet p" let ?n = "length v_data"
  obtain h where h: "packet_view ?v = Some h"
    using assms by (cases "packet_view ?v") (simp_all add: set_data_field_def Let_def)
  have i: "identity p = Some (h\<lparr>n_data := 0\<rparr>)" by (simp add: identity_def rest_of_def h)
  note set = assms [unfolded set_data_field_def Let_def h option.case]
  have "identity p' = Some (h\<lparr>n_data := 0\<rparr>)"
  proof (cases "v_data = []")
    case True
    show ?thesis
    proof (cases b)
      case True
      then show ?thesis using set \<open>v_data = []\<close> i by simp
    next
      case False
      then show ?thesis using set \<open>v_data = []\<close> by (auto simp: identity_def rest_of_store)
    qed
  next
    case ne: False
    consider (a) "b \<and> n_data h > 0" "m_type_data_field p = data_field_binary"
      | (b) "b \<and> n_data h > 0" "m_type_data_field p \<noteq> data_field_binary"
      | (c) "\<not> (b \<and> n_data h > 0)" "m_type_data_field p = data_field_binary"
      | (d) "\<not> (b \<and> n_data h > 0)" "m_type_data_field p \<noteq> data_field_binary" by blast
    then show ?thesis
    proof cases
      case a
      note s = set [unfolded if_not_P [OF ne] if_P [OF a(1)] if_P [OF a(2)]]
      show ?thesis by (rule bind_packet_identity [OF s]) (auto simp: rest_of_store)
    next
      case b
      note s = set [unfolded if_not_P [OF ne] if_P [OF b(1)] if_not_P [OF b(2)]]
      show ?thesis by (rule bind_packet_identity [OF s])
          (auto simp: bind_eq_Some_conv intro!: rest_of_null [rotated 2] rest_of_store elim!: rest_of_null)
    next
      case c
      note s = set [unfolded if_not_P [OF ne] if_not_P [OF c(1)] if_P [OF c(2)]]
      show ?thesis by (rule bind_packet_identity [OF s]) (erule rest_of_copy [OF _ order.refl rest_of_store])
    next
      case d
      note s = set [unfolded if_not_P [OF ne] if_not_P [OF d(1)] if_not_P [OF d(2)]]
      show ?thesis
      proof (rule bind_packet_identity [OF s])
        fix v
        assume "Option.bind (copy_btb (packet_store (h\<lparr>n_data := as_u32 ?n + 2\<rparr>) (resize_to (17 + ?n + 2) ?v))
                  17 (as_u32 ?n + 2) v_data (as_u32 ?n))
                (\<lambda>v. Option.bind (put_null (17 + ?n) v) (put_null (17 + ?n + 1))) = Some v"
        then obtain w where w: "copy_btb (packet_store (h\<lparr>n_data := as_u32 ?n + 2\<rparr>) (resize_to (17 + ?n + 2) ?v))
                  17 (as_u32 ?n + 2) v_data (as_u32 ?n) = Some w"
            "Option.bind (put_null (17 + ?n) w) (put_null (17 + ?n + 1)) = Some v"
          by (auto simp only: bind_eq_Some_conv)
        show "rest_of v = Some (h\<lparr>n_data := 0\<rparr>)"
          by (rule rest_of_nulls [OF w(2) _ _ rest_of_copy [OF w(1) _ rest_of_store]]) simp_all
      qed
    qed
  qed
  then show ?thesis using i by simp
qed


lemma set_data_by_utf8_identity: "set_data_by_utf8 to_mcs s b p = Some p' \<Longrightarrow> identity p' = identity p"
proof -
  assume a: "set_data_by_utf8 to_mcs s b p = Some p'"
  have "identity (p\<lparr>m_type_data_field := data_field_string_utf8\<rparr>) = identity p" by (simp add: identity_def)
  then show ?thesis using a set_data_field_identity by (auto simp: set_data_by_utf8_def Let_def split: if_splits)
qed

lemma append_all_identity: "append_all to_mcs l p = Some p' \<Longrightarrow> identity p' = identity p"
  by (induction l arbitrary: p) (auto simp: bind_eq_Some_conv dest!: set_data_by_utf8_identity)

lemma set_data_by_list_identity: "set_data_by_list to_mcs l p = Some p' \<Longrightarrow> identity p' = identity p"
  by (cases l) (auto simp: set_data_by_list_def bind_eq_Some_conv dest!: set_data_by_utf8_identity append_all_identity)

lemma set_data_results_identity:
  "set_data_by_set to_mcs l p = Some p' \<Longrightarrow> identity p' = identity p"
  "set_data_sucesss to_mcs p = Some p' \<Longrightarrow> identity p' = identity p"
  "set_data_error to_mcs s p = Some p' \<Longrightarrow> identity p' = identity p"
  by (auto simp: set_data_by_set_def set_data_sucesss_def set_data_error_def set_data_reason_def bind_eq_Some_conv
      split: if_splits dest!: set_data_by_list_identity set_data_by_utf8_identity)

lemma set_cmd_identity: "set_cmd c p = Some p' \<Longrightarrow> identity p' = map_option (c_cmd_update (\<lambda>_. c)) (identity p) \<and> identity p \<noteq> None"
proof -
  assume "set_cmd c p = Some p'"
  then obtain h where "packet_view (m_v_packet p) = Some h"
      "m_v_packet p' = packet_store (h\<lparr>c_cmd := c\<rparr>) (m_v_packet p)"
    by (auto simp: set_cmd_def write_header_def)
  then show ?thesis by (simp add: identity_def rest_of_def)
qed

lemmas identities = set_data_by_utf8_identity append_all_identity set_data_by_list_identity set_data_results_identity
  set_cmd_identity

lemma identity_header: "header p = Some h \<Longrightarrow> identity p = Some (h\<lparr>n_data := 0\<rparr>)"
  by (simp add: identity_def rest_of_def)

lemma identity_Some:
  assumes "identity p = Some h"
  shows "\<exists>n. header p = Some (h\<lparr>n_data := n\<rparr>)"
proof -
  obtain h' where h': "header p = Some h'" "h = h'\<lparr>n_data := 0\<rparr>" using assms by (auto simp: identity_def rest_of_def)
  then have "header p = Some (h\<lparr>n_data := n_data h'\<rparr>)" by simp
  then show ?thesis by blast
qed

lemma valid_header: "is_valid p \<Longrightarrow> \<exists>h. header p = Some h \<and> codes_ok h"
  by (auto simp: is_valid_def packet_is_valid_def codes_ok_def split: option.splits)

lemma codes_ok_size [simp]: "codes_ok (h\<lparr>n_data := n\<rparr>) = codes_ok h"
  by (simp add: codes_ok_def)

lemma build_empty:
  assumes "codes_ok h" "n_data h = 0"
  shows "build h t None = Some (cio_packet_of t (header_bytes h))" "header (cio_packet_of t (header_bytes h)) = Some h"
proof -
  have "h\<lparr>n_data := 0\<rparr> = h" using assms(2) by (cases h) simp
  then have e: "packet_bytes h [] = header_bytes h" by (simp add: packet_bytes_def)
  have v: "packet_is_valid (header_bytes h)" using packet_is_valid_bytes [of "[]" h] assms(1) by (simp add: e)
  then show "build h t None = Some (cio_packet_of t (header_bytes h))" using assms(2) by (simp add: build_def packet_build_def)
  show "header (cio_packet_of t (header_bytes h)) = Some h"
    using v packet_view_header [of h "[]"] by (simp add: cio_packet_of_def)
qed

lemma build_empty_identity:
  assumes "codes_ok h" "n_data h = 0" "build h t None = Some p"
  shows "identity p = Some h"
proof -
  have z: "h\<lparr>n_data := 0\<rparr> = h" using assms(2) by (cases h) simp
  have "p = cio_packet_of t (header_bytes h)" using assms(3) build_empty(1) [OF assms(1,2), of t] by simp
  then show ?thesis by (simp only: identity_header [OF build_empty(2) [OF assms(1,2)]] z)
qed

text \<open>The error response to a request carries everything of its header; that to a text that is no request is for nobody.\<close>

lemma error_response_identity:
  assumes "build_common_error_response to_mcs r s = Some p" "\<And>q. r = Some q \<Longrightarrow> is_valid q"
  shows "identity p = Some (case r of None \<Rightarrow> echo_header\<lparr>c_act := act_mgmt_unknown, c_cmd := cmd_response\<rparr>
    | Some q \<Rightarrow> (the (header q))\<lparr>c_cmd := cmd_response, n_data := 0\<rparr>)"
proof -
  let ?h = "case r of None \<Rightarrow> echo_header\<lparr>c_act := act_mgmt_unknown\<rparr> | Some q \<Rightarrow> the (header q)"
  have h: "(case r of None \<Rightarrow> Some (echo_header\<lparr>c_act := act_mgmt_unknown\<rparr>) | Some p \<Rightarrow> header p) = Some ?h" "codes_ok ?h"
    using valid_header [OF assms(2)]
    by (auto split: option.splits simp: codes_ok_def echo_header_def valid_cmds_def valid_owners_def manager_actions_def)
  obtain q where q: "build (?h\<lparr>c_cmd := cmd_response, n_data := 0\<rparr>) data_field_string_utf8 None = Some q"
      "set_data_error to_mcs s q = Some p"
    using assms(1) h(1) by (auto simp: build_common_error_response_def bind_eq_Some_conv)
  have "codes_ok (?h\<lparr>c_cmd := cmd_response, n_data := 0\<rparr>)" using h(2) by (simp add: codes_ok_def valid_cmds_def)
  from build_empty_identity [OF this _ q(1)] identities(6) [OF q(2)] show ?thesis
    by (auto split: option.splits simp: echo_header_def)
qed

end
