(* ===== verification/DaemonSafe.thy ===== *)
theory DaemonSafe
  imports Daemon PacketHeader
begin

text \<open>
  What holds in every state that the daemon reaches, and what a client can cause: the workers and names belong to
  the open sessions, and a text from one session becomes at most one request, of that session.
\<close>

section \<open>What the pushes keep\<close>

definition kernel_ok :: "ctl_svr \<Rightarrow> bool" where
  "kernel_ok s = (\<forall>x q. map_of (cs_kernels s) x = Some q \<longrightarrow> (\<forall>p\<in>set q. n_session (p_header p) = x))"

text \<open>Only queues differ.\<close>

definition ctl_frame :: "ctl_svr \<Rightarrow> ctl_svr \<Rightarrow> bool" where
  "ctl_frame s s' =
     (cs_names s' = cs_names s \<and> (\<forall>x. map_of (cs_kernels s') x = None \<longleftrightarrow> map_of (cs_kernels s) x = None)
      \<and> (cs_main s' = None \<longleftrightarrow> cs_main s = None) \<and> (kernel_ok s \<longrightarrow> kernel_ok s'))"

lemma ctl_frame_refl: "ctl_frame s s"
  by (simp add: ctl_frame_def)

lemma ctl_frame_trans: "ctl_frame s s' \<Longrightarrow> ctl_frame s' s'' \<Longrightarrow> ctl_frame s s''"
  by (simp add: ctl_frame_def)

lemma pushes_frame:
  "ctl_frame s (snd (push_back_request_to_kernel_ctl p s))"
  "ctl_frame s (snd (push_back_request_to_main_ctl p s))"
  "ctl_frame s (snd (push_to_dev_ctl w p s))"
  by (auto simp: ctl_frame_def kernel_ok_def push_back_request_to_kernel_ctl_def push_back_request_to_main_ctl_def
      push_to_dev_ctl_def map_of_map_put split: option.splits if_splits)

lemma push_by_path_frame:
  "push_back_request_to_dev_ctl_by_path p s_path s = Some r \<Longrightarrow> ctl_frame s (snd r)"
  by (auto simp: push_back_request_to_dev_ctl_by_path_def pushes_frame ctl_frame_refl split: option.splits)

lemma push_frame:
  assumes "push_request_to_worker_ctl to_wide p s = Some (r, s')"
  shows "ctl_frame s s'"
  using assms push_by_path_frame [of p _ s]
    pushes_frame(1,2) [of s p] pushes_frame(3) [of s "ucast (dw_device_index (p_header p))" p] ctl_frame_refl [of s]
  by (auto simp: push_request_to_worker_ctl_def push_back_request_to_dev_ctl_def Let_def
      split: if_splits option.splits prod.splits)

lemma close_device_frame: "close_device_of_session to_wide session s w = Some s' \<Longrightarrow> ctl_frame s s'"
  by (auto simp: close_device_of_session_def bind_eq_Some_conv ctl_frame_refl split: if_splits
      dest!: push_frame intro: ctl_frame_trans)

lemma close_devices_frame: "close_devices to_wide session v s = Some s' \<Longrightarrow> ctl_frame s s'"
  by (induction v arbitrary: s)
    (auto simp: bind_eq_Some_conv ctl_frame_refl dest!: close_device_frame intro: ctl_frame_trans)

lemma close_all_frame:
  "close_all_device_of_session to_wide session s = Some (b, s') \<Longrightarrow> ctl_frame s s'"
proof -
  have "ctl_frame s (erase_device_index_set_of_session session s)"
    by (simp add: ctl_frame_def kernel_ok_def erase_device_index_set_of_session_def)
  then show "close_all_device_of_session to_wide session s = Some (b, s') \<Longrightarrow> ctl_frame s s'"
    by (auto simp: close_all_device_of_session_def Let_def ctl_frame_refl split: if_splits
        dest!: close_devices_frame intro: ctl_frame_trans)
qed

section \<open>The invariant\<close>

text \<open>Open sessions have a kernel worker, and only they have one or a name; the queue of a kernel worker holds requests
  of its session only; the management worker runs.\<close>

definition daemon_ok :: "daemon \<Rightarrow> bool" where
  "daemon_ok d =
     (ctl_ok (dm_ctl d) \<and> map_ok (dm_sessions d) \<and> cs_main (dm_ctl d) \<noteq> None \<and> kernel_ok (dm_ctl d)
      \<and> map_of (dm_sessions d) invalid_session_number = None
      \<and> (\<forall>x. map_of (cs_kernels (dm_ctl d)) x = None \<longleftrightarrow> map_of (dm_sessions d) x = None)
      \<and> (\<forall>x. map_of (dm_sessions d) x = None \<longrightarrow> map_of (cs_names (dm_ctl d)) x = None))"

text \<open>What is kept when the control changes its queues only.\<close>

lemma daemon_ok_frame:
  assumes "daemon_ok d" "ctl_ok (dm_ctl d')" "ctl_frame (dm_ctl d) (dm_ctl d')" "map_ok (dm_sessions d')"
    "\<And>x. map_of (dm_sessions d') x = None \<longleftrightarrow> map_of (dm_sessions d) x = None"
  shows "daemon_ok d'"
  using assms by (simp add: daemon_ok_def ctl_frame_def)

lemma daemon_okD:
  assumes "daemon_ok d"
  shows "ctl_ok (dm_ctl d)" "map_ok (dm_sessions d)" "cs_main (dm_ctl d) \<noteq> None" "kernel_ok (dm_ctl d)"
    "map_of (dm_sessions d) invalid_session_number = None"
    "\<And>x. map_of (cs_kernels (dm_ctl d)) x = None \<longleftrightarrow> map_of (dm_sessions d) x = None"
    "\<And>x. map_of (dm_sessions d) x = None \<Longrightarrow> map_of (cs_names (dm_ctl d)) x = None"
  using assms by (simp_all add: daemon_ok_def)

lemma daemon_okI:
  assumes "ctl_ok (dm_ctl d)" "map_ok (dm_sessions d)" "cs_main (dm_ctl d) \<noteq> None" "kernel_ok (dm_ctl d)"
    "map_of (dm_sessions d) invalid_session_number = None"
    "\<And>x. map_of (cs_kernels (dm_ctl d)) x = None \<longleftrightarrow> map_of (dm_sessions d) x = None"
    "\<And>x. map_of (dm_sessions d) x = None \<Longrightarrow> map_of (cs_names (dm_ctl d)) x = None"
  shows "daemon_ok d"
  unfolding daemon_ok_def by (intro conjI allI impI assms)

lemma daemon_start_ok: "daemon_ok (daemon_start devices fs)"
proof -
  let ?f = "fold (\<lambda>s_path s. snd (create_new_dev_ctl s_path s)) devices"
  have c: "ctl_ok (?f (create_main_ctl_and_set_callack ctl_svr_ini))" by (rule fold_create_ok [OF ctl_ok_ini(2) [OF ctl_ok_ini(1)]])
  have f: "cs_main (?f s) = cs_main s \<and> cs_kernels (?f s) = cs_kernels s \<and> cs_names (?f s) = cs_names s" for s
    by (induction devices arbitrary: s) (simp_all add: create_new_dev_ctl_def Let_def)
  show ?thesis
    by (simp add: daemon_ok_def daemon_start_def kernel_ok_def c f) (simp add: create_main_ctl_and_set_callack_def ctl_svr_ini_def)
qed

lemma create_kernel_same:
  "kernel_ok s \<Longrightarrow> kernel_ok (create_kernel_ctl session s)" "cs_main (create_kernel_ctl session s) = cs_main s"
  "cs_names (create_kernel_ctl session s) = cs_names s"
  "map_of (cs_kernels (create_kernel_ctl session s)) x = None \<longleftrightarrow> map_of (cs_kernels s) x = None \<and> x \<noteq> session"
  by (auto simp: kernel_ok_def create_kernel_ctl_def map_of_map_put split: if_splits)

lemma accept_ok:
  assumes "daemon_ok d" "session \<noteq> invalid_session_number" "cb_svr_accept env session d = Some d'"
  shows "daemon_ok d'"
proof -
  let ?s = "create_kernel_ctl session (dm_ctl d)"
  obtain p r s where s: "push_request_to_worker_ctl (sv_to_wide env) p ?s = Some (r, s)"
      "d' = d\<lparr>dm_ctl := s, dm_sessions := map_put session (new_session env session) (dm_sessions d)\<rparr>"
    using assms(3) by (auto simp: cb_svr_accept_def bind_eq_Some_conv)
  note d = daemon_okD [OF assms(1)]
  have "ctl_ok s" by (rule push_request_ok [OF kernels_ctl_ok(1) [OF d(1)] s(1)])
  from this push_frame [OF s(1)] have "ctl_ok s" "kernel_ok s" "cs_names s = cs_names (dm_ctl d)" "cs_main s \<noteq> None"
      "\<And>x. map_of (cs_kernels s) x = None \<longleftrightarrow> map_of (dm_sessions d) x = None \<and> x \<noteq> session"
    unfolding ctl_frame_def create_kernel_same(2-4) d(6) using d(3) create_kernel_same(1) [OF d(4)] by blast+
  note p = this
  show ?thesis
  proof (rule daemon_okI)
    show "map_ok (dm_sessions d')" by (simp add: s(2) map_put_ok d(2))
    show "map_of (dm_sessions d') invalid_session_number = None" using assms(2) d(5) by (simp add: s(2) map_of_map_put)
    show "map_of (cs_kernels (dm_ctl d')) x = None \<longleftrightarrow> map_of (dm_sessions d') x = None" for x
      by (simp add: s(2) p(5) map_of_map_put)
    show "map_of (cs_names (dm_ctl d')) x = None" if "map_of (dm_sessions d') x = None" for x
      using that d(7) [of x] by (simp add: s(2) p(3) map_of_map_put split: if_splits)
  qed (simp_all add: s(2) p(1,2,4))
qed

lemma forget_session_same:
  "dm_ctl (forget_session env session d) = dm_ctl d"
  "map_ok (dm_sessions d) \<Longrightarrow> map_ok (dm_sessions (forget_session env session d))"
  "map_of (dm_sessions (forget_session env session d)) x = (if x = session then None else map_of (dm_sessions d) x)"
  by (auto simp: forget_session_def map_erase_ok map_of_map_erase split: option.splits)

lemma close_ok:
  assumes "daemon_ok d" "cb_svr_close env session d = Some d'"
  shows "daemon_ok d'"
proof -
  let ?d = "forget_session env session d"
  obtain b s where s: "close_all_device_of_session (sv_to_wide env) session (dm_ctl d) = Some (b, s)"
      "d' = ?d\<lparr>dm_ctl := remove_kernel_ctl session (remove_session_name session s)\<rparr>"
    using assms(2) by (auto simp: cb_svr_close_def Let_def forget_session_same)
  let ?s = "remove_kernel_ctl session (remove_session_name session s)"
  note d = daemon_okD [OF assms(1)]
  have c: "ctl_ok ?s" by (rule kernels_ctl_ok(2) [OF names_ctl_ok(2) [OF close_all_ok [OF d(1) s(1)]]])
  from close_all_frame [OF s(1)] have f: "kernel_ok s" "cs_names s = cs_names (dm_ctl d)" "cs_main s \<noteq> None"
      "\<And>x. map_of (cs_kernels s) x = None \<longleftrightarrow> map_of (dm_sessions d) x = None"
    unfolding ctl_frame_def d(6) using d(3,4) by blast+
  have k: "kernel_ok ?s" "cs_main ?s \<noteq> None"
    using f(1,3) by (auto simp: kernel_ok_def remove_kernel_ctl_def remove_session_name_def map_of_map_erase split: if_splits)
  show ?thesis
  proof (rule daemon_okI)
    show "map_of (dm_sessions d') invalid_session_number = None" using d(5) by (simp add: s(2) forget_session_same(3))
    show "map_of (cs_kernels (dm_ctl d')) x = None \<longleftrightarrow> map_of (dm_sessions d') x = None" for x
      using f(4) [of x] by (simp add: s(2) forget_session_same(3) remove_kernel_ctl_def remove_session_name_def map_of_map_erase)
    show "map_of (cs_names (dm_ctl d')) x = None" if "map_of (dm_sessions d') x = None" for x
      using that d(7) [of x]
      by (simp add: s(2) forget_session_same(3) remove_kernel_ctl_def remove_session_name_def f(2) map_of_map_erase split: if_splits)
  qed (simp_all add: s(2) c k forget_session_same(2) [OF d(2)])
qed


text \<open>Sending changes what was sent and nothing else.\<close>

definition sent_only :: "daemon \<Rightarrow> daemon \<Rightarrow> bool" where
  "sent_only d d' = (dm_ctl d' = dm_ctl d \<and> dm_sessions d' = dm_sessions d \<and> dm_files d' = dm_files d
     \<and> dm_params d' = dm_params d)"

lemma sent_only_refl: "sent_only d d"
  by (simp add: sent_only_def)

lemma sent_only_trans: "sent_only d d' \<Longrightarrow> sent_only d' d'' \<Longrightarrow> sent_only d d''"
  by (simp add: sent_only_def)

lemma sends_only:
  "sent_only d (send_data_to_client_by_ip4 v session d)" "sent_only d (broadcast_by_ip4 n v d)"
  by (simp_all add: sent_only_def send_data_to_client_by_ip4_def broadcast_by_ip4_def)

lemma send_message_only: "send_message env n p d = Some d' \<Longrightarrow> sent_only d d'"
  by (auto simp: send_message_def sent_only_refl sends_only split: if_splits)

lemma send_responses_only:
  assumes "send_responses env request (response, d, other) = Some d'"
  shows "sent_only d d'"
proof (cases "c_cmd (p_header request) = cmd_self_request")
  case True
  then show ?thesis using assms by (simp add: send_responses_def sent_only_refl)
next
  case False
  then obtain v where "(case other of None \<Rightarrow> Some (send_data_to_client_by_ip4 v (n_session (p_header request)) d)
      | Some p \<Rightarrow> send_message env (n_session (p_header request)) p
          (send_data_to_client_by_ip4 v (n_session (p_header request)) d)) = Some d'"
    using assms by (auto simp: send_responses_def bind_eq_Some_conv Let_def)
  then show ?thesis
    using send_message_only sent_only_trans sends_only(1)
    by (cases other) (simp_all, metis+)
qed

lemma send_notice_only: "send_notice env n d = Some d' \<Longrightarrow> sent_only d d'"
  by (cases n) (auto simp: send_notice_def send_data_to_client_by_ip4_device_plug_out_def sent_only_refl sends_only
      broadcast_by_ip4_device_plug_in_def bind_eq_Some_conv split: if_splits)

lemma send_notices_only: "send_notices env ns d = Some d' \<Longrightarrow> sent_only d d'"
proof (induction ns arbitrary: d)
  case (Cons n ns)
  then obtain d1 where "send_notice env n d = Some d1" "send_notices env ns d1 = Some d'"
    by (auto simp: bind_eq_Some_conv)
  with Cons.IH [of d1] send_notice_only [of env n d d1] show ?case by (blast intro: sent_only_trans)
qed (simp add: sent_only_refl)

lemma sent_only_ok: "daemon_ok d \<Longrightarrow> sent_only d d' \<Longrightarrow> daemon_ok d'"
  by (simp add: daemon_ok_def sent_only_def)

lemma on_ctl_ok: "daemon_ok d \<Longrightarrow> ctl_ok s \<Longrightarrow> ctl_frame (dm_ctl d) s \<Longrightarrow> daemon_ok (on_ctl d s)"
  by (rule daemon_ok_frame [of d]) (simp_all add: daemon_okD)

section \<open>Every step keeps the invariant\<close>

lemma push_ok:
  assumes "daemon_ok d" "push_request_to_worker_ctl to_wide p (dm_ctl d) = Some (r, s)"
  shows "daemon_ok (on_ctl d s)"
  by (rule on_ctl_ok [OF assms(1) push_request_ok [OF daemon_okD(1) [OF assms(1)] assms(2)] push_frame [OF assms(2)]])

lemma read_error_ok: "daemon_ok d \<Longrightarrow> read_error env p n d = Some d' \<Longrightarrow> daemon_ok d'"
  by (auto simp: read_error_def bind_eq_Some_conv dest: push_ok)

lemma read_ok:
  assumes "daemon_ok d" "cb_svr_read env session v d = Some d'"
  shows "daemon_ok d'"
proof (cases "fst (build_from_json (sv_parse env) v)")
  case None
  then show ?thesis using assms by (simp add: cb_svr_read_def read_error_ok)
next
  case (Some p)
  show ?thesis
  proof (cases "m_v_packet p = [] \<or> n_session (p_header p) \<noteq> session \<or> c_cmd (p_header p) \<noteq> cmd_request")
    case True
    then show ?thesis using assms Some read_error_ok [OF assms(1), of env "Some p"]
      by (auto simp: cb_svr_read_def split: if_splits)
  next
    case False
    then obtain r s where r: "push_request_to_worker_ctl (sv_to_wide env) p (dm_ctl d) = Some (r, s)"
        "(case r of None \<Rightarrow> Some (on_ctl d s) | Some n \<Rightarrow> read_error env (Some p) n (on_ctl d s)) = Some d'"
      using assms(2) Some by (auto simp: cb_svr_read_def bind_eq_Some_conv)
    then show ?thesis using push_ok [OF assms(1) r(1)] by (cases r) (auto dest: read_error_ok)
  qed
qed

lemma sets_frame:
  "ctl_frame s (insert_device_index_to_device_index_set_of_session session w s)"
  "ctl_frame s (erase_device_index_from_device_index_set_of_session session w s)"
  by (simp_all add: ctl_frame_def kernel_ok_def insert_device_index_to_device_index_set_of_session_def
      erase_device_index_from_device_index_set_of_session_def split: option.split)

lemma write_result:
  assumes "cb_svr_write env session v d = Some d'"
  shows "\<exists>w. d' = d \<or> d' = on_ctl d (insert_device_index_to_device_index_set_of_session session w (dm_ctl d))
    \<or> d' = on_ctl d (erase_device_index_from_device_index_set_of_session session w (dm_ctl d))"
  using assms by (auto simp: cb_svr_write_def Let_def bind_eq_Some_conv split: option.splits if_splits)

lemma write_ok: "daemon_ok d \<Longrightarrow> cb_svr_write env session v d = Some d' \<Longrightarrow> daemon_ok d'"
  using write_result [of env session v d d'] on_ctl_ok [of d] sets_frame sets_ctl_ok daemon_okD(1) by metis

lemma plug_ok:
  assumes "daemon_ok d" "dev_pluginout env inserted removed d = Some d'"
  shows "daemon_ok d'"
proof -
  let ?s = "snd (cb_dev_pluginout inserted removed (dm_ctl d))"
  obtain d1 where d1: "sent_only d d1" "d' = on_ctl d1 ?s"
    using assms(2) by (auto simp: dev_pluginout_def dest: send_notices_only split: prod.splits)
  have "cs_main (fold (\<lambda>s_path s. snd (create_new_dev_ctl s_path s)) l s) = cs_main s
      \<and> cs_kernels (fold (\<lambda>s_path s. snd (create_new_dev_ctl s_path s)) l s) = cs_kernels s
      \<and> cs_names (fold (\<lambda>s_path s. snd (create_new_dev_ctl s_path s)) l s) = cs_names s" for l s
    by (induction l arbitrary: s) (simp_all add: create_new_dev_ctl_def Let_def)
  then have f: "ctl_frame (dm_ctl d) ?s" by (simp add: cb_dev_pluginout_def ctl_frame_def kernel_ok_def)
  have "dm_ctl d1 = dm_ctl d" using d1(1) by (simp add: sent_only_def)
  then show ?thesis
    unfolding d1(2) using on_ctl_ok [OF sent_only_ok [OF assms(1) d1(1)] pluginout_ok [OF daemon_okD(1) [OF assms(1)]]] f
    by simp
qed


text \<open>What a management request changes: the files of its session, its name, the update of the kernel.\<close>

lemma file_operation_result:
  assumes "execute_file_operation env p d = Some (r, d')"
  shows "d' = d \<or> (\<exists>sf fs. map_of (dm_sessions d) (n_session (p_header p)) \<noteq> None
      \<and> d' = d\<lparr>dm_sessions := map_put (n_session (p_header p)) sf (dm_sessions d), dm_files := fs\<rparr>)"
  using assms by (auto simp: execute_file_operation_def Let_def bind_eq_Some_conv split: option.splits)

lemma advance_command_result:
  assumes "advance_command env session p l s = Some (r, s', other)"
  shows "s' = s \<or> (\<exists>n. s' = snd (set_session_name session n s))"
proof -
  have "s' = snd (set_session_name session n s)"
    if "(case set_session_name session n s of (b, s') \<Rightarrow> (if b then op_success else op_error, s', None)) = (r, s', other)" for n
    using that by (simp split: prod.splits)
  then show ?thesis
    using assms by (simp add: advance_command_def Let_def split: if_splits) blast+
qed

lemma advance_result:
  assumes "execute_advance_operation env p d = Some (r, d', other)"
  shows "d' = d \<or> (\<exists>n. map_of (dm_sessions d) (n_session (p_header p)) \<noteq> None
      \<and> d' = on_ctl d (snd (set_session_name (n_session (p_header p)) n (dm_ctl d))))"
proof (cases "map_of (dm_sessions d) (n_session (p_header p)) = None \<or> m_type_data_field p = data_field_binary")
  case True
  then have "(if True then map_option (\<lambda>p. (p, d, None)) (op_response env op_error p) else None) = Some (r, d', other)"
    using assms unfolding execute_advance_operation_def Let_def by (metis (no_types, lifting))
  then show ?thesis by auto
next
  case False
  then obtain l r1 s1 where a: "advance_command env (n_session (p_header p)) p l (dm_ctl d) = Some (r1, s1, other)" "d' = on_ctl d s1"
    using assms by (auto simp: execute_advance_operation_def Let_def bind_eq_Some_conv)
  have "on_ctl d (dm_ctl d) = d" by simp
  then show ?thesis using advance_command_result [OF a(1)] False unfolding a(2) by metis
qed

lemma main_response_result:
  assumes "main_response env p d = Some (r, d', other)"
  shows "(\<exists>m. d' = d\<lparr>dm_params := m\<rparr>)
    \<or> (map_of (dm_sessions d) (n_session (p_header p)) \<noteq> None
       \<and> ((\<exists>sf fs. d' = d\<lparr>dm_sessions := map_put (n_session (p_header p)) sf (dm_sessions d), dm_files := fs\<rparr>)
          \<or> (\<exists>n. d' = on_ctl d (snd (set_session_name (n_session (p_header p)) n (dm_ctl d))))))"
proof -
  have d: "d = d\<lparr>dm_params := dm_params d\<rparr>" by simp
  from assms consider "d' = d" | (m) m where "d' = d\<lparr>dm_params := m\<rparr>" | (f) "execute_file_operation env p d = Some (r, d')"
      | (a) "execute_advance_operation env p d = Some (r, d', other)"
    unfolding main_response_def Let_def by (auto simp: bind_eq_Some_conv split: if_splits)
  then show ?thesis
    by cases (use d file_operation_result [of env p d r d'] advance_result [of env p d r d' other] in metis)+
qed

lemma set_session_name_same:
  "cs_kernels (snd (set_session_name session n s)) = cs_kernels s" "cs_main (snd (set_session_name session n s)) = cs_main s"
  "x \<noteq> session \<Longrightarrow> map_of (cs_names (snd (set_session_name session n s))) x = map_of (cs_names s) x"
  by (simp_all add: set_session_name_def map_of_map_put)

lemma main_response_ok:
  assumes "daemon_ok d" "main_response env p d = Some (r, d', other)"
  shows "daemon_ok d'"
proof -
  note d = daemon_okD [OF assms(1)]
  let ?x = "n_session (p_header p)"
  from main_response_result [OF assms(2)] consider
      (m) m where "d' = d\<lparr>dm_params := m\<rparr>"
    | (f) sf fs where "map_of (dm_sessions d) ?x \<noteq> None" "d' = d\<lparr>dm_sessions := map_put ?x sf (dm_sessions d), dm_files := fs\<rparr>"
    | (n) n where "map_of (dm_sessions d) ?x \<noteq> None" "d' = on_ctl d (snd (set_session_name ?x n (dm_ctl d)))"
    by blast
  then show ?thesis
  proof cases
    case m
    then show ?thesis using assms(1) by (simp add: daemon_ok_def)
  next
    case f
    show ?thesis
      by (rule daemon_ok_frame [OF assms(1)])
        (use f(1) in \<open>simp_all add: f(2) d(1,2) ctl_frame_refl map_put_ok map_of_map_put\<close>)
  next
    case n
    show ?thesis
    proof (rule daemon_okI)
      show "map_of (cs_names (dm_ctl d')) x = None" if "map_of (dm_sessions d') x = None" for x
        using that n(1) d(7) [of x] set_session_name_same(3) [of x ?x n "dm_ctl d"] by (cases "x = ?x") (simp_all add: n(2))
    qed (use d names_ctl_ok(1) [OF d(1), of ?x n] in \<open>simp_all add: n(2) set_session_name_same(1,2) kernel_ok_def\<close>)
  qed
qed

lemma pop_main_ok:
  assumes "daemon_ok d" "cs_main (dm_ctl d) = Some (p # q)"
  shows "daemon_ok (on_ctl d ((dm_ctl d)\<lparr>cs_main := Some q\<rparr>))"
  by (rule on_ctl_ok [OF assms(1)])
    (use daemon_okD(1) [OF assms(1)] assms(2) in \<open>simp_all add: ctl_ok_def ctl_frame_def kernel_ok_def\<close>)

lemma pop_kernel_ok:
  assumes "daemon_ok d" "map_of (cs_kernels (dm_ctl d)) x = Some (p # q)"
  shows "daemon_ok (on_ctl d ((dm_ctl d)\<lparr>cs_kernels := map_put x q (cs_kernels (dm_ctl d))\<rparr>))"
  by (rule on_ctl_ok [OF assms(1)])
    (use daemon_okD(1) [OF assms(1)] assms(2) in \<open>auto simp: ctl_ok_def ctl_frame_def kernel_ok_def map_put_ok map_of_map_put\<close>)

lemma main_round_ok:
  assumes "daemon_ok d" "main_round env d = Some d'"
  shows "daemon_ok d'"
proof (cases "\<exists>p q. cs_main (dm_ctl d) = Some (p # q)")
  case False
  then show ?thesis using assms by (auto simp: main_round_def split: option.splits list.splits)
next
  case True
  then obtain p q where q: "cs_main (dm_ctl d) = Some (p # q)" by blast
  let ?d = "on_ctl d ((dm_ctl d)\<lparr>cs_main := Some q\<rparr>)"
  obtain r d1 other where r: "main_response env p ?d = Some (r, d1, other)" "send_responses env p (r, d1, other) = Some d'"
    using assms(2) q by (auto simp: main_round_def main_execute_def bind_eq_Some_conv)
  show ?thesis
    by (rule sent_only_ok [OF main_response_ok [OF pop_main_ok [OF assms(1) q] r(1)] send_responses_only [OF r(2)]])
qed

lemma kernel_round_ok:
  assumes "daemon_ok d" "kernel_round env session d = Some d'"
  shows "daemon_ok d'"
proof (cases "\<exists>p q. map_of (cs_kernels (dm_ctl d)) session = Some (p # q)")
  case False
  then show ?thesis using assms by (auto simp: kernel_round_def split: option.splits list.splits)
next
  case True
  then obtain p q where q: "map_of (cs_kernels (dm_ctl d)) session = Some (p # q)" by blast
  let ?d = "on_ctl d ((dm_ctl d)\<lparr>cs_kernels := map_put session q (cs_kernels (dm_ctl d))\<rparr>)"
  obtain r where "send_responses env p (r, ?d, None) = Some d'"
    using assms(2) q by (auto simp: kernel_round_def kernel_execute_def Let_def bind_eq_Some_conv)
  from send_responses_only [OF this] show ?thesis by (rule sent_only_ok [OF pop_kernel_ok [OF assms(1) q]])
qed

lemma device_takes_ok:
  assumes "daemon_ok d"
  shows "daemon_ok (device_takes w d)"
proof (cases "map_of (cs_devices (dm_ctl d)) w")
  case None
  then show ?thesis using assms by (simp add: device_takes_def)
next
  case (Some e)
  have "entry_ok (w, e)"
    using daemon_okD(1) [OF assms] map_of_in_map [OF Some] by (auto simp: ctl_ok_def list_all_iff)
  then have "entry_ok (w, e\<lparr>de_queue := tl (de_queue e)\<rparr>)" by (cases "de_queue e") (simp_all add: entry_ok_def)
  then have "ctl_ok ((dm_ctl d)\<lparr>cs_devices := map_put w (e\<lparr>de_queue := tl (de_queue e)\<rparr>) (cs_devices (dm_ctl d))\<rparr>)"
    using daemon_okD(1) [OF assms] by (simp add: ctl_ok_def map_put_ok list_all_put)
  from on_ctl_ok [OF assms this] show ?thesis
    using Some by (simp add: device_takes_def ctl_frame_def kernel_ok_def)
qed

lemma daemon_invariant: "daemon_steps env d \<Longrightarrow> daemon_ok d"
proof (induction rule: daemon_steps.induct)
  case (d_accept d session d')
  then show ?case by - (rule accept_ok)
next
  case (d_close d session d')
  then show ?case by - (rule close_ok)
next
  case (d_read d session v d')
  then show ?case by - (rule read_ok)
next
  case (d_write d session v d')
  then show ?case by - (rule write_ok)
next
  case (d_plug d inserted removed d')
  then show ?case by - (rule plug_ok)
next
  case (d_main d d')
  then show ?case by - (rule main_round_ok)
next
  case (d_kernel d session d')
  then show ?case by - (rule kernel_round_ok)
qed (rule daemon_start_ok, rule device_takes_ok)


text \<open>C13. In every state that the daemon reaches, with any order of connections, texts, written responses, devices
  that come and go and work of the workers: the management worker runs; exactly the open sessions have a kernel
  worker, and no other session has a name; every request that waits for a kernel worker is of its session; every
  device has an index of its own that is not 0, and every request that waits for a device carries its index.\<close>

theorem daemon_stays_consistent: "daemon_steps env d \<Longrightarrow> daemon_ok d"
  by (rule daemon_invariant)

section \<open>What a client can cause\<close>

lemma json_valid: "fst (build_from_json parse v) = Some p \<Longrightarrow> is_valid p"
  by (auto simp: build_from_json_def build_json_def bind_eq_Some_conv cio_packet_of_valid split: sum.splits)

lemma p_header_of: "header p = Some h \<Longrightarrow> p_header p = h"
  by (simp add: p_header_def)

lemma identity_codes: "identity p = Some h \<Longrightarrow> c_cmd (p_header p) = c_cmd h \<and> n_session (p_header p) = n_session h"
  using identity_Some [of p h] by (auto simp: p_header_def)

text \<open>A packet that is accepted goes to a queue that is there.\<close>

lemma routed_queue:
  assumes "daemon_ok d" "route to_wide p (dm_ctl d) = Inr w"
    "c_act (p_header p) = act_mgmt_dev_kernel_operation \<Longrightarrow> c_cmd (p_header p) \<noteq> cmd_response
       \<Longrightarrow> map_of (dm_sessions d) (n_session (p_header p)) \<noteq> None"
  shows "\<exists>q. queue_of (dm_ctl d) w = Some q"
proof (cases w)
  case w_main
  then show ?thesis using daemon_okD(3) [OF assms(1)] by simp
next
  case (w_kernel x)
  then have "x = n_session (p_header p)" "map_of (dm_sessions d) x \<noteq> None"
    using assms(2,3) by (auto simp: route_def Let_def split: if_splits option.splits)
  then show ?thesis using daemon_okD(6) [OF assms(1), of x] w_kernel by (cases "map_of (cs_kernels (dm_ctl d)) x") simp_all
next
  case (w_device i)
  have m: "map_ok (cs_devices (dm_ctl d))" using daemon_okD(1) [OF assms(1)] by (simp add: ctl_ok_def)
  from assms(2) w_device have "map_of (cs_devices (dm_ctl d)) i \<noteq> None"
    by (auto simp: route_def Let_def split: if_splits option.splits dest: dev_ctl_by_path [OF m])
  then show ?thesis using w_device by auto
qed

definition one_packet :: "u32 \<Rightarrow> daemon \<Rightarrow> daemon \<Rightarrow> bool" where
  "one_packet session d d' =
     (\<exists>w q p. queue_of (dm_ctl d) w = Some q \<and> queued_at w p (dm_ctl d) (dm_ctl d')
        \<and> (c_cmd (p_header p) = cmd_request \<and> n_session (p_header p) = session
           \<or> w = w_main \<and> c_cmd (p_header p) = cmd_response)
        \<and> dm_sessions d' = dm_sessions d \<and> dm_files d' = dm_files d \<and> dm_params d' = dm_params d
        \<and> dm_sent d' = dm_sent d)"

lemma read_error_one:
  assumes "daemon_ok d" "\<And>q. r = Some q \<Longrightarrow> is_valid q" "read_error env r n d = Some d'"
  shows "one_packet session d d'"
proof -
  obtain p res s where p: "build_common_error_response (sv_to_mcs env) r (text_of (get_error_message n)) = Some p"
      "push_request_to_worker_ctl (sv_to_wide env) p (dm_ctl d) = Some (res, s)" "d' = on_ctl d s"
    using assms(3) by (auto simp: read_error_def bind_eq_Some_conv)
  have c: "c_cmd (p_header p) = cmd_response"
    using identity_codes [OF error_response_identity [OF p(1) assms(2)]] by (auto split: option.splits)
  then have w: "route (sv_to_wide env) p (dm_ctl d) = Inr w_main" by (simp add: route_def)
  obtain q where q: "queue_of (dm_ctl d) w_main = Some q" using daemon_okD(3) [OF assms(1)] by auto
  from request_routed [OF daemon_okD(1) [OF assms(1)] p(2)] have "queued_at w_main p (dm_ctl d) s" by (auto simp: w)
  then show ?thesis
    unfolding one_packet_def by (intro exI [of _ w_main] exI [of _ q] exI [of _ p]) (use q c p(3) in simp)
qed

lemma read_one:
  assumes "daemon_ok d" "map_of (dm_sessions d) session \<noteq> None" "cb_svr_read env session v d = Some d'"
  shows "one_packet session d d'"
proof (cases "fst (build_from_json (sv_parse env) v)")
  case None
  then have "read_error env None 0 d = Some d'" using assms(3) by (simp add: cb_svr_read_def)
  then show ?thesis by (rule read_error_one [OF assms(1), rotated]) simp
next
  case (Some p)
  have e: "one_packet session d d'" if "read_error env (Some p) n d = Some d'" for n
    by (rule read_error_one [OF assms(1) _ that]) (use json_valid [OF Some] in simp)
  show ?thesis
  proof (cases "m_v_packet p = [] \<or> n_session (p_header p) \<noteq> session \<or> c_cmd (p_header p) \<noteq> cmd_request")
    case True
    then obtain n where "read_error env (Some p) n d = Some d'"
      using assms(3) Some by (auto simp: cb_svr_read_def split: if_splits)
    then show ?thesis by (rule e)
  next
    case False
    then obtain r s where r: "push_request_to_worker_ctl (sv_to_wide env) p (dm_ctl d) = Some (r, s)"
        "(case r of None \<Rightarrow> Some (on_ctl d s) | Some n \<Rightarrow> read_error env (Some p) n (on_ctl d s)) = Some d'"
      using assms(3) Some by (auto simp: cb_svr_read_def bind_eq_Some_conv)
    note rr = request_routed [OF daemon_okD(1) [OF assms(1)] r(1)]
    show ?thesis
    proof (cases "route (sv_to_wide env) p (dm_ctl d)")
      case (Inl n)
      then have "r = Some n" "s = dm_ctl d" using rr by simp_all
      then have "read_error env (Some p) n d = Some d'" using r(2) by simp
      then show ?thesis by (rule e)
    next
      case (Inr w)
      then obtain p' where p': "r = None" "queued_at w p' (dm_ctl d) s"
          "p' = p \<or> (\<exists>i::u16. set_device_index (ucast i) p = Some p')"
        using rr by auto
      have h: "c_cmd (p_header p') = cmd_request \<and> n_session (p_header p') = session"
        using p'(3) False by (auto dest: set_device_index_header)
      obtain q where "queue_of (dm_ctl d) w = Some q" using routed_queue [OF assms(1) Inr] False assms(2) by auto
      moreover have "d' = on_ctl d s" using r(2) p'(1) by simp
      ultimately show ?thesis
        unfolding one_packet_def by (intro exI [of _ w] exI [of _ q] exI [of _ p']) (use p'(2) h in simp)
    qed
  qed
qed


section \<open>An example\<close>

text \<open>A daemon without devices, to which one client connects.\<close>

definition example_json :: json where
  "example_json = JObject
     [(''request_type'', JString [cmd_request]), (''session_number'', JInt 7), (''packet_owner'', JString [owner_manager]),
      (''device_index'', JInt 0), (''action_code'', JString [act_mgmt_get_echo]), (''in_id'', JInt 0), (''out_id'', JInt 0),
      (''data_field_type'', JString [data_field_binary]), (''data_field'', JNull)]"

definition example_echo :: cio_packet where
  "example_echo = cio_packet_of data_field_binary (header_bytes (session_request cmd_request 7 owner_manager 0 act_mgmt_get_echo))"

definition example_svr_env :: svr_env where
  "example_svr_env =
     \<lparr>sv_to_mcs = map ucast, sv_to_wide = map ucast, sv_lower = id, sv_parse = (\<lambda>_. Inr example_json),
      sv_dump = (\<lambda>_. Some [1]), sv_hid_ini = False, sv_devices = [], sv_host = example_host, sv_root = text_of ''r'',
      sv_separator = 0x2F, sv_file_list = (\<lambda>_. [])\<rparr>"

definition example_daemon :: daemon where
  "example_daemon =
     (daemon_start [] empty_store)\<lparr>
        dm_ctl := (create_kernel_ctl 7 (create_main_ctl_and_set_callack ctl_svr_ini))\<lparr>cs_main := Some [example_echo]\<rparr>,
        dm_sessions := [(7, new_session example_svr_env 7)]\<rparr>"

lemma example_echo_built:
  "build (session_request cmd_request 7 owner_manager 0 act_mgmt_get_echo) data_field_binary None = Some example_echo"
  "header example_echo = Some (session_request cmd_request 7 owner_manager 0 act_mgmt_get_echo)"
proof -
  have c: "codes_ok (session_request cmd_request 7 owner_manager 0 act_mgmt_get_echo)"
    by (simp add: codes_ok_def session_request_def valid_cmds_def valid_owners_def manager_actions_def)
  show "build (session_request cmd_request 7 owner_manager 0 act_mgmt_get_echo) data_field_binary None = Some example_echo"
    "header example_echo = Some (session_request cmd_request 7 owner_manager 0 act_mgmt_get_echo)"
    using build_empty [OF c, of data_field_binary] by (simp_all add: example_echo_def session_request_def)
qed

lemma example_push:
  "cs_main s = Some q \<Longrightarrow> push_request_to_worker_ctl to_wide example_echo s = Some (None, s\<lparr>cs_main := Some (q @ [example_echo])\<rparr>)"
  using p_header_of [OF example_echo_built(2)]
  by (simp add: push_request_to_worker_ctl_def push_back_request_to_main_ctl_def main_actions_def session_request_def)

lemma example_daemon_steps: "daemon_steps example_svr_env example_daemon"
proof (rule d_accept [OF d_start])
  show "cb_svr_accept example_svr_env 7 (daemon_start [] empty_store) = Some example_daemon"
    unfolding cb_svr_accept_def example_echo_built(1)
    by (simp add: example_push [where q = "[]"] daemon_start_def create_main_ctl_and_set_callack_def create_kernel_ctl_def
        ctl_svr_ini_def example_daemon_def)
qed (simp_all add: daemon_start_def)

theorem daemon_stays_consistent_witness: "daemon_ok example_daemon"
  by (rule daemon_stays_consistent [OF example_daemon_steps])

lemma example_parsed: "fst (build_from_json (sv_parse example_svr_env) v) = Some example_echo"
  by (simp add: build_from_json_def example_svr_env_def build_json_def example_json_def json_find_def code_field_def
      number_field_def id_field_def valid_cmds_def valid_owners_def valid_action_codes_def valid_data_field_types_def
      manager_actions_def data_field_bytes_def example_echo_def session_request_def as_u32_def)


end
