(* ===== verification/Answers.thy ===== *)
theory Answers
  imports DaemonSafe
begin

text \<open>
  The answers of the management worker and of the kernel workers: what leaves the daemon for a request that is taken
  from a queue.
\<close>

section \<open>The response to a request\<close>

text \<open>The header of the response, without the size of its data.\<close>

definition answers_to :: "cio_packet \<Rightarrow> cio_packet \<Rightarrow> bool" where
  "answers_to p r = (identity r = map_option (c_cmd_update (\<lambda>_. cmd_response)) (identity p) \<and> identity p \<noteq> None)"

lemma set_cmd_answers: "set_cmd cmd_response p = Some r \<Longrightarrow> answers_to p r"
  by (simp add: answers_to_def set_cmd_identity)

lemma answers_to_same: "answers_to p r \<Longrightarrow> identity r' = identity r \<Longrightarrow> answers_to p r'"
  by (simp add: answers_to_def)

lemma set_cmd_then:
  assumes "Option.bind (set_cmd cmd_response p) f = Some r" "\<And>q. f q = Some r \<Longrightarrow> identity r = identity q"
  shows "answers_to p r"
proof -
  obtain q where q: "set_cmd cmd_response p = Some q" "f q = Some r" using assms(1) by (auto simp: bind_eq_Some_conv)
  show ?thesis by (rule answers_to_same [OF set_cmd_answers [OF q(1)] assms(2) [OF q(2)]])
qed

lemma error_packet_answers: "error_packet env n p = Some r \<Longrightarrow> answers_to p r"
  unfolding error_packet_def answer_packet_def generate_error_response_def
  by (rule set_cmd_then) (auto dest: identities)

lemma op_response_answers:
  assumes "op_response env k p = Some r"
  shows "answers_to p r"
proof -
  obtain q where q: "error_started env p = Some q" "finish_response env k q = Some r"
    using assms by (auto simp: op_response_def bind_eq_Some_conv)
  have "answers_to p q" using q(1) unfolding error_started_def by (rule set_cmd_then) (rule identities(6))
  moreover have "identity r = identity q"
    using q(2) by (cases k) (auto simp: finish_response_def bind_eq_Some_conv dest!: identities)
  ultimately show ?thesis by (rule answers_to_same)
qed

lemma simple_answers:
  "execute_mgmt_get_echo p = Some r \<Longrightarrow> answers_to p r"
  "execute_mgmt_get_version env p = Some r \<Longrightarrow> answers_to p r"
  "execute_mgmt_get_device_list env l p = Some r \<Longrightarrow> answers_to p r"
  "execute_mgmt_ctl_show env p = Some r \<Longrightarrow> answers_to p r"
proof -
  show "execute_mgmt_get_echo p = Some r \<Longrightarrow> answers_to p r"
    unfolding execute_mgmt_get_echo_def by (rule set_cmd_answers)
  show "execute_mgmt_get_version env p = Some r \<Longrightarrow> answers_to p r"
    unfolding execute_mgmt_get_version_def by (erule set_cmd_then) (rule identities(1))
  show "execute_mgmt_get_device_list env l p = Some r \<Longrightarrow> answers_to p r"
    unfolding execute_mgmt_get_device_list_def by (erule set_cmd_then) (rule identities(4))
  show "execute_mgmt_ctl_show env p = Some r \<Longrightarrow> answers_to p r"
    unfolding execute_mgmt_ctl_show_def
    by (auto simp: bind_eq_Some_conv split: if_splits dest!: set_cmd_answers identities(5,6) intro: answers_to_same)
qed

lemma recover_answers:
  assumes "execute_mgmt_recover_operation env p m = Some (r, m')"
  shows "answers_to p r"
proof -
  obtain q reason where q: "set_cmd cmd_response p = Some q"
      "(case reason of None \<Rightarrow> set_data_sucesss (sv_to_mcs env) q
        | Some n \<Rightarrow> set_data_error (sv_to_mcs env) (text_of (get_error_message n)) q) = Some r"
    using assms by (auto simp: execute_mgmt_recover_operation_def bind_eq_Some_conv)
  then have "identity r = identity q" by (cases reason) (auto dest: identities)
  then show ?thesis by (rule answers_to_same [OF set_cmd_answers [OF q(1)]])
qed

lemma file_operation_answers: "execute_file_operation env p d = Some (r, d') \<Longrightarrow> answers_to p r"
  by (auto simp: execute_file_operation_def Let_def bind_eq_Some_conv split: option.splits dest: op_response_answers)

lemma advance_answers:
  assumes "execute_advance_operation env p d = Some (r, d', other)"
  shows "answers_to p r"
proof (cases "map_of (dm_sessions d) (n_session (p_header p)) = None \<or> m_type_data_field p = data_field_binary")
  case True
  then have "map_option (\<lambda>p. (p, d, None)) (op_response env op_error p) = Some (r, d', other)"
    using assms unfolding execute_advance_operation_def Let_def by (metis (no_types, lifting))
  then show ?thesis by (auto dest: op_response_answers)
next
  case False
  then show ?thesis
    using assms by (auto simp: execute_advance_operation_def Let_def bind_eq_Some_conv dest: op_response_answers)
qed

lemma main_response_answers:
  assumes "main_response env p d = Some (r, d', other)"
  shows "answers_to p r" and "other \<noteq> None \<Longrightarrow> execute_advance_operation env p d = Some (r, d', other) \<and>
    c_act (p_header p) = act_mgmt_advance_operation"
proof -
  from assms consider (e) n where "error_packet env n p = Some r" "other = None"
      | (m) m m' where "execute_mgmt_recover_operation env p m = Some (r, m')" "other = None"
      | (v) "execute_mgmt_get_version env p = Some r" "other = None"
      | (c) "execute_mgmt_get_echo p = Some r" "other = None"
      | (l) l where "execute_mgmt_get_device_list env l p = Some r" "other = None"
      | (s) "execute_mgmt_ctl_show env p = Some r" "other = None"
      | (f) "execute_file_operation env p d = Some (r, d')" "other = None"
      | (a) "execute_advance_operation env p d = Some (r, d', other)" "c_act (p_header p) = act_mgmt_advance_operation"
    unfolding main_response_def Let_def by (auto simp: bind_eq_Some_conv split: if_splits)
  note cases = this
  from cases show "answers_to p r"
    by cases (blast intro: error_packet_answers recover_answers simple_answers file_operation_answers advance_answers)+
  from cases show "other \<noteq> None \<Longrightarrow> execute_advance_operation env p d = Some (r, d', other) \<and>
    c_act (p_header p) = act_mgmt_advance_operation" by cases simp_all
qed


section \<open>What is sent\<close>

text \<open>To the session of the request, if it is open; and to others.\<close>

definition to_session :: "u32 \<Rightarrow> bytes \<Rightarrow> daemon \<Rightarrow> (u32 \<times> bytes) list" where
  "to_session session v d = (if v = [] \<or> map_of (dm_sessions d) session = None then [] else [(session, v)])"

definition to_others :: "u32 \<Rightarrow> daemon \<Rightarrow> (u32 \<times> bytes) list \<Rightarrow> bool" where
  "to_others session d l = (\<forall>(x, v)\<in>set l. x \<noteq> session \<and> v \<noteq> [] \<and> map_of (dm_sessions d) x \<noteq> None)"

lemma send_data_sent:
  "dm_sent (send_data_to_client_by_ip4 v session d) = dm_sent d @ to_session session v d"
  by (simp add: send_data_to_client_by_ip4_def to_session_def)

lemma broadcast_sent: "\<exists>l. dm_sent (broadcast_by_ip4 session v d) = dm_sent d @ l \<and> to_others session d l"
  by (auto simp: broadcast_by_ip4_def to_others_def map_of_eq_None_iff)

text \<open>A message of a session is for another session, or for all others.\<close>

lemma set_session_identity:
  "set_session_number n p = Some p' \<Longrightarrow> map_option n_session (identity p') = Some n"
proof -
  assume "set_session_number n p = Some p'"
  then obtain h where "packet_view (m_v_packet p) = Some h" "m_v_packet p' = packet_store (h\<lparr>n_session := n\<rparr>) (m_v_packet p)"
    by (auto simp: set_session_number_def write_header_def)
  then show ?thesis by (simp add: identity_def rest_of_def)
qed

lemma message_data_identity:
  assumes "Option.bind (set_data_by_utf8 to_mcs w False p2)
           (\<lambda>p. Option.bind (set_data_by_utf8 to_mcs s True p)
           (\<lambda>p. if c then (if ss = [] then None else append_all to_mcs (tl ss) p) else append_all to_mcs ss p)) = Some p'"
  shows "identity p' = identity p2"
  using assms by (auto simp: bind_eq_Some_conv split: if_splits dest!: identities(1,2))

lemma message_session:
  assumes "set_data_from_send_data_to_session_request to_mcs to_wide request s n p = Some p'"
    "get_data_list to_wide request \<noteq> Some []"
  shows "n_session (p_header p') = n"
proof -
  obtain w ss where l: "get_data_list to_wide request = Some (w # ss)"
    using assms by (auto simp: set_data_from_send_data_to_session_request_def neq_Nil_conv split: option.splits)
  note m = assms(1) [unfolded set_data_from_send_data_to_session_request_def l option.case list.case]
  from m obtain q1 where q1: "set_cmd cmd_system_request (packet_assign request p) = Some q1"
    unfolding bind_eq_Some_conv by blast
  note m1 = m [unfolded q1 Option.bind.simps]
  then obtain q2 where q2: "set_session_number n q1 = Some q2" unfolding bind_eq_Some_conv [of "set_session_number n q1"] by blast
  have "identity p' = identity q2" by (rule message_data_identity [OF m1 [unfolded q2 Option.bind.simps]])
  with set_session_identity [OF q2] obtain h where "identity p' = Some h" "n_session h = n" by auto
  then show ?thesis using identity_codes by simp
qed

lemma advance_command_message:
  assumes "advance_command env session request l s = Some (r, s', Some p)" "get_data_list (sv_to_wide env) request = Some l"
  shows "n_session (p_header p) \<noteq> session \<or> n_session (p_header p) = invalid_session_number"
proof -
  have ne: "l \<noteq> []" using assms(1) by (auto simp: advance_command_def)
  have m: "n_session (p_header p) = n"
    if "set_data_from_send_data_to_session_request (sv_to_mcs env) (sv_to_wide env) request s n cio_packet_default = Some p" for s n
    using message_session [OF that] assms(2) ne by simp
  have n: "\<nexists>n. (case set_session_name session n s of (b, s') \<Rightarrow> (if b then op_success else op_error, s', None)) = (r, s', Some p)"
    by (simp split: prod.splits)
  show ?thesis using assms(1) n
    by (auto simp: advance_command_def Let_def split: if_splits dest: m)
qed

lemma advance_message:
  assumes "execute_advance_operation env request d = Some (r, d', Some p)"
  shows "n_session (p_header p) \<noteq> n_session (p_header request) \<or> n_session (p_header p) = invalid_session_number"
proof -
  obtain l r1 s1 where "get_data_list (sv_to_wide env) request = Some l"
      "advance_command env (n_session (p_header request)) request l (dm_ctl d) = Some (r1, s1, Some p)"
    using assms by (auto simp: execute_advance_operation_def Let_def bind_eq_Some_conv split: if_splits)
  then show ?thesis using advance_command_message by blast
qed

lemma send_message_sent:
  assumes "send_message env session p d = Some d'" "n_session (p_header p) \<noteq> session \<or> n_session (p_header p) = invalid_session_number"
  shows "\<exists>l. dm_sent d' = dm_sent d @ l \<and> to_others session d l"
proof (cases "is_valid p")
  case False
  then show ?thesis using assms(1) by (auto simp: send_message_def to_others_def)
next
  case True
  show ?thesis
  proof (cases "n_session (p_header p) = invalid_session_number")
    case True
    then show ?thesis using assms(1) \<open>is_valid p\<close> broadcast_sent [of session _ d] by (auto simp: send_message_def)
  next
    case False
    then show ?thesis
      using assms \<open>is_valid p\<close> by (auto simp: send_message_def send_data_sent to_session_def to_others_def)
  qed
qed

text \<open>One response, for the session of the request; the rest is for others.\<close>

lemma responses_sent:
  assumes "send_responses env p (r, d, other) = Some d'" "c_cmd (p_header p) \<noteq> cmd_self_request"
    "\<And>q. other = Some q \<Longrightarrow> n_session (p_header q) \<noteq> n_session (p_header p) \<or> n_session (p_header q) = invalid_session_number"
  shows "\<exists>v l. to_json (sv_dump env) r = Some v
    \<and> dm_sent d' = dm_sent d @ to_session (n_session (p_header p)) v d @ l
    \<and> to_others (n_session (p_header p)) d l \<and> (other = None \<longrightarrow> l = [])"
proof -
  let ?x = "n_session (p_header p)"
  obtain v where v: "to_json (sv_dump env) r = Some v"
      "(case other of None \<Rightarrow> Some (send_data_to_client_by_ip4 v ?x d)
        | Some q \<Rightarrow> send_message env ?x q (send_data_to_client_by_ip4 v ?x d)) = Some d'"
    using assms(1,2) by (auto simp: send_responses_def bind_eq_Some_conv Let_def)
  show ?thesis
  proof (cases other)
    case None
    then show ?thesis using v by (auto simp: send_data_sent to_others_def)
  next
    case (Some q)
    let ?d = "send_data_to_client_by_ip4 v ?x d"
    have "send_message env ?x q ?d = Some d'" using v(2) Some by simp
    from send_message_sent [OF this assms(3) [OF Some]] obtain l where "dm_sent d' = dm_sent ?d @ l" "to_others ?x ?d l"
      by blast
    moreover have "dm_sessions ?d = dm_sessions d" using sends_only(1) by (simp add: sent_only_def)
    ultimately show ?thesis using v(1) Some by (auto simp: send_data_sent to_others_def)
  qed
qed


lemma main_response_frame:
  assumes "main_response env p d = Some (r, d', other)"
  shows "dm_sent d' = dm_sent d" "map_of (dm_sessions d') x = None \<longleftrightarrow> map_of (dm_sessions d) x = None"
    "cs_main (dm_ctl d') = cs_main (dm_ctl d)"
  using main_response_result [OF assms] by (auto simp: map_of_map_put set_session_name_same split: if_splits)

text \<open>C12. The management worker gives exactly one answer to every request that it takes from its queue: a response with
  the session, owner, device, action and ids of the request, which goes to the session of the request if that
  is open, and to no other; other sessions get something only for the advanced operations, and never
  the session itself. The rest of the queue stays in its order.\<close>

theorem request_gets_its_answer:
  assumes "cs_main (dm_ctl d) = Some (p # q)" "main_round env d = Some d'" "c_cmd (p_header p) \<noteq> cmd_self_request"
  shows "\<exists>r v l. answers_to p r \<and> to_json (sv_dump env) r = Some v
    \<and> dm_sent d' = dm_sent d @ to_session (n_session (p_header p)) v d @ l
    \<and> to_others (n_session (p_header p)) d l \<and> (c_act (p_header p) \<noteq> act_mgmt_advance_operation \<longrightarrow> l = [])
    \<and> cs_main (dm_ctl d') = Some q"
proof -
  let ?x = "n_session (p_header p)" and ?d = "on_ctl d ((dm_ctl d)\<lparr>cs_main := Some q\<rparr>)"
  obtain r d1 other where r: "main_response env p ?d = Some (r, d1, other)" "send_responses env p (r, d1, other) = Some d'"
    using assms(1,2) by (auto simp: main_round_def main_execute_def bind_eq_Some_conv)
  have o: "n_session (p_header m) \<noteq> ?x \<or> n_session (p_header m) = invalid_session_number" if "other = Some m" for m
    using main_response_answers(2) [OF r(1)] that advance_message by auto
  from responses_sent [OF r(2) assms(3) o] obtain v l where v: "to_json (sv_dump env) r = Some v"
      "dm_sent d' = dm_sent d1 @ to_session ?x v d1 @ l" "to_others ?x d1 l" "other = None \<longrightarrow> l = []"
    by blast
  note f = main_response_frame [OF r(1)]
  have s: "to_session ?x v d1 = to_session ?x v d" "to_others ?x d l"
    using f(2) v(3) by (auto simp: to_session_def to_others_def)
  have "l = []" if "c_act (p_header p) \<noteq> act_mgmt_advance_operation"
    using main_response_answers(2) [OF r(1)] that v(4) by (cases other) auto
  moreover have "cs_main (dm_ctl d') = Some q" using send_responses_only [OF r(2)] f(3) by (simp add: sent_only_def)
  ultimately show ?thesis
    using main_response_answers(1) [OF r(1)] v(1,2) f(1) s by (intro exI [of _ r] exI [of _ v] exI [of _ l]) simp
qed

theorem request_gets_its_answer_witness:
  "\<exists>d r l. main_round example_svr_env example_daemon = Some d \<and> answers_to example_echo r \<and> dm_sent d = (7, [1]) # l
     \<and> cs_main (dm_ctl d) = Some []"
proof -
  have m: "cs_main (dm_ctl example_daemon) = Some [example_echo]" by (simp add: example_daemon_def)
  note h = p_header_of [OF example_echo_built(2)]
  obtain r where r: "set_cmd cmd_response example_echo = Some r"
    using example_echo_built(2) by (auto simp: set_cmd_def write_header_def)
  have hr: "header r = Some (session_request cmd_response 7 owner_manager 0 act_mgmt_get_echo)"
    using header_write [of _ example_echo r] r example_echo_built(2) by (simp add: set_cmd_def session_request_def)
  then have "17 \<le> length (m_v_packet r)" by (simp add: packet_view_def split: if_splits)
  then have j: "to_json (sv_dump example_svr_env) r = Some [1]"
    using hr by (auto simp: to_json_def packet_json_def get_data_field_def session_request_def example_svr_env_def)
  have "main_response example_svr_env example_echo d = Some (r, d, None)" for d
    by (simp add: main_response_def h session_request_def execute_mgmt_get_echo_def r)
  then obtain d where d: "main_round example_svr_env example_daemon = Some d"
    by (simp add: main_round_def m main_execute_def send_responses_def h session_request_def j)
  have "c_cmd (p_header example_echo) \<noteq> cmd_self_request" by (simp add: h session_request_def)
  from request_gets_its_answer [OF m d this] obtain r v l where a: "answers_to example_echo r"
      "to_json (sv_dump example_svr_env) r = Some v" "cs_main (dm_ctl d) = Some []"
      "dm_sent d = dm_sent example_daemon @ to_session (n_session (p_header example_echo)) v example_daemon @ l" by blast
  have "identity r \<noteq> None" using a(1) by (auto simp: answers_to_def)
  then have "m_v_packet r \<noteq> []" by (auto simp: identity_def rest_of_def packet_view_def)
  then have "v = [1]"
    using a(2) by (auto simp: to_json_def packet_json_def example_svr_env_def split: option.splits)
  then have "dm_sent d = (7, [1]) # l"
    using a(4) by (simp add: h session_request_def to_session_def example_daemon_def daemon_start_def)
  then show ?thesis using a d by blast
qed

text \<open>The same for the worker of a session.\<close>

lemma kernel_operation_answers: "execute_kernel_operation env p d = Some r \<Longrightarrow> answers_to p r"
proof -
  have e: "answers_to p r" if "error_started env p = Some r" for r
    using that unfolding error_started_def by (rule set_cmd_then) (rule identities(6))
  have l: "answers_to p r" if "Option.bind (error_started env p) (set_data_by_list (sv_to_mcs env) [text_of ''error'']) = Some r" for r
    using that e identities(3) by (auto simp: bind_eq_Some_conv intro: answers_to_same)
  show "execute_kernel_operation env p d = Some r \<Longrightarrow> answers_to p r"
    by (auto simp: execute_kernel_operation_def Let_def bind_eq_Some_conv [of "get_data_list _ _"]
        split: if_splits list.splits dest: e l simple_answers(3))
qed

lemma kernel_request_gets_its_answer:
  assumes "map_of (cs_kernels (dm_ctl d)) x = Some (p # q)" "kernel_round env x d = Some d'" "c_cmd (p_header p) \<noteq> cmd_self_request"
  shows "\<exists>r v. answers_to p r \<and> to_json (sv_dump env) r = Some v
    \<and> dm_sent d' = dm_sent d @ to_session (n_session (p_header p)) v d \<and> map_of (cs_kernels (dm_ctl d')) x = Some q"
proof -
  let ?d = "on_ctl d ((dm_ctl d)\<lparr>cs_kernels := map_put x q (cs_kernels (dm_ctl d))\<rparr>)"
  obtain r where r: "send_responses env p (r, ?d, None) = Some d'" "answers_to p r"
    using assms(1,2) kernel_operation_answers error_packet_answers
    by (auto simp: kernel_round_def kernel_execute_def Let_def bind_eq_Some_conv split: if_splits)
  from responses_sent [OF r(1) assms(3)] obtain v where v: "to_json (sv_dump env) r = Some v"
      "dm_sent d' = dm_sent d @ to_session (n_session (p_header p)) v ?d" by auto
  then show ?thesis using r(2) send_responses_only [OF r(1)]
    by (auto simp: to_session_def sent_only_def map_of_map_put)
qed

text \<open>
  An error response that takes the way over the queue is answered with the reason \<open>request_type\<close>, whatever its own
  reason was.
\<close>

lemma reason_is_replaced:
  "c_cmd (p_header p) = cmd_response \<Longrightarrow> main_response env p d = map_option (\<lambda>r. (r, d, None)) (error_packet env 2 p)"
  by (simp add: main_response_def)

end
