(* ===== verification/DevOnce.thy ===== *)
theory DevOnce
  imports DevCtl
begin

text \<open>
  Every request that reaches the worker of a device is answered once: what the operations of the queues keep,
  what one request adds, and the invariant of the worker.
\<close>

section \<open>Keys of the entries\<close>

text \<open>An entry as far as it counts here: the object of its request, and whether the daemon itself made it.\<close>

definition qkey :: "q_item \<Rightarrow> nat \<times> bool" where
  "qkey e = (r_uid (q_req e), r_is_self (q_req e))"

definition map_keys :: "q_item list session_map \<Rightarrow> (u32 \<times> (nat \<times> bool) list) list" where
  "map_keys m = map (\<lambda>(k, q). (k, map qkey q)) m"

definition all_keys :: "(u32 \<times> (nat \<times> bool) list) list \<Rightarrow> (nat \<times> bool) multiset" where
  "all_keys m = mset (concat (map snd m))"

definition queue_keys :: "dev_ctl \<Rightarrow> (nat \<times> bool) multiset" where
  "queue_keys d = all_keys (map_keys (m_map_q (d_q d)))"

definition sync_keys :: "dev_ctl \<Rightarrow> (nat \<times> bool) list" where
  "sync_keys d = map qkey (m_q_sync (d_q d))"

abbreviation rkey :: "request \<Rightarrow> nat \<times> bool" where
  "rkey r \<equiv> (r_uid r, r_is_self r)"

lemma qkey_simps [simp]:
  "qkey (q_answer a e) = qkey e" "qkey (e\<lparr>q_req := r_set_recover b (q_req e)\<rparr>) = qkey e"
  "qkey (e\<lparr>q_signal := n\<rparr>) = qkey e" "qkey \<lparr>q_req = r, q_signal = n, q_rsp = a\<rparr> = rkey r"
  by (simp_all add: qkey_def q_answer_def)

lemma map_keys_fst [simp]: "map fst (map_keys m) = map fst m"
  by (simp add: map_keys_def case_prod_beta comp_def)

lemma map_keys_simps [simp]:
  "map_keys [] = []" "map_keys ((k, q) # m) = (k, map qkey q) # map_keys m"
  by (simp_all add: map_keys_def)

lemma all_keys_simps [simp]:
  "all_keys [] = {#}" "all_keys ((k, q) # m) = mset q + all_keys m"
  by (simp_all add: all_keys_def)

section \<open>What the queue operations keep\<close>

lemma answer_fronts_keys:
  assumes "\<And>q rs ns q'. f q = (rs, ns, q') \<Longrightarrow> map qkey q' = map qkey q"
    and "answer_fronts f m = (rs, ns, m')"
  shows "map_keys m' = map_keys m"
  using assms(2)
proof (induction m arbitrary: rs ns m')
  case (Cons e m)
  obtain k q where e: "e = (k, q)" by (cases e)
  obtain rs1 ns1 q1 rs2 ns2 m2 where "f q = (rs1, ns1, q1)" "answer_fronts f m = (rs2, ns2, m2)"
    by (cases "f q"; cases "answer_fronts f m") auto
  then show ?case using Cons e assms(1)[of q rs1 ns1 q1] by auto
qed simp

lemma answer_front_keys:
  "answer_front_read qi q = (rs, ns, q') \<Longrightarrow> map qkey q' = map qkey q"
  "answer_front_cancel qi q = (rs, ns, q') \<Longrightarrow> map qkey q' = map qkey q"
  by (auto simp: answer_front_read_def answer_front_cancel_def split: list.splits if_splits option.splits)

lemma set_response_front_keys:
  assumes "qm_read_set_response_front qi m = (rs, ns, m')"
  shows "map_keys (m_map_q m') = map_keys (m_map_q m) \<and> m_q_sync m' = m_q_sync m"
proof -
  define f where "f = (if get_request_type qi \<noteq> req_cancel then answer_front_read qi else answer_front_cancel qi)"
  have f: "map qkey q' = map qkey q" if "f q = (rs, ns, q')" for q rs ns q'
    using that answer_front_keys by (auto simp: f_def split: if_splits)
  obtain m1 where "answer_fronts f (m_map_q m) = (rs, ns, m1)" "m' = m\<lparr>m_map_q := m1\<rparr>"
    using assms by (auto simp: qm_read_set_response_front_def f_def split: prod.splits)
  then show ?thesis using answer_fronts_keys[of f, OF f] by auto
qed

lemma map_ok_Cons: "map_ok ((k, q) # m) = ((\<forall>k'\<in>set (map fst m). k < k') \<and> map_ok m)"
  by simp

lemma take_complete_keys:
  "take_complete m = (es, m') \<Longrightarrow>
     all_keys (map_keys m) = mset (map qkey es) + all_keys (map_keys m') \<and> set (map fst m') \<subseteq> set (map fst m)
     \<and> (map_ok m \<longrightarrow> map_ok m')"
proof (induction m arbitrary: es m' rule: take_complete.induct)
  case (2 k q m)
  consider (keep) "q = [] \<or> q_signal (hd q) = 0" | (last) "\<exists>e. q = [e] \<and> q_signal e \<noteq> 0 \<and> m = []"
    | (skip) e k2 q2 m2 where "q = [e]" "q_signal e \<noteq> 0" "m = (k2, q2) # m2"
    | (more) e q' where "q = e # q'" "q_signal e \<noteq> 0" "q' \<noteq> []"
    by (cases q; cases "tl q"; cases m) auto
  then show ?case
  proof cases
    case keep
    then obtain m1 where m1: "take_complete m = (es, m1)" "m' = (k, q) # m1"
      using 2(5) by (cases q) (auto split: prod.splits)
    have "all_keys (map_keys m) = mset (map qkey es) + all_keys (map_keys m1) \<and> set (map fst m1) \<subseteq> set (map fst m)
        \<and> (map_ok m \<longrightarrow> map_ok m1)"
      using keep m1 2(1) 2(2) by (cases q) auto
    then show ?thesis using m1 by (auto simp del: set_map simp: map_ok_Cons)
  next
    case last
    then show ?thesis using 2(5) by auto
  next
    case skip
    obtain es1 m1 where m1: "take_complete m2 = (es1, m1)" "es = e # es1" "m' = (k2, q2) # m1"
      using 2(5) skip by (auto split: prod.splits)
    have "all_keys (map_keys m2) = mset (map qkey es1) + all_keys (map_keys m1)
        \<and> set (map fst m1) \<subseteq> set (map fst m2) \<and> (map_ok m2 \<longrightarrow> map_ok m1)"
      using 2(3) skip m1(1) by auto
    then show ?thesis using m1 skip by (auto simp del: set_map simp: map_ok_Cons)
  next
    case more
    obtain es1 m1 where m1: "take_complete m = (es1, m1)" "es = e # es1" "m' = (k, q') # m1"
      using 2(5) more by (auto split: prod.splits)
    have "all_keys (map_keys m) = mset (map qkey es1) + all_keys (map_keys m1)
        \<and> set (map fst m1) \<subseteq> set (map fst m) \<and> (map_ok m \<longrightarrow> map_ok m1)"
      using 2(4) more m1(1) by auto
    then show ?thesis using m1 more by (auto simp del: set_map simp: map_ok_Cons)
  qed
qed simp

lemma transit_by_rx_q: "transit_by_rx rs d = Some d' \<Longrightarrow> d_q d' = d_q d"
proof (induction rs d rule: transit_by_rx.induct)
  case (2 r rs d)
  then show ?case by (fastforce simp: Let_def split: option.splits if_splits prod.splits)
qed simp

lemma run_callback_keys:
  assumes "run_callback qi d = Some (x, d')"
  shows "map_keys (m_map_q (d_q d')) = map_keys (m_map_q (d_q d)) \<and> sync_keys d' = sync_keys d"
proof -
  have read: "map_keys (m_map_q (d_q d')) = map_keys (m_map_q (d_q d)) \<and> sync_keys d' = sync_keys d"
    if "cb_dev_read b qi d = Some (x, d')" for b
    using that set_response_front_keys[of qi "d_q d"]
    by (auto simp: cb_dev_read_def sync_keys_def Let_def dest!: transit_by_rx_q split: if_splits prod.splits)
  show ?thesis
    using assms read
    by (auto simp: run_callback_def cb_sync_def sync_keys_def split: type_cb.splits list.splits option.splits)
qed

lemma cleared_keys: "map qkey (map (\<lambda>e. if P e then e\<lparr>q_signal := n\<rparr> else e) q) = map qkey q"
  by simp

lemma wait_event_keys:
  "wait_event uid cbs d = Some (a, d', cbs') \<Longrightarrow>
     map_keys (m_map_q (d_q d')) = map_keys (m_map_q (d_q d)) \<and> sync_keys d' = sync_keys d"
proof (induction cbs arbitrary: d)
  case Nil
  then show ?case
    by (auto simp: wait_event.simps[of _ "[]"] sync_keys_def cleared_keys simp del: map_map split: option.splits)
next
  case (Cons c cs)
  then show ?case
    by (auto simp: wait_event.simps[of _ "c # cs"] sync_keys_def cleared_keys simp del: map_map
        dest!: run_callback_keys split: option.splits)
qed

section \<open>What a request adds\<close>

lemma map_put_keys_mset:
  assumes "map_ok m" "map_of m k = None \<or> map_of m k = Some q"
  shows "all_keys (map_keys (map_put k (q @ es) m))
    = (if map_of m k = None then mset (map qkey q) else {#}) + mset (map qkey es) + all_keys (map_keys m)"
  using assms
proof (induction m)
  case (Cons e m)
  obtain k0 q0 where e: "e = (k0, q0)" by (cases e)
  show ?case
  proof (cases "k < k0")
    case True
    then have "map_of m k = None"
      using Cons.prems(1) e by (fastforce simp: map_of_eq_None_iff)
    then show ?thesis using Cons.prems True e by auto
  next
    case False
    then show ?thesis using Cons e by auto
  qed
qed simp

lemma read_push_back_keys:
  assumes "map_ok (m_map_q m)"
  shows "all_keys (map_keys (m_map_q (snd (qm_read_push_back r m)))) = add_mset (rkey r) (all_keys (map_keys (m_map_q m)))"
    "map_ok (m_map_q (snd (qm_read_push_back r m)))"
    "m_q_sync (snd (qm_read_push_back r m)) = m_q_sync m"
proof -
  define q where "q = (case map_of (m_map_q m) (r_session r) of None \<Rightarrow> [] | Some q \<Rightarrow> q)"
  have mm: "m_map_q (snd (qm_read_push_back r m)) = map_put (r_session r) (cq_push_back r q) (m_map_q m)"
    by (simp add: qm_read_push_back_def Let_def q_def)
  show "all_keys (map_keys (m_map_q (snd (qm_read_push_back r m)))) = add_mset (rkey r) (all_keys (map_keys (m_map_q m)))"
    using map_put_keys_mset[OF assms, of "r_session r" q]
    by (auto simp: mm cq_push_back_def q_def split: option.splits)
  show "map_ok (m_map_q (snd (qm_read_push_back r m)))" unfolding mm by (rule map_put_ok[OF assms])
  show "m_q_sync (snd (qm_read_push_back r m)) = m_q_sync m" by (simp add: qm_read_push_back_def Let_def)
qed

lemma transit_by_result_q:
  assumes "transit_by_result b res d = Some (res', d')"
  shows "d_q d' = d_q d \<and> m_b_process_complete res' = m_b_process_complete res \<and> m_ptr_rsp res' = m_ptr_rsp res"
  using assms
  by (auto simp: transit_by_result_def finish_transit_def reset_ctl_def set_combination_state_def
      set_selected_session_state_def Let_def split: if_splits option.splits)

lemma mark_others_keys:
  "map_keys (m_map_q (d_q (mark_others r d))) = map_keys (m_map_q (d_q d)) \<and> sync_keys (mark_others r d) = sync_keys d"
  by (auto simp: mark_others_def sync_keys_def qm_read_set_request_front_to_recover_of_another_session_def Let_def
      map_keys_def mark_front_def split: list.splits)

text \<open>
  What processing one request leaves: a response, and the queue for requests that are served at once holds
  the request or nothing; or the request waits at the end of its read queue.
\<close>

definition adds_request :: "request \<Rightarrow> dev_ctl \<Rightarrow> cresult \<Rightarrow> dev_ctl \<Rightarrow> bool" where
  "adds_request r d res d' =
     (if m_b_process_complete res then
        map_keys (m_map_q (d_q d')) = map_keys (m_map_q (d_q d))
        \<and> (sync_keys d' = sync_keys d \<or> sync_keys d' = sync_keys d @ [rkey r] \<and> m_ptr_rsp res \<noteq> None)
      else queue_keys d' = add_mset (rkey r) (queue_keys d) \<and> map_ok (m_map_q (d_q d')) \<and> sync_keys d' = sync_keys d)"

lemma start_sync_keys:
  "map_keys (m_map_q (d_q (start_sync s v b r d))) = map_keys (m_map_q (d_q d))"
  "sync_keys (start_sync s v b r d) = sync_keys d @ [rkey r]"
  by (simp_all add: start_sync_def push_to_device_def qm_sync_push_back_def cq_push_back_def sync_keys_def)

lemma sync_req_keys:
  assumes "start_and_complete_by_sync_req env s r cbs d = Some (a, d', cbs')"
  shows "map_keys (m_map_q (d_q d')) = map_keys (m_map_q (d_q d))
    \<and> sync_keys d' = sync_keys d @ (if a = None then [] else [rkey r])"
  using assms
  by (auto simp: start_and_complete_by_sync_req_def start_sync_keys dest!: wait_event_keys
      split: if_splits option.splits)

lemma cancel_self_keys:
  assumes "start_and_complete_by_cancel_self_req env s r cbs d = Some (b, d', cbs')"
  shows "map_keys (m_map_q (d_q d')) = map_keys (m_map_q (d_q d))
    \<and> sync_keys d' = sync_keys d @ (if b then [rkey r] else [])"
  using assms
  by (auto simp: start_and_complete_by_cancel_self_req_def start_sync_keys dest!: wait_event_keys split: if_splits)

lemmas result_ops = error_complete_def success_complete_def success_complete_with_def success_ing_def new_cresult_def

lemma then_transit_adds:
  assumes "then_transit cbs res d = Some (res', d', cbs')"
  shows "d_q d' = d_q d \<and> m_b_process_complete res' = m_b_process_complete res \<and> m_ptr_rsp res' = m_ptr_rsp res"
  using assms by (auto simp: then_transit_def dest: transit_by_result_q)

lemma proc_sync_adds:
  assumes "proc_sync env res cbs d = Some (res', d', cbs')"
  shows "adds_request (m_ptr_req res) d res' d'"
  using assms
  by (auto simp: proc_sync_def adds_request_def result_ops sync_keys_def dest!: sync_req_keys then_transit_adds
      split: option.splits)

lemma proc_cancel_close_adds:
  assumes "proc_cancel_close env res cbs d = Some (res', d', cbs')"
  shows "adds_request (m_ptr_req res) d res' d'"
  using assms
  by (auto simp: proc_cancel_close_def adds_request_def result_ops sync_keys_def dest!: cancel_self_keys then_transit_adds
      split: option.splits if_splits)

lemma proc_asy_adds:
  assumes "map_ok (m_map_q (d_q d))" "proc_asy env res cbs d = Some (res', d', cbs')"
  shows "adds_request (m_ptr_req res) d res' d'"
  using assms
  by (auto simp: proc_asy_def adds_request_def result_ops sync_keys_def queue_keys_def start_by_async_req_def
      push_to_device_def read_push_back_keys dest!: then_transit_adds split: option.splits if_splits)

lemma proc_open_adds:
  assumes "proc_event_open to_wide env b res d = Some (res', d')"
  shows "adds_request (m_ptr_req res) d res' d'"
  using assms
  by (auto simp: proc_event_open_def adds_request_def result_ops sync_keys_def dest!: transit_by_result_q
      split: option.splits if_splits)

lemma adds_request_after_mark: "adds_request r (mark_others r' d) res d' = adds_request r d res d'"
  by (simp add: adds_request_def mark_others_keys queue_keys_def)

lemma adds_nothing: "m_b_process_complete res \<Longrightarrow> adds_request r d res d"
  by (simp add: adds_request_def)

lemma complete_ops [simp]:
  "m_b_process_complete (error_complete n s res)" "m_b_process_complete (success_complete s res)"
  "m_ptr_req (error_complete n s res) = m_ptr_req res" "m_ptr_req (success_complete s res) = m_ptr_req res"
  "m_ptr_req (new_cresult r s) = r" "m_b_process_complete (new_cresult r s)"
  by (simp_all add: result_ops)

text \<open>The same of whatever a handler returns.\<close>

definition all_add :: "request \<Rightarrow> dev_ctl \<Rightarrow> (cresult \<times> dev_ctl \<times> cqitem_dev list) option \<Rightarrow> bool" where
  "all_add r d x = (\<forall>res d' cbs. x = Some (res, d', cbs) \<longrightarrow> adds_request r d res d')"

lemma all_add_parts:
  "m_b_process_complete res \<Longrightarrow> all_add r d (Some (res, d, cbs))"
  "all_add r d (then_transit cbs (success_complete s res) d)"
  "m_ptr_req res = r \<Longrightarrow> all_add r d (proc_sync env res cbs d)"
  "m_ptr_req res = r \<Longrightarrow> all_add r d (proc_sync env res cbs (mark_others r d))"
  "m_ptr_req res = r \<Longrightarrow> all_add r d (proc_cancel_close env res cbs d)"
  "m_ptr_req res = r \<Longrightarrow> map_ok (m_map_q (d_q d)) \<Longrightarrow> all_add r d (proc_asy env res cbs d)"
  "m_ptr_req res = r \<Longrightarrow> all_add r d (map_option (\<lambda>(res', d'). (res', d', cbs)) (proc_event_open to_wide env b res d))"
proof -
  show "m_b_process_complete res \<Longrightarrow> all_add r d (Some (res, d, cbs))"
    by (simp add: all_add_def adds_nothing)
  show "all_add r d (then_transit cbs (success_complete s res) d)"
    by (auto simp: all_add_def adds_request_def sync_keys_def dest!: then_transit_adds)
  have sync: "m_ptr_req res = r \<Longrightarrow> all_add r d' (proc_sync env res cbs d')" for d'
    by (auto simp: all_add_def dest: proc_sync_adds)
  then show "m_ptr_req res = r \<Longrightarrow> all_add r d (proc_sync env res cbs d)" .
  show "m_ptr_req res = r \<Longrightarrow> all_add r d (proc_sync env res cbs (mark_others r d))"
    using sync[of "mark_others r d"] by (simp add: all_add_def adds_request_after_mark)
  show "m_ptr_req res = r \<Longrightarrow> all_add r d (proc_cancel_close env res cbs d)"
    by (auto simp: all_add_def dest: proc_cancel_close_adds)
  show "m_ptr_req res = r \<Longrightarrow> map_ok (m_map_q (d_q d)) \<Longrightarrow> all_add r d (proc_asy env res cbs d)"
    by (auto simp: all_add_def dest: proc_asy_adds)
  show "m_ptr_req res = r \<Longrightarrow> all_add r d (map_option (\<lambda>(res', d'). (res', d', cbs)) (proc_event_open to_wide env b res d))"
    by (auto simp: all_add_def dest: proc_open_adds)
qed

lemma handlers_add:
  assumes "map_ok (m_map_q (d_q d))" "m_b_process_complete res" "m_ptr_req res = r"
  shows "all_add r d (process_exclusive_st_not to_wide env res cbs d)"
    "all_add r d (process_exclusive_st_idl env res cbs d)"
    "all_add r d (process_exclusive_st_asy env res cbs d)"
    "all_add r d (process_shared_not_open to_wide env res cbs d)"
    "all_add r d (process_shared_idl_idl env res cbs d)"
    "all_add r d (process_shared_idl_asy env res cbs d)"
    "all_add r d (process_shared_asy_asy env res cbs d)"
  unfolding process_exclusive_st_not_def process_exclusive_st_idl_def process_exclusive_st_asy_def
    process_shared_not_open_def process_shared_idl_idl_def process_shared_idl_asy_def process_shared_asy_asy_def
  using assms by (cases "get_cur_event res"; simp add: all_add_parts)+

lemma process_event_adds:
  assumes "map_ok (m_map_q (d_q d))" "process_event to_wide env r cbs d = Some (Some res, d', cbs')"
  shows "adds_request r d res d'"
proof -
  note h = handlers_add[OF assms(1), of "new_cresult r (d_path d)" r, simplified]
  have "all_add r d (process_event_on_shared_mode to_wide env r cbs d)"
    by (simp add: process_event_on_shared_mode_def Let_def h all_add_parts)
  moreover have "all_add r d (process_event_on_exclusive_mode to_wide env r cbs d)"
    by (simp add: process_event_on_exclusive_mode_def Let_def h all_add_parts split: type_state.split)
  ultimately show ?thesis
    using assms(2) by (auto simp: process_event_def all_add_def split: if_splits)
qed

lemma map_keys_ok: "map_keys m' = map_keys m \<Longrightarrow> map_ok m' = map_ok m"
  by (metis map_keys_fst)

definition switch_adds :: "request \<Rightarrow> dev_worker \<Rightarrow> exe_outcome \<Rightarrow> dev_worker \<Rightarrow> bool" where
  "switch_adds r w x w' =
     (w_sent w' = w_sent w \<and> w_cur w' = w_cur w \<and> map_ok (m_map_q (d_q (w_dev w')))
      \<and> queue_keys (w_dev w') = (if x = exe_going then add_mset (rkey r) (queue_keys (w_dev w)) else queue_keys (w_dev w))
      \<and> (sync_keys (w_dev w') = [] \<or> (\<exists>a. x = exe_done a) \<and> sync_keys (w_dev w') = [rkey r]))"

lemma boot_same_dev:
  "process_sub_bootloader to_mcs to_wide h r w = Some (res, w') \<Longrightarrow>
     w_sent w' = w_sent w \<and> w_cur w' = w_cur w \<and> w_dev w' = w_dev w"
  by (auto simp: process_sub_bootloader_def Let_def split: if_splits option.splits)

lemma exe_switch_adds:
  assumes "map_ok (m_map_q (d_q (w_dev w)))" "sync_keys (w_dev w) = []"
    and "exe_switch to_mcs to_wide h env r cbs w = Some (x, w', cbs')"
  shows "switch_adds r w x w'"
proof -
  consider (same) "w' = w" "\<exists>n. x = exe_error n"
    | (event) res d where "process_event to_wide env r cbs (w_dev w) = Some (Some res, d, cbs')" "w' = w\<lparr>w_dev := d\<rparr>"
        "x = (if \<not> m_b_process_complete res then exe_going
              else case m_ptr_rsp res of None \<Rightarrow> exe_error 10 | Some a \<Rightarrow> exe_done a)"
    | (boot) res where "process_sub_bootloader to_mcs to_wide h r w = Some (res, w')" "x \<noteq> exe_going"
    using assms(3) by (fastforce simp: exe_switch_def process_get_result_def split: if_splits option.splits)
  then show ?thesis
  proof cases
    case same
    then show ?thesis using assms by (auto simp: switch_adds_def)
  next
    case event
    have a: "adds_request r (w_dev w) res d" by (rule process_event_adds[OF assms(1) event(1)])
    show ?thesis
    proof (cases "m_b_process_complete res")
      case True
      then have "map_keys (m_map_q (d_q d)) = map_keys (m_map_q (d_q (w_dev w)))"
        and s: "sync_keys d = [] \<or> sync_keys d = [rkey r] \<and> m_ptr_rsp res \<noteq> None"
        using a assms(2) by (simp_all add: adds_request_def)
      note mk = this(1)
      have "queue_keys d = queue_keys (w_dev w)" by (simp only: queue_keys_def mk)
      moreover have "map_ok (m_map_q (d_q d))" using map_keys_ok[OF mk] assms(1) by simp
      ultimately show ?thesis using event(2,3) s True by (auto simp: switch_adds_def split: option.split)
    next
      case False
      then show ?thesis using event(2,3) a assms(2) by (auto simp: switch_adds_def adds_request_def)
    qed
  next
    case boot
    then show ?thesis using boot_same_dev[OF boot(1)] assms by (auto simp: switch_adds_def)
  qed
qed

definition answer_keys :: "(request \<times> answer) list \<Rightarrow> (nat \<times> bool) multiset" where
  "answer_keys v = mset (map (\<lambda>e. rkey (fst e)) v)"

lemma complete_response_keys:
  assumes "get_all_complete_response add b d = (v, d')" "map_ok (m_map_q (d_q d))"
  shows "map_ok (m_map_q (d_q d')) \<and> sync_keys d' = tl (sync_keys d) \<and>
    (\<exists>v1. answer_keys v1 + queue_keys d' = queue_keys d + mset (take 1 (sync_keys d)) \<and> queue_keys d' \<subseteq># queue_keys d
     \<and> answer_keys v = answer_keys v1
         + (case add of None \<Rightarrow> {#} | Some (r, a) \<Rightarrow> if r_uid r \<in># image_mset fst (answer_keys v1) then {#} else {#rkey r#}))"
proof -
  obtain es m where t: "take_complete (m_map_q (d_q d)) = (es, m)" by fastforce
  note k = take_complete_keys[OF t]
  have qk: "qkey = (\<lambda>e. rkey (q_req e))" by (simp add: qkey_def fun_eq_iff)
  define v1 where "v1 = map (\<lambda>e. (q_req e, q_rsp e)) es
     @ (case m_q_sync (d_q d) of [] \<Rightarrow> [] | e # _ \<Rightarrow> [(q_req e, q_rsp e)])"
  have v: "v = (case add of None \<Rightarrow> v1
      | Some (r, a) \<Rightarrow> if \<exists>e\<in>set v1. r_uid (fst e) = r_uid r then v1 else if b then v1 @ [(r, a)] else (r, a) # v1)"
    and d': "m_map_q (d_q d') = m" "m_q_sync (d_q d') = tl (m_q_sync (d_q d))"
    using assms(1) t
    by (auto simp: get_all_complete_response_def v1_def qm_sync_pop_front_def cq_pop_front_def
        qm_read_pop_front_remove_complete_of_all_by_rsp_ptr_def Let_def split: option.splits list.splits if_splits)
  have v1: "answer_keys v1 + queue_keys d' = queue_keys d + mset (take 1 (sync_keys d))"
    using k d' by (auto simp: answer_keys_def v1_def queue_keys_def sync_keys_def qk comp_def split: list.splits)
  have sub: "queue_keys d' \<subseteq># queue_keys d" using k d' by (simp add: queue_keys_def)
  have u: "(\<exists>e\<in>set v1. r_uid (fst e) = n) = (n \<in># image_mset fst (answer_keys v1))" for n
    by (force simp: answer_keys_def)
  have "answer_keys v = answer_keys v1
      + (case add of None \<Rightarrow> {#} | Some (r, a) \<Rightarrow> if r_uid r \<in># image_mset fst (answer_keys v1) then {#} else {#rkey r#})"
    unfolding v u
    by (cases "\<exists>r a. add = Some (r, a) \<and> r_uid r \<in># image_mset fst (answer_keys v1)"; cases add)
      (auto simp: answer_keys_def)
  then show ?thesis
    using k d' assms(2) v1 sub by (auto simp: sync_keys_def map_tl)
qed

section \<open>The invariant of the worker\<close>

text \<open>The requests of clients that wait in a read queue, and those that were answered, by their objects.\<close>

definition pending :: "dev_worker \<Rightarrow> nat multiset" where
  "pending w = image_mset fst (filter_mset (\<lambda>k. \<not> snd k) (queue_keys (w_dev w)))"

definition answered :: "dev_worker \<Rightarrow> nat multiset" where
  "answered w = mset (map (\<lambda>(r, a). r_uid r) (w_sent w))"

definition from_clients :: "request list \<Rightarrow> request list" where
  "from_clients rs = filter (\<lambda>r. \<not> r_is_self r) rs"

definition once_inv :: "request list \<Rightarrow> dev_worker \<Rightarrow> bool" where
  "once_inv rs w =
     (map_ok (m_map_q (d_q (w_dev w))) \<and> sync_keys (w_dev w) = []
      \<and> answered w + pending w = mset (map r_uid (from_clients rs))
      \<and> fst ` set_mset (queue_keys (w_dev w)) \<subseteq> r_uid ` set rs)"

lemma sent_keys:
  "image_mset (\<lambda>(r, a). r_uid r) (mset (to_send v)) = image_mset fst (filter_mset (\<lambda>k. \<not> snd k) (answer_keys v))"
  by (induction v) (auto simp: to_send_def answer_keys_def)

lemma sent_and_pending:
  assumes "answer_keys v + queue_keys d = queue_keys (w_dev w) + X"
    and "w_sent w' = w_sent w @ to_send v" "w_dev w' = d"
  shows "answered w' + pending w' = answered w + pending w + image_mset fst (filter_mset (\<lambda>k. \<not> snd k) X)"
proof -
  let ?f = "\<lambda>M :: (nat \<times> bool) multiset. image_mset fst (filter_mset (\<lambda>k. \<not> snd k) M)"
  have "answered w' + pending w' = answered w + ?f (answer_keys v + queue_keys d)"
    by (simp add: answered_def pending_def assms(2,3) sent_keys add.assoc)
  then show ?thesis by (simp add: assms(1) pending_def add.assoc)
qed

lemma complete_sends:
  assumes "get_all_complete_response add b (w_dev w) = (v, d)" "map_ok (m_map_q (d_q (w_dev w)))"
    and "\<And>r a. add = Some (r, a) \<Longrightarrow> r_uid r \<notin> fst ` set_mset (queue_keys (w_dev w))"
    and "sync_keys (w_dev w) = [] \<or> (\<exists>r a. add = Some (r, a) \<and> sync_keys (w_dev w) = [rkey r])"
  shows "answer_keys v + queue_keys d = queue_keys (w_dev w) + (case add of None \<Rightarrow> {#} | Some (r, a) \<Rightarrow> {#rkey r#})
    \<and> sync_keys d = [] \<and> map_ok (m_map_q (d_q d))"
proof -
  let ?Q = "queue_keys (w_dev w)" and ?Q' = "queue_keys d"
  obtain v1 where c: "answer_keys v1 + ?Q' = ?Q + mset (take 1 (sync_keys (w_dev w)))" "?Q' \<subseteq># ?Q"
    "answer_keys v = answer_keys v1
       + (case add of None \<Rightarrow> {#} | Some (r, a) \<Rightarrow> if r_uid r \<in># image_mset fst (answer_keys v1) then {#} else {#rkey r#})"
    and ok: "map_ok (m_map_q (d_q d))" "sync_keys d = tl (sync_keys (w_dev w))"
    using complete_response_keys[OF assms(1,2)] by blast
  obtain P where P: "?Q = P + ?Q'" using c(2) by (metis add.commute subset_mset.add_diff_inverse)
  show ?thesis
  proof (cases add)
    case None
    then show ?thesis using c(1,3) ok assms(4) by auto
  next
    case (Some ra)
    obtain r a where ra: "add = Some (r, a)" using Some by (cases ra) simp
    have new: "r_uid r \<notin> fst ` set_mset P" using assms(3)[OF ra] P by auto
    show ?thesis
    proof (cases "sync_keys (w_dev w) = []")
      case True
      then have "answer_keys v1 = P" using c(1) P by simp
      then show ?thesis using c(3) ra new P ok True by simp
    next
      case False
      then have sync: "sync_keys (w_dev w) = [rkey r]" using assms(4) ra by simp
      then have "answer_keys v1 = add_mset (rkey r) P" using c(1) P by simp
      then show ?thesis using c(3) ra P ok sync by simp
    qed
  qed
qed

lemma once_inv_start: "once_inv [] dev_worker_ini"
  by (simp add: once_inv_def dev_worker_ini_def dev_ctl_ini_def q_mgmt_ini_def sync_keys_def queue_keys_def
      answered_def pending_def from_clients_def)

lemma once_inv_callback:
  assumes "once_inv rs w" "run_callback qi (w_dev w) = Some (x, d)"
  shows "once_inv rs (w\<lparr>w_dev := d\<rparr>)"
proof -
  note k = run_callback_keys[OF assms(2)]
  then have "queue_keys d = queue_keys (w_dev w)" by (simp add: queue_keys_def)
  then show ?thesis
    using assms(1) k map_keys_ok[of "m_map_q (d_q d)" "m_map_q (d_q (w_dev w))"]
    by (simp add: once_inv_def answered_def pending_def)
qed

lemma once_inv_idle:
  assumes "once_inv rs w"
  shows "once_inv rs (worker_idle_round w)"
proof (cases "w_cur w = None")
  case False
  obtain v d where g: "get_all_complete_response None True (w_dev w) = (v, d)" by fastforce
  have c: "answer_keys v + queue_keys d = queue_keys (w_dev w)" "sync_keys d = []" "map_ok (m_map_q (d_q d))"
    using complete_sends[OF g] assms by (auto simp: once_inv_def)
  have sub: "set_mset (queue_keys d) \<subseteq> set_mset (queue_keys (w_dev w))"
    unfolding c(1)[symmetric] by simp
  have w': "worker_idle_round w = w\<lparr>w_dev := d, w_sent := w_sent w @ to_send v,
      w_cur := (if list_ex (\<lambda>(r', _). same_req (w_cur w) r') v then None else w_cur w)\<rparr>"
    using False g by (cases w) (auto simp: worker_idle_round_def dev_continue_def)
  have "answered (worker_idle_round w) + pending (worker_idle_round w) = answered w + pending w"
    using sent_and_pending[of v d w "{#}" "worker_idle_round w"] c(1) by (simp add: w')
  then show ?thesis using assms c sub by (auto simp: once_inv_def w')
qed (use assms in \<open>simp add: worker_idle_round_def\<close>)

lemma once_inv_request:
  assumes "once_inv rs w" "r_uid r \<notin> r_uid ` set rs"
    and "dev_execute to_mcs to_wide h env r cbs w = Some (w', cbs')"
  shows "once_inv (rs @ [r]) w'"
proof -
  obtain x w1 where x: "exe_switch to_mcs to_wide h env r cbs w = Some (x, w1, cbs')" and w': "w' = exe_after r x w1"
    using assms(3) by (auto simp: dev_execute_def)
  have a: "switch_adds r w x w1" by (rule exe_switch_adds[OF _ _ x]) (use assms(1) in \<open>auto simp: once_inv_def\<close>)
  have new: "r_uid r \<notin> fst ` set_mset (queue_keys (w_dev w))" using assms(1,2) by (auto simp: once_inv_def)
  have old: "answered w + pending w = mset (map r_uid (from_clients rs))" using assms(1) by (simp add: once_inv_def)
  have keys: "fst ` set_mset (queue_keys (w_dev w)) \<subseteq> r_uid ` set rs" using assms(1) by (simp add: once_inv_def)
  show ?thesis
  proof (cases x)
    case (exe_error n)
    then show ?thesis using a old keys
      by (auto simp: w' exe_after_def switch_adds_def once_inv_def answered_def pending_def from_clients_def to_send_def)
  next
    case exe_going
    then show ?thesis using a old keys
      by (auto simp: w' exe_after_def switch_adds_def once_inv_def answered_def pending_def from_clients_def)
  next
    case (exe_done ans)
    obtain v d where g: "get_all_complete_response (Some (r, ans)) True (w_dev w1) = (v, d)" by fastforce
    have q: "queue_keys (w_dev w1) = queue_keys (w_dev w)" "map_ok (m_map_q (d_q (w_dev w1)))"
      "sync_keys (w_dev w1) = [] \<or> sync_keys (w_dev w1) = [rkey r]" "w_sent w1 = w_sent w"
      using a exe_done by (auto simp: switch_adds_def)
    have c: "answer_keys v + queue_keys d = queue_keys (w_dev w) + {#rkey r#}" "sync_keys d = []" "map_ok (m_map_q (d_q d))"
      using complete_sends[OF g] q new by auto
    have "set_mset (queue_keys d) \<subseteq> set_mset (queue_keys (w_dev w) + {#rkey r#})"
      unfolding c(1)[symmetric] by simp
    then have keys': "fst ` set_mset (queue_keys d) \<subseteq> r_uid ` set (rs @ [r])" using keys by force
    have w2: "w_sent w' = w_sent w @ to_send v" "w_dev w' = d"
      by (simp_all add: w' exe_done exe_after_def g Let_def q(4))
    have "answered w' + pending w' = mset (map r_uid (from_clients (rs @ [r])))"
      using sent_and_pending[OF c(1) w2] old by (simp add: from_clients_def)
    then show ?thesis using c(2,3) keys' by (simp add: once_inv_def w2(2))
  qed
qed

text \<open>C8. 
  Every request is answered exactly once. Whatever the callbacks of the device do and in whatever order
  requests, callbacks and idle rounds come: the objects of the responses that were sent, with those of the
  requests of clients that wait in a read queue, are the objects of the requests of clients that the worker
  took, each as often. Between two steps the queue for requests that are served at once is empty.
\<close>

theorem answered_once:
  assumes "dev_steps to_mcs to_wide rs w"
  shows "answered w + pending w = mset (map r_uid (from_clients rs)) \<and> m_q_sync (d_q (w_dev w)) = []"
proof -
  from assms have "once_inv rs w"
    by (induction rule: dev_steps.induct)
      (auto intro: once_inv_start once_inv_callback once_inv_request once_inv_idle)
  then show ?thesis by (simp add: once_inv_def sync_keys_def)
qed

declare utf8_loop.simps [code]

definition example_request :: "nat \<Rightarrow> u32 \<Rightarrow> byte \<Rightarrow> string \<Rightarrow> request" where
  "example_request n_uid session act s =
     \<lparr>r_uid = n_uid, r_packet = the (cio_packet_vector
        \<lparr>c_cmd = cmd_request, n_session = session, c_owner = owner_device, dw_device_index = 1, c_act = act,
          c_in_id = 0, c_out_id = 0, n_data = 0\<rparr>
        data_field_string_utf8 (if s = [] then [] else text_of s @ [0, 0]))\<rparr>"

definition example_hid :: hid_env where
  "example_hid = \<lparr>e_is_ini = True, e_device = (\<lambda>s. Some (True, True))\<rparr>"

definition example_execute :: "request \<Rightarrow> dev_worker \<Rightarrow> (dev_worker \<times> cqitem_dev list) option" where
  "example_execute r w = dev_execute (map ucast) (map ucast) example_host example_hid r [] w"

definition example_w1 :: dev_worker where
  "example_w1 = fst (the (example_execute (example_request 1 7 act_dev_open ''/d'') dev_worker_ini))"

definition example_w2 :: dev_worker where
  "example_w2 = fst (the (example_execute (example_request 2 7 act_dev_read []) example_w1))"

lemma example_run:
  "case example_execute (example_request 1 7 act_dev_open ''/d'') dev_worker_ini of
     None \<Rightarrow> False
   | Some (w1, c1) \<Rightarrow>
       (case example_execute (example_request 2 7 act_dev_read []) w1 of
          None \<Rightarrow> False
        | Some (w2, c2) \<Rightarrow> c1 = [] \<and> c2 = [] \<and> map (\<lambda>(r, a). r_uid r) (w_sent w2) = [1]
            \<and> map_of (d_map (w_dev w1)) 9 = None \<and> map_option m_st_cur (map_of (d_map (w_dev w2)) 7) = Some st_asy)"
  by code_simp

lemma example_results:
  "example_execute (example_request 1 7 act_dev_open ''/d'') dev_worker_ini = Some (example_w1, [])"
  "example_execute (example_request 2 7 act_dev_read []) example_w1 = Some (example_w2, [])"
  "map (\<lambda>(r, a). r_uid r) (w_sent example_w2) = [1]" "map_of (d_map (w_dev example_w1)) 9 = None"
  "map_option m_st_cur (map_of (d_map (w_dev example_w2)) 7) = Some st_asy"
  using example_run by (auto simp: example_w1_def example_w2_def split: option.splits prod.splits)

lemma example_headers:
  "r_uid (example_request n session act s) = n" "r_session (example_request 2 7 act_dev_read []) = 7"
  "\<not> r_is_self (example_request 1 7 act_dev_open ''/d'')" "\<not> r_is_self (example_request 2 7 act_dev_read [])"
  by (simp_all add: example_request_def) code_simp+

lemma example_step1: "dev_steps (map ucast) (map ucast) [example_request 1 7 act_dev_open ''/d''] example_w1"
  using dev_request[OF dev_start _ example_results(1)[unfolded example_execute_def]] by simp

lemma example_step2:
  "dev_execute (map ucast) (map ucast) example_host example_hid (example_request 2 7 act_dev_read []) []
     example_w1 = Some (example_w2, [])"
  using example_results(2) by (simp add: example_execute_def)

lemma example_steps:
  "dev_steps (map ucast) (map ucast)
     [example_request 1 7 act_dev_open ''/d'', example_request 2 7 act_dev_read []] example_w2"
  using dev_request[OF example_step1 _ example_step2] by (simp add: example_request_def)

theorem answered_once_witness: "answered example_w2 + pending example_w2 = {#1, 2#} \<and> answered example_w2 = {#1#}"
  using answered_once[OF example_steps] example_results(3)
  by (simp add: example_headers from_clients_def answered_def del: One_nat_def)

end
