(* ===== verification/DevSessions.thy ===== *)
theory DevSessions
  imports DevOnce
begin

text \<open>
  The sessions that share a device: the states that are stored are those of open sessions, what one session
  does leaves the state of another alone, or ends its reading, and the cases where the code departs from the rules of
  its comments.
\<close>

section \<open>Stored states\<close>

definition open_state :: "type_state \<Rightarrow> bool" where
  "open_state st = (st = st_idl \<or> st = st_asy)"

definition sessions_ok :: "dev_ctl \<Rightarrow> bool" where
  "sessions_ok d =
     (map_ok (d_map d) \<and> (\<forall>k s. map_of (d_map d) k = Some s \<longrightarrow> open_state (m_st_cur s))
      \<and> (d_map d = [] \<longrightarrow> \<not> d_shared d) \<and> (d_path d = [] \<longleftrightarrow> d_map d = []))"

lemma map_put_not_Nil [simp]: "map_put k v m \<noteq> []"
  by (induction k v m rule: map_put.induct) simp_all

lemma cstate_set_open:
  assumes "cstate_set evt s = Some (x, s')" "open_state (m_st_cur s)" "evt \<noteq> ev_close"
  shows "open_state (m_st_cur s')"
  using assms by (cases "m_st_cur s"; cases evt) (auto simp: cstate_set_def open_state_def)

lemma sessions_ok_put:
  assumes "sessions_ok d" "map_of (d_map d) session = Some s" "open_state (m_st_cur s')"
  shows "sessions_ok (d\<lparr>d_map := map_put session s' (d_map d)\<rparr>)"
  using assms by (cases "d_map d") (auto simp: sessions_ok_def map_put_ok map_of_map_put)

lemma sessions_ok_same:
  assumes "sessions_ok d" "d_map d' = d_map d" "d_shared d' = d_shared d" "d_path d' = d_path d"
  shows "sessions_ok d'"
  using assms by (simp add: sessions_ok_def)

text \<open>Another session: its state is the same or it stopped reading.\<close>

definition may_idle :: "cstate option \<Rightarrow> cstate option \<Rightarrow> bool" where
  "may_idle s s' =
     (case (s, s') of
        (None, None) \<Rightarrow> True
      | (Some s, Some s') \<Rightarrow> m_st_cur s' = m_st_cur s \<or> m_st_cur s = st_asy \<and> m_st_cur s' = st_idl
      | _ \<Rightarrow> False)"

lemma may_idle_refl [simp]: "may_idle s s"
  by (simp add: may_idle_def split: option.split)

lemma may_idle_trans: "may_idle a b \<Longrightarrow> may_idle b c \<Longrightarrow> may_idle a c"
  by (auto simp: may_idle_def split: option.splits)

definition others_kept :: "u32 option \<Rightarrow> dev_ctl \<Rightarrow> dev_ctl \<Rightarrow> bool" where
  "others_kept session d d' = (\<forall>k. session \<noteq> Some k \<longrightarrow> may_idle (map_of (d_map d) k) (map_of (d_map d') k))"

lemma others_kept_trans: "others_kept x a b \<Longrightarrow> others_kept x b c \<Longrightarrow> others_kept x a c"
  by (auto simp: others_kept_def intro: may_idle_trans)

lemma others_kept_same: "d_map d' = d_map d \<Longrightarrow> others_kept x d d'"
  by (simp add: others_kept_def)

lemma others_kept_None: "others_kept None d d' \<Longrightarrow> others_kept x d d'"
  by (simp add: others_kept_def)

text \<open>Both together.\<close>

definition step_ok :: "u32 option \<Rightarrow> dev_ctl \<Rightarrow> dev_ctl \<Rightarrow> bool" where
  "step_ok session d d' = (sessions_ok d \<longrightarrow> sessions_ok d' \<and> others_kept session d d')"

lemma step_ok_trans: "step_ok x a b \<Longrightarrow> step_ok x b c \<Longrightarrow> step_ok x a c"
  by (auto simp: step_ok_def intro: others_kept_trans)

lemma step_ok_same:
  "d_map d' = d_map d \<Longrightarrow> d_shared d' = d_shared d \<Longrightarrow> d_path d' = d_path d \<Longrightarrow> step_ok x d d'"
  by (simp add: step_ok_def sessions_ok_def others_kept_same)

lemma step_ok_None: "step_ok None d d' \<Longrightarrow> step_ok x d d'"
  by (simp add: step_ok_def others_kept_None)

lemma transit_by_rx_ok: "transit_by_rx rs d = Some d' \<Longrightarrow> step_ok None d d'"
proof (induction rs d rule: transit_by_rx.induct)
  case (2 r rs d)
  show ?case
  proof (cases "map_of (d_map d) (r_session r) = None \<or> r_action r = act_dev_open \<or> r_action r = act_dev_close")
    case True
    then show ?thesis using 2 by (auto split: option.splits)
  next
    case False
    then obtain s where s: "map_of (d_map d) (r_session r) = Some s" by auto
    obtain x s' where c: "cstate_set ev_rx s = Some (x, s')"
      using 2(4) False s by (auto split: option.splits)
    define d1 where "d1 = d\<lparr>d_map := map_put (r_session r) s' (d_map d)\<rparr>"
    have one: "step_ok None d d1"
      unfolding step_ok_def
    proof
      assume ok: "sessions_ok d"
      then have o: "open_state (m_st_cur s)" using s by (simp add: sessions_ok_def)
      have "may_idle (Some s) (Some s')"
        using c o by (cases "m_st_cur s") (auto simp: cstate_set_def open_state_def may_idle_def)
      then show "sessions_ok d1 \<and> others_kept None d d1"
        using sessions_ok_put[OF ok s cstate_set_open[OF c o]] s
        by (auto simp: d1_def others_kept_def map_of_map_put)
    qed
    obtain d2 where d2: "transit_by_rx rs d2 = Some d'" "d_map d2 = d_map d1" "d_shared d2 = d_shared d1" "d_path d2 = d_path d1"
      and ih: "step_ok None d2 d'"
      using 2 False s c by (cases x) (auto simp: Let_def d1_def split: if_splits)
    have "step_ok None d1 d2" using d2 by (intro step_ok_same) simp_all
    then show ?thesis using one ih by (blast intro: step_ok_trans)
  qed
qed (simp add: step_ok_same)

lemma run_callback_ok: "run_callback qi d = Some (x, d') \<Longrightarrow> step_ok None d d'"
proof -
  have read: "step_ok None d d'" if "cb_dev_read b qi d = Some (x, d')" for b
  proof -
    obtain rs ns q where q: "qm_read_set_response_front qi (d_q d) = (rs, ns, q)" by (metis prod_cases3)
    have "step_ok None d (d\<lparr>d_q := q\<rparr>)" by (rule step_ok_same) simp_all
    moreover have "d' = d \<or> d' = d\<lparr>d_q := q\<rparr> \<or> transit_by_rx rs (d\<lparr>d_q := q\<rparr>) = Some d'"
      using that q by (auto simp: cb_dev_read_def Let_def split: if_splits)
    ultimately show ?thesis using transit_by_rx_ok step_ok_trans by (auto intro: step_ok_same)
  qed
  show "run_callback qi d = Some (x, d') \<Longrightarrow> step_ok None d d'"
    using read by (auto simp: run_callback_def cb_sync_def split: type_cb.splits list.splits option.splits
        intro: step_ok_same)
qed

lemma wait_event_ok: "wait_event uid cbs d = Some (a, d', cbs') \<Longrightarrow> step_ok None d d'"
proof (induction cbs arbitrary: d)
  case Nil
  then show ?case by (auto simp: wait_event.simps[of _ "[]"] intro: step_ok_same split: option.splits)
next
  case (Cons c cs)
  show ?case
  proof (cases "find (event_set uid) (m_q_sync (d_q d))")
    case None
    then obtain x d1 where "run_callback c d = Some (x, d1)" "wait_event uid cs d1 = Some (a, d', cbs')"
      using Cons.prems by (auto simp: wait_event.simps[of _ "c # cs"] split: option.splits)
    then show ?thesis using run_callback_ok Cons.IH step_ok_trans by blast
  qed (use Cons.prems in \<open>auto simp: wait_event.simps[of _ "c # cs"] intro: step_ok_same\<close>)
qed

lemma start_sync_ok: "step_ok x d (start_sync s v b r d)" "step_ok x d (mark_others r d)"
  by (rule step_ok_same; simp add: start_sync_def push_to_device_def mark_others_def)+

lemma sync_req_ok:
  assumes "start_and_complete_by_sync_req env s r cbs d = Some (a, d', cbs')"
  shows "step_ok x d d'"
proof -
  have "d' = d \<or> (\<exists>v b a. wait_event (r_uid r) cbs (start_sync s v b r d) = Some (a, d', cbs'))"
    using assms by (auto simp: start_and_complete_by_sync_req_def split: if_splits option.splits)
  then show ?thesis
    by (auto intro: step_ok_same step_ok_trans[OF start_sync_ok(1) step_ok_None[OF wait_event_ok]])
qed

lemma cancel_self_ok:
  assumes "start_and_complete_by_cancel_self_req env s r cbs d = Some (b, d', cbs')"
  shows "step_ok x d d'"
proof -
  have "d' = d \<or> (\<exists>a. wait_event (r_uid r) cbs (start_sync s [] False r d) = Some (a, d', cbs'))"
    using assms by (auto simp: start_and_complete_by_cancel_self_req_def split: if_splits)
  then show ?thesis
    by (auto intro: step_ok_same step_ok_trans[OF start_sync_ok(1) step_ok_None[OF wait_event_ok]])
qed

lemma async_req_ok: "start_by_async_req env s r d = Some (b, d') \<Longrightarrow> step_ok x d d'"
  by (auto simp: start_by_async_req_def push_to_device_def intro!: step_ok_same split: if_splits option.splits)

lemma cur_event_ops [simp]:
  "get_cur_event (success_complete s res) = get_cur_event res"
  "get_cur_event (success_complete_with a s res) = get_cur_event res"
  "get_cur_event (success_ing s res) = get_cur_event res"
  "m_ptr_req (success_complete_with a s res) = m_ptr_req res" "m_ptr_req (success_ing s res) = m_ptr_req res"
  by (simp_all add: get_cur_event_def result_ops)

lemma finish_transit_map:
  "finish_transit session x res d = (res', d') \<Longrightarrow> d_map d' = d_map d \<and> d_shared d' = d_shared d \<and> d_path d' = d_path d"
  by (auto simp: finish_transit_def Let_def)

lemma transit_by_result_ok:
  assumes "transit_by_result b res d = Some (res', d')" "get_cur_event res \<noteq> ev_open"
  shows "step_ok (Some (r_session (m_ptr_req res))) d d'"
proof (cases "map_of (d_map d) (r_session (m_ptr_req res))")
  case None
  then show ?thesis using assms by (auto simp: transit_by_result_def Let_def step_ok_same)
next
  case (Some s)
  let ?session = "r_session (m_ptr_req res)"
  obtain x s' where c: "cstate_set (get_cur_event res) s = Some (x, s')"
    using assms Some by (auto simp: transit_by_result_def Let_def)
  show ?thesis
    unfolding step_ok_def
  proof
    assume ok: "sessions_ok d"
    then have o: "open_state (m_st_cur s)" using Some by (simp add: sessions_ok_def)
    show "sessions_ok d' \<and> others_kept (Some ?session) d d'"
    proof (cases "get_cur_event res = ev_close")
      case True
      then have m: "d_map d' = map_erase ?session (d_map d)
          \<and> (if d_map d' = [] then \<not> d_shared d' \<and> d_path d' = [] else d_path d' = d_path d)"
        using assms Some c by (auto simp: transit_by_result_def Let_def reset_ctl_def dest!: finish_transit_map split: if_splits)
      then show ?thesis
        using ok Some by (auto simp: sessions_ok_def map_erase_ok map_of_map_erase others_kept_def split: if_splits)
    next
      case False
      then have m: "d_map d' = map_put ?session s' (d_map d)" "d_shared d' = d_shared d" "d_path d' = d_path d"
        using assms Some c by (auto simp: transit_by_result_def Let_def dest!: finish_transit_map)
      have "sessions_ok (d\<lparr>d_map := map_put ?session s' (d_map d)\<rparr>)"
        by (rule sessions_ok_put[OF ok Some cstate_set_open[OF c o False]])
      then show ?thesis using m by (auto simp: sessions_ok_def others_kept_def map_of_map_put)
    qed
  qed
qed

lemma proc_open_ok:
  assumes "proc_event_open to_wide env b res d = Some (res', d')" "get_cur_event res = ev_open"
  shows "step_ok (Some (r_session (m_ptr_req res))) d d'"
proof (cases "d' = d")
  case True
  then show ?thesis by (simp add: step_ok_same)
next
  case False
  let ?session = "r_session (m_ptr_req res)"
  obtain s_path b_shared where path: "s_path \<noteq> []"
    and t: "transit_by_result b_shared (success_complete s_path res) (d\<lparr>d_path := s_path\<rparr>) = Some (res', d')"
    using assms(1) False by (auto simp: proc_event_open_def split: option.splits if_splits)
  define d1 where "d1 = (if d_map d = [] then reset_ctl b_shared (d\<lparr>d_path := s_path\<rparr>) else d\<lparr>d_path := s_path\<rparr>)"
  define s where "s = (case map_of (d_map d1) ?session of None \<Rightarrow> cstate_reset | Some s \<Rightarrow> s)"
  obtain x s' where c: "cstate_set ev_open s = Some (x, s')"
    and d': "d_map d' = map_put ?session s' (d_map d1)" "d_path d' = s_path"
    using t assms(2)
    by (auto simp: transit_by_result_def Let_def success_complete_def get_cur_event_def d1_def s_def reset_ctl_def
        dest!: finish_transit_map split: if_splits)
  have d1: "d_map d1 = d_map d" by (simp add: d1_def reset_ctl_def)
  show ?thesis
    unfolding step_ok_def
  proof
    assume ok: "sessions_ok d"
    then have "m_st_cur s = st_not \<or> open_state (m_st_cur s)"
      by (auto simp: s_def d1 cstate_reset_def sessions_ok_def split: option.split)
    then have "open_state (m_st_cur s')"
      using c by (cases "m_st_cur s") (auto simp: cstate_set_def open_state_def)
    then show "sessions_ok d' \<and> others_kept (Some ?session) d d'"
      using ok d' path by (auto simp: sessions_ok_def others_kept_def map_put_ok map_of_map_put d1)
  qed
qed

text \<open>The same of whatever a handler returns.\<close>

definition all_ok :: "u32 \<Rightarrow> dev_ctl \<Rightarrow> (cresult \<times> dev_ctl \<times> cqitem_dev list) option \<Rightarrow> bool" where
  "all_ok session d x = (\<forall>res d' cbs. x = Some (res, d', cbs) \<longrightarrow> step_ok (Some session) d d')"

lemma all_ok_same: "all_ok session d (Some (res, d, cbs))"
  by (simp add: all_ok_def step_ok_same)

lemma all_ok_transit:
  "get_cur_event res \<noteq> ev_open \<Longrightarrow> r_session (m_ptr_req res) = session \<Longrightarrow> all_ok session d (then_transit cbs res d)"
  by (auto simp: all_ok_def then_transit_def dest: transit_by_result_ok)

lemma all_ok_sync:
  assumes "get_cur_event res \<noteq> ev_open" "r_session (m_ptr_req res) = session"
  shows "all_ok session d (proc_sync env res cbs d)"
  unfolding all_ok_def
proof (intro allI impI)
  fix res' d' cbs'
  assume p: "proc_sync env res cbs d = Some (res', d', cbs')"
  then obtain a d1 cbs1 where s: "start_and_complete_by_sync_req env (d_path d) (m_ptr_req res) cbs d = Some (a, d1, cbs1)"
    by (auto simp: proc_sync_def split: option.splits)
  note ok = sync_req_ok[OF s, of "Some session"]
  show "step_ok (Some session) d d'"
  proof (cases a)
    case None
    then show ?thesis using p s ok by (auto simp: proc_sync_def)
  next
    case (Some ans)
    have "all_ok session d1 (then_transit cbs1 (success_complete_with (Some ans) (d_path d1) res) d1)"
      by (rule all_ok_transit) (simp_all add: assms)
    then show ?thesis using p s Some ok step_ok_trans by (auto simp: proc_sync_def all_ok_def)
  qed
qed

lemma all_ok_asy:
  assumes "get_cur_event res \<noteq> ev_open" "r_session (m_ptr_req res) = session"
  shows "all_ok session d (proc_asy env res cbs d)"
  unfolding all_ok_def
proof (intro allI impI)
  fix res' d' cbs'
  assume p: "proc_asy env res cbs d = Some (res', d', cbs')"
  then obtain b d1 where s: "start_by_async_req env (d_path d) (m_ptr_req res) d = Some (b, d1)"
    by (auto simp: proc_asy_def split: option.splits)
  have "all_ok session d1 (then_transit cbs (success_ing (d_path d1) res) d1)"
    by (rule all_ok_transit) (simp_all add: assms)
  then show "step_ok (Some session) d d'"
    using p s async_req_ok[OF s, of "Some session"] step_ok_trans
    by (auto simp: proc_asy_def all_ok_def split: if_splits)
qed

lemma all_ok_cancel_close:
  assumes "get_cur_event res \<noteq> ev_open" "r_session (m_ptr_req res) = session"
  shows "all_ok session d (proc_cancel_close env res cbs d)"
  unfolding all_ok_def
proof (intro allI impI)
  fix res' d' cbs'
  assume p: "proc_cancel_close env res cbs d = Some (res', d', cbs')"
  then obtain b d1 cbs1
    where s: "start_and_complete_by_cancel_self_req env (m_s_dev_path res) (m_ptr_req res) cbs d = Some (b, d1, cbs1)"
    by (auto simp: proc_cancel_close_def split: option.splits)
  have "all_ok session d1 (then_transit cbs1 (success_complete (d_path d1) res) d1)"
    by (rule all_ok_transit) (simp_all add: assms)
  then show "step_ok (Some session) d d'"
    using p s cancel_self_ok[OF s, of "Some session"] step_ok_trans
    by (auto simp: proc_cancel_close_def all_ok_def split: if_splits)
qed

lemma all_ok_sync_marked:
  assumes "get_cur_event res \<noteq> ev_open" "r_session (m_ptr_req res) = session"
  shows "all_ok session d (proc_sync env res cbs (mark_others r d))"
  using all_ok_sync[OF assms, of "mark_others r d" env cbs] start_sync_ok(2)[of "Some session" d r] step_ok_trans
  by (auto simp: all_ok_def)

lemma handlers_ok:
  assumes "r_session (m_ptr_req res) = session"
  shows "all_ok session d (process_exclusive_st_not to_wide env res cbs d)"
    "all_ok session d (process_exclusive_st_idl env res cbs d)"
    "all_ok session d (process_exclusive_st_asy env res cbs d)"
    "all_ok session d (process_shared_not_open to_wide env res cbs d)"
    "all_ok session d (process_shared_idl_idl env res cbs d)"
    "all_ok session d (process_shared_idl_asy env res cbs d)"
    "all_ok session d (process_shared_asy_asy env res cbs d)"
proof -
  have opened: "all_ok session d (map_option (\<lambda>(res', d'). (res', d', cbs)) (proc_event_open to_wide env b res d))"
    if "get_cur_event res = ev_open" for b
    using proc_open_ok[OF _ that] assms by (auto simp: all_ok_def)
  note parts = opened all_ok_same all_ok_sync all_ok_asy all_ok_cancel_close all_ok_sync_marked all_ok_transit
  show "all_ok session d (process_exclusive_st_not to_wide env res cbs d)"
    "all_ok session d (process_exclusive_st_idl env res cbs d)"
    "all_ok session d (process_exclusive_st_asy env res cbs d)"
    "all_ok session d (process_shared_not_open to_wide env res cbs d)"
    "all_ok session d (process_shared_idl_idl env res cbs d)"
    "all_ok session d (process_shared_idl_asy env res cbs d)"
    "all_ok session d (process_shared_asy_asy env res cbs d)"
    unfolding process_exclusive_st_not_def process_exclusive_st_idl_def process_exclusive_st_asy_def
      process_shared_not_open_def process_shared_idl_idl_def process_shared_idl_asy_def process_shared_asy_asy_def
    using assms by (cases "get_cur_event res"; simp add: parts)+
qed

lemma process_event_ok:
  assumes "process_event to_wide env r cbs d = Some (res, d', cbs')"
  shows "step_ok (Some (r_session r)) d d'"
proof -
  note h = handlers_ok[of "new_cresult r (d_path d)" "r_session r", simplified]
  have "all_ok (r_session r) d (process_event_on_shared_mode to_wide env r cbs d)"
    by (simp add: process_event_on_shared_mode_def Let_def h all_ok_same)
  moreover have "all_ok (r_session r) d (process_event_on_exclusive_mode to_wide env r cbs d)"
    by (simp add: process_event_on_exclusive_mode_def Let_def h all_ok_same split: type_state.split)
  ultimately show ?thesis
    using assms by (auto simp: process_event_def all_ok_def step_ok_same split: if_splits)
qed

lemma complete_response_same:
  "get_all_complete_response add b d = (v, d') \<Longrightarrow> d_map d' = d_map d \<and> d_shared d' = d_shared d \<and> d_path d' = d_path d"
  by (auto simp: get_all_complete_response_def Let_def split: prod.splits option.splits if_splits)

lemma exe_after_ok: "step_ok x (w_dev w) (w_dev (exe_after r y w))"
  by (cases y) (auto simp: exe_after_def Let_def intro!: step_ok_same dest: complete_response_same split: prod.split)

lemma dev_execute_ok:
  assumes "dev_execute to_mcs to_wide h env r cbs w = Some (w', cbs')"
  shows "step_ok (Some (r_session r)) (w_dev w) (w_dev w')"
proof -
  obtain x w1 where x: "exe_switch to_mcs to_wide h env r cbs w = Some (x, w1, cbs')" and w': "w' = exe_after r x w1"
    using assms by (auto simp: dev_execute_def)
  have "w_dev w1 = w_dev w \<or> (\<exists>res. process_event to_wide env r cbs (w_dev w) = Some (res, w_dev w1, cbs'))"
    using x by (auto simp: exe_switch_def dest!: boot_same_dev split: if_splits option.splits)
  then have "step_ok (Some (r_session r)) (w_dev w) (w_dev w1)"
    using process_event_ok by (auto simp: step_ok_same)
  then show ?thesis unfolding w' by (rule step_ok_trans[OF _ exe_after_ok])
qed

lemma idle_round_ok: "step_ok x (w_dev w) (w_dev (worker_idle_round w))"
  by (auto simp: worker_idle_round_def dev_continue_def intro!: step_ok_same dest: complete_response_same split: prod.split)

lemma reachable_sessions_ok: "dev_steps to_mcs to_wide rs w \<Longrightarrow> sessions_ok (w_dev w)"
proof (induction rule: dev_steps.induct)
  case dev_start
  then show ?case by (simp add: sessions_ok_def dev_worker_ini_def dev_ctl_ini_def)
next
  case (dev_callback rs w qi x d)
  then show ?case using run_callback_ok[of qi "w_dev w" x d] by (simp add: step_ok_def)
next
  case (dev_request rs w r h env cbs w')
  then show ?case using dev_execute_ok by (auto simp: step_ok_def)
next
  case (dev_idle rs w)
  then show ?case using idle_round_ok[of None w] by (simp add: step_ok_def)
qed

text \<open>C10. 
  The stored states. In every state the worker reaches, each stored session is idle or reading, never closed
  or undefined; while no session is open the device is not shared and has no path, and it has a path while one is.
\<close>

theorem session_states:
  assumes "dev_steps to_mcs to_wide rs w"
  shows "(\<forall>k s. map_of (d_map (w_dev w)) k = Some s \<longrightarrow> m_st_cur s = st_idl \<or> m_st_cur s = st_asy)
    \<and> (d_map (w_dev w) = [] \<longrightarrow> \<not> d_shared (w_dev w)) \<and> (d_path (w_dev w) = [] \<longleftrightarrow> d_map (w_dev w) = [])"
  using reachable_sessions_ok[OF assms] by (auto simp: sessions_ok_def open_state_def)

theorem session_states_witness:
  "\<exists>s. map_of (d_map (w_dev example_w2)) 7 = Some s \<and> m_st_cur s = st_asy \<and> d_path (w_dev example_w2) \<noteq> []"
proof -
  note s = example_results(5)
  moreover from s have "d_map (w_dev example_w2) \<noteq> []" by auto
  ultimately show ?thesis using session_states[OF example_steps] by auto
qed



section \<open>Departures\<close>

text \<open>
  Two sessions have an answered read. Collecting the responses takes the first and steps over the second,
  and when the first was the current request nothing collects the second later.
\<close>

lemma answered_read_left_behind:
  assumes "m_map_q (d_q (w_dev w)) = [(k1, [e1]), (k2, [e2])]" "m_q_sync (d_q (w_dev w)) = []"
    and "q_signal e1 > 0" "q_signal e2 > 0" "w_cur w = Some (q_req e1)"
  shows "m_map_q (d_q (w_dev (worker_idle_round w))) = [(k2, [e2])]"
    "w_cur (worker_idle_round w) = None" "worker_idle_round (worker_idle_round w) = worker_idle_round w"
  using assms
  by (simp_all add: worker_idle_round_def dev_continue_def get_all_complete_response_def qm_sync_pop_front_def
      cq_pop_front_def qm_read_pop_front_remove_complete_of_all_by_rsp_ptr_def Let_def same_req_def)

text \<open>A device that one session opened for itself is opened by a second session that asks for sharing.\<close>

lemma exclusive_device_opened_twice:
  assumes "\<not> d_shared d" "d_map d = [(k, s)]" "r_session r \<noteq> k" "r_action r = act_dev_open"
    and "get_device_path_from_req to_wide env r = Some (s_path, True)" "s_path \<noteq> []"
    and "e_device env s_path = Some (True, True)"
  shows "\<exists>res d'. process_event to_wide env r cbs d = Some (Some res, d', cbs) \<and> m_ptr_rsp res = Some ans_success
    \<and> \<not> d_shared d' \<and> map_of (d_map d') k = Some s \<and> map_of (d_map d') (r_session r) \<noteq> None"
proof -
  have e: "get_event_from_request_action (r_action r) = ev_open" using assms(4) by (simp add: get_event_from_request_action_def)
  have o: "open_device_by_req env s_path True 1" using assms(7) by (simp add: open_device_by_req_def is_openable_def)
  show ?thesis
    using assms e o
    by (auto simp: process_event_def process_event_on_exclusive_mode_def get_state_cur_def Let_def
        process_exclusive_st_not_def get_cur_event_def proc_event_open_def transit_by_result_def finish_transit_def
        cstate_set_def cstate_reset_def result_ops set_combination_state_def set_selected_session_state_def)
qed

text \<open>In shared mode an open request replaces the path of the device, whatever the number of sessions.\<close>

lemma shared_open_unchecked:
  assumes "d_shared d" "map_of (d_map d) (r_session r) = None" "snd (get_state_another (r_session r) d) = st_idl"
    and "r_action r = act_dev_open" "get_device_path_from_req to_wide env r = Some (s_path, b)" "s_path \<noteq> []"
    and "d_map d \<noteq> []"
  shows "\<exists>res d'. process_event to_wide env r cbs d = Some (Some res, d', cbs) \<and> m_ptr_rsp res = Some ans_success
    \<and> d_path d' = s_path \<and> map_of (d_map d') (r_session r) \<noteq> None"
proof -
  have e: "get_event_from_request_action (r_action r) = ev_open" using assms(4) by (simp add: get_event_from_request_action_def)
  show ?thesis
    using assms e
    by (auto simp: process_event_def process_event_on_shared_mode_def get_state_cur_def Let_def map_of_map_put
        process_shared_not_open_def get_cur_event_def proc_event_open_def transit_by_result_def finish_transit_def
        cstate_set_def cstate_reset_def result_ops set_combination_state_def set_selected_session_state_def)
qed

text \<open>A read that the device cancelled answers the front request of every session that is not marked.\<close>

lemma cancelled_read_answers_all:
  assumes "qi_result qi = result_cancel" "qi_tx qi = []" "qi_need_read qi"
    and "m_map_q m = [(k1, [e1]), (k2, [e2])]" "\<not> r_recover (q_req e1)" "\<not> r_recover (q_req e2)"
  shows "m_map_q (snd (snd (qm_read_set_response_front qi m)))
    = [(k1, [q_answer (ans_cancel []) e1]), (k2, [q_answer (ans_cancel []) e2])]"
  using assms
  by (simp add: qm_read_set_response_front_def answer_front_read_def set_response_def get_request_type_def)

text \<open>
  A second result before the worker collected the first goes to the same front request: the first data are
  lost and the second request of the session is not answered.
\<close>

lemma second_result_overwrites:
  assumes "m_map_q m = [(k, [e1, e2])]" "\<not> r_recover (q_req e1)"
    and "qi_result a = result_success" "qi_rx a = x # xs" "qi_need_read a" "qi_tx a = []"
    and "qi_result b = result_success" "qi_rx b = y # ys" "qi_need_read b" "qi_tx b = []"
  shows "m_map_q (snd (snd (qm_read_set_response_front b (snd (snd (qm_read_set_response_front a m))))))
    = [(k, [q_answer (ans_data (y # ys)) (q_answer (ans_data (x # xs)) e1), e2])]"
  using assms
  by (simp add: qm_read_set_response_front_def answer_front_read_def set_response_def get_request_type_def q_answer_def)

end
