(* ===== verification/Version.thy ===== *)
theory Version
  imports Prelude "HOL-Library.Product_Lexorder"
begin

text \<open>
  Model of \<open>_mp::cversion<unsigned char>\<close> (shared/lib/inc/mp_cversion.h): a four-part version
  number with the comparison operators written out as the class writes them, shown to be a
  linear order, so that the library's order automation applies to versions.
\<close>

datatype version =
  Version (get_major: byte) (get_minor: byte) (get_fix: byte) (get_build: byte)

section \<open>Comparison operators\<close>

definition version_gt :: "version \<Rightarrow> version \<Rightarrow> bool" where
  "version_gt v rhs =
     (if get_major v > get_major rhs then True
      else if get_major v < get_major rhs then False
      else if get_minor v > get_minor rhs then True
      else if get_minor v < get_minor rhs then False
      else if get_fix v > get_fix rhs then True
      else if get_fix v < get_fix rhs then False
      else if get_build v > get_build rhs then True
      else False)"

definition version_eq :: "version \<Rightarrow> version \<Rightarrow> bool" where
  "version_eq v rhs =
     (if get_major v \<noteq> get_major rhs then False
      else if get_minor v \<noteq> get_minor rhs then False
      else if get_fix v \<noteq> get_fix rhs then False
      else if get_build v \<noteq> get_build rhs then False
      else True)"

definition version_lt :: "version \<Rightarrow> version \<Rightarrow> bool" where
  "version_lt v rhs =
     (if version_gt v rhs then False else if version_eq v rhs then False else True)"

definition version_ge :: "version \<Rightarrow> version \<Rightarrow> bool" where
  "version_ge v rhs =
     (if version_eq v rhs then True else if version_gt v rhs then True else False)"

definition version_le :: "version \<Rightarrow> version \<Rightarrow> bool" where
  "version_le v rhs =
     (if version_eq v rhs then True else if version_lt v rhs then True else False)"

definition version_reset :: version where
  "version_reset = Version 0 0 0 0"

definition version_empty :: "version \<Rightarrow> bool" where
  "version_empty v =
     (if get_major v \<noteq> 0 then False
      else if get_minor v \<noteq> 0 then False
      else if get_fix v \<noteq> 0 then False
      else if get_build v \<noteq> 0 then False
      else True)"

section \<open>The operators form a linear order\<close>

lemmas version_cmp_defs =
  version_gt_def version_eq_def version_lt_def version_ge_def version_le_def

lemma version_eq_iff [simp]: "version_eq v w \<longleftrightarrow> v = w"
  by (cases v; cases w) (simp add: version_eq_def)

lemma version_empty_iff: "version_empty v \<longleftrightarrow> v = version_reset"
  by (cases v) (simp add: version_empty_def version_reset_def)

text \<open>The operators compare the four parts lexicographically.\<close>

definition version_key :: "version \<Rightarrow> byte \<times> byte \<times> byte \<times> byte" where
  "version_key v = (get_major v, get_minor v, get_fix v, get_build v)"

lemma version_key_inject: "version_key v = version_key w \<longleftrightarrow> v = w"
  by (cases v; cases w) (simp add: version_key_def)

lemma version_gt_key: "version_gt v w \<longleftrightarrow> version_key w < version_key v"
  by (auto simp: version_gt_def version_key_def not_less_iff_gr_or_eq)

instantiation version :: linorder
begin

definition less_eq_version :: "version \<Rightarrow> version \<Rightarrow> bool" where
  "less_eq_version v w = version_le v w"

definition less_version :: "version \<Rightarrow> version \<Rightarrow> bool" where
  "less_version v w = version_lt v w"

lemma less_eq_version_key: "v \<le> w \<longleftrightarrow> version_key v \<le> version_key (w :: version)"
  by (auto simp: less_eq_version_def version_le_def version_lt_def version_gt_key
      version_key_inject [symmetric])

lemma less_version_key: "v < w \<longleftrightarrow> version_key v < version_key (w :: version)"
  by (auto simp: less_version_def version_lt_def version_gt_key version_key_inject [symmetric])

instance
proof
  fix u v w :: version
  show "v < w \<longleftrightarrow> v \<le> w \<and> \<not> w \<le> v"
    by (auto simp: less_eq_version_key less_version_key)
  show "v \<le> v" by (simp add: less_eq_version_key)
  show "u \<le> v \<Longrightarrow> v \<le> w \<Longrightarrow> u \<le> w"
    by (simp add: less_eq_version_key)
  show "v \<le> w \<Longrightarrow> w \<le> v \<Longrightarrow> v = w"
    by (simp add: less_eq_version_key version_key_inject [symmetric])
  show "v \<le> w \<or> w \<le> v"
    by (auto simp: less_eq_version_key)
qed

end

lemma version_lt_iff [simp]: "version_lt v w \<longleftrightarrow> v < w"
  by (simp add: less_version_def)

lemma version_le_iff [simp]: "version_le v w \<longleftrightarrow> v \<le> w"
  by (simp add: less_eq_version_def)

lemma version_gt_iff [simp]: "version_gt v w \<longleftrightarrow> w < v"
  by (simp add: version_gt_key less_version_key)

lemma version_ge_iff [simp]: "version_ge v w \<longleftrightarrow> w \<le> v"
  by (auto simp: version_ge_def)

section \<open>Properties\<close>

text \<open>The comparison operators of the class are the lexicographic order of the four parts
  (major, minor, fix, build), each in its direction.\<close>

theorem version_operators_lexicographic:
  "(version_gt v w \<longleftrightarrow> version_key w < version_key v)
   \<and> (version_lt v w \<longleftrightarrow> version_key v < version_key w)
   \<and> (version_eq v w \<longleftrightarrow> version_key v = version_key w)
   \<and> (version_ge v w \<longleftrightarrow> version_key w \<le> version_key v)
   \<and> (version_le v w \<longleftrightarrow> version_key v \<le> version_key w)"
  by (simp add: less_version_key less_eq_version_key version_key_inject)

end
