(* ===== verification/FunLpu237.thy ===== *)
theory FunLpu237
  imports Version
begin

text \<open>
  Model of \<open>cfun_lpu237\<close> (shared/common/inc/cfun_lpu237.h): which features a device supports,
  decided from its system name and firmware version. Every \<open>is_support_x\<close> is the chain of
  comparisons of the source; a local \<open>v\<close> that a branch does not reassign keeps the value of the
  branch before, as in the source. The locale \<open>threshold_feature\<close> is the contract the request
  generators rely on: a table of the first supporting version per device name.
\<close>

section \<open>State and construction\<close>

record fun_lpu237 =
  fun_s_name :: string
  fun_version :: version

text \<open>
  The constructor from the name buffer stops at the first blank or zero; each byte is widened to
  a character.
\<close>

definition cfun_lpu237 :: "bytes \<Rightarrow> version \<Rightarrow> fun_lpu237" where
  "cfun_lpu237 v_name ver =
     \<lparr>fun_s_name = map (\<lambda>b. char_of (unat b)) (takeWhile (\<lambda>b. b \<noteq> 32 \<and> b \<noteq> 0) v_name),
      fun_version = ver\<rparr>"

definition fun_empty :: "fun_lpu237 \<Rightarrow> bool" where
  "fun_empty f = (if fun_s_name f = [] then True
                  else if version_empty (fun_version f) then True else False)"

definition fun_reset :: "fun_lpu237 \<Rightarrow> fun_lpu237" where
  "fun_reset f = f\<lparr>fun_s_name := [], fun_version := version_reset\<rparr>"

text \<open>
  \<open>set_name(ps_name, n_name)\<close>. The loop tests \<open>ps_name[n_offset]\<close> before it tests
  \<open>n_name > 0\<close>, so it reads one character past the last one; \<open>None\<close> is that read when it falls
  outside the buffer. \<open>SYSTEM_SIZE_NAME\<close> is 16.
\<close>

fun set_name_loop :: "bytes \<Rightarrow> nat \<Rightarrow> nat \<Rightarrow> string \<Rightarrow> string option" where
  "set_name_loop ps off n acc =
     (if off \<ge> length ps then None
      else if ps ! off \<noteq> 0 \<and> ps ! off \<noteq> 32 \<and> n > 0
           then set_name_loop ps (Suc off) (n - 1) (acc @ [char_of (unat (ps ! off))])
           else Some acc)"

declare set_name_loop.simps [simp del]

definition fun_set_name :: "bytes option \<Rightarrow> nat \<Rightarrow> fun_lpu237 \<Rightarrow> fun_lpu237 option" where
  "fun_set_name ps_name n_name f =
     (case ps_name of
        None \<Rightarrow> Some f
      | Some ps \<Rightarrow>
          if n_name = 0 then Some f
          else if n_name > 16 then Some f
          else map_option (\<lambda>s. f\<lparr>fun_s_name := s\<rparr>) (set_name_loop ps 0 n_name []))"

section \<open>Features\<close>

definition is_support_hid_boot :: "fun_lpu237 \<Rightarrow> bool" where
  "is_support_hid_boot f =
     (if fun_s_name f = ''callisto'' \<and> version_ge (fun_version f) (Version 2 2 0 4) then True
     else if fun_s_name f = ''ganymede'' \<and> version_ge (fun_version f) (Version 4 2 1 4) then True
     else if fun_s_name f = ''himalia'' \<and> version_ge (fun_version f) (Version 1 0 0 0) then True
     else if fun_s_name f = ''europa'' \<and> version_ge (fun_version f) (Version 1 0 0 0) then True
     else if fun_s_name f = ''elara'' \<and> version_ge (fun_version f) (Version 1 0 0 0) then True
     else False)"

definition is_support_keymap_download :: "fun_lpu237 \<Rightarrow> bool" where
  "is_support_keymap_download f =
     (if fun_s_name f = ''callisto'' \<and> version_ge (fun_version f) (Version 3 4 0 1) then True
     else if fun_s_name f = ''ganymede'' \<and> version_ge (fun_version f) (Version 4 2 1 4) then True
     else if fun_s_name f = ''himalia'' \<and> version_ge (fun_version f) (Version 1 0 0 0) then True
     else if fun_s_name f = ''europa'' \<and> version_ge (fun_version f) (Version 1 0 0 0) then True
     else if fun_s_name f = ''elara'' \<and> version_ge (fun_version f) (Version 1 0 0 0) then True
     else False)"

definition is_support_device_uid :: "fun_lpu237 \<Rightarrow> bool" where
  "is_support_device_uid f =
     (if fun_s_name f = ''callisto'' \<and> version_ge (fun_version f) (Version 3 7 0 4) then True
     else if fun_s_name f = ''ganymede'' \<and> version_ge (fun_version f) (Version 4 2 1 4) then True
     else if fun_s_name f = ''himalia'' \<and> version_ge (fun_version f) (Version 1 0 0 0) then True
     else if fun_s_name f = ''europa'' \<and> version_ge (fun_version f) (Version 1 0 0 0) then True
     else if fun_s_name f = ''elara'' \<and> version_ge (fun_version f) (Version 1 0 0 0) then True
     else False)"

definition is_support_uart_prepostfix :: "fun_lpu237 \<Rightarrow> bool" where
  "is_support_uart_prepostfix f =
     (if fun_s_name f = ''callisto'' \<and> version_ge (fun_version f) (Version 3 3 0 2) then True
     else if fun_s_name f = ''ganymede'' \<and> version_ge (fun_version f) (Version 4 2 1 4) then True
     else if fun_s_name f = ''himalia'' \<and> version_ge (fun_version f) (Version 1 0 0 0) then True
     else if fun_s_name f = ''europa'' \<and> version_ge (fun_version f) (Version 1 0 0 0) then True
     else if fun_s_name f = ''elara'' \<and> version_ge (fun_version f) (Version 1 0 0 0) then True
     else False)"

definition is_support_vcom_port :: "fun_lpu237 \<Rightarrow> bool" where
  "is_support_vcom_port f =
     (if fun_s_name f = ''europa'' \<and> version_ge (fun_version f) (Version 1 0 0 0) then True
     else if fun_s_name f = ''elara'' \<and> version_ge (fun_version f) (Version 1 0 0 0) then True
     else False)"

definition is_suport_msr_magtek :: "fun_lpu237 \<Rightarrow> bool" where
  "is_suport_msr_magtek f =
     (if fun_s_name f = ''callisto'' \<and> version_ge (fun_version f) (Version 1 0 0 0) then True
     else if fun_s_name f = ''ganymede'' \<and> version_ge (fun_version f) (Version 5 18 0 0) then True
     else False)"

definition is_suport_msr_mh1902t :: "fun_lpu237 \<Rightarrow> bool" where
  "is_suport_msr_mh1902t f =
     (if fun_s_name f = ''himalia'' \<and> version_ge (fun_version f) (Version 1 0 0 0) then True
     else if fun_s_name f = ''elara'' \<and> version_ge (fun_version f) (Version 1 0 0 0) then True
     else False)"

definition is_suport_msr_mmd1100_reset :: "fun_lpu237 \<Rightarrow> bool" where
  "is_suport_msr_mmd1100_reset f =
     (if fun_s_name f = ''ganymede'' \<and> version_ge (fun_version f) (Version 5 16 0 0) then True
     else if fun_s_name f = ''europa'' \<and> version_ge (fun_version f) (Version 1 0 0 0) then True
     else False)"

definition is_support_msr_hid_interface :: "fun_lpu237 \<Rightarrow> bool" where
  "is_support_msr_hid_interface f =
     (if fun_s_name f = ''callisto'' \<and> version_ge (fun_version f) (Version 3 9 0 0) then True
     else if fun_s_name f = ''ganymede'' \<and> version_ge (fun_version f) (Version 4 5 0 0) then True
     else if fun_s_name f = ''himalia'' \<and> version_ge (fun_version f) (Version 1 0 0 0) then True
     else if fun_s_name f = ''europa'' \<and> version_ge (fun_version f) (Version 1 0 0 0) then True
     else if fun_s_name f = ''elara'' \<and> version_ge (fun_version f) (Version 1 0 0 0) then True
     else False)"

definition is_support_msr_keyboard_interface :: "fun_lpu237 \<Rightarrow> bool" where
  "is_support_msr_keyboard_interface f =
     (if fun_s_name f = ''callisto'' \<and> version_ge (fun_version f) (Version 1 0 0 0) then True
     else if fun_s_name f = ''ganymede'' \<and> version_ge (fun_version f) (Version 1 0 0 0) then True
     else if fun_s_name f = ''himalia'' \<and> version_ge (fun_version f) (Version 1 0 0 0) then True
     else False)"

definition is_support_msr_iso2_max_size_38 :: "fun_lpu237 \<Rightarrow> bool" where
  "is_support_msr_iso2_max_size_38 f =
     (if fun_s_name f = ''callisto'' \<and> version_ge (fun_version f) (Version 3 10 0 0) then True
     else if fun_s_name f = ''ganymede'' \<and> version_ge (fun_version f) (Version 5 2 0 0) then True
     else if fun_s_name f = ''himalia'' \<and> version_ge (fun_version f) (Version 1 0 0 0) then True
     else if fun_s_name f = ''europa'' \<and> version_ge (fun_version f) (Version 1 0 0 0) then True
     else if fun_s_name f = ''elara'' \<and> version_ge (fun_version f) (Version 1 0 0 0) then True
     else False)"

definition is_support_msr_global_tag :: "fun_lpu237 \<Rightarrow> bool" where
  "is_support_msr_global_tag f =
     (if fun_s_name f = ''callisto'' \<and> version_ge (fun_version f) (Version 3 11 0 0) then True
     else if fun_s_name f = ''ganymede'' \<and> version_ge (fun_version f) (Version 5 3 0 0) then True
     else if fun_s_name f = ''himalia'' \<and> version_ge (fun_version f) (Version 1 0 0 0) then True
     else if fun_s_name f = ''europa'' \<and> version_ge (fun_version f) (Version 1 0 0 0) then True
     else if fun_s_name f = ''elara'' \<and> version_ge (fun_version f) (Version 1 0 0 0) then True
     else False)"

definition is_support_msr_global_tag_send_condition :: "fun_lpu237 \<Rightarrow> bool" where
  "is_support_msr_global_tag_send_condition f = is_support_msr_global_tag f"

definition is_support_msr_combination :: "fun_lpu237 \<Rightarrow> bool" where
  "is_support_msr_combination f =
     (if fun_s_name f = ''callisto'' \<and> version_ge (fun_version f) (Version 3 21 0 0) then True
     else if fun_s_name f = ''ganymede'' \<and> version_ge (fun_version f) (Version 5 13 0 0) then True
     else if fun_s_name f = ''himalia'' \<and> version_ge (fun_version f) (Version 1 0 0 0) then True
     else if fun_s_name f = ''europa'' \<and> version_ge (fun_version f) (Version 1 0 0 0) then True
     else if fun_s_name f = ''elara'' \<and> version_ge (fun_version f) (Version 1 0 0 0) then True
     else False)"

definition is_support_msr_success_indication_condition :: "fun_lpu237 \<Rightarrow> bool" where
  "is_support_msr_success_indication_condition f = is_support_msr_combination f"

definition is_support_msr_remove_dupricated_iso2 :: "fun_lpu237 \<Rightarrow> bool" where
  "is_support_msr_remove_dupricated_iso2 f =
     (if fun_s_name f = ''callisto'' \<and> version_ge (fun_version f) (Version 3 21 0 0) then True
     else if fun_s_name f = ''ganymede'' \<and> version_ge (fun_version f) (Version 5 14 0 0) then True
     else if fun_s_name f = ''himalia'' \<and> version_ge (fun_version f) (Version 1 0 0 0) then True
     else if fun_s_name f = ''europa'' \<and> version_ge (fun_version f) (Version 1 0 0 0) then True
     else if fun_s_name f = ''elara'' \<and> version_ge (fun_version f) (Version 1 0 0 0) then True
     else False)"

definition is_support_msr_woori_security_company_passbook :: "fun_lpu237 \<Rightarrow> bool" where
  "is_support_msr_woori_security_company_passbook f = is_support_msr_remove_dupricated_iso2 f"

definition is_support_msr_read_direction :: "fun_lpu237 \<Rightarrow> bool" where
  "is_support_msr_read_direction f =
     (if fun_s_name f = ''callisto'' \<and> version_ge (fun_version f) (Version 3 21 0 0) then True
     else if fun_s_name f = ''ganymede'' \<and> version_ge (fun_version f) (Version 5 17 0 0) then True
     else if fun_s_name f = ''himalia'' \<and> version_ge (fun_version f) (Version 1 0 0 0) then True
     else if fun_s_name f = ''europa'' \<and> version_ge (fun_version f) (Version 1 0 0 0) then True
     else if fun_s_name f = ''elara'' \<and> version_ge (fun_version f) (Version 1 0 0 0) then True
     else False)"

definition is_support_msr_encryption :: "fun_lpu237 \<Rightarrow> bool" where
  "is_support_msr_encryption f =
     (if fun_s_name f = ''himalia'' \<and> version_ge (fun_version f) (Version 2 0 0 0) then True
     else if fun_s_name f = ''elara'' \<and> version_ge (fun_version f) (Version 1 0 0 0) then True
     else False)"

definition is_support_msr_stx_etx_lrc_only_is_error :: "fun_lpu237 \<Rightarrow> bool" where
  "is_support_msr_stx_etx_lrc_only_is_error f =
     (if fun_s_name f = ''callisto'' \<and> version_ge (fun_version f) (Version 3 25 0 0) then True
     else if fun_s_name f = ''ganymede'' \<and> version_ge (fun_version f) (Version 5 25 0 0) then True
     else if fun_s_name f = ''himalia'' \<and> version_ge (fun_version f) (Version 2 5 0 0) then True
     else if fun_s_name f = ''europa'' \<and> version_ge (fun_version f) (Version 1 3 0 0) then True
     else if fun_s_name f = ''elara'' \<and> version_ge (fun_version f) (Version 1 0 0 0) then True
     else False)"

definition is_support_ibutton :: "fun_lpu237 \<Rightarrow> bool" where
  "is_support_ibutton f =
     (if fun_s_name f = ''callisto'' \<and> version_ge (fun_version f) (Version 3 3 0 2) then True
     else if fun_s_name f = ''ganymede'' \<and> version_ge (fun_version f) (Version 4 2 1 4) then True
     else if fun_s_name f = ''himalia'' \<and> version_ge (fun_version f) (Version 1 0 0 0) then True
     else if fun_s_name f = ''europa'' \<and> version_ge (fun_version f) (Version 1 0 0 0) then True
     else if fun_s_name f = ''elara'' \<and> version_ge (fun_version f) (Version 1 0 0 0) then True
     else False)"

definition is_support_ibutton_in_kb_interface_prepost_tag :: "fun_lpu237 \<Rightarrow> bool" where
  "is_support_ibutton_in_kb_interface_prepost_tag f = is_support_ibutton f"

definition is_support_ibutton_in_kb_interface_remove_code_zero_16times :: "fun_lpu237 \<Rightarrow> bool" where
  "is_support_ibutton_in_kb_interface_remove_code_zero_16times f =
     (if fun_s_name f = ''callisto'' \<and> version_ge (fun_version f) (Version 3 4 0 1) then True
     else if fun_s_name f = ''ganymede'' \<and> version_ge (fun_version f) (Version 4 2 1 4) then True
     else if fun_s_name f = ''himalia'' \<and> version_ge (fun_version f) (Version 1 0 0 0) then True
     else if fun_s_name f = ''europa'' \<and> version_ge (fun_version f) (Version 1 0 0 0) then True
     else if fun_s_name f = ''elara'' \<and> version_ge (fun_version f) (Version 1 0 0 0) then True
     else False)"

definition is_support_ibutton_hid_interface :: "fun_lpu237 \<Rightarrow> bool" where
  "is_support_ibutton_hid_interface f =
     (if fun_s_name f = ''callisto'' \<and> version_ge (fun_version f) (Version 3 12 0 0) then True
     else if fun_s_name f = ''ganymede'' \<and> version_ge (fun_version f) (Version 5 4 0 0) then True
     else if fun_s_name f = ''himalia'' \<and> version_ge (fun_version f) (Version 1 0 0 0) then True
     else if fun_s_name f = ''europa'' \<and> version_ge (fun_version f) (Version 1 0 0 0) then True
     else if fun_s_name f = ''elara'' \<and> version_ge (fun_version f) (Version 1 0 0 0) then True
     else False)"

definition is_support_ibutton_in_kb_interface_remove_code_f12 :: "fun_lpu237 \<Rightarrow> bool" where
  "is_support_ibutton_in_kb_interface_remove_code_f12 f =
     (if fun_s_name f = ''callisto'' \<and> version_ge (fun_version f) (Version 3 13 0 0) then True
     else if fun_s_name f = ''ganymede'' \<and> version_ge (fun_version f) (Version 5 5 0 0) then True
     else if fun_s_name f = ''himalia'' \<and> version_ge (fun_version f) (Version 1 0 0 0) then True
     else if fun_s_name f = ''europa'' \<and> version_ge (fun_version f) (Version 1 0 0 0) then True
     else if fun_s_name f = ''elara'' \<and> version_ge (fun_version f) (Version 1 0 0 0) then True
     else False)"

definition is_support_ibutton_in_kb_interface_remove_code_none :: "fun_lpu237 \<Rightarrow> bool" where
  "is_support_ibutton_in_kb_interface_remove_code_none f =
     (if fun_s_name f = ''callisto'' \<and> version_ge (fun_version f) (Version 3 14 0 0) then True
     else if fun_s_name f = ''ganymede'' \<and> version_ge (fun_version f) (Version 5 6 0 0) then True
     else if fun_s_name f = ''himalia'' \<and> version_ge (fun_version f) (Version 1 0 0 0) then True
     else if fun_s_name f = ''europa'' \<and> version_ge (fun_version f) (Version 1 0 0 0) then True
     else if fun_s_name f = ''elara'' \<and> version_ge (fun_version f) (Version 1 0 0 0) then True
     else False)"

definition is_support_ibutton_in_kb_interface_remove_code_zero_7times :: "fun_lpu237 \<Rightarrow> bool" where
  "is_support_ibutton_in_kb_interface_remove_code_zero_7times f =
     (if fun_s_name f = ''callisto'' \<and> version_ge (fun_version f) (Version 3 16 0 0) then True
     else if fun_s_name f = ''ganymede'' \<and> version_ge (fun_version f) (Version 5 8 0 0) then True
     else if fun_s_name f = ''himalia'' \<and> version_ge (fun_version f) (Version 1 0 0 0) then True
     else if fun_s_name f = ''europa'' \<and> version_ge (fun_version f) (Version 1 0 0 0) then True
     else if fun_s_name f = ''elara'' \<and> version_ge (fun_version f) (Version 1 0 0 0) then True
     else False)"

definition is_support_ibutton_codestick :: "fun_lpu237 \<Rightarrow> bool" where
  "is_support_ibutton_codestick f =
     (if fun_s_name f = ''callisto'' \<and> version_ge (fun_version f) (Version 3 17 0 0) then True
     else if fun_s_name f = ''ganymede'' \<and> version_ge (fun_version f) (Version 5 9 0 0) then True
     else if fun_s_name f = ''himalia'' \<and> version_ge (fun_version f) (Version 1 0 0 0) then True
     else if fun_s_name f = ''europa'' \<and> version_ge (fun_version f) (Version 1 0 0 0) then True
     else if fun_s_name f = ''elara'' \<and> version_ge (fun_version f) (Version 1 0 0 0) then True
     else False)"

definition is_support_ibutton_in_kb_interface_remove_code_user_define :: "fun_lpu237 \<Rightarrow> bool" where
  "is_support_ibutton_in_kb_interface_remove_code_user_define f =
     (if fun_s_name f = ''callisto'' \<and> version_ge (fun_version f) (Version 3 22 0 0) then True
     else if fun_s_name f = ''ganymede'' \<and> version_ge (fun_version f) (Version 5 21 0 0) then True
     else if fun_s_name f = ''himalia'' \<and> version_ge (fun_version f) (Version 1 0 0 0) then True
     else if fun_s_name f = ''europa'' \<and> version_ge (fun_version f) (Version 1 0 0 0) then True
     else if fun_s_name f = ''elara'' \<and> version_ge (fun_version f) (Version 1 0 0 0) then True
     else False)"

definition is_support_ibutton_in_kb_interface_remove_prepost_tag :: "fun_lpu237 \<Rightarrow> bool" where
  "is_support_ibutton_in_kb_interface_remove_prepost_tag f = is_support_ibutton_in_kb_interface_remove_code_user_define f"

definition is_support_ibutton_in_kb_interface_code_range :: "fun_lpu237 \<Rightarrow> bool" where
  "is_support_ibutton_in_kb_interface_code_range f =
     (if fun_s_name f = ''callisto'' \<and> version_ge (fun_version f) (Version 3 23 0 0) then True
     else if fun_s_name f = ''ganymede'' \<and> version_ge (fun_version f) (Version 5 22 0 0) then True
     else if fun_s_name f = ''himalia'' \<and> version_ge (fun_version f) (Version 1 0 0 0) then True
     else if fun_s_name f = ''europa'' \<and> version_ge (fun_version f) (Version 1 0 0 0) then True
     else if fun_s_name f = ''elara'' \<and> version_ge (fun_version f) (Version 1 0 0 0) then True
     else False)"

definition is_support_ibutton_read_start_stop :: "fun_lpu237 \<Rightarrow> bool" where
  "is_support_ibutton_read_start_stop f =
     (if fun_s_name f = ''callisto'' \<and> version_ge (fun_version f) (Version 3 24 0 0) then True
     else if fun_s_name f = ''ganymede'' \<and> version_ge (fun_version f) (Version 5 23 0 0) then True
     else if fun_s_name f = ''himalia'' \<and> version_ge (fun_version f) (Version 2 4 0 0) then True
     else if fun_s_name f = ''europa'' \<and> version_ge (fun_version f) (Version 1 2 0 0) then True
     else if fun_s_name f = ''elara'' \<and> version_ge (fun_version f) (Version 1 0 0 0) then True
     else False)"

definition is_suport_msr_mmd1100 :: "fun_lpu237 \<Rightarrow> bool" where
  "is_suport_msr_mmd1100 f =
     (if fun_s_name f = ''ganymede'' \<and> version_ge (fun_version f) (Version 5 0 0 0)
         \<and> version_le (fun_version f) (Version 5 12 0 0) then True
     else if fun_s_name f = ''europa'' \<and> version_ge (fun_version f) (Version 1 0 0 0) then True
     else False)"

definition is_suport_msr_mmd1100_iso_mode :: "fun_lpu237 \<Rightarrow> bool" where
  "is_suport_msr_mmd1100_iso_mode f =
     (if fun_s_name f = ''ganymede'' \<and> version_eq (fun_version f) (Version 5 22 0 1) then True
     else False)"

definition is_support_ibutton_only_device_command :: "fun_lpu237 \<Rightarrow> bool" where
  "is_support_ibutton_only_device_command f =
     (let v = Version 3 6 0 4 in if version_lt v (fun_version f) then True else False)"

text \<open>
  The result starts as \<open>true\<close> and every early exit keeps it: the three exits below all
  return it unchanged.
\<close>

definition is_support_mmd1100_iso_mode_change :: "fun_lpu237 \<Rightarrow> bool" where
  "is_support_mmd1100_iso_mode_change f =
     (let b_support = True in
      if \<not> is_suport_msr_mmd1100 f then b_support
      else if version_le (fun_version f) (Version 5 22 0 0) then b_support
      else if get_build (fun_version f) \<noteq> 1 then b_support
      else True)"

text \<open>The interface codes are those of \<open>SYSTEM_INTERFACE\<close>: 0 keyboard, 1 HID, 2 VCOM, 10 UART.\<close>

definition is_support_interface :: "byte \<Rightarrow> bool \<Rightarrow> fun_lpu237 \<Rightarrow> bool" where
  "is_support_interface c_interface b_standard_type f =
     (if c_interface = 0 then (if is_support_vcom_port f then False else True)
      else if c_interface = 1 then is_support_msr_hid_interface f
      else if c_interface = 2 then is_support_vcom_port f
      else if c_interface = 10 then (if \<not> b_standard_type then False else True)
      else False)"

section \<open>The contract of a feature with a first supporting version\<close>

locale threshold_feature =
  fixes supp :: "fun_lpu237 \<Rightarrow> bool" and table :: "(string \<times> version) list"
  assumes supp_table:
    "supp f \<longleftrightarrow> (\<exists>v. (fun_s_name f, v) \<in> set table \<and> v \<le> fun_version f)"
begin

lemma mono:
  "supp f \<Longrightarrow> fun_s_name g = fun_s_name f \<Longrightarrow> fun_version f \<le> fun_version g \<Longrightarrow> supp g"
  by (metis supp_table order_trans)

lemma unknown_name: "fun_s_name f \<notin> fst ` set table \<Longrightarrow> \<not> supp f"
  by (force simp: supp_table)

lemma first_version:
  "distinct (map fst table) \<Longrightarrow> (n, v) \<in> set table \<Longrightarrow> fun_s_name f = n \<Longrightarrow>
     supp f \<longleftrightarrow> v \<le> fun_version f"
  by (metis supp_table eq_key_imp_eq_value)

end

interpretation is_support_hid_boot: threshold_feature is_support_hid_boot
  "[(''callisto'', Version 2 2 0 4),
     (''ganymede'', Version 4 2 1 4),
     (''himalia'', Version 1 0 0 0),
     (''europa'', Version 1 0 0 0),
     (''elara'', Version 1 0 0 0)]"
  by unfold_locales (auto simp: is_support_hid_boot_def)

interpretation is_support_keymap_download: threshold_feature is_support_keymap_download
  "[(''callisto'', Version 3 4 0 1),
     (''ganymede'', Version 4 2 1 4),
     (''himalia'', Version 1 0 0 0),
     (''europa'', Version 1 0 0 0),
     (''elara'', Version 1 0 0 0)]"
  by unfold_locales (auto simp: is_support_keymap_download_def)

interpretation is_support_device_uid: threshold_feature is_support_device_uid
  "[(''callisto'', Version 3 7 0 4),
     (''ganymede'', Version 4 2 1 4),
     (''himalia'', Version 1 0 0 0),
     (''europa'', Version 1 0 0 0),
     (''elara'', Version 1 0 0 0)]"
  by unfold_locales (auto simp: is_support_device_uid_def)

interpretation is_support_uart_prepostfix: threshold_feature is_support_uart_prepostfix
  "[(''callisto'', Version 3 3 0 2),
     (''ganymede'', Version 4 2 1 4),
     (''himalia'', Version 1 0 0 0),
     (''europa'', Version 1 0 0 0),
     (''elara'', Version 1 0 0 0)]"
  by unfold_locales (auto simp: is_support_uart_prepostfix_def)

interpretation is_support_vcom_port: threshold_feature is_support_vcom_port
  "[(''europa'', Version 1 0 0 0),
     (''elara'', Version 1 0 0 0)]"
  by unfold_locales (auto simp: is_support_vcom_port_def)

interpretation is_suport_msr_magtek: threshold_feature is_suport_msr_magtek
  "[(''callisto'', Version 1 0 0 0),
     (''ganymede'', Version 5 18 0 0)]"
  by unfold_locales (auto simp: is_suport_msr_magtek_def)

interpretation is_suport_msr_mh1902t: threshold_feature is_suport_msr_mh1902t
  "[(''himalia'', Version 1 0 0 0),
     (''elara'', Version 1 0 0 0)]"
  by unfold_locales (auto simp: is_suport_msr_mh1902t_def)

interpretation is_suport_msr_mmd1100_reset: threshold_feature is_suport_msr_mmd1100_reset
  "[(''ganymede'', Version 5 16 0 0),
     (''europa'', Version 1 0 0 0)]"
  by unfold_locales (auto simp: is_suport_msr_mmd1100_reset_def)

interpretation is_support_msr_hid_interface: threshold_feature is_support_msr_hid_interface
  "[(''callisto'', Version 3 9 0 0),
     (''ganymede'', Version 4 5 0 0),
     (''himalia'', Version 1 0 0 0),
     (''europa'', Version 1 0 0 0),
     (''elara'', Version 1 0 0 0)]"
  by unfold_locales (auto simp: is_support_msr_hid_interface_def)

interpretation is_support_msr_keyboard_interface: threshold_feature is_support_msr_keyboard_interface
  "[(''callisto'', Version 1 0 0 0),
     (''ganymede'', Version 1 0 0 0),
     (''himalia'', Version 1 0 0 0)]"
  by unfold_locales (auto simp: is_support_msr_keyboard_interface_def)

interpretation is_support_msr_iso2_max_size_38: threshold_feature is_support_msr_iso2_max_size_38
  "[(''callisto'', Version 3 10 0 0),
     (''ganymede'', Version 5 2 0 0),
     (''himalia'', Version 1 0 0 0),
     (''europa'', Version 1 0 0 0),
     (''elara'', Version 1 0 0 0)]"
  by unfold_locales (auto simp: is_support_msr_iso2_max_size_38_def)

interpretation is_support_msr_global_tag: threshold_feature is_support_msr_global_tag
  "[(''callisto'', Version 3 11 0 0),
     (''ganymede'', Version 5 3 0 0),
     (''himalia'', Version 1 0 0 0),
     (''europa'', Version 1 0 0 0),
     (''elara'', Version 1 0 0 0)]"
  by unfold_locales (auto simp: is_support_msr_global_tag_def)

interpretation is_support_msr_combination: threshold_feature is_support_msr_combination
  "[(''callisto'', Version 3 21 0 0),
     (''ganymede'', Version 5 13 0 0),
     (''himalia'', Version 1 0 0 0),
     (''europa'', Version 1 0 0 0),
     (''elara'', Version 1 0 0 0)]"
  by unfold_locales (auto simp: is_support_msr_combination_def)

interpretation is_support_msr_remove_dupricated_iso2: threshold_feature is_support_msr_remove_dupricated_iso2
  "[(''callisto'', Version 3 21 0 0),
     (''ganymede'', Version 5 14 0 0),
     (''himalia'', Version 1 0 0 0),
     (''europa'', Version 1 0 0 0),
     (''elara'', Version 1 0 0 0)]"
  by unfold_locales (auto simp: is_support_msr_remove_dupricated_iso2_def)

interpretation is_support_msr_read_direction: threshold_feature is_support_msr_read_direction
  "[(''callisto'', Version 3 21 0 0),
     (''ganymede'', Version 5 17 0 0),
     (''himalia'', Version 1 0 0 0),
     (''europa'', Version 1 0 0 0),
     (''elara'', Version 1 0 0 0)]"
  by unfold_locales (auto simp: is_support_msr_read_direction_def)

interpretation is_support_msr_encryption: threshold_feature is_support_msr_encryption
  "[(''himalia'', Version 2 0 0 0),
     (''elara'', Version 1 0 0 0)]"
  by unfold_locales (auto simp: is_support_msr_encryption_def)

interpretation is_support_msr_stx_etx_lrc_only_is_error: threshold_feature is_support_msr_stx_etx_lrc_only_is_error
  "[(''callisto'', Version 3 25 0 0),
     (''ganymede'', Version 5 25 0 0),
     (''himalia'', Version 2 5 0 0),
     (''europa'', Version 1 3 0 0),
     (''elara'', Version 1 0 0 0)]"
  by unfold_locales (auto simp: is_support_msr_stx_etx_lrc_only_is_error_def)

interpretation is_support_ibutton: threshold_feature is_support_ibutton
  "[(''callisto'', Version 3 3 0 2),
     (''ganymede'', Version 4 2 1 4),
     (''himalia'', Version 1 0 0 0),
     (''europa'', Version 1 0 0 0),
     (''elara'', Version 1 0 0 0)]"
  by unfold_locales (auto simp: is_support_ibutton_def)

interpretation is_support_ibutton_in_kb_interface_remove_code_zero_16times: threshold_feature is_support_ibutton_in_kb_interface_remove_code_zero_16times
  "[(''callisto'', Version 3 4 0 1),
     (''ganymede'', Version 4 2 1 4),
     (''himalia'', Version 1 0 0 0),
     (''europa'', Version 1 0 0 0),
     (''elara'', Version 1 0 0 0)]"
  by unfold_locales (auto simp: is_support_ibutton_in_kb_interface_remove_code_zero_16times_def)

interpretation is_support_ibutton_hid_interface: threshold_feature is_support_ibutton_hid_interface
  "[(''callisto'', Version 3 12 0 0),
     (''ganymede'', Version 5 4 0 0),
     (''himalia'', Version 1 0 0 0),
     (''europa'', Version 1 0 0 0),
     (''elara'', Version 1 0 0 0)]"
  by unfold_locales (auto simp: is_support_ibutton_hid_interface_def)

interpretation is_support_ibutton_in_kb_interface_remove_code_f12: threshold_feature is_support_ibutton_in_kb_interface_remove_code_f12
  "[(''callisto'', Version 3 13 0 0),
     (''ganymede'', Version 5 5 0 0),
     (''himalia'', Version 1 0 0 0),
     (''europa'', Version 1 0 0 0),
     (''elara'', Version 1 0 0 0)]"
  by unfold_locales (auto simp: is_support_ibutton_in_kb_interface_remove_code_f12_def)

interpretation is_support_ibutton_in_kb_interface_remove_code_none: threshold_feature is_support_ibutton_in_kb_interface_remove_code_none
  "[(''callisto'', Version 3 14 0 0),
     (''ganymede'', Version 5 6 0 0),
     (''himalia'', Version 1 0 0 0),
     (''europa'', Version 1 0 0 0),
     (''elara'', Version 1 0 0 0)]"
  by unfold_locales (auto simp: is_support_ibutton_in_kb_interface_remove_code_none_def)

interpretation is_support_ibutton_in_kb_interface_remove_code_zero_7times: threshold_feature is_support_ibutton_in_kb_interface_remove_code_zero_7times
  "[(''callisto'', Version 3 16 0 0),
     (''ganymede'', Version 5 8 0 0),
     (''himalia'', Version 1 0 0 0),
     (''europa'', Version 1 0 0 0),
     (''elara'', Version 1 0 0 0)]"
  by unfold_locales (auto simp: is_support_ibutton_in_kb_interface_remove_code_zero_7times_def)

interpretation is_support_ibutton_codestick: threshold_feature is_support_ibutton_codestick
  "[(''callisto'', Version 3 17 0 0),
     (''ganymede'', Version 5 9 0 0),
     (''himalia'', Version 1 0 0 0),
     (''europa'', Version 1 0 0 0),
     (''elara'', Version 1 0 0 0)]"
  by unfold_locales (auto simp: is_support_ibutton_codestick_def)

interpretation is_support_ibutton_in_kb_interface_remove_code_user_define: threshold_feature is_support_ibutton_in_kb_interface_remove_code_user_define
  "[(''callisto'', Version 3 22 0 0),
     (''ganymede'', Version 5 21 0 0),
     (''himalia'', Version 1 0 0 0),
     (''europa'', Version 1 0 0 0),
     (''elara'', Version 1 0 0 0)]"
  by unfold_locales (auto simp: is_support_ibutton_in_kb_interface_remove_code_user_define_def)

interpretation is_support_ibutton_in_kb_interface_code_range: threshold_feature is_support_ibutton_in_kb_interface_code_range
  "[(''callisto'', Version 3 23 0 0),
     (''ganymede'', Version 5 22 0 0),
     (''himalia'', Version 1 0 0 0),
     (''europa'', Version 1 0 0 0),
     (''elara'', Version 1 0 0 0)]"
  by unfold_locales (auto simp: is_support_ibutton_in_kb_interface_code_range_def)

interpretation is_support_ibutton_read_start_stop: threshold_feature is_support_ibutton_read_start_stop
  "[(''callisto'', Version 3 24 0 0),
     (''ganymede'', Version 5 23 0 0),
     (''himalia'', Version 2 4 0 0),
     (''europa'', Version 1 2 0 0),
     (''elara'', Version 1 0 0 0)]"
  by unfold_locales (auto simp: is_support_ibutton_read_start_stop_def)

text \<open>The features whose test is a first supporting version.\<close>

definition threshold_features :: "(fun_lpu237 \<Rightarrow> bool) list" where
  "threshold_features =
    [is_support_hid_boot,
     is_support_keymap_download,
     is_support_device_uid,
     is_support_uart_prepostfix,
     is_support_vcom_port,
     is_suport_msr_magtek,
     is_suport_msr_mh1902t,
     is_suport_msr_mmd1100_reset,
     is_support_msr_hid_interface,
     is_support_msr_keyboard_interface,
     is_support_msr_iso2_max_size_38,
     is_support_msr_global_tag,
     is_support_msr_combination,
     is_support_msr_remove_dupricated_iso2,
     is_support_msr_read_direction,
     is_support_msr_encryption,
     is_support_msr_stx_etx_lrc_only_is_error,
     is_support_ibutton,
     is_support_ibutton_in_kb_interface_remove_code_zero_16times,
     is_support_ibutton_hid_interface,
     is_support_ibutton_in_kb_interface_remove_code_f12,
     is_support_ibutton_in_kb_interface_remove_code_none,
     is_support_ibutton_in_kb_interface_remove_code_zero_7times,
     is_support_ibutton_codestick,
     is_support_ibutton_in_kb_interface_remove_code_user_define,
     is_support_ibutton_in_kb_interface_code_range,
     is_support_ibutton_read_start_stop]"

lemmas feature_mono =
  is_support_hid_boot.mono
  is_support_keymap_download.mono
  is_support_device_uid.mono
  is_support_uart_prepostfix.mono
  is_support_vcom_port.mono
  is_suport_msr_magtek.mono
  is_suport_msr_mh1902t.mono
  is_suport_msr_mmd1100_reset.mono
  is_support_msr_hid_interface.mono
  is_support_msr_keyboard_interface.mono
  is_support_msr_iso2_max_size_38.mono
  is_support_msr_global_tag.mono
  is_support_msr_combination.mono
  is_support_msr_remove_dupricated_iso2.mono
  is_support_msr_read_direction.mono
  is_support_msr_encryption.mono
  is_support_msr_stx_etx_lrc_only_is_error.mono
  is_support_ibutton.mono
  is_support_ibutton_in_kb_interface_remove_code_zero_16times.mono
  is_support_ibutton_hid_interface.mono
  is_support_ibutton_in_kb_interface_remove_code_f12.mono
  is_support_ibutton_in_kb_interface_remove_code_none.mono
  is_support_ibutton_in_kb_interface_remove_code_zero_7times.mono
  is_support_ibutton_codestick.mono
  is_support_ibutton_in_kb_interface_remove_code_user_define.mono
  is_support_ibutton_in_kb_interface_code_range.mono
  is_support_ibutton_read_start_stop.mono

text \<open>The delegating features.\<close>

lemmas feature_aliases =
  is_support_msr_global_tag_send_condition_def
  is_support_msr_success_indication_condition_def
  is_support_msr_woori_security_company_passbook_def
  is_support_ibutton_in_kb_interface_prepost_tag_def
  is_support_ibutton_in_kb_interface_remove_prepost_tag_def

section \<open>Properties\<close>

text \<open>Firmware updates keep features: each of the threshold features that a device with some
  name and version has, a device of the same name with the same or a later version has too.\<close>

theorem feature_kept_by_update:
  assumes "supp \<in> set threshold_features" "supp f"
    and "fun_s_name g = fun_s_name f" "fun_version f \<le> fun_version g"
  shows "supp g"
  using assms by (auto simp: threshold_features_def intro: feature_mono)

theorem feature_kept_by_update_witness:
  "is_support_device_uid \<lparr>fun_s_name = ''ganymede'', fun_version = Version 5 22 0 1\<rparr>"
  by (rule feature_kept_by_update [where supp = is_support_device_uid and
        f = "\<lparr>fun_s_name = ''ganymede'', fun_version = Version 4 2 1 4\<rparr>"])
    (simp_all add: threshold_features_def is_support_device_uid_def less_eq_version_key
      version_key_def)

text \<open>\<open>is_support_mmd1100_iso_mode_change\<close> answers true for every device: the result is
  initialised with true and none of the three early exits changes it.\<close>

theorem mmd1100_iso_mode_change_always_true: "is_support_mmd1100_iso_mode_change f"
  by (simp add: is_support_mmd1100_iso_mode_change_def Let_def)

lemma set_name_loop_overread:
  "\<forall>b\<in>set ps. b \<noteq> 0 \<and> b \<noteq> 32 \<Longrightarrow> off + n = length ps \<Longrightarrow> set_name_loop ps off n acc = None"
proof (induction n arbitrary: off acc)
  case 0
  then show ?case by (simp add: set_name_loop.simps)
next
  case (Suc n)
  then have "off < length ps" by simp
  then have "ps ! off \<noteq> 0 \<and> ps ! off \<noteq> 32" using Suc.prems by simp
  then show ?case using Suc \<open>off < length ps\<close> by (subst set_name_loop.simps) simp
qed

text \<open>\<open>set_name\<close> with a buffer of exactly \<open>n_name\<close> characters, none of them a blank or zero,
  reads the character behind the buffer.\<close>

theorem set_name_reads_past_the_buffer:
  assumes "0 < length ps" "length ps \<le> 16" "\<forall>b\<in>set ps. b \<noteq> 0 \<and> b \<noteq> 32"
  shows "fun_set_name (Some ps) (length ps) f = None"
  using assms by (simp add: fun_set_name_def set_name_loop_overread)

theorem set_name_reads_past_the_buffer_witness:
  "fun_set_name (Some [0x65, 0x6C, 0x61, 0x72, 0x61]) (length [0x65 :: byte, 0x6C, 0x61, 0x72, 0x61])
     \<lparr>fun_s_name = [], fun_version = version_reset\<rparr> = None"
  by (rule set_name_reads_past_the_buffer) simp_all

end
