(* ===== verification/KeyMapHid.thy ===== *)
theory KeyMapHid
  imports Prelude
begin

text \<open>
  The USB keyboard maps of \<open>ckey_map\<close> (shared/common/inc/ckey_map.h with the key codes of
  shared/common/inc/lpu230/KBConst.h): for each of the eleven languages and each of 130 character
  codes the modifier and the key that a USB keyboard sends.
\<close>

section \<open>Key codes\<close>

abbreviation (input) HIDKEY_MOD__NONE :: byte where "HIDKEY_MOD__NONE \<equiv> 0x00"
abbreviation (input) HIDKEY_MOD_L_SFT :: byte where "HIDKEY_MOD_L_SFT \<equiv> 0x02"
abbreviation (input) HIDKEY____a____A :: byte where "HIDKEY____a____A \<equiv> 0x04"
abbreviation (input) HIDKEY____b____B :: byte where "HIDKEY____b____B \<equiv> 0x05"
abbreviation (input) HIDKEY____c____C :: byte where "HIDKEY____c____C \<equiv> 0x06"
abbreviation (input) HIDKEY____d____D :: byte where "HIDKEY____d____D \<equiv> 0x07"
abbreviation (input) HIDKEY____e____E :: byte where "HIDKEY____e____E \<equiv> 0x08"
abbreviation (input) HIDKEY____f____F :: byte where "HIDKEY____f____F \<equiv> 0x09"
abbreviation (input) HIDKEY____g____G :: byte where "HIDKEY____g____G \<equiv> 0x0A"
abbreviation (input) HIDKEY____h____H :: byte where "HIDKEY____h____H \<equiv> 0x0B"
abbreviation (input) HIDKEY____i____I :: byte where "HIDKEY____i____I \<equiv> 0x0C"
abbreviation (input) HIDKEY____j____J :: byte where "HIDKEY____j____J \<equiv> 0x0D"
abbreviation (input) HIDKEY____k____K :: byte where "HIDKEY____k____K \<equiv> 0x0E"
abbreviation (input) HIDKEY____l____L :: byte where "HIDKEY____l____L \<equiv> 0x0F"
abbreviation (input) HIDKEY____m____M :: byte where "HIDKEY____m____M \<equiv> 0x10"
abbreviation (input) HIDKEY____n____N :: byte where "HIDKEY____n____N \<equiv> 0x11"
abbreviation (input) HIDKEY____o____O :: byte where "HIDKEY____o____O \<equiv> 0x12"
abbreviation (input) HIDKEY____p____P :: byte where "HIDKEY____p____P \<equiv> 0x13"
abbreviation (input) HIDKEY____q____Q :: byte where "HIDKEY____q____Q \<equiv> 0x14"
abbreviation (input) HIDKEY____r____R :: byte where "HIDKEY____r____R \<equiv> 0x15"
abbreviation (input) HIDKEY____s____S :: byte where "HIDKEY____s____S \<equiv> 0x16"
abbreviation (input) HIDKEY____t____T :: byte where "HIDKEY____t____T \<equiv> 0x17"
abbreviation (input) HIDKEY____u____U :: byte where "HIDKEY____u____U \<equiv> 0x18"
abbreviation (input) HIDKEY____v____V :: byte where "HIDKEY____v____V \<equiv> 0x19"
abbreviation (input) HIDKEY____w____W :: byte where "HIDKEY____w____W \<equiv> 0x1A"
abbreviation (input) HIDKEY____x____X :: byte where "HIDKEY____x____X \<equiv> 0x1B"
abbreviation (input) HIDKEY____y____Y :: byte where "HIDKEY____y____Y \<equiv> 0x1C"
abbreviation (input) HIDKEY____z____Z :: byte where "HIDKEY____z____Z \<equiv> 0x1D"
abbreviation (input) HIDKEY____1_EXCL :: byte where "HIDKEY____1_EXCL \<equiv> 0x1E"
abbreviation (input) HIDKEY____2_QUOT :: byte where "HIDKEY____2_QUOT \<equiv> 0x1F"
abbreviation (input) HIDKEY____3_SHAR :: byte where "HIDKEY____3_SHAR \<equiv> 0x20"
abbreviation (input) HIDKEY____4_DOLL :: byte where "HIDKEY____4_DOLL \<equiv> 0x21"
abbreviation (input) HIDKEY____5_PERC :: byte where "HIDKEY____5_PERC \<equiv> 0x22"
abbreviation (input) HIDKEY____6_CIRC :: byte where "HIDKEY____6_CIRC \<equiv> 0x23"
abbreviation (input) HIDKEY____7_AMPE :: byte where "HIDKEY____7_AMPE \<equiv> 0x24"
abbreviation (input) HIDKEY____8_ASTE :: byte where "HIDKEY____8_ASTE \<equiv> 0x25"
abbreviation (input) HIDKEY____9_L_PA :: byte where "HIDKEY____9_L_PA \<equiv> 0x26"
abbreviation (input) HIDKEY____0_R_PA :: byte where "HIDKEY____0_R_PA \<equiv> 0x27"
abbreviation (input) HIDKEY____RETURN :: byte where "HIDKEY____RETURN \<equiv> 0x28"
abbreviation (input) HIDKEY____ESCAPE :: byte where "HIDKEY____ESCAPE \<equiv> 0x29"
abbreviation (input) HIDKEY_BACKSPACE :: byte where "HIDKEY_BACKSPACE \<equiv> 0x2A"
abbreviation (input) HIDKEY_______TAB :: byte where "HIDKEY_______TAB \<equiv> 0x2B"
abbreviation (input) HIDKEY_____SPACE :: byte where "HIDKEY_____SPACE \<equiv> 0x2C"
abbreviation (input) HIDKEY_MIN_UNDER :: byte where "HIDKEY_MIN_UNDER \<equiv> 0x2D"
abbreviation (input) HIDKEY_EQU__PLUS :: byte where "HIDKEY_EQU__PLUS \<equiv> 0x2E"
abbreviation (input) HIDKEY_LBT___LBR :: byte where "HIDKEY_LBT___LBR \<equiv> 0x2F"
abbreviation (input) HIDKEY_RBT___RBR :: byte where "HIDKEY_RBT___RBR \<equiv> 0x30"
abbreviation (input) HIDKEY_BSLA_VBAR :: byte where "HIDKEY_BSLA_VBAR \<equiv> 0x31"
abbreviation (input) HIDKEY_SEMI__COL :: byte where "HIDKEY_SEMI__COL \<equiv> 0x33"
abbreviation (input) HIDKEY_APOS_QUOT :: byte where "HIDKEY_APOS_QUOT \<equiv> 0x34"
abbreviation (input) HIDKEY_GRAV_TILD :: byte where "HIDKEY_GRAV_TILD \<equiv> 0x35"
abbreviation (input) HIDKEY_COMA___LT :: byte where "HIDKEY_COMA___LT \<equiv> 0x36"
abbreviation (input) HIDKEY_PERIOD_GT :: byte where "HIDKEY_PERIOD_GT \<equiv> 0x37"
abbreviation (input) HIDKEY_SLASH__QM :: byte where "HIDKEY_SLASH__QM \<equiv> 0x38"
abbreviation (input) HIDKEY_MOD_R_ALT :: byte where "HIDKEY_MOD_R_ALT \<equiv> 0x40"

section \<open>The tables\<close>

definition hid_english :: "(byte \<times> byte) list" where
  "hid_english =
   [(0, 0), (0, 0), (0, 0), (0, 0), (0, 0), (0, 0), (0, 0), (0, 0),
    (HIDKEY_MOD__NONE, HIDKEY_BACKSPACE), (HIDKEY_MOD__NONE, HIDKEY_______TAB), (0, 0), (0, 0),
    (0, 0), (HIDKEY_MOD__NONE, HIDKEY____RETURN), (0, 0), (0, 0), (0, 0), (0, 0), (0, 0), (0, 0),
    (0, 0), (0, 0), (0, 0), (0, 0), (0, 0), (0, 0), (0, 0), (HIDKEY_MOD__NONE, HIDKEY____ESCAPE),
    (0, 0), (0, 0), (0, 0), (0, 0), (HIDKEY_MOD__NONE, HIDKEY_____SPACE),
    (HIDKEY_MOD_L_SFT, HIDKEY____1_EXCL), (HIDKEY_MOD_L_SFT, HIDKEY_APOS_QUOT),
    (HIDKEY_MOD_L_SFT, HIDKEY____3_SHAR), (HIDKEY_MOD_L_SFT, HIDKEY____4_DOLL),
    (HIDKEY_MOD_L_SFT, HIDKEY____5_PERC), (HIDKEY_MOD_L_SFT, HIDKEY____7_AMPE),
    (HIDKEY_MOD__NONE, HIDKEY_APOS_QUOT), (HIDKEY_MOD_L_SFT, HIDKEY____9_L_PA),
    (HIDKEY_MOD_L_SFT, HIDKEY____0_R_PA), (HIDKEY_MOD_L_SFT, HIDKEY____8_ASTE),
    (HIDKEY_MOD_L_SFT, HIDKEY_EQU__PLUS), (HIDKEY_MOD__NONE, HIDKEY_COMA___LT),
    (HIDKEY_MOD__NONE, HIDKEY_MIN_UNDER), (HIDKEY_MOD__NONE, HIDKEY_PERIOD_GT),
    (HIDKEY_MOD__NONE, HIDKEY_SLASH__QM), (HIDKEY_MOD__NONE, HIDKEY____0_R_PA),
    (HIDKEY_MOD__NONE, HIDKEY____1_EXCL), (HIDKEY_MOD__NONE, HIDKEY____2_QUOT),
    (HIDKEY_MOD__NONE, HIDKEY____3_SHAR), (HIDKEY_MOD__NONE, HIDKEY____4_DOLL),
    (HIDKEY_MOD__NONE, HIDKEY____5_PERC), (HIDKEY_MOD__NONE, HIDKEY____6_CIRC),
    (HIDKEY_MOD__NONE, HIDKEY____7_AMPE), (HIDKEY_MOD__NONE, HIDKEY____8_ASTE),
    (HIDKEY_MOD__NONE, HIDKEY____9_L_PA), (HIDKEY_MOD_L_SFT, HIDKEY_SEMI__COL),
    (HIDKEY_MOD__NONE, HIDKEY_SEMI__COL), (HIDKEY_MOD_L_SFT, HIDKEY_COMA___LT),
    (HIDKEY_MOD__NONE, HIDKEY_EQU__PLUS), (HIDKEY_MOD_L_SFT, HIDKEY_PERIOD_GT),
    (HIDKEY_MOD_L_SFT, HIDKEY_SLASH__QM), (HIDKEY_MOD_L_SFT, HIDKEY____2_QUOT),
    (HIDKEY_MOD_L_SFT, HIDKEY____a____A), (HIDKEY_MOD_L_SFT, HIDKEY____b____B),
    (HIDKEY_MOD_L_SFT, HIDKEY____c____C), (HIDKEY_MOD_L_SFT, HIDKEY____d____D),
    (HIDKEY_MOD_L_SFT, HIDKEY____e____E), (HIDKEY_MOD_L_SFT, HIDKEY____f____F),
    (HIDKEY_MOD_L_SFT, HIDKEY____g____G), (HIDKEY_MOD_L_SFT, HIDKEY____h____H),
    (HIDKEY_MOD_L_SFT, HIDKEY____i____I), (HIDKEY_MOD_L_SFT, HIDKEY____j____J),
    (HIDKEY_MOD_L_SFT, HIDKEY____k____K), (HIDKEY_MOD_L_SFT, HIDKEY____l____L),
    (HIDKEY_MOD_L_SFT, HIDKEY____m____M), (HIDKEY_MOD_L_SFT, HIDKEY____n____N),
    (HIDKEY_MOD_L_SFT, HIDKEY____o____O), (HIDKEY_MOD_L_SFT, HIDKEY____p____P),
    (HIDKEY_MOD_L_SFT, HIDKEY____q____Q), (HIDKEY_MOD_L_SFT, HIDKEY____r____R),
    (HIDKEY_MOD_L_SFT, HIDKEY____s____S), (HIDKEY_MOD_L_SFT, HIDKEY____t____T),
    (HIDKEY_MOD_L_SFT, HIDKEY____u____U), (HIDKEY_MOD_L_SFT, HIDKEY____v____V),
    (HIDKEY_MOD_L_SFT, HIDKEY____w____W), (HIDKEY_MOD_L_SFT, HIDKEY____x____X),
    (HIDKEY_MOD_L_SFT, HIDKEY____y____Y), (HIDKEY_MOD_L_SFT, HIDKEY____z____Z),
    (HIDKEY_MOD__NONE, HIDKEY_LBT___LBR), (HIDKEY_MOD__NONE, HIDKEY_BSLA_VBAR),
    (HIDKEY_MOD__NONE, HIDKEY_RBT___RBR), (HIDKEY_MOD_L_SFT, HIDKEY____6_CIRC),
    (HIDKEY_MOD_L_SFT, HIDKEY_MIN_UNDER), (HIDKEY_MOD__NONE, HIDKEY_GRAV_TILD),
    (HIDKEY_MOD__NONE, HIDKEY____a____A), (HIDKEY_MOD__NONE, HIDKEY____b____B),
    (HIDKEY_MOD__NONE, HIDKEY____c____C), (HIDKEY_MOD__NONE, HIDKEY____d____D),
    (HIDKEY_MOD__NONE, HIDKEY____e____E), (HIDKEY_MOD__NONE, HIDKEY____f____F),
    (HIDKEY_MOD__NONE, HIDKEY____g____G), (HIDKEY_MOD__NONE, HIDKEY____h____H),
    (HIDKEY_MOD__NONE, HIDKEY____i____I), (HIDKEY_MOD__NONE, HIDKEY____j____J),
    (HIDKEY_MOD__NONE, HIDKEY____k____K), (HIDKEY_MOD__NONE, HIDKEY____l____L),
    (HIDKEY_MOD__NONE, HIDKEY____m____M), (HIDKEY_MOD__NONE, HIDKEY____n____N),
    (HIDKEY_MOD__NONE, HIDKEY____o____O), (HIDKEY_MOD__NONE, HIDKEY____p____P),
    (HIDKEY_MOD__NONE, HIDKEY____q____Q), (HIDKEY_MOD__NONE, HIDKEY____r____R),
    (HIDKEY_MOD__NONE, HIDKEY____s____S), (HIDKEY_MOD__NONE, HIDKEY____t____T),
    (HIDKEY_MOD__NONE, HIDKEY____u____U), (HIDKEY_MOD__NONE, HIDKEY____v____V),
    (HIDKEY_MOD__NONE, HIDKEY____w____W), (HIDKEY_MOD__NONE, HIDKEY____x____X),
    (HIDKEY_MOD__NONE, HIDKEY____y____Y), (HIDKEY_MOD__NONE, HIDKEY____z____Z),
    (HIDKEY_MOD_L_SFT, HIDKEY_LBT___LBR), (HIDKEY_MOD_L_SFT, HIDKEY_BSLA_VBAR),
    (HIDKEY_MOD_L_SFT, HIDKEY_RBT___RBR), (HIDKEY_MOD_L_SFT, HIDKEY_GRAV_TILD), (0, 0), (0, 0),
    (0, 0)]"

definition hid_spanish :: "(byte \<times> byte) list" where
  "hid_spanish =
   [(0, 0), (0, 0), (0, 0), (0, 0), (0, 0), (0, 0), (0, 0), (0, 0),
    (HIDKEY_MOD__NONE, HIDKEY_BACKSPACE), (HIDKEY_MOD__NONE, HIDKEY_______TAB), (0, 0), (0, 0),
    (0, 0), (HIDKEY_MOD__NONE, HIDKEY____RETURN), (0, 0), (0, 0), (0, 0),
    (HIDKEY_MOD_L_SFT, 0x33), (HIDKEY_MOD_L_SFT, 0x31), (HIDKEY_MOD_L_SFT, 0x34),
    (HIDKEY_MOD_L_SFT, 0x35), (0, 0), (0, 0), (0, 0), (0, 0), (0, 0), (0, 0),
    (HIDKEY_MOD__NONE, HIDKEY____ESCAPE), (0, 0), (0, 0), (0, 0), (0, 0),
    (HIDKEY_MOD__NONE, HIDKEY_____SPACE), (HIDKEY_MOD_L_SFT, HIDKEY____1_EXCL),
    (HIDKEY_MOD_L_SFT, HIDKEY____2_QUOT), (HIDKEY_MOD_R_ALT, HIDKEY____3_SHAR),
    (HIDKEY_MOD_L_SFT, HIDKEY____4_DOLL), (HIDKEY_MOD_L_SFT, HIDKEY____5_PERC),
    (HIDKEY_MOD_L_SFT, HIDKEY____6_CIRC), (HIDKEY_MOD__NONE, HIDKEY_MIN_UNDER),
    (HIDKEY_MOD_L_SFT, HIDKEY____8_ASTE), (HIDKEY_MOD_L_SFT, HIDKEY____9_L_PA),
    (HIDKEY_MOD_L_SFT, HIDKEY_RBT___RBR), (HIDKEY_MOD__NONE, HIDKEY_RBT___RBR),
    (HIDKEY_MOD__NONE, HIDKEY_COMA___LT), (HIDKEY_MOD__NONE, HIDKEY_SLASH__QM),
    (HIDKEY_MOD__NONE, HIDKEY_PERIOD_GT), (HIDKEY_MOD_L_SFT, HIDKEY____7_AMPE),
    (HIDKEY_MOD__NONE, HIDKEY____0_R_PA), (HIDKEY_MOD__NONE, HIDKEY____1_EXCL),
    (HIDKEY_MOD__NONE, HIDKEY____2_QUOT), (HIDKEY_MOD__NONE, HIDKEY____3_SHAR),
    (HIDKEY_MOD__NONE, HIDKEY____4_DOLL), (HIDKEY_MOD__NONE, HIDKEY____5_PERC),
    (HIDKEY_MOD__NONE, HIDKEY____6_CIRC), (HIDKEY_MOD__NONE, HIDKEY____7_AMPE),
    (HIDKEY_MOD__NONE, HIDKEY____8_ASTE), (HIDKEY_MOD__NONE, HIDKEY____9_L_PA),
    (HIDKEY_MOD_L_SFT, HIDKEY_PERIOD_GT), (HIDKEY_MOD_L_SFT, HIDKEY_COMA___LT),
    (HIDKEY_MOD__NONE, 0x64), (HIDKEY_MOD_L_SFT, HIDKEY____0_R_PA), (HIDKEY_MOD_L_SFT, 0x64),
    (HIDKEY_MOD_L_SFT, HIDKEY_MIN_UNDER), (HIDKEY_MOD_R_ALT, HIDKEY____2_QUOT),
    (HIDKEY_MOD_L_SFT, HIDKEY____a____A), (HIDKEY_MOD_L_SFT, HIDKEY____b____B),
    (HIDKEY_MOD_L_SFT, HIDKEY____c____C), (HIDKEY_MOD_L_SFT, HIDKEY____d____D),
    (HIDKEY_MOD_L_SFT, HIDKEY____e____E), (HIDKEY_MOD_L_SFT, HIDKEY____f____F),
    (HIDKEY_MOD_L_SFT, HIDKEY____g____G), (HIDKEY_MOD_L_SFT, HIDKEY____h____H),
    (HIDKEY_MOD_L_SFT, HIDKEY____i____I), (HIDKEY_MOD_L_SFT, HIDKEY____j____J),
    (HIDKEY_MOD_L_SFT, HIDKEY____k____K), (HIDKEY_MOD_L_SFT, HIDKEY____l____L),
    (HIDKEY_MOD_L_SFT, HIDKEY____m____M), (HIDKEY_MOD_L_SFT, HIDKEY____n____N),
    (HIDKEY_MOD_L_SFT, HIDKEY____o____O), (HIDKEY_MOD_L_SFT, HIDKEY____p____P),
    (HIDKEY_MOD_L_SFT, HIDKEY____q____Q), (HIDKEY_MOD_L_SFT, HIDKEY____r____R),
    (HIDKEY_MOD_L_SFT, HIDKEY____s____S), (HIDKEY_MOD_L_SFT, HIDKEY____t____T),
    (HIDKEY_MOD_L_SFT, HIDKEY____u____U), (HIDKEY_MOD_L_SFT, HIDKEY____v____V),
    (HIDKEY_MOD_L_SFT, HIDKEY____w____W), (HIDKEY_MOD_L_SFT, HIDKEY____x____X),
    (HIDKEY_MOD_L_SFT, HIDKEY____y____Y), (HIDKEY_MOD_L_SFT, HIDKEY____z____Z),
    (HIDKEY_MOD_R_ALT, HIDKEY_LBT___LBR), (HIDKEY_MOD_R_ALT, HIDKEY_GRAV_TILD),
    (HIDKEY_MOD_R_ALT, HIDKEY_RBT___RBR), (HIDKEY_MOD_L_SFT, HIDKEY_LBT___LBR),
    (HIDKEY_MOD_L_SFT, HIDKEY_SLASH__QM), (HIDKEY_MOD__NONE, 0x2F),
    (HIDKEY_MOD__NONE, HIDKEY____a____A), (HIDKEY_MOD__NONE, HIDKEY____b____B),
    (HIDKEY_MOD__NONE, HIDKEY____c____C), (HIDKEY_MOD__NONE, HIDKEY____d____D),
    (HIDKEY_MOD__NONE, HIDKEY____e____E), (HIDKEY_MOD__NONE, HIDKEY____f____F),
    (HIDKEY_MOD__NONE, HIDKEY____g____G), (HIDKEY_MOD__NONE, HIDKEY____h____H),
    (HIDKEY_MOD__NONE, HIDKEY____i____I), (HIDKEY_MOD__NONE, HIDKEY____j____J),
    (HIDKEY_MOD__NONE, HIDKEY____k____K), (HIDKEY_MOD__NONE, HIDKEY____l____L),
    (HIDKEY_MOD__NONE, HIDKEY____m____M), (HIDKEY_MOD__NONE, HIDKEY____n____N),
    (HIDKEY_MOD__NONE, HIDKEY____o____O), (HIDKEY_MOD__NONE, HIDKEY____p____P),
    (HIDKEY_MOD__NONE, HIDKEY____q____Q), (HIDKEY_MOD__NONE, HIDKEY____r____R),
    (HIDKEY_MOD__NONE, HIDKEY____s____S), (HIDKEY_MOD__NONE, HIDKEY____t____T),
    (HIDKEY_MOD__NONE, HIDKEY____u____U), (HIDKEY_MOD__NONE, HIDKEY____v____V),
    (HIDKEY_MOD__NONE, HIDKEY____w____W), (HIDKEY_MOD__NONE, HIDKEY____x____X),
    (HIDKEY_MOD__NONE, HIDKEY____y____Y), (HIDKEY_MOD__NONE, HIDKEY____z____Z),
    (HIDKEY_MOD_L_SFT, 0x33), (HIDKEY_MOD_L_SFT, HIDKEY_BSLA_VBAR), (HIDKEY_MOD_L_SFT, 0x34),
    (HIDKEY_MOD_L_SFT, 0x35), (0, 0), (0, 0), (0, 0)]"

definition hid_danish :: "(byte \<times> byte) list" where
  "hid_danish =
   [(0, 0), (0, 0), (0, 0), (0, 0), (0, 0), (0, 0), (0, 0), (0, 0),
    (HIDKEY_MOD__NONE, HIDKEY_BACKSPACE), (HIDKEY_MOD__NONE, HIDKEY_______TAB), (0, 0), (0, 0),
    (0, 0), (HIDKEY_MOD__NONE, HIDKEY____RETURN), (0, 0), (0, 0), (0, 0), (0, 0), (0, 0), (0, 0),
    (0, 0), (0, 0), (0, 0), (0, 0), (0, 0), (0, 0), (0, 0), (HIDKEY_MOD__NONE, HIDKEY____ESCAPE),
    (0, 0), (0, 0), (0, 0), (0, 0), (HIDKEY_MOD__NONE, HIDKEY_____SPACE),
    (HIDKEY_MOD_L_SFT, HIDKEY____1_EXCL), (HIDKEY_MOD_L_SFT, HIDKEY____2_QUOT),
    (HIDKEY_MOD_L_SFT, HIDKEY____3_SHAR), (HIDKEY_MOD_R_ALT, HIDKEY____4_DOLL),
    (HIDKEY_MOD_L_SFT, HIDKEY____5_PERC), (HIDKEY_MOD_L_SFT, HIDKEY____6_CIRC),
    (HIDKEY_MOD__NONE, 0x32), (HIDKEY_MOD_L_SFT, HIDKEY____8_ASTE),
    (HIDKEY_MOD_L_SFT, HIDKEY____9_L_PA), (HIDKEY_MOD_L_SFT, 0x32),
    (HIDKEY_MOD__NONE, HIDKEY_MIN_UNDER), (HIDKEY_MOD__NONE, HIDKEY_COMA___LT),
    (HIDKEY_MOD__NONE, HIDKEY_SLASH__QM), (HIDKEY_MOD__NONE, HIDKEY_PERIOD_GT),
    (HIDKEY_MOD_L_SFT, HIDKEY____7_AMPE), (HIDKEY_MOD__NONE, HIDKEY____0_R_PA),
    (HIDKEY_MOD__NONE, HIDKEY____1_EXCL), (HIDKEY_MOD__NONE, HIDKEY____2_QUOT),
    (HIDKEY_MOD__NONE, HIDKEY____3_SHAR), (HIDKEY_MOD__NONE, HIDKEY____4_DOLL),
    (HIDKEY_MOD__NONE, HIDKEY____5_PERC), (HIDKEY_MOD__NONE, HIDKEY____6_CIRC),
    (HIDKEY_MOD__NONE, HIDKEY____7_AMPE), (HIDKEY_MOD__NONE, HIDKEY____8_ASTE),
    (HIDKEY_MOD__NONE, HIDKEY____9_L_PA), (HIDKEY_MOD_L_SFT, HIDKEY_PERIOD_GT),
    (HIDKEY_MOD_L_SFT, HIDKEY_COMA___LT), (HIDKEY_MOD__NONE, 0x64),
    (HIDKEY_MOD_L_SFT, HIDKEY____0_R_PA), (HIDKEY_MOD_L_SFT, 0x64),
    (HIDKEY_MOD_L_SFT, HIDKEY_MIN_UNDER), (HIDKEY_MOD_R_ALT, HIDKEY____2_QUOT),
    (HIDKEY_MOD_L_SFT, HIDKEY____a____A), (HIDKEY_MOD_L_SFT, HIDKEY____b____B),
    (HIDKEY_MOD_L_SFT, HIDKEY____c____C), (HIDKEY_MOD_L_SFT, HIDKEY____d____D),
    (HIDKEY_MOD_L_SFT, HIDKEY____e____E), (HIDKEY_MOD_L_SFT, HIDKEY____f____F),
    (HIDKEY_MOD_L_SFT, HIDKEY____g____G), (HIDKEY_MOD_L_SFT, HIDKEY____h____H),
    (HIDKEY_MOD_L_SFT, HIDKEY____i____I), (HIDKEY_MOD_L_SFT, HIDKEY____j____J),
    (HIDKEY_MOD_L_SFT, HIDKEY____k____K), (HIDKEY_MOD_L_SFT, HIDKEY____l____L),
    (HIDKEY_MOD_L_SFT, HIDKEY____m____M), (HIDKEY_MOD_L_SFT, HIDKEY____n____N),
    (HIDKEY_MOD_L_SFT, HIDKEY____o____O), (HIDKEY_MOD_L_SFT, HIDKEY____p____P),
    (HIDKEY_MOD_L_SFT, HIDKEY____q____Q), (HIDKEY_MOD_L_SFT, HIDKEY____r____R),
    (HIDKEY_MOD_L_SFT, HIDKEY____s____S), (HIDKEY_MOD_L_SFT, HIDKEY____t____T),
    (HIDKEY_MOD_L_SFT, HIDKEY____u____U), (HIDKEY_MOD_L_SFT, HIDKEY____v____V),
    (HIDKEY_MOD_L_SFT, HIDKEY____w____W), (HIDKEY_MOD_L_SFT, HIDKEY____x____X),
    (HIDKEY_MOD_L_SFT, HIDKEY____y____Y), (HIDKEY_MOD_L_SFT, HIDKEY____z____Z),
    (HIDKEY_MOD_R_ALT, HIDKEY____8_ASTE), (HIDKEY_MOD_R_ALT, 0x64),
    (HIDKEY_MOD_R_ALT, HIDKEY____9_L_PA), (HIDKEY_MOD_L_SFT, HIDKEY_RBT___RBR),
    (HIDKEY_MOD_L_SFT, HIDKEY_SLASH__QM), (HIDKEY_MOD__NONE, HIDKEY_GRAV_TILD),
    (HIDKEY_MOD__NONE, HIDKEY____a____A), (HIDKEY_MOD__NONE, HIDKEY____b____B),
    (HIDKEY_MOD__NONE, HIDKEY____c____C), (HIDKEY_MOD__NONE, HIDKEY____d____D),
    (HIDKEY_MOD__NONE, HIDKEY____e____E), (HIDKEY_MOD__NONE, HIDKEY____f____F),
    (HIDKEY_MOD__NONE, HIDKEY____g____G), (HIDKEY_MOD__NONE, HIDKEY____h____H),
    (HIDKEY_MOD__NONE, HIDKEY____i____I), (HIDKEY_MOD__NONE, HIDKEY____j____J),
    (HIDKEY_MOD__NONE, HIDKEY____k____K), (HIDKEY_MOD__NONE, HIDKEY____l____L),
    (HIDKEY_MOD__NONE, HIDKEY____m____M), (HIDKEY_MOD__NONE, HIDKEY____n____N),
    (HIDKEY_MOD__NONE, HIDKEY____o____O), (HIDKEY_MOD__NONE, HIDKEY____p____P),
    (HIDKEY_MOD__NONE, HIDKEY____q____Q), (HIDKEY_MOD__NONE, HIDKEY____r____R),
    (HIDKEY_MOD__NONE, HIDKEY____s____S), (HIDKEY_MOD__NONE, HIDKEY____t____T),
    (HIDKEY_MOD__NONE, HIDKEY____u____U), (HIDKEY_MOD__NONE, HIDKEY____v____V),
    (HIDKEY_MOD__NONE, HIDKEY____w____W), (HIDKEY_MOD__NONE, HIDKEY____x____X),
    (HIDKEY_MOD__NONE, HIDKEY____y____Y), (HIDKEY_MOD__NONE, HIDKEY____z____Z),
    (HIDKEY_MOD_L_SFT, HIDKEY_LBT___LBR), (HIDKEY_MOD_L_SFT, HIDKEY_BSLA_VBAR),
    (HIDKEY_MOD_L_SFT, HIDKEY_RBT___RBR), (HIDKEY_MOD_L_SFT, HIDKEY_GRAV_TILD), (0, 0), (0, 0),
    (0, 0)]"

definition hid_french :: "(byte \<times> byte) list" where
  "hid_french =
   [(0, 0), (0, 0), (0, 0), (0, 0), (0, 0), (0, 0), (0, 0), (0, 0),
    (HIDKEY_MOD__NONE, HIDKEY_BACKSPACE), (HIDKEY_MOD__NONE, HIDKEY_______TAB), (0, 0), (0, 0),
    (0, 0), (HIDKEY_MOD__NONE, HIDKEY____RETURN), (0, 0), (0, 0), (0, 0), (0, 0), (0, 0), (0, 0),
    (0, 0), (0, 0), (0, 0), (0, 0), (0, 0), (0, 0), (0, 0), (HIDKEY_MOD__NONE, HIDKEY____ESCAPE),
    (0, 0), (0, 0), (0, 0), (0, 0), (HIDKEY_MOD__NONE, HIDKEY_____SPACE),
    (HIDKEY_MOD__NONE, HIDKEY_SLASH__QM), (HIDKEY_MOD__NONE, HIDKEY____3_SHAR),
    (HIDKEY_MOD_R_ALT, HIDKEY____3_SHAR), (HIDKEY_MOD__NONE, HIDKEY_RBT___RBR),
    (HIDKEY_MOD_L_SFT, HIDKEY_APOS_QUOT), (HIDKEY_MOD__NONE, HIDKEY____1_EXCL),
    (HIDKEY_MOD__NONE, HIDKEY____4_DOLL), (HIDKEY_MOD__NONE, HIDKEY____5_PERC),
    (HIDKEY_MOD__NONE, HIDKEY_MIN_UNDER), (HIDKEY_MOD__NONE, 0x32),
    (HIDKEY_MOD_L_SFT, HIDKEY_EQU__PLUS), (HIDKEY_MOD__NONE, HIDKEY____m____M),
    (HIDKEY_MOD__NONE, HIDKEY____6_CIRC), (HIDKEY_MOD_L_SFT, HIDKEY_COMA___LT),
    (HIDKEY_MOD_L_SFT, HIDKEY_PERIOD_GT), (HIDKEY_MOD_L_SFT, HIDKEY____0_R_PA),
    (HIDKEY_MOD_L_SFT, HIDKEY____1_EXCL), (HIDKEY_MOD_L_SFT, HIDKEY____2_QUOT),
    (HIDKEY_MOD_L_SFT, HIDKEY____3_SHAR), (HIDKEY_MOD_L_SFT, HIDKEY____4_DOLL),
    (HIDKEY_MOD_L_SFT, HIDKEY____5_PERC), (HIDKEY_MOD_L_SFT, HIDKEY____6_CIRC),
    (HIDKEY_MOD_L_SFT, HIDKEY____7_AMPE), (HIDKEY_MOD_L_SFT, HIDKEY____8_ASTE),
    (HIDKEY_MOD_L_SFT, HIDKEY____9_L_PA), (HIDKEY_MOD__NONE, HIDKEY_PERIOD_GT),
    (HIDKEY_MOD__NONE, HIDKEY_COMA___LT), (HIDKEY_MOD__NONE, 0x64),
    (HIDKEY_MOD__NONE, HIDKEY_EQU__PLUS), (HIDKEY_MOD_L_SFT, 0x64),
    (HIDKEY_MOD_L_SFT, HIDKEY____m____M), (HIDKEY_MOD_R_ALT, HIDKEY____0_R_PA),
    (HIDKEY_MOD_L_SFT, HIDKEY____q____Q), (HIDKEY_MOD_L_SFT, HIDKEY____b____B),
    (HIDKEY_MOD_L_SFT, HIDKEY____c____C), (HIDKEY_MOD_L_SFT, HIDKEY____d____D),
    (HIDKEY_MOD_L_SFT, HIDKEY____e____E), (HIDKEY_MOD_L_SFT, HIDKEY____f____F),
    (HIDKEY_MOD_L_SFT, HIDKEY____g____G), (HIDKEY_MOD_L_SFT, HIDKEY____h____H),
    (HIDKEY_MOD_L_SFT, HIDKEY____i____I), (HIDKEY_MOD_L_SFT, HIDKEY____j____J),
    (HIDKEY_MOD_L_SFT, HIDKEY____k____K), (HIDKEY_MOD_L_SFT, HIDKEY____l____L),
    (HIDKEY_MOD_L_SFT, HIDKEY_SEMI__COL), (HIDKEY_MOD_L_SFT, HIDKEY____n____N),
    (HIDKEY_MOD_L_SFT, HIDKEY____o____O), (HIDKEY_MOD_L_SFT, HIDKEY____p____P),
    (HIDKEY_MOD_L_SFT, HIDKEY____a____A), (HIDKEY_MOD_L_SFT, HIDKEY____r____R),
    (HIDKEY_MOD_L_SFT, HIDKEY____s____S), (HIDKEY_MOD_L_SFT, HIDKEY____t____T),
    (HIDKEY_MOD_L_SFT, HIDKEY____u____U), (HIDKEY_MOD_L_SFT, HIDKEY____v____V),
    (HIDKEY_MOD_L_SFT, HIDKEY____z____Z), (HIDKEY_MOD_L_SFT, HIDKEY____x____X),
    (HIDKEY_MOD_L_SFT, HIDKEY____y____Y), (HIDKEY_MOD_L_SFT, HIDKEY____w____W),
    (HIDKEY_MOD_R_ALT, HIDKEY____5_PERC), (HIDKEY_MOD_R_ALT, HIDKEY____8_ASTE),
    (HIDKEY_MOD_R_ALT, HIDKEY_MIN_UNDER), (HIDKEY_MOD_R_ALT, HIDKEY____9_L_PA),
    (HIDKEY_MOD__NONE, HIDKEY____8_ASTE), (HIDKEY_MOD__NONE, HIDKEY____8_ASTE),
    (HIDKEY_MOD__NONE, HIDKEY____a____A), (HIDKEY_MOD__NONE, HIDKEY____b____B),
    (HIDKEY_MOD__NONE, HIDKEY____c____C), (HIDKEY_MOD__NONE, HIDKEY____d____D),
    (HIDKEY_MOD__NONE, HIDKEY____e____E), (HIDKEY_MOD__NONE, HIDKEY____f____F),
    (HIDKEY_MOD__NONE, HIDKEY____g____G), (HIDKEY_MOD__NONE, HIDKEY____h____H),
    (HIDKEY_MOD__NONE, HIDKEY____i____I), (HIDKEY_MOD__NONE, HIDKEY____j____J),
    (HIDKEY_MOD__NONE, HIDKEY____k____K), (HIDKEY_MOD__NONE, HIDKEY____l____L),
    (HIDKEY_MOD__NONE, HIDKEY____m____M), (HIDKEY_MOD__NONE, HIDKEY____n____N),
    (HIDKEY_MOD__NONE, HIDKEY____o____O), (HIDKEY_MOD__NONE, HIDKEY____p____P),
    (HIDKEY_MOD__NONE, HIDKEY____q____Q), (HIDKEY_MOD__NONE, HIDKEY____r____R),
    (HIDKEY_MOD__NONE, HIDKEY____s____S), (HIDKEY_MOD__NONE, HIDKEY____t____T),
    (HIDKEY_MOD__NONE, HIDKEY____u____U), (HIDKEY_MOD__NONE, HIDKEY____v____V),
    (HIDKEY_MOD__NONE, HIDKEY____w____W), (HIDKEY_MOD__NONE, HIDKEY____x____X),
    (HIDKEY_MOD__NONE, HIDKEY____y____Y), (HIDKEY_MOD__NONE, HIDKEY____z____Z),
    (HIDKEY_MOD_L_SFT, HIDKEY_LBT___LBR), (HIDKEY_MOD_L_SFT, HIDKEY_BSLA_VBAR),
    (HIDKEY_MOD_L_SFT, HIDKEY_RBT___RBR), (HIDKEY_MOD_L_SFT, HIDKEY_GRAV_TILD), (0, 0), (0, 0),
    (0, 0)]"

definition hid_german :: "(byte \<times> byte) list" where
  "hid_german =
   [(0, 0), (0, 0), (0, 0), (0, 0), (0, 0), (0, 0), (0, 0), (0, 0),
    (HIDKEY_MOD__NONE, HIDKEY_BACKSPACE), (HIDKEY_MOD__NONE, HIDKEY_______TAB), (0, 0), (0, 0),
    (0, 0), (HIDKEY_MOD__NONE, HIDKEY____RETURN), (0, 0), (0, 0), (0, 0), (0, 0), (0, 0), (0, 0),
    (0, 0), (0, 0), (0, 0), (0, 0), (0, 0), (0, 0), (0, 0), (HIDKEY_MOD__NONE, HIDKEY____ESCAPE),
    (0, 0), (0, 0), (0, 0), (0, 0), (HIDKEY_MOD__NONE, HIDKEY_____SPACE),
    (HIDKEY_MOD_L_SFT, HIDKEY____1_EXCL), (HIDKEY_MOD_L_SFT, HIDKEY____2_QUOT),
    (HIDKEY_MOD__NONE, 0x32), (HIDKEY_MOD_L_SFT, HIDKEY____4_DOLL),
    (HIDKEY_MOD_L_SFT, HIDKEY____5_PERC), (HIDKEY_MOD_L_SFT, HIDKEY____6_CIRC),
    (HIDKEY_MOD_L_SFT, 0x32), (HIDKEY_MOD_L_SFT, HIDKEY____8_ASTE),
    (HIDKEY_MOD_L_SFT, HIDKEY____9_L_PA), (HIDKEY_MOD_L_SFT, HIDKEY_RBT___RBR),
    (HIDKEY_MOD__NONE, HIDKEY_RBT___RBR), (HIDKEY_MOD__NONE, HIDKEY_COMA___LT),
    (HIDKEY_MOD__NONE, HIDKEY_SLASH__QM), (HIDKEY_MOD__NONE, HIDKEY_PERIOD_GT),
    (HIDKEY_MOD_L_SFT, HIDKEY____7_AMPE), (HIDKEY_MOD__NONE, HIDKEY____0_R_PA),
    (HIDKEY_MOD__NONE, HIDKEY____1_EXCL), (HIDKEY_MOD__NONE, HIDKEY____2_QUOT),
    (HIDKEY_MOD__NONE, HIDKEY____3_SHAR), (HIDKEY_MOD__NONE, HIDKEY____4_DOLL),
    (HIDKEY_MOD__NONE, HIDKEY____5_PERC), (HIDKEY_MOD__NONE, HIDKEY____6_CIRC),
    (HIDKEY_MOD__NONE, HIDKEY____7_AMPE), (HIDKEY_MOD__NONE, HIDKEY____8_ASTE),
    (HIDKEY_MOD__NONE, HIDKEY____9_L_PA), (HIDKEY_MOD_L_SFT, HIDKEY_PERIOD_GT),
    (HIDKEY_MOD_L_SFT, HIDKEY_COMA___LT), (HIDKEY_MOD__NONE, 0x64),
    (HIDKEY_MOD_L_SFT, HIDKEY____0_R_PA), (HIDKEY_MOD_L_SFT, 0x64),
    (HIDKEY_MOD_L_SFT, HIDKEY_MIN_UNDER), (HIDKEY_MOD_R_ALT, HIDKEY____q____Q),
    (HIDKEY_MOD_L_SFT, HIDKEY____a____A), (HIDKEY_MOD_L_SFT, HIDKEY____b____B),
    (HIDKEY_MOD_L_SFT, HIDKEY____c____C), (HIDKEY_MOD_L_SFT, HIDKEY____d____D),
    (HIDKEY_MOD_L_SFT, HIDKEY____e____E), (HIDKEY_MOD_L_SFT, HIDKEY____f____F),
    (HIDKEY_MOD_L_SFT, HIDKEY____g____G), (HIDKEY_MOD_L_SFT, HIDKEY____h____H),
    (HIDKEY_MOD_L_SFT, HIDKEY____i____I), (HIDKEY_MOD_L_SFT, HIDKEY____j____J),
    (HIDKEY_MOD_L_SFT, HIDKEY____k____K), (HIDKEY_MOD_L_SFT, HIDKEY____l____L),
    (HIDKEY_MOD_L_SFT, HIDKEY____m____M), (HIDKEY_MOD_L_SFT, HIDKEY____n____N),
    (HIDKEY_MOD_L_SFT, HIDKEY____o____O), (HIDKEY_MOD_L_SFT, HIDKEY____p____P),
    (HIDKEY_MOD_L_SFT, HIDKEY____q____Q), (HIDKEY_MOD_L_SFT, HIDKEY____r____R),
    (HIDKEY_MOD_L_SFT, HIDKEY____s____S), (HIDKEY_MOD_L_SFT, HIDKEY____t____T),
    (HIDKEY_MOD_L_SFT, HIDKEY____u____U), (HIDKEY_MOD_L_SFT, HIDKEY____v____V),
    (HIDKEY_MOD_L_SFT, HIDKEY____w____W), (HIDKEY_MOD_L_SFT, HIDKEY____x____X),
    (HIDKEY_MOD_L_SFT, HIDKEY____z____Z), (HIDKEY_MOD_L_SFT, HIDKEY____y____Y),
    (HIDKEY_MOD_R_ALT, HIDKEY____8_ASTE), (HIDKEY_MOD_R_ALT, HIDKEY_MIN_UNDER),
    (HIDKEY_MOD_R_ALT, HIDKEY____9_L_PA), (HIDKEY_MOD__NONE, HIDKEY_GRAV_TILD),
    (HIDKEY_MOD_L_SFT, HIDKEY_SLASH__QM), (HIDKEY_MOD__NONE, HIDKEY_GRAV_TILD),
    (HIDKEY_MOD__NONE, HIDKEY____a____A), (HIDKEY_MOD__NONE, HIDKEY____b____B),
    (HIDKEY_MOD__NONE, HIDKEY____c____C), (HIDKEY_MOD__NONE, HIDKEY____d____D),
    (HIDKEY_MOD__NONE, HIDKEY____e____E), (HIDKEY_MOD__NONE, HIDKEY____f____F),
    (HIDKEY_MOD__NONE, HIDKEY____g____G), (HIDKEY_MOD__NONE, HIDKEY____h____H),
    (HIDKEY_MOD__NONE, HIDKEY____i____I), (HIDKEY_MOD__NONE, HIDKEY____j____J),
    (HIDKEY_MOD__NONE, HIDKEY____k____K), (HIDKEY_MOD__NONE, HIDKEY____l____L),
    (HIDKEY_MOD__NONE, HIDKEY____m____M), (HIDKEY_MOD__NONE, HIDKEY____n____N),
    (HIDKEY_MOD__NONE, HIDKEY____o____O), (HIDKEY_MOD__NONE, HIDKEY____p____P),
    (HIDKEY_MOD__NONE, HIDKEY____q____Q), (HIDKEY_MOD__NONE, HIDKEY____r____R),
    (HIDKEY_MOD__NONE, HIDKEY____s____S), (HIDKEY_MOD__NONE, HIDKEY____t____T),
    (HIDKEY_MOD__NONE, HIDKEY____u____U), (HIDKEY_MOD__NONE, HIDKEY____v____V),
    (HIDKEY_MOD__NONE, HIDKEY____w____W), (HIDKEY_MOD__NONE, HIDKEY____x____X),
    (HIDKEY_MOD__NONE, HIDKEY____y____Y), (HIDKEY_MOD__NONE, HIDKEY____z____Z),
    (HIDKEY_MOD_L_SFT, HIDKEY_LBT___LBR), (HIDKEY_MOD_L_SFT, HIDKEY_BSLA_VBAR),
    (HIDKEY_MOD_L_SFT, HIDKEY_RBT___RBR), (HIDKEY_MOD_L_SFT, HIDKEY_GRAV_TILD), (0, 0), (0, 0),
    (0, 0)]"

definition hid_italian :: "(byte \<times> byte) list" where
  "hid_italian =
   [(0, 0), (0, 0), (0, 0), (0, 0), (0, 0), (0, 0), (0, 0), (0, 0),
    (HIDKEY_MOD__NONE, HIDKEY_BACKSPACE), (HIDKEY_MOD__NONE, HIDKEY_______TAB), (0, 0), (0, 0),
    (0, 0), (HIDKEY_MOD__NONE, HIDKEY____RETURN), (0, 0), (0, 0), (0, 0), (0, 0), (0, 0), (0, 0),
    (0, 0), (0, 0), (0, 0), (0, 0), (0, 0), (0, 0), (0, 0), (HIDKEY_MOD__NONE, HIDKEY____ESCAPE),
    (0, 0), (0, 0), (0, 0), (0, 0), (HIDKEY_MOD__NONE, HIDKEY_____SPACE),
    (HIDKEY_MOD_L_SFT, HIDKEY____1_EXCL), (HIDKEY_MOD_L_SFT, HIDKEY____2_QUOT),
    (HIDKEY_MOD_R_ALT, HIDKEY_APOS_QUOT), (HIDKEY_MOD_L_SFT, HIDKEY____4_DOLL),
    (HIDKEY_MOD_L_SFT, HIDKEY____5_PERC), (HIDKEY_MOD_L_SFT, HIDKEY____6_CIRC),
    (HIDKEY_MOD__NONE, HIDKEY_MIN_UNDER), (HIDKEY_MOD_L_SFT, HIDKEY____8_ASTE),
    (HIDKEY_MOD_L_SFT, HIDKEY____9_L_PA), (HIDKEY_MOD_L_SFT, HIDKEY_RBT___RBR),
    (HIDKEY_MOD__NONE, HIDKEY_RBT___RBR), (HIDKEY_MOD__NONE, HIDKEY_COMA___LT),
    (HIDKEY_MOD__NONE, HIDKEY_SLASH__QM), (HIDKEY_MOD__NONE, HIDKEY_PERIOD_GT),
    (HIDKEY_MOD_L_SFT, HIDKEY____7_AMPE), (HIDKEY_MOD__NONE, HIDKEY____0_R_PA),
    (HIDKEY_MOD__NONE, HIDKEY____1_EXCL), (HIDKEY_MOD__NONE, HIDKEY____2_QUOT),
    (HIDKEY_MOD__NONE, HIDKEY____3_SHAR), (HIDKEY_MOD__NONE, HIDKEY____4_DOLL),
    (HIDKEY_MOD__NONE, HIDKEY____5_PERC), (HIDKEY_MOD__NONE, HIDKEY____6_CIRC),
    (HIDKEY_MOD__NONE, HIDKEY____7_AMPE), (HIDKEY_MOD__NONE, HIDKEY____8_ASTE),
    (HIDKEY_MOD__NONE, HIDKEY____9_L_PA), (HIDKEY_MOD_L_SFT, HIDKEY_PERIOD_GT),
    (HIDKEY_MOD_L_SFT, HIDKEY_COMA___LT), (HIDKEY_MOD__NONE, 0x64),
    (HIDKEY_MOD_L_SFT, HIDKEY____0_R_PA), (HIDKEY_MOD_L_SFT, 0x64),
    (HIDKEY_MOD_L_SFT, HIDKEY_MIN_UNDER), (HIDKEY_MOD_R_ALT, HIDKEY_SEMI__COL),
    (HIDKEY_MOD_L_SFT, HIDKEY____a____A), (HIDKEY_MOD_L_SFT, HIDKEY____b____B),
    (HIDKEY_MOD_L_SFT, HIDKEY____c____C), (HIDKEY_MOD_L_SFT, HIDKEY____d____D),
    (HIDKEY_MOD_L_SFT, HIDKEY____e____E), (HIDKEY_MOD_L_SFT, HIDKEY____f____F),
    (HIDKEY_MOD_L_SFT, HIDKEY____g____G), (HIDKEY_MOD_L_SFT, HIDKEY____h____H),
    (HIDKEY_MOD_L_SFT, HIDKEY____i____I), (HIDKEY_MOD_L_SFT, HIDKEY____j____J),
    (HIDKEY_MOD_L_SFT, HIDKEY____k____K), (HIDKEY_MOD_L_SFT, HIDKEY____l____L),
    (HIDKEY_MOD_L_SFT, HIDKEY____m____M), (HIDKEY_MOD_L_SFT, HIDKEY____n____N),
    (HIDKEY_MOD_L_SFT, HIDKEY____o____O), (HIDKEY_MOD_L_SFT, HIDKEY____p____P),
    (HIDKEY_MOD_L_SFT, HIDKEY____q____Q), (HIDKEY_MOD_L_SFT, HIDKEY____r____R),
    (HIDKEY_MOD_L_SFT, HIDKEY____s____S), (HIDKEY_MOD_L_SFT, HIDKEY____t____T),
    (HIDKEY_MOD_L_SFT, HIDKEY____u____U), (HIDKEY_MOD_L_SFT, HIDKEY____v____V),
    (HIDKEY_MOD_L_SFT, HIDKEY____w____W), (HIDKEY_MOD_L_SFT, HIDKEY____x____X),
    (HIDKEY_MOD_L_SFT, HIDKEY____y____Y), (HIDKEY_MOD_L_SFT, HIDKEY____z____Z),
    (HIDKEY_MOD_R_ALT, HIDKEY_LBT___LBR), (HIDKEY_MOD__NONE, HIDKEY_GRAV_TILD),
    (HIDKEY_MOD_R_ALT, HIDKEY_RBT___RBR), (HIDKEY_MOD_L_SFT, HIDKEY_EQU__PLUS),
    (HIDKEY_MOD_L_SFT, HIDKEY_SLASH__QM), (HIDKEY_MOD__NONE, HIDKEY_GRAV_TILD),
    (HIDKEY_MOD__NONE, HIDKEY____a____A), (HIDKEY_MOD__NONE, HIDKEY____b____B),
    (HIDKEY_MOD__NONE, HIDKEY____c____C), (HIDKEY_MOD__NONE, HIDKEY____d____D),
    (HIDKEY_MOD__NONE, HIDKEY____e____E), (HIDKEY_MOD__NONE, HIDKEY____f____F),
    (HIDKEY_MOD__NONE, HIDKEY____g____G), (HIDKEY_MOD__NONE, HIDKEY____h____H),
    (HIDKEY_MOD__NONE, HIDKEY____i____I), (HIDKEY_MOD__NONE, HIDKEY____j____J),
    (HIDKEY_MOD__NONE, HIDKEY____k____K), (HIDKEY_MOD__NONE, HIDKEY____l____L),
    (HIDKEY_MOD__NONE, HIDKEY____m____M), (HIDKEY_MOD__NONE, HIDKEY____n____N),
    (HIDKEY_MOD__NONE, HIDKEY____o____O), (HIDKEY_MOD__NONE, HIDKEY____p____P),
    (HIDKEY_MOD__NONE, HIDKEY____q____Q), (HIDKEY_MOD__NONE, HIDKEY____r____R),
    (HIDKEY_MOD__NONE, HIDKEY____s____S), (HIDKEY_MOD__NONE, HIDKEY____t____T),
    (HIDKEY_MOD__NONE, HIDKEY____u____U), (HIDKEY_MOD__NONE, HIDKEY____v____V),
    (HIDKEY_MOD__NONE, HIDKEY____w____W), (HIDKEY_MOD__NONE, HIDKEY____x____X),
    (HIDKEY_MOD__NONE, HIDKEY____y____Y), (HIDKEY_MOD__NONE, HIDKEY____z____Z),
    (HIDKEY_MOD_L_SFT, HIDKEY_LBT___LBR), (HIDKEY_MOD_L_SFT, HIDKEY_BSLA_VBAR),
    (HIDKEY_MOD_L_SFT, HIDKEY_RBT___RBR), (HIDKEY_MOD_L_SFT, HIDKEY_GRAV_TILD), (0, 0), (0, 0),
    (0, 0)]"

definition hid_norwegian :: "(byte \<times> byte) list" where
  "hid_norwegian =
   [(0, 0), (0, 0), (0, 0), (0, 0), (0, 0), (0, 0), (0, 0), (0, 0),
    (HIDKEY_MOD__NONE, HIDKEY_BACKSPACE), (HIDKEY_MOD__NONE, HIDKEY_______TAB), (0, 0), (0, 0),
    (0, 0), (HIDKEY_MOD__NONE, HIDKEY____RETURN), (0, 0), (0, 0), (0, 0), (0, 0), (0, 0), (0, 0),
    (0, 0), (0, 0), (0, 0), (0, 0), (0, 0), (0, 0), (0, 0), (HIDKEY_MOD__NONE, HIDKEY____ESCAPE),
    (0, 0), (0, 0), (0, 0), (0, 0), (HIDKEY_MOD__NONE, HIDKEY_____SPACE),
    (HIDKEY_MOD_L_SFT, HIDKEY____1_EXCL), (HIDKEY_MOD_L_SFT, HIDKEY____2_QUOT),
    (HIDKEY_MOD_L_SFT, HIDKEY____3_SHAR), (HIDKEY_MOD_R_ALT, HIDKEY____4_DOLL),
    (HIDKEY_MOD_L_SFT, HIDKEY____5_PERC), (HIDKEY_MOD_L_SFT, HIDKEY____6_CIRC),
    (HIDKEY_MOD__NONE, 0x32), (HIDKEY_MOD_L_SFT, HIDKEY____8_ASTE),
    (HIDKEY_MOD_L_SFT, HIDKEY____9_L_PA), (HIDKEY_MOD_L_SFT, 0x32),
    (HIDKEY_MOD__NONE, HIDKEY_MIN_UNDER), (HIDKEY_MOD__NONE, HIDKEY_COMA___LT),
    (HIDKEY_MOD__NONE, HIDKEY_SLASH__QM), (HIDKEY_MOD__NONE, HIDKEY_PERIOD_GT),
    (HIDKEY_MOD_L_SFT, HIDKEY____7_AMPE), (HIDKEY_MOD__NONE, HIDKEY____0_R_PA),
    (HIDKEY_MOD__NONE, HIDKEY____1_EXCL), (HIDKEY_MOD__NONE, HIDKEY____2_QUOT),
    (HIDKEY_MOD__NONE, HIDKEY____3_SHAR), (HIDKEY_MOD__NONE, HIDKEY____4_DOLL),
    (HIDKEY_MOD__NONE, HIDKEY____5_PERC), (HIDKEY_MOD__NONE, HIDKEY____6_CIRC),
    (HIDKEY_MOD__NONE, HIDKEY____7_AMPE), (HIDKEY_MOD__NONE, HIDKEY____8_ASTE),
    (HIDKEY_MOD__NONE, HIDKEY____9_L_PA), (HIDKEY_MOD_L_SFT, HIDKEY_PERIOD_GT),
    (HIDKEY_MOD_L_SFT, HIDKEY_COMA___LT), (HIDKEY_MOD__NONE, 0x64),
    (HIDKEY_MOD_L_SFT, HIDKEY____0_R_PA), (HIDKEY_MOD_L_SFT, 0x64),
    (HIDKEY_MOD_L_SFT, HIDKEY_MIN_UNDER), (HIDKEY_MOD_R_ALT, HIDKEY____2_QUOT),
    (HIDKEY_MOD_L_SFT, HIDKEY____a____A), (HIDKEY_MOD_L_SFT, HIDKEY____b____B),
    (HIDKEY_MOD_L_SFT, HIDKEY____c____C), (HIDKEY_MOD_L_SFT, HIDKEY____d____D),
    (HIDKEY_MOD_L_SFT, HIDKEY____e____E), (HIDKEY_MOD_L_SFT, HIDKEY____f____F),
    (HIDKEY_MOD_L_SFT, HIDKEY____g____G), (HIDKEY_MOD_L_SFT, HIDKEY____h____H),
    (HIDKEY_MOD_L_SFT, HIDKEY____i____I), (HIDKEY_MOD_L_SFT, HIDKEY____j____J),
    (HIDKEY_MOD_L_SFT, HIDKEY____k____K), (HIDKEY_MOD_L_SFT, HIDKEY____l____L),
    (HIDKEY_MOD_L_SFT, HIDKEY____m____M), (HIDKEY_MOD_L_SFT, HIDKEY____n____N),
    (HIDKEY_MOD_L_SFT, HIDKEY____o____O), (HIDKEY_MOD_L_SFT, HIDKEY____p____P),
    (HIDKEY_MOD_L_SFT, HIDKEY____q____Q), (HIDKEY_MOD_L_SFT, HIDKEY____r____R),
    (HIDKEY_MOD_L_SFT, HIDKEY____s____S), (HIDKEY_MOD_L_SFT, HIDKEY____t____T),
    (HIDKEY_MOD_L_SFT, HIDKEY____u____U), (HIDKEY_MOD_L_SFT, HIDKEY____v____V),
    (HIDKEY_MOD_L_SFT, HIDKEY____w____W), (HIDKEY_MOD_L_SFT, HIDKEY____x____X),
    (HIDKEY_MOD_L_SFT, HIDKEY____y____Y), (HIDKEY_MOD_L_SFT, HIDKEY____z____Z),
    (HIDKEY_MOD_R_ALT, HIDKEY____8_ASTE), (HIDKEY_MOD__NONE, HIDKEY_EQU__PLUS),
    (HIDKEY_MOD_R_ALT, HIDKEY____9_L_PA), (HIDKEY_MOD_L_SFT, HIDKEY_RBT___RBR),
    (HIDKEY_MOD_L_SFT, HIDKEY_SLASH__QM), (HIDKEY_MOD__NONE, HIDKEY_GRAV_TILD),
    (HIDKEY_MOD__NONE, HIDKEY____a____A), (HIDKEY_MOD__NONE, HIDKEY____b____B),
    (HIDKEY_MOD__NONE, HIDKEY____c____C), (HIDKEY_MOD__NONE, HIDKEY____d____D),
    (HIDKEY_MOD__NONE, HIDKEY____e____E), (HIDKEY_MOD__NONE, HIDKEY____f____F),
    (HIDKEY_MOD__NONE, HIDKEY____g____G), (HIDKEY_MOD__NONE, HIDKEY____h____H),
    (HIDKEY_MOD__NONE, HIDKEY____i____I), (HIDKEY_MOD__NONE, HIDKEY____j____J),
    (HIDKEY_MOD__NONE, HIDKEY____k____K), (HIDKEY_MOD__NONE, HIDKEY____l____L),
    (HIDKEY_MOD__NONE, HIDKEY____m____M), (HIDKEY_MOD__NONE, HIDKEY____n____N),
    (HIDKEY_MOD__NONE, HIDKEY____o____O), (HIDKEY_MOD__NONE, HIDKEY____p____P),
    (HIDKEY_MOD__NONE, HIDKEY____q____Q), (HIDKEY_MOD__NONE, HIDKEY____r____R),
    (HIDKEY_MOD__NONE, HIDKEY____s____S), (HIDKEY_MOD__NONE, HIDKEY____t____T),
    (HIDKEY_MOD__NONE, HIDKEY____u____U), (HIDKEY_MOD__NONE, HIDKEY____v____V),
    (HIDKEY_MOD__NONE, HIDKEY____w____W), (HIDKEY_MOD__NONE, HIDKEY____x____X),
    (HIDKEY_MOD__NONE, HIDKEY____y____Y), (HIDKEY_MOD__NONE, HIDKEY____z____Z),
    (HIDKEY_MOD_L_SFT, HIDKEY_LBT___LBR), (HIDKEY_MOD_L_SFT, HIDKEY_BSLA_VBAR),
    (HIDKEY_MOD_L_SFT, HIDKEY_RBT___RBR), (HIDKEY_MOD_L_SFT, HIDKEY_GRAV_TILD), (0, 0), (0, 0),
    (0, 0)]"

definition hid_swedish :: "(byte \<times> byte) list" where
  "hid_swedish =
   [(0, 0), (0, 0), (0, 0), (0, 0), (0, 0), (0, 0), (0, 0), (0, 0),
    (HIDKEY_MOD__NONE, HIDKEY_BACKSPACE), (HIDKEY_MOD__NONE, HIDKEY_______TAB), (0, 0), (0, 0),
    (0, 0), (HIDKEY_MOD__NONE, HIDKEY____RETURN), (0, 0), (0, 0), (0, 0), (0, 0), (0, 0), (0, 0),
    (0, 0), (0, 0), (0, 0), (0, 0), (0, 0), (0, 0), (0, 0), (HIDKEY_MOD__NONE, HIDKEY____ESCAPE),
    (0, 0), (0, 0), (0, 0), (0, 0), (HIDKEY_MOD__NONE, HIDKEY_____SPACE),
    (HIDKEY_MOD_L_SFT, HIDKEY____1_EXCL), (HIDKEY_MOD_L_SFT, HIDKEY____2_QUOT),
    (HIDKEY_MOD_L_SFT, HIDKEY____3_SHAR), (HIDKEY_MOD_R_ALT, HIDKEY____4_DOLL),
    (HIDKEY_MOD_L_SFT, HIDKEY____5_PERC), (HIDKEY_MOD_L_SFT, HIDKEY____6_CIRC),
    (HIDKEY_MOD__NONE, 0x32), (HIDKEY_MOD_L_SFT, HIDKEY____8_ASTE),
    (HIDKEY_MOD_L_SFT, HIDKEY____9_L_PA), (HIDKEY_MOD_L_SFT, 0x32),
    (HIDKEY_MOD__NONE, HIDKEY_MIN_UNDER), (HIDKEY_MOD__NONE, HIDKEY_COMA___LT),
    (HIDKEY_MOD__NONE, HIDKEY_SLASH__QM), (HIDKEY_MOD__NONE, HIDKEY_PERIOD_GT),
    (HIDKEY_MOD_L_SFT, HIDKEY____7_AMPE), (HIDKEY_MOD__NONE, HIDKEY____0_R_PA),
    (HIDKEY_MOD__NONE, HIDKEY____1_EXCL), (HIDKEY_MOD__NONE, HIDKEY____2_QUOT),
    (HIDKEY_MOD__NONE, HIDKEY____3_SHAR), (HIDKEY_MOD__NONE, HIDKEY____4_DOLL),
    (HIDKEY_MOD__NONE, HIDKEY____5_PERC), (HIDKEY_MOD__NONE, HIDKEY____6_CIRC),
    (HIDKEY_MOD__NONE, HIDKEY____7_AMPE), (HIDKEY_MOD__NONE, HIDKEY____8_ASTE),
    (HIDKEY_MOD__NONE, HIDKEY____9_L_PA), (HIDKEY_MOD_L_SFT, HIDKEY_PERIOD_GT),
    (HIDKEY_MOD_L_SFT, HIDKEY_COMA___LT), (HIDKEY_MOD__NONE, 0x64),
    (HIDKEY_MOD_L_SFT, HIDKEY____0_R_PA), (HIDKEY_MOD_L_SFT, 0x64),
    (HIDKEY_MOD_L_SFT, HIDKEY_MIN_UNDER), (HIDKEY_MOD_R_ALT, HIDKEY____2_QUOT),
    (HIDKEY_MOD_L_SFT, HIDKEY____a____A), (HIDKEY_MOD_L_SFT, HIDKEY____b____B),
    (HIDKEY_MOD_L_SFT, HIDKEY____c____C), (HIDKEY_MOD_L_SFT, HIDKEY____d____D),
    (HIDKEY_MOD_L_SFT, HIDKEY____e____E), (HIDKEY_MOD_L_SFT, HIDKEY____f____F),
    (HIDKEY_MOD_L_SFT, HIDKEY____g____G), (HIDKEY_MOD_L_SFT, HIDKEY____h____H),
    (HIDKEY_MOD_L_SFT, HIDKEY____i____I), (HIDKEY_MOD_L_SFT, HIDKEY____j____J),
    (HIDKEY_MOD_L_SFT, HIDKEY____k____K), (HIDKEY_MOD_L_SFT, HIDKEY____l____L),
    (HIDKEY_MOD_L_SFT, HIDKEY____m____M), (HIDKEY_MOD_L_SFT, HIDKEY____n____N),
    (HIDKEY_MOD_L_SFT, HIDKEY____o____O), (HIDKEY_MOD_L_SFT, HIDKEY____p____P),
    (HIDKEY_MOD_L_SFT, HIDKEY____q____Q), (HIDKEY_MOD_L_SFT, HIDKEY____r____R),
    (HIDKEY_MOD_L_SFT, HIDKEY____s____S), (HIDKEY_MOD_L_SFT, HIDKEY____t____T),
    (HIDKEY_MOD_L_SFT, HIDKEY____u____U), (HIDKEY_MOD_L_SFT, HIDKEY____v____V),
    (HIDKEY_MOD_L_SFT, HIDKEY____w____W), (HIDKEY_MOD_L_SFT, HIDKEY____x____X),
    (HIDKEY_MOD_L_SFT, HIDKEY____y____Y), (HIDKEY_MOD_L_SFT, HIDKEY____z____Z),
    (HIDKEY_MOD_R_ALT, HIDKEY____8_ASTE), (HIDKEY_MOD_R_ALT, HIDKEY_MIN_UNDER),
    (HIDKEY_MOD_R_ALT, HIDKEY____9_L_PA), (HIDKEY_MOD_L_SFT, HIDKEY_RBT___RBR),
    (HIDKEY_MOD_L_SFT, HIDKEY_SLASH__QM), (HIDKEY_MOD__NONE, HIDKEY_GRAV_TILD),
    (HIDKEY_MOD__NONE, HIDKEY____a____A), (HIDKEY_MOD__NONE, HIDKEY____b____B),
    (HIDKEY_MOD__NONE, HIDKEY____c____C), (HIDKEY_MOD__NONE, HIDKEY____d____D),
    (HIDKEY_MOD__NONE, HIDKEY____e____E), (HIDKEY_MOD__NONE, HIDKEY____f____F),
    (HIDKEY_MOD__NONE, HIDKEY____g____G), (HIDKEY_MOD__NONE, HIDKEY____h____H),
    (HIDKEY_MOD__NONE, HIDKEY____i____I), (HIDKEY_MOD__NONE, HIDKEY____j____J),
    (HIDKEY_MOD__NONE, HIDKEY____k____K), (HIDKEY_MOD__NONE, HIDKEY____l____L),
    (HIDKEY_MOD__NONE, HIDKEY____m____M), (HIDKEY_MOD__NONE, HIDKEY____n____N),
    (HIDKEY_MOD__NONE, HIDKEY____o____O), (HIDKEY_MOD__NONE, HIDKEY____p____P),
    (HIDKEY_MOD__NONE, HIDKEY____q____Q), (HIDKEY_MOD__NONE, HIDKEY____r____R),
    (HIDKEY_MOD__NONE, HIDKEY____s____S), (HIDKEY_MOD__NONE, HIDKEY____t____T),
    (HIDKEY_MOD__NONE, HIDKEY____u____U), (HIDKEY_MOD__NONE, HIDKEY____v____V),
    (HIDKEY_MOD__NONE, HIDKEY____w____W), (HIDKEY_MOD__NONE, HIDKEY____x____X),
    (HIDKEY_MOD__NONE, HIDKEY____y____Y), (HIDKEY_MOD__NONE, HIDKEY____z____Z),
    (HIDKEY_MOD_L_SFT, HIDKEY_LBT___LBR), (HIDKEY_MOD_L_SFT, HIDKEY_BSLA_VBAR),
    (HIDKEY_MOD_L_SFT, HIDKEY_RBT___RBR), (HIDKEY_MOD_L_SFT, HIDKEY_GRAV_TILD), (0, 0), (0, 0),
    (0, 0)]"

definition hid_uk_english :: "(byte \<times> byte) list" where
  "hid_uk_english =
   [(0, 0), (0, 0), (0, 0), (0, 0), (0, 0), (0, 0), (0, 0), (0, 0),
    (HIDKEY_MOD__NONE, HIDKEY_BACKSPACE), (HIDKEY_MOD__NONE, HIDKEY_______TAB), (0, 0), (0, 0),
    (0, 0), (HIDKEY_MOD__NONE, HIDKEY____RETURN), (0, 0), (0, 0), (0, 0), (0, 0), (0, 0), (0, 0),
    (0, 0), (0, 0), (0, 0), (0, 0), (0, 0), (0, 0), (0, 0), (HIDKEY_MOD__NONE, HIDKEY____ESCAPE),
    (0, 0), (0, 0), (0, 0), (0, 0), (HIDKEY_MOD__NONE, HIDKEY_____SPACE),
    (HIDKEY_MOD_L_SFT, HIDKEY____1_EXCL), (HIDKEY_MOD_L_SFT, HIDKEY____2_QUOT),
    (HIDKEY_MOD__NONE, 0x32), (HIDKEY_MOD_L_SFT, HIDKEY____4_DOLL),
    (HIDKEY_MOD_L_SFT, HIDKEY____5_PERC), (HIDKEY_MOD_L_SFT, HIDKEY____7_AMPE),
    (HIDKEY_MOD__NONE, HIDKEY_APOS_QUOT), (HIDKEY_MOD_L_SFT, HIDKEY____9_L_PA),
    (HIDKEY_MOD_L_SFT, HIDKEY____0_R_PA), (HIDKEY_MOD_L_SFT, HIDKEY____8_ASTE),
    (HIDKEY_MOD_L_SFT, HIDKEY_EQU__PLUS), (HIDKEY_MOD__NONE, HIDKEY_COMA___LT),
    (HIDKEY_MOD__NONE, HIDKEY_MIN_UNDER), (HIDKEY_MOD__NONE, HIDKEY_PERIOD_GT),
    (HIDKEY_MOD__NONE, HIDKEY_SLASH__QM), (HIDKEY_MOD__NONE, HIDKEY____0_R_PA),
    (HIDKEY_MOD__NONE, HIDKEY____1_EXCL), (HIDKEY_MOD__NONE, HIDKEY____2_QUOT),
    (HIDKEY_MOD__NONE, HIDKEY____3_SHAR), (HIDKEY_MOD__NONE, HIDKEY____4_DOLL),
    (HIDKEY_MOD__NONE, HIDKEY____5_PERC), (HIDKEY_MOD__NONE, HIDKEY____6_CIRC),
    (HIDKEY_MOD__NONE, HIDKEY____7_AMPE), (HIDKEY_MOD__NONE, HIDKEY____8_ASTE),
    (HIDKEY_MOD__NONE, HIDKEY____9_L_PA), (HIDKEY_MOD_L_SFT, HIDKEY_SEMI__COL),
    (HIDKEY_MOD__NONE, HIDKEY_SEMI__COL), (HIDKEY_MOD_L_SFT, HIDKEY_COMA___LT),
    (HIDKEY_MOD__NONE, HIDKEY_EQU__PLUS), (HIDKEY_MOD_L_SFT, HIDKEY_PERIOD_GT),
    (HIDKEY_MOD_L_SFT, HIDKEY_SLASH__QM), (HIDKEY_MOD_L_SFT, HIDKEY_APOS_QUOT),
    (HIDKEY_MOD_L_SFT, HIDKEY____a____A), (HIDKEY_MOD_L_SFT, HIDKEY____b____B),
    (HIDKEY_MOD_L_SFT, HIDKEY____c____C), (HIDKEY_MOD_L_SFT, HIDKEY____d____D),
    (HIDKEY_MOD_L_SFT, HIDKEY____e____E), (HIDKEY_MOD_L_SFT, HIDKEY____f____F),
    (HIDKEY_MOD_L_SFT, HIDKEY____g____G), (HIDKEY_MOD_L_SFT, HIDKEY____h____H),
    (HIDKEY_MOD_L_SFT, HIDKEY____i____I), (HIDKEY_MOD_L_SFT, HIDKEY____j____J),
    (HIDKEY_MOD_L_SFT, HIDKEY____k____K), (HIDKEY_MOD_L_SFT, HIDKEY____l____L),
    (HIDKEY_MOD_L_SFT, HIDKEY____m____M), (HIDKEY_MOD_L_SFT, HIDKEY____n____N),
    (HIDKEY_MOD_L_SFT, HIDKEY____o____O), (HIDKEY_MOD_L_SFT, HIDKEY____p____P),
    (HIDKEY_MOD_L_SFT, HIDKEY____q____Q), (HIDKEY_MOD_L_SFT, HIDKEY____r____R),
    (HIDKEY_MOD_L_SFT, HIDKEY____s____S), (HIDKEY_MOD_L_SFT, HIDKEY____t____T),
    (HIDKEY_MOD_L_SFT, HIDKEY____u____U), (HIDKEY_MOD_L_SFT, HIDKEY____v____V),
    (HIDKEY_MOD_L_SFT, HIDKEY____w____W), (HIDKEY_MOD_L_SFT, HIDKEY____x____X),
    (HIDKEY_MOD_L_SFT, HIDKEY____y____Y), (HIDKEY_MOD_L_SFT, HIDKEY____z____Z),
    (HIDKEY_MOD__NONE, HIDKEY_LBT___LBR), (HIDKEY_MOD__NONE, 0x64),
    (HIDKEY_MOD__NONE, HIDKEY_RBT___RBR), (HIDKEY_MOD_L_SFT, HIDKEY____6_CIRC),
    (HIDKEY_MOD_L_SFT, HIDKEY_MIN_UNDER), (HIDKEY_MOD__NONE, HIDKEY_GRAV_TILD),
    (HIDKEY_MOD__NONE, HIDKEY____a____A), (HIDKEY_MOD__NONE, HIDKEY____b____B),
    (HIDKEY_MOD__NONE, HIDKEY____c____C), (HIDKEY_MOD__NONE, HIDKEY____d____D),
    (HIDKEY_MOD__NONE, HIDKEY____e____E), (HIDKEY_MOD__NONE, HIDKEY____f____F),
    (HIDKEY_MOD__NONE, HIDKEY____g____G), (HIDKEY_MOD__NONE, HIDKEY____h____H),
    (HIDKEY_MOD__NONE, HIDKEY____i____I), (HIDKEY_MOD__NONE, HIDKEY____j____J),
    (HIDKEY_MOD__NONE, HIDKEY____k____K), (HIDKEY_MOD__NONE, HIDKEY____l____L),
    (HIDKEY_MOD__NONE, HIDKEY____m____M), (HIDKEY_MOD__NONE, HIDKEY____n____N),
    (HIDKEY_MOD__NONE, HIDKEY____o____O), (HIDKEY_MOD__NONE, HIDKEY____p____P),
    (HIDKEY_MOD__NONE, HIDKEY____q____Q), (HIDKEY_MOD__NONE, HIDKEY____r____R),
    (HIDKEY_MOD__NONE, HIDKEY____s____S), (HIDKEY_MOD__NONE, HIDKEY____t____T),
    (HIDKEY_MOD__NONE, HIDKEY____u____U), (HIDKEY_MOD__NONE, HIDKEY____v____V),
    (HIDKEY_MOD__NONE, HIDKEY____w____W), (HIDKEY_MOD__NONE, HIDKEY____x____X),
    (HIDKEY_MOD__NONE, HIDKEY____y____Y), (HIDKEY_MOD__NONE, HIDKEY____z____Z),
    (HIDKEY_MOD_L_SFT, HIDKEY_LBT___LBR), (HIDKEY_MOD_L_SFT, HIDKEY_BSLA_VBAR),
    (HIDKEY_MOD_L_SFT, HIDKEY_RBT___RBR), (HIDKEY_MOD_L_SFT, HIDKEY_GRAV_TILD), (0, 0), (0, 0),
    (0, 0)]"

definition hid_israel :: "(byte \<times> byte) list" where
  "hid_israel =
   [(0, 0), (0, 0), (0, 0), (0, 0), (0, 0), (0, 0), (0, 0), (0, 0),
    (HIDKEY_MOD__NONE, HIDKEY_BACKSPACE), (HIDKEY_MOD__NONE, HIDKEY_______TAB), (0, 0), (0, 0),
    (0, 0), (HIDKEY_MOD__NONE, HIDKEY____RETURN), (0, 0), (0, 0), (0, 0), (0, 0), (0, 0), (0, 0),
    (0, 0), (0, 0), (0, 0), (0, 0), (0, 0), (0, 0), (0, 0), (HIDKEY_MOD__NONE, HIDKEY____ESCAPE),
    (0, 0), (0, 0), (0, 0), (0, 0), (HIDKEY_MOD__NONE, HIDKEY_____SPACE),
    (HIDKEY_MOD_L_SFT, HIDKEY____1_EXCL), (HIDKEY_MOD_L_SFT, HIDKEY_APOS_QUOT),
    (HIDKEY_MOD_L_SFT, HIDKEY____3_SHAR), (HIDKEY_MOD_L_SFT, HIDKEY____4_DOLL),
    (HIDKEY_MOD_L_SFT, HIDKEY____5_PERC), (HIDKEY_MOD_L_SFT, HIDKEY____7_AMPE),
    (HIDKEY_MOD__NONE, HIDKEY____w____W), (HIDKEY_MOD_L_SFT, HIDKEY____0_R_PA),
    (HIDKEY_MOD_L_SFT, HIDKEY____9_L_PA), (HIDKEY_MOD_L_SFT, HIDKEY____8_ASTE),
    (HIDKEY_MOD_L_SFT, HIDKEY_EQU__PLUS), (HIDKEY_MOD__NONE, HIDKEY_APOS_QUOT),
    (HIDKEY_MOD__NONE, HIDKEY_MIN_UNDER), (HIDKEY_MOD__NONE, HIDKEY_SLASH__QM),
    (HIDKEY_MOD__NONE, HIDKEY____q____Q), (HIDKEY_MOD__NONE, HIDKEY____0_R_PA),
    (HIDKEY_MOD__NONE, HIDKEY____1_EXCL), (HIDKEY_MOD__NONE, HIDKEY____2_QUOT),
    (HIDKEY_MOD__NONE, HIDKEY____3_SHAR), (HIDKEY_MOD__NONE, HIDKEY____4_DOLL),
    (HIDKEY_MOD__NONE, HIDKEY____5_PERC), (HIDKEY_MOD__NONE, HIDKEY____6_CIRC),
    (HIDKEY_MOD__NONE, HIDKEY____7_AMPE), (HIDKEY_MOD__NONE, HIDKEY____8_ASTE),
    (HIDKEY_MOD__NONE, HIDKEY____9_L_PA), (HIDKEY_MOD_L_SFT, HIDKEY_SEMI__COL),
    (HIDKEY_MOD__NONE, HIDKEY_GRAV_TILD), (HIDKEY_MOD_L_SFT, HIDKEY_PERIOD_GT),
    (HIDKEY_MOD__NONE, HIDKEY_EQU__PLUS), (HIDKEY_MOD_L_SFT, HIDKEY_COMA___LT),
    (HIDKEY_MOD_L_SFT, HIDKEY_SLASH__QM), (HIDKEY_MOD_L_SFT, HIDKEY____2_QUOT),
    (HIDKEY_MOD_L_SFT, HIDKEY____a____A), (HIDKEY_MOD_L_SFT, HIDKEY____b____B),
    (HIDKEY_MOD_L_SFT, HIDKEY____c____C), (HIDKEY_MOD_L_SFT, HIDKEY____d____D),
    (HIDKEY_MOD_L_SFT, HIDKEY____e____E), (HIDKEY_MOD_L_SFT, HIDKEY____f____F),
    (HIDKEY_MOD_L_SFT, HIDKEY____g____G), (HIDKEY_MOD_L_SFT, HIDKEY____h____H),
    (HIDKEY_MOD_L_SFT, HIDKEY____i____I), (HIDKEY_MOD_L_SFT, HIDKEY____j____J),
    (HIDKEY_MOD_L_SFT, HIDKEY____k____K), (HIDKEY_MOD_L_SFT, HIDKEY____l____L),
    (HIDKEY_MOD_L_SFT, HIDKEY____m____M), (HIDKEY_MOD_L_SFT, HIDKEY____n____N),
    (HIDKEY_MOD_L_SFT, HIDKEY____o____O), (HIDKEY_MOD_L_SFT, HIDKEY____p____P),
    (HIDKEY_MOD_L_SFT, HIDKEY____q____Q), (HIDKEY_MOD_L_SFT, HIDKEY____r____R),
    (HIDKEY_MOD_L_SFT, HIDKEY____s____S), (HIDKEY_MOD_L_SFT, HIDKEY____t____T),
    (HIDKEY_MOD_L_SFT, HIDKEY____u____U), (HIDKEY_MOD_L_SFT, HIDKEY____v____V),
    (HIDKEY_MOD_L_SFT, HIDKEY____w____W), (HIDKEY_MOD_L_SFT, HIDKEY____x____X),
    (HIDKEY_MOD_L_SFT, HIDKEY____y____Y), (HIDKEY_MOD_L_SFT, HIDKEY____z____Z),
    (HIDKEY_MOD__NONE, HIDKEY_RBT___RBR), (HIDKEY_MOD__NONE, 0x64),
    (HIDKEY_MOD__NONE, HIDKEY_LBT___LBR), (HIDKEY_MOD_L_SFT, HIDKEY____6_CIRC),
    (HIDKEY_MOD_L_SFT, HIDKEY_MIN_UNDER), (HIDKEY_MOD__NONE, HIDKEY_GRAV_TILD),
    (HIDKEY_MOD__NONE, HIDKEY____a____A), (HIDKEY_MOD__NONE, HIDKEY____b____B),
    (HIDKEY_MOD__NONE, HIDKEY____c____C), (HIDKEY_MOD__NONE, HIDKEY____d____D),
    (HIDKEY_MOD__NONE, HIDKEY____e____E), (HIDKEY_MOD__NONE, HIDKEY____f____F),
    (HIDKEY_MOD__NONE, HIDKEY____g____G), (HIDKEY_MOD__NONE, HIDKEY____h____H),
    (HIDKEY_MOD__NONE, HIDKEY____i____I), (HIDKEY_MOD__NONE, HIDKEY____j____J),
    (HIDKEY_MOD__NONE, HIDKEY____k____K), (HIDKEY_MOD__NONE, HIDKEY____l____L),
    (HIDKEY_MOD__NONE, HIDKEY____m____M), (HIDKEY_MOD__NONE, HIDKEY____n____N),
    (HIDKEY_MOD__NONE, HIDKEY____o____O), (HIDKEY_MOD__NONE, HIDKEY____p____P),
    (HIDKEY_MOD__NONE, HIDKEY____q____Q), (HIDKEY_MOD__NONE, HIDKEY____r____R),
    (HIDKEY_MOD__NONE, HIDKEY____s____S), (HIDKEY_MOD__NONE, HIDKEY____t____T),
    (HIDKEY_MOD__NONE, HIDKEY____u____U), (HIDKEY_MOD__NONE, HIDKEY____v____V),
    (HIDKEY_MOD__NONE, HIDKEY____w____W), (HIDKEY_MOD__NONE, HIDKEY____x____X),
    (HIDKEY_MOD__NONE, HIDKEY____y____Y), (HIDKEY_MOD__NONE, HIDKEY____z____Z),
    (HIDKEY_MOD_L_SFT, HIDKEY_LBT___LBR), (HIDKEY_MOD_L_SFT, HIDKEY_BSLA_VBAR),
    (HIDKEY_MOD_L_SFT, HIDKEY_RBT___RBR), (HIDKEY_MOD_L_SFT, HIDKEY_GRAV_TILD), (0, 0), (0, 0),
    (0, 0)]"

definition hid_turkey :: "(byte \<times> byte) list" where
  "hid_turkey =
   [(0, 0), (0, 0), (0, 0), (0, 0), (0, 0), (0, 0), (0, 0), (0, 0),
    (HIDKEY_MOD__NONE, HIDKEY_BACKSPACE), (HIDKEY_MOD__NONE, HIDKEY_______TAB), (0, 0), (0, 0),
    (0, 0), (HIDKEY_MOD__NONE, HIDKEY____RETURN), (0, 0), (0, 0), (0, 0), (0, 0), (0, 0), (0, 0),
    (0, 0), (0, 0), (0, 0), (0, 0), (0, 0), (0, 0), (0, 0), (HIDKEY_MOD__NONE, HIDKEY____ESCAPE),
    (0, 0), (0, 0), (0, 0), (0, 0), (HIDKEY_MOD__NONE, HIDKEY_____SPACE),
    (HIDKEY_MOD_L_SFT, HIDKEY____1_EXCL), (HIDKEY_MOD__NONE, HIDKEY_GRAV_TILD),
    (HIDKEY_MOD_R_ALT, HIDKEY____3_SHAR), (HIDKEY_MOD_R_ALT, HIDKEY____4_DOLL),
    (HIDKEY_MOD_L_SFT, HIDKEY____5_PERC), (HIDKEY_MOD_L_SFT, HIDKEY____6_CIRC),
    (HIDKEY_MOD_L_SFT, HIDKEY____2_QUOT), (HIDKEY_MOD_L_SFT, HIDKEY____8_ASTE),
    (HIDKEY_MOD_L_SFT, HIDKEY____9_L_PA), (HIDKEY_MOD__NONE, HIDKEY_MIN_UNDER),
    (HIDKEY_MOD_L_SFT, HIDKEY____4_DOLL), (HIDKEY_MOD__NONE, 0x32),
    (HIDKEY_MOD__NONE, HIDKEY_EQU__PLUS), (HIDKEY_MOD__NONE, HIDKEY_SLASH__QM),
    (HIDKEY_MOD_L_SFT, HIDKEY____7_AMPE), (HIDKEY_MOD__NONE, HIDKEY____0_R_PA),
    (HIDKEY_MOD__NONE, HIDKEY____1_EXCL), (HIDKEY_MOD__NONE, HIDKEY____2_QUOT),
    (HIDKEY_MOD__NONE, HIDKEY____3_SHAR), (HIDKEY_MOD__NONE, HIDKEY____4_DOLL),
    (HIDKEY_MOD__NONE, HIDKEY____5_PERC), (HIDKEY_MOD__NONE, HIDKEY____6_CIRC),
    (HIDKEY_MOD__NONE, HIDKEY____7_AMPE), (HIDKEY_MOD__NONE, HIDKEY____8_ASTE),
    (HIDKEY_MOD__NONE, HIDKEY____9_L_PA), (HIDKEY_MOD_L_SFT, HIDKEY_SLASH__QM),
    (HIDKEY_MOD_L_SFT, 0x32), (HIDKEY_MOD__NONE, 0x64), (HIDKEY_MOD_L_SFT, HIDKEY____0_R_PA),
    (HIDKEY_MOD_L_SFT, 0x64), (HIDKEY_MOD_L_SFT, HIDKEY_MIN_UNDER),
    (HIDKEY_MOD_R_ALT, HIDKEY____q____Q), (HIDKEY_MOD_L_SFT, HIDKEY____a____A),
    (HIDKEY_MOD_L_SFT, HIDKEY____b____B), (HIDKEY_MOD_L_SFT, HIDKEY____c____C),
    (HIDKEY_MOD_L_SFT, HIDKEY____d____D), (HIDKEY_MOD_L_SFT, HIDKEY____e____E),
    (HIDKEY_MOD_L_SFT, HIDKEY____f____F), (HIDKEY_MOD_L_SFT, HIDKEY____g____G),
    (HIDKEY_MOD_L_SFT, HIDKEY____h____H), (HIDKEY_MOD_L_SFT, HIDKEY____i____I),
    (HIDKEY_MOD_L_SFT, HIDKEY____j____J), (HIDKEY_MOD_L_SFT, HIDKEY____k____K),
    (HIDKEY_MOD_L_SFT, HIDKEY____l____L), (HIDKEY_MOD_L_SFT, HIDKEY____m____M),
    (HIDKEY_MOD_L_SFT, HIDKEY____n____N), (HIDKEY_MOD_L_SFT, HIDKEY____o____O),
    (HIDKEY_MOD_L_SFT, HIDKEY____p____P), (HIDKEY_MOD_L_SFT, HIDKEY____q____Q),
    (HIDKEY_MOD_L_SFT, HIDKEY____r____R), (HIDKEY_MOD_L_SFT, HIDKEY____s____S),
    (HIDKEY_MOD_L_SFT, HIDKEY____t____T), (HIDKEY_MOD_L_SFT, HIDKEY____u____U),
    (HIDKEY_MOD_L_SFT, HIDKEY____v____V), (HIDKEY_MOD_L_SFT, HIDKEY____w____W),
    (HIDKEY_MOD_L_SFT, HIDKEY____x____X), (HIDKEY_MOD_L_SFT, HIDKEY____y____Y),
    (HIDKEY_MOD_L_SFT, HIDKEY____z____Z), (HIDKEY_MOD_R_ALT, HIDKEY____8_ASTE),
    (HIDKEY_MOD_R_ALT, HIDKEY_MIN_UNDER), (HIDKEY_MOD_R_ALT, HIDKEY____9_L_PA),
    (HIDKEY_MOD_L_SFT, HIDKEY____3_SHAR), (HIDKEY_MOD_L_SFT, HIDKEY_EQU__PLUS),
    (HIDKEY_MOD__NONE, HIDKEY_GRAV_TILD), (HIDKEY_MOD__NONE, HIDKEY____a____A),
    (HIDKEY_MOD__NONE, HIDKEY____b____B), (HIDKEY_MOD__NONE, HIDKEY____c____C),
    (HIDKEY_MOD__NONE, HIDKEY____d____D), (HIDKEY_MOD__NONE, HIDKEY____e____E),
    (HIDKEY_MOD__NONE, HIDKEY____f____F), (HIDKEY_MOD__NONE, HIDKEY____g____G),
    (HIDKEY_MOD__NONE, HIDKEY____h____H), (HIDKEY_MOD__NONE, HIDKEY____i____I),
    (HIDKEY_MOD__NONE, HIDKEY____j____J), (HIDKEY_MOD__NONE, HIDKEY____k____K),
    (HIDKEY_MOD__NONE, HIDKEY____l____L), (HIDKEY_MOD__NONE, HIDKEY____m____M),
    (HIDKEY_MOD__NONE, HIDKEY____n____N), (HIDKEY_MOD__NONE, HIDKEY____o____O),
    (HIDKEY_MOD__NONE, HIDKEY____p____P), (HIDKEY_MOD__NONE, HIDKEY____q____Q),
    (HIDKEY_MOD__NONE, HIDKEY____r____R), (HIDKEY_MOD__NONE, HIDKEY____s____S),
    (HIDKEY_MOD__NONE, HIDKEY____t____T), (HIDKEY_MOD__NONE, HIDKEY____u____U),
    (HIDKEY_MOD__NONE, HIDKEY____v____V), (HIDKEY_MOD__NONE, HIDKEY____w____W),
    (HIDKEY_MOD__NONE, HIDKEY____x____X), (HIDKEY_MOD__NONE, HIDKEY____y____Y),
    (HIDKEY_MOD__NONE, HIDKEY____z____Z), (HIDKEY_MOD_L_SFT, HIDKEY_LBT___LBR),
    (HIDKEY_MOD_L_SFT, HIDKEY_BSLA_VBAR), (HIDKEY_MOD_L_SFT, HIDKEY_RBT___RBR),
    (HIDKEY_MOD_L_SFT, HIDKEY_GRAV_TILD), (0, 0), (0, 0), (0, 0)]"

text \<open>The table of all languages, indexed by \<open>type_keyboard_language_index\<close>.\<close>

definition sASCToHIDKeyMap :: "(byte \<times> byte) list list" where
  "sASCToHIDKeyMap =
    [hid_english, hid_spanish, hid_danish, hid_french,
     hid_german, hid_italian, hid_norwegian, hid_swedish,
     hid_uk_english, hid_israel, hid_turkey]"

lemmas hid_tables = hid_english_def
  hid_spanish_def
  hid_danish_def
  hid_french_def
  hid_german_def
  hid_italian_def
  hid_norwegian_def
  hid_swedish_def
  hid_uk_english_def
  hid_israel_def
  hid_turkey_def

text \<open>
  \<open>get_ascii_to_hid_key_map\<close> returns a pointer into the packed array. The result here is the array
  from that element on, as bytes; \<open>None\<close> for a language that the array does not have.
\<close>

definition flatten_pairs :: "(byte \<times> byte) list \<Rightarrow> bytes" where
  "flatten_pairs xs = concat (map (\<lambda>(a, b). [a, b]) xs)"

definition key_map_from ::
  "(byte \<times> byte) list list \<Rightarrow> nat \<Rightarrow> nat \<Rightarrow> nat \<Rightarrow> bytes option" where
  "key_map_from tab n_language n_ascii n_item =
     (if n_language < length tab \<and> n_ascii < 130 \<and> n_item < 2
      then Some (drop (n_language * 260 + n_ascii * 2 + n_item)
                   (concat (map flatten_pairs tab)))
      else None)"

definition get_ascii_to_hid_key_map :: "nat \<Rightarrow> nat \<Rightarrow> nat \<Rightarrow> bytes option" where
  "get_ascii_to_hid_key_map = key_map_from sASCToHIDKeyMap"

lemma length_flatten_pairs [simp]: "length (flatten_pairs xs) = 2 * length xs"
  by (induction xs) (simp_all add: flatten_pairs_def split: prod.splits)

lemma hid_lengths: "\<forall>m\<in>set sASCToHIDKeyMap. length m = 130"
  by (simp add: sASCToHIDKeyMap_def hid_tables)

lemma length_hid: "length sASCToHIDKeyMap = 11"
  by (simp add: sASCToHIDKeyMap_def)

section \<open>Reading a map in two halves\<close>

lemma drop_concat_same:
  "\<forall>x\<in>set xs. length x = n \<Longrightarrow> drop (i * n) (concat xs) = concat (drop i xs)"
proof (induction xs arbitrary: i)
  case (Cons x xs)
  then show ?case by (cases i) simp_all
qed simp

lemma key_map_from_language:
  assumes "\<forall>m\<in>set tab. length m = 130" "l < length tab" "a < 130"
  shows "key_map_from tab l a 0 =
     Some (drop (2 * a) (flatten_pairs (tab ! l)) @ concat (map flatten_pairs (drop (Suc l) tab)))"
proof -
  have "drop (l * 260) (concat (map flatten_pairs tab)) = concat (drop l (map flatten_pairs tab))"
    by (rule drop_concat_same) (use assms(1) in auto)
  then have "drop (l * 260 + a * 2) (concat (map flatten_pairs tab)) =
      drop (2 * a) (concat (map flatten_pairs (drop l tab)))"
    by (simp add: drop_drop [symmetric] drop_map add.commute mult.commute)
  then show ?thesis
    using assms by (simp add: key_map_from_def Cons_nth_drop_Suc [symmetric])
qed

lemma key_map_halves:
  assumes "\<forall>m\<in>set tab. length m = 130" "l < length tab"
    and "key_map_from tab l 0 0 = Some p" "key_map_from tab l 65 0 = Some q"
  shows "take 130 p @ take 130 q = flatten_pairs (tab ! l)" "130 \<le> length p" "130 \<le> length q"
proof -
  let ?m = "flatten_pairs (tab ! l)" and ?r = "concat (map flatten_pairs (drop (Suc l) tab))"
  have len: "length ?m = 260" using assms(1,2) by simp
  have pq: "p = ?m @ ?r" "q = drop 130 ?m @ ?r"
    using assms key_map_from_language [OF assms(1,2), of 0]
      key_map_from_language [OF assms(1,2), of 65] by simp_all
  show "take 130 p @ take 130 q = ?m" "130 \<le> length p" "130 \<le> length q"
    using len by (simp_all add: pq)
qed

section \<open>Printable characters\<close>

text \<open>The entries of the characters 32 to 126.\<close>

definition printable :: "(byte \<times> byte) list \<Rightarrow> (byte \<times> byte) list" where
  "printable m = take 95 (drop 32 m)"

text \<open>Every printable character has a key, and no two of them have the same one.\<close>

definition printable_mapped :: "(byte \<times> byte) list \<Rightarrow> bool" where
  "printable_mapped m = list_all (\<lambda>p. p \<noteq> (0, 0)) (printable m)"

definition printable_injective :: "(byte \<times> byte) list \<Rightarrow> bool" where
  "printable_injective m = distinct (printable m)"

lemma hid_printable_mapped: "list_all printable_mapped sASCToHIDKeyMap"
  by code_simp

lemma hid_english_injective: "printable_injective hid_english \<and> printable_injective hid_uk_english"
  by code_simp

end
