(* ===== verification/KeyMapPs2.thy ===== *)
theory KeyMapPs2
  imports KeyMapHid
begin

text \<open>
  The PS/2 keyboard maps of \<open>ckey_map\<close> (shared/common/inc/ckey_map.h with the scan codes of
  shared/common/inc/lpu230/KBConst.h), in the same form as the USB maps.
\<close>

section \<open>Key codes\<close>

abbreviation (input) PS2KEY______NONE :: byte where "PS2KEY______NONE \<equiv> 0x00"
abbreviation (input) PS2KEY_______TAB :: byte where "PS2KEY_______TAB \<equiv> 0x0D"
abbreviation (input) PS2KEY_GRAV_TILD :: byte where "PS2KEY_GRAV_TILD \<equiv> 0x0E"
abbreviation (input) PS2KEY_____L_SFT :: byte where "PS2KEY_____L_SFT \<equiv> 0x12"
abbreviation (input) PS2KEY____q____Q :: byte where "PS2KEY____q____Q \<equiv> 0x15"
abbreviation (input) PS2KEY____1_EXCL :: byte where "PS2KEY____1_EXCL \<equiv> 0x16"
abbreviation (input) PS2KEY____z____Z :: byte where "PS2KEY____z____Z \<equiv> 0x1A"
abbreviation (input) PS2KEY____s____S :: byte where "PS2KEY____s____S \<equiv> 0x1B"
abbreviation (input) PS2KEY____a____A :: byte where "PS2KEY____a____A \<equiv> 0x1C"
abbreviation (input) PS2KEY____w____W :: byte where "PS2KEY____w____W \<equiv> 0x1D"
abbreviation (input) PS2KEY____2_QUOT :: byte where "PS2KEY____2_QUOT \<equiv> 0x1E"
abbreviation (input) PS2KEY____c____C :: byte where "PS2KEY____c____C \<equiv> 0x21"
abbreviation (input) PS2KEY____x____X :: byte where "PS2KEY____x____X \<equiv> 0x22"
abbreviation (input) PS2KEY____d____D :: byte where "PS2KEY____d____D \<equiv> 0x23"
abbreviation (input) PS2KEY____e____E :: byte where "PS2KEY____e____E \<equiv> 0x24"
abbreviation (input) PS2KEY____4_DOLL :: byte where "PS2KEY____4_DOLL \<equiv> 0x25"
abbreviation (input) PS2KEY____3_SHAR :: byte where "PS2KEY____3_SHAR \<equiv> 0x26"
abbreviation (input) PS2KEY_____SPACE :: byte where "PS2KEY_____SPACE \<equiv> 0x29"
abbreviation (input) PS2KEY____v____V :: byte where "PS2KEY____v____V \<equiv> 0x2A"
abbreviation (input) PS2KEY____f____F :: byte where "PS2KEY____f____F \<equiv> 0x2B"
abbreviation (input) PS2KEY____t____T :: byte where "PS2KEY____t____T \<equiv> 0x2C"
abbreviation (input) PS2KEY____r____R :: byte where "PS2KEY____r____R \<equiv> 0x2D"
abbreviation (input) PS2KEY____5_PERC :: byte where "PS2KEY____5_PERC \<equiv> 0x2E"
abbreviation (input) PS2KEY____n____N :: byte where "PS2KEY____n____N \<equiv> 0x31"
abbreviation (input) PS2KEY____b____B :: byte where "PS2KEY____b____B \<equiv> 0x32"
abbreviation (input) PS2KEY____h____H :: byte where "PS2KEY____h____H \<equiv> 0x33"
abbreviation (input) PS2KEY____g____G :: byte where "PS2KEY____g____G \<equiv> 0x34"
abbreviation (input) PS2KEY____y____Y :: byte where "PS2KEY____y____Y \<equiv> 0x35"
abbreviation (input) PS2KEY____6_CIRC :: byte where "PS2KEY____6_CIRC \<equiv> 0x36"
abbreviation (input) PS2KEY____m____M :: byte where "PS2KEY____m____M \<equiv> 0x3A"
abbreviation (input) PS2KEY____j____J :: byte where "PS2KEY____j____J \<equiv> 0x3B"
abbreviation (input) PS2KEY____u____U :: byte where "PS2KEY____u____U \<equiv> 0x3C"
abbreviation (input) PS2KEY____7_AMPE :: byte where "PS2KEY____7_AMPE \<equiv> 0x3D"
abbreviation (input) PS2KEY____8_ASTE :: byte where "PS2KEY____8_ASTE \<equiv> 0x3E"
abbreviation (input) PS2KEY_COMA___LT :: byte where "PS2KEY_COMA___LT \<equiv> 0x41"
abbreviation (input) PS2KEY____k____K :: byte where "PS2KEY____k____K \<equiv> 0x42"
abbreviation (input) PS2KEY____i____I :: byte where "PS2KEY____i____I \<equiv> 0x43"
abbreviation (input) PS2KEY____o____O :: byte where "PS2KEY____o____O \<equiv> 0x44"
abbreviation (input) PS2KEY____0_R_PA :: byte where "PS2KEY____0_R_PA \<equiv> 0x45"
abbreviation (input) PS2KEY____9_L_PA :: byte where "PS2KEY____9_L_PA \<equiv> 0x46"
abbreviation (input) PS2KEY_PERIOD_GT :: byte where "PS2KEY_PERIOD_GT \<equiv> 0x49"
abbreviation (input) PS2KEY_SLASH__QM :: byte where "PS2KEY_SLASH__QM \<equiv> 0x4A"
abbreviation (input) PS2KEY____l____L :: byte where "PS2KEY____l____L \<equiv> 0x4B"
abbreviation (input) PS2KEY_SEMI__COL :: byte where "PS2KEY_SEMI__COL \<equiv> 0x4C"
abbreviation (input) PS2KEY____p____P :: byte where "PS2KEY____p____P \<equiv> 0x4D"
abbreviation (input) PS2KEY_MIN_UNDER :: byte where "PS2KEY_MIN_UNDER \<equiv> 0x4E"
abbreviation (input) PS2KEY_APOS_QUOT :: byte where "PS2KEY_APOS_QUOT \<equiv> 0x52"
abbreviation (input) PS2KEY_LBT___LBR :: byte where "PS2KEY_LBT___LBR \<equiv> 0x54"
abbreviation (input) PS2KEY_EQU__PLUS :: byte where "PS2KEY_EQU__PLUS \<equiv> 0x55"
abbreviation (input) PS2KEY____RETURN :: byte where "PS2KEY____RETURN \<equiv> 0x5A"
abbreviation (input) PS2KEY_RBT___RBR :: byte where "PS2KEY_RBT___RBR \<equiv> 0x5B"
abbreviation (input) PS2KEY_BSLA_VBAR :: byte where "PS2KEY_BSLA_VBAR \<equiv> 0x5D"
abbreviation (input) PS2KEY_BACKSPACE :: byte where "PS2KEY_BACKSPACE \<equiv> 0x66"
abbreviation (input) PS2KEY____ESCAPE :: byte where "PS2KEY____ESCAPE \<equiv> 0x76"
abbreviation (input) PS2KEY_____R_ALT :: byte where "PS2KEY_____R_ALT \<equiv> 0xF1"

section \<open>The tables\<close>

definition ps2_english :: "(byte \<times> byte) list" where
  "ps2_english =
   [(0, 0), (0, 0), (0, 0), (0, 0), (0, 0), (0, 0), (0, 0), (0, 0),
    (PS2KEY______NONE, PS2KEY_BACKSPACE), (PS2KEY______NONE, PS2KEY_______TAB), (0, 0), (0, 0),
    (0, 0), (PS2KEY______NONE, PS2KEY____RETURN), (0, 0), (0, 0), (0, 0), (0, 0), (0, 0), (0, 0),
    (0, 0), (0, 0), (0, 0), (0, 0), (0, 0), (0, 0), (0, 0), (PS2KEY______NONE, PS2KEY____ESCAPE),
    (0, 0), (0, 0), (0, 0), (0, 0), (PS2KEY______NONE, PS2KEY_____SPACE),
    (PS2KEY_____L_SFT, PS2KEY____1_EXCL), (PS2KEY_____L_SFT, PS2KEY_APOS_QUOT),
    (PS2KEY_____L_SFT, PS2KEY____3_SHAR), (PS2KEY_____L_SFT, PS2KEY____4_DOLL),
    (PS2KEY_____L_SFT, PS2KEY____5_PERC), (PS2KEY_____L_SFT, PS2KEY____7_AMPE),
    (PS2KEY______NONE, PS2KEY_APOS_QUOT), (PS2KEY_____L_SFT, PS2KEY____9_L_PA),
    (PS2KEY_____L_SFT, PS2KEY____0_R_PA), (PS2KEY_____L_SFT, PS2KEY____8_ASTE),
    (PS2KEY_____L_SFT, PS2KEY_EQU__PLUS), (PS2KEY______NONE, PS2KEY_COMA___LT),
    (PS2KEY______NONE, PS2KEY_MIN_UNDER), (PS2KEY______NONE, PS2KEY_PERIOD_GT),
    (PS2KEY______NONE, PS2KEY_SLASH__QM), (PS2KEY______NONE, PS2KEY____0_R_PA),
    (PS2KEY______NONE, PS2KEY____1_EXCL), (PS2KEY______NONE, PS2KEY____2_QUOT),
    (PS2KEY______NONE, PS2KEY____3_SHAR), (PS2KEY______NONE, PS2KEY____4_DOLL),
    (PS2KEY______NONE, PS2KEY____5_PERC), (PS2KEY______NONE, PS2KEY____6_CIRC),
    (PS2KEY______NONE, PS2KEY____7_AMPE), (PS2KEY______NONE, PS2KEY____8_ASTE),
    (PS2KEY______NONE, PS2KEY____9_L_PA), (PS2KEY_____L_SFT, PS2KEY_SEMI__COL),
    (PS2KEY______NONE, PS2KEY_SEMI__COL), (PS2KEY_____L_SFT, PS2KEY_COMA___LT),
    (PS2KEY______NONE, PS2KEY_EQU__PLUS), (PS2KEY_____L_SFT, PS2KEY_PERIOD_GT),
    (PS2KEY_____L_SFT, PS2KEY_SLASH__QM), (PS2KEY_____L_SFT, PS2KEY____2_QUOT),
    (PS2KEY_____L_SFT, PS2KEY____a____A), (PS2KEY_____L_SFT, PS2KEY____b____B),
    (PS2KEY_____L_SFT, PS2KEY____c____C), (PS2KEY_____L_SFT, PS2KEY____d____D),
    (PS2KEY_____L_SFT, PS2KEY____e____E), (PS2KEY_____L_SFT, PS2KEY____f____F),
    (PS2KEY_____L_SFT, PS2KEY____g____G), (PS2KEY_____L_SFT, PS2KEY____h____H),
    (PS2KEY_____L_SFT, PS2KEY____i____I), (PS2KEY_____L_SFT, PS2KEY____j____J),
    (PS2KEY_____L_SFT, PS2KEY____k____K), (PS2KEY_____L_SFT, PS2KEY____l____L),
    (PS2KEY_____L_SFT, PS2KEY____m____M), (PS2KEY_____L_SFT, PS2KEY____n____N),
    (PS2KEY_____L_SFT, PS2KEY____o____O), (PS2KEY_____L_SFT, PS2KEY____p____P),
    (PS2KEY_____L_SFT, PS2KEY____q____Q), (PS2KEY_____L_SFT, PS2KEY____r____R),
    (PS2KEY_____L_SFT, PS2KEY____s____S), (PS2KEY_____L_SFT, PS2KEY____t____T),
    (PS2KEY_____L_SFT, PS2KEY____u____U), (PS2KEY_____L_SFT, PS2KEY____v____V),
    (PS2KEY_____L_SFT, PS2KEY____w____W), (PS2KEY_____L_SFT, PS2KEY____x____X),
    (PS2KEY_____L_SFT, PS2KEY____y____Y), (PS2KEY_____L_SFT, PS2KEY____z____Z),
    (PS2KEY______NONE, PS2KEY_LBT___LBR), (PS2KEY______NONE, PS2KEY_BSLA_VBAR),
    (PS2KEY______NONE, PS2KEY_RBT___RBR), (PS2KEY_____L_SFT, PS2KEY____6_CIRC),
    (PS2KEY_____L_SFT, PS2KEY_MIN_UNDER), (PS2KEY______NONE, PS2KEY_GRAV_TILD),
    (PS2KEY______NONE, PS2KEY____a____A), (PS2KEY______NONE, PS2KEY____b____B),
    (PS2KEY______NONE, PS2KEY____c____C), (PS2KEY______NONE, PS2KEY____d____D),
    (PS2KEY______NONE, PS2KEY____e____E), (PS2KEY______NONE, PS2KEY____f____F),
    (PS2KEY______NONE, PS2KEY____g____G), (PS2KEY______NONE, PS2KEY____h____H),
    (PS2KEY______NONE, PS2KEY____i____I), (PS2KEY______NONE, PS2KEY____j____J),
    (PS2KEY______NONE, PS2KEY____k____K), (PS2KEY______NONE, PS2KEY____l____L),
    (PS2KEY______NONE, PS2KEY____m____M), (PS2KEY______NONE, PS2KEY____n____N),
    (PS2KEY______NONE, PS2KEY____o____O), (PS2KEY______NONE, PS2KEY____p____P),
    (PS2KEY______NONE, PS2KEY____q____Q), (PS2KEY______NONE, PS2KEY____r____R),
    (PS2KEY______NONE, PS2KEY____s____S), (PS2KEY______NONE, PS2KEY____t____T),
    (PS2KEY______NONE, PS2KEY____u____U), (PS2KEY______NONE, PS2KEY____v____V),
    (PS2KEY______NONE, PS2KEY____w____W), (PS2KEY______NONE, PS2KEY____x____X),
    (PS2KEY______NONE, PS2KEY____y____Y), (PS2KEY______NONE, PS2KEY____z____Z),
    (PS2KEY_____L_SFT, PS2KEY_LBT___LBR), (PS2KEY_____L_SFT, PS2KEY_BSLA_VBAR),
    (PS2KEY_____L_SFT, PS2KEY_RBT___RBR), (PS2KEY_____L_SFT, PS2KEY_GRAV_TILD), (0, 0), (0, 0),
    (0, 0)]"

definition ps2_spanish :: "(byte \<times> byte) list" where
  "ps2_spanish =
   [(0, 0), (0, 0), (0, 0), (0, 0), (0, 0), (0, 0), (0, 0), (0, 0),
    (PS2KEY______NONE, PS2KEY_BACKSPACE), (PS2KEY______NONE, PS2KEY_______TAB), (0, 0), (0, 0),
    (0, 0), (PS2KEY______NONE, PS2KEY____RETURN), (0, 0), (0, 0), (0, 0),
    (PS2KEY_____L_SFT, 0x4C), (PS2KEY_____L_SFT, 0x5D), (PS2KEY_____L_SFT, 0x52),
    (PS2KEY_____L_SFT, 0x0E), (0, 0), (0, 0), (0, 0), (0, 0), (0, 0), (0, 0),
    (PS2KEY______NONE, PS2KEY____ESCAPE), (0, 0), (0, 0), (0, 0), (0, 0),
    (PS2KEY______NONE, PS2KEY_____SPACE), (PS2KEY_____L_SFT, PS2KEY____1_EXCL),
    (PS2KEY_____L_SFT, PS2KEY____2_QUOT), (PS2KEY_____R_ALT, PS2KEY____3_SHAR),
    (PS2KEY_____L_SFT, PS2KEY____4_DOLL), (PS2KEY_____L_SFT, PS2KEY____5_PERC),
    (PS2KEY_____L_SFT, PS2KEY____6_CIRC), (PS2KEY______NONE, PS2KEY_MIN_UNDER),
    (PS2KEY_____L_SFT, PS2KEY____8_ASTE), (PS2KEY_____L_SFT, PS2KEY____9_L_PA),
    (PS2KEY_____L_SFT, PS2KEY_RBT___RBR), (PS2KEY______NONE, PS2KEY_RBT___RBR),
    (PS2KEY______NONE, PS2KEY_COMA___LT), (PS2KEY______NONE, PS2KEY_SLASH__QM),
    (PS2KEY______NONE, PS2KEY_PERIOD_GT), (PS2KEY_____L_SFT, PS2KEY____7_AMPE),
    (PS2KEY______NONE, PS2KEY____0_R_PA), (PS2KEY______NONE, PS2KEY____1_EXCL),
    (PS2KEY______NONE, PS2KEY____2_QUOT), (PS2KEY______NONE, PS2KEY____3_SHAR),
    (PS2KEY______NONE, PS2KEY____4_DOLL), (PS2KEY______NONE, PS2KEY____5_PERC),
    (PS2KEY______NONE, PS2KEY____6_CIRC), (PS2KEY______NONE, PS2KEY____7_AMPE),
    (PS2KEY______NONE, PS2KEY____8_ASTE), (PS2KEY______NONE, PS2KEY____9_L_PA),
    (PS2KEY_____L_SFT, PS2KEY_PERIOD_GT), (PS2KEY_____L_SFT, PS2KEY_COMA___LT),
    (PS2KEY______NONE, 0x61), (PS2KEY_____L_SFT, PS2KEY____0_R_PA), (PS2KEY______NONE, 0x61),
    (PS2KEY_____L_SFT, PS2KEY_MIN_UNDER), (PS2KEY_____R_ALT, PS2KEY____2_QUOT),
    (PS2KEY_____L_SFT, PS2KEY____a____A), (PS2KEY_____L_SFT, PS2KEY____b____B),
    (PS2KEY_____L_SFT, PS2KEY____c____C), (PS2KEY_____L_SFT, PS2KEY____d____D),
    (PS2KEY_____L_SFT, PS2KEY____e____E), (PS2KEY_____L_SFT, PS2KEY____f____F),
    (PS2KEY_____L_SFT, PS2KEY____g____G), (PS2KEY_____L_SFT, PS2KEY____h____H),
    (PS2KEY_____L_SFT, PS2KEY____i____I), (PS2KEY_____L_SFT, PS2KEY____j____J),
    (PS2KEY_____L_SFT, PS2KEY____k____K), (PS2KEY_____L_SFT, PS2KEY____l____L),
    (PS2KEY_____L_SFT, PS2KEY____m____M), (PS2KEY_____L_SFT, PS2KEY____n____N),
    (PS2KEY_____L_SFT, PS2KEY____o____O), (PS2KEY_____L_SFT, PS2KEY____p____P),
    (PS2KEY_____L_SFT, PS2KEY____q____Q), (PS2KEY_____L_SFT, PS2KEY____r____R),
    (PS2KEY_____L_SFT, PS2KEY____s____S), (PS2KEY_____L_SFT, PS2KEY____t____T),
    (PS2KEY_____L_SFT, PS2KEY____u____U), (PS2KEY_____L_SFT, PS2KEY____v____V),
    (PS2KEY_____L_SFT, PS2KEY____w____W), (PS2KEY_____L_SFT, PS2KEY____x____X),
    (PS2KEY_____L_SFT, PS2KEY____y____Y), (PS2KEY_____L_SFT, PS2KEY____z____Z),
    (PS2KEY_____R_ALT, PS2KEY_LBT___LBR), (PS2KEY_____R_ALT, PS2KEY_GRAV_TILD),
    (PS2KEY_____R_ALT, PS2KEY_RBT___RBR), (PS2KEY_____L_SFT, PS2KEY_LBT___LBR),
    (PS2KEY_____L_SFT, PS2KEY_SLASH__QM), (PS2KEY______NONE, 0x54),
    (PS2KEY______NONE, PS2KEY____a____A), (PS2KEY______NONE, PS2KEY____b____B),
    (PS2KEY______NONE, PS2KEY____c____C), (PS2KEY______NONE, PS2KEY____d____D),
    (PS2KEY______NONE, PS2KEY____e____E), (PS2KEY______NONE, PS2KEY____f____F),
    (PS2KEY______NONE, PS2KEY____g____G), (PS2KEY______NONE, PS2KEY____h____H),
    (PS2KEY______NONE, PS2KEY____i____I), (PS2KEY______NONE, PS2KEY____j____J),
    (PS2KEY______NONE, PS2KEY____k____K), (PS2KEY______NONE, PS2KEY____l____L),
    (PS2KEY______NONE, PS2KEY____m____M), (PS2KEY______NONE, PS2KEY____n____N),
    (PS2KEY______NONE, PS2KEY____o____O), (PS2KEY______NONE, PS2KEY____p____P),
    (PS2KEY______NONE, PS2KEY____q____Q), (PS2KEY______NONE, PS2KEY____r____R),
    (PS2KEY______NONE, PS2KEY____s____S), (PS2KEY______NONE, PS2KEY____t____T),
    (PS2KEY______NONE, PS2KEY____u____U), (PS2KEY______NONE, PS2KEY____v____V),
    (PS2KEY______NONE, PS2KEY____w____W), (PS2KEY______NONE, PS2KEY____x____X),
    (PS2KEY______NONE, PS2KEY____y____Y), (PS2KEY______NONE, PS2KEY____z____Z),
    (PS2KEY_____L_SFT, 0x4C), (PS2KEY_____L_SFT, PS2KEY_BSLA_VBAR), (PS2KEY_____L_SFT, 0x52),
    (PS2KEY_____L_SFT, 0x0E), (0, 0), (0, 0), (0, 0)]"

definition ps2_danish :: "(byte \<times> byte) list" where
  "ps2_danish =
   [(0, 0), (0, 0), (0, 0), (0, 0), (0, 0), (0, 0), (0, 0), (0, 0),
    (PS2KEY______NONE, PS2KEY_BACKSPACE), (PS2KEY______NONE, PS2KEY_______TAB), (0, 0), (0, 0),
    (0, 0), (PS2KEY______NONE, PS2KEY____RETURN), (0, 0), (0, 0), (0, 0), (0, 0), (0, 0), (0, 0),
    (0, 0), (0, 0), (0, 0), (0, 0), (0, 0), (0, 0), (0, 0), (PS2KEY______NONE, PS2KEY____ESCAPE),
    (0, 0), (0, 0), (0, 0), (0, 0), (PS2KEY______NONE, PS2KEY_____SPACE),
    (PS2KEY_____L_SFT, PS2KEY____1_EXCL), (PS2KEY_____L_SFT, PS2KEY____2_QUOT),
    (PS2KEY_____L_SFT, PS2KEY____3_SHAR), (PS2KEY_____L_SFT, PS2KEY____4_DOLL),
    (PS2KEY_____L_SFT, PS2KEY____5_PERC), (PS2KEY_____L_SFT, PS2KEY____6_CIRC),
    (PS2KEY______NONE, 0x5D), (PS2KEY_____L_SFT, PS2KEY____8_ASTE),
    (PS2KEY_____L_SFT, PS2KEY____9_L_PA), (PS2KEY_____L_SFT, 0x5D),
    (PS2KEY______NONE, PS2KEY_MIN_UNDER), (PS2KEY______NONE, PS2KEY_COMA___LT),
    (PS2KEY______NONE, PS2KEY_SLASH__QM), (PS2KEY______NONE, PS2KEY_PERIOD_GT),
    (PS2KEY_____L_SFT, PS2KEY____7_AMPE), (PS2KEY______NONE, PS2KEY____0_R_PA),
    (PS2KEY______NONE, PS2KEY____1_EXCL), (PS2KEY______NONE, PS2KEY____2_QUOT),
    (PS2KEY______NONE, PS2KEY____3_SHAR), (PS2KEY______NONE, PS2KEY____4_DOLL),
    (PS2KEY______NONE, PS2KEY____5_PERC), (PS2KEY______NONE, PS2KEY____6_CIRC),
    (PS2KEY______NONE, PS2KEY____7_AMPE), (PS2KEY______NONE, PS2KEY____8_ASTE),
    (PS2KEY______NONE, PS2KEY____9_L_PA), (PS2KEY_____L_SFT, PS2KEY_PERIOD_GT),
    (PS2KEY_____L_SFT, PS2KEY_COMA___LT), (PS2KEY______NONE, 0x61),
    (PS2KEY_____L_SFT, PS2KEY____0_R_PA), (PS2KEY_____L_SFT, 0x61),
    (PS2KEY_____L_SFT, PS2KEY_MIN_UNDER), (PS2KEY_____R_ALT, PS2KEY____2_QUOT),
    (PS2KEY_____L_SFT, PS2KEY____a____A), (PS2KEY_____L_SFT, PS2KEY____b____B),
    (PS2KEY_____L_SFT, PS2KEY____c____C), (PS2KEY_____L_SFT, PS2KEY____d____D),
    (PS2KEY_____L_SFT, PS2KEY____e____E), (PS2KEY_____L_SFT, PS2KEY____f____F),
    (PS2KEY_____L_SFT, PS2KEY____g____G), (PS2KEY_____L_SFT, PS2KEY____h____H),
    (PS2KEY_____L_SFT, PS2KEY____i____I), (PS2KEY_____L_SFT, PS2KEY____j____J),
    (PS2KEY_____L_SFT, PS2KEY____k____K), (PS2KEY_____L_SFT, PS2KEY____l____L),
    (PS2KEY_____L_SFT, PS2KEY____m____M), (PS2KEY_____L_SFT, PS2KEY____n____N),
    (PS2KEY_____L_SFT, PS2KEY____o____O), (PS2KEY_____L_SFT, PS2KEY____p____P),
    (PS2KEY_____L_SFT, PS2KEY____q____Q), (PS2KEY_____L_SFT, PS2KEY____r____R),
    (PS2KEY_____L_SFT, PS2KEY____s____S), (PS2KEY_____L_SFT, PS2KEY____t____T),
    (PS2KEY_____L_SFT, PS2KEY____u____U), (PS2KEY_____L_SFT, PS2KEY____v____V),
    (PS2KEY_____L_SFT, PS2KEY____w____W), (PS2KEY_____L_SFT, PS2KEY____x____X),
    (PS2KEY_____L_SFT, PS2KEY____y____Y), (PS2KEY_____L_SFT, PS2KEY____z____Z),
    (PS2KEY_____R_ALT, PS2KEY____8_ASTE), (PS2KEY_____R_ALT, 0x61),
    (PS2KEY_____R_ALT, PS2KEY____9_L_PA), (PS2KEY_____L_SFT, PS2KEY_RBT___RBR),
    (PS2KEY_____L_SFT, PS2KEY_SLASH__QM), (PS2KEY______NONE, PS2KEY_GRAV_TILD),
    (PS2KEY______NONE, PS2KEY____a____A), (PS2KEY______NONE, PS2KEY____b____B),
    (PS2KEY______NONE, PS2KEY____c____C), (PS2KEY______NONE, PS2KEY____d____D),
    (PS2KEY______NONE, PS2KEY____e____E), (PS2KEY______NONE, PS2KEY____f____F),
    (PS2KEY______NONE, PS2KEY____g____G), (PS2KEY______NONE, PS2KEY____h____H),
    (PS2KEY______NONE, PS2KEY____i____I), (PS2KEY______NONE, PS2KEY____j____J),
    (PS2KEY______NONE, PS2KEY____k____K), (PS2KEY______NONE, PS2KEY____l____L),
    (PS2KEY______NONE, PS2KEY____m____M), (PS2KEY______NONE, PS2KEY____n____N),
    (PS2KEY______NONE, PS2KEY____o____O), (PS2KEY______NONE, PS2KEY____p____P),
    (PS2KEY______NONE, PS2KEY____q____Q), (PS2KEY______NONE, PS2KEY____r____R),
    (PS2KEY______NONE, PS2KEY____s____S), (PS2KEY______NONE, PS2KEY____t____T),
    (PS2KEY______NONE, PS2KEY____u____U), (PS2KEY______NONE, PS2KEY____v____V),
    (PS2KEY______NONE, PS2KEY____w____W), (PS2KEY______NONE, PS2KEY____x____X),
    (PS2KEY______NONE, PS2KEY____y____Y), (PS2KEY______NONE, PS2KEY____z____Z),
    (PS2KEY_____L_SFT, PS2KEY_LBT___LBR), (PS2KEY_____L_SFT, PS2KEY_BSLA_VBAR),
    (PS2KEY_____L_SFT, PS2KEY_RBT___RBR), (PS2KEY_____L_SFT, PS2KEY_GRAV_TILD), (0, 0), (0, 0),
    (0, 0)]"

definition ps2_french :: "(byte \<times> byte) list" where
  "ps2_french =
   [(0, 0), (0, 0), (0, 0), (0, 0), (0, 0), (0, 0), (0, 0), (0, 0),
    (PS2KEY______NONE, PS2KEY_BACKSPACE), (PS2KEY______NONE, PS2KEY_______TAB), (0, 0), (0, 0),
    (0, 0), (PS2KEY______NONE, PS2KEY____RETURN), (0, 0), (0, 0), (0, 0), (0, 0), (0, 0), (0, 0),
    (0, 0), (0, 0), (0, 0), (0, 0), (0, 0), (0, 0), (0, 0), (PS2KEY______NONE, PS2KEY____ESCAPE),
    (0, 0), (0, 0), (0, 0), (0, 0), (PS2KEY______NONE, PS2KEY_____SPACE),
    (PS2KEY______NONE, PS2KEY_SLASH__QM), (PS2KEY______NONE, PS2KEY____3_SHAR),
    (PS2KEY_____R_ALT, PS2KEY____3_SHAR), (PS2KEY______NONE, PS2KEY_RBT___RBR),
    (PS2KEY_____L_SFT, PS2KEY_APOS_QUOT), (PS2KEY______NONE, PS2KEY____1_EXCL),
    (PS2KEY______NONE, PS2KEY____4_DOLL), (PS2KEY______NONE, PS2KEY____5_PERC),
    (PS2KEY______NONE, PS2KEY_MIN_UNDER), (PS2KEY______NONE, 0x5D),
    (PS2KEY_____L_SFT, PS2KEY_EQU__PLUS), (PS2KEY______NONE, PS2KEY____m____M),
    (PS2KEY______NONE, PS2KEY____6_CIRC), (PS2KEY______NONE, PS2KEY_COMA___LT),
    (PS2KEY______NONE, PS2KEY_PERIOD_GT), (PS2KEY______NONE, PS2KEY____0_R_PA),
    (PS2KEY______NONE, PS2KEY____1_EXCL), (PS2KEY______NONE, PS2KEY____2_QUOT),
    (PS2KEY______NONE, PS2KEY____3_SHAR), (PS2KEY______NONE, PS2KEY____4_DOLL),
    (PS2KEY______NONE, PS2KEY____5_PERC), (PS2KEY______NONE, PS2KEY____6_CIRC),
    (PS2KEY______NONE, PS2KEY____7_AMPE), (PS2KEY______NONE, PS2KEY____8_ASTE),
    (PS2KEY______NONE, PS2KEY____9_L_PA), (PS2KEY______NONE, PS2KEY_PERIOD_GT),
    (PS2KEY______NONE, PS2KEY_COMA___LT), (PS2KEY______NONE, 0x61),
    (PS2KEY______NONE, PS2KEY_EQU__PLUS), (PS2KEY_____L_SFT, 0x61),
    (PS2KEY_____L_SFT, PS2KEY____m____M), (PS2KEY_____R_ALT, PS2KEY____0_R_PA),
    (PS2KEY_____L_SFT, PS2KEY____q____Q), (PS2KEY_____L_SFT, PS2KEY____b____B),
    (PS2KEY_____L_SFT, PS2KEY____c____C), (PS2KEY_____L_SFT, PS2KEY____d____D),
    (PS2KEY_____L_SFT, PS2KEY____e____E), (PS2KEY_____L_SFT, PS2KEY____f____F),
    (PS2KEY_____L_SFT, PS2KEY____g____G), (PS2KEY_____L_SFT, PS2KEY____h____H),
    (PS2KEY_____L_SFT, PS2KEY____i____I), (PS2KEY_____L_SFT, PS2KEY____j____J),
    (PS2KEY_____L_SFT, PS2KEY____k____K), (PS2KEY_____L_SFT, PS2KEY____l____L),
    (PS2KEY_____L_SFT, PS2KEY_SEMI__COL), (PS2KEY_____L_SFT, PS2KEY____n____N),
    (PS2KEY_____L_SFT, PS2KEY____o____O), (PS2KEY_____L_SFT, PS2KEY____p____P),
    (PS2KEY_____L_SFT, PS2KEY____a____A), (PS2KEY_____L_SFT, PS2KEY____r____R),
    (PS2KEY_____L_SFT, PS2KEY____s____S), (PS2KEY_____L_SFT, PS2KEY____t____T),
    (PS2KEY_____L_SFT, PS2KEY____u____U), (PS2KEY_____L_SFT, PS2KEY____v____V),
    (PS2KEY_____L_SFT, PS2KEY____z____Z), (PS2KEY_____L_SFT, PS2KEY____x____X),
    (PS2KEY_____L_SFT, PS2KEY____y____Y), (PS2KEY_____L_SFT, PS2KEY____w____W),
    (PS2KEY_____R_ALT, PS2KEY____5_PERC), (PS2KEY_____R_ALT, PS2KEY____8_ASTE),
    (PS2KEY_____R_ALT, PS2KEY_MIN_UNDER), (PS2KEY_____R_ALT, PS2KEY____9_L_PA),
    (PS2KEY______NONE, PS2KEY____8_ASTE), (PS2KEY______NONE, PS2KEY_GRAV_TILD),
    (PS2KEY______NONE, PS2KEY____a____A), (PS2KEY______NONE, PS2KEY____b____B),
    (PS2KEY______NONE, PS2KEY____c____C), (PS2KEY______NONE, PS2KEY____d____D),
    (PS2KEY______NONE, PS2KEY____e____E), (PS2KEY______NONE, PS2KEY____f____F),
    (PS2KEY______NONE, PS2KEY____g____G), (PS2KEY______NONE, PS2KEY____h____H),
    (PS2KEY______NONE, PS2KEY____i____I), (PS2KEY______NONE, PS2KEY____j____J),
    (PS2KEY______NONE, PS2KEY____k____K), (PS2KEY______NONE, PS2KEY____l____L),
    (PS2KEY______NONE, PS2KEY____m____M), (PS2KEY______NONE, PS2KEY____n____N),
    (PS2KEY______NONE, PS2KEY____o____O), (PS2KEY______NONE, PS2KEY____p____P),
    (PS2KEY______NONE, PS2KEY____q____Q), (PS2KEY______NONE, PS2KEY____r____R),
    (PS2KEY______NONE, PS2KEY____s____S), (PS2KEY______NONE, PS2KEY____t____T),
    (PS2KEY______NONE, PS2KEY____u____U), (PS2KEY______NONE, PS2KEY____v____V),
    (PS2KEY______NONE, PS2KEY____w____W), (PS2KEY______NONE, PS2KEY____x____X),
    (PS2KEY______NONE, PS2KEY____y____Y), (PS2KEY______NONE, PS2KEY____z____Z),
    (PS2KEY_____L_SFT, PS2KEY_LBT___LBR), (PS2KEY_____L_SFT, PS2KEY_BSLA_VBAR),
    (PS2KEY_____L_SFT, PS2KEY_RBT___RBR), (PS2KEY_____L_SFT, PS2KEY_GRAV_TILD), (0, 0), (0, 0),
    (0, 0)]"

definition ps2_german :: "(byte \<times> byte) list" where
  "ps2_german =
   [(0, 0), (0, 0), (0, 0), (0, 0), (0, 0), (0, 0), (0, 0), (0, 0),
    (PS2KEY______NONE, PS2KEY_BACKSPACE), (PS2KEY______NONE, PS2KEY_______TAB), (0, 0), (0, 0),
    (0, 0), (PS2KEY______NONE, PS2KEY____RETURN), (0, 0), (0, 0), (0, 0), (0, 0), (0, 0), (0, 0),
    (0, 0), (0, 0), (0, 0), (0, 0), (0, 0), (0, 0), (0, 0), (PS2KEY______NONE, PS2KEY____ESCAPE),
    (0, 0), (0, 0), (0, 0), (0, 0), (PS2KEY______NONE, PS2KEY_____SPACE),
    (PS2KEY_____L_SFT, PS2KEY____1_EXCL), (PS2KEY_____L_SFT, PS2KEY____2_QUOT),
    (PS2KEY______NONE, 0x5D), (PS2KEY_____L_SFT, PS2KEY____4_DOLL),
    (PS2KEY_____L_SFT, PS2KEY____5_PERC), (PS2KEY_____L_SFT, PS2KEY____6_CIRC),
    (PS2KEY_____L_SFT, 0x5D), (PS2KEY_____L_SFT, PS2KEY____8_ASTE),
    (PS2KEY_____L_SFT, PS2KEY____9_L_PA), (PS2KEY_____L_SFT, PS2KEY_RBT___RBR),
    (PS2KEY______NONE, PS2KEY_RBT___RBR), (PS2KEY______NONE, PS2KEY_COMA___LT),
    (PS2KEY______NONE, PS2KEY_SLASH__QM), (PS2KEY______NONE, PS2KEY_PERIOD_GT),
    (PS2KEY_____L_SFT, PS2KEY____7_AMPE), (PS2KEY______NONE, PS2KEY____0_R_PA),
    (PS2KEY______NONE, PS2KEY____1_EXCL), (PS2KEY______NONE, PS2KEY____2_QUOT),
    (PS2KEY______NONE, PS2KEY____3_SHAR), (PS2KEY______NONE, PS2KEY____4_DOLL),
    (PS2KEY______NONE, PS2KEY____5_PERC), (PS2KEY______NONE, PS2KEY____6_CIRC),
    (PS2KEY______NONE, PS2KEY____7_AMPE), (PS2KEY______NONE, PS2KEY____8_ASTE),
    (PS2KEY______NONE, PS2KEY____9_L_PA), (PS2KEY_____L_SFT, PS2KEY_PERIOD_GT),
    (PS2KEY_____L_SFT, PS2KEY_COMA___LT), (PS2KEY______NONE, 0x61),
    (PS2KEY_____L_SFT, PS2KEY____0_R_PA), (PS2KEY_____L_SFT, 0x61),
    (PS2KEY_____L_SFT, PS2KEY_MIN_UNDER), (PS2KEY_____R_ALT, PS2KEY____q____Q),
    (PS2KEY_____L_SFT, PS2KEY____a____A), (PS2KEY_____L_SFT, PS2KEY____b____B),
    (PS2KEY_____L_SFT, PS2KEY____c____C), (PS2KEY_____L_SFT, PS2KEY____d____D),
    (PS2KEY_____L_SFT, PS2KEY____e____E), (PS2KEY_____L_SFT, PS2KEY____f____F),
    (PS2KEY_____L_SFT, PS2KEY____g____G), (PS2KEY_____L_SFT, PS2KEY____h____H),
    (PS2KEY_____L_SFT, PS2KEY____i____I), (PS2KEY_____L_SFT, PS2KEY____j____J),
    (PS2KEY_____L_SFT, PS2KEY____k____K), (PS2KEY_____L_SFT, PS2KEY____l____L),
    (PS2KEY_____L_SFT, PS2KEY____m____M), (PS2KEY_____L_SFT, PS2KEY____n____N),
    (PS2KEY_____L_SFT, PS2KEY____o____O), (PS2KEY_____L_SFT, PS2KEY____p____P),
    (PS2KEY_____L_SFT, PS2KEY____q____Q), (PS2KEY_____L_SFT, PS2KEY____r____R),
    (PS2KEY_____L_SFT, PS2KEY____s____S), (PS2KEY_____L_SFT, PS2KEY____t____T),
    (PS2KEY_____L_SFT, PS2KEY____u____U), (PS2KEY_____L_SFT, PS2KEY____v____V),
    (PS2KEY_____L_SFT, PS2KEY____w____W), (PS2KEY_____L_SFT, PS2KEY____x____X),
    (PS2KEY_____L_SFT, PS2KEY____z____Z), (PS2KEY_____L_SFT, PS2KEY____y____Y),
    (PS2KEY_____R_ALT, PS2KEY____8_ASTE), (PS2KEY_____R_ALT, PS2KEY_MIN_UNDER),
    (PS2KEY_____R_ALT, PS2KEY____9_L_PA), (PS2KEY_____L_SFT, PS2KEY_GRAV_TILD),
    (PS2KEY______NONE, PS2KEY_SLASH__QM), (PS2KEY______NONE, PS2KEY_GRAV_TILD),
    (PS2KEY______NONE, PS2KEY____a____A), (PS2KEY______NONE, PS2KEY____b____B),
    (PS2KEY______NONE, PS2KEY____c____C), (PS2KEY______NONE, PS2KEY____d____D),
    (PS2KEY______NONE, PS2KEY____e____E), (PS2KEY______NONE, PS2KEY____f____F),
    (PS2KEY______NONE, PS2KEY____g____G), (PS2KEY______NONE, PS2KEY____h____H),
    (PS2KEY______NONE, PS2KEY____i____I), (PS2KEY______NONE, PS2KEY____j____J),
    (PS2KEY______NONE, PS2KEY____k____K), (PS2KEY______NONE, PS2KEY____l____L),
    (PS2KEY______NONE, PS2KEY____m____M), (PS2KEY______NONE, PS2KEY____n____N),
    (PS2KEY______NONE, PS2KEY____o____O), (PS2KEY______NONE, PS2KEY____p____P),
    (PS2KEY______NONE, PS2KEY____q____Q), (PS2KEY______NONE, PS2KEY____r____R),
    (PS2KEY______NONE, PS2KEY____s____S), (PS2KEY______NONE, PS2KEY____t____T),
    (PS2KEY______NONE, PS2KEY____u____U), (PS2KEY______NONE, PS2KEY____v____V),
    (PS2KEY______NONE, PS2KEY____w____W), (PS2KEY______NONE, PS2KEY____x____X),
    (PS2KEY______NONE, PS2KEY____y____Y), (PS2KEY______NONE, PS2KEY____z____Z),
    (PS2KEY_____L_SFT, PS2KEY_LBT___LBR), (PS2KEY_____L_SFT, PS2KEY_BSLA_VBAR),
    (PS2KEY_____L_SFT, PS2KEY_RBT___RBR), (PS2KEY_____L_SFT, PS2KEY_GRAV_TILD), (0, 0), (0, 0),
    (0, 0)]"

definition ps2_italian :: "(byte \<times> byte) list" where
  "ps2_italian =
   [(0, 0), (0, 0), (0, 0), (0, 0), (0, 0), (0, 0), (0, 0), (0, 0),
    (PS2KEY______NONE, PS2KEY_BACKSPACE), (PS2KEY______NONE, PS2KEY_______TAB), (0, 0), (0, 0),
    (0, 0), (PS2KEY______NONE, PS2KEY____RETURN), (0, 0), (0, 0), (0, 0), (0, 0), (0, 0), (0, 0),
    (0, 0), (0, 0), (0, 0), (0, 0), (0, 0), (0, 0), (0, 0), (PS2KEY______NONE, PS2KEY____ESCAPE),
    (0, 0), (0, 0), (0, 0), (0, 0), (PS2KEY______NONE, PS2KEY_____SPACE),
    (PS2KEY_____L_SFT, PS2KEY____1_EXCL), (PS2KEY_____L_SFT, PS2KEY____2_QUOT),
    (PS2KEY_____R_ALT, PS2KEY_APOS_QUOT), (PS2KEY_____L_SFT, PS2KEY____4_DOLL),
    (PS2KEY_____L_SFT, PS2KEY____5_PERC), (PS2KEY_____L_SFT, PS2KEY____6_CIRC),
    (PS2KEY______NONE, PS2KEY_MIN_UNDER), (PS2KEY_____L_SFT, PS2KEY____8_ASTE),
    (PS2KEY_____L_SFT, PS2KEY____9_L_PA), (PS2KEY_____L_SFT, PS2KEY_RBT___RBR),
    (PS2KEY______NONE, PS2KEY_RBT___RBR), (PS2KEY______NONE, PS2KEY_COMA___LT),
    (PS2KEY______NONE, PS2KEY_SLASH__QM), (PS2KEY______NONE, PS2KEY_PERIOD_GT),
    (PS2KEY_____L_SFT, PS2KEY____7_AMPE), (PS2KEY______NONE, PS2KEY____0_R_PA),
    (PS2KEY______NONE, PS2KEY____1_EXCL), (PS2KEY______NONE, PS2KEY____2_QUOT),
    (PS2KEY______NONE, PS2KEY____3_SHAR), (PS2KEY______NONE, PS2KEY____4_DOLL),
    (PS2KEY______NONE, PS2KEY____5_PERC), (PS2KEY______NONE, PS2KEY____6_CIRC),
    (PS2KEY______NONE, PS2KEY____7_AMPE), (PS2KEY______NONE, PS2KEY____8_ASTE),
    (PS2KEY______NONE, PS2KEY____9_L_PA), (PS2KEY_____L_SFT, PS2KEY_PERIOD_GT),
    (PS2KEY_____L_SFT, PS2KEY_COMA___LT), (PS2KEY______NONE, 0x61),
    (PS2KEY_____L_SFT, PS2KEY____0_R_PA), (PS2KEY_____L_SFT, 0x61),
    (PS2KEY_____L_SFT, PS2KEY_MIN_UNDER), (PS2KEY_____R_ALT, PS2KEY_SEMI__COL),
    (PS2KEY_____L_SFT, PS2KEY____a____A), (PS2KEY_____L_SFT, PS2KEY____b____B),
    (PS2KEY_____L_SFT, PS2KEY____c____C), (PS2KEY_____L_SFT, PS2KEY____d____D),
    (PS2KEY_____L_SFT, PS2KEY____e____E), (PS2KEY_____L_SFT, PS2KEY____f____F),
    (PS2KEY_____L_SFT, PS2KEY____g____G), (PS2KEY_____L_SFT, PS2KEY____h____H),
    (PS2KEY_____L_SFT, PS2KEY____i____I), (PS2KEY_____L_SFT, PS2KEY____j____J),
    (PS2KEY_____L_SFT, PS2KEY____k____K), (PS2KEY_____L_SFT, PS2KEY____l____L),
    (PS2KEY_____L_SFT, PS2KEY____m____M), (PS2KEY_____L_SFT, PS2KEY____n____N),
    (PS2KEY_____L_SFT, PS2KEY____o____O), (PS2KEY_____L_SFT, PS2KEY____p____P),
    (PS2KEY_____L_SFT, PS2KEY____q____Q), (PS2KEY_____L_SFT, PS2KEY____r____R),
    (PS2KEY_____L_SFT, PS2KEY____s____S), (PS2KEY_____L_SFT, PS2KEY____t____T),
    (PS2KEY_____L_SFT, PS2KEY____u____U), (PS2KEY_____L_SFT, PS2KEY____v____V),
    (PS2KEY_____L_SFT, PS2KEY____w____W), (PS2KEY_____L_SFT, PS2KEY____x____X),
    (PS2KEY_____L_SFT, PS2KEY____y____Y), (PS2KEY_____L_SFT, PS2KEY____z____Z),
    (PS2KEY_____R_ALT, PS2KEY_LBT___LBR), (PS2KEY______NONE, PS2KEY_GRAV_TILD),
    (PS2KEY_____R_ALT, PS2KEY_RBT___RBR), (PS2KEY_____L_SFT, PS2KEY_EQU__PLUS),
    (PS2KEY_____L_SFT, PS2KEY_SLASH__QM), (PS2KEY______NONE, PS2KEY_GRAV_TILD),
    (PS2KEY______NONE, PS2KEY____a____A), (PS2KEY______NONE, PS2KEY____b____B),
    (PS2KEY______NONE, PS2KEY____c____C), (PS2KEY______NONE, PS2KEY____d____D),
    (PS2KEY______NONE, PS2KEY____e____E), (PS2KEY______NONE, PS2KEY____f____F),
    (PS2KEY______NONE, PS2KEY____g____G), (PS2KEY______NONE, PS2KEY____h____H),
    (PS2KEY______NONE, PS2KEY____i____I), (PS2KEY______NONE, PS2KEY____j____J),
    (PS2KEY______NONE, PS2KEY____k____K), (PS2KEY______NONE, PS2KEY____l____L),
    (PS2KEY______NONE, PS2KEY____m____M), (PS2KEY______NONE, PS2KEY____n____N),
    (PS2KEY______NONE, PS2KEY____o____O), (PS2KEY______NONE, PS2KEY____p____P),
    (PS2KEY______NONE, PS2KEY____q____Q), (PS2KEY______NONE, PS2KEY____r____R),
    (PS2KEY______NONE, PS2KEY____s____S), (PS2KEY______NONE, PS2KEY____t____T),
    (PS2KEY______NONE, PS2KEY____u____U), (PS2KEY______NONE, PS2KEY____v____V),
    (PS2KEY______NONE, PS2KEY____w____W), (PS2KEY______NONE, PS2KEY____x____X),
    (PS2KEY______NONE, PS2KEY____y____Y), (PS2KEY______NONE, PS2KEY____z____Z),
    (PS2KEY_____L_SFT, PS2KEY_LBT___LBR), (PS2KEY_____L_SFT, PS2KEY_BSLA_VBAR),
    (PS2KEY_____L_SFT, PS2KEY_RBT___RBR), (PS2KEY_____L_SFT, PS2KEY_GRAV_TILD), (0, 0), (0, 0),
    (0, 0)]"

definition ps2_norwegian :: "(byte \<times> byte) list" where
  "ps2_norwegian =
   [(0, 0), (0, 0), (0, 0), (0, 0), (0, 0), (0, 0), (0, 0), (0, 0),
    (PS2KEY______NONE, PS2KEY_BACKSPACE), (PS2KEY______NONE, PS2KEY_______TAB), (0, 0), (0, 0),
    (0, 0), (PS2KEY______NONE, PS2KEY____RETURN), (0, 0), (0, 0), (0, 0), (0, 0), (0, 0), (0, 0),
    (0, 0), (0, 0), (0, 0), (0, 0), (0, 0), (0, 0), (0, 0), (PS2KEY______NONE, PS2KEY____ESCAPE),
    (0, 0), (0, 0), (0, 0), (0, 0), (PS2KEY______NONE, PS2KEY_____SPACE),
    (PS2KEY_____L_SFT, PS2KEY____1_EXCL), (PS2KEY_____L_SFT, PS2KEY____2_QUOT),
    (PS2KEY_____L_SFT, PS2KEY____3_SHAR), (PS2KEY_____R_ALT, PS2KEY____4_DOLL),
    (PS2KEY_____L_SFT, PS2KEY____5_PERC), (PS2KEY_____L_SFT, PS2KEY____6_CIRC),
    (PS2KEY______NONE, 0x5D), (PS2KEY_____L_SFT, PS2KEY____8_ASTE),
    (PS2KEY_____L_SFT, PS2KEY____9_L_PA), (PS2KEY_____L_SFT, 0x5D),
    (PS2KEY______NONE, PS2KEY_MIN_UNDER), (PS2KEY______NONE, PS2KEY_COMA___LT),
    (PS2KEY______NONE, PS2KEY_SLASH__QM), (PS2KEY______NONE, PS2KEY_PERIOD_GT),
    (PS2KEY_____L_SFT, PS2KEY____7_AMPE), (PS2KEY______NONE, PS2KEY____0_R_PA),
    (PS2KEY______NONE, PS2KEY____1_EXCL), (PS2KEY______NONE, PS2KEY____2_QUOT),
    (PS2KEY______NONE, PS2KEY____3_SHAR), (PS2KEY______NONE, PS2KEY____4_DOLL),
    (PS2KEY______NONE, PS2KEY____5_PERC), (PS2KEY______NONE, PS2KEY____6_CIRC),
    (PS2KEY______NONE, PS2KEY____7_AMPE), (PS2KEY______NONE, PS2KEY____8_ASTE),
    (PS2KEY______NONE, PS2KEY____9_L_PA), (PS2KEY_____L_SFT, PS2KEY_PERIOD_GT),
    (PS2KEY_____L_SFT, PS2KEY_COMA___LT), (PS2KEY______NONE, 0x61),
    (PS2KEY_____L_SFT, PS2KEY____0_R_PA), (PS2KEY_____L_SFT, 0x61),
    (PS2KEY_____L_SFT, PS2KEY_MIN_UNDER), (PS2KEY_____R_ALT, PS2KEY____2_QUOT),
    (PS2KEY_____L_SFT, PS2KEY____a____A), (PS2KEY_____L_SFT, PS2KEY____b____B),
    (PS2KEY_____L_SFT, PS2KEY____c____C), (PS2KEY_____L_SFT, PS2KEY____d____D),
    (PS2KEY_____L_SFT, PS2KEY____e____E), (PS2KEY_____L_SFT, PS2KEY____f____F),
    (PS2KEY_____L_SFT, PS2KEY____g____G), (PS2KEY_____L_SFT, PS2KEY____h____H),
    (PS2KEY_____L_SFT, PS2KEY____i____I), (PS2KEY_____L_SFT, PS2KEY____j____J),
    (PS2KEY_____L_SFT, PS2KEY____k____K), (PS2KEY_____L_SFT, PS2KEY____l____L),
    (PS2KEY_____L_SFT, PS2KEY____m____M), (PS2KEY_____L_SFT, PS2KEY____n____N),
    (PS2KEY_____L_SFT, PS2KEY____o____O), (PS2KEY_____L_SFT, PS2KEY____p____P),
    (PS2KEY_____L_SFT, PS2KEY____q____Q), (PS2KEY_____L_SFT, PS2KEY____r____R),
    (PS2KEY_____L_SFT, PS2KEY____s____S), (PS2KEY_____L_SFT, PS2KEY____t____T),
    (PS2KEY_____L_SFT, PS2KEY____u____U), (PS2KEY_____L_SFT, PS2KEY____v____V),
    (PS2KEY_____L_SFT, PS2KEY____w____W), (PS2KEY_____L_SFT, PS2KEY____x____X),
    (PS2KEY_____L_SFT, PS2KEY____y____Y), (PS2KEY_____L_SFT, PS2KEY____z____Z),
    (PS2KEY_____R_ALT, PS2KEY____8_ASTE), (PS2KEY______NONE, PS2KEY_EQU__PLUS),
    (PS2KEY_____R_ALT, PS2KEY____9_L_PA), (PS2KEY_____L_SFT, PS2KEY_RBT___RBR),
    (PS2KEY_____L_SFT, PS2KEY_SLASH__QM), (PS2KEY______NONE, PS2KEY_GRAV_TILD),
    (PS2KEY______NONE, PS2KEY____a____A), (PS2KEY______NONE, PS2KEY____b____B),
    (PS2KEY______NONE, PS2KEY____c____C), (PS2KEY______NONE, PS2KEY____d____D),
    (PS2KEY______NONE, PS2KEY____e____E), (PS2KEY______NONE, PS2KEY____f____F),
    (PS2KEY______NONE, PS2KEY____g____G), (PS2KEY______NONE, PS2KEY____h____H),
    (PS2KEY______NONE, PS2KEY____i____I), (PS2KEY______NONE, PS2KEY____j____J),
    (PS2KEY______NONE, PS2KEY____k____K), (PS2KEY______NONE, PS2KEY____l____L),
    (PS2KEY______NONE, PS2KEY____m____M), (PS2KEY______NONE, PS2KEY____n____N),
    (PS2KEY______NONE, PS2KEY____o____O), (PS2KEY______NONE, PS2KEY____p____P),
    (PS2KEY______NONE, PS2KEY____q____Q), (PS2KEY______NONE, PS2KEY____r____R),
    (PS2KEY______NONE, PS2KEY____s____S), (PS2KEY______NONE, PS2KEY____t____T),
    (PS2KEY______NONE, PS2KEY____u____U), (PS2KEY______NONE, PS2KEY____v____V),
    (PS2KEY______NONE, PS2KEY____w____W), (PS2KEY______NONE, PS2KEY____x____X),
    (PS2KEY______NONE, PS2KEY____y____Y), (PS2KEY______NONE, PS2KEY____z____Z),
    (PS2KEY_____L_SFT, PS2KEY_LBT___LBR), (PS2KEY_____L_SFT, PS2KEY_BSLA_VBAR),
    (PS2KEY_____L_SFT, PS2KEY_RBT___RBR), (PS2KEY_____L_SFT, PS2KEY_GRAV_TILD), (0, 0), (0, 0),
    (0, 0)]"

definition ps2_swedish :: "(byte \<times> byte) list" where
  "ps2_swedish =
   [(0, 0), (0, 0), (0, 0), (0, 0), (0, 0), (0, 0), (0, 0), (0, 0),
    (PS2KEY______NONE, PS2KEY_BACKSPACE), (PS2KEY______NONE, PS2KEY_______TAB), (0, 0), (0, 0),
    (0, 0), (PS2KEY______NONE, PS2KEY____RETURN), (0, 0), (0, 0), (0, 0), (0, 0), (0, 0), (0, 0),
    (0, 0), (0, 0), (0, 0), (0, 0), (0, 0), (0, 0), (0, 0), (PS2KEY______NONE, PS2KEY____ESCAPE),
    (0, 0), (0, 0), (0, 0), (0, 0), (PS2KEY______NONE, PS2KEY_____SPACE),
    (PS2KEY_____L_SFT, PS2KEY____1_EXCL), (PS2KEY_____L_SFT, PS2KEY____2_QUOT),
    (PS2KEY_____L_SFT, PS2KEY____3_SHAR), (PS2KEY_____R_ALT, PS2KEY____4_DOLL),
    (PS2KEY_____L_SFT, PS2KEY____5_PERC), (PS2KEY_____L_SFT, PS2KEY____6_CIRC),
    (PS2KEY______NONE, 0x5D), (PS2KEY_____L_SFT, PS2KEY____8_ASTE),
    (PS2KEY_____L_SFT, PS2KEY____9_L_PA), (PS2KEY_____L_SFT, 0x5D),
    (PS2KEY______NONE, PS2KEY_MIN_UNDER), (PS2KEY______NONE, PS2KEY_COMA___LT),
    (PS2KEY______NONE, PS2KEY_SLASH__QM), (PS2KEY______NONE, PS2KEY_PERIOD_GT),
    (PS2KEY_____L_SFT, PS2KEY____7_AMPE), (PS2KEY______NONE, PS2KEY____0_R_PA),
    (PS2KEY______NONE, PS2KEY____1_EXCL), (PS2KEY______NONE, PS2KEY____2_QUOT),
    (PS2KEY______NONE, PS2KEY____3_SHAR), (PS2KEY______NONE, PS2KEY____4_DOLL),
    (PS2KEY______NONE, PS2KEY____5_PERC), (PS2KEY______NONE, PS2KEY____6_CIRC),
    (PS2KEY______NONE, PS2KEY____7_AMPE), (PS2KEY______NONE, PS2KEY____8_ASTE),
    (PS2KEY______NONE, PS2KEY____9_L_PA), (PS2KEY_____L_SFT, PS2KEY_PERIOD_GT),
    (PS2KEY_____L_SFT, PS2KEY_COMA___LT), (PS2KEY______NONE, 0x61),
    (PS2KEY______NONE, PS2KEY_EQU__PLUS), (PS2KEY_____L_SFT, 0x61),
    (PS2KEY_____L_SFT, PS2KEY_MIN_UNDER), (PS2KEY_____R_ALT, PS2KEY____2_QUOT),
    (PS2KEY_____L_SFT, PS2KEY____a____A), (PS2KEY_____L_SFT, PS2KEY____b____B),
    (PS2KEY_____L_SFT, PS2KEY____c____C), (PS2KEY_____L_SFT, PS2KEY____d____D),
    (PS2KEY_____L_SFT, PS2KEY____e____E), (PS2KEY_____L_SFT, PS2KEY____f____F),
    (PS2KEY_____L_SFT, PS2KEY____g____G), (PS2KEY_____L_SFT, PS2KEY____h____H),
    (PS2KEY_____L_SFT, PS2KEY____i____I), (PS2KEY_____L_SFT, PS2KEY____j____J),
    (PS2KEY_____L_SFT, PS2KEY____k____K), (PS2KEY_____L_SFT, PS2KEY____l____L),
    (PS2KEY_____L_SFT, PS2KEY____m____M), (PS2KEY_____L_SFT, PS2KEY____n____N),
    (PS2KEY_____L_SFT, PS2KEY____o____O), (PS2KEY_____L_SFT, PS2KEY____p____P),
    (PS2KEY_____L_SFT, PS2KEY____q____Q), (PS2KEY_____L_SFT, PS2KEY____r____R),
    (PS2KEY_____L_SFT, PS2KEY____s____S), (PS2KEY_____L_SFT, PS2KEY____t____T),
    (PS2KEY_____L_SFT, PS2KEY____u____U), (PS2KEY_____L_SFT, PS2KEY____v____V),
    (PS2KEY_____L_SFT, PS2KEY____w____W), (PS2KEY_____L_SFT, PS2KEY____x____X),
    (PS2KEY_____L_SFT, PS2KEY____y____Y), (PS2KEY_____L_SFT, PS2KEY____z____Z),
    (PS2KEY_____R_ALT, PS2KEY____8_ASTE), (PS2KEY_____R_ALT, PS2KEY_MIN_UNDER),
    (PS2KEY_____R_ALT, PS2KEY____9_L_PA), (PS2KEY_____L_SFT, PS2KEY_RBT___RBR),
    (PS2KEY_____L_SFT, PS2KEY_SLASH__QM), (PS2KEY______NONE, PS2KEY_GRAV_TILD),
    (PS2KEY______NONE, PS2KEY____a____A), (PS2KEY______NONE, PS2KEY____b____B),
    (PS2KEY______NONE, PS2KEY____c____C), (PS2KEY______NONE, PS2KEY____d____D),
    (PS2KEY______NONE, PS2KEY____e____E), (PS2KEY______NONE, PS2KEY____f____F),
    (PS2KEY______NONE, PS2KEY____g____G), (PS2KEY______NONE, PS2KEY____h____H),
    (PS2KEY______NONE, PS2KEY____i____I), (PS2KEY______NONE, PS2KEY____j____J),
    (PS2KEY______NONE, PS2KEY____k____K), (PS2KEY______NONE, PS2KEY____l____L),
    (PS2KEY______NONE, PS2KEY____m____M), (PS2KEY______NONE, PS2KEY____n____N),
    (PS2KEY______NONE, PS2KEY____o____O), (PS2KEY______NONE, PS2KEY____p____P),
    (PS2KEY______NONE, PS2KEY____q____Q), (PS2KEY______NONE, PS2KEY____r____R),
    (PS2KEY______NONE, PS2KEY____s____S), (PS2KEY______NONE, PS2KEY____t____T),
    (PS2KEY______NONE, PS2KEY____u____U), (PS2KEY______NONE, PS2KEY____v____V),
    (PS2KEY______NONE, PS2KEY____w____W), (PS2KEY______NONE, PS2KEY____x____X),
    (PS2KEY______NONE, PS2KEY____y____Y), (PS2KEY______NONE, PS2KEY____z____Z),
    (PS2KEY_____L_SFT, PS2KEY_LBT___LBR), (PS2KEY_____L_SFT, PS2KEY_BSLA_VBAR),
    (PS2KEY_____L_SFT, PS2KEY_RBT___RBR), (PS2KEY_____L_SFT, PS2KEY_GRAV_TILD), (0, 0), (0, 0),
    (0, 0)]"

definition ps2_uk_english :: "(byte \<times> byte) list" where
  "ps2_uk_english =
   [(0, 0), (0, 0), (0, 0), (0, 0), (0, 0), (0, 0), (0, 0), (0, 0),
    (PS2KEY______NONE, PS2KEY_BACKSPACE), (PS2KEY______NONE, PS2KEY_______TAB), (0, 0), (0, 0),
    (0, 0), (PS2KEY______NONE, PS2KEY____RETURN), (0, 0), (0, 0), (0, 0), (0, 0), (0, 0), (0, 0),
    (0, 0), (0, 0), (0, 0), (0, 0), (0, 0), (0, 0), (0, 0), (PS2KEY______NONE, PS2KEY____ESCAPE),
    (0, 0), (0, 0), (0, 0), (0, 0), (PS2KEY______NONE, PS2KEY_____SPACE),
    (PS2KEY_____L_SFT, PS2KEY____1_EXCL), (PS2KEY_____L_SFT, PS2KEY____2_QUOT),
    (PS2KEY______NONE, 0x5D), (PS2KEY_____L_SFT, PS2KEY____4_DOLL),
    (PS2KEY_____L_SFT, PS2KEY____5_PERC), (PS2KEY_____L_SFT, PS2KEY____7_AMPE),
    (PS2KEY______NONE, PS2KEY_APOS_QUOT), (PS2KEY_____L_SFT, PS2KEY____9_L_PA),
    (PS2KEY_____L_SFT, PS2KEY____0_R_PA), (PS2KEY_____L_SFT, PS2KEY____8_ASTE),
    (PS2KEY_____L_SFT, PS2KEY_EQU__PLUS), (PS2KEY______NONE, PS2KEY_COMA___LT),
    (PS2KEY______NONE, PS2KEY_MIN_UNDER), (PS2KEY______NONE, PS2KEY_PERIOD_GT),
    (PS2KEY______NONE, PS2KEY_SLASH__QM), (PS2KEY______NONE, PS2KEY____0_R_PA),
    (PS2KEY______NONE, PS2KEY____1_EXCL), (PS2KEY______NONE, PS2KEY____2_QUOT),
    (PS2KEY______NONE, PS2KEY____3_SHAR), (PS2KEY______NONE, PS2KEY____4_DOLL),
    (PS2KEY______NONE, PS2KEY____5_PERC), (PS2KEY______NONE, PS2KEY____6_CIRC),
    (PS2KEY______NONE, PS2KEY____7_AMPE), (PS2KEY______NONE, PS2KEY____8_ASTE),
    (PS2KEY______NONE, PS2KEY____9_L_PA), (PS2KEY_____L_SFT, PS2KEY_SEMI__COL),
    (PS2KEY______NONE, PS2KEY_SEMI__COL), (PS2KEY_____L_SFT, PS2KEY_COMA___LT),
    (PS2KEY______NONE, PS2KEY_EQU__PLUS), (PS2KEY_____L_SFT, PS2KEY_PERIOD_GT),
    (PS2KEY_____L_SFT, PS2KEY_SLASH__QM), (PS2KEY_____L_SFT, PS2KEY_APOS_QUOT),
    (PS2KEY_____L_SFT, PS2KEY____a____A), (PS2KEY_____L_SFT, PS2KEY____b____B),
    (PS2KEY_____L_SFT, PS2KEY____c____C), (PS2KEY_____L_SFT, PS2KEY____d____D),
    (PS2KEY_____L_SFT, PS2KEY____e____E), (PS2KEY_____L_SFT, PS2KEY____f____F),
    (PS2KEY_____L_SFT, PS2KEY____g____G), (PS2KEY_____L_SFT, PS2KEY____h____H),
    (PS2KEY_____L_SFT, PS2KEY____i____I), (PS2KEY_____L_SFT, PS2KEY____j____J),
    (PS2KEY_____L_SFT, PS2KEY____k____K), (PS2KEY_____L_SFT, PS2KEY____l____L),
    (PS2KEY_____L_SFT, PS2KEY____m____M), (PS2KEY_____L_SFT, PS2KEY____n____N),
    (PS2KEY_____L_SFT, PS2KEY____o____O), (PS2KEY_____L_SFT, PS2KEY____p____P),
    (PS2KEY_____L_SFT, PS2KEY____q____Q), (PS2KEY_____L_SFT, PS2KEY____r____R),
    (PS2KEY_____L_SFT, PS2KEY____s____S), (PS2KEY_____L_SFT, PS2KEY____t____T),
    (PS2KEY_____L_SFT, PS2KEY____u____U), (PS2KEY_____L_SFT, PS2KEY____v____V),
    (PS2KEY_____L_SFT, PS2KEY____w____W), (PS2KEY_____L_SFT, PS2KEY____x____X),
    (PS2KEY_____L_SFT, PS2KEY____y____Y), (PS2KEY_____L_SFT, PS2KEY____z____Z),
    (PS2KEY______NONE, PS2KEY_LBT___LBR), (PS2KEY______NONE, 0x61),
    (PS2KEY______NONE, PS2KEY_RBT___RBR), (PS2KEY_____L_SFT, PS2KEY____6_CIRC),
    (PS2KEY_____L_SFT, PS2KEY_MIN_UNDER), (PS2KEY______NONE, PS2KEY_GRAV_TILD),
    (PS2KEY______NONE, PS2KEY____a____A), (PS2KEY______NONE, PS2KEY____b____B),
    (PS2KEY______NONE, PS2KEY____c____C), (PS2KEY______NONE, PS2KEY____d____D),
    (PS2KEY______NONE, PS2KEY____e____E), (PS2KEY______NONE, PS2KEY____f____F),
    (PS2KEY______NONE, PS2KEY____g____G), (PS2KEY______NONE, PS2KEY____h____H),
    (PS2KEY______NONE, PS2KEY____i____I), (PS2KEY______NONE, PS2KEY____j____J),
    (PS2KEY______NONE, PS2KEY____k____K), (PS2KEY______NONE, PS2KEY____l____L),
    (PS2KEY______NONE, PS2KEY____m____M), (PS2KEY______NONE, PS2KEY____n____N),
    (PS2KEY______NONE, PS2KEY____o____O), (PS2KEY______NONE, PS2KEY____p____P),
    (PS2KEY______NONE, PS2KEY____q____Q), (PS2KEY______NONE, PS2KEY____r____R),
    (PS2KEY______NONE, PS2KEY____s____S), (PS2KEY______NONE, PS2KEY____t____T),
    (PS2KEY______NONE, PS2KEY____u____U), (PS2KEY______NONE, PS2KEY____v____V),
    (PS2KEY______NONE, PS2KEY____w____W), (PS2KEY______NONE, PS2KEY____x____X),
    (PS2KEY______NONE, PS2KEY____y____Y), (PS2KEY______NONE, PS2KEY____z____Z),
    (PS2KEY_____L_SFT, PS2KEY_LBT___LBR), (PS2KEY_____L_SFT, PS2KEY_BSLA_VBAR),
    (PS2KEY_____L_SFT, PS2KEY_RBT___RBR), (PS2KEY_____L_SFT, PS2KEY_GRAV_TILD), (0, 0), (0, 0),
    (0, 0)]"

definition ps2_israel :: "(byte \<times> byte) list" where
  "ps2_israel =
   [(0, 0), (0, 0), (0, 0), (0, 0), (0, 0), (0, 0), (0, 0), (0, 0),
    (PS2KEY______NONE, PS2KEY_BACKSPACE), (PS2KEY______NONE, PS2KEY_______TAB), (0, 0), (0, 0),
    (0, 0), (PS2KEY______NONE, PS2KEY____RETURN), (0, 0), (0, 0), (0, 0), (0, 0), (0, 0), (0, 0),
    (0, 0), (0, 0), (0, 0), (0, 0), (0, 0), (0, 0), (0, 0), (PS2KEY______NONE, PS2KEY____ESCAPE),
    (0, 0), (0, 0), (0, 0), (0, 0), (PS2KEY______NONE, PS2KEY_____SPACE),
    (PS2KEY_____L_SFT, PS2KEY____1_EXCL), (PS2KEY_____L_SFT, PS2KEY_APOS_QUOT),
    (PS2KEY_____L_SFT, PS2KEY____3_SHAR), (PS2KEY_____L_SFT, PS2KEY____4_DOLL),
    (PS2KEY_____L_SFT, PS2KEY____5_PERC), (PS2KEY_____L_SFT, PS2KEY____7_AMPE),
    (PS2KEY______NONE, PS2KEY____w____W), (PS2KEY_____L_SFT, PS2KEY____0_R_PA),
    (PS2KEY_____L_SFT, PS2KEY____9_L_PA), (PS2KEY_____L_SFT, PS2KEY____8_ASTE),
    (PS2KEY_____L_SFT, PS2KEY_EQU__PLUS), (PS2KEY______NONE, PS2KEY_APOS_QUOT),
    (PS2KEY______NONE, PS2KEY_MIN_UNDER), (PS2KEY______NONE, PS2KEY_SLASH__QM),
    (PS2KEY______NONE, PS2KEY____q____Q), (PS2KEY______NONE, PS2KEY____0_R_PA),
    (PS2KEY______NONE, PS2KEY____1_EXCL), (PS2KEY______NONE, PS2KEY____2_QUOT),
    (PS2KEY______NONE, PS2KEY____3_SHAR), (PS2KEY______NONE, PS2KEY____4_DOLL),
    (PS2KEY______NONE, PS2KEY____5_PERC), (PS2KEY______NONE, PS2KEY____6_CIRC),
    (PS2KEY______NONE, PS2KEY____7_AMPE), (PS2KEY______NONE, PS2KEY____8_ASTE),
    (PS2KEY______NONE, PS2KEY____9_L_PA), (PS2KEY_____L_SFT, PS2KEY_SEMI__COL),
    (PS2KEY______NONE, PS2KEY_GRAV_TILD), (PS2KEY_____L_SFT, PS2KEY_PERIOD_GT),
    (PS2KEY______NONE, PS2KEY_EQU__PLUS), (PS2KEY_____L_SFT, PS2KEY_COMA___LT),
    (PS2KEY_____L_SFT, PS2KEY_SLASH__QM), (PS2KEY_____L_SFT, PS2KEY____2_QUOT),
    (PS2KEY_____L_SFT, PS2KEY____a____A), (PS2KEY_____L_SFT, PS2KEY____b____B),
    (PS2KEY_____L_SFT, PS2KEY____c____C), (PS2KEY_____L_SFT, PS2KEY____d____D),
    (PS2KEY_____L_SFT, PS2KEY____e____E), (PS2KEY_____L_SFT, PS2KEY____f____F),
    (PS2KEY_____L_SFT, PS2KEY____g____G), (PS2KEY_____L_SFT, PS2KEY____h____H),
    (PS2KEY_____L_SFT, PS2KEY____i____I), (PS2KEY_____L_SFT, PS2KEY____j____J),
    (PS2KEY_____L_SFT, PS2KEY____k____K), (PS2KEY_____L_SFT, PS2KEY____l____L),
    (PS2KEY_____L_SFT, PS2KEY____m____M), (PS2KEY_____L_SFT, PS2KEY____n____N),
    (PS2KEY_____L_SFT, PS2KEY____o____O), (PS2KEY_____L_SFT, PS2KEY____p____P),
    (PS2KEY_____L_SFT, PS2KEY____q____Q), (PS2KEY_____L_SFT, PS2KEY____r____R),
    (PS2KEY_____L_SFT, PS2KEY____s____S), (PS2KEY_____L_SFT, PS2KEY____t____T),
    (PS2KEY_____L_SFT, PS2KEY____u____U), (PS2KEY_____L_SFT, PS2KEY____v____V),
    (PS2KEY_____L_SFT, PS2KEY____w____W), (PS2KEY_____L_SFT, PS2KEY____x____X),
    (PS2KEY_____L_SFT, PS2KEY____y____Y), (PS2KEY_____L_SFT, PS2KEY____z____Z),
    (PS2KEY______NONE, PS2KEY_RBT___RBR), (PS2KEY______NONE, 0x61),
    (PS2KEY______NONE, PS2KEY_LBT___LBR), (PS2KEY_____L_SFT, PS2KEY____6_CIRC),
    (PS2KEY_____L_SFT, PS2KEY_MIN_UNDER), (PS2KEY______NONE, PS2KEY_GRAV_TILD),
    (PS2KEY______NONE, PS2KEY____a____A), (PS2KEY______NONE, PS2KEY____b____B),
    (PS2KEY______NONE, PS2KEY____c____C), (PS2KEY______NONE, PS2KEY____d____D),
    (PS2KEY______NONE, PS2KEY____e____E), (PS2KEY______NONE, PS2KEY____f____F),
    (PS2KEY______NONE, PS2KEY____g____G), (PS2KEY______NONE, PS2KEY____h____H),
    (PS2KEY______NONE, PS2KEY____i____I), (PS2KEY______NONE, PS2KEY____j____J),
    (PS2KEY______NONE, PS2KEY____k____K), (PS2KEY______NONE, PS2KEY____l____L),
    (PS2KEY______NONE, PS2KEY____m____M), (PS2KEY______NONE, PS2KEY____n____N),
    (PS2KEY______NONE, PS2KEY____o____O), (PS2KEY______NONE, PS2KEY____p____P),
    (PS2KEY______NONE, PS2KEY____q____Q), (PS2KEY______NONE, PS2KEY____r____R),
    (PS2KEY______NONE, PS2KEY____s____S), (PS2KEY______NONE, PS2KEY____t____T),
    (PS2KEY______NONE, PS2KEY____u____U), (PS2KEY______NONE, PS2KEY____v____V),
    (PS2KEY______NONE, PS2KEY____w____W), (PS2KEY______NONE, PS2KEY____x____X),
    (PS2KEY______NONE, PS2KEY____y____Y), (PS2KEY______NONE, PS2KEY____z____Z),
    (PS2KEY_____L_SFT, PS2KEY_LBT___LBR), (PS2KEY_____L_SFT, PS2KEY_BSLA_VBAR),
    (PS2KEY_____L_SFT, PS2KEY_RBT___RBR), (PS2KEY_____L_SFT, PS2KEY_GRAV_TILD), (0, 0), (0, 0),
    (0, 0)]"

definition ps2_turkey :: "(byte \<times> byte) list" where
  "ps2_turkey =
   [(0, 0), (0, 0), (0, 0), (0, 0), (0, 0), (0, 0), (0, 0), (0, 0),
    (PS2KEY______NONE, PS2KEY_BACKSPACE), (PS2KEY______NONE, PS2KEY_______TAB), (0, 0), (0, 0),
    (0, 0), (PS2KEY______NONE, PS2KEY____RETURN), (0, 0), (0, 0), (0, 0), (0, 0), (0, 0), (0, 0),
    (0, 0), (0, 0), (0, 0), (0, 0), (0, 0), (0, 0), (0, 0), (PS2KEY______NONE, PS2KEY____ESCAPE),
    (0, 0), (0, 0), (0, 0), (0, 0), (PS2KEY______NONE, PS2KEY_____SPACE),
    (PS2KEY_____L_SFT, PS2KEY____1_EXCL), (PS2KEY______NONE, PS2KEY_GRAV_TILD),
    (PS2KEY_____R_ALT, PS2KEY____3_SHAR), (PS2KEY_____R_ALT, PS2KEY____4_DOLL),
    (PS2KEY_____L_SFT, PS2KEY____5_PERC), (PS2KEY_____L_SFT, PS2KEY____6_CIRC),
    (PS2KEY_____L_SFT, PS2KEY____2_QUOT), (PS2KEY_____L_SFT, PS2KEY____8_ASTE),
    (PS2KEY_____L_SFT, PS2KEY____9_L_PA), (PS2KEY______NONE, PS2KEY_MIN_UNDER),
    (PS2KEY_____L_SFT, PS2KEY____4_DOLL), (PS2KEY______NONE, 0x5D),
    (PS2KEY______NONE, PS2KEY_EQU__PLUS), (PS2KEY______NONE, PS2KEY_SLASH__QM),
    (PS2KEY_____L_SFT, PS2KEY____7_AMPE), (PS2KEY______NONE, PS2KEY____0_R_PA),
    (PS2KEY______NONE, PS2KEY____1_EXCL), (PS2KEY______NONE, PS2KEY____2_QUOT),
    (PS2KEY______NONE, PS2KEY____3_SHAR), (PS2KEY______NONE, PS2KEY____4_DOLL),
    (PS2KEY______NONE, PS2KEY____5_PERC), (PS2KEY______NONE, PS2KEY____6_CIRC),
    (PS2KEY______NONE, PS2KEY____7_AMPE), (PS2KEY______NONE, PS2KEY____8_ASTE),
    (PS2KEY______NONE, PS2KEY____9_L_PA), (PS2KEY_____L_SFT, PS2KEY_SLASH__QM),
    (PS2KEY_____L_SFT, 0x5D), (PS2KEY______NONE, 0x61), (PS2KEY_____L_SFT, PS2KEY____0_R_PA),
    (PS2KEY_____L_SFT, 0x61), (PS2KEY_____L_SFT, PS2KEY_MIN_UNDER),
    (PS2KEY_____R_ALT, PS2KEY____q____Q), (PS2KEY_____L_SFT, PS2KEY____a____A),
    (PS2KEY_____L_SFT, PS2KEY____b____B), (PS2KEY_____L_SFT, PS2KEY____c____C),
    (PS2KEY_____L_SFT, PS2KEY____d____D), (PS2KEY_____L_SFT, PS2KEY____e____E),
    (PS2KEY_____L_SFT, PS2KEY____f____F), (PS2KEY_____L_SFT, PS2KEY____g____G),
    (PS2KEY_____L_SFT, PS2KEY____h____H), (PS2KEY_____L_SFT, PS2KEY____i____I),
    (PS2KEY_____L_SFT, PS2KEY____j____J), (PS2KEY_____L_SFT, PS2KEY____k____K),
    (PS2KEY_____L_SFT, PS2KEY____l____L), (PS2KEY_____L_SFT, PS2KEY____m____M),
    (PS2KEY_____L_SFT, PS2KEY____n____N), (PS2KEY_____L_SFT, PS2KEY____o____O),
    (PS2KEY_____L_SFT, PS2KEY____p____P), (PS2KEY_____L_SFT, PS2KEY____q____Q),
    (PS2KEY_____L_SFT, PS2KEY____r____R), (PS2KEY_____L_SFT, PS2KEY____s____S),
    (PS2KEY_____L_SFT, PS2KEY____t____T), (PS2KEY_____L_SFT, PS2KEY____u____U),
    (PS2KEY_____L_SFT, PS2KEY____v____V), (PS2KEY_____L_SFT, PS2KEY____w____W),
    (PS2KEY_____L_SFT, PS2KEY____x____X), (PS2KEY_____L_SFT, PS2KEY____y____Y),
    (PS2KEY_____L_SFT, PS2KEY____z____Z), (PS2KEY_____R_ALT, PS2KEY____8_ASTE),
    (PS2KEY_____R_ALT, PS2KEY_MIN_UNDER), (PS2KEY_____R_ALT, PS2KEY____9_L_PA),
    (PS2KEY_____L_SFT, PS2KEY____3_SHAR), (PS2KEY_____L_SFT, PS2KEY_EQU__PLUS),
    (PS2KEY______NONE, PS2KEY_GRAV_TILD), (PS2KEY______NONE, PS2KEY____a____A),
    (PS2KEY______NONE, PS2KEY____b____B), (PS2KEY______NONE, PS2KEY____c____C),
    (PS2KEY______NONE, PS2KEY____d____D), (PS2KEY______NONE, PS2KEY____e____E),
    (PS2KEY______NONE, PS2KEY____f____F), (PS2KEY______NONE, PS2KEY____g____G),
    (PS2KEY______NONE, PS2KEY____h____H), (PS2KEY______NONE, PS2KEY____i____I),
    (PS2KEY______NONE, PS2KEY____j____J), (PS2KEY______NONE, PS2KEY____k____K),
    (PS2KEY______NONE, PS2KEY____l____L), (PS2KEY______NONE, PS2KEY____m____M),
    (PS2KEY______NONE, PS2KEY____n____N), (PS2KEY______NONE, PS2KEY____o____O),
    (PS2KEY______NONE, PS2KEY____p____P), (PS2KEY______NONE, PS2KEY____q____Q),
    (PS2KEY______NONE, PS2KEY____r____R), (PS2KEY______NONE, PS2KEY____s____S),
    (PS2KEY______NONE, PS2KEY____t____T), (PS2KEY______NONE, PS2KEY____u____U),
    (PS2KEY______NONE, PS2KEY____v____V), (PS2KEY______NONE, PS2KEY____w____W),
    (PS2KEY______NONE, PS2KEY____x____X), (PS2KEY______NONE, PS2KEY____y____Y),
    (PS2KEY______NONE, PS2KEY____z____Z), (PS2KEY_____L_SFT, PS2KEY_LBT___LBR),
    (PS2KEY_____L_SFT, PS2KEY_BSLA_VBAR), (PS2KEY_____L_SFT, PS2KEY_RBT___RBR),
    (PS2KEY_____L_SFT, PS2KEY_GRAV_TILD), (0, 0), (0, 0), (0, 0)]"

text \<open>The table of all languages, indexed by \<open>type_keyboard_language_index\<close>.\<close>

definition sASCToPS2KeyMap :: "(byte \<times> byte) list list" where
  "sASCToPS2KeyMap =
    [ps2_english, ps2_spanish, ps2_danish, ps2_french,
     ps2_german, ps2_italian, ps2_norwegian, ps2_swedish,
     ps2_uk_english, ps2_israel, ps2_turkey]"

lemmas ps2_tables = ps2_english_def
  ps2_spanish_def
  ps2_danish_def
  ps2_french_def
  ps2_german_def
  ps2_italian_def
  ps2_norwegian_def
  ps2_swedish_def
  ps2_uk_english_def
  ps2_israel_def
  ps2_turkey_def

definition get_ascii_to_ps2_key_map :: "nat \<Rightarrow> nat \<Rightarrow> nat \<Rightarrow> bytes option" where
  "get_ascii_to_ps2_key_map = key_map_from sASCToPS2KeyMap"

lemma ps2_lengths: "\<forall>m\<in>set sASCToPS2KeyMap. length m = 130"
  by (simp add: sASCToPS2KeyMap_def ps2_tables)

lemma length_ps2: "length sASCToPS2KeyMap = 11"
  by (simp add: sASCToPS2KeyMap_def)

lemma ps2_printable_mapped: "list_all printable_mapped sASCToPS2KeyMap"
  by code_simp

lemma ps2_english_injective: "printable_injective ps2_english \<and> printable_injective ps2_uk_english"
  by code_simp

section \<open>Properties\<close>

text \<open>Every printable character (codes 32 to 126) has a key in the USB map and in the PS/2 map of
  every language, and each map has 130 entries.\<close>

theorem key_maps_complete:
  "list_all printable_mapped sASCToHIDKeyMap \<and> list_all printable_mapped sASCToPS2KeyMap
   \<and> list_all (\<lambda>m. length m = 130) (sASCToHIDKeyMap @ sASCToPS2KeyMap)"
  using hid_printable_mapped ps2_printable_mapped hid_lengths ps2_lengths
  by (simp add: list_all_iff) blast

text \<open>On the English and UK English maps no two printable characters are typed with the same key
  and modifier, neither on USB nor on PS/2.\<close>

theorem english_key_maps_injective:
  "printable_injective hid_english \<and> printable_injective hid_uk_english
   \<and> printable_injective ps2_english \<and> printable_injective ps2_uk_english"
  using hid_english_injective ps2_english_injective by blast

text \<open>The French PS/2 map types the digits 1, 3, 4, 5, 6 and 8 with the same unshifted keys as
  the characters ampersand, quotation mark, apostrophe, left parenthesis, minus and underscore,
  where the French USB map has the shift key for the digits.\<close>

theorem french_ps2_digits_clash:
  "list_all (\<lambda>(a, b). ps2_french ! a = ps2_french ! b \<and> hid_french ! a \<noteq> hid_french ! b)
     [(49, 38), (51, 34), (52, 39), (53, 40), (54, 45), (56, 95)]"
  by (simp add: ps2_french_def hid_french_def)

end
