(* ===== verification/ProtoState.thy ===== *)
theory ProtoState
  imports Version FunLpu237 SysInfo
begin

text \<open>
  State of \<open>cprotocol_lpu237\<close> (shared/common/inc/cprotocol_lpu237.h): the enumerations of the
  host protocol, the object's members as records, \<open>reset\<close> and the queue accessors. The transmit
  and receive queues form a record of their own, \<open>proto_queue\<close>, which the request generators
  work on; \<open>proto\<close> extends it with the cached device parameters.

  Fixed-size arrays are functions of the index. Only the indices below \<open>the_number_of_track\<close>
  (and below 3 for the combinations) exist: an operation that takes an index from its caller
  without checking it returns \<open>None\<close> when the index is outside.
\<close>

section \<open>Enumerations\<close>

datatype track = iso1_track | iso2_track | iso3_track | iso_global

text \<open>The values of \<open>type_msr_track_Numer\<close>, which the code uses as array indices.\<close>

fun track_code :: "track \<Rightarrow> nat" where
  "track_code iso1_track = 0"
| "track_code iso2_track = 1"
| "track_code iso3_track = 2"
| "track_code iso_global = 10"

definition the_number_of_track :: nat where "the_number_of_track = 3"

definition all_tracks :: "track list" where
  "all_tracks = [iso1_track, iso2_track, iso3_track]"

text \<open>\<open>type_cmd\<close>, the host command codes.\<close>

definition cmd_config :: byte where "cmd_config = 0x41"
definition cmd_apply :: byte where "cmd_apply = 0x42"
definition cmd_enter_cs :: byte where "cmd_enter_cs = 0x58"
definition cmd_leave_cs :: byte where "cmd_leave_cs = 0x59"
definition cmd_goto_boot_loader :: byte where "cmd_goto_boot_loader = 0x47"
definition cmd_enter_opos :: byte where "cmd_enter_opos = 0x49"
definition cmd_leave_opos :: byte where "cmd_leave_opos = 0x4A"
definition cmd_start_ibutton :: byte where "cmd_start_ibutton = 0x46"
definition cmd_stop_ibutton :: byte where "cmd_stop_ibutton = 0x48"
definition cmd_hw_is_standard :: byte where "cmd_hw_is_standard = 0x44"
definition cmd_hw_is_only_ibutton :: byte where "cmd_hw_is_only_ibutton = 0x57"
definition cmd_read_uid :: byte where "cmd_read_uid = 0x55"
definition cmd_hw_is_mmd1000 :: byte where "cmd_hw_is_mmd1000 = 0x4E"
definition cmd_uart_bypass :: byte where "cmd_uart_bypass = 0x54"

definition request_config_set :: byte where "request_config_set = 200"
definition request_config_get :: byte where "request_config_get = 201"

lemmas cmd_codes =
  cmd_config_def cmd_apply_def cmd_enter_cs_def cmd_leave_cs_def cmd_goto_boot_loader_def
  cmd_enter_opos_def cmd_leave_opos_def cmd_start_ibutton_def cmd_stop_ibutton_def
  cmd_hw_is_standard_def cmd_hw_is_only_ibutton_def cmd_read_uid_def cmd_hw_is_mmd1000_def
  cmd_uart_bypass_def request_config_set_def request_config_get_def

text \<open>\<open>type_msr_response\<close>\<close>

definition msr_response_prefix :: byte where "msr_response_prefix = 0x52"
definition response_good :: byte where "response_good = 0xFF"
definition response_good_negative :: byte where "response_good_negative = 0x80"
definition response_error_crc :: byte where "response_error_crc = 1"
definition response_error_mislength :: byte where "response_error_mislength = 2"
definition response_error_mismatching_key :: byte where "response_error_mismatching_key = 3"
definition response_error_mischeck_block :: byte where "response_error_mischeck_block = 4"
definition response_error_invalid :: byte where "response_error_invalid = 5"
definition response_error_verify :: byte where "response_error_verify = 6"

lemmas response_codes =
  msr_response_prefix_def response_good_def response_good_negative_def response_error_crc_def
  response_error_mislength_def response_error_mismatching_key_def
  response_error_mischeck_block_def response_error_invalid_def response_error_verify_def

text \<open>The size of an input report without its id: \<open>3 + 76 + 37 + 104\<close>.\<close>

definition rx_size :: nat where "rx_size = 3 + 76 + 37 + 104"

datatype manufacturer = mf_elpusk | mf_btc
datatype device_function = fun_none | fun_msr | fun_msr_ibutton | fun_ibutton
datatype token_format = ef_decimal | ef_heximal | ef_ascii

text \<open>
  The per-combination members of a track: the ten members that are stored as one byte each.
\<close>

datatype msr_item =
  max_size | bit_size | data_mask | use_parity | parity_type | stxl | etxl
| use_error_correct | ecm_type | add_value

text \<open>
  \<open>_generated_tx_type\<close>. The enumerators of the source that differ only in a track and combination
  number, such as \<open>gt_get_msr_max_size32\<close> (track 3, combination 2), are one constructor with the
  track and the combination as arguments: \<open>gt_get_msr max_size iso3_track 2\<close>.
\<close>

datatype generated_tx =
  gt_read_uid | gt_change_authkey | gt_change_status | gt_change_sn | gt_enter_config
| gt_leave_config | gt_apply | gt_goto_boot | gt_enter_opos | gt_leave_opos | gt_start_ibutton
| gt_stop_ibutton | gt_support_mmd1000 | gt_bypass_uart | gt_type_ibutton_only | gt_type_device
| gt_set_config | gt_get_version | gt_get_name | gt_get_global_prepostfix_send_condition
| gt_get_interface | gt_get_language | gt_get_buzzer_frequency | gt_get_boot_run_time
| gt_get_enable_iso track | gt_get_direction track
| gt_get_global_prefix | gt_get_global_postfix
| gt_get_prefix_ibutton | gt_get_postfix_ibutton | gt_get_prefix_uart | gt_get_postfix_uart
| gt_get_blanks | gt_get_orders | gt_get_combination track
| gt_get_msr msr_item track nat
| gt_get_private_prefix track nat | gt_get_private_postfix track nat
| gt_get_ibutton_remove | gt_get_prefix_ibutton_remove | gt_get_postfix_ibutton_remove
| gt_get_version_structure

text \<open>
  \<open>_change_parameter\<close>. The code computes with these enumerators
  (\<open>cp_MaxSize10 + track * 3 + n_combi\<close>), so they are their numbers. The nine enumerators of a
  per-combination parameter are given by the first one.
\<close>

definition cp_GlobalPrePostfixSendCondition :: nat where "cp_GlobalPrePostfixSendCondition = 0"
definition cp_EnableiButton :: nat where "cp_EnableiButton = 1"
definition cp_Interface :: nat where "cp_Interface = 2"
definition cp_BuzzerFrequency :: nat where "cp_BuzzerFrequency = 3"
definition cp_BootRunTime :: nat where "cp_BootRunTime = 4"
definition cp_Language :: nat where "cp_Language = 5"
definition cp_EnableISO1 :: nat where "cp_EnableISO1 = 6"
definition cp_Direction1 :: nat where "cp_Direction1 = 9"
definition cp_TrackOrders :: nat where "cp_TrackOrders = 12"
definition cp_Combination1 :: nat where "cp_Combination1 = 13"
definition cp_GlobalPrefix :: nat where "cp_GlobalPrefix = 106"
definition cp_GlobalPostfix :: nat where "cp_GlobalPostfix = 107"
definition cp_PrivatePrefix10 :: nat where "cp_PrivatePrefix10 = 108"
definition cp_PrivatePostfix10 :: nat where "cp_PrivatePostfix10 = 117"
definition cp_Prefix_iButton :: nat where "cp_Prefix_iButton = 126"
definition cp_Postfix_iButton :: nat where "cp_Postfix_iButton = 127"
definition cp_Prefix_Uart :: nat where "cp_Prefix_Uart = 128"
definition cp_Postfix_Uart :: nat where "cp_Postfix_Uart = 129"
definition cp_BtcConfigData :: nat where "cp_BtcConfigData = 130"
definition cp_Blanks :: nat where "cp_Blanks = 131"
definition cp_iButton_Remove :: nat where "cp_iButton_Remove = 132"
definition cp_Prefix_iButton_Remove :: nat where "cp_Prefix_iButton_Remove = 133"
definition cp_Postfix_iButton_Remove :: nat where "cp_Postfix_iButton_Remove = 134"
definition cp_the_number_of_cp :: nat where "cp_the_number_of_cp = 135"

lemmas cp_codes =
  cp_GlobalPrePostfixSendCondition_def cp_EnableiButton_def cp_Interface_def
  cp_BuzzerFrequency_def cp_BootRunTime_def cp_Language_def cp_EnableISO1_def
  cp_Direction1_def cp_TrackOrders_def cp_Combination1_def cp_GlobalPrefix_def
  cp_GlobalPostfix_def cp_PrivatePrefix10_def cp_PrivatePostfix10_def cp_Prefix_iButton_def
  cp_Postfix_iButton_def cp_Prefix_Uart_def cp_Postfix_Uart_def cp_BtcConfigData_def
  cp_Blanks_def cp_iButton_Remove_def cp_Prefix_iButton_Remove_def
  cp_Postfix_iButton_Remove_def cp_the_number_of_cp_def

text \<open>
  \<open>cp_MaxSize10 .. cp_AddValue10\<close>: the first enumerator of each of the ten members that exist
  per track and combination.
\<close>

fun cp_msr10 :: "msr_item \<Rightarrow> nat" where
  "cp_msr10 max_size = 16"
| "cp_msr10 bit_size = 25"
| "cp_msr10 data_mask = 34"
| "cp_msr10 use_parity = 43"
| "cp_msr10 parity_type = 52"
| "cp_msr10 stxl = 61"
| "cp_msr10 etxl = 70"
| "cp_msr10 use_error_correct = 79"
| "cp_msr10 ecm_type = 88"
| "cp_msr10 add_value = 97"

text \<open>The values of \<open>type_system_interface\<close>, \<open>type_keyboard_language_index\<close>, \<open>type_direction\<close>.\<close>

definition system_interface_usb_keyboard :: byte where "system_interface_usb_keyboard = 0"
definition language_map_index_english :: byte where "language_map_index_english = 0"
definition dir_bidectional :: byte where "dir_bidectional = 0"
definition default_buzzer_frequency :: u32 where "default_buzzer_frequency = 25000"
definition default_buzzer_frequency_for_wiznova_board :: u32 where
  "default_buzzer_frequency_for_wiznova_board = 16000"

section \<open>The object\<close>

record proto_queue =
  m_dw_scr_transaction_counter :: u32
  m_deque_generated_tx :: "generated_tx list"
  m_dequeu_v_tx :: "bytes list"
  m_dequeu_v_rx :: "bytes list"

record proto = proto_queue +
  m_set_change_parameter :: "nat set"
  m_b_global_pre_postfix_send_condition :: bool
  m_manufacture :: manufacturer
  m_v_uid :: bytes
  m_device_function :: device_function
  m_v_name :: bytes
  m_version :: version
  m_version_structure :: version
  m_b_device_is_mmd1000 :: bool
  m_b_device_is_ibutton_only :: bool
  m_b_device_is_standard :: bool
  m_interface :: byte
  m_dw_buzzer_frequency :: u32
  m_dw_boot_run_time :: u32
  m_language_index :: byte
  m_b_enable_iso :: "nat \<Rightarrow> bool"
  m_direction :: "nat \<Rightarrow> byte"
  m_n_order_of_track :: "nat \<Rightarrow> u32"
  m_n_combination :: "nat \<Rightarrow> u32"
  m_n_msr_max_size :: "nat \<Rightarrow> nat \<Rightarrow> u32"
  m_n_msr_bit_size :: "nat \<Rightarrow> nat \<Rightarrow> u32"
  m_n_msr_data_mask :: "nat \<Rightarrow> nat \<Rightarrow> byte"
  m_b_msr_use_parity :: "nat \<Rightarrow> nat \<Rightarrow> bool"
  m_c_msr_parity_type :: "nat \<Rightarrow> nat \<Rightarrow> byte"
  m_c_msr_stxl :: "nat \<Rightarrow> nat \<Rightarrow> byte"
  m_c_msr_etxl :: "nat \<Rightarrow> nat \<Rightarrow> byte"
  m_b_msr_use_error_correct :: "nat \<Rightarrow> nat \<Rightarrow> bool"
  m_c_msr_ecm_type :: "nat \<Rightarrow> nat \<Rightarrow> byte"
  m_n_msr_add_value :: "nat \<Rightarrow> nat \<Rightarrow> u32"
  m_v_global_prefix :: bytes
  m_v_global_postfix :: bytes
  m_v_private_prefix :: "nat \<Rightarrow> nat \<Rightarrow> bytes"
  m_v_private_postfix :: "nat \<Rightarrow> nat \<Rightarrow> bytes"
  m_v_prefix_ibutton :: bytes
  m_v_postfix_ibutton :: bytes
  m_b_f12_ibutton :: bool
  m_b_zeros_ibutton :: bool
  m_b_zeros_7times_ibutton :: bool
  m_b_addmit_code_stick_ibutton :: bool
  m_c_ibutton_start_code_zero_base_index :: byte
  m_c_ibutton_stop_code_zero_base_index :: byte
  m_b_mmd1100_is_iso_mode :: bool
  m_c_mmd1100_reset_interval :: byte
  m_b_indicate_success_if_any_trace_ok :: bool
  m_b_ignore_1track_if_12_is_equal :: bool
  m_b_ignore_3track_if_12_is_equal :: bool
  m_b_ignore_colron :: bool
  m_c_blank :: "nat \<Rightarrow> byte"
  m_v_ibutton_remove :: bytes
  m_v_prefix_ibutton_remove :: bytes
  m_v_postfix_ibutton_remove :: bytes
  m_v_prefix_uart :: bytes
  m_v_postfix_uart :: bytes
  m_token_format :: token_format

section \<open>Queue accessors\<close>

definition size_tx_transaction :: "'a proto_queue_scheme \<Rightarrow> nat" where
  "size_tx_transaction s = length (m_dequeu_v_tx s)"

definition size_rx_transaction :: "'a proto_queue_scheme \<Rightarrow> nat" where
  "size_rx_transaction s = length (m_dequeu_v_rx s)"

definition get_generated_the_number_of_tx :: "'a proto_queue_scheme \<Rightarrow> nat" where
  "get_generated_the_number_of_tx s = length (m_deque_generated_tx s)"

definition clear_tx_transaction :: "'a proto_queue_scheme \<Rightarrow> 'a proto_queue_scheme" where
  "clear_tx_transaction s = s\<lparr>m_dequeu_v_tx := []\<rparr>"

definition clear_rx_transaction :: "'a proto_queue_scheme \<Rightarrow> 'a proto_queue_scheme" where
  "clear_rx_transaction s = s\<lparr>m_dequeu_v_rx := []\<rparr>"

definition clear_transaction :: "'a proto_queue_scheme \<Rightarrow> 'a proto_queue_scheme" where
  "clear_transaction s =
     s\<lparr>m_dequeu_v_tx := [], m_dequeu_v_rx := [], m_deque_generated_tx := []\<rparr>"

text \<open>The transaction counter wraps at 32 bits.\<close>

definition get_new_scr_transaction_counter ::
  "'a proto_queue_scheme \<Rightarrow> u32 \<times> 'a proto_queue_scheme" where
  "get_new_scr_transaction_counter s =
     (let n_new = m_dw_scr_transaction_counter s + 1
      in (n_new, s\<lparr>m_dw_scr_transaction_counter := n_new\<rparr>))"

definition get_current_scr_transaction_counter :: "'a proto_queue_scheme \<Rightarrow> u32" where
  "get_current_scr_transaction_counter s = m_dw_scr_transaction_counter s"

definition is_changed_parameters :: "proto \<Rightarrow> bool" where
  "is_changed_parameters s = (m_set_change_parameter s \<noteq> {})"

section \<open>reset\<close>

text \<open>
  \<open>reset()\<close> assigns every member, so the state it leaves is a constant; the constructor calls it.
\<close>

definition default_max_size :: "nat \<Rightarrow> u32" where
  "default_max_size i = (if i = 0 then 76 else if i = 1 then 37 + 1 else 104)"

definition reset_state :: proto where
  "reset_state =
   \<lparr>m_dw_scr_transaction_counter = 0, m_deque_generated_tx = [], m_dequeu_v_tx = [],
    m_dequeu_v_rx = [],
    m_set_change_parameter = {},
    m_b_global_pre_postfix_send_condition = True,
    m_manufacture = mf_elpusk,
    m_v_uid = [],
    m_device_function = fun_none,
    m_v_name = [],
    m_version = version_reset,
    m_version_structure = version_reset,
    m_b_device_is_mmd1000 = False,
    m_b_device_is_ibutton_only = False,
    m_b_device_is_standard = False,
    m_interface = system_interface_usb_keyboard,
    m_dw_buzzer_frequency = default_buzzer_frequency,
    m_dw_boot_run_time = 15000,
    m_language_index = language_map_index_english,
    m_b_enable_iso = (\<lambda>i. True),
    m_direction = (\<lambda>i. dir_bidectional),
    m_n_order_of_track = (\<lambda>i. of_nat i),
    m_n_combination = (\<lambda>i. 1),
    m_n_msr_max_size = (\<lambda>i j. default_max_size i),
    m_n_msr_bit_size = (\<lambda>i j. if i = 0 then 7 else 5),
    m_n_msr_data_mask = (\<lambda>i j. if i = 0 then 0xfe else 0xf8),
    m_b_msr_use_parity = (\<lambda>i j. True),
    m_c_msr_parity_type = (\<lambda>i j. 1),
    m_c_msr_stxl = (\<lambda>i j. if i = 0 then 0x8a else 0x58),
    m_c_msr_etxl = (\<lambda>i j. if i = 0 then 0x3e else 0xf8),
    m_b_msr_use_error_correct = (\<lambda>i j. True),
    m_c_msr_ecm_type = (\<lambda>i j. 0),
    m_n_msr_add_value = (\<lambda>i j. if i = 0 then 0x20 else 0x30),
    m_v_global_prefix = [], m_v_global_postfix = [],
    m_v_private_prefix = (\<lambda>i j. []), m_v_private_postfix = (\<lambda>i j. []),
    m_v_prefix_ibutton = [], m_v_postfix_ibutton = [],
    m_b_f12_ibutton = False,
    m_b_zeros_ibutton = True,
    m_b_zeros_7times_ibutton = False,
    m_b_addmit_code_stick_ibutton = False,
    m_c_ibutton_start_code_zero_base_index = 0,
    m_c_ibutton_stop_code_zero_base_index = 15,
    m_b_mmd1100_is_iso_mode = False,
    m_c_mmd1100_reset_interval = 0,
    m_b_indicate_success_if_any_trace_ok = False,
    m_b_ignore_1track_if_12_is_equal = False,
    m_b_ignore_3track_if_12_is_equal = False,
    m_b_ignore_colron = False,
    m_c_blank = (\<lambda>i. 0),
    m_v_ibutton_remove = [],
    m_v_prefix_ibutton_remove = [], m_v_postfix_ibutton_remove = [],
    m_v_prefix_uart = [], m_v_postfix_uart = [],
    m_token_format = ef_decimal\<rparr>"

definition reset :: "proto \<Rightarrow> proto" where
  "reset s = reset_state"

end
