(* ===== verification/ProtoTx.thy ===== *)
theory ProtoTx
  imports ProtoState Codec
begin

text \<open>
  The transmit and receive side of \<open>cprotocol_lpu237\<close>: cutting a queued transaction into 65-byte HID
  output reports (\<open>get_tx_report\<close>, \<open>get_tx_packet\<close>), storing an input report (\<open>set_rx_report\<close>),
  building a request (\<open>_generate_request\<close>, \<open>_generate_config_get\<close>, \<open>_generate_config_set\<close>) and the
  UART bypass requests. The lemmas show that the reports carry exactly the transaction, and what a
  request appends to the two queues.
\<close>

section \<open>Output reports\<close>

datatype tx_packet_result =
  gtp_result_no_more_transaction
| gtp_result_no_more_packet_in_this_transaction
| gtp_result_more_packet_in_this_transaction

definition the_size_of_out_report_except_id :: nat where "the_size_of_out_report_except_id = 64"
definition the_size_of_host_packet_header :: nat where "the_size_of_host_packet_header = 3"

text \<open>
  The function-static \<open>n_remainder\<close> and \<open>n_offset\<close> of \<open>get_tx_report\<close>. They belong to the function,
  not to the object: one cursor serves every \<open>cprotocol_lpu237\<close> of the process.
\<close>

record tx_cursor =
  n_remainder :: nat
  n_offset :: nat

text \<open>A report: the id 0 and 64 bytes, the data first and zeros behind.\<close>

definition report_of :: "bytes \<Rightarrow> bytes" where
  "report_of d = 0 # d @ replicate (the_size_of_out_report_except_id - length d) 0"

definition get_tx_report ::
  "bool \<Rightarrow> tx_cursor \<Rightarrow> 'a proto_queue_scheme
     \<Rightarrow> (tx_packet_result \<times> bytes \<times> tx_cursor \<times> 'a proto_queue_scheme) option" where
  "get_tx_report b_first_packet c s =
    (if b_first_packet then
       (case m_dequeu_v_tx s of
          [] \<Rightarrow> Some (gtp_result_no_more_transaction, [], \<lparr>n_remainder = 0, n_offset = 0\<rparr>, s)
        | v # vs \<Rightarrow>
            if v = [] then
              Some (gtp_result_no_more_packet_in_this_transaction, [],
                    \<lparr>n_remainder = 0, n_offset = 0\<rparr>, s\<lparr>m_dequeu_v_tx := vs\<rparr>)
            else if length v > 64 then
              Some (if length v - 64 = 0 then gtp_result_no_more_packet_in_this_transaction
                    else gtp_result_more_packet_in_this_transaction,
                    report_of (take 64 v), \<lparr>n_remainder = length v - 64, n_offset = 64\<rparr>, s)
            else
              Some (gtp_result_no_more_packet_in_this_transaction, report_of v,
                    \<lparr>n_remainder = 0, n_offset = 0\<rparr>, s\<lparr>m_dequeu_v_tx := vs\<rparr>))
     else if n_remainder c = 0 then
       Some (gtp_result_no_more_packet_in_this_transaction, [], c, s)
     else if n_remainder c \<ge> 65 then
       (case m_dequeu_v_tx s of
          [] \<Rightarrow> None
        | v # vs \<Rightarrow>
            if n_offset c + 64 > length v then None
            else
              Some (if n_remainder c - 64 = 0 then gtp_result_no_more_packet_in_this_transaction
                    else gtp_result_more_packet_in_this_transaction,
                    report_of (subrange v (n_offset c) 64),
                    \<lparr>n_remainder = n_remainder c - 64, n_offset = n_offset c + 64\<rparr>, s))
     else
       (case m_dequeu_v_tx s of
          [] \<Rightarrow> None
        | v # vs \<Rightarrow>
            if n_offset c > length v \<or> length v - n_offset c > 64 then None
            else
              Some (gtp_result_no_more_packet_in_this_transaction,
                    report_of (drop (n_offset c) v),
                    \<lparr>n_remainder = 0, n_offset = 0\<rparr>, s\<lparr>m_dequeu_v_tx := vs\<rparr>)))"

text \<open>What the loop of \<open>get_tx_packet\<close> still has to send; it decreases with every report.\<close>

definition tx_left :: "bool \<Rightarrow> tx_cursor \<Rightarrow> 'a proto_queue_scheme \<Rightarrow> nat" where
  "tx_left b_first c s =
     (if b_first then (case m_dequeu_v_tx s of [] \<Rightarrow> 0 | v # vs \<Rightarrow> length v) else n_remainder c)"

lemma get_tx_report_decreases:
  "get_tx_report b c s = Some (gtp_result_more_packet_in_this_transaction, v, c', s') \<Longrightarrow>
     tx_left False c' s' < tx_left b c s"
  by (auto simp: get_tx_report_def tx_left_def split: if_splits list.splits)

text \<open>
  The loop of \<open>get_tx_packet\<close>. A transaction that has no more reports ends it; a report is
  appended to \<open>v_out_packet\<close>.
\<close>

function get_tx_packet_loop ::
  "bool \<Rightarrow> tx_cursor \<Rightarrow> 'a proto_queue_scheme \<Rightarrow> bytes
     \<Rightarrow> (tx_packet_result \<times> bytes \<times> tx_cursor \<times> 'a proto_queue_scheme) option" where
  "get_tx_packet_loop b_first c s v_out_packet =
     (case get_tx_report b_first c s of
        None \<Rightarrow> None
      | Some (result, v_report, c', s') \<Rightarrow>
          if result = gtp_result_more_packet_in_this_transaction
          then get_tx_packet_loop False c' s' (v_out_packet @ v_report)
          else if result = gtp_result_no_more_transaction
          then Some (result, v_out_packet, c', s')
          else Some (result, v_out_packet @ v_report, c', s'))"
  by pat_completeness auto
termination
  by (relation "measure (\<lambda>(b, c, s, v). tx_left b c s)") (auto intro: get_tx_report_decreases)

declare get_tx_packet_loop.simps [simp del]

definition get_tx_packet ::
  "tx_cursor \<Rightarrow> 'a proto_queue_scheme
     \<Rightarrow> (tx_packet_result \<times> bytes \<times> tx_cursor \<times> 'a proto_queue_scheme) option" where
  "get_tx_packet c s = get_tx_packet_loop True c s []"

text \<open>\<open>get_tx_transaction\<close> takes the front transaction whole and returns how many are left.\<close>

definition get_tx_transaction ::
  "'a proto_queue_scheme \<Rightarrow> nat \<times> bytes \<times> 'a proto_queue_scheme" where
  "get_tx_transaction s =
     (case m_dequeu_v_tx s of
        [] \<Rightarrow> (0, [], s)
      | v # vs \<Rightarrow> (length vs, v, s\<lparr>m_dequeu_v_tx := vs\<rparr>))"

definition set_rx_transaction ::
  "bytes \<Rightarrow> 'a proto_queue_scheme \<Rightarrow> bool \<times> 'a proto_queue_scheme" where
  "set_rx_transaction v_in_packet s =
     (if v_in_packet = [] then (False, s)
      else (True, s\<lparr>m_dequeu_v_rx := m_dequeu_v_rx s @ [v_in_packet]\<rparr>))"

section \<open>Input reports\<close>

datatype rx_packet_result =
  grp_result_unknown_packet
| grp_result_complete_packet_for_this_transaction

definition set_rx_report ::
  "bytes \<Rightarrow> bool \<Rightarrow> 'a proto_queue_scheme \<Rightarrow> rx_packet_result \<times> 'a proto_queue_scheme" where
  "set_rx_report v_in_report b_first_packet s =
     (if length v_in_report \<noteq> rx_size + 1 then (grp_result_unknown_packet, s)
      else if \<not> b_first_packet then (grp_result_unknown_packet, s)
      else let v_rx = tl v_in_report in
        if v_rx ! 0 \<noteq> msr_response_prefix then (grp_result_unknown_packet, s)
        else (grp_result_complete_packet_for_this_transaction,
              s\<lparr>m_dequeu_v_rx := m_dequeu_v_rx s @ [v_rx]\<rparr>))"

definition set_rx_packet ::
  "bytes \<Rightarrow> 'a proto_queue_scheme \<Rightarrow> rx_packet_result \<times> 'a proto_queue_scheme" where
  "set_rx_packet v_in_packet s = set_rx_report v_in_packet True s"

section \<open>Requests\<close>

text \<open>
  \<open>_generate_request(cmd, c_sub, dw_data, s_data)\<close>. \<open>s_data\<close> is \<open>None\<close> for a null pointer;
  a buffer shorter than \<open>dw_data\<close> would be read beyond its end.
\<close>

definition generate_request ::
  "byte \<Rightarrow> byte \<Rightarrow> nat \<Rightarrow> bytes option \<Rightarrow> 'a proto_queue_scheme op" where
  "generate_request cmd c_sub dw_data s_data s =
     (case s_data of
        None \<Rightarrow>
          if dw_data > 0 then Some (False, s)
          else Some (True, s\<lparr>m_dequeu_v_tx := m_dequeu_v_tx s @ [[cmd, c_sub, of_nat dw_data]]\<rparr>)
      | Some p \<Rightarrow>
          if dw_data > length p then None
          else Some (True, s\<lparr>m_dequeu_v_tx :=
                 m_dequeu_v_tx s @ [[cmd, c_sub, of_nat dw_data] @ take dw_data p]\<rparr>))"

definition push_generated :: "generated_tx \<Rightarrow> 'a proto_queue_scheme \<Rightarrow> 'a proto_queue_scheme" where
  "push_generated gt s = s\<lparr>m_deque_generated_tx := m_deque_generated_tx s @ [gt]\<rparr>"

text \<open>\<open>if (f()) { m_deque_generated_tx.push_back(gt); return true; } return false;\<close>\<close>

definition then_push :: "'a proto_queue_scheme op \<Rightarrow> generated_tx \<Rightarrow> 'a proto_queue_scheme op" where
  "then_push f gt s =
     (case f s of
        None \<Rightarrow> None
      | Some (b, s') \<Rightarrow> if b then Some (True, push_generated gt s') else Some (False, s'))"

definition generate_config_get :: "region \<Rightarrow> 'a proto_queue_scheme op" where
  "generate_config_get r =
     (let v_data = le32 (of_nat (fst r)) @ le32 (of_nat (snd r))
      in generate_request cmd_config request_config_get (length v_data) (Some v_data))"

text \<open>\<open>_generate_config_set\<close> copies \<open>dw_size\<close> bytes from \<open>ps_data\<close>.\<close>

definition generate_config_set :: "region \<Rightarrow> bytes \<Rightarrow> 'a proto_queue_scheme op" where
  "generate_config_set r ps_data s =
     (if length ps_data < snd r then None
      else
        let v_data = le32 (of_nat (fst r)) @ le32 (of_nat (snd r)) @ take (snd r) ps_data
        in then_push
             (generate_request cmd_config request_config_set (length v_data) (Some v_data))
             gt_set_config s)"

lemmas request_defs [op_defs] =
  generate_request_def push_generated_def then_push_def generate_config_get_def
  generate_config_set_def

section \<open>What a request appends\<close>

text \<open>
  A request \<open>r\<close> with the kind \<open>gt\<close> that says how its response is to be read. \<open>push_all\<close> appends
  requests to both queues at once: a generator that leaves the state \<open>push_all rs s\<close> has kept the
  two queues in step.
\<close>

type_synonym request = "generated_tx \<times> bytes"

definition push_all :: "request list \<Rightarrow> 'a proto_queue_scheme \<Rightarrow> 'a proto_queue_scheme" where
  "push_all rs s =
     s\<lparr>m_dequeu_v_tx := m_dequeu_v_tx s @ map snd rs,
       m_deque_generated_tx := m_deque_generated_tx s @ map fst rs\<rparr>"

definition plain_request :: "byte \<Rightarrow> byte \<Rightarrow> bytes \<Rightarrow> bytes" where
  "plain_request cmd c_sub d = [cmd, c_sub, of_nat (length d)] @ d"

definition get_request :: "region \<Rightarrow> bytes" where
  "get_request r =
     plain_request cmd_config request_config_get (le32 (of_nat (fst r)) @ le32 (of_nat (snd r)))"

definition set_request :: "region \<Rightarrow> bytes \<Rightarrow> bytes" where
  "set_request r d =
     plain_request cmd_config request_config_set
       (le32 (of_nat (fst r)) @ le32 (of_nat (snd r)) @ take (snd r) d)"

lemma push_all_Nil [simp]: "push_all [] s = s"
  by (simp add: push_all_def)

lemma push_all_push_all [simp]: "push_all ys (push_all xs s) = push_all (xs @ ys) s"
  by (simp add: push_all_def)

lemma push_all_queues:
  "m_dequeu_v_tx (push_all rs s) = m_dequeu_v_tx s @ map snd rs"
  "m_deque_generated_tx (push_all rs s) = m_deque_generated_tx s @ map fst rs"
  "m_dequeu_v_rx (push_all rs s) = m_dequeu_v_rx s"
  "m_dw_scr_transaction_counter (push_all rs s) = m_dw_scr_transaction_counter s"
  by (simp_all add: push_all_def)

lemma then_push_request:
  "then_push (generate_request cmd c_sub (length d) (Some d)) gt s =
     Some (True, push_all [(gt, plain_request cmd c_sub d)] s)"
  by (simp add: op_defs push_all_def plain_request_def)

lemma then_push_bare_request:
  "then_push (generate_request cmd c_sub 0 None) gt s =
     Some (True, push_all [(gt, plain_request cmd c_sub [])] s)"
  by (simp add: op_defs push_all_def plain_request_def)

lemma then_push_config_get:
  "then_push (generate_config_get r) gt s = Some (True, push_all [(gt, get_request r)] s)"
  by (simp add: op_defs push_all_def plain_request_def get_request_def)

lemma config_set_run:
  "snd r \<le> length d \<Longrightarrow>
     generate_config_set r d s = Some (True, push_all [(gt_set_config, set_request r d)] s)"
  by (simp add: op_defs push_all_def plain_request_def set_request_def)

section \<open>The contract of a request generator\<close>

text \<open>
  Whenever \<open>ok\<close> holds, the operation succeeds and does nothing but append the requests \<open>reqs\<close> to
  the queues; what it appends does not depend on what is queued already. Every \<open>generate_*\<close> and
  \<open>_generate_*\<close> function of the class is shown to keep this contract.
\<close>

locale request_generator =
  fixes f :: "'a proto_queue_scheme op"
    and ok :: "'a proto_queue_scheme \<Rightarrow> bool"
    and reqs :: "'a proto_queue_scheme \<Rightarrow> request list"
  assumes run: "ok s \<Longrightarrow> f s = Some (True, push_all (reqs s) s)"
    and ok_stable: "ok (push_all rs s) = ok s"
    and reqs_stable: "reqs (push_all rs s) = reqs s"
begin

lemma never_fails: "ok s \<Longrightarrow> \<exists>s'. f s = Some (True, s')"
  by (simp add: run)

lemma queues_in_step:
  assumes "ok s" "length (m_dequeu_v_tx s) = length (m_deque_generated_tx s)"
    and "f s = Some (b, s')"
  shows "length (m_dequeu_v_tx s') = length (m_deque_generated_tx s')"
  using assms by (auto simp: run push_all_queues)

lemma keeps_rx: "ok s \<Longrightarrow> f s = Some (b, s') \<Longrightarrow> m_dequeu_v_rx s' = m_dequeu_v_rx s"
  by (auto simp: run push_all_queues)

text \<open>Repeating a generator repeats its requests.\<close>

lemma run_twice: "ok s \<Longrightarrow> run_all [f, f] s = Some (True, push_all (reqs s @ reqs s) s)"
  by (simp add: run ok_stable reqs_stable)

end

lemma request_generator_Nil:
  "(\<And>rs s. ok (push_all rs s) = ok s) \<Longrightarrow> request_generator (run_all []) ok (\<lambda>s. [])"
  by unfold_locales simp_all

lemma request_generator_Cons:
  assumes "request_generator f ok r" "request_generator (run_all fs) ok q"
  shows "request_generator (run_all (f # fs)) ok (\<lambda>s. r s @ q s)"
  using assms
  by (auto intro!: request_generator.intro
      simp: request_generator.run [OF assms(1)] request_generator.run [OF assms(2)]
        request_generator.ok_stable [OF assms(1)] request_generator.reqs_stable [OF assms(1)]
        request_generator.reqs_stable [OF assms(2)])

lemma request_generator_when:
  assumes "request_generator f (\<lambda>s. c s \<and> ok s) r" "\<And>rs s. c (push_all rs s) = c s"
    and "\<And>rs s. ok (push_all rs s) = ok s"
  shows "request_generator (when_op c f) ok (\<lambda>s. if c s then r s else [])"
  using assms(2,3)
  by (auto intro!: request_generator.intro
      simp: when_op_def request_generator.run [OF assms(1)]
        request_generator.reqs_stable [OF assms(1)])

lemma request_generator_weaken:
  assumes "request_generator f ok r" "\<And>s. ok' s \<Longrightarrow> ok s" "\<And>rs s. ok' (push_all rs s) = ok' s"
  shows "request_generator f ok' r"
  using assms(2,3)
  by (auto intro!: request_generator.intro
      simp: request_generator.run [OF assms(1)] request_generator.reqs_stable [OF assms(1)])

text \<open>A list of generators, each with the list of its requests.\<close>

lemma request_generator_list:
  assumes "list_all2 (\<lambda>f r. request_generator f ok r) fs rs"
    and "\<And>rs s. ok (push_all rs s) = ok s"
  shows "request_generator (run_all fs) ok (\<lambda>s. concat (map (\<lambda>r. r s) rs))"
  using assms(1)
proof (induction rule: list_all2_induct)
  case Nil
  then show ?case
    using request_generator_Nil [of ok] assms(2) by (simp del: run_all.simps)
next
  case (Cons f fs r rs)
  then show ?case
    using request_generator_Cons [of f ok r fs "\<lambda>s. concat (map (\<lambda>r. r s) rs)"]
    by (simp del: run_all.simps)
qed

lemma request_generator_append:
  assumes "request_generator (run_all fs) ok r" "request_generator (run_all gs) ok q"
  shows "request_generator (run_all (fs @ gs)) ok (\<lambda>s. r s @ q s)"
  using assms
  by (auto intro!: request_generator.intro
      simp: run_all_append request_generator.run [OF assms(1)]
        request_generator.run [OF assms(2)] request_generator.ok_stable [OF assms(1)]
        request_generator.reqs_stable [OF assms(1)] request_generator.reqs_stable [OF assms(2)])

lemma request_generator_concat:
  assumes "\<And>rs s. ok (push_all rs s) = ok s"
    and "\<And>x. x \<in> set xs \<Longrightarrow> request_generator (run_all (F x)) ok (R x)"
  shows "request_generator (run_all (concat (map F xs))) ok (\<lambda>s. concat (map (\<lambda>x. R x s) xs))"
  using assms(2)
proof (induction xs)
  case Nil
  then show ?case
    using request_generator_Nil [of ok] assms(1) by (simp del: run_all.simps)
next
  case (Cons x xs)
  then show ?case
    using request_generator_append [of "F x" ok "R x" "concat (map F xs)"
        "\<lambda>s. concat (map (\<lambda>x. R x s) xs)"]
    by (simp del: run_all.simps)
qed

lemma request_generator_if:
  assumes "\<And>rs s. ok (push_all rs s) = ok s"
    and "c \<Longrightarrow> request_generator (run_all fs) ok r"
  shows "request_generator (run_all (if c then fs else [])) ok (\<lambda>s. if c then r s else [])"
  using assms request_generator_Nil [of ok] by (simp del: run_all.simps)

lemma request_generator_if_else:
  assumes "c \<Longrightarrow> request_generator (run_all fs) ok r"
    and "\<not> c \<Longrightarrow> request_generator (run_all gs) ok q"
  shows "request_generator (run_all (if c then fs else gs)) ok (\<lambda>s. if c then r s else q s)"
  using assms by (simp del: run_all.simps)

lemma run_all_single: "run_all [f] = f"
  by (rule ext) (simp split: option.splits)

section \<open>Commands without data\<close>

definition generate_start_ibutton :: "'a proto_queue_scheme op" where
  "generate_start_ibutton =
     then_push (generate_request cmd_start_ibutton 0 0 None) gt_start_ibutton"

text \<open>The source sends \<open>cmd_start_ibutton\<close> here as well.\<close>

definition generate_stop_ibutton :: "'a proto_queue_scheme op" where
  "generate_stop_ibutton =
     then_push (generate_request cmd_start_ibutton 0 0 None) gt_stop_ibutton"

definition generate_enter_opos_mode :: "'a proto_queue_scheme op" where
  "generate_enter_opos_mode =
     then_push (generate_request cmd_enter_opos 0 0 None) gt_enter_opos"

definition generate_leave_opos_mode :: "'a proto_queue_scheme op" where
  "generate_leave_opos_mode =
     then_push (generate_request cmd_leave_opos 0 0 None) gt_leave_opos"

definition generate_enter_config_mode :: "'a proto_queue_scheme op" where
  "generate_enter_config_mode =
     then_push (generate_request cmd_enter_cs 0 0 None) gt_enter_config"

definition generate_leave_config_mode :: "'a proto_queue_scheme op" where
  "generate_leave_config_mode =
     then_push (generate_request cmd_leave_cs 0 0 None) gt_leave_config"

definition generate_apply_config_mode :: "'a proto_queue_scheme op" where
  "generate_apply_config_mode = then_push (generate_request cmd_apply 0 0 None) gt_apply"

definition generate_run_boot_loader :: "'a proto_queue_scheme op" where
  "generate_run_boot_loader =
     then_push (generate_request cmd_goto_boot_loader 0 0 None) gt_goto_boot"

lemmas bare_generators =
  generate_start_ibutton_def generate_stop_ibutton_def generate_enter_opos_mode_def
  generate_leave_opos_mode_def generate_enter_config_mode_def generate_leave_config_mode_def
  generate_apply_config_mode_def generate_run_boot_loader_def

lemma bare_request_generator [emits_intros]:
  "request_generator (then_push (generate_request cmd c_sub 0 None) gt) (\<lambda>_. True)
     (\<lambda>_. [(gt, plain_request cmd c_sub [])])"
  by unfold_locales (simp_all add: then_push_bare_request)

lemma config_get_generator [emits_intros]:
  "request_generator (then_push (generate_config_get r) gt) (\<lambda>_. True)
     (\<lambda>_. [(gt, get_request r)])"
  by unfold_locales (simp_all add: then_push_config_get)

interpretation enter_config: request_generator generate_enter_config_mode "\<lambda>_. True"
  "\<lambda>_. [(gt_enter_config, plain_request cmd_enter_cs 0 [])]"
  unfolding bare_generators by (rule bare_request_generator)

interpretation leave_config: request_generator generate_leave_config_mode "\<lambda>_. True"
  "\<lambda>_. [(gt_leave_config, plain_request cmd_leave_cs 0 [])]"
  unfolding bare_generators by (rule bare_request_generator)

interpretation apply_config: request_generator generate_apply_config_mode "\<lambda>_. True"
  "\<lambda>_. [(gt_apply, plain_request cmd_apply 0 [])]"
  unfolding bare_generators by (rule bare_request_generator)

section \<open>What the reports carry\<close>

lemma length_report_of: "length d \<le> 64 \<Longrightarrow> length (report_of d) = 65"
  by (simp add: report_of_def the_size_of_out_report_except_id_def)

lemma get_tx_packet_loop_rest:
  assumes "m_dequeu_v_tx s = v # vs" "n_offset c \<le> length v"
    and "n_remainder c = length v - n_offset c" "n_remainder c > 0"
  shows "get_tx_packet_loop False c s acc =
     Some (gtp_result_no_more_packet_in_this_transaction,
           acc @ concat (map report_of (chunks 64 (drop (n_offset c) v))),
           \<lparr>n_remainder = 0, n_offset = 0\<rparr>, s\<lparr>m_dequeu_v_tx := vs\<rparr>)"
  using assms
proof (induction "n_remainder c" arbitrary: c acc rule: less_induct)
  case less
  show ?case
  proof (cases "n_remainder c \<ge> 65")
    case True
    then show ?thesis
      using less.prems
        less.hyps [of "\<lparr>n_remainder = n_remainder c - 64, n_offset = n_offset c + 64\<rparr>"
          "acc @ report_of (subrange v (n_offset c) 64)"]
      by (subst get_tx_packet_loop.simps)
        (auto simp: get_tx_report_def chunks_step [of 64 "drop (n_offset c) v"] subrange_def
          add.commute)
  next
    case False
    then show ?thesis
      using less.prems
      by (subst get_tx_packet_loop.simps)
        (auto simp: get_tx_report_def chunks_step [of 64 "drop (n_offset c) v"])
  qed
qed

lemma get_tx_packet_reports:
  assumes "m_dequeu_v_tx s = v # vs" "v \<noteq> []"
  shows "get_tx_packet c s =
     Some (gtp_result_no_more_packet_in_this_transaction, concat (map report_of (chunks 64 v)),
           \<lparr>n_remainder = 0, n_offset = 0\<rparr>, s\<lparr>m_dequeu_v_tx := vs\<rparr>)"
  using assms
  by (auto simp: get_tx_packet_def get_tx_packet_loop.simps [of True] get_tx_report_def
      chunks_step [of 64 v] get_tx_packet_loop_rest)

text \<open>The device's side: cut into reports of 65 bytes and drop the report id of each.\<close>

definition strip_reports :: "bytes \<Rightarrow> bytes" where
  "strip_reports out = concat (map tl (chunks 65 out))"

lemma chunks_reports:
  "\<forall>c\<in>set cs. length c \<le> 64 \<Longrightarrow> chunks 65 (concat (map report_of cs)) = map report_of cs"
  by (rule chunks_concat_same) (auto simp: length_report_of)

lemma take_strip_chunks:
  "take (length v) (concat (map (tl \<circ> report_of) (chunks 64 v))) = v"
proof -
  have "0 < (64 :: nat)" by simp
  then show ?thesis
  proof (induction v rule: chunks_cut_induct)
    case (Cut v)
    then show ?case
      by (cases "64 \<le> length v")
        (simp_all add: chunks_step [of 64 v] report_of_def the_size_of_out_report_except_id_def)
  qed simp
qed

section \<open>Properties\<close>

text \<open>C1. \<open>get_tx_packet\<close> sends a queued transaction completely: whatever the cursor was, it
  takes the transaction from the queue and returns one report of 65 bytes with id 0 for each 64
  bytes of it, and the device that drops the ids gets the bytes of the transaction followed by
  padding.\<close>

theorem get_tx_packet_carries_transaction:
  assumes "m_dequeu_v_tx s = v # vs" "v \<noteq> []"
  shows "\<exists>out. get_tx_packet c s =
       Some (gtp_result_no_more_packet_in_this_transaction, out,
             \<lparr>n_remainder = 0, n_offset = 0\<rparr>, s\<lparr>m_dequeu_v_tx := vs\<rparr>)
     \<and> length out = 65 * ((length v + 63) div 64)
     \<and> (\<forall>r\<in>set (chunks 65 out). length r = 65 \<and> hd r = 0)
     \<and> take (length v) (strip_reports out) = v"
proof (intro exI conjI)
  let ?cs = "chunks 64 v"
  have le: "\<forall>c\<in>set ?cs. length c \<le> 64" by (simp add: length_chunks_le)
  have reports: "chunks 65 (concat (map report_of ?cs)) = map report_of ?cs"
    by (rule chunks_reports [OF le])
  show "get_tx_packet c s =
       Some (gtp_result_no_more_packet_in_this_transaction, concat (map report_of ?cs),
             \<lparr>n_remainder = 0, n_offset = 0\<rparr>, s\<lparr>m_dequeu_v_tx := vs\<rparr>)"
    using assms by (rule get_tx_packet_reports)
  have "length (concat (map report_of cs)) = 65 * length cs" if "\<forall>c\<in>set cs. length c \<le> 64" for cs
    using that by (induction cs) (simp_all add: length_report_of)
  from this [OF le] show "length (concat (map report_of ?cs)) = 65 * ((length v + 63) div 64)"
    by (simp add: length_chunks)
  show "\<forall>r\<in>set (chunks 65 (concat (map report_of ?cs))). length r = 65 \<and> hd r = 0"
    using le by (auto simp: reports length_report_of) (simp add: report_of_def)
  show "take (length v) (strip_reports (concat (map report_of ?cs))) = v"
    using take_strip_chunks [of v] by (simp add: strip_reports_def reports comp_def)
qed

definition queue_example :: "bytes list \<Rightarrow> proto_queue" where
  "queue_example tx =
     \<lparr>m_dw_scr_transaction_counter = 0, m_deque_generated_tx = [], m_dequeu_v_tx = tx,
      m_dequeu_v_rx = []\<rparr>"

theorem get_tx_packet_carries_transaction_witness:
  "\<exists>out. get_tx_packet \<lparr>n_remainder = 7, n_offset = 3\<rparr> (queue_example [[0x41, 1], [0x42]]) =
       Some (gtp_result_no_more_packet_in_this_transaction, out,
             \<lparr>n_remainder = 0, n_offset = 0\<rparr>,
             (queue_example [[0x41, 1], [0x42]])\<lparr>m_dequeu_v_tx := [[0x42]]\<rparr>)
     \<and> length out = 65 * ((length [0x41 :: byte, 1] + 63) div 64)
     \<and> (\<forall>r\<in>set (chunks 65 out). length r = 65 \<and> hd r = 0)
     \<and> take (length [0x41 :: byte, 1]) (strip_reports out) = [0x41, 1]"
  by (rule get_tx_packet_carries_transaction) (simp_all add: queue_example_def)

text \<open>The position inside a transaction belongs to \<open>get_tx_report\<close>, not to the object: when
  another object starts a longer transaction between two reports of a transaction of 65 to 127
  bytes, the next report of the first object is read beyond the end of its transaction.\<close>

theorem get_tx_report_cursor_is_shared:
  assumes "m_dequeu_v_tx a = [va]" "64 < length va" "length va < 128"
    and "m_dequeu_v_tx b = [vb]" "128 < length vb"
  shows "\<exists>r1 c1 a1 r2 c2 b1.
       get_tx_report True c a = Some (gtp_result_more_packet_in_this_transaction, r1, c1, a1)
     \<and> get_tx_report True c1 b = Some (gtp_result_more_packet_in_this_transaction, r2, c2, b1)
     \<and> get_tx_report False c2 a1 = None
     \<and> (\<exists>r. get_tx_report False c1 a1 =
             Some (gtp_result_no_more_packet_in_this_transaction, r,
                   \<lparr>n_remainder = 0, n_offset = 0\<rparr>, a\<lparr>m_dequeu_v_tx := []\<rparr>))"
proof -
  have "va \<noteq> []" "vb \<noteq> []" using assms by auto
  then show ?thesis using assms by (simp add: get_tx_report_def) arith
qed

theorem get_tx_report_cursor_is_shared_witness:
  "\<exists>r1 c1 a1 r2 c2 b1.
       get_tx_report True \<lparr>n_remainder = 0, n_offset = 0\<rparr> (queue_example [replicate 100 1]) =
         Some (gtp_result_more_packet_in_this_transaction, r1, c1, a1)
     \<and> get_tx_report True c1 (queue_example [replicate 200 2]) =
         Some (gtp_result_more_packet_in_this_transaction, r2, c2, b1)
     \<and> get_tx_report False c2 a1 = None
     \<and> (\<exists>r. get_tx_report False c1 a1 =
             Some (gtp_result_no_more_packet_in_this_transaction, r,
                   \<lparr>n_remainder = 0, n_offset = 0\<rparr>,
                   (queue_example [replicate 100 1])\<lparr>m_dequeu_v_tx := []\<rparr>))"
  by (rule get_tx_report_cursor_is_shared
        [where va = "replicate 100 1" and vb = "replicate 200 2"])
    (simp_all add: queue_example_def)

text \<open>An input report is accepted exactly when it is the first packet, has the full size and
  carries the response prefix; it is then queued without its id behind the responses that are
  already there, and otherwise nothing changes.\<close>

theorem set_rx_report_accepts:
  "set_rx_report v b s =
     (if b \<and> length v = 221 \<and> v ! 1 = msr_response_prefix
      then (grp_result_complete_packet_for_this_transaction,
            s\<lparr>m_dequeu_v_rx := m_dequeu_v_rx s @ [drop 1 v]\<rparr>)
      else (grp_result_unknown_packet, s))"
proof (cases v)
  case Nil
  then show ?thesis by (simp add: set_rx_report_def rx_size_def)
next
  case (Cons x xs)
  then show ?thesis by (cases b) (simp_all add: set_rx_report_def rx_size_def Let_def)
qed

text \<open>\<open>generate_stop_ibutton\<close> queues the command of \<open>generate_start_ibutton\<close>: the two differ only in
  the kind that is recorded for the response, and the stop command is never sent.\<close>

theorem generate_stop_ibutton_sends_start:
  "generate_stop_ibutton s = Some (True, push_all [(gt_stop_ibutton, [cmd_start_ibutton, 0, 0])] s)
   \<and> generate_start_ibutton s =
       Some (True, push_all [(gt_start_ibutton, [cmd_start_ibutton, 0, 0])] s)
   \<and> cmd_start_ibutton \<noteq> cmd_stop_ibutton"
  by (simp add: generate_stop_ibutton_def generate_start_ibutton_def then_push_bare_request
      plain_request_def cmd_codes)

end
