(* ===== verification/ProtoBypass.thy ===== *)
theory ProtoBypass
  imports ProtoTx
begin

text \<open>
  \<open>generate_bypass_uart\<close>: data for the device's serial port is cut into requests of at most 64
  bytes that carry the transaction counter, the first one also the total size, and a chain number
  in the sub-command. The lemmas show that the pieces put together are the data, and that every
  request fits an output report.
\<close>

definition bypass_buffer_size :: nat where
  "bypass_buffer_size = the_size_of_out_report_except_id - the_size_of_host_packet_header"

lemma bypass_buffer_size_eq: "bypass_buffer_size = 61"
  by (simp add: bypass_buffer_size_def the_size_of_out_report_except_id_def
      the_size_of_host_packet_header_def)

text \<open>
  The \<open>do .. while (n_remainder > 0)\<close> loop. The buffer starts with the counter and, in the first
  request, the total size. \<open>n_data\<close> is computed at the head of the iteration that sends it; the
  source computes it at the end of the iteration before.
\<close>

function bypass_uart_loop ::
  "bytes \<Rightarrow> u32 \<Rightarrow> bool \<Rightarrow> byte \<Rightarrow> nat \<Rightarrow> nat \<Rightarrow> 'a proto_queue_scheme op" where
  "bypass_uart_loop v_tx dw_scr_transaction_counter b_first c_chain dw_offset dw_remainder s =
     (let hdr = (if b_first
                 then le32 dw_scr_transaction_counter @ le32 (of_nat (length v_tx))
                 else le32 dw_scr_transaction_counter);
          n_data = min (bypass_buffer_size - length hdr) dw_remainder;
          d = hdr @ subrange v_tx dw_offset n_data;
          buf = d @ replicate (bypass_buffer_size - length d) 0
      in case generate_request cmd_uart_bypass c_chain (n_data + length hdr) (Some buf) s of
           None \<Rightarrow> None
         | Some (b_result, s') \<Rightarrow>
             if \<not> b_result then Some (False, s')
             else if dw_remainder - n_data > 0
             then bypass_uart_loop v_tx dw_scr_transaction_counter False (c_chain + 1)
                    (dw_offset + n_data) (dw_remainder - n_data)
                    (push_generated gt_bypass_uart s')
             else Some (True, push_generated gt_bypass_uart s'))"
  by pat_completeness auto
termination
  by (relation "measure (\<lambda>(v, t, b, c, off, rem, s). rem)")
    (auto simp: bypass_buffer_size_eq split: if_splits)

declare bypass_uart_loop.simps [simp del]

text \<open>\<open>&v_tx[0]\<close> of an empty vector is outside the vector.\<close>

definition generate_bypass_uart :: "bytes \<Rightarrow> 'a proto_queue_scheme op" where
  "generate_bypass_uart v_tx s =
     (let (dw_scr_transaction_counter, s1) = get_new_scr_transaction_counter s;
          dw_total = of_nat (length v_tx) :: u32
      in if v_tx = [] then None
         else
           case bypass_uart_loop v_tx dw_scr_transaction_counter True 0 0 (unat dw_total) s1 of
             None \<Rightarrow> None
           | Some (b_result, s2) \<Rightarrow>
               if b_result then Some (True, s2) else Some (False, clear_transaction s2))"

section \<open>The requests\<close>

text \<open>The request that carries chunk \<open>d\<close>, and the requests for a list of chunks.\<close>

definition bypass_request :: "byte \<Rightarrow> bytes \<Rightarrow> bytes \<Rightarrow> request" where
  "bypass_request c_chain hdr d =
     (gt_bypass_uart, plain_request cmd_uart_bypass c_chain (hdr @ d))"

fun bypass_requests :: "byte \<Rightarrow> bytes \<Rightarrow> bytes list \<Rightarrow> request list" where
  "bypass_requests c_chain hdr [] = []"
| "bypass_requests c_chain hdr (d # ds) =
     bypass_request c_chain hdr d # bypass_requests (c_chain + 1) hdr ds"

definition bypass_header :: "u32 \<Rightarrow> bytes \<Rightarrow> bool \<Rightarrow> bytes" where
  "bypass_header t v_tx b_first =
     (if b_first then le32 t @ le32 (of_nat (length v_tx)) else le32 t)"

lemma length_bypass_header [simp]: "length (bypass_header t v b) = (if b then 8 else 4)"
  by (simp add: bypass_header_def)

lemma bypass_step:
  assumes "n_data = min (61 - length (bypass_header t v_tx b)) dw_remainder"
    and "dw_offset + dw_remainder \<le> length v_tx"
  shows "bypass_uart_loop v_tx t b c_chain dw_offset dw_remainder s =
       (let s' = push_all [bypass_request c_chain (bypass_header t v_tx b)
                             (subrange v_tx dw_offset n_data)] s
        in if dw_remainder - n_data > 0
           then bypass_uart_loop v_tx t False (c_chain + 1) (dw_offset + n_data)
                  (dw_remainder - n_data) s'
           else Some (True, s'))"
proof -
  have "length (subrange v_tx dw_offset n_data) = n_data"
    using assms by (simp add: length_subrange)
  then show ?thesis
    using assms
    by (subst bypass_uart_loop.simps)
      (simp add: Let_def generate_request_def push_generated_def push_all_def
        bypass_request_def plain_request_def bypass_header_def bypass_buffer_size_eq
        add.commute)
qed

lemma bypass_rest:
  "dw_remainder > 0 \<Longrightarrow> dw_offset + dw_remainder = length v_tx \<Longrightarrow>
     bypass_uart_loop v_tx t False c_chain dw_offset dw_remainder s =
       Some (True, push_all (bypass_requests c_chain (le32 t) (chunks 57 (drop dw_offset v_tx))) s)"
proof (induction dw_remainder arbitrary: c_chain dw_offset s rule: less_induct)
  case (less n)
  have chunk: "chunks 57 (drop dw_offset v_tx) =
      take 57 (drop dw_offset v_tx) # chunks 57 (drop (dw_offset + 57) v_tx)"
    using less.prems by (subst chunks_step) (auto simp: add.commute)
  note step = bypass_step [OF refl, of dw_offset n v_tx t False c_chain s]
  show ?case
  proof (cases "57 < n")
    case True
    then show ?thesis
      using less.prems less.IH [of "n - 57" "dw_offset + 57"] step chunk
      by (simp add: Let_def subrange_def bypass_header_def)
  next
    case False
    then show ?thesis
      using less.prems step chunk by (simp add: Let_def subrange_def bypass_header_def)
  qed
qed

text \<open>All requests of one call: the counter and the total once, the counter alone afterwards.\<close>

definition bypass_all_requests :: "u32 \<Rightarrow> bytes \<Rightarrow> request list" where
  "bypass_all_requests t v_tx =
     bypass_request 0 (bypass_header t v_tx True) (take 53 v_tx)
       # bypass_requests 1 (le32 t) (chunks 57 (drop 53 v_tx))"

lemma generate_bypass_uart_run:
  assumes "v_tx \<noteq> []" "length v_tx < 2 ^ 32"
    and t: "t = m_dw_scr_transaction_counter s + 1"
  shows "generate_bypass_uart v_tx s =
     Some (True, push_all (bypass_all_requests t v_tx) (s\<lparr>m_dw_scr_transaction_counter := t\<rparr>))"
proof -
  have total: "unat (of_nat (length v_tx) :: u32) = length v_tx"
    using assms(2) by (simp add: unat_of_nat take_bit_nat_eq_self_iff)
  note first = bypass_step [OF refl, of 0 "length v_tx" v_tx t True 0
      "s\<lparr>m_dw_scr_transaction_counter := t\<rparr>"]
  show ?thesis
  proof (cases "53 < length v_tx")
    case True
    then show ?thesis
      using assms(1) total first
      by (simp add: generate_bypass_uart_def get_new_scr_transaction_counter_def t [symmetric]
          Let_def bypass_rest bypass_all_requests_def subrange_def)
  next
    case False
    then show ?thesis
      using assms(1) total first
      by (simp add: generate_bypass_uart_def get_new_scr_transaction_counter_def t [symmetric]
          Let_def bypass_all_requests_def subrange_def)
  qed
qed

section \<open>The receiver\<close>

text \<open>
  What a receiver of the requests can check and collect: the command, the length byte, the chain
  number that counts up from 0, one counter for all of them, and the announced total.
\<close>

definition bypass_frame_ok :: "u32 \<Rightarrow> byte \<Rightarrow> bytes \<Rightarrow> bool" where
  "bypass_frame_ok t c_chain p =
     (7 \<le> length p \<and> p ! 0 = cmd_uart_bypass \<and> p ! 1 = c_chain \<and> unat (p ! 2) = length p - 3
        \<and> un_le32 (drop 3 p) = t)"

fun bypass_collect :: "u32 \<Rightarrow> byte \<Rightarrow> bytes list \<Rightarrow> bytes option" where
  "bypass_collect t c_chain [] = Some []"
| "bypass_collect t c_chain (p # ps) =
     (if bypass_frame_ok t c_chain p
      then map_option (append (drop 7 p)) (bypass_collect t (c_chain + 1) ps)
      else None)"

definition bypass_receive :: "bytes list \<Rightarrow> (u32 \<times> bytes) option" where
  "bypass_receive ps =
     (if ps = [] then None
      else
        let p = hd ps; t = un_le32 (drop 3 p)
        in if bypass_frame_ok t 0 p then
             (case bypass_collect t 1 (tl ps) of
                None \<Rightarrow> None
              | Some d \<Rightarrow>
                  if un_le32 (drop 7 p) = of_nat (length (drop 11 p @ d))
                  then Some (t, drop 11 p @ d) else None)
           else None)"

lemma bypass_frame_ok_request:
  "length d \<le> 60 \<Longrightarrow> bypass_frame_ok t c (plain_request cmd_uart_bypass c (le32 t @ d))"
  using un_le32_le32 [of t d] unat_of_nat_byte [of "4 + length d"]
  by (simp add: bypass_frame_ok_def plain_request_def)

lemma bypass_collect_requests:
  "\<forall>d\<in>set ds. length d \<le> 57 \<Longrightarrow>
     bypass_collect t c (map snd (bypass_requests c (le32 t) ds)) = Some (concat ds)"
proof (induction ds arbitrary: c)
  case (Cons d ds)
  then have "bypass_frame_ok t c (plain_request cmd_uart_bypass c (le32 t @ d))"
    by (simp add: bypass_frame_ok_request)
  then show ?case
    using Cons by (simp add: bypass_request_def) (simp add: plain_request_def)
qed simp

lemma bypass_receive_all:
  assumes "v_tx \<noteq> []"
  shows "bypass_receive (map snd (bypass_all_requests t v_tx)) = Some (t, v_tx)"
proof -
  let ?p = "plain_request cmd_uart_bypass 0 (le32 t @ le32 (of_nat (length v_tx)) @ take 53 v_tx)"
  have ok: "bypass_frame_ok t 0 ?p"
    by (rule bypass_frame_ok_request) simp
  have p: "drop 3 ?p = le32 t @ le32 (of_nat (length v_tx)) @ take 53 v_tx"
    "drop 7 ?p = le32 (of_nat (length v_tx)) @ take 53 v_tx" "drop 11 ?p = take 53 v_tx"
    by (simp_all add: plain_request_def)
  have "bypass_collect t 1 (map snd (bypass_requests 1 (le32 t) (chunks 57 (drop 53 v_tx))))
      = Some (drop 53 v_tx)"
    using bypass_collect_requests [of "chunks 57 (drop 53 v_tx)" t 1]
    by (simp add: length_chunks_le concat_chunks)
  then show ?thesis
    using ok by (simp add: bypass_receive_def bypass_all_requests_def bypass_request_def
        bypass_header_def p un_le32_le32)
qed

lemma bypass_request_fits:
  assumes "r \<in> set (bypass_all_requests t v_tx)"
  shows "fst r = gt_bypass_uart \<and> length (snd r) \<le> the_size_of_out_report_except_id"
proof -
  have "r \<in> set (bypass_requests c (le32 t) ds) \<Longrightarrow> \<forall>d\<in>set ds. length d \<le> 57 \<Longrightarrow>
      fst r = gt_bypass_uart \<and> length (snd r) \<le> 64" for c ds
    by (induction ds arbitrary: c) (auto simp: bypass_request_def plain_request_def)
  then show ?thesis
    using assms
    by (auto simp: bypass_all_requests_def bypass_request_def plain_request_def
        the_size_of_out_report_except_id_def length_chunks_le)
qed

section \<open>Properties\<close>

text \<open>C25. \<open>generate_bypass_uart\<close> cuts data of any length below 2^32 into requests from which the
  receiver gets the data back: it checks the chain numbers, the common transaction counter and the
  announced total, and puts the pieces together. Every request fits an output report, and the
  kinds are queued in step with the requests.\<close>

theorem bypass_uart_roundtrip:
  assumes "v_tx \<noteq> []" "length v_tx < 2 ^ 32"
  shows "\<exists>rs. generate_bypass_uart v_tx s =
       Some (True, push_all rs (s\<lparr>m_dw_scr_transaction_counter :=
                                    m_dw_scr_transaction_counter s + 1\<rparr>))
     \<and> bypass_receive (map snd rs) = Some (m_dw_scr_transaction_counter s + 1, v_tx)
     \<and> (\<forall>r\<in>set rs. fst r = gt_bypass_uart
                       \<and> length (snd r) \<le> the_size_of_out_report_except_id)"
proof (intro exI conjI)
  let ?t = "m_dw_scr_transaction_counter s + 1"
  show "generate_bypass_uart v_tx s =
      Some (True, push_all (bypass_all_requests ?t v_tx) (s\<lparr>m_dw_scr_transaction_counter := ?t\<rparr>))"
    using assms by (rule generate_bypass_uart_run) simp
  show "bypass_receive (map snd (bypass_all_requests ?t v_tx)) = Some (?t, v_tx)"
    using assms(1) by (rule bypass_receive_all)
  show "\<forall>r\<in>set (bypass_all_requests ?t v_tx). fst r = gt_bypass_uart
          \<and> length (snd r) \<le> the_size_of_out_report_except_id"
    using bypass_request_fits by blast
qed

theorem bypass_uart_roundtrip_witness:
  "\<exists>rs. generate_bypass_uart [1, 2, 3] (queue_example []) =
       Some (True, push_all rs ((queue_example [])\<lparr>m_dw_scr_transaction_counter :=
                                   m_dw_scr_transaction_counter (queue_example []) + 1\<rparr>))
     \<and> bypass_receive (map snd rs) =
         Some (m_dw_scr_transaction_counter (queue_example []) + 1, [1, 2, 3])
     \<and> (\<forall>r\<in>set rs. fst r = gt_bypass_uart
                       \<and> length (snd r) \<le> the_size_of_out_report_except_id)"
  by (rule bypass_uart_roundtrip) simp_all

end
