(* ===== verification/ProtoGet.thy ===== *)
theory ProtoGet
  imports ProtoTx
begin

text \<open>
  The \<open>_generate_get_*\<close> functions: every one queues a request for the bytes of one parameter
  (offset and size in the configuration block) or a command without data, and the kind of the
  request. Each is shown to keep the contract \<open>request_generator\<close>.
\<close>

section \<open>Parameters of the device\<close>

definition generate_get_version :: "'a proto_queue_scheme op" where
  "generate_get_version =
     then_push (generate_config_get (reg_sys sSysVer)) gt_get_version"

definition generate_get_version_strcuture :: "'a proto_queue_scheme op" where
  "generate_get_version_strcuture =
     then_push (generate_config_get (reg_sys sStrucVer)) gt_get_version_structure"

definition generate_get_name :: "'a proto_queue_scheme op" where
  "generate_get_name =
     then_push (generate_config_get (reg_sys sName)) gt_get_name"

definition generate_get_device_support_mmd1000 :: "'a proto_queue_scheme op" where
  "generate_get_device_support_mmd1000 =
     then_push (generate_request cmd_hw_is_mmd1000 0 0 None) gt_support_mmd1000"

definition generate_get_uid :: "'a proto_queue_scheme op" where
  "generate_get_uid =
     then_push (generate_request cmd_read_uid 0 0 None) gt_read_uid"

definition generate_get_device_ibutton_type :: "'a proto_queue_scheme op" where
  "generate_get_device_ibutton_type =
     then_push (generate_request cmd_hw_is_only_ibutton 0 0 None) gt_type_ibutton_only"

definition generate_get_device_type :: "'a proto_queue_scheme op" where
  "generate_get_device_type =
     then_push (generate_request cmd_hw_is_standard 0 0 None) gt_type_device"

definition generate_get_global_pre_postfix_send_condition :: "'a proto_queue_scheme op" where
  "generate_get_global_pre_postfix_send_condition =
     then_push (generate_config_get (reg_container nGlobalTagCondition)) gt_get_global_prepostfix_send_condition"

definition generate_get_interface :: "'a proto_queue_scheme op" where
  "generate_get_interface =
     then_push (generate_config_get (reg_sys Interface)) gt_get_interface"

definition generate_get_language :: "'a proto_queue_scheme op" where
  "generate_get_language =
     then_push (generate_config_get reg_container_map_index) gt_get_language"

definition generate_get_buzzer_frequency :: "'a proto_queue_scheme op" where
  "generate_get_buzzer_frequency =
     then_push (generate_config_get (reg_sys nBuzzerFrequency)) gt_get_buzzer_frequency"

definition generate_get_boot_run_time :: "'a proto_queue_scheme op" where
  "generate_get_boot_run_time =
     then_push (generate_config_get (reg_sys nBootRunTime)) gt_get_boot_run_time"

definition generate_get_global_prefix :: "'a proto_queue_scheme op" where
  "generate_get_global_prefix =
     then_push (generate_config_get (reg_container ContGlobalPrefix)) gt_get_global_prefix"

definition generate_get_global_postfix :: "'a proto_queue_scheme op" where
  "generate_get_global_postfix =
     then_push (generate_config_get (reg_container ContGlobalPostfix)) gt_get_global_postfix"

definition generate_get_ibutton_prefix :: "'a proto_queue_scheme op" where
  "generate_get_ibutton_prefix =
     then_push (generate_config_get (reg_std_pp InfoIButton GlobalPrefix)) gt_get_prefix_ibutton"

definition generate_get_ibutton_postfix :: "'a proto_queue_scheme op" where
  "generate_get_ibutton_postfix =
     then_push (generate_config_get (reg_std_pp InfoIButton GlobalPostfix)) gt_get_postfix_ibutton"

definition generate_get_uart_prefix :: "'a proto_queue_scheme op" where
  "generate_get_uart_prefix =
     then_push (generate_config_get (reg_std_pp InfoUart GlobalPrefix)) gt_get_prefix_uart"

definition generate_get_uart_postfix :: "'a proto_queue_scheme op" where
  "generate_get_uart_postfix =
     then_push (generate_config_get (reg_std_pp InfoUart GlobalPostfix)) gt_get_postfix_uart"

definition generate_get_blanks :: "'a proto_queue_scheme op" where
  "generate_get_blanks =
     then_push (generate_config_get (reg_sys cBlank)) gt_get_blanks"

definition generate_get_track_of_orders :: "'a proto_queue_scheme op" where
  "generate_get_track_of_orders =
     then_push (generate_config_get (reg_container nOrderObject)) gt_get_orders"

definition generate_get_ibutton_remove :: "'a proto_queue_scheme op" where
  "generate_get_ibutton_remove =
     then_push (generate_config_get (reg_std RemoveItemTag)) gt_get_ibutton_remove"

definition generate_get_ibutton_prefix_remove :: "'a proto_queue_scheme op" where
  "generate_get_ibutton_prefix_remove =
     then_push (generate_config_get (reg_std_pp InfoIButtonRemove GlobalPrefix)) gt_get_prefix_ibutton_remove"

definition generate_get_ibutton_postfix_remove :: "'a proto_queue_scheme op" where
  "generate_get_ibutton_postfix_remove =
     then_push (generate_config_get (reg_std_pp InfoIButtonRemove GlobalPostfix)) gt_get_postfix_ibutton_remove"

lemmas simple_get_defs =
  generate_get_version_def
  generate_get_version_strcuture_def
  generate_get_name_def
  generate_get_device_support_mmd1000_def
  generate_get_uid_def
  generate_get_device_ibutton_type_def
  generate_get_device_type_def
  generate_get_global_pre_postfix_send_condition_def
  generate_get_interface_def
  generate_get_language_def
  generate_get_buzzer_frequency_def
  generate_get_boot_run_time_def
  generate_get_global_prefix_def
  generate_get_global_postfix_def
  generate_get_ibutton_prefix_def
  generate_get_ibutton_postfix_def
  generate_get_uart_prefix_def
  generate_get_uart_postfix_def
  generate_get_blanks_def
  generate_get_track_of_orders_def
  generate_get_ibutton_remove_def
  generate_get_ibutton_prefix_remove_def
  generate_get_ibutton_postfix_remove_def

section \<open>Parameters of a track\<close>

text \<open>The \<open>switch (track)\<close> with a case for each ISO track and \<open>default: continue\<close>.\<close>

fun track_index :: "track \<Rightarrow> nat option" where
  "track_index iso1_track = Some 0"
| "track_index iso2_track = Some 1"
| "track_index iso3_track = Some 2"
| "track_index iso_global = None"

definition switch_track :: "(nat \<Rightarrow> 'a proto_queue_scheme op) \<Rightarrow> track \<Rightarrow> 'a proto_queue_scheme op" where
  "switch_track f t s =
     (case track_index t of None \<Rightarrow> Some (False, s) | Some i \<Rightarrow> f i s)"

definition generate_get_enable_track :: "track \<Rightarrow> 'a proto_queue_scheme op" where
  "generate_get_enable_track t =
     switch_track
       (\<lambda>i. then_push (generate_config_get (reg_msr i cEnableTrack)) (gt_get_enable_iso t)) t"

definition generate_get_direction :: "track \<Rightarrow> 'a proto_queue_scheme op" where
  "generate_get_direction t =
     switch_track
       (\<lambda>i. then_push (generate_config_get (reg_msr_elem i cRDirect 0)) (gt_get_direction t)) t"

definition generate_get_combination :: "track \<Rightarrow> 'a proto_queue_scheme op" where
  "generate_get_combination t =
     switch_track
       (\<lambda>i. then_push (generate_config_get (reg_msr i cSupportNum)) (gt_get_combination t)) t"

text \<open>
  The functions with a combination: \<open>n_combi\<close> outside 0..2 is refused, then a switch over the track
  for each combination chooses \<open>InfoMsr[track].member[n_combi]\<close>.
\<close>

definition generate_get_elem ::
  "info_msr_member \<Rightarrow> (track \<Rightarrow> nat \<Rightarrow> generated_tx) \<Rightarrow> track \<Rightarrow> int \<Rightarrow> 'a proto_queue_scheme op" where
  "generate_get_elem m gt t n_combi s =
     (if n_combi < 0 \<or> n_combi > 2 then Some (False, s)
      else
        switch_track
          (\<lambda>i. then_push (generate_config_get (reg_msr_elem i m (nat n_combi)))
                  (gt t (nat n_combi))) t s)"

definition generate_get_msr_max_size :: "track \<Rightarrow> int \<Rightarrow> 'a proto_queue_scheme op" where
  "generate_get_msr_max_size = generate_get_elem cMaxSize (gt_get_msr max_size)"

definition generate_get_msr_bit_size :: "track \<Rightarrow> int \<Rightarrow> 'a proto_queue_scheme op" where
  "generate_get_msr_bit_size = generate_get_elem cBitSize (gt_get_msr bit_size)"

definition generate_get_msr_data_mask :: "track \<Rightarrow> int \<Rightarrow> 'a proto_queue_scheme op" where
  "generate_get_msr_data_mask = generate_get_elem cDataMask (gt_get_msr data_mask)"

definition generate_get_msr_use_parity :: "track \<Rightarrow> int \<Rightarrow> 'a proto_queue_scheme op" where
  "generate_get_msr_use_parity = generate_get_elem bUseParity (gt_get_msr use_parity)"

definition generate_get_msr_parity_type :: "track \<Rightarrow> int \<Rightarrow> 'a proto_queue_scheme op" where
  "generate_get_msr_parity_type = generate_get_elem cParityType (gt_get_msr parity_type)"

definition generate_get_msr_stxl :: "track \<Rightarrow> int \<Rightarrow> 'a proto_queue_scheme op" where
  "generate_get_msr_stxl = generate_get_elem cSTX_L (gt_get_msr stxl)"

definition generate_get_msr_etxl :: "track \<Rightarrow> int \<Rightarrow> 'a proto_queue_scheme op" where
  "generate_get_msr_etxl = generate_get_elem cETX_L (gt_get_msr etxl)"

definition generate_get_msr_use_error_correct :: "track \<Rightarrow> int \<Rightarrow> 'a proto_queue_scheme op" where
  "generate_get_msr_use_error_correct = generate_get_elem bUseErrorCorrect (gt_get_msr use_error_correct)"

definition generate_get_msr_ecm_type :: "track \<Rightarrow> int \<Rightarrow> 'a proto_queue_scheme op" where
  "generate_get_msr_ecm_type = generate_get_elem cECMType (gt_get_msr ecm_type)"

definition generate_get_msr_add_value :: "track \<Rightarrow> int \<Rightarrow> 'a proto_queue_scheme op" where
  "generate_get_msr_add_value = generate_get_elem cAddValue (gt_get_msr add_value)"

definition generate_get_private_prefix :: "track \<Rightarrow> int \<Rightarrow> 'a proto_queue_scheme op" where
  "generate_get_private_prefix = generate_get_elem PrivatePrefix gt_get_private_prefix"

definition generate_get_private_postfix :: "track \<Rightarrow> int \<Rightarrow> 'a proto_queue_scheme op" where
  "generate_get_private_postfix = generate_get_elem PrivatePostfix gt_get_private_postfix"

lemmas elem_get_defs =
  generate_get_msr_max_size_def
  generate_get_msr_bit_size_def
  generate_get_msr_data_mask_def
  generate_get_msr_use_parity_def
  generate_get_msr_parity_type_def
  generate_get_msr_stxl_def
  generate_get_msr_etxl_def
  generate_get_msr_use_error_correct_def
  generate_get_msr_ecm_type_def
  generate_get_msr_add_value_def
  generate_get_private_prefix_def generate_get_private_postfix_def

section \<open>What they append\<close>

lemma simple_get_generators [emits_intros]:
  "request_generator generate_get_version (\<lambda>_. True)
     (\<lambda>_. [(gt_get_version, get_request (reg_sys sSysVer))])"
  "request_generator generate_get_version_strcuture (\<lambda>_. True)
     (\<lambda>_. [(gt_get_version_structure, get_request (reg_sys sStrucVer))])"
  "request_generator generate_get_name (\<lambda>_. True)
     (\<lambda>_. [(gt_get_name, get_request (reg_sys sName))])"
  "request_generator generate_get_device_support_mmd1000 (\<lambda>_. True)
     (\<lambda>_. [(gt_support_mmd1000, plain_request cmd_hw_is_mmd1000 0 [])])"
  "request_generator generate_get_uid (\<lambda>_. True)
     (\<lambda>_. [(gt_read_uid, plain_request cmd_read_uid 0 [])])"
  "request_generator generate_get_device_ibutton_type (\<lambda>_. True)
     (\<lambda>_. [(gt_type_ibutton_only, plain_request cmd_hw_is_only_ibutton 0 [])])"
  "request_generator generate_get_device_type (\<lambda>_. True)
     (\<lambda>_. [(gt_type_device, plain_request cmd_hw_is_standard 0 [])])"
  "request_generator generate_get_global_pre_postfix_send_condition (\<lambda>_. True)
     (\<lambda>_. [(gt_get_global_prepostfix_send_condition, get_request (reg_container nGlobalTagCondition))])"
  "request_generator generate_get_interface (\<lambda>_. True)
     (\<lambda>_. [(gt_get_interface, get_request (reg_sys Interface))])"
  "request_generator generate_get_language (\<lambda>_. True)
     (\<lambda>_. [(gt_get_language, get_request reg_container_map_index)])"
  "request_generator generate_get_buzzer_frequency (\<lambda>_. True)
     (\<lambda>_. [(gt_get_buzzer_frequency, get_request (reg_sys nBuzzerFrequency))])"
  "request_generator generate_get_boot_run_time (\<lambda>_. True)
     (\<lambda>_. [(gt_get_boot_run_time, get_request (reg_sys nBootRunTime))])"
  "request_generator generate_get_global_prefix (\<lambda>_. True)
     (\<lambda>_. [(gt_get_global_prefix, get_request (reg_container ContGlobalPrefix))])"
  "request_generator generate_get_global_postfix (\<lambda>_. True)
     (\<lambda>_. [(gt_get_global_postfix, get_request (reg_container ContGlobalPostfix))])"
  "request_generator generate_get_ibutton_prefix (\<lambda>_. True)
     (\<lambda>_. [(gt_get_prefix_ibutton, get_request (reg_std_pp InfoIButton GlobalPrefix))])"
  "request_generator generate_get_ibutton_postfix (\<lambda>_. True)
     (\<lambda>_. [(gt_get_postfix_ibutton, get_request (reg_std_pp InfoIButton GlobalPostfix))])"
  "request_generator generate_get_uart_prefix (\<lambda>_. True)
     (\<lambda>_. [(gt_get_prefix_uart, get_request (reg_std_pp InfoUart GlobalPrefix))])"
  "request_generator generate_get_uart_postfix (\<lambda>_. True)
     (\<lambda>_. [(gt_get_postfix_uart, get_request (reg_std_pp InfoUart GlobalPostfix))])"
  "request_generator generate_get_blanks (\<lambda>_. True)
     (\<lambda>_. [(gt_get_blanks, get_request (reg_sys cBlank))])"
  "request_generator generate_get_track_of_orders (\<lambda>_. True)
     (\<lambda>_. [(gt_get_orders, get_request (reg_container nOrderObject))])"
  "request_generator generate_get_ibutton_remove (\<lambda>_. True)
     (\<lambda>_. [(gt_get_ibutton_remove, get_request (reg_std RemoveItemTag))])"
  "request_generator generate_get_ibutton_prefix_remove (\<lambda>_. True)
     (\<lambda>_. [(gt_get_prefix_ibutton_remove, get_request (reg_std_pp InfoIButtonRemove GlobalPrefix))])"
  "request_generator generate_get_ibutton_postfix_remove (\<lambda>_. True)
     (\<lambda>_. [(gt_get_postfix_ibutton_remove, get_request (reg_std_pp InfoIButtonRemove GlobalPostfix))])"
  unfolding simple_get_defs by (rule bare_request_generator config_get_generator)+

lemma track_get_generators [emits_intros]:
  assumes "track_index t = Some i"
  shows
    "request_generator (generate_get_enable_track t) (\<lambda>_. True)
       (\<lambda>_. [(gt_get_enable_iso t, get_request (reg_msr i cEnableTrack))])"
    "request_generator (generate_get_direction t) (\<lambda>_. True)
       (\<lambda>_. [(gt_get_direction t, get_request (reg_msr_elem i cRDirect 0))])"
    "request_generator (generate_get_combination t) (\<lambda>_. True)
       (\<lambda>_. [(gt_get_combination t, get_request (reg_msr i cSupportNum))])"
  using assms
  by (unfold_locales; simp add: generate_get_enable_track_def generate_get_direction_def
      generate_get_combination_def switch_track_def then_push_config_get)+

lemma elem_get_generator:
  assumes "track_index t = Some i" "0 \<le> n_combi" "n_combi \<le> 2"
  shows "request_generator (generate_get_elem m gt t n_combi) (\<lambda>_. True)
     (\<lambda>_. [(gt t (nat n_combi), get_request (reg_msr_elem i m (nat n_combi)))])"
  using assms
  by unfold_locales (simp_all add: generate_get_elem_def switch_track_def then_push_config_get)

text \<open>A track or a combination that does not exist: false, and nothing is queued.\<close>

lemma get_elem_refused:
  "track_index t = None \<or> n_combi < 0 \<or> 2 < n_combi \<Longrightarrow>
     generate_get_elem m gt t n_combi s = Some (False, s)"
  by (auto simp: generate_get_elem_def switch_track_def)

end
