(* ===== verification/ProtoSetter.thy ===== *)
theory ProtoSetter
  imports ProtoState Codec
begin

text \<open>
  The public setters and getters of \<open>cprotocol_lpu237\<close>. A setter stores the value and, when it is a
  new one, records the parameter in the change set, from which \<open>generate_set_parameters\<close> later
  takes what it has to send. The locale \<open>change_tracked\<close> states that contract; the parameters that
  live in the four \<open>cBlank\<close> bytes are the ones that break it.
\<close>

section \<open>Helpers\<close>

definition set_insert_change_set :: "nat \<Rightarrow> proto \<Rightarrow> proto" where
  "set_insert_change_set para s =
     s\<lparr>m_set_change_parameter := insert para (m_set_change_parameter s)\<rparr>"

text \<open>Indexing \<open>m_x[track]\<close> of an array with three elements.\<close>

definition at_track :: "(nat \<Rightarrow> 'a) \<Rightarrow> track \<Rightarrow> 'a option" where
  "at_track a t = (if track_code t < the_number_of_track then Some (a (track_code t)) else None)"

text \<open>Assigning \<open>m_x[i][j]\<close>.\<close>

definition upd2 :: "(nat \<Rightarrow> nat \<Rightarrow> 'a) \<Rightarrow> nat \<Rightarrow> nat \<Rightarrow> 'a \<Rightarrow> nat \<Rightarrow> nat \<Rightarrow> 'a" where
  "upd2 a i j v = a(i := (a i)(j := v))"

lemma upd2_apply: "upd2 a i j v k l = (if k = i \<and> l = j then v else a k l)"
  by (simp add: upd2_def)

lemma upd2_triv: "upd2 a i j (a i j) = a"
  by (simp add: upd2_def)

text \<open>\<open>track < iso1_track || track > iso3_track\<close> is false.\<close>

definition is_iso_track :: "track \<Rightarrow> bool" where
  "is_iso_track t = (track_code t \<le> track_code iso3_track)"

lemma is_iso_track_simps [simp]:
  "is_iso_track iso1_track" "is_iso_track iso2_track" "is_iso_track iso3_track"
  "\<not> is_iso_track iso_global"
  by (simp_all add: is_iso_track_def)

section \<open>Plain parameters\<close>

definition set_global_pre_postfix_send_condition :: "bool \<Rightarrow> proto \<Rightarrow> proto" where
  "set_global_pre_postfix_send_condition b_all_no_error s =
     (if b_all_no_error \<noteq> m_b_global_pre_postfix_send_condition s
      then set_insert_change_set cp_GlobalPrePostfixSendCondition
             (s\<lparr>m_b_global_pre_postfix_send_condition := b_all_no_error\<rparr>)
      else s)"

definition set_interface :: "byte \<Rightarrow> proto \<Rightarrow> proto" where
  "set_interface c_inf s =
     (if m_interface s \<noteq> c_inf
      then set_insert_change_set cp_Interface (s\<lparr>m_interface := c_inf\<rparr>) else s)"

definition set_buzzer_frequency :: "u32 \<Rightarrow> proto \<Rightarrow> proto" where
  "set_buzzer_frequency dw_buzzer_frequency s =
     (if m_dw_buzzer_frequency s \<noteq> dw_buzzer_frequency
      then set_insert_change_set cp_BuzzerFrequency
             (s\<lparr>m_dw_buzzer_frequency := dw_buzzer_frequency\<rparr>)
      else s)"

definition set_boot_run_time :: "u32 \<Rightarrow> proto \<Rightarrow> proto" where
  "set_boot_run_time dw_boot_run_time s =
     (if m_dw_boot_run_time s \<noteq> dw_boot_run_time
      then set_insert_change_set cp_BootRunTime (s\<lparr>m_dw_boot_run_time := dw_boot_run_time\<rparr>)
      else s)"

definition set_language :: "byte \<Rightarrow> proto \<Rightarrow> proto" where
  "set_language language_index s =
     (if m_language_index s \<noteq> language_index
      then set_insert_change_set cp_Language (s\<lparr>m_language_index := language_index\<rparr>)
      else s)"

definition set_global_prefix :: "bytes \<Rightarrow> proto \<Rightarrow> proto" where
  "set_global_prefix fx s =
     (if m_v_global_prefix s \<noteq> fx
      then set_insert_change_set cp_GlobalPrefix (s\<lparr>m_v_global_prefix := fx\<rparr>) else s)"

definition set_global_postfix :: "bytes \<Rightarrow> proto \<Rightarrow> proto" where
  "set_global_postfix fx s =
     (if m_v_global_postfix s \<noteq> fx
      then set_insert_change_set cp_GlobalPostfix (s\<lparr>m_v_global_postfix := fx\<rparr>) else s)"

definition set_prefix_ibutton :: "bytes \<Rightarrow> proto \<Rightarrow> proto" where
  "set_prefix_ibutton fx s =
     (if m_v_prefix_ibutton s \<noteq> fx
      then set_insert_change_set cp_Prefix_iButton (s\<lparr>m_v_prefix_ibutton := fx\<rparr>) else s)"

definition set_postfix_ibutton :: "bytes \<Rightarrow> proto \<Rightarrow> proto" where
  "set_postfix_ibutton fx s =
     (if m_v_postfix_ibutton s \<noteq> fx
      then set_insert_change_set cp_Postfix_iButton (s\<lparr>m_v_postfix_ibutton := fx\<rparr>) else s)"

definition set_prefix_uart :: "bytes \<Rightarrow> proto \<Rightarrow> proto" where
  "set_prefix_uart fx s =
     (if m_v_prefix_uart s \<noteq> fx
      then set_insert_change_set cp_Prefix_Uart (s\<lparr>m_v_prefix_uart := fx\<rparr>) else s)"

definition set_postfix_uart :: "bytes \<Rightarrow> proto \<Rightarrow> proto" where
  "set_postfix_uart fx s =
     (if m_v_postfix_uart s \<noteq> fx
      then set_insert_change_set cp_Postfix_Uart (s\<lparr>m_v_postfix_uart := fx\<rparr>) else s)"

definition set_ibutton_remove :: "bytes \<Rightarrow> proto \<Rightarrow> proto" where
  "set_ibutton_remove fx s =
     (if m_v_ibutton_remove s \<noteq> fx
      then set_insert_change_set cp_iButton_Remove (s\<lparr>m_v_ibutton_remove := fx\<rparr>) else s)"

definition set_prefix_ibutton_remove :: "bytes \<Rightarrow> proto \<Rightarrow> proto" where
  "set_prefix_ibutton_remove fx s =
     (if m_v_prefix_ibutton_remove s \<noteq> fx
      then set_insert_change_set cp_Prefix_iButton_Remove (s\<lparr>m_v_prefix_ibutton_remove := fx\<rparr>)
      else s)"

definition set_postfix_ibutton_remove :: "bytes \<Rightarrow> proto \<Rightarrow> proto" where
  "set_postfix_ibutton_remove fx s =
     (if m_v_postfix_ibutton_remove s \<noteq> fx
      then set_insert_change_set cp_Postfix_iButton_Remove
             (s\<lparr>m_v_postfix_ibutton_remove := fx\<rparr>)
      else s)"

lemmas plain_setter_defs =
  set_global_pre_postfix_send_condition_def set_interface_def set_buzzer_frequency_def
  set_boot_run_time_def set_language_def set_global_prefix_def set_global_postfix_def
  set_prefix_ibutton_def set_postfix_ibutton_def set_prefix_uart_def set_postfix_uart_def
  set_ibutton_remove_def set_prefix_ibutton_remove_def set_postfix_ibutton_remove_def

section \<open>Parameters of a track\<close>

text \<open>One turn of the loop of \<open>set_enable_iso\<close>; \<open>cp\<close> runs along with the index.\<close>

definition set_enable_iso_at :: "bool \<Rightarrow> nat \<Rightarrow> proto \<Rightarrow> proto" where
  "set_enable_iso_at b_enable i s =
     (if m_b_enable_iso s i \<noteq> b_enable
      then set_insert_change_set (cp_EnableISO1 + i)
             (s\<lparr>m_b_enable_iso := (m_b_enable_iso s)(i := b_enable)\<rparr>)
      else s)"

definition set_enable_iso :: "track \<Rightarrow> bool \<Rightarrow> proto \<Rightarrow> proto" where
  "set_enable_iso t b_enable s =
     (let (n_loop, n_track) =
        (case t of
           iso1_track \<Rightarrow> (1, 0) | iso2_track \<Rightarrow> (1, 1) | iso3_track \<Rightarrow> (1, 2)
         | iso_global \<Rightarrow> (3, 0))
      in fold (\<lambda>i. set_enable_iso_at b_enable (n_track + i)) [0..<n_loop] s)"

definition set_direction :: "byte \<Rightarrow> proto \<Rightarrow> proto" where
  "set_direction dir s =
     (if m_direction s 0 \<noteq> dir
      then set_insert_change_set (cp_Direction1 + 2)
             (set_insert_change_set (cp_Direction1 + 1)
               (set_insert_change_set cp_Direction1
                 (s\<lparr>m_direction := (m_direction s)(0 := dir, 1 := dir, 2 := dir)\<rparr>)))
      else s)"

definition set_direction_of_track :: "track \<Rightarrow> byte \<Rightarrow> proto \<Rightarrow> proto option" where
  "set_direction_of_track t dir s =
     map_option
       (\<lambda>cur. if cur \<noteq> dir
              then set_insert_change_set (cp_Direction1 + track_code t)
                     (s\<lparr>m_direction := (m_direction s)(track_code t := dir)\<rparr>)
              else s)
       (at_track (m_direction s) t)"

definition set_order_at :: "(nat \<Rightarrow> u32) \<Rightarrow> nat \<Rightarrow> proto \<Rightarrow> proto" where
  "set_order_at n_order_of_track i s =
     (if m_n_order_of_track s i \<noteq> n_order_of_track i
      then set_insert_change_set cp_TrackOrders
             (s\<lparr>m_n_order_of_track := (m_n_order_of_track s)(i := n_order_of_track i)\<rparr>)
      else s)"

definition set_order_of_track :: "(nat \<Rightarrow> u32) \<Rightarrow> proto \<Rightarrow> proto" where
  "set_order_of_track n_order_of_track s =
     fold (set_order_at n_order_of_track) [0..<the_number_of_track] s"

definition set_order_of_tracks :: "track \<Rightarrow> track \<Rightarrow> track \<Rightarrow> proto \<Rightarrow> proto" where
  "set_order_of_tracks n_1st n_2nd n_3th s =
     (let n_orders = [n_1st, n_2nd, n_3th]
      in set_order_of_track (\<lambda>i. of_nat (track_code (n_orders ! i))) s)"

definition set_combination :: "track \<Rightarrow> u32 \<Rightarrow> proto \<Rightarrow> proto option" where
  "set_combination t n_combi s =
     map_option
       (\<lambda>cur. if cur \<noteq> n_combi
              then set_insert_change_set (cp_Combination1 + track_code t)
                     (s\<lparr>m_n_combination := (m_n_combination s)(track_code t := n_combi)\<rparr>)
              else s)
       (at_track (m_n_combination s) t)"

text \<open>
  The ten \<open>set_msr_*\<close> have one shape: nothing happens for a track or combination that does not
  exist or for the value that is there already; otherwise the value is stored and
  \<open>cp_X10 + (track * 3 + n_combi)\<close> is recorded.
\<close>

definition set_msr ::
  "msr_item \<Rightarrow> (proto \<Rightarrow> nat \<Rightarrow> nat \<Rightarrow> 'v) \<Rightarrow> (((nat \<Rightarrow> nat \<Rightarrow> 'v) \<Rightarrow> nat \<Rightarrow> nat \<Rightarrow> 'v) \<Rightarrow> proto \<Rightarrow> proto)
     \<Rightarrow> track \<Rightarrow> nat \<Rightarrow> 'v \<Rightarrow> proto \<Rightarrow> proto" where
  "set_msr it sel upd t n_combi v s =
     (if \<not> is_iso_track t then s
      else if n_combi > 2 then s
      else if sel s (track_code t) n_combi = v then s
      else set_insert_change_set (cp_msr10 it + (track_code t * 3 + n_combi))
             (upd (\<lambda>a. upd2 a (track_code t) n_combi v) s))"

definition set_msr_max_size :: "track \<Rightarrow> nat \<Rightarrow> u32 \<Rightarrow> proto \<Rightarrow> proto" where
  "set_msr_max_size = set_msr max_size m_n_msr_max_size m_n_msr_max_size_update"

definition set_msr_bit_size :: "track \<Rightarrow> nat \<Rightarrow> u32 \<Rightarrow> proto \<Rightarrow> proto" where
  "set_msr_bit_size = set_msr bit_size m_n_msr_bit_size m_n_msr_bit_size_update"

definition set_msr_data_mask :: "track \<Rightarrow> nat \<Rightarrow> byte \<Rightarrow> proto \<Rightarrow> proto" where
  "set_msr_data_mask = set_msr data_mask m_n_msr_data_mask m_n_msr_data_mask_update"

definition set_msr_use_parity :: "track \<Rightarrow> nat \<Rightarrow> bool \<Rightarrow> proto \<Rightarrow> proto" where
  "set_msr_use_parity = set_msr use_parity m_b_msr_use_parity m_b_msr_use_parity_update"

definition set_msr_parity_type :: "track \<Rightarrow> nat \<Rightarrow> byte \<Rightarrow> proto \<Rightarrow> proto" where
  "set_msr_parity_type = set_msr parity_type m_c_msr_parity_type m_c_msr_parity_type_update"

definition set_msr_stxl :: "track \<Rightarrow> nat \<Rightarrow> byte \<Rightarrow> proto \<Rightarrow> proto" where
  "set_msr_stxl = set_msr stxl m_c_msr_stxl m_c_msr_stxl_update"

definition set_msr_etxl :: "track \<Rightarrow> nat \<Rightarrow> byte \<Rightarrow> proto \<Rightarrow> proto" where
  "set_msr_etxl = set_msr etxl m_c_msr_etxl m_c_msr_etxl_update"

definition set_msr_use_error_correct :: "track \<Rightarrow> nat \<Rightarrow> bool \<Rightarrow> proto \<Rightarrow> proto" where
  "set_msr_use_error_correct =
     set_msr use_error_correct m_b_msr_use_error_correct m_b_msr_use_error_correct_update"

definition set_msr_ecm_type :: "track \<Rightarrow> nat \<Rightarrow> byte \<Rightarrow> proto \<Rightarrow> proto" where
  "set_msr_ecm_type = set_msr ecm_type m_c_msr_ecm_type m_c_msr_ecm_type_update"

definition set_msr_add_value :: "track \<Rightarrow> nat \<Rightarrow> u32 \<Rightarrow> proto \<Rightarrow> proto" where
  "set_msr_add_value = set_msr add_value m_n_msr_add_value m_n_msr_add_value_update"

lemmas msr_setter_defs =
  set_msr_max_size_def set_msr_bit_size_def set_msr_data_mask_def set_msr_use_parity_def
  set_msr_parity_type_def set_msr_stxl_def set_msr_etxl_def set_msr_use_error_correct_def
  set_msr_ecm_type_def set_msr_add_value_def

text \<open>
  The private tags check the combination but not the track. The enumerators are written out case by
  case in the source; \<open>cp_PrivatePrefix10 + (track * 3 + n_combi)\<close> is their number.
\<close>

definition set_private_prefix :: "track \<Rightarrow> int \<Rightarrow> bytes \<Rightarrow> proto \<Rightarrow> proto option" where
  "set_private_prefix t n_combi fx s =
     (if n_combi < 0 \<or> n_combi > 2 then Some s
      else
        map_option
          (\<lambda>row. if row (nat n_combi) \<noteq> fx
                 then set_insert_change_set
                        (cp_PrivatePrefix10 + (track_code t * 3 + nat n_combi))
                        (s\<lparr>m_v_private_prefix :=
                             upd2 (m_v_private_prefix s) (track_code t) (nat n_combi) fx\<rparr>)
                 else s)
          (at_track (m_v_private_prefix s) t))"

definition set_private_postfix :: "track \<Rightarrow> int \<Rightarrow> bytes \<Rightarrow> proto \<Rightarrow> proto option" where
  "set_private_postfix t n_combi fx s =
     (if n_combi < 0 \<or> n_combi > 2 then Some s
      else
        map_option
          (\<lambda>row. if row (nat n_combi) \<noteq> fx
                 then set_insert_change_set
                        (cp_PrivatePostfix10 + (track_code t * 3 + nat n_combi))
                        (s\<lparr>m_v_private_postfix :=
                             upd2 (m_v_private_postfix s) (track_code t) (nat n_combi) fx\<rparr>)
                 else s)
          (at_track (m_v_private_postfix s) t))"

section \<open>Parameters in the cBlank bytes\<close>

definition set_blank :: "nat \<Rightarrow> byte \<Rightarrow> proto \<Rightarrow> proto" where
  "set_blank i b s = s\<lparr>m_c_blank := (m_c_blank s)(i := b)\<rparr>"

text \<open>
  \<open>m_c_blank[i] = m_c_blank[i] & c_keep; m_c_blank[i] = m_c_blank[i] | c_new;\<close>
\<close>

definition blank_field :: "nat \<Rightarrow> byte \<Rightarrow> byte \<Rightarrow> proto \<Rightarrow> proto" where
  "blank_field i c_keep c_new s = set_blank i ((m_c_blank s i AND c_keep) OR c_new) s"

definition set_enable_f12_ibutton :: "bool \<Rightarrow> proto \<Rightarrow> proto" where
  "set_enable_f12_ibutton b_enable s =
     (let c_cur = m_c_blank s 2 AND 0x0F; c_new = (if b_enable then 0x01 else 0)
      in if c_new \<noteq> c_cur
         then set_insert_change_set cp_Blanks
                (blank_field 2 0xF0 c_new (s\<lparr>m_b_f12_ibutton := b_enable\<rparr>))
         else s)"

definition set_enable_zeros_ibutton :: "bool \<Rightarrow> proto \<Rightarrow> proto" where
  "set_enable_zeros_ibutton b_enable s =
     (let c_cur = m_c_blank s 2 AND 0x0F; c_new = (if \<not> b_enable then 0x02 else 0)
      in if c_new \<noteq> c_cur
         then set_insert_change_set cp_Blanks
                (blank_field 2 0xF0 c_new (s\<lparr>m_b_zeros_ibutton := b_enable\<rparr>))
         else s)"

definition set_enable_zeros_7times_ibutton :: "bool \<Rightarrow> proto \<Rightarrow> proto" where
  "set_enable_zeros_7times_ibutton b_enable s =
     (let c_cur = m_c_blank s 2 AND 0x0F; c_new = (if b_enable then 0x04 else 0)
      in if c_new \<noteq> c_cur
         then set_insert_change_set cp_Blanks
                (blank_field 2 0xF0 c_new (s\<lparr>m_b_zeros_7times_ibutton := b_enable\<rparr>))
         else s)"

definition set_enable_addmit_Code_stick_ibutton :: "bool \<Rightarrow> proto \<Rightarrow> proto" where
  "set_enable_addmit_Code_stick_ibutton b_enable s =
     (let c_cur = m_c_blank s 2 AND 0x0F; c_new = (if b_enable then 0x08 else 0)
      in if c_new \<noteq> c_cur
         then set_insert_change_set cp_Blanks
                (blank_field 2 0xF0 c_new (s\<lparr>m_b_addmit_code_stick_ibutton := b_enable\<rparr>))
         else s)"

definition set_ibutton_start_code_zero_base_index :: "byte \<Rightarrow> proto \<Rightarrow> proto" where
  "set_ibutton_start_code_zero_base_index c_index s =
     (if c_index > 15 then s
      else
        let c_cur = m_c_blank s 0 AND 0xF0; c_new = push_bit 4 c_index
        in if c_new \<noteq> c_cur
           then blank_field 0 0x0F c_new (s\<lparr>m_c_ibutton_start_code_zero_base_index := c_index\<rparr>)
           else s)"

definition set_ibutton_stop_code_zero_base_index :: "byte \<Rightarrow> proto \<Rightarrow> proto" where
  "set_ibutton_stop_code_zero_base_index c_index s =
     (if c_index > 15 then s
      else
        let c_cur = m_c_blank s 0 AND 0x0F; c_new = c_index
        in if c_new \<noteq> c_cur
           then blank_field 0 0xF0 c_new (s\<lparr>m_c_ibutton_stop_code_zero_base_index := c_index\<rparr>)
           else s)"

definition set_enable_mmd1100_iso_mode :: "bool \<Rightarrow> proto \<Rightarrow> proto" where
  "set_enable_mmd1100_iso_mode b_enable s =
     (let c_cur = m_c_blank s 3 AND 0x08; c_new = (if b_enable then 0x08 else 0)
      in if c_new \<noteq> c_cur
         then set_insert_change_set cp_Blanks
                (blank_field 3 0xF7 c_new (s\<lparr>m_b_mmd1100_is_iso_mode := b_enable\<rparr>))
         else s)"

definition set_mmd1100_reset_interval :: "byte \<Rightarrow> proto \<Rightarrow> proto" where
  "set_mmd1100_reset_interval c_interval s =
     (if c_interval > 15 then s
      else
        let c_cur = m_c_blank s 1 AND 0xF0; c_new = push_bit 4 c_interval
        in if c_new \<noteq> c_cur
           then blank_field 1 0x0F c_new (s\<lparr>m_c_mmd1100_reset_interval := c_interval\<rparr>)
           else s)"

text \<open>The four single-bit flags of \<open>cBlank[1]\<close>; \<open>store\<close> assigns the member.\<close>

definition set_blank1_bit :: "byte \<Rightarrow> (bool \<Rightarrow> proto \<Rightarrow> proto) \<Rightarrow> bool \<Rightarrow> proto \<Rightarrow> proto" where
  "set_blank1_bit c_bit store b s =
     (let c_cur = m_c_blank s 1 AND c_bit; c_new = (if b then c_bit else 0)
      in if c_new \<noteq> c_cur
         then let s' = store b s
              in set_blank 1 (if b then m_c_blank s' 1 OR c_bit
                              else m_c_blank s' 1 AND NOT c_bit) s'
         else s)"

definition set_indicate_success_if_any_trace_ok :: "bool \<Rightarrow> proto \<Rightarrow> proto" where
  "set_indicate_success_if_any_trace_ok =
     set_blank1_bit 0x01 (\<lambda>b s. s\<lparr>m_b_indicate_success_if_any_trace_ok := b\<rparr>)"

definition set_ignore_1track_if_12_is_equal :: "bool \<Rightarrow> proto \<Rightarrow> proto" where
  "set_ignore_1track_if_12_is_equal =
     set_blank1_bit 0x02 (\<lambda>b s. s\<lparr>m_b_ignore_1track_if_12_is_equal := b\<rparr>)"

definition set_ignore_3track_if_12_is_equal :: "bool \<Rightarrow> proto \<Rightarrow> proto" where
  "set_ignore_3track_if_12_is_equal =
     set_blank1_bit 0x04 (\<lambda>b s. s\<lparr>m_b_ignore_3track_if_12_is_equal := b\<rparr>)"

definition set_ignore_colron :: "bool \<Rightarrow> proto \<Rightarrow> proto" where
  "set_ignore_colron = set_blank1_bit 0x08 (\<lambda>b s. s\<lparr>m_b_ignore_colron := b\<rparr>)"

lemmas blank_setter_defs =
  set_enable_f12_ibutton_def set_enable_zeros_ibutton_def set_enable_zeros_7times_ibutton_def
  set_enable_addmit_Code_stick_ibutton_def set_ibutton_start_code_zero_base_index_def
  set_ibutton_stop_code_zero_base_index_def set_enable_mmd1100_iso_mode_def
  set_mmd1100_reset_interval_def set_blank1_bit_def set_indicate_success_if_any_trace_ok_def
  set_ignore_1track_if_12_is_equal_def set_ignore_3track_if_12_is_equal_def
  set_ignore_colron_def

section \<open>Getters\<close>

text \<open>The name up to the first blank or zero byte.\<close>

definition get_name_by_string :: "proto \<Rightarrow> string" where
  "get_name_by_string s =
     map (\<lambda>item. char_of (unat item))
       (takeWhile (\<lambda>item. item \<noteq> 0x20 \<and> item \<noteq> 0) (m_v_name s))"

definition get_enable_iso :: "track \<Rightarrow> proto \<Rightarrow> bool" where
  "get_enable_iso t s =
     (case t of
        iso1_track \<Rightarrow> m_b_enable_iso s 0
      | iso2_track \<Rightarrow> m_b_enable_iso s 1
      | iso3_track \<Rightarrow> m_b_enable_iso s 2
      | iso_global \<Rightarrow> False)"

definition get_direction :: "track \<Rightarrow> proto \<Rightarrow> byte option" where
  "get_direction t s = at_track (m_direction s) t"

definition get_order_of_track_by_vector :: "proto \<Rightarrow> u32 list" where
  "get_order_of_track_by_vector s = map (m_n_order_of_track s) [0, 1, 2]"

definition get_combination :: "track \<Rightarrow> proto \<Rightarrow> u32 option" where
  "get_combination t s = at_track (m_n_combination s) t"

text \<open>\<open>get_msr_*\<close> and \<open>get_private_*\<close>: \<open>m_x[track][n_combi]\<close> with no check.\<close>

definition get_at2 :: "(nat \<Rightarrow> nat \<Rightarrow> 'a) \<Rightarrow> track \<Rightarrow> int \<Rightarrow> 'a option" where
  "get_at2 a t n_combi =
     (if 0 \<le> n_combi \<and> n_combi < 3 then map_option (\<lambda>row. row (nat n_combi)) (at_track a t)
      else None)"

section \<open>The contract of a setter\<close>

text \<open>
  Getting after setting gives the value; the change set grows by \<open>cp\<close> exactly when the value is a
  new one; setting the value that is there already does nothing.
\<close>

locale change_tracked =
  fixes getp :: "proto \<Rightarrow> 'v"
    and setp :: "'v \<Rightarrow> proto \<Rightarrow> proto"
    and cp :: nat
  assumes get_set: "getp (setp v s) = v"
    and set_same: "getp s = v \<Longrightarrow> setp v s = s"
    and set_marks: "getp s \<noteq> v \<Longrightarrow>
       m_set_change_parameter (setp v s) = insert cp (m_set_change_parameter s)"
begin

lemma marked_iff:
  "cp \<notin> m_set_change_parameter s \<Longrightarrow> cp \<in> m_set_change_parameter (setp v s) \<longleftrightarrow> getp s \<noteq> v"
  by (cases "getp s = v") (simp_all add: set_same set_marks)

lemma marks_accumulate: "m_set_change_parameter s \<subseteq> m_set_change_parameter (setp v s)"
  by (cases "getp s = v") (auto simp: set_same set_marks)

lemma only_cp: "m_set_change_parameter (setp v s) \<subseteq> insert cp (m_set_change_parameter s)"
  by (cases "getp s = v") (auto simp: set_same set_marks)

lemma change_set: "m_set_change_parameter (setp v s) =
  (if getp s = v then m_set_change_parameter s else insert cp (m_set_change_parameter s))"
  by (cases "getp s = v") (simp_all add: set_same set_marks)

lemma set_twice: "setp v (setp v s) = setp v s"
  by (simp add: set_same get_set)

end

section \<open>Setters that keep the contract\<close>

lemmas change_tracked_defs = plain_setter_defs set_insert_change_set_def

interpretation p_send_condition: change_tracked m_b_global_pre_postfix_send_condition set_global_pre_postfix_send_condition cp_GlobalPrePostfixSendCondition
  by unfold_locales (simp_all add: change_tracked_defs)

interpretation p_interface: change_tracked m_interface set_interface cp_Interface
  by unfold_locales (simp_all add: change_tracked_defs)

interpretation p_buzzer: change_tracked m_dw_buzzer_frequency set_buzzer_frequency cp_BuzzerFrequency
  by unfold_locales (simp_all add: change_tracked_defs)

interpretation p_boot_run_time: change_tracked m_dw_boot_run_time set_boot_run_time cp_BootRunTime
  by unfold_locales (simp_all add: change_tracked_defs)

interpretation p_language: change_tracked m_language_index set_language cp_Language
  by unfold_locales (simp_all add: change_tracked_defs)

interpretation p_global_prefix: change_tracked m_v_global_prefix set_global_prefix cp_GlobalPrefix
  by unfold_locales (simp_all add: change_tracked_defs)

interpretation p_global_postfix: change_tracked m_v_global_postfix set_global_postfix cp_GlobalPostfix
  by unfold_locales (simp_all add: change_tracked_defs)

interpretation p_prefix_ibutton: change_tracked m_v_prefix_ibutton set_prefix_ibutton cp_Prefix_iButton
  by unfold_locales (simp_all add: change_tracked_defs)

interpretation p_postfix_ibutton: change_tracked m_v_postfix_ibutton set_postfix_ibutton cp_Postfix_iButton
  by unfold_locales (simp_all add: change_tracked_defs)

interpretation p_prefix_uart: change_tracked m_v_prefix_uart set_prefix_uart cp_Prefix_Uart
  by unfold_locales (simp_all add: change_tracked_defs)

interpretation p_postfix_uart: change_tracked m_v_postfix_uart set_postfix_uart cp_Postfix_Uart
  by unfold_locales (simp_all add: change_tracked_defs)

interpretation p_ibutton_remove: change_tracked m_v_ibutton_remove set_ibutton_remove cp_iButton_Remove
  by unfold_locales (simp_all add: change_tracked_defs)

interpretation p_prefix_ibutton_remove: change_tracked m_v_prefix_ibutton_remove set_prefix_ibutton_remove cp_Prefix_iButton_Remove
  by unfold_locales (simp_all add: change_tracked_defs)

interpretation p_postfix_ibutton_remove: change_tracked m_v_postfix_ibutton_remove set_postfix_ibutton_remove cp_Postfix_iButton_Remove
  by unfold_locales (simp_all add: change_tracked_defs)

text \<open>
  The ten parameters per combination keep it as well, for a track and a combination that exist; the
  recorded number is the one of that track and combination.
\<close>

lemma set_msr_tracked:
  assumes "is_iso_track t" "n \<le> 2"
    and "\<And>f s. sel (upd f s) = f (sel s)"
    and "\<And>f s. m_set_change_parameter (upd f s) = m_set_change_parameter s"
    and "\<And>c s. sel (s\<lparr>m_set_change_parameter := c\<rparr>) = sel s"
  shows "change_tracked (\<lambda>s. sel s (track_code t) n) (set_msr it sel upd t n)
           (cp_msr10 it + (track_code t * 3 + n))"
  using assms
  by unfold_locales (auto simp: set_msr_def set_insert_change_set_def upd2_def)

lemma msr_setters_tracked:
  assumes "is_iso_track t" "n \<le> 2"
  shows
    "change_tracked (\<lambda>s. m_n_msr_max_size s (track_code t) n) (set_msr_max_size t n)
       (cp_msr10 max_size + (track_code t * 3 + n))"
    "change_tracked (\<lambda>s. m_n_msr_bit_size s (track_code t) n) (set_msr_bit_size t n)
       (cp_msr10 bit_size + (track_code t * 3 + n))"
    "change_tracked (\<lambda>s. m_n_msr_data_mask s (track_code t) n) (set_msr_data_mask t n)
       (cp_msr10 data_mask + (track_code t * 3 + n))"
    "change_tracked (\<lambda>s. m_b_msr_use_parity s (track_code t) n) (set_msr_use_parity t n)
       (cp_msr10 use_parity + (track_code t * 3 + n))"
    "change_tracked (\<lambda>s. m_c_msr_parity_type s (track_code t) n) (set_msr_parity_type t n)
       (cp_msr10 parity_type + (track_code t * 3 + n))"
    "change_tracked (\<lambda>s. m_c_msr_stxl s (track_code t) n) (set_msr_stxl t n)
       (cp_msr10 stxl + (track_code t * 3 + n))"
    "change_tracked (\<lambda>s. m_c_msr_etxl s (track_code t) n) (set_msr_etxl t n)
       (cp_msr10 etxl + (track_code t * 3 + n))"
    "change_tracked (\<lambda>s. m_b_msr_use_error_correct s (track_code t) n) (set_msr_use_error_correct t n)
       (cp_msr10 use_error_correct + (track_code t * 3 + n))"
    "change_tracked (\<lambda>s. m_c_msr_ecm_type s (track_code t) n) (set_msr_ecm_type t n)
       (cp_msr10 ecm_type + (track_code t * 3 + n))"
    "change_tracked (\<lambda>s. m_n_msr_add_value s (track_code t) n) (set_msr_add_value t n)
       (cp_msr10 add_value + (track_code t * 3 + n))"
  unfolding msr_setter_defs by (rule set_msr_tracked; simp add: assms)+

text \<open>A track or a combination that does not exist leaves the state alone.\<close>

lemma set_msr_out_of_range:
  "\<not> is_iso_track t \<or> n > 2 \<Longrightarrow> set_msr it sel upd t n v s = s"
  by (auto simp: set_msr_def)

text \<open>
  Two of the enumerators coincide only for the same parameter, track and combination, and none of
  them runs into an enumerator of another parameter.
\<close>

lemma cp_msr_offset_inject:
  "cp_msr10 it + x = cp_msr10 it' + y \<Longrightarrow> x < 9 \<Longrightarrow> y < 9 \<Longrightarrow> it = it' \<and> x = y"
  by (cases it; cases it'; simp)

lemma cp_track_offset:
  "is_iso_track t \<Longrightarrow> n \<le> 2 \<Longrightarrow> track_code t * 3 + n < 9"
  by (cases t) auto

lemma cp_track_offset_inject:
  "is_iso_track t \<Longrightarrow> is_iso_track t' \<Longrightarrow> n \<le> 2 \<Longrightarrow> n' \<le> 2 \<Longrightarrow>
     track_code t * 3 + n = track_code t' * 3 + n' \<Longrightarrow> t = t' \<and> n = n'"
  by (cases t; cases t'; simp)

lemma cp_msr_inject:
  assumes "is_iso_track t" "is_iso_track t'" "n \<le> 2" "n' \<le> 2"
    and "cp_msr10 it + (track_code t * 3 + n) = cp_msr10 it' + (track_code t' * 3 + n')"
  shows "it = it' \<and> t = t' \<and> n = n'"
  using cp_msr_offset_inject [OF assms(5)] cp_track_offset_inject [OF assms(1-4)]
    cp_track_offset assms by blast

lemma cp_msr_range:
  "is_iso_track t \<Longrightarrow> n \<le> 2 \<Longrightarrow>
     cp_Combination1 + 2 < cp_msr10 it + (track_code t * 3 + n) \<and>
     cp_msr10 it + (track_code t * 3 + n) < cp_GlobalPrefix"
  by (cases it; cases t; auto simp: cp_codes)

lemma cp_private_range:
  "is_iso_track t \<Longrightarrow> n \<le> 2 \<Longrightarrow>
     cp_PrivatePrefix10 + (track_code t * 3 + n) < cp_PrivatePostfix10 \<and>
     cp_PrivatePostfix10 + (track_code t * 3 + n) < cp_Prefix_iButton"
  by (cases t; auto simp: cp_codes)

section \<open>The blanks and their mirrors\<close>

text \<open>
  The boolean and index members that \<open>_set_blanks_by_rx\<close> derives from the \<open>cBlank\<close> bytes. The
  getters read these members, \<open>generate_set_parameters\<close> sends the bytes: the object is consistent
  when they agree.
\<close>

definition ibutton_mirrors :: "proto \<Rightarrow> bool" where
  "ibutton_mirrors s =
     (m_b_f12_ibutton s = (m_c_blank s 2 AND 0x01 \<noteq> 0) \<and>
      m_b_zeros_ibutton s = (m_c_blank s 2 AND 0x02 = 0) \<and>
      m_b_zeros_7times_ibutton s = (m_c_blank s 2 AND 0x04 \<noteq> 0) \<and>
      m_b_addmit_code_stick_ibutton s = (m_c_blank s 2 AND 0x08 \<noteq> 0))"

definition code_index_mirrors :: "proto \<Rightarrow> bool" where
  "code_index_mirrors s =
     (m_c_ibutton_start_code_zero_base_index s = drop_bit 4 (m_c_blank s 0) \<and>
      m_c_ibutton_stop_code_zero_base_index s = m_c_blank s 0 AND 0x0F)"

definition blank1_mirrors :: "proto \<Rightarrow> bool" where
  "blank1_mirrors s =
     (m_c_mmd1100_reset_interval s = drop_bit 4 (m_c_blank s 1) \<and>
      m_b_indicate_success_if_any_trace_ok s = (m_c_blank s 1 AND 0x01 \<noteq> 0) \<and>
      m_b_ignore_1track_if_12_is_equal s = (m_c_blank s 1 AND 0x02 \<noteq> 0) \<and>
      m_b_ignore_3track_if_12_is_equal s = (m_c_blank s 1 AND 0x04 \<noteq> 0) \<and>
      m_b_ignore_colron s = (m_c_blank s 1 AND 0x08 \<noteq> 0))"

definition iso_mode_mirror :: "proto \<Rightarrow> bool" where
  "iso_mode_mirror s = (m_b_mmd1100_is_iso_mode s = (m_c_blank s 3 AND 0x08 \<noteq> 0))"

lemmas mirror_defs =
  ibutton_mirrors_def code_index_mirrors_def blank1_mirrors_def iso_mode_mirror_def

lemma iso_mode_mirror_kept:
  "iso_mode_mirror s \<Longrightarrow> iso_mode_mirror (set_enable_mmd1100_iso_mode b s)"
  by (auto simp: iso_mode_mirror_def set_enable_mmd1100_iso_mode_def blank_field_def
      set_blank_def set_insert_change_set_def byte_bit_tests byte_masks bit_simps Let_def)

lemma code_index_mirrors_start:
  "code_index_mirrors s \<Longrightarrow> code_index_mirrors (set_ibutton_start_code_zero_base_index i s)"
  by (auto simp: code_index_mirrors_def set_ibutton_start_code_zero_base_index_def
      blank_field_def set_blank_def Let_def not_less high_nibble high_nibble_same nibble_simps)

lemma code_index_mirrors_stop:
  "code_index_mirrors s \<Longrightarrow> code_index_mirrors (set_ibutton_stop_code_zero_base_index i s)"
  by (auto simp: code_index_mirrors_def set_ibutton_stop_code_zero_base_index_def
      blank_field_def set_blank_def Let_def not_less low_nibble nibble_simps)

lemma blank1_mirrors_interval:
  "blank1_mirrors s \<Longrightarrow> blank1_mirrors (set_mmd1100_reset_interval i s)"
  by (auto simp: blank1_mirrors_def set_mmd1100_reset_interval_def blank_field_def set_blank_def
      Let_def not_less high_nibble_same nibble_simps byte_bit_tests byte_masks bit_simps)

lemma blank1_mirrors_flags:
  assumes "blank1_mirrors s"
  shows "blank1_mirrors (set_indicate_success_if_any_trace_ok b s)"
    "blank1_mirrors (set_ignore_1track_if_12_is_equal b s)"
    "blank1_mirrors (set_ignore_3track_if_12_is_equal b s)"
    "blank1_mirrors (set_ignore_colron b s)"
  using assms
  by (auto simp: blank1_mirrors_def set_blank1_bit_def set_blank_def Let_def byte_bit_tests
      set_indicate_success_if_any_trace_ok_def set_ignore_1track_if_12_is_equal_def
      set_ignore_3track_if_12_is_equal_def set_ignore_colron_def bit_simps nibble_simps
      split: if_splits)

section \<open>Properties\<close>

text \<open>A plain setter records its parameter exactly when the value is a new one, and records no
  other parameter.\<close>

theorem plain_setters_record_changes:
  "m_set_change_parameter (set_global_pre_postfix_send_condition b s) =
     (if m_b_global_pre_postfix_send_condition s = b then m_set_change_parameter s
      else insert cp_GlobalPrePostfixSendCondition (m_set_change_parameter s))
   \<and> m_set_change_parameter (set_interface i s) =
     (if m_interface s = i then m_set_change_parameter s
      else insert cp_Interface (m_set_change_parameter s))
   \<and> m_set_change_parameter (set_buzzer_frequency w s) =
     (if m_dw_buzzer_frequency s = w then m_set_change_parameter s
      else insert cp_BuzzerFrequency (m_set_change_parameter s))
   \<and> m_set_change_parameter (set_language l s) =
     (if m_language_index s = l then m_set_change_parameter s
      else insert cp_Language (m_set_change_parameter s))
   \<and> m_set_change_parameter (set_global_prefix v s) =
     (if m_v_global_prefix s = v then m_set_change_parameter s
      else insert cp_GlobalPrefix (m_set_change_parameter s))
   \<and> m_set_change_parameter (set_ibutton_remove v s) =
     (if m_v_ibutton_remove s = v then m_set_change_parameter s
      else insert cp_iButton_Remove (m_set_change_parameter s))"
  by (intro conjI p_send_condition.change_set p_interface.change_set p_buzzer.change_set
      p_language.change_set p_global_prefix.change_set p_ibutton_remove.change_set)

text \<open>A per-combination setter records the parameter of its own track and combination and no
  other: the numbers computed from track and combination never run into those of another member,
  track or combination.\<close>

theorem msr_setter_records_its_own:
  assumes "is_iso_track t" "n \<le> 2" "is_iso_track t'" "n' \<le> 2"
    and "cp_msr10 it' + (track_code t' * 3 + n') \<notin> m_set_change_parameter s"
  shows "cp_msr10 it' + (track_code t' * 3 + n')
       \<in> m_set_change_parameter (set_msr_max_size t n v s)
     \<longleftrightarrow> it' = max_size \<and> t' = t \<and> n' = n \<and> m_n_msr_max_size s (track_code t) n \<noteq> v"
proof -
  have tr: "change_tracked (\<lambda>s. m_n_msr_max_size s (track_code t) n) (set_msr_max_size t n)
      (cp_msr10 max_size + (track_code t * 3 + n))"
    by (rule msr_setters_tracked(1) [OF assms(1,2)])
  have inj: "cp_msr10 it' + (track_code t' * 3 + n') = cp_msr10 max_size + (track_code t * 3 + n)
      \<longleftrightarrow> it' = max_size \<and> t' = t \<and> n' = n"
    using cp_msr_inject [OF assms(3,1,4,2)] by (metis (no_types))
  show ?thesis
    by (cases "m_n_msr_max_size s (track_code t) n = v")
      (simp_all only: change_tracked.change_set [OF tr] if_True if_False insert_iff inj assms(5)
        simp_thms)
qed

theorem msr_setter_records_its_own_witness:
  "cp_msr10 max_size + (track_code iso2_track * 3 + 1)
       \<in> m_set_change_parameter (set_msr_max_size iso2_track 1 99 reset_state)
     \<longleftrightarrow> max_size = max_size \<and> iso2_track = iso2_track \<and> (1 :: nat) = 1
         \<and> m_n_msr_max_size reset_state (track_code iso2_track) 1 \<noteq> 99"
  by (rule msr_setter_records_its_own) (simp_all add: reset_state_def)

text \<open>Seven of the setters of the \<open>cBlank\<close> bytes change what would be sent but record nothing: the
  change set after them is the change set before.\<close>

theorem blank_setters_record_nothing:
  "m_set_change_parameter (set_ibutton_start_code_zero_base_index i s) = m_set_change_parameter s
   \<and> m_set_change_parameter (set_ibutton_stop_code_zero_base_index i s) = m_set_change_parameter s
   \<and> m_set_change_parameter (set_mmd1100_reset_interval i s) = m_set_change_parameter s
   \<and> m_set_change_parameter (set_indicate_success_if_any_trace_ok b s) = m_set_change_parameter s
   \<and> m_set_change_parameter (set_ignore_1track_if_12_is_equal b s) = m_set_change_parameter s
   \<and> m_set_change_parameter (set_ignore_3track_if_12_is_equal b s) = m_set_change_parameter s
   \<and> m_set_change_parameter (set_ignore_colron b s) = m_set_change_parameter s"
  by (simp add: blank_setter_defs blank_field_def set_blank_def Let_def)

text \<open>The setters of the index, interval, flag and decoder mode fields keep the members that the
  getters read in agreement with the \<open>cBlank\<close> bytes that are sent.\<close>

theorem blank_setters_keep_mirrors:
  assumes "code_index_mirrors s" "blank1_mirrors s" "iso_mode_mirror s"
  shows "code_index_mirrors (set_ibutton_start_code_zero_base_index i s)
   \<and> code_index_mirrors (set_ibutton_stop_code_zero_base_index i s)
   \<and> blank1_mirrors (set_mmd1100_reset_interval i s)
   \<and> blank1_mirrors (set_indicate_success_if_any_trace_ok b s)
   \<and> blank1_mirrors (set_ignore_1track_if_12_is_equal b s)
   \<and> blank1_mirrors (set_ignore_3track_if_12_is_equal b s)
   \<and> blank1_mirrors (set_ignore_colron b s)
   \<and> iso_mode_mirror (set_enable_mmd1100_iso_mode b s)"
  using assms
  by (simp add: code_index_mirrors_start code_index_mirrors_stop blank1_mirrors_interval
      blank1_mirrors_flags iso_mode_mirror_kept)

definition consistent_example :: proto where
  "consistent_example = reset_state\<lparr>m_c_ibutton_stop_code_zero_base_index := 0\<rparr>"

theorem blank_setters_keep_mirrors_witness:
  "code_index_mirrors (set_ibutton_start_code_zero_base_index 3 consistent_example)
   \<and> code_index_mirrors (set_ibutton_stop_code_zero_base_index 3 consistent_example)
   \<and> blank1_mirrors (set_mmd1100_reset_interval 3 consistent_example)
   \<and> blank1_mirrors (set_indicate_success_if_any_trace_ok True consistent_example)
   \<and> blank1_mirrors (set_ignore_1track_if_12_is_equal True consistent_example)
   \<and> blank1_mirrors (set_ignore_3track_if_12_is_equal True consistent_example)
   \<and> blank1_mirrors (set_ignore_colron True consistent_example)
   \<and> iso_mode_mirror (set_enable_mmd1100_iso_mode True consistent_example)"
  by (rule blank_setters_keep_mirrors)
    (simp_all add: consistent_example_def reset_state_def mirror_defs)

text \<open>The four i-button mode setters do not: switching from F12 to "no zeros" rewrites the whole
  low nibble of \<open>cBlank[2]\<close>, but the F12 member keeps its value, so the getter goes on to report F12
  mode while the byte that is sent has it off.\<close>

theorem ibutton_mode_mirror_stale:
  assumes "m_c_blank s 2 AND 0x0F = 0"
  shows "m_b_f12_ibutton (set_enable_zeros_ibutton False (set_enable_f12_ibutton True s))
     \<and> m_c_blank (set_enable_zeros_ibutton False (set_enable_f12_ibutton True s)) 2 AND 0x01 = 0
     \<and> \<not> ibutton_mirrors (set_enable_zeros_ibutton False (set_enable_f12_ibutton True s))"
proof -
  have low: "(x AND 0xF0 OR c) AND 0x0F = c AND 0x0F" for x c :: byte
    by (rule bit_word_eqI) (auto simp: byte_masks bit_simps)
  have f12: "set_enable_f12_ibutton True s =
      set_insert_change_set cp_Blanks (blank_field 2 0xF0 0x01 (s\<lparr>m_b_f12_ibutton := True\<rparr>))"
    using assms by (simp add: set_enable_f12_ibutton_def)
  have bits: "\<not> bit (x AND 0xF0 OR 0x02 :: byte) 0" for x
    by (simp add: byte_masks bit_simps)
  show ?thesis
    using bits
    by (simp add: f12 set_enable_zeros_ibutton_def blank_field_def set_blank_def
        set_insert_change_set_def low Let_def ibutton_mirrors_def byte_bit_tests)
qed

theorem ibutton_mode_mirror_stale_witness:
  "m_b_f12_ibutton (set_enable_zeros_ibutton False (set_enable_f12_ibutton True reset_state))
     \<and> m_c_blank (set_enable_zeros_ibutton False (set_enable_f12_ibutton True reset_state)) 2
         AND 0x01 = 0
     \<and> \<not> ibutton_mirrors
           (set_enable_zeros_ibutton False (set_enable_f12_ibutton True reset_state))"
  by (rule ibutton_mode_mirror_stale) (simp add: reset_state_def)

text \<open>In a new object the stop index member is 15 while the nibble that is sent is 0; setting the
  stop index to 0 finds the nibble unchanged and leaves the member at 15.\<close>

theorem fresh_stop_index_not_settable:
  "m_c_ibutton_stop_code_zero_base_index (set_ibutton_stop_code_zero_base_index 0 (reset s)) = 15
   \<and> m_c_blank (set_ibutton_stop_code_zero_base_index 0 (reset s)) 0 = 0"
  by (simp add: reset_def reset_state_def set_ibutton_stop_code_zero_base_index_def Let_def)

end
