(* ===== verification/ProtoSet.thy ===== *)
theory ProtoSet
  imports ProtoGet ProtoSetter KeyMapPs2
begin

text \<open>
  The \<open>_generate_set_*\<close> functions: every one queues a request that writes the cached value of one
  parameter to its place in the configuration block. The lemmas show what each appends and that
  it is written where the matching \<open>_generate_get_*\<close> reads it - with the one exception that the
  source has, track 3 with combination 2 of the ten per-combination members.
\<close>

section \<open>Plain parameters\<close>

definition generate_set_global_pre_postfix_send_condition :: "proto op" where
  "generate_set_global_pre_postfix_send_condition s =
     generate_config_set (reg_container nGlobalTagCondition)
       (enc_flag32 (m_b_global_pre_postfix_send_condition s)) s"

definition generate_set_interface_request :: "proto op" where
  "generate_set_interface_request s =
     generate_config_set (reg_sys Interface) (enc_byte (m_interface s)) s"

text \<open>The mapping table index goes to the container and to every combination of every track.\<close>

definition language_regions :: "region list" where
  "language_regions =
     [reg_container_map_index,
      reg_msr_map_index 0 0, reg_msr_map_index 1 0, reg_msr_map_index 2 0,
      reg_msr_map_index 0 1, reg_msr_map_index 1 1, reg_msr_map_index 2 1,
      reg_msr_map_index 0 2, reg_msr_map_index 1 2, reg_msr_map_index 2 2]"

definition generate_set_language :: "proto op" where
  "generate_set_language s =
     (let n_mapping_table_index = enc_byte32 (m_language_index s)
      in run_all (map (\<lambda>r. generate_config_set r n_mapping_table_index) language_regions) s)"

definition buzzer_frequency_to_send :: "proto \<Rightarrow> u32" where
  "buzzer_frequency_to_send s =
     (let n_freq = m_dw_buzzer_frequency s;
          n_freq = (if m_b_device_is_mmd1000 s
                    then if n_freq = default_buzzer_frequency
                         then default_buzzer_frequency_for_wiznova_board else n_freq
                    else n_freq)
      in if get_major (m_version s) > 4 \<and> n_freq = default_buzzer_frequency_for_wiznova_board
         then default_buzzer_frequency else n_freq)"

definition generate_set_buzzer_frequency :: "proto op" where
  "generate_set_buzzer_frequency s =
     generate_config_set (reg_sys nBuzzerFrequency) (le32 (buzzer_frequency_to_send s)) s"

definition generate_set_blanks :: "proto op" where
  "generate_set_blanks s =
     generate_config_set (reg_sys cBlank) (map (m_c_blank s) [0, 1, 2, 3]) s"

definition generate_set_order_of_track :: "proto op" where
  "generate_set_order_of_track s =
     generate_config_set (reg_container nOrderObject)
       (concat (map le32 (get_order_of_track_by_vector s))) s"

section \<open>Parameters of a track\<close>

definition generate_set_enable_track :: "track \<Rightarrow> proto op" where
  "generate_set_enable_track t s =
     switch_track
       (\<lambda>i. generate_config_set (reg_msr i cEnableTrack) (enc_flag (get_enable_iso t s))) t s"

text \<open>The member is read before the switch: a global track is an index outside the array.\<close>

definition generate_set_direction :: "track \<Rightarrow> proto op" where
  "generate_set_direction t s =
     (case get_direction t s of
        None \<Rightarrow> None
      | Some data \<Rightarrow>
          switch_track
            (\<lambda>i. generate_config_set (reg_msr_elem i cRDirect 0) (enc_byte data)) t s)"

definition generate_set_combination :: "track \<Rightarrow> proto op" where
  "generate_set_combination t s =
     (case get_combination t s of
        None \<Rightarrow> None
      | Some data \<Rightarrow>
          switch_track
            (\<lambda>i. generate_config_set (reg_msr i cSupportNum) (enc_u32_byte data)) t s)"

text \<open>
  The address of \<open>InfoMsr[track].member[n_combi]\<close> in the ten \<open>_generate_set_msr_*\<close> functions. For
  track 3 and combination 2 all ten of them have \<open>offsetof(SYSINFO, InfoMsr[2].member[0])\<close>.
\<close>

definition msr_set_region :: "info_msr_member \<Rightarrow> nat \<Rightarrow> nat \<Rightarrow> region" where
  "msr_set_region m i k =
     (if k = 2 \<and> i = 2 then (fst (reg_msr_elem 2 m 0), snd (reg_msr_elem 2 m 2))
      else reg_msr_elem i m k)"

definition generate_set_msr_elem ::
  "info_msr_member \<Rightarrow> (proto \<Rightarrow> nat \<Rightarrow> nat \<Rightarrow> 'v) \<Rightarrow> ('v \<Rightarrow> bytes) \<Rightarrow> track \<Rightarrow> int \<Rightarrow> proto op" where
  "generate_set_msr_elem m sel enc t n_combi s =
     (if n_combi < 0 \<or> n_combi > 2 then Some (False, s)
      else
        case get_at2 (sel s) t n_combi of
          None \<Rightarrow> None
        | Some data \<Rightarrow>
            switch_track
              (\<lambda>i. generate_config_set (msr_set_region m i (nat n_combi)) (enc data)) t s)"

definition generate_set_msr_max_size :: "track \<Rightarrow> int \<Rightarrow> proto op" where
  "generate_set_msr_max_size = generate_set_msr_elem cMaxSize m_n_msr_max_size enc_u32_byte"

definition generate_set_msr_bit_size :: "track \<Rightarrow> int \<Rightarrow> proto op" where
  "generate_set_msr_bit_size = generate_set_msr_elem cBitSize m_n_msr_bit_size enc_u32_byte"

definition generate_set_msr_data_mask :: "track \<Rightarrow> int \<Rightarrow> proto op" where
  "generate_set_msr_data_mask = generate_set_msr_elem cDataMask m_n_msr_data_mask enc_byte"

definition generate_set_msr_use_parity :: "track \<Rightarrow> int \<Rightarrow> proto op" where
  "generate_set_msr_use_parity = generate_set_msr_elem bUseParity m_b_msr_use_parity enc_flag"

definition generate_set_msr_parity_type :: "track \<Rightarrow> int \<Rightarrow> proto op" where
  "generate_set_msr_parity_type = generate_set_msr_elem cParityType m_c_msr_parity_type enc_byte"

definition generate_set_msr_stxl :: "track \<Rightarrow> int \<Rightarrow> proto op" where
  "generate_set_msr_stxl = generate_set_msr_elem cSTX_L m_c_msr_stxl enc_byte"

definition generate_set_msr_etxl :: "track \<Rightarrow> int \<Rightarrow> proto op" where
  "generate_set_msr_etxl = generate_set_msr_elem cETX_L m_c_msr_etxl enc_byte"

definition generate_set_msr_use_error_correct :: "track \<Rightarrow> int \<Rightarrow> proto op" where
  "generate_set_msr_use_error_correct = generate_set_msr_elem bUseErrorCorrect m_b_msr_use_error_correct enc_flag"

definition generate_set_msr_ecm_type :: "track \<Rightarrow> int \<Rightarrow> proto op" where
  "generate_set_msr_ecm_type = generate_set_msr_elem cECMType m_c_msr_ecm_type enc_byte"

definition generate_set_msr_add_value :: "track \<Rightarrow> int \<Rightarrow> proto op" where
  "generate_set_msr_add_value = generate_set_msr_elem cAddValue m_n_msr_add_value enc_u32_byte"

lemmas msr_set_defs =
  generate_set_msr_max_size_def
  generate_set_msr_bit_size_def
  generate_set_msr_data_mask_def
  generate_set_msr_use_parity_def
  generate_set_msr_parity_type_def
  generate_set_msr_stxl_def
  generate_set_msr_etxl_def
  generate_set_msr_use_error_correct_def
  generate_set_msr_ecm_type_def
  generate_set_msr_add_value_def

section \<open>Tags\<close>

text \<open>
  \<open>MSR_TAG Tag; memset(&Tag, 0, ..); _get_tag_from_type_tag(Tag, tag); _generate_config_set(..)\<close>.
  The copy into the tag has no bound: a longer tag is written beyond it.
\<close>

definition generate_set_tag :: "region \<Rightarrow> nat \<Rightarrow> bytes \<Rightarrow> proto op" where
  "generate_set_tag r cap v s =
     (case filled_tag cap v of
        None \<Rightarrow> None
      | Some d \<Rightarrow> generate_config_set r d s)"

definition generate_set_global_prefix :: "proto op" where
  "generate_set_global_prefix s =
     generate_set_tag (reg_container ContGlobalPrefix) MSROBJ_INFO_DEF_TAG_SIZE
       (m_v_global_prefix s) s"

definition generate_set_global_postfix :: "proto op" where
  "generate_set_global_postfix s =
     generate_set_tag (reg_container ContGlobalPostfix) MSROBJ_INFO_DEF_TAG_SIZE
       (m_v_global_postfix s) s"

definition generate_set_ibutton_prefix :: "proto op" where
  "generate_set_ibutton_prefix s =
     generate_set_tag (reg_std_pp InfoIButton GlobalPrefix) MSROBJ_INFO_DEF_TAG_SIZE
       (m_v_prefix_ibutton s) s"

definition generate_set_ibutton_postfix :: "proto op" where
  "generate_set_ibutton_postfix s =
     generate_set_tag (reg_std_pp InfoIButton GlobalPostfix) MSROBJ_INFO_DEF_TAG_SIZE
       (m_v_postfix_ibutton s) s"

definition generate_set_uart_prefix :: "proto op" where
  "generate_set_uart_prefix s =
     generate_set_tag (reg_std_pp InfoUart GlobalPrefix) MSROBJ_INFO_DEF_TAG_SIZE
       (m_v_prefix_uart s) s"

definition generate_set_uart_postfix :: "proto op" where
  "generate_set_uart_postfix s =
     generate_set_tag (reg_std_pp InfoUart GlobalPostfix) MSROBJ_INFO_DEF_TAG_SIZE
       (m_v_postfix_uart s) s"

definition generate_set_ibutton_prefix_remove :: "proto op" where
  "generate_set_ibutton_prefix_remove s =
     generate_set_tag (reg_std_pp InfoIButtonRemove GlobalPrefix) MSROBJ_INFO_DEF_TAG_SIZE
       (m_v_prefix_ibutton_remove s) s"

definition generate_set_ibutton_postfix_remove :: "proto op" where
  "generate_set_ibutton_postfix_remove s =
     generate_set_tag (reg_std_pp InfoIButtonRemove GlobalPostfix) MSROBJ_INFO_DEF_TAG_SIZE
       (m_v_postfix_ibutton_remove s) s"

definition generate_set_ibutton_remove :: "proto op" where
  "generate_set_ibutton_remove s =
     generate_set_tag (reg_std RemoveItemTag) REMOVE_IBUTTON_DEF_TAG_SIZE
       (m_v_ibutton_remove s) s"

lemmas plain_tag_set_defs =
  generate_set_global_prefix_def
  generate_set_global_postfix_def
  generate_set_ibutton_prefix_def
  generate_set_ibutton_postfix_def
  generate_set_uart_prefix_def
  generate_set_uart_postfix_def
  generate_set_ibutton_prefix_remove_def
  generate_set_ibutton_postfix_remove_def
  generate_set_ibutton_remove_def

text \<open>The private tags: the combination is checked, then the tag is built, then the track is.\<close>

definition generate_set_private_tag ::
  "info_msr_member \<Rightarrow> (proto \<Rightarrow> nat \<Rightarrow> nat \<Rightarrow> bytes) \<Rightarrow> track \<Rightarrow> int \<Rightarrow> proto op" where
  "generate_set_private_tag m sel t n_combi s =
     (if n_combi < 0 \<or> n_combi > 2 then Some (False, s)
      else
        case get_at2 (sel s) t n_combi of
          None \<Rightarrow> None
        | Some v \<Rightarrow>
            (case filled_tag MSROBJ_INFO_DEF_TAG_SIZE v of
               None \<Rightarrow> None
             | Some d \<Rightarrow>
                 switch_track
                   (\<lambda>i. generate_config_set (reg_msr_elem i m (nat n_combi)) d) t s))"

definition generate_set_private_prefix :: "track \<Rightarrow> int \<Rightarrow> proto op" where
  "generate_set_private_prefix = generate_set_private_tag PrivatePrefix m_v_private_prefix"

definition generate_set_private_postfix :: "track \<Rightarrow> int \<Rightarrow> proto op" where
  "generate_set_private_postfix = generate_set_private_tag PrivatePostfix m_v_private_postfix"

section \<open>Key maps\<close>

definition address_system_hid_key_map_offset :: nat where
  "address_system_hid_key_map_offset = 0x400"

definition address_system_ps2_key_map_offset :: nat where
  "address_system_ps2_key_map_offset = 0x800"

definition FOR_CVT_MAX_ASCII_CODE :: nat where "FOR_CVT_MAX_ASCII_CODE = 130"

lemmas key_map_consts =
  address_system_hid_key_map_offset_def address_system_ps2_key_map_offset_def
  FOR_CVT_MAX_ASCII_CODE_def

text \<open>A pointer into the key map table, or none when the language is outside the table.\<close>

definition config_set_from :: "region \<Rightarrow> bytes option \<Rightarrow> proto op" where
  "config_set_from r p s =
     (case p of None \<Rightarrow> None | Some d \<Rightarrow> generate_config_set r d s)"

text \<open>\<open>b_result = f(); b_result = g();\<close>: the second runs whatever the first returned.\<close>

definition and_then :: "'s op \<Rightarrow> 's op \<Rightarrow> 's op" where
  "and_then f g s = (case f s of None \<Rightarrow> None | Some (b_result, s') \<Rightarrow> g s')"

definition key_map_download ::
  "nat \<Rightarrow> (nat \<Rightarrow> nat \<Rightarrow> nat \<Rightarrow> bytes option) \<Rightarrow> nat \<Rightarrow> proto op" where
  "key_map_download addr get_map n_language =
     and_then
       (config_set_from (addr, FOR_CVT_MAX_ASCII_CODE) (get_map n_language 0 0))
       (config_set_from (addr + FOR_CVT_MAX_ASCII_CODE, FOR_CVT_MAX_ASCII_CODE)
          (get_map n_language (FOR_CVT_MAX_ASCII_CODE div 2) 0))"

definition generate_set_key_map :: "proto op" where
  "generate_set_key_map s =
     (let n_mapping_table_index = unat (m_language_index s);
          hid = key_map_download address_system_hid_key_map_offset get_ascii_to_hid_key_map
                  n_mapping_table_index
      in if get_name_by_string s \<noteq> ''europa'' \<and> get_name_by_string s \<noteq> ''elara''
         then and_then hid
                (key_map_download address_system_ps2_key_map_offset get_ascii_to_ps2_key_map
                   n_mapping_table_index) s
         else hid s)"

definition generate_set_key_map_for_debugging :: "proto op" where
  "generate_set_key_map_for_debugging =
     key_map_download address_system_hid_key_map_offset get_ascii_to_hid_key_map
       (unat language_map_index_english)"

section \<open>Pushing requests leaves the parameters alone\<close>

lemma proto_push_all [simp]:
  "m_set_change_parameter (push_all rs s) = m_set_change_parameter s"
  "m_b_global_pre_postfix_send_condition (push_all rs s) = m_b_global_pre_postfix_send_condition s"
  "m_manufacture (push_all rs s) = m_manufacture s"
  "m_v_uid (push_all rs s) = m_v_uid s"
  "m_device_function (push_all rs s) = m_device_function s"
  "m_v_name (push_all rs s) = m_v_name s"
  "m_version (push_all rs s) = m_version s"
  "m_version_structure (push_all rs s) = m_version_structure s"
  "m_b_device_is_mmd1000 (push_all rs s) = m_b_device_is_mmd1000 s"
  "m_b_device_is_ibutton_only (push_all rs s) = m_b_device_is_ibutton_only s"
  "m_b_device_is_standard (push_all rs s) = m_b_device_is_standard s"
  "m_interface (push_all rs s) = m_interface s"
  "m_dw_buzzer_frequency (push_all rs s) = m_dw_buzzer_frequency s"
  "m_dw_boot_run_time (push_all rs s) = m_dw_boot_run_time s"
  "m_language_index (push_all rs s) = m_language_index s"
  "m_b_enable_iso (push_all rs s) = m_b_enable_iso s"
  "m_direction (push_all rs s) = m_direction s"
  "m_n_order_of_track (push_all rs s) = m_n_order_of_track s"
  "m_n_combination (push_all rs s) = m_n_combination s"
  "m_n_msr_max_size (push_all rs s) = m_n_msr_max_size s"
  "m_n_msr_bit_size (push_all rs s) = m_n_msr_bit_size s"
  "m_n_msr_data_mask (push_all rs s) = m_n_msr_data_mask s"
  "m_b_msr_use_parity (push_all rs s) = m_b_msr_use_parity s"
  "m_c_msr_parity_type (push_all rs s) = m_c_msr_parity_type s"
  "m_c_msr_stxl (push_all rs s) = m_c_msr_stxl s"
  "m_c_msr_etxl (push_all rs s) = m_c_msr_etxl s"
  "m_b_msr_use_error_correct (push_all rs s) = m_b_msr_use_error_correct s"
  "m_c_msr_ecm_type (push_all rs s) = m_c_msr_ecm_type s"
  "m_n_msr_add_value (push_all rs s) = m_n_msr_add_value s"
  "m_v_global_prefix (push_all rs s) = m_v_global_prefix s"
  "m_v_global_postfix (push_all rs s) = m_v_global_postfix s"
  "m_v_private_prefix (push_all rs s) = m_v_private_prefix s"
  "m_v_private_postfix (push_all rs s) = m_v_private_postfix s"
  "m_v_prefix_ibutton (push_all rs s) = m_v_prefix_ibutton s"
  "m_v_postfix_ibutton (push_all rs s) = m_v_postfix_ibutton s"
  "m_b_f12_ibutton (push_all rs s) = m_b_f12_ibutton s"
  "m_b_zeros_ibutton (push_all rs s) = m_b_zeros_ibutton s"
  "m_b_zeros_7times_ibutton (push_all rs s) = m_b_zeros_7times_ibutton s"
  "m_b_addmit_code_stick_ibutton (push_all rs s) = m_b_addmit_code_stick_ibutton s"
  "m_c_ibutton_start_code_zero_base_index (push_all rs s) = m_c_ibutton_start_code_zero_base_index s"
  "m_c_ibutton_stop_code_zero_base_index (push_all rs s) = m_c_ibutton_stop_code_zero_base_index s"
  "m_b_mmd1100_is_iso_mode (push_all rs s) = m_b_mmd1100_is_iso_mode s"
  "m_c_mmd1100_reset_interval (push_all rs s) = m_c_mmd1100_reset_interval s"
  "m_b_indicate_success_if_any_trace_ok (push_all rs s) = m_b_indicate_success_if_any_trace_ok s"
  "m_b_ignore_1track_if_12_is_equal (push_all rs s) = m_b_ignore_1track_if_12_is_equal s"
  "m_b_ignore_3track_if_12_is_equal (push_all rs s) = m_b_ignore_3track_if_12_is_equal s"
  "m_b_ignore_colron (push_all rs s) = m_b_ignore_colron s"
  "m_c_blank (push_all rs s) = m_c_blank s"
  "m_v_ibutton_remove (push_all rs s) = m_v_ibutton_remove s"
  "m_v_prefix_ibutton_remove (push_all rs s) = m_v_prefix_ibutton_remove s"
  "m_v_postfix_ibutton_remove (push_all rs s) = m_v_postfix_ibutton_remove s"
  "m_v_prefix_uart (push_all rs s) = m_v_prefix_uart s"
  "m_v_postfix_uart (push_all rs s) = m_v_postfix_uart s"
  "m_token_format (push_all rs s) = m_token_format s"
  by (simp_all add: push_all_def)

lemma getters_push_all [simp]:
  "get_name_by_string (push_all rs s) = get_name_by_string s"
  "get_enable_iso t (push_all rs s) = get_enable_iso t s"
  "get_direction t (push_all rs s) = get_direction t s"
  "get_combination t (push_all rs s) = get_combination t s"
  "get_order_of_track_by_vector (push_all rs s) = get_order_of_track_by_vector s"
  "buzzer_frequency_to_send (push_all rs s) = buzzer_frequency_to_send s"
  by (simp_all add: get_name_by_string_def get_enable_iso_def get_direction_def
      get_combination_def get_order_of_track_by_vector_def buzzer_frequency_to_send_def
      split: track.split)

section \<open>What the set functions append\<close>

text \<open>A value that is known to have the size of its region.\<close>

lemma config_set_generator:
  assumes "\<And>s. length (d s) = snd r" "\<And>rs s. d (push_all rs s) = d s"
  shows "request_generator (\<lambda>s. generate_config_set r (d s) s) (\<lambda>_. True)
     (\<lambda>s. [(gt_set_config, set_request r (d s))])"
  using assms by unfold_locales (simp_all add: config_set_run)

lemma length_concat_le32: "length (concat (map le32 ws)) = 4 * length ws"
  by (induction ws) simp_all

lemmas enc_length_simps =
  u32_codec.enc_length [OF TrueI] byte_code.enc_length [OF TrueI]
  flag_code.enc_length [OF TrueI] flag32_code.enc_length [OF TrueI]
  byte32_code.enc_length [OF TrueI]

lemma length_enc_u32_byte [simp]: "length (enc_u32_byte w) = 1"
  by (simp add: enc_u32_byte_def)

lemma plain_set_generators [emits_intros]:
  "request_generator generate_set_global_pre_postfix_send_condition (\<lambda>_. True)
     (\<lambda>s. [(gt_set_config, set_request (reg_container nGlobalTagCondition)
                            (enc_flag32 (m_b_global_pre_postfix_send_condition s)))])"
  "request_generator generate_set_interface_request (\<lambda>_. True)
     (\<lambda>s. [(gt_set_config, set_request (reg_sys Interface) (enc_byte (m_interface s)))])"
  "request_generator generate_set_buzzer_frequency (\<lambda>_. True)
     (\<lambda>s. [(gt_set_config, set_request (reg_sys nBuzzerFrequency)
                            (le32 (buzzer_frequency_to_send s)))])"
  "request_generator generate_set_blanks (\<lambda>_. True)
     (\<lambda>s. [(gt_set_config, set_request (reg_sys cBlank) (map (m_c_blank s) [0, 1, 2, 3]))])"
  "request_generator generate_set_order_of_track (\<lambda>_. True)
     (\<lambda>s. [(gt_set_config, set_request (reg_container nOrderObject)
                            (concat (map le32 (get_order_of_track_by_vector s))))])"
  unfolding generate_set_global_pre_postfix_send_condition_def
    generate_set_interface_request_def generate_set_buzzer_frequency_def
    generate_set_blanks_def generate_set_order_of_track_def
  by (rule config_set_generator;
      simp add: layout_simps enc_length_simps length_concat_le32 get_order_of_track_by_vector_def)+

lemma run_all_config_sets:
  "\<forall>r\<in>set rs. snd r \<le> length d \<Longrightarrow>
     run_all (map (\<lambda>r. generate_config_set r d) rs) s =
       Some (True, push_all (map (\<lambda>r. (gt_set_config, set_request r d)) rs) s)"
  by (induction rs arbitrary: s) (simp_all add: config_set_run)

lemma language_generator [emits_intros]:
  "request_generator generate_set_language (\<lambda>_. True)
     (\<lambda>s. map (\<lambda>r. (gt_set_config, set_request r (enc_byte32 (m_language_index s))))
            language_regions)"
proof
  fix s :: proto
  show "generate_set_language s = Some (True, push_all
      (map (\<lambda>r. (gt_set_config, set_request r (enc_byte32 (m_language_index s))))
        language_regions) s)"
    unfolding generate_set_language_def Let_def
    by (rule run_all_config_sets) (simp add: language_regions_def layout_simps enc_length_simps)
qed simp_all

lemma at_track_Some: "track_index t = Some i \<Longrightarrow> at_track a t = Some (a i) \<and> track_code t = i"
  by (cases t) (auto simp: at_track_def the_number_of_track_def)

lemma get_at2_Some:
  "track_index t = Some i \<Longrightarrow> 0 \<le> n \<Longrightarrow> n \<le> 2 \<Longrightarrow> get_at2 a t n = Some (a i (nat n))"
  by (simp add: get_at2_def at_track_Some)

lemma track_set_generators [emits_intros]:
  assumes "track_index t = Some i"
  shows
    "request_generator (generate_set_enable_track t) (\<lambda>_. True)
       (\<lambda>s. [(gt_set_config, set_request (reg_msr i cEnableTrack)
                              (enc_flag (get_enable_iso t s)))])"
    "request_generator (generate_set_direction t) (\<lambda>_. True)
       (\<lambda>s. [(gt_set_config, set_request (reg_msr_elem i cRDirect 0)
                              (enc_byte (m_direction s i)))])"
    "request_generator (generate_set_combination t) (\<lambda>_. True)
       (\<lambda>s. [(gt_set_config, set_request (reg_msr i cSupportNum)
                              (enc_u32_byte (m_n_combination s i)))])"
  using assms
  by (unfold_locales; simp add: generate_set_enable_track_def generate_set_direction_def
      generate_set_combination_def switch_track_def get_direction_def get_combination_def
      at_track_Some config_set_run layout_simps enc_length_simps)+

text \<open>All ten members are one byte wide, so the region has one byte whatever the address.\<close>

definition msr_byte_members :: "info_msr_member list" where
  "msr_byte_members =
     [cMaxSize, cBitSize, cDataMask, bUseParity, cParityType, cSTX_L, cETX_L, bUseErrorCorrect,
      cECMType, cAddValue]"

lemma msr_set_region_size: "m \<in> set msr_byte_members \<Longrightarrow> snd (msr_set_region m i k) = 1"
  by (auto simp: msr_byte_members_def msr_set_region_def layout_simps)

lemma msr_elem_generator:
  assumes "track_index t = Some i" "0 \<le> n" "n \<le> 2" "m \<in> set msr_byte_members"
    and "\<And>v. length (enc v) = 1" "\<And>rs s. sel (push_all rs s) = sel s"
  shows "request_generator (generate_set_msr_elem m sel enc t n) (\<lambda>_. True)
     (\<lambda>s. [(gt_set_config, set_request (msr_set_region m i (nat n)) (enc (sel s i (nat n))))])"
  using assms
  by unfold_locales
    (simp_all add: generate_set_msr_elem_def get_at2_Some switch_track_def config_set_run
      msr_set_region_size)

lemma tag_generator:
  assumes "snd r = cap + 1" "\<And>rs s. v (push_all rs s) = v s"
  shows "request_generator (\<lambda>s. generate_set_tag r cap (v s) s) (\<lambda>s. length (v s) \<le> cap)
     (\<lambda>s. [(gt_set_config, set_request r (enc_tag cap (v s)))])"
  using assms
  by unfold_locales
    (simp_all add: generate_set_tag_def filled_tag_eq config_set_run length_enc_tag)

lemma plain_tag_generators [emits_intros]:
  "request_generator generate_set_global_prefix
     (\<lambda>s. length (m_v_global_prefix s) \<le> MSROBJ_INFO_DEF_TAG_SIZE)
     (\<lambda>s. [(gt_set_config, set_request (reg_container ContGlobalPrefix)
                            (enc_tag MSROBJ_INFO_DEF_TAG_SIZE (m_v_global_prefix s)))])"
  "request_generator generate_set_global_postfix
     (\<lambda>s. length (m_v_global_postfix s) \<le> MSROBJ_INFO_DEF_TAG_SIZE)
     (\<lambda>s. [(gt_set_config, set_request (reg_container ContGlobalPostfix)
                            (enc_tag MSROBJ_INFO_DEF_TAG_SIZE (m_v_global_postfix s)))])"
  "request_generator generate_set_ibutton_prefix
     (\<lambda>s. length (m_v_prefix_ibutton s) \<le> MSROBJ_INFO_DEF_TAG_SIZE)
     (\<lambda>s. [(gt_set_config, set_request (reg_std_pp InfoIButton GlobalPrefix)
                            (enc_tag MSROBJ_INFO_DEF_TAG_SIZE (m_v_prefix_ibutton s)))])"
  "request_generator generate_set_ibutton_postfix
     (\<lambda>s. length (m_v_postfix_ibutton s) \<le> MSROBJ_INFO_DEF_TAG_SIZE)
     (\<lambda>s. [(gt_set_config, set_request (reg_std_pp InfoIButton GlobalPostfix)
                            (enc_tag MSROBJ_INFO_DEF_TAG_SIZE (m_v_postfix_ibutton s)))])"
  "request_generator generate_set_uart_prefix
     (\<lambda>s. length (m_v_prefix_uart s) \<le> MSROBJ_INFO_DEF_TAG_SIZE)
     (\<lambda>s. [(gt_set_config, set_request (reg_std_pp InfoUart GlobalPrefix)
                            (enc_tag MSROBJ_INFO_DEF_TAG_SIZE (m_v_prefix_uart s)))])"
  "request_generator generate_set_uart_postfix
     (\<lambda>s. length (m_v_postfix_uart s) \<le> MSROBJ_INFO_DEF_TAG_SIZE)
     (\<lambda>s. [(gt_set_config, set_request (reg_std_pp InfoUart GlobalPostfix)
                            (enc_tag MSROBJ_INFO_DEF_TAG_SIZE (m_v_postfix_uart s)))])"
  "request_generator generate_set_ibutton_prefix_remove
     (\<lambda>s. length (m_v_prefix_ibutton_remove s) \<le> MSROBJ_INFO_DEF_TAG_SIZE)
     (\<lambda>s. [(gt_set_config, set_request (reg_std_pp InfoIButtonRemove GlobalPrefix)
                            (enc_tag MSROBJ_INFO_DEF_TAG_SIZE (m_v_prefix_ibutton_remove s)))])"
  "request_generator generate_set_ibutton_postfix_remove
     (\<lambda>s. length (m_v_postfix_ibutton_remove s) \<le> MSROBJ_INFO_DEF_TAG_SIZE)
     (\<lambda>s. [(gt_set_config, set_request (reg_std_pp InfoIButtonRemove GlobalPostfix)
                            (enc_tag MSROBJ_INFO_DEF_TAG_SIZE (m_v_postfix_ibutton_remove s)))])"
  "request_generator generate_set_ibutton_remove
     (\<lambda>s. length (m_v_ibutton_remove s) \<le> REMOVE_IBUTTON_DEF_TAG_SIZE)
     (\<lambda>s. [(gt_set_config, set_request (reg_std RemoveItemTag)
                            (enc_tag REMOVE_IBUTTON_DEF_TAG_SIZE (m_v_ibutton_remove s)))])"
  unfolding plain_tag_set_defs
  by (rule tag_generator; simp add: layout_simps info_consts)+

lemma private_tag_generator:
  assumes "track_index t = Some i" "0 \<le> n" "n \<le> 2"
    and "snd (reg_msr_elem i m (nat n)) = MSROBJ_INFO_DEF_TAG_SIZE + 1"
    and "\<And>rs s. sel (push_all rs s) = sel s"
  shows "request_generator (generate_set_private_tag m sel t n)
     (\<lambda>s. length (sel s i (nat n)) \<le> MSROBJ_INFO_DEF_TAG_SIZE)
     (\<lambda>s. [(gt_set_config, set_request (reg_msr_elem i m (nat n))
                            (enc_tag MSROBJ_INFO_DEF_TAG_SIZE (sel s i (nat n))))])"
  using assms
  by unfold_locales
    (simp_all add: generate_set_private_tag_def get_at2_Some switch_track_def config_set_run
      filled_tag_eq length_enc_tag)

section \<open>The key map download\<close>

text \<open>The two writes that send one map: its first and its second 130 bytes, one after the other.\<close>

definition key_map_requests :: "nat \<Rightarrow> (byte \<times> byte) list \<Rightarrow> request list" where
  "key_map_requests addr m =
     [(gt_set_config, set_request (addr, 130) (take 130 (flatten_pairs m))),
      (gt_set_config, set_request (addr + 130, 130) (drop 130 (flatten_pairs m)))]"

lemma set_request_take: "set_request r (take (snd r) d) = set_request r d"
  by (simp add: set_request_def)

lemma key_map_download_run:
  assumes "\<forall>m\<in>set tab. length m = 130" "l < length tab"
  shows "key_map_download addr (key_map_from tab) l s =
     Some (True, push_all (key_map_requests addr (tab ! l)) s)"
proof -
  have len: "length (flatten_pairs (tab ! l)) = 260" using assms by simp
  then have "set_request (addr + 130, 130)
        (drop 130 (flatten_pairs (tab ! l)) @ concat (map flatten_pairs (drop (Suc l) tab)))
      = set_request (addr + 130, 130) (drop 130 (flatten_pairs (tab ! l)))"
    "set_request (addr, 130) (flatten_pairs (tab ! l) @ concat (map flatten_pairs (drop (Suc l) tab)))
      = set_request (addr, 130) (take 130 (flatten_pairs (tab ! l)))"
    by (simp_all add: set_request_def)
  then show ?thesis
    using len
    by (simp add: key_map_download_def and_then_def config_set_from_def FOR_CVT_MAX_ASCII_CODE_def
        key_map_from_language [OF assms] config_set_run key_map_requests_def)
qed

definition set_key_map_requests :: "proto \<Rightarrow> request list" where
  "set_key_map_requests s =
     key_map_requests address_system_hid_key_map_offset
       (sASCToHIDKeyMap ! unat (m_language_index s))
     @ (if get_name_by_string s \<noteq> ''europa'' \<and> get_name_by_string s \<noteq> ''elara''
        then key_map_requests address_system_ps2_key_map_offset
               (sASCToPS2KeyMap ! unat (m_language_index s))
        else [])"

lemma key_map_generator [emits_intros]:
  "request_generator generate_set_key_map (\<lambda>s. unat (m_language_index s) < 11)
     set_key_map_requests"
proof
  fix s :: proto
  assume "unat (m_language_index s) < 11"
  then show "generate_set_key_map s = Some (True, push_all (set_key_map_requests s) s)"
    unfolding generate_set_key_map_def Let_def get_ascii_to_hid_key_map_def
      get_ascii_to_ps2_key_map_def set_key_map_requests_def
    by (simp add: and_then_def key_map_download_run [OF hid_lengths] length_hid
        key_map_download_run [OF ps2_lengths] length_ps2)
qed (simp_all add: set_key_map_requests_def)

text \<open>A language that the tables do not have is read beyond their end.\<close>

lemma key_map_language_range:
  "unat (m_language_index s) \<ge> 11 \<Longrightarrow> generate_set_key_map s = None"
  by (simp add: generate_set_key_map_def Let_def key_map_download_def and_then_def
      config_set_from_def get_ascii_to_hid_key_map_def key_map_from_def length_hid)

section \<open>Properties\<close>

text \<open>C7. For every language of the tables the key map download of a device that has both maps sends
  the whole table of the language, HID map to 0x400 and PS/2 map to 0x800, each in two writes whose
  data, one after the other, are the 130 entries in order, without gap or overlap.\<close>

theorem key_map_download_writes_whole_table:
  assumes "unat (m_language_index s) < 11"
    and "get_name_by_string s \<noteq> ''europa''" "get_name_by_string s \<noteq> ''elara''"
  shows "\<exists>h1 h2 p1 p2. generate_set_key_map s = Some (True, push_all
       [(gt_set_config, set_request (0x400, 130) h1), (gt_set_config, set_request (0x482, 130) h2),
        (gt_set_config, set_request (0x800, 130) p1), (gt_set_config, set_request (0x882, 130) p2)] s)
     \<and> length h1 = 130 \<and> length h2 = 130 \<and> length p1 = 130 \<and> length p2 = 130
     \<and> h1 @ h2 = flatten_pairs (sASCToHIDKeyMap ! unat (m_language_index s))
     \<and> p1 @ p2 = flatten_pairs (sASCToPS2KeyMap ! unat (m_language_index s))"
proof -
  let ?h = "flatten_pairs (sASCToHIDKeyMap ! unat (m_language_index s))"
  let ?p = "flatten_pairs (sASCToPS2KeyMap ! unat (m_language_index s))"
  have "length ?h = 260" "length ?p = 260"
    using assms(1) hid_lengths ps2_lengths by (simp_all add: length_hid length_ps2)
  moreover have "generate_set_key_map s = Some (True, push_all (set_key_map_requests s) s)"
    by (rule request_generator.run [OF key_map_generator assms(1)])
  ultimately show ?thesis
    using assms(2,3)
    by (intro exI [of _ "take 130 ?h"] exI [of _ "drop 130 ?h"] exI [of _ "take 130 ?p"]
        exI [of _ "drop 130 ?p"])
      (simp add: set_key_map_requests_def key_map_requests_def key_map_consts)
qed

theorem key_map_download_writes_whole_table_witness:
  "\<exists>h1 h2 p1 p2. generate_set_key_map reset_state = Some (True, push_all
       [(gt_set_config, set_request (0x400, 130) h1), (gt_set_config, set_request (0x482, 130) h2),
        (gt_set_config, set_request (0x800, 130) p1), (gt_set_config, set_request (0x882, 130) p2)]
       reset_state)
     \<and> length h1 = 130 \<and> length h2 = 130 \<and> length p1 = 130 \<and> length p2 = 130
     \<and> h1 @ h2 = flatten_pairs (sASCToHIDKeyMap ! unat (m_language_index reset_state))
     \<and> p1 @ p2 = flatten_pairs (sASCToPS2KeyMap ! unat (m_language_index reset_state))"
  by (rule key_map_download_writes_whole_table)
    (simp_all add: reset_state_def get_name_by_string_def language_map_index_english_def)

text \<open>The download stays inside the tables exactly for the eleven languages they have. The
  language index is not checked, neither when it is set nor when it is read from the device; from
  11 on the function forms a pointer behind the tables and reads there.\<close>

theorem key_map_language_bound:
  "generate_set_key_map s = None \<longleftrightarrow> 11 \<le> unat (m_language_index s)"
proof (cases "11 \<le> unat (m_language_index s)")
  case True
  then show ?thesis by (simp add: key_map_language_range)
next
  case False
  then show ?thesis using request_generator.run [OF key_map_generator, of s] by simp
qed

text \<open>A per-combination member is written to the address from which it is read, except for track 3
  with combination 2: there the write goes to another address than the read, for each of the ten
  members.\<close>

theorem msr_write_address_is_read_address:
  assumes "m \<in> set msr_byte_members" "i < 3" "k < 3"
  shows "msr_set_region m i k = reg_msr_elem i m k \<longleftrightarrow> \<not> (i = 2 \<and> k = 2)"
  using assms by (auto simp: msr_byte_members_def msr_set_region_def layout_simps)

theorem msr_write_address_is_read_address_witness:
  "msr_set_region cSTX_L 1 2 = reg_msr_elem 1 cSTX_L 2 \<longleftrightarrow> \<not> ((1 :: nat) = 2 \<and> (2 :: nat) = 2)"
  by (rule msr_write_address_is_read_address) (simp_all add: msr_byte_members_def)

text \<open>So the value that the object holds for combination 2 of track 3 is written over the value of
  combination 0 of that track, while a read of combination 2 asks for its own address.\<close>

theorem track3_combination2_overwrites_combination0:
  "generate_set_msr_max_size iso3_track 2 s =
     Some (True, push_all [(gt_set_config,
       set_request (reg_msr_elem 2 cMaxSize 0) (enc_u32_byte (m_n_msr_max_size s 2 2)))] s)
   \<and> generate_get_msr_max_size iso3_track 2 s =
     Some (True, push_all [(gt_get_msr max_size iso3_track 2,
       get_request (reg_msr_elem 2 cMaxSize 2))] s)
   \<and> reg_msr_elem 2 cMaxSize 2 \<noteq> reg_msr_elem 2 cMaxSize 0"
proof (intro conjI)
  have "request_generator (generate_set_msr_elem cMaxSize m_n_msr_max_size enc_u32_byte iso3_track 2)
      (\<lambda>_. True) (\<lambda>s. [(gt_set_config, set_request (msr_set_region cMaxSize 2 (nat 2))
         (enc_u32_byte (m_n_msr_max_size s 2 (nat 2))))])"
    by (rule msr_elem_generator) (simp_all add: msr_byte_members_def)
  from request_generator.run [OF this, of s]
  show "generate_set_msr_max_size iso3_track 2 s =
     Some (True, push_all [(gt_set_config,
       set_request (reg_msr_elem 2 cMaxSize 0) (enc_u32_byte (m_n_msr_max_size s 2 2)))] s)"
    by (simp add: generate_set_msr_max_size_def msr_set_region_def layout_simps)
  have "request_generator (generate_get_elem cMaxSize (gt_get_msr max_size) iso3_track 2)
      (\<lambda>_ :: proto. True)
      (\<lambda>_. [(gt_get_msr max_size iso3_track (nat 2), get_request (reg_msr_elem 2 cMaxSize (nat 2)))])"
    by (rule elem_get_generator) simp_all
  from request_generator.run [OF this, of s]
  show "generate_get_msr_max_size iso3_track 2 s =
     Some (True, push_all [(gt_get_msr max_size iso3_track 2,
       get_request (reg_msr_elem 2 cMaxSize 2))] s)"
    by (simp add: generate_get_msr_max_size_def)
qed (simp add: layout_simps)

text \<open>A tag is sent exactly when it fits the structure: its size, its bytes, zeros up to the end,
  from which the tag is read back. A longer tag is copied over the end of the local structure.\<close>

theorem global_prefix_sent_iff_it_fits:
  "generate_set_global_prefix s =
     (if length (m_v_global_prefix s) \<le> 14
      then Some (True, push_all [(gt_set_config, set_request (reg_container ContGlobalPrefix)
             (of_nat (length (m_v_global_prefix s)) # m_v_global_prefix s
                @ replicate (14 - length (m_v_global_prefix s)) 0))] s)
      else None)"
  by (simp add: generate_set_global_prefix_def generate_set_tag_def filled_tag_eq info_consts
      config_set_run layout_simps enc_tag_def)

end
