(* ===== verification/ProtoParam.thy ===== *)
theory ProtoParam
  imports ProtoSet
begin

text \<open>
  The public request sequences of \<open>cprotocol_lpu237\<close>: reading the identity of the device
  (\<open>generate_get_system_information_with_name\<close>), reading all parameters
  (\<open>generate_get_parameters\<close>), writing the changed ones (\<open>generate_set_parameters\<close>), and the short
  sequences for the interface and the MMD1100 decoder. The lemmas give the exact list of requests
  that each sequence queues.
\<close>

section \<open>Short sequences\<close>

definition tools_of :: "proto \<Rightarrow> fun_lpu237" where
  "tools_of s = cfun_lpu237 (m_v_name s) (m_version s)"

lemma tools_push_all [simp]: "tools_of (push_all rs s) = tools_of s"
  by (simp add: tools_of_def)

definition generate_get_uid_sequence :: "proto op" where
  "generate_get_uid_sequence = run_all [generate_get_uid]"

definition generate_get_system_information_with_name :: "proto op" where
  "generate_get_system_information_with_name =
     run_all
       [generate_enter_config_mode, generate_get_version, generate_get_device_type,
        generate_get_version_strcuture, generate_get_name, generate_leave_config_mode]"

definition generate_set_interface :: "proto op" where
  "generate_set_interface s =
     (let tools = tools_of s
      in if \<not> is_support_interface (m_interface s) (m_b_device_is_standard s) tools
         then Some (False, s)
         else run_all
                [generate_enter_config_mode, generate_set_interface_request,
                 generate_apply_config_mode, generate_leave_config_mode] s)"

definition generate_mmd1100_to_iso_mode :: "proto op" where
  "generate_mmd1100_to_iso_mode s =
     (let tools = tools_of s
      in if \<not> is_suport_msr_mmd1100_iso_mode tools then Some (False, s)
         else run_all
                [generate_enter_config_mode, generate_set_blanks, generate_apply_config_mode,
                 generate_leave_config_mode, generate_enter_config_mode,
                 generate_leave_config_mode] s)"

section \<open>Reading all parameters\<close>

text \<open>The body of \<open>for (int j = 0; j < 3; j++)\<close> and of the loop over the tracks.\<close>

definition get_combination_ops :: "track \<Rightarrow> nat \<Rightarrow> proto op list" where
  "get_combination_ops t j =
     [generate_get_msr_max_size t (int j), generate_get_msr_bit_size t (int j),
      generate_get_msr_data_mask t (int j), generate_get_msr_use_parity t (int j),
      generate_get_msr_parity_type t (int j), generate_get_msr_stxl t (int j), generate_get_msr_etxl t (int j),
      generate_get_msr_use_error_correct t (int j), generate_get_msr_ecm_type t (int j),
      generate_get_msr_add_value t (int j), generate_get_private_prefix t (int j),
      generate_get_private_postfix t (int j)]"

definition get_track_ops :: "bool \<Rightarrow> track \<Rightarrow> proto op list" where
  "get_track_ops b_combination t =
     [generate_get_enable_track t, generate_get_direction t]
     @ (if b_combination
        then generate_get_combination t # concat (map (get_combination_ops t) [0, 1, 2])
        else [generate_get_private_prefix t 0, generate_get_private_postfix t 0])"

definition get_parameters_ops :: "fun_lpu237 \<Rightarrow> proto op list" where
  "get_parameters_ops tools =
     [generate_enter_config_mode, generate_get_global_pre_postfix_send_condition,
      generate_get_device_support_mmd1000, generate_get_interface, generate_get_language,
      generate_get_buzzer_frequency, generate_get_boot_run_time, generate_get_blanks,
      generate_get_track_of_orders]
     @ (if is_support_ibutton_in_kb_interface_prepost_tag tools
        then [generate_get_ibutton_prefix, generate_get_ibutton_postfix] else [])
     @ (if is_support_uart_prepostfix tools
        then [generate_get_uart_prefix, generate_get_uart_postfix] else [])
     @ concat (map (get_track_ops (is_support_msr_combination tools)) all_tracks)
     @ [generate_get_global_prefix, generate_get_global_postfix]
     @ (if is_support_ibutton_in_kb_interface_remove_prepost_tag tools
        then [generate_get_ibutton_remove, generate_get_ibutton_prefix_remove,
              generate_get_ibutton_postfix_remove] else [])
     @ [when_op (\<lambda>s. is_support_ibutton_only_device_command tools \<and> m_b_device_is_standard s)
          generate_get_device_ibutton_type]
     @ (if is_support_device_uid tools then [generate_get_uid] else [])
     @ [generate_leave_config_mode]"

definition generate_get_parameters :: "proto op" where
  "generate_get_parameters s =
     (if m_v_name s = [] then Some (False, s)
      else if version_empty (m_version s) then Some (False, s)
      else run_all (get_parameters_ops (tools_of s)) s)"

section \<open>Writing the changed parameters\<close>

definition set_all_parameter_to_changed :: "proto \<Rightarrow> proto" where
  "set_all_parameter_to_changed s =
     s\<lparr>m_set_change_parameter :=
         m_set_change_parameter s
           \<union> set [cp_GlobalPrePostfixSendCondition ..< cp_the_number_of_cp]\<rparr>"

text \<open>\<open>if (m_set_change_parameter.find(cp) != m_set_change_parameter.end()) if (!f()) ..\<close>\<close>

definition if_changed :: "nat \<Rightarrow> proto op \<Rightarrow> proto op" where
  "if_changed cp f = when_op (\<lambda>s. cp \<in> m_set_change_parameter s) f"

definition set_combination_ops :: "track \<Rightarrow> nat \<Rightarrow> proto op list" where
  "set_combination_ops t j =
     (let d = 3 * track_code t + j in
      [if_changed (cp_msr10 max_size + d) (generate_set_msr_max_size t (int j)),
       if_changed (cp_msr10 bit_size + d) (generate_set_msr_bit_size t (int j)),
       if_changed (cp_msr10 data_mask + d) (generate_set_msr_data_mask t (int j)),
       if_changed (cp_msr10 use_parity + d) (generate_set_msr_use_parity t (int j)),
       if_changed (cp_msr10 parity_type + d) (generate_set_msr_parity_type t (int j)),
       if_changed (cp_msr10 stxl + d) (generate_set_msr_stxl t (int j)),
       if_changed (cp_msr10 etxl + d) (generate_set_msr_etxl t (int j)),
       if_changed (cp_msr10 use_error_correct + d) (generate_set_msr_use_error_correct t (int j)),
       if_changed (cp_msr10 ecm_type + d) (generate_set_msr_ecm_type t (int j)),
       if_changed (cp_msr10 add_value + d) (generate_set_msr_add_value t (int j)),
       if_changed (cp_PrivatePrefix10 + d) (generate_set_private_prefix t (int j)),
       if_changed (cp_PrivatePostfix10 + d) (generate_set_private_postfix t (int j))])"

definition set_track_ops :: "bool \<Rightarrow> track \<Rightarrow> proto op list" where
  "set_track_ops b_combination t =
     [if_changed (cp_EnableISO1 + track_code t) (generate_set_enable_track t),
      if_changed (cp_Direction1 + track_code t) (generate_set_direction t)]
     @ (if b_combination
        then if_changed (cp_Combination1 + track_code t) (generate_set_combination t)
             # concat (map (set_combination_ops t) [0, 1, 2])
        else [if_changed (cp_PrivatePrefix10 + 3 * track_code t)
                (generate_set_private_prefix t 0),
              if_changed (cp_PrivatePostfix10 + 3 * track_code t)
                (generate_set_private_postfix t 0)])"

definition set_parameters_ops :: "fun_lpu237 \<Rightarrow> proto op list" where
  "set_parameters_ops tools =
     [generate_enter_config_mode]
     @ (if is_support_ibutton_in_kb_interface_prepost_tag tools
        then [if_changed cp_Prefix_iButton generate_set_ibutton_prefix,
              if_changed cp_Postfix_iButton generate_set_ibutton_postfix] else [])
     @ (if is_support_uart_prepostfix tools
        then [if_changed cp_Prefix_Uart generate_set_uart_prefix,
              if_changed cp_Postfix_Uart generate_set_uart_postfix] else [])
     @ [if_changed cp_Blanks generate_set_blanks,
        if_changed cp_TrackOrders generate_set_order_of_track,
        if_changed cp_GlobalPrePostfixSendCondition
          generate_set_global_pre_postfix_send_condition,
        if_changed cp_Interface generate_set_interface_request,
        if_changed cp_Language
          (run_all
             (generate_set_language
              # (if is_support_keymap_download tools then [generate_set_key_map] else []))),
        if_changed cp_BuzzerFrequency generate_set_buzzer_frequency]
     @ concat (map (set_track_ops (is_support_msr_combination tools)) all_tracks)
     @ [if_changed cp_GlobalPrefix generate_set_global_prefix,
        if_changed cp_GlobalPostfix generate_set_global_postfix]
     @ (if is_support_ibutton_in_kb_interface_remove_prepost_tag tools
        then [if_changed cp_iButton_Remove generate_set_ibutton_remove,
              if_changed cp_Prefix_iButton_Remove generate_set_ibutton_prefix_remove,
              if_changed cp_Postfix_iButton_Remove generate_set_ibutton_postfix_remove] else [])
     @ [generate_apply_config_mode, generate_leave_config_mode]"

definition generate_set_parameters :: "proto op" where
  "generate_set_parameters s =
     (if m_v_name s = [] then Some (False, s)
      else if version_empty (m_version s) then Some (False, s)
      else
        case run_all (set_parameters_ops (tools_of s)) s of
          None \<Rightarrow> None
        | Some (b, s') \<Rightarrow>
            if b then Some (True, s'\<lparr>m_set_change_parameter := {}\<rparr>) else Some (False, s'))"

section \<open>The requests of a full read\<close>

fun member_of :: "msr_item \<Rightarrow> info_msr_member" where
  "member_of max_size = cMaxSize"
| "member_of bit_size = cBitSize"
| "member_of data_mask = cDataMask"
| "member_of use_parity = bUseParity"
| "member_of parity_type = cParityType"
| "member_of stxl = cSTX_L"
| "member_of etxl = cETX_L"
| "member_of use_error_correct = bUseErrorCorrect"
| "member_of ecm_type = cECMType"
| "member_of add_value = cAddValue"

definition msr_items :: "msr_item list" where
  "msr_items =
     [max_size, bit_size, data_mask, use_parity, parity_type, stxl, etxl, use_error_correct,
      ecm_type, add_value]"

definition get_combination_requests :: "track \<Rightarrow> nat \<Rightarrow> request list" where
  "get_combination_requests t j =
     map (\<lambda>it. (gt_get_msr it t j, get_request (reg_msr_elem (track_code t) (member_of it) j)))
       msr_items
     @ [(gt_get_private_prefix t j, get_request (reg_msr_elem (track_code t) PrivatePrefix j)),
        (gt_get_private_postfix t j, get_request (reg_msr_elem (track_code t) PrivatePostfix j))]"

definition get_track_requests :: "bool \<Rightarrow> track \<Rightarrow> request list" where
  "get_track_requests b_combination t =
     [(gt_get_enable_iso t, get_request (reg_msr (track_code t) cEnableTrack)),
      (gt_get_direction t, get_request (reg_msr_elem (track_code t) cRDirect 0))]
     @ (if b_combination
        then (gt_get_combination t, get_request (reg_msr (track_code t) cSupportNum))
             # concat (map (get_combination_requests t) [0, 1, 2])
        else
          [(gt_get_private_prefix t 0,
            get_request (reg_msr_elem (track_code t) PrivatePrefix 0)),
           (gt_get_private_postfix t 0,
            get_request (reg_msr_elem (track_code t) PrivatePostfix 0))])"

definition get_parameters_requests :: "fun_lpu237 \<Rightarrow> bool \<Rightarrow> request list" where
  "get_parameters_requests tools b_standard =
     [(gt_enter_config, plain_request cmd_enter_cs 0 []),
      (gt_get_global_prepostfix_send_condition, get_request (reg_container nGlobalTagCondition)),
      (gt_support_mmd1000, plain_request cmd_hw_is_mmd1000 0 []),
      (gt_get_interface, get_request (reg_sys Interface)),
      (gt_get_language, get_request reg_container_map_index),
      (gt_get_buzzer_frequency, get_request (reg_sys nBuzzerFrequency)),
      (gt_get_boot_run_time, get_request (reg_sys nBootRunTime)),
      (gt_get_blanks, get_request (reg_sys cBlank)),
      (gt_get_orders, get_request (reg_container nOrderObject))]
     @ (if is_support_ibutton_in_kb_interface_prepost_tag tools
        then [(gt_get_prefix_ibutton, get_request (reg_std_pp InfoIButton GlobalPrefix)),
              (gt_get_postfix_ibutton, get_request (reg_std_pp InfoIButton GlobalPostfix))]
        else [])
     @ (if is_support_uart_prepostfix tools
        then [(gt_get_prefix_uart, get_request (reg_std_pp InfoUart GlobalPrefix)),
              (gt_get_postfix_uart, get_request (reg_std_pp InfoUart GlobalPostfix))]
        else [])
     @ concat (map (get_track_requests (is_support_msr_combination tools)) all_tracks)
     @ [(gt_get_global_prefix, get_request (reg_container ContGlobalPrefix)),
        (gt_get_global_postfix, get_request (reg_container ContGlobalPostfix))]
     @ (if is_support_ibutton_in_kb_interface_remove_prepost_tag tools
        then [(gt_get_ibutton_remove, get_request (reg_std RemoveItemTag)),
              (gt_get_prefix_ibutton_remove,
               get_request (reg_std_pp InfoIButtonRemove GlobalPrefix)),
              (gt_get_postfix_ibutton_remove,
               get_request (reg_std_pp InfoIButtonRemove GlobalPostfix))]
        else [])
     @ (if is_support_ibutton_only_device_command tools \<and> b_standard
        then [(gt_type_ibutton_only, plain_request cmd_hw_is_only_ibutton 0 [])] else [])
     @ (if is_support_device_uid tools
        then [(gt_read_uid, plain_request cmd_read_uid 0 [])] else [])
     @ [(gt_leave_config, plain_request cmd_leave_cs 0 [])]"

section \<open>The reading sequences keep the contract\<close>

lemma track_index_code: "is_iso_track t \<Longrightarrow> track_index t = Some (track_code t)"
  by (cases t) simp_all

lemma run_all_ok_True: "(\<lambda>_ :: proto. True) (push_all rs s) = (\<lambda>_ :: proto. True) s"
  by simp

lemma get_combination_generators:
  assumes "is_iso_track t" "j \<le> 2"
  shows "request_generator (run_all (get_combination_ops t j)) (\<lambda>_. True)
     (\<lambda>_. get_combination_requests t j)"
proof -
  have elem: "request_generator (generate_get_elem m gt t (int j)) (\<lambda>_ :: proto. True)
      (\<lambda>_. [(gt t j, get_request (reg_msr_elem (track_code t) m j))])" for m gt
    using elem_get_generator [OF track_index_code [OF assms(1)], of "int j" m gt] assms(2) by simp
  have "list_all2 (\<lambda>f r. request_generator f (\<lambda>_. True) r) (get_combination_ops t j)
      (map (\<lambda>x _. [x]) (get_combination_requests t j))"
    by (simp add: get_combination_ops_def get_combination_requests_def msr_items_def
        elem_get_defs elem)
  from request_generator_list [OF this] show ?thesis by (simp add: comp_def concat_map_singleton)
qed

lemma get_track_generators:
  assumes "is_iso_track t"
  shows "request_generator (run_all (get_track_ops b t)) (\<lambda>_. True) (\<lambda>_. get_track_requests b t)"
proof -
  note ti = track_index_code [OF assms]
  have elem: "request_generator (generate_get_elem m gt t 0) (\<lambda>_ :: proto. True)
      (\<lambda>_. [(gt t 0, get_request (reg_msr_elem (track_code t) m 0))])" for m gt
    using elem_get_generator [OF ti, of 0 m gt] by simp
  have head: "request_generator (run_all [generate_get_enable_track t, generate_get_direction t])
      (\<lambda>_ :: proto. True)
      (\<lambda>_. [(gt_get_enable_iso t, get_request (reg_msr (track_code t) cEnableTrack)),
            (gt_get_direction t, get_request (reg_msr_elem (track_code t) cRDirect 0))])"
    using request_generator_Cons [OF track_get_generators(1) [OF ti]
        request_generator_Cons [OF track_get_generators(2) [OF ti] request_generator_Nil]]
    by (simp del: run_all.simps)
  have body: "request_generator (run_all (concat (map (get_combination_ops t) [0, 1, 2])))
      (\<lambda>_ :: proto. True) (\<lambda>_. concat (map (get_combination_requests t) [0, 1, 2]))"
    by (rule request_generator_concat) (auto intro: get_combination_generators [OF assms])
  have combi: "request_generator
      (run_all (generate_get_combination t # concat (map (get_combination_ops t) [0, 1, 2])))
      (\<lambda>_ :: proto. True)
      (\<lambda>_. (gt_get_combination t, get_request (reg_msr (track_code t) cSupportNum))
             # concat (map (get_combination_requests t) [0, 1, 2]))"
    using request_generator_Cons [OF track_get_generators(3) [OF ti] body]
    by (simp del: run_all.simps)
  have plain: "request_generator
      (run_all [generate_get_private_prefix t 0, generate_get_private_postfix t 0])
      (\<lambda>_ :: proto. True)
      (\<lambda>_. [(gt_get_private_prefix t 0,
              get_request (reg_msr_elem (track_code t) PrivatePrefix 0)),
            (gt_get_private_postfix t 0,
              get_request (reg_msr_elem (track_code t) PrivatePostfix 0))])"
    unfolding elem_get_defs
    using request_generator_Cons [OF elem request_generator_Cons [OF elem request_generator_Nil],
        of PrivatePrefix gt_get_private_prefix PrivatePostfix gt_get_private_postfix]
    by (simp del: run_all.simps)
  show ?thesis
    unfolding get_track_ops_def get_track_requests_def
    by (intro request_generator_append head request_generator_if_else combi plain)
qed

text \<open>Lists of generators whose requests do not depend on the state.\<close>

lemma constant_generators:
  assumes "list_all2 (\<lambda>f x. request_generator f (\<lambda>_ :: proto. True) (\<lambda>_. [x])) fs xs"
  shows "request_generator (run_all fs) (\<lambda>_ :: proto. True) (\<lambda>_. xs)"
proof -
  have "list_all2 (\<lambda>f r. request_generator f (\<lambda>_ :: proto. True) r) fs (map (\<lambda>x _. [x]) xs)"
    using assms by (simp add: list_all2_map2)
  from request_generator_list [OF this] show ?thesis by (simp add: comp_def concat_map_singleton)
qed

lemma bare_generators_keep [emits_intros]:
  "request_generator generate_enter_config_mode (\<lambda>_. True)
     (\<lambda>_. [(gt_enter_config, plain_request cmd_enter_cs 0 [])])"
  "request_generator generate_leave_config_mode (\<lambda>_. True)
     (\<lambda>_. [(gt_leave_config, plain_request cmd_leave_cs 0 [])])"
  "request_generator generate_apply_config_mode (\<lambda>_. True)
     (\<lambda>_. [(gt_apply, plain_request cmd_apply 0 [])])"
  unfolding bare_generators by (rule bare_request_generator)+

lemma get_parameters_ops_generator:
  "request_generator (run_all (get_parameters_ops tools)) (\<lambda>_. True)
     (\<lambda>s. get_parameters_requests tools (m_b_device_is_standard s))"
proof -
  have type: "request_generator
      (run_all [when_op (\<lambda>s. is_support_ibutton_only_device_command tools
                           \<and> m_b_device_is_standard s) generate_get_device_ibutton_type])
      (\<lambda>_ :: proto. True)
      (\<lambda>s. if is_support_ibutton_only_device_command tools \<and> m_b_device_is_standard s
            then [(gt_type_ibutton_only, plain_request cmd_hw_is_only_ibutton 0 [])] else [])"
    unfolding run_all_single generate_get_device_ibutton_type_def
    by (rule request_generator_when, rule request_generator_weaken [OF bare_request_generator])
      simp_all
  have tracks: "request_generator
      (run_all (concat (map (get_track_ops (is_support_msr_combination tools)) all_tracks)))
      (\<lambda>_ :: proto. True)
      (\<lambda>_. concat (map (get_track_requests (is_support_msr_combination tools)) all_tracks))"
    by (rule request_generator_concat) (auto simp: all_tracks_def intro: get_track_generators)
  show ?thesis
    unfolding get_parameters_ops_def get_parameters_requests_def
    by (intro request_generator_append request_generator_if type tracks constant_generators)
      (simp_all add: emits_intros)
qed

interpretation get_system_information: request_generator
  generate_get_system_information_with_name "\<lambda>_. True"
  "\<lambda>_. [(gt_enter_config, plain_request cmd_enter_cs 0 []),
         (gt_get_version, get_request (reg_sys sSysVer)),
         (gt_type_device, plain_request cmd_hw_is_standard 0 []),
         (gt_get_version_structure, get_request (reg_sys sStrucVer)),
         (gt_get_name, get_request (reg_sys sName)),
         (gt_leave_config, plain_request cmd_leave_cs 0 [])]"
  unfolding generate_get_system_information_with_name_def
  by (rule constant_generators) (simp add: emits_intros)

text \<open>The device has told its name and version.\<close>

definition identified :: "proto \<Rightarrow> bool" where
  "identified s = (m_v_name s \<noteq> [] \<and> \<not> version_empty (m_version s))"

lemma identified_push_all [simp]: "identified (push_all rs s) = identified s"
  by (simp add: identified_def)

interpretation get_parameters: request_generator generate_get_parameters identified
  "\<lambda>s. get_parameters_requests (tools_of s) (m_b_device_is_standard s)"
  by unfold_locales
    (simp_all add: generate_get_parameters_def identified_def
      request_generator.run [OF get_parameters_ops_generator])

lemma get_parameters_unidentified:
  "\<not> identified s \<Longrightarrow> generate_get_parameters s = Some (False, s)"
  by (auto simp: generate_get_parameters_def identified_def)

section \<open>The requests of a write\<close>

definition changed :: "nat \<Rightarrow> request list \<Rightarrow> proto \<Rightarrow> request list" where
  "changed cp rs s = (if cp \<in> m_set_change_parameter s then rs else [])"

fun enc_item :: "msr_item \<Rightarrow> proto \<Rightarrow> nat \<Rightarrow> nat \<Rightarrow> bytes" where
  "enc_item max_size s i j = enc_u32_byte (m_n_msr_max_size s i j)"
| "enc_item bit_size s i j = enc_u32_byte (m_n_msr_bit_size s i j)"
| "enc_item data_mask s i j = enc_byte (m_n_msr_data_mask s i j)"
| "enc_item use_parity s i j = enc_flag (m_b_msr_use_parity s i j)"
| "enc_item parity_type s i j = enc_byte (m_c_msr_parity_type s i j)"
| "enc_item stxl s i j = enc_byte (m_c_msr_stxl s i j)"
| "enc_item etxl s i j = enc_byte (m_c_msr_etxl s i j)"
| "enc_item use_error_correct s i j = enc_flag (m_b_msr_use_error_correct s i j)"
| "enc_item ecm_type s i j = enc_byte (m_c_msr_ecm_type s i j)"
| "enc_item add_value s i j = enc_u32_byte (m_n_msr_add_value s i j)"

definition set_tag_request :: "region \<Rightarrow> bytes \<Rightarrow> request" where
  "set_tag_request r v = (gt_set_config, set_request r (enc_tag MSROBJ_INFO_DEF_TAG_SIZE v))"

definition set_private_requests :: "track \<Rightarrow> nat \<Rightarrow> proto \<Rightarrow> request list" where
  "set_private_requests t j s =
     changed (cp_PrivatePrefix10 + (3 * track_code t + j))
       [set_tag_request (reg_msr_elem (track_code t) PrivatePrefix j)
          (m_v_private_prefix s (track_code t) j)] s
     @ changed (cp_PrivatePostfix10 + (3 * track_code t + j))
         [set_tag_request (reg_msr_elem (track_code t) PrivatePostfix j)
            (m_v_private_postfix s (track_code t) j)] s"

definition set_combination_requests :: "track \<Rightarrow> nat \<Rightarrow> proto \<Rightarrow> request list" where
  "set_combination_requests t j s =
     concat (map (\<lambda>it. changed (cp_msr10 it + (3 * track_code t + j))
         [(gt_set_config, set_request (msr_set_region (member_of it) (track_code t) j)
                            (enc_item it s (track_code t) j))] s) msr_items)
     @ set_private_requests t j s"

definition set_track_requests :: "bool \<Rightarrow> track \<Rightarrow> proto \<Rightarrow> request list" where
  "set_track_requests b_combination t s =
     changed (cp_EnableISO1 + track_code t)
       [(gt_set_config, set_request (reg_msr (track_code t) cEnableTrack)
                          (enc_flag (get_enable_iso t s)))] s
     @ changed (cp_Direction1 + track_code t)
         [(gt_set_config, set_request (reg_msr_elem (track_code t) cRDirect 0)
                            (enc_byte (m_direction s (track_code t))))] s
     @ (if b_combination
        then changed (cp_Combination1 + track_code t)
               [(gt_set_config, set_request (reg_msr (track_code t) cSupportNum)
                                  (enc_u32_byte (m_n_combination s (track_code t))))] s
             @ concat (map (\<lambda>j. set_combination_requests t j s) [0, 1, 2])
        else set_private_requests t 0 s)"

definition set_language_requests :: "fun_lpu237 \<Rightarrow> proto \<Rightarrow> request list" where
  "set_language_requests tools s =
     map (\<lambda>r. (gt_set_config, set_request r (enc_byte32 (m_language_index s)))) language_regions
     @ (if is_support_keymap_download tools then set_key_map_requests s else [])"

text \<open>The writes of the changed parameters, in the order of \<open>generate_set_parameters\<close>.\<close>

definition parameter_writes :: "fun_lpu237 \<Rightarrow> proto \<Rightarrow> request list" where
  "parameter_writes tools s =
     (if is_support_ibutton_in_kb_interface_prepost_tag tools
        then changed cp_Prefix_iButton
               [set_tag_request (reg_std_pp InfoIButton GlobalPrefix) (m_v_prefix_ibutton s)] s
             @ changed cp_Postfix_iButton
                 [set_tag_request (reg_std_pp InfoIButton GlobalPostfix) (m_v_postfix_ibutton s)] s
        else [])
     @ (if is_support_uart_prepostfix tools
        then changed cp_Prefix_Uart
               [set_tag_request (reg_std_pp InfoUart GlobalPrefix) (m_v_prefix_uart s)] s
             @ changed cp_Postfix_Uart
                 [set_tag_request (reg_std_pp InfoUart GlobalPostfix) (m_v_postfix_uart s)] s
        else [])
     @ changed cp_Blanks
         [(gt_set_config, set_request (reg_sys cBlank) (map (m_c_blank s) [0, 1, 2, 3]))] s
     @ changed cp_TrackOrders
         [(gt_set_config, set_request (reg_container nOrderObject)
                            (concat (map le32 (get_order_of_track_by_vector s))))] s
     @ changed cp_GlobalPrePostfixSendCondition
         [(gt_set_config, set_request (reg_container nGlobalTagCondition)
                            (enc_flag32 (m_b_global_pre_postfix_send_condition s)))] s
     @ changed cp_Interface
         [(gt_set_config, set_request (reg_sys Interface) (enc_byte (m_interface s)))] s
     @ changed cp_Language (set_language_requests tools s) s
     @ changed cp_BuzzerFrequency
         [(gt_set_config, set_request (reg_sys nBuzzerFrequency)
                            (le32 (buzzer_frequency_to_send s)))] s
     @ concat (map (\<lambda>t. set_track_requests (is_support_msr_combination tools) t s) all_tracks)
     @ changed cp_GlobalPrefix
         [set_tag_request (reg_container ContGlobalPrefix) (m_v_global_prefix s)] s
     @ changed cp_GlobalPostfix
         [set_tag_request (reg_container ContGlobalPostfix) (m_v_global_postfix s)] s
     @ (if is_support_ibutton_in_kb_interface_remove_prepost_tag tools
        then changed cp_iButton_Remove
               [(gt_set_config, set_request (reg_std RemoveItemTag)
                   (enc_tag REMOVE_IBUTTON_DEF_TAG_SIZE (m_v_ibutton_remove s)))] s
             @ changed cp_Prefix_iButton_Remove
                 [set_tag_request (reg_std_pp InfoIButtonRemove GlobalPrefix)
                    (m_v_prefix_ibutton_remove s)] s
             @ changed cp_Postfix_iButton_Remove
                 [set_tag_request (reg_std_pp InfoIButtonRemove GlobalPostfix)
                    (m_v_postfix_ibutton_remove s)] s
        else [])"

definition set_parameters_requests :: "fun_lpu237 \<Rightarrow> proto \<Rightarrow> request list" where
  "set_parameters_requests tools s =
     [(gt_enter_config, plain_request cmd_enter_cs 0 [])] @ parameter_writes tools s
     @ [(gt_apply, plain_request cmd_apply 0 []), (gt_leave_config, plain_request cmd_leave_cs 0 [])]"

text \<open>
  The tags fit their structures and the language is one that the key map tables have. Nothing in
  the source establishes this: the setters take tags of any length, and so do the responses.
\<close>

definition private_tags :: "proto \<Rightarrow> bytes list" where
  "private_tags s =
     concat (map (\<lambda>i. map (m_v_private_prefix s i) [0, 1, 2]
                        @ map (m_v_private_postfix s i) [0, 1, 2]) [0, 1, 2])"

definition sendable :: "proto \<Rightarrow> bool" where
  "sendable s =
     (list_all (\<lambda>v. length v \<le> MSROBJ_INFO_DEF_TAG_SIZE)
        ([m_v_global_prefix s, m_v_global_postfix s, m_v_prefix_ibutton s, m_v_postfix_ibutton s,
          m_v_prefix_uart s, m_v_postfix_uart s, m_v_prefix_ibutton_remove s,
          m_v_postfix_ibutton_remove s] @ private_tags s)
      \<and> length (m_v_ibutton_remove s) \<le> REMOVE_IBUTTON_DEF_TAG_SIZE
      \<and> unat (m_language_index s) < 11)"

lemma sendable_push_all [simp]: "sendable (push_all rs s) = sendable s"
  by (simp add: sendable_def private_tags_def)

lemma sendable_private:
  assumes "sendable s" "is_iso_track t" "j \<le> 2"
  shows "length (m_v_private_prefix s (track_code t) j) \<le> MSROBJ_INFO_DEF_TAG_SIZE"
    "length (m_v_private_postfix s (track_code t) j) \<le> MSROBJ_INFO_DEF_TAG_SIZE"
proof -
  have "j \<in> {0, 1, 2}" using assms(3) by auto
  then show "length (m_v_private_prefix s (track_code t) j) \<le> MSROBJ_INFO_DEF_TAG_SIZE"
    "length (m_v_private_postfix s (track_code t) j) \<le> MSROBJ_INFO_DEF_TAG_SIZE"
    using assms(1,2) by (cases t; auto simp: sendable_def private_tags_def)+
qed

section \<open>The writing sequence\<close>

lemma if_changed_generator:
  assumes "request_generator f ok r" "\<And>s. sendable s \<Longrightarrow> ok s"
  shows "request_generator (if_changed cp f) sendable (\<lambda>s. changed cp (r s) s)"
  unfolding if_changed_def changed_def
  by (rule request_generator_when, rule request_generator_weaken [OF assms(1)])
    (use assms(2) in auto)

text \<open>The request that writes one of the ten per-combination members.\<close>

definition item_request :: "msr_item \<Rightarrow> track \<Rightarrow> nat \<Rightarrow> proto \<Rightarrow> request" where
  "item_request it t j s =
     (gt_set_config, set_request (msr_set_region (member_of it) (track_code t) j)
                       (enc_item it s (track_code t) j))"

lemma set_item_generators:
  assumes "is_iso_track t" "j \<le> 2"
  shows
    "request_generator (generate_set_msr_max_size t (int j)) (\<lambda>_. True)
       (\<lambda>s. [item_request max_size t j s])"
    "request_generator (generate_set_msr_bit_size t (int j)) (\<lambda>_. True)
       (\<lambda>s. [item_request bit_size t j s])"
    "request_generator (generate_set_msr_data_mask t (int j)) (\<lambda>_. True)
       (\<lambda>s. [item_request data_mask t j s])"
    "request_generator (generate_set_msr_use_parity t (int j)) (\<lambda>_. True)
       (\<lambda>s. [item_request use_parity t j s])"
    "request_generator (generate_set_msr_parity_type t (int j)) (\<lambda>_. True)
       (\<lambda>s. [item_request parity_type t j s])"
    "request_generator (generate_set_msr_stxl t (int j)) (\<lambda>_. True)
       (\<lambda>s. [item_request stxl t j s])"
    "request_generator (generate_set_msr_etxl t (int j)) (\<lambda>_. True)
       (\<lambda>s. [item_request etxl t j s])"
    "request_generator (generate_set_msr_use_error_correct t (int j)) (\<lambda>_. True)
       (\<lambda>s. [item_request use_error_correct t j s])"
    "request_generator (generate_set_msr_ecm_type t (int j)) (\<lambda>_. True)
       (\<lambda>s. [item_request ecm_type t j s])"
    "request_generator (generate_set_msr_add_value t (int j)) (\<lambda>_. True)
       (\<lambda>s. [item_request add_value t j s])"
proof -
  have gen: "request_generator (generate_set_msr_elem m sel enc t (int j)) (\<lambda>_. True)
      (\<lambda>s. [(gt_set_config, set_request (msr_set_region m (track_code t) j)
                             (enc (sel s (track_code t) j)))])"
    if "m \<in> set msr_byte_members" "\<And>v. length (enc v) = 1"
      "\<And>rs s. sel (push_all rs s) = sel s" for m enc and sel :: "proto \<Rightarrow> nat \<Rightarrow> nat \<Rightarrow> 'v"
    using msr_elem_generator [OF track_index_code [OF assms(1)] _ _ that, of "int j"] assms(2)
    by simp
  show "request_generator (generate_set_msr_max_size t (int j)) (\<lambda>_. True)
         (\<lambda>s. [item_request max_size t j s])"
      "request_generator (generate_set_msr_bit_size t (int j)) (\<lambda>_. True)
         (\<lambda>s. [item_request bit_size t j s])"
      "request_generator (generate_set_msr_data_mask t (int j)) (\<lambda>_. True)
         (\<lambda>s. [item_request data_mask t j s])"
      "request_generator (generate_set_msr_use_parity t (int j)) (\<lambda>_. True)
         (\<lambda>s. [item_request use_parity t j s])"
      "request_generator (generate_set_msr_parity_type t (int j)) (\<lambda>_. True)
         (\<lambda>s. [item_request parity_type t j s])"
      "request_generator (generate_set_msr_stxl t (int j)) (\<lambda>_. True)
         (\<lambda>s. [item_request stxl t j s])"
      "request_generator (generate_set_msr_etxl t (int j)) (\<lambda>_. True)
         (\<lambda>s. [item_request etxl t j s])"
      "request_generator (generate_set_msr_use_error_correct t (int j)) (\<lambda>_. True)
         (\<lambda>s. [item_request use_error_correct t j s])"
      "request_generator (generate_set_msr_ecm_type t (int j)) (\<lambda>_. True)
         (\<lambda>s. [item_request ecm_type t j s])"
      "request_generator (generate_set_msr_add_value t (int j)) (\<lambda>_. True)
         (\<lambda>s. [item_request add_value t j s])"
    unfolding msr_set_defs item_request_def member_of.simps enc_item.simps
    by (rule gen; simp add: msr_byte_members_def byte_enc_defs)+
qed

lemma set_private_generators:
  assumes "is_iso_track t" "j \<le> 2"
  shows "request_generator (generate_set_private_prefix t (int j)) sendable
     (\<lambda>s. [set_tag_request (reg_msr_elem (track_code t) PrivatePrefix j)
             (m_v_private_prefix s (track_code t) j)])"
    "request_generator (generate_set_private_postfix t (int j)) sendable
     (\<lambda>s. [set_tag_request (reg_msr_elem (track_code t) PrivatePostfix j)
             (m_v_private_postfix s (track_code t) j)])"
proof -
  note ti = track_index_code [OF assms(1)]
  have j: "0 \<le> int j" "int j \<le> 2" using assms(2) by simp_all
  note gen = private_tag_generator [OF ti j, unfolded nat_int]
  have
    "request_generator (generate_set_private_prefix t (int j))
       (\<lambda>s. length (m_v_private_prefix s (track_code t) j) \<le> MSROBJ_INFO_DEF_TAG_SIZE)
       (\<lambda>s. [set_tag_request (reg_msr_elem (track_code t) PrivatePrefix j)
               (m_v_private_prefix s (track_code t) j)])"
    "request_generator (generate_set_private_postfix t (int j))
       (\<lambda>s. length (m_v_private_postfix s (track_code t) j) \<le> MSROBJ_INFO_DEF_TAG_SIZE)
       (\<lambda>s. [set_tag_request (reg_msr_elem (track_code t) PrivatePostfix j)
               (m_v_private_postfix s (track_code t) j)])"
    unfolding generate_set_private_prefix_def generate_set_private_postfix_def set_tag_request_def
    by (rule gen; simp add: layout_simps info_consts)+
  then show
    "request_generator (generate_set_private_prefix t (int j)) sendable
       (\<lambda>s. [set_tag_request (reg_msr_elem (track_code t) PrivatePrefix j)
               (m_v_private_prefix s (track_code t) j)])"
    "request_generator (generate_set_private_postfix t (int j)) sendable
       (\<lambda>s. [set_tag_request (reg_msr_elem (track_code t) PrivatePostfix j)
               (m_v_private_postfix s (track_code t) j)])"
    by (auto elim!: request_generator_weaken intro: sendable_private [OF _ assms])
qed

lemma set_private_pair:
  assumes "is_iso_track t" "j \<le> 2"
  shows "request_generator
     (run_all [if_changed (cp_PrivatePrefix10 + (3 * track_code t + j))
                 (generate_set_private_prefix t (int j)),
               if_changed (cp_PrivatePostfix10 + (3 * track_code t + j))
                 (generate_set_private_postfix t (int j))])
     sendable (set_private_requests t j)"
  using request_generator_Cons
    [OF if_changed_generator [OF set_private_generators(1) [OF assms]]
      request_generator_Cons [OF if_changed_generator [OF set_private_generators(2) [OF assms]]
        request_generator_Nil]]
  by (simp add: set_private_requests_def [abs_def] del: run_all.simps)

lemma set_combination_generator:
  assumes "is_iso_track t" "j \<le> 2"
  shows "request_generator (run_all (set_combination_ops t j)) sendable
     (set_combination_requests t j)"
proof -
  let ?d = "3 * track_code t + j"
  note item = if_changed_generator [OF set_item_generators(1) [OF assms]]
  have items: "request_generator (run_all
      [if_changed (cp_msr10 max_size + ?d) (generate_set_msr_max_size t (int j)),
       if_changed (cp_msr10 bit_size + ?d) (generate_set_msr_bit_size t (int j)),
       if_changed (cp_msr10 data_mask + ?d) (generate_set_msr_data_mask t (int j)),
       if_changed (cp_msr10 use_parity + ?d) (generate_set_msr_use_parity t (int j)),
       if_changed (cp_msr10 parity_type + ?d) (generate_set_msr_parity_type t (int j)),
       if_changed (cp_msr10 stxl + ?d) (generate_set_msr_stxl t (int j)),
       if_changed (cp_msr10 etxl + ?d) (generate_set_msr_etxl t (int j)),
       if_changed (cp_msr10 use_error_correct + ?d) (generate_set_msr_use_error_correct t (int j)),
       if_changed (cp_msr10 ecm_type + ?d) (generate_set_msr_ecm_type t (int j)),
       if_changed (cp_msr10 add_value + ?d) (generate_set_msr_add_value t (int j))])
      sendable (\<lambda>s. concat (map (\<lambda>it. changed (cp_msr10 it + ?d) [item_request it t j s] s)
                        msr_items))"
  proof -
    have "list_all2 (\<lambda>f r. request_generator f sendable r)
      [if_changed (cp_msr10 max_size + ?d) (generate_set_msr_max_size t (int j)),
       if_changed (cp_msr10 bit_size + ?d) (generate_set_msr_bit_size t (int j)),
       if_changed (cp_msr10 data_mask + ?d) (generate_set_msr_data_mask t (int j)),
       if_changed (cp_msr10 use_parity + ?d) (generate_set_msr_use_parity t (int j)),
       if_changed (cp_msr10 parity_type + ?d) (generate_set_msr_parity_type t (int j)),
       if_changed (cp_msr10 stxl + ?d) (generate_set_msr_stxl t (int j)),
       if_changed (cp_msr10 etxl + ?d) (generate_set_msr_etxl t (int j)),
       if_changed (cp_msr10 use_error_correct + ?d) (generate_set_msr_use_error_correct t (int j)),
       if_changed (cp_msr10 ecm_type + ?d) (generate_set_msr_ecm_type t (int j)),
       if_changed (cp_msr10 add_value + ?d) (generate_set_msr_add_value t (int j))]
      (map (\<lambda>it s. changed (cp_msr10 it + ?d) [item_request it t j s] s) msr_items)"
      unfolding msr_items_def
      by (auto intro!: if_changed_generator [OF _ TrueI] set_item_generators [OF assms]
          simp del: cp_msr10.simps)
    from request_generator_list [OF this] show ?thesis by (simp add: comp_def)
  qed
  show ?thesis
    using request_generator_append [OF items set_private_pair [OF assms]]
    by (simp add: set_combination_ops_def Let_def set_combination_requests_def [abs_def]
        item_request_def del: run_all.simps cp_msr10.simps)
qed

lemma set_track_generator:
  assumes "is_iso_track t"
  shows "request_generator (run_all (set_track_ops b t)) sendable (set_track_requests b t)"
proof -
  note ti = track_index_code [OF assms]
  note plain = if_changed_generator [OF _ TrueI]
  note head = request_generator_Cons [OF plain [OF track_set_generators(1) [OF ti]]
      request_generator_Cons [OF plain [OF track_set_generators(2) [OF ti]] request_generator_Nil]]
  have combis: "request_generator (run_all (concat (map (set_combination_ops t) [0, 1, 2])))
      sendable (\<lambda>s. concat (map (\<lambda>j. set_combination_requests t j s) [0, 1, 2]))"
    by (rule request_generator_concat) (auto intro: set_combination_generator [OF assms])
  note combination = request_generator_Cons
    [OF plain [OF track_set_generators(3) [OF ti], of "cp_Combination1 + track_code t"] combis]
  have tags: "request_generator
      (run_all [if_changed (cp_PrivatePrefix10 + 3 * track_code t)
                  (generate_set_private_prefix t 0),
                if_changed (cp_PrivatePostfix10 + 3 * track_code t)
                  (generate_set_private_postfix t 0)]) sendable (set_private_requests t 0)"
    using set_private_pair [OF assms, of 0] by (simp del: run_all.simps)
  show ?thesis
    using request_generator_append [OF head [of "cp_EnableISO1 + track_code t"
          "cp_Direction1 + track_code t"] request_generator_if_else [OF combination tags]]
    by (simp add: set_track_ops_def set_track_requests_def [abs_def] del: run_all.simps)
qed

lemma set_language_sequence:
  "request_generator
     (run_all (generate_set_language
               # (if is_support_keymap_download tools then [generate_set_key_map] else [])))
     sendable (set_language_requests tools)"
proof -
  have lang: "request_generator generate_set_language sendable
      (\<lambda>s. map (\<lambda>r. (gt_set_config, set_request r (enc_byte32 (m_language_index s))))
             language_regions)"
    by (rule request_generator_weaken [OF language_generator]) simp_all
  have "request_generator generate_set_key_map sendable set_key_map_requests"
    by (rule request_generator_weaken [OF key_map_generator]) (simp_all add: sendable_def private_tags_def)
  then have "request_generator (run_all [generate_set_key_map]) sendable set_key_map_requests"
    by (simp only: run_all_single)
  from request_generator_Cons [OF lang request_generator_if [OF _ this]]
  show ?thesis by (simp add: set_language_requests_def [abs_def] del: run_all.simps)
qed

lemma sendable_tag_generators:
  "request_generator generate_set_global_prefix sendable
     (\<lambda>s. [set_tag_request (reg_container ContGlobalPrefix) (m_v_global_prefix s)])"
  "request_generator generate_set_global_postfix sendable
     (\<lambda>s. [set_tag_request (reg_container ContGlobalPostfix) (m_v_global_postfix s)])"
  "request_generator generate_set_ibutton_prefix sendable
     (\<lambda>s. [set_tag_request (reg_std_pp InfoIButton GlobalPrefix) (m_v_prefix_ibutton s)])"
  "request_generator generate_set_ibutton_postfix sendable
     (\<lambda>s. [set_tag_request (reg_std_pp InfoIButton GlobalPostfix) (m_v_postfix_ibutton s)])"
  "request_generator generate_set_uart_prefix sendable
     (\<lambda>s. [set_tag_request (reg_std_pp InfoUart GlobalPrefix) (m_v_prefix_uart s)])"
  "request_generator generate_set_uart_postfix sendable
     (\<lambda>s. [set_tag_request (reg_std_pp InfoUart GlobalPostfix) (m_v_postfix_uart s)])"
  "request_generator generate_set_ibutton_prefix_remove sendable
     (\<lambda>s. [set_tag_request (reg_std_pp InfoIButtonRemove GlobalPrefix) (m_v_prefix_ibutton_remove s)])"
  "request_generator generate_set_ibutton_postfix_remove sendable
     (\<lambda>s. [set_tag_request (reg_std_pp InfoIButtonRemove GlobalPostfix) (m_v_postfix_ibutton_remove s)])"
  "request_generator generate_set_ibutton_remove sendable
     (\<lambda>s. [(gt_set_config, set_request (reg_std RemoveItemTag)
                            (enc_tag REMOVE_IBUTTON_DEF_TAG_SIZE (m_v_ibutton_remove s)))])"
  unfolding set_tag_request_def
  by (rule request_generator_weaken, rule plain_tag_generators; simp add: sendable_def private_tags_def)+

lemma sendable_generators:
  assumes "request_generator f sendable r"
  shows "request_generator (if_changed cp f) sendable (\<lambda>s. changed cp (r s) s)"
  using if_changed_generator [OF assms] by simp

lemma set_pair_generator:
  assumes "request_generator f sendable r" "request_generator g sendable q"
  shows "request_generator (run_all [if_changed cp f, if_changed cp' g]) sendable
     (\<lambda>s. changed cp (r s) s @ changed cp' (q s) s)"
  using request_generator_Cons [OF sendable_generators [OF assms(1)]
      request_generator_Cons [OF sendable_generators [OF assms(2)] request_generator_Nil]]
  by (simp del: run_all.simps)

lemma set_triple_generator:
  assumes "request_generator f sendable r" "request_generator g sendable q"
    and "request_generator h sendable p"
  shows "request_generator (run_all [if_changed cp f, if_changed cp' g, if_changed cp'' h]) sendable
     (\<lambda>s. changed cp (r s) s @ changed cp' (q s) s @ changed cp'' (p s) s)"
  using request_generator_Cons [OF sendable_generators [OF assms(1)]
      set_pair_generator [OF assms(2,3)]]
  by (simp del: run_all.simps)

lemma plain_sendable_generators:
  assumes "request_generator f (\<lambda>_. True) r"
  shows "request_generator f sendable r"
  by (rule request_generator_weaken [OF assms]) simp_all

lemma set_parameters_ops_generator:
  "request_generator (run_all (set_parameters_ops tools)) sendable
     (set_parameters_requests tools)"
proof -
  note plain = plain_sendable_generators
  have enter: "request_generator (run_all [generate_enter_config_mode]) sendable
      (\<lambda>_. [(gt_enter_config, plain_request cmd_enter_cs 0 [])])"
    unfolding run_all_single by (rule plain) (rule bare_generators_keep)
  note middle = set_triple_generator [OF plain [OF plain_set_generators(4)]
      plain [OF plain_set_generators(5)] plain [OF plain_set_generators(1)]]
    set_triple_generator [OF plain [OF plain_set_generators(2)] set_language_sequence
      plain [OF plain_set_generators(3)]]
  have tracks: "request_generator
      (run_all (concat (map (set_track_ops (is_support_msr_combination tools)) all_tracks))) sendable
      (\<lambda>s. concat (map (\<lambda>t. set_track_requests (is_support_msr_combination tools) t s) all_tracks))"
    by (rule request_generator_concat) (auto simp: all_tracks_def intro: set_track_generator)
  note tags = sendable_tag_generators
  note finish = request_generator_Cons [OF plain [OF bare_generators_keep(3)]
      request_generator_Cons [OF plain [OF bare_generators_keep(2)] request_generator_Nil]]
  note all = request_generator_append [OF enter
      request_generator_append [OF request_generator_if [OF _ set_pair_generator [OF tags(3,4)]]
      request_generator_append [OF request_generator_if [OF _ set_pair_generator [OF tags(5,6)]]
      request_generator_append [OF middle(1)
      request_generator_append [OF middle(2)
      request_generator_append [OF tracks
      request_generator_append [OF set_pair_generator [OF tags(1,2)]
      request_generator_append [OF request_generator_if [OF _ set_triple_generator [OF tags(9,7,8)]]
        finish]]]]]]]]
  show ?thesis
    unfolding set_parameters_ops_def set_parameters_requests_def [abs_def] parameter_writes_def
    using all
    by (simp del: run_all.simps)
qed

lemma generate_set_parameters_run:
  assumes "identified s" "sendable s"
  shows "generate_set_parameters s =
     Some (True, (push_all (set_parameters_requests (tools_of s) s) s)
                   \<lparr>m_set_change_parameter := {}\<rparr>)"
  using assms
  by (simp add: generate_set_parameters_def identified_def
      request_generator.run [OF set_parameters_ops_generator])

lemma set_parameters_unidentified:
  "\<not> identified s \<Longrightarrow> generate_set_parameters s = Some (False, s)"
  by (auto simp: generate_set_parameters_def identified_def)

section \<open>What is written\<close>

definition only_writes :: "request list \<Rightarrow> bool" where
  "only_writes rs = list_all (\<lambda>r. fst r = gt_set_config) rs"

lemma only_writes_simps [simp]:
  "only_writes []" "only_writes (r # rs) \<longleftrightarrow> fst r = gt_set_config \<and> only_writes rs"
  "only_writes (rs @ rs') \<longleftrightarrow> only_writes rs \<and> only_writes rs'"
  by (simp_all add: only_writes_def)

lemma only_writes_changed [simp]: "only_writes rs \<Longrightarrow> only_writes (changed cp rs s)"
  by (simp add: changed_def)

lemma only_writes_concat: "list_all (\<lambda>x. only_writes (f x)) xs \<Longrightarrow> only_writes (concat (map f xs))"
  by (induction xs) simp_all

lemma only_writes_private: "only_writes (set_private_requests t j s)"
  by (simp add: set_private_requests_def set_tag_request_def)

lemma only_writes_combination: "only_writes (set_combination_requests t j s)"
  unfolding set_combination_requests_def
  by (simp add: only_writes_private only_writes_concat msr_items_def del: cp_msr10.simps)

lemma only_writes_track: "only_writes (set_track_requests b t s)"
  unfolding set_track_requests_def by (simp add: only_writes_private only_writes_combination)

lemma only_writes_language: "only_writes (set_language_requests tools s)"
proof -
  have "only_writes (map (\<lambda>r. (gt_set_config, f r)) rs)" for f and rs :: "region list"
    by (induction rs) simp_all
  then show ?thesis
    by (simp add: set_language_requests_def set_key_map_requests_def key_map_requests_def)
qed

lemma only_writes_parameters: "only_writes (parameter_writes tools s)"
proof -
  have tracks: "only_writes (concat (map (\<lambda>t. set_track_requests b t s) all_tracks))" for b
    by (rule only_writes_concat) (simp add: all_tracks_def only_writes_track)
  show ?thesis
    unfolding parameter_writes_def
    by (simp add: tracks only_writes_language set_tag_request_def)
qed

text \<open>Three numbers of the change set are never looked up.\<close>

lemma parameter_writes_unsent:
  assumes "m_set_change_parameter s \<subseteq> {cp_EnableiButton, cp_BootRunTime, cp_BtcConfigData}"
  shows "parameter_writes tools s = []"
proof -
  have unsent: "changed cp rs s = []" if "cp \<notin> {1, 4, 130}" for cp rs
    using assms that by (auto simp: changed_def cp_codes)
  have tags: "set_private_requests t j s = []" if "is_iso_track t" "j \<le> 2" for t j
    using that by (cases t) (simp_all add: set_private_requests_def unsent cp_codes)
  have item: "changed (cp_msr10 it + (3 * track_code t + j)) rs s = []"
    if "is_iso_track t" "j \<le> 2" for it t j rs
    using that by (cases it; cases t) (simp_all add: unsent)
  have combi: "set_combination_requests t j s = []" if "is_iso_track t" "j \<le> 2" for t j
    unfolding set_combination_requests_def
    by (simp add: tags [OF that] item [OF that] msr_items_def del: cp_msr10.simps)
  have track: "set_track_requests b t s = []" if "is_iso_track t" for b t
    using that
    by (cases t) (simp_all add: set_track_requests_def tags combi unsent cp_codes)
  show ?thesis
    by (simp add: parameter_writes_def unsent cp_codes track all_tracks_def)
qed

lemma item_request_written:
  assumes "is_support_msr_combination tools" "is_iso_track t" "j \<le> 2"
    and "cp_msr10 it + (track_code t * 3 + j) \<in> m_set_change_parameter s"
  shows "item_request it t j s \<in> set (parameter_writes tools s)"
proof -
  have "it \<in> set msr_items" by (cases it) (simp_all add: msr_items_def)
  then have combi: "item_request it t j s \<in> set (set_combination_requests t j s)"
    using assms(4) unfolding set_combination_requests_def item_request_def
    by (auto simp: changed_def mult.commute intro!: bexI [of _ it] simp del: cp_msr10.simps)
  have "j \<in> set [0, 1, 2]" using assms(3) by auto
  with combi have "item_request it t j s \<in> set (concat (map (\<lambda>j. set_combination_requests t j s) [0, 1, 2]))"
    by auto
  then have track: "item_request it t j s \<in> set (set_track_requests True t s)"
    by (simp add: set_track_requests_def)
  have "t \<in> set all_tracks" using assms(2) by (cases t) (simp_all add: all_tracks_def)
  with track have
    "item_request it t j s \<in> set (concat (map (\<lambda>t. set_track_requests True t s) all_tracks))"
    by auto
  then show ?thesis using assms(1) by (simp add: parameter_writes_def)
qed

lemma item_setter_keeps:
  "identified (set_msr_max_size t j v s) = identified s"
  "sendable (set_msr_max_size t j v s) = sendable s"
  "tools_of (set_msr_max_size t j v s) = tools_of s"
  by (simp_all add: set_msr_max_size_def set_msr_def identified_def sendable_def private_tags_def
      tools_of_def set_insert_change_set_def)

text \<open>A read-out device for the examples: a himalia with firmware 1.0.\<close>

definition himalia_device :: proto where
  "himalia_device =
     reset_state\<lparr>m_v_name := [0x68, 0x69, 0x6D, 0x61, 0x6C, 0x69, 0x61],
                 m_version := Version 1 0 0 0\<rparr>"

lemma himalia_device:
  "identified himalia_device" "sendable himalia_device"
  "is_support_msr_combination (tools_of himalia_device)"
  by (simp_all add: himalia_device_def identified_def version_empty_iff version_reset_def
      reset_state_def sendable_def private_tags_def language_map_index_english_def tools_of_def
      cfun_lpu237_def is_support_msr_combination_def char_of_def bit_0)

lemma middle_kept:
  "set ts \<subseteq> set (butlast (tl ((x # xs) @ ps @ qs @ ts @ (y # ys) @ rs)))"
  by (auto simp: butlast_append)

lemma combination_in_full_read:
  assumes "is_support_msr_combination tools" "is_iso_track t" "j \<le> 2"
  shows "set (get_combination_requests t j) \<subseteq> set (butlast (tl (get_parameters_requests tools b)))"
proof -
  have "j \<in> set [0, 1, 2]" using assms(3) by auto
  then have track: "set (get_combination_requests t j) \<subseteq> set (get_track_requests True t)"
    by (auto simp: get_track_requests_def)
  have "t \<in> set all_tracks" using assms(2) by (cases t) (simp_all add: all_tracks_def)
  with track have
    "set (get_combination_requests t j) \<subseteq> set (concat (map (get_track_requests True) all_tracks))"
    by (auto simp del: set_concat simp add: set_concat)
  moreover have "set (concat (map (get_track_requests True) all_tracks))
      \<subseteq> set (butlast (tl (get_parameters_requests tools b)))"
    unfolding get_parameters_requests_def eqTrueI [OF assms(1)] by (rule middle_kept)
  ultimately show ?thesis by (rule subset_trans)
qed

section \<open>Properties\<close>

text \<open>C23. Reading all parameters is one configuration session, and on a device with combinations it
  asks for every per-combination member and tag of every track at its own address.\<close>

theorem full_read_covers_parameters:
  assumes "identified s" "is_support_msr_combination (tools_of s)" "is_iso_track t" "j \<le> 2"
  shows "\<exists>rs. generate_get_parameters s = Some (True, push_all
       ([(gt_enter_config, plain_request cmd_enter_cs 0 [])] @ rs
        @ [(gt_leave_config, plain_request cmd_leave_cs 0 [])]) s)
     \<and> (\<forall>it. (gt_get_msr it t j, get_request (reg_msr_elem (track_code t) (member_of it) j)) \<in> set rs)
     \<and> (gt_get_private_prefix t j, get_request (reg_msr_elem (track_code t) PrivatePrefix j)) \<in> set rs
     \<and> (gt_get_private_postfix t j, get_request (reg_msr_elem (track_code t) PrivatePostfix j)) \<in> set rs"
proof -
  let ?all = "get_parameters_requests (tools_of s) (m_b_device_is_standard s)"
  have split: "?all = [(gt_enter_config, plain_request cmd_enter_cs 0 [])] @ butlast (tl ?all)
      @ [(gt_leave_config, plain_request cmd_leave_cs 0 [])]"
    by (simp add: get_parameters_requests_def butlast_append)
  have "set (get_combination_requests t j) \<subseteq> set (butlast (tl ?all))"
    using assms(2-4) by (rule combination_in_full_read)
  moreover have "(gt_get_msr it t j, get_request (reg_msr_elem (track_code t) (member_of it) j))
      \<in> set (get_combination_requests t j)" for it
    by (cases it) (simp_all add: get_combination_requests_def msr_items_def)
  ultimately show ?thesis
    using get_parameters.run [OF assms(1)] split
    by (intro exI [of _ "butlast (tl ?all)"] conjI allI)
      (auto simp: get_combination_requests_def)
qed

theorem full_read_covers_parameters_witness:
  "\<exists>rs. generate_get_parameters himalia_device = Some (True, push_all
       ([(gt_enter_config, plain_request cmd_enter_cs 0 [])] @ rs
        @ [(gt_leave_config, plain_request cmd_leave_cs 0 [])]) himalia_device)
     \<and> (\<forall>it. (gt_get_msr it iso2_track 1,
                get_request (reg_msr_elem (track_code iso2_track) (member_of it) 1)) \<in> set rs)
     \<and> (gt_get_private_prefix iso2_track 1,
          get_request (reg_msr_elem (track_code iso2_track) PrivatePrefix 1)) \<in> set rs
     \<and> (gt_get_private_postfix iso2_track 1,
          get_request (reg_msr_elem (track_code iso2_track) PrivatePostfix 1)) \<in> set rs"
  by (rule full_read_covers_parameters) (simp_all add: himalia_device)

text \<open>C22. Writing the changed parameters is one configuration session: enter, only writes, apply, leave;
  and the change set is empty after it. The tags must fit their structures and the language must be
  one of the tables.\<close>

theorem full_write_is_a_session:
  assumes "identified s" "sendable s"
  shows "\<exists>rs. generate_set_parameters s = Some (True, (push_all
       ([(gt_enter_config, plain_request cmd_enter_cs 0 [])] @ rs
        @ [(gt_apply, plain_request cmd_apply 0 []), (gt_leave_config, plain_request cmd_leave_cs 0 [])])
       s)\<lparr>m_set_change_parameter := {}\<rparr>)
     \<and> list_all (\<lambda>r. fst r = gt_set_config) rs"
  using generate_set_parameters_run [OF assms] only_writes_parameters [of "tools_of s" s]
  by (intro exI [of _ "parameter_writes (tools_of s) s"])
    (simp add: set_parameters_requests_def only_writes_def)

theorem full_write_is_a_session_witness:
  "\<exists>rs. generate_set_parameters (set_interface 2 himalia_device) = Some (True, (push_all
       ([(gt_enter_config, plain_request cmd_enter_cs 0 [])] @ rs
        @ [(gt_apply, plain_request cmd_apply 0 []), (gt_leave_config, plain_request cmd_leave_cs 0 [])])
       (set_interface 2 himalia_device))\<lparr>m_set_change_parameter := {}\<rparr>)
     \<and> list_all (\<lambda>r. fst r = gt_set_config) rs"
  by (rule full_write_is_a_session)
    (use himalia_device in \<open>simp_all add: set_interface_def set_insert_change_set_def identified_def
       sendable_def private_tags_def\<close>)



text \<open>When nothing but the boot run time (or one of two numbers that no setter records) changed,
  the write session has no write in it, and the change set is cleared nevertheless: a new boot run
  time never reaches the device.\<close>

theorem boot_run_time_is_dropped:
  assumes "identified s" "sendable s"
    and "m_set_change_parameter s \<subseteq> {cp_EnableiButton, cp_BootRunTime, cp_BtcConfigData}"
  shows "generate_set_parameters s = Some (True, (push_all
       [(gt_enter_config, plain_request cmd_enter_cs 0 []), (gt_apply, plain_request cmd_apply 0 []),
        (gt_leave_config, plain_request cmd_leave_cs 0 [])] s)\<lparr>m_set_change_parameter := {}\<rparr>)"
  using generate_set_parameters_run [OF assms(1,2)]
  by (simp add: set_parameters_requests_def parameter_writes_unsent [OF assms(3)])

theorem boot_run_time_is_dropped_witness:
  "generate_set_parameters (set_boot_run_time 20000 himalia_device) = Some (True, (push_all
       [(gt_enter_config, plain_request cmd_enter_cs 0 []), (gt_apply, plain_request cmd_apply 0 []),
        (gt_leave_config, plain_request cmd_leave_cs 0 [])] (set_boot_run_time 20000 himalia_device))
       \<lparr>m_set_change_parameter := {}\<rparr>)"
proof (rule boot_run_time_is_dropped)
  show "identified (set_boot_run_time 20000 himalia_device)"
    "sendable (set_boot_run_time 20000 himalia_device)"
    using himalia_device
    by (simp_all add: set_boot_run_time_def set_insert_change_set_def identified_def
        sendable_def private_tags_def)
qed (simp add: himalia_device_def set_boot_run_time_def set_insert_change_set_def reset_state_def)

text \<open>Before the device has told its name and version neither sequence queues anything.\<close>

theorem unidentified_device_refused:
  assumes "m_v_name s = [] \<or> m_version s = version_reset"
  shows "generate_get_parameters s = Some (False, s) \<and> generate_set_parameters s = Some (False, s)"
  using assms get_parameters_unidentified [of s] set_parameters_unidentified [of s]
  by (auto simp: identified_def version_empty_iff)

theorem unidentified_device_refused_witness:
  "generate_get_parameters reset_state = Some (False, reset_state)
   \<and> generate_set_parameters reset_state = Some (False, reset_state)"
  using unidentified_device_refused [of reset_state] by (simp add: reset_state_def)

text \<open>Changing the interface is refused, with nothing queued, for an interface that the device does
  not support; otherwise it is the session enter, write of the one byte, apply, leave.\<close>

theorem interface_change_guarded:
  "generate_set_interface s =
     (if is_support_interface (m_interface s) (m_b_device_is_standard s)
           (cfun_lpu237 (m_v_name s) (m_version s))
      then Some (True, push_all
        [(gt_enter_config, plain_request cmd_enter_cs 0 []),
         (gt_set_config, set_request (reg_sys Interface) [m_interface s]),
         (gt_apply, plain_request cmd_apply 0 []), (gt_leave_config, plain_request cmd_leave_cs 0 [])] s)
      else Some (False, s))"
proof -
  have run: "run_all [generate_enter_config_mode, generate_set_interface_request,
      generate_apply_config_mode, generate_leave_config_mode] s = Some (True, push_all
        [(gt_enter_config, plain_request cmd_enter_cs 0 []),
         (gt_set_config, set_request (reg_sys Interface) [m_interface s]),
         (gt_apply, plain_request cmd_apply 0 []), (gt_leave_config, plain_request cmd_leave_cs 0 [])] s)"
    using request_generator.run [OF request_generator_Cons [OF bare_generators_keep(1)
        request_generator_Cons [OF plain_set_generators(2)
        request_generator_Cons [OF bare_generators_keep(3)
        request_generator_Cons [OF bare_generators_keep(2) request_generator_Nil]]]], of s]
    by (simp add: byte_enc_defs del: run_all.simps)
  show ?thesis
    by (simp add: generate_set_interface_def Let_def tools_of_def run del: run_all.simps)
qed

end
