(* ===== verification/ProtoRx.thy ===== *)
theory ProtoRx
  imports ProtoSet
begin

text \<open>
  The response side of \<open>cprotocol_lpu237\<close>: checking the response at the front of the receive queue
  (\<open>is_success_rx\<close>, \<open>get_response_result\<close>), storing its data in the object (\<open>_set_*_by_rx\<close>) and the
  dispatch by the kind of the oldest request (\<open>set_from_rx\<close>).
\<close>

section \<open>Checking a response\<close>

text \<open>\<open>response_good\<close> or \<open>response_good_negative\<close>.\<close>

definition good_result :: "byte \<Rightarrow> bool" where
  "good_result b = (b = response_good \<or> b = response_good_negative)"

text \<open>
  \<open>is_success_rx(out_v_response, b_remove)\<close>: the response at the front, when it is one. A response
  of a wrong size or prefix is dropped whatever \<open>b_remove\<close> says.
\<close>

definition is_success_rx_v ::
  "bool \<Rightarrow> 'a proto_queue_scheme \<Rightarrow> bytes option \<times> 'a proto_queue_scheme" where
  "is_success_rx_v b_remove s =
     (case m_dequeu_v_rx s of
        [] \<Rightarrow> (None, s)
      | v # vs \<Rightarrow>
          if length v \<noteq> rx_size then (None, s\<lparr>m_dequeu_v_rx := vs\<rparr>)
          else if v ! 0 \<noteq> msr_response_prefix then (None, s\<lparr>m_dequeu_v_rx := vs\<rparr>)
          else let s' = (if b_remove then s\<lparr>m_dequeu_v_rx := vs\<rparr> else s)
               in if v ! 1 = response_good then (Some v, s')
                  else if v ! 1 = response_good_negative then (Some v, s')
                  else (None, s'))"

text \<open>\<open>is_success_rx(b_remove)\<close>\<close>

definition is_success_rx ::
  "bool \<Rightarrow> 'a proto_queue_scheme \<Rightarrow> bool \<times> 'a proto_queue_scheme" where
  "is_success_rx b_remove s =
     (let b_result =
        (case m_dequeu_v_rx s of
           [] \<Rightarrow> False
         | v # vs \<Rightarrow>
             if length v \<noteq> rx_size then False
             else if v ! 0 \<noteq> msr_response_prefix then False
             else if v ! 1 = response_good then True
             else if v ! 1 = response_good_negative then True
             else False)
      in (b_result,
          if m_dequeu_v_rx s \<noteq> [] \<and> b_remove
          then s\<lparr>m_dequeu_v_rx := tl (m_dequeu_v_rx s)\<rparr> else s))"

text \<open>\<open>get_response_result(out_result, b_remove)\<close>\<close>

definition get_response_result ::
  "bool \<Rightarrow> 'a proto_queue_scheme \<Rightarrow> bool \<times> byte \<times> 'a proto_queue_scheme" where
  "get_response_result b_remove s =
     (let (b_result, out_result) =
        (case m_dequeu_v_rx s of
           [] \<Rightarrow> (False, response_good)
         | v # vs \<Rightarrow>
             if length v \<noteq> rx_size then (False, response_good)
             else if v ! 0 \<noteq> msr_response_prefix then (False, response_good)
             else if v ! 1 \<in> {response_good, response_good_negative, response_error_crc,
                              response_error_mislength, response_error_mismatching_key,
                              response_error_mischeck_block, response_error_invalid,
                              response_error_verify}
             then (True, v ! 1) else (False, response_good))
      in (b_result, out_result,
          if m_dequeu_v_rx s \<noteq> [] \<and> b_remove
          then s\<lparr>m_dequeu_v_rx := tl (m_dequeu_v_rx s)\<rparr> else s))"

section \<open>Storing a response\<close>

text \<open>
  The shape of the \<open>_set_*_by_rx\<close> functions: a good response whose size field is the size of the
  member, whose data \<open>s_data\<close> (from byte 3 on) are stored. \<open>store\<close> is \<open>None\<close> when the data are read
  beyond the response.
\<close>

definition set_by_rx :: "nat \<Rightarrow> (bytes \<Rightarrow> proto \<Rightarrow> proto option) \<Rightarrow> proto op" where
  "set_by_rx n store s =
     (case is_success_rx_v True s of
        (None, s') \<Rightarrow> Some (False, s')
      | (Some v_response, s') \<Rightarrow>
          if unat (v_response ! 2) \<noteq> n then Some (False, s')
          else map_option (Pair True) (store (drop 3 v_response) s'))"

text \<open>A member of fixed size lies within the response.\<close>

definition set_value_by_rx :: "nat \<Rightarrow> (bytes \<Rightarrow> proto \<Rightarrow> proto) \<Rightarrow> proto op" where
  "set_value_by_rx n store = set_by_rx n (\<lambda>d s. Some (store d s))"

definition version_of :: "bytes \<Rightarrow> version" where
  "version_of d = Version (d ! 0) (d ! 1) (d ! 2) (d ! 3)"

definition set_version_by_rx :: "proto op" where
  "set_version_by_rx =
     set_value_by_rx (snd (reg_sys sSysVer)) (\<lambda>d s. s\<lparr>m_version := version_of d\<rparr>)"

definition set_version_structure_by_rx :: "proto op" where
  "set_version_structure_by_rx =
     set_value_by_rx (snd (reg_sys sStrucVer)) (\<lambda>d s. s\<lparr>m_version_structure := version_of d\<rparr>)"

definition set_name_by_rx :: "proto op" where
  "set_name_by_rx =
     set_value_by_rx (snd (reg_sys sName))
       (\<lambda>d s. s\<lparr>m_v_name := take (snd (reg_sys sName)) d\<rparr>)"

definition set_device_support_mmd1000_by_rx :: "proto op" where
  "set_device_support_mmd1000_by_rx s =
     (case get_response_result True s of
        (b, out_result, s') \<Rightarrow>
          if \<not> b then Some (False, s')
          else Some (True, s'\<lparr>m_b_device_is_mmd1000 := (out_result = response_good)\<rparr>))"

definition the_size_of_uid :: nat where "the_size_of_uid = 4 * 4"

definition set_uid_by_rx :: "proto op" where
  "set_uid_by_rx = set_value_by_rx the_size_of_uid (\<lambda>d s. s\<lparr>m_v_uid := take the_size_of_uid d\<rparr>)"

definition set_device_ibutton_type_by_rx :: "proto op" where
  "set_device_ibutton_type_by_rx s =
     (case is_success_rx_v True s of
        (None, s') \<Rightarrow> Some (False, s')
      | (Some v_response, s') \<Rightarrow>
          Some (True, s'\<lparr>m_b_device_is_ibutton_only := (v_response ! 1 = response_good)\<rparr>))"

definition set_device_type_by_rx :: "proto op" where
  "set_device_type_by_rx s =
     (case is_success_rx_v True s of
        (None, s') \<Rightarrow> Some (False, s')
      | (Some v_response, s') \<Rightarrow>
          Some (True, s'\<lparr>m_b_device_is_standard := (v_response ! 1 = response_good)\<rparr>))"

definition set_global_pre_postfix_send_condition_by_rx :: "proto op" where
  "set_global_pre_postfix_send_condition_by_rx =
     set_value_by_rx (snd (reg_container nGlobalTagCondition))
       (\<lambda>d s. s\<lparr>m_b_global_pre_postfix_send_condition := dec_flag32 d\<rparr>)"

definition set_interface_by_rx :: "proto op" where
  "set_interface_by_rx =
     set_value_by_rx (snd (reg_sys Interface)) (\<lambda>d s. s\<lparr>m_interface := dec_byte d\<rparr>)"

definition set_language_by_rx :: "proto op" where
  "set_language_by_rx =
     set_value_by_rx (snd reg_container_map_index) (\<lambda>d s. s\<lparr>m_language_index := dec_byte32 d\<rparr>)"

definition set_buzzer_frequency_by_rx :: "proto op" where
  "set_buzzer_frequency_by_rx =
     set_value_by_rx (snd (reg_sys nBuzzerFrequency))
       (\<lambda>d s. s\<lparr>m_dw_buzzer_frequency := un_le32 d\<rparr>)"

definition set_boot_run_time_by_rx :: "proto op" where
  "set_boot_run_time_by_rx =
     set_value_by_rx (snd (reg_sys nBootRunTime)) (\<lambda>d s. s\<lparr>m_dw_boot_run_time := un_le32 d\<rparr>)"

section \<open>Parameters of a track\<close>

definition set_enable_track_by_rx :: "track \<Rightarrow> proto op" where
  "set_enable_track_by_rx t =
     switch_track
       (\<lambda>i. set_value_by_rx (snd (reg_msr i cEnableTrack))
              (\<lambda>d s. s\<lparr>m_b_enable_iso := (m_b_enable_iso s)(track_code t := dec_flag d)\<rparr>)) t"

definition set_direction_by_rx :: "track \<Rightarrow> proto op" where
  "set_direction_by_rx t =
     switch_track
       (\<lambda>i. set_value_by_rx (snd (reg_msr_elem i cRDirect 0))
              (\<lambda>d s. s\<lparr>m_direction := (m_direction s)(track_code t := dec_byte d)\<rparr>)) t"

definition set_combination_by_rx :: "track \<Rightarrow> proto op" where
  "set_combination_by_rx t =
     switch_track
       (\<lambda>i. set_value_by_rx (snd (reg_msr i cSupportNum))
              (\<lambda>d s. s\<lparr>m_n_combination := (m_n_combination s)(track_code t := dec_u32_byte d)\<rparr>)) t"

definition set_track_of_orders_by_rx :: "proto op" where
  "set_track_of_orders_by_rx =
     set_value_by_rx (snd (reg_container nOrderObject))
       (\<lambda>d s. s\<lparr>m_n_order_of_track := (m_n_order_of_track s)
                  (0 := un_le32 d, 1 := un_le32 (drop 4 d), 2 := un_le32 (drop 8 d))\<rparr>)"

text \<open>The functions with a combination; \<open>upd2\<close> is the assignment to \<open>m_x[track][n_combi]\<close>.\<close>

definition set_elem_by_rx ::
  "info_msr_member \<Rightarrow> (bytes \<Rightarrow> 'v) \<Rightarrow> (((nat \<Rightarrow> nat \<Rightarrow> 'v) \<Rightarrow> nat \<Rightarrow> nat \<Rightarrow> 'v) \<Rightarrow> proto \<Rightarrow> proto)
     \<Rightarrow> track \<Rightarrow> int \<Rightarrow> proto op" where
  "set_elem_by_rx m dec upd t n_combi s =
     (if n_combi < 0 \<or> n_combi > 2 then Some (False, s)
      else
        switch_track
          (\<lambda>i. set_value_by_rx (snd (reg_msr_elem i m (nat n_combi)))
                 (\<lambda>d. upd (\<lambda>a. upd2 a (track_code t) (nat n_combi) (dec d)))) t s)"

definition set_msr_max_size_by_rx :: "track \<Rightarrow> int \<Rightarrow> proto op" where
  "set_msr_max_size_by_rx = set_elem_by_rx cMaxSize dec_u32_byte m_n_msr_max_size_update"

definition set_msr_bit_size_by_rx :: "track \<Rightarrow> int \<Rightarrow> proto op" where
  "set_msr_bit_size_by_rx = set_elem_by_rx cBitSize dec_u32_byte m_n_msr_bit_size_update"

definition set_msr_data_mask_by_rx :: "track \<Rightarrow> int \<Rightarrow> proto op" where
  "set_msr_data_mask_by_rx = set_elem_by_rx cDataMask dec_byte m_n_msr_data_mask_update"

definition set_msr_use_parity_by_rx :: "track \<Rightarrow> int \<Rightarrow> proto op" where
  "set_msr_use_parity_by_rx = set_elem_by_rx bUseParity dec_flag m_b_msr_use_parity_update"

definition set_msr_parity_type_by_rx :: "track \<Rightarrow> int \<Rightarrow> proto op" where
  "set_msr_parity_type_by_rx = set_elem_by_rx cParityType dec_byte m_c_msr_parity_type_update"

definition set_msr_stxl_by_rx :: "track \<Rightarrow> int \<Rightarrow> proto op" where
  "set_msr_stxl_by_rx = set_elem_by_rx cSTX_L dec_byte m_c_msr_stxl_update"

definition set_msr_etxl_by_rx :: "track \<Rightarrow> int \<Rightarrow> proto op" where
  "set_msr_etxl_by_rx = set_elem_by_rx cETX_L dec_byte m_c_msr_etxl_update"

definition set_msr_use_error_correct_by_rx :: "track \<Rightarrow> int \<Rightarrow> proto op" where
  "set_msr_use_error_correct_by_rx = set_elem_by_rx bUseErrorCorrect dec_flag m_b_msr_use_error_correct_update"

definition set_msr_ecm_type_by_rx :: "track \<Rightarrow> int \<Rightarrow> proto op" where
  "set_msr_ecm_type_by_rx = set_elem_by_rx cECMType dec_byte m_c_msr_ecm_type_update"

definition set_msr_add_value_by_rx :: "track \<Rightarrow> int \<Rightarrow> proto op" where
  "set_msr_add_value_by_rx = set_elem_by_rx cAddValue dec_u32_byte m_n_msr_add_value_update"

lemmas msr_by_rx_defs =
  set_msr_max_size_by_rx_def
  set_msr_bit_size_by_rx_def
  set_msr_data_mask_by_rx_def
  set_msr_use_parity_by_rx_def
  set_msr_parity_type_by_rx_def
  set_msr_stxl_by_rx_def
  set_msr_etxl_by_rx_def
  set_msr_use_error_correct_by_rx_def
  set_msr_ecm_type_by_rx_def
  set_msr_add_value_by_rx_def

section \<open>Tags\<close>

text \<open>
  \<open>v.resize(cSize); copy(&sTag[0], &sTag[cSize], ..)\<close>: the size byte of the tag comes from the device
  and is not compared with the size of the structure. The copy stays inside the response of
  \<open>rx_size\<close> bytes only when \<open>4 + cSize\<close> does not exceed it.
\<close>

definition tag_from_rx :: "bytes \<Rightarrow> bytes option" where
  "tag_from_rx d = (if 1 + unat (d ! 0) \<le> length d then Some (dec_tag d) else None)"

definition set_tag_by_rx :: "nat \<Rightarrow> (bytes \<Rightarrow> proto \<Rightarrow> proto) \<Rightarrow> proto op" where
  "set_tag_by_rx n store =
     set_by_rx n (\<lambda>d s. map_option (\<lambda>v. store v s) (tag_from_rx d))"

definition set_global_prefix_by_rx :: "proto op" where
  "set_global_prefix_by_rx =
     set_tag_by_rx (snd (reg_container ContGlobalPrefix)) (\<lambda>v s. s\<lparr>m_v_global_prefix := v\<rparr>)"

definition set_global_postfix_by_rx :: "proto op" where
  "set_global_postfix_by_rx =
     set_tag_by_rx (snd (reg_container ContGlobalPostfix)) (\<lambda>v s. s\<lparr>m_v_global_postfix := v\<rparr>)"

definition set_ibutton_prefix_by_rx :: "proto op" where
  "set_ibutton_prefix_by_rx =
     set_tag_by_rx (snd (reg_std_pp InfoIButton GlobalPrefix)) (\<lambda>v s. s\<lparr>m_v_prefix_ibutton := v\<rparr>)"

definition set_ibutton_postfix_by_rx :: "proto op" where
  "set_ibutton_postfix_by_rx =
     set_tag_by_rx (snd (reg_std_pp InfoIButton GlobalPostfix)) (\<lambda>v s. s\<lparr>m_v_postfix_ibutton := v\<rparr>)"

definition set_uart_prefix_by_rx :: "proto op" where
  "set_uart_prefix_by_rx =
     set_tag_by_rx (snd (reg_std_pp InfoUart GlobalPrefix)) (\<lambda>v s. s\<lparr>m_v_prefix_uart := v\<rparr>)"

definition set_uart_postfix_by_rx :: "proto op" where
  "set_uart_postfix_by_rx =
     set_tag_by_rx (snd (reg_std_pp InfoUart GlobalPostfix)) (\<lambda>v s. s\<lparr>m_v_postfix_uart := v\<rparr>)"

definition set_ibutton_remove_by_rx :: "proto op" where
  "set_ibutton_remove_by_rx =
     set_tag_by_rx (snd (reg_std RemoveItemTag)) (\<lambda>v s. s\<lparr>m_v_ibutton_remove := v\<rparr>)"

definition set_ibutton_prefix_remove_by_rx :: "proto op" where
  "set_ibutton_prefix_remove_by_rx =
     set_tag_by_rx (snd (reg_std_pp InfoIButtonRemove GlobalPrefix)) (\<lambda>v s. s\<lparr>m_v_prefix_ibutton_remove := v\<rparr>)"

definition set_ibutton_postfix_remove_by_rx :: "proto op" where
  "set_ibutton_postfix_remove_by_rx =
     set_tag_by_rx (snd (reg_std_pp InfoIButtonRemove GlobalPostfix)) (\<lambda>v s. s\<lparr>m_v_postfix_ibutton_remove := v\<rparr>)"

definition set_private_tag_by_rx ::
  "info_msr_member \<Rightarrow> (((nat \<Rightarrow> nat \<Rightarrow> bytes) \<Rightarrow> nat \<Rightarrow> nat \<Rightarrow> bytes) \<Rightarrow> proto \<Rightarrow> proto)
     \<Rightarrow> track \<Rightarrow> int \<Rightarrow> proto op" where
  "set_private_tag_by_rx m upd t n_combi s =
     (if n_combi < 0 \<or> n_combi > 2 then Some (False, s)
      else
        switch_track
          (\<lambda>i. set_tag_by_rx (snd (reg_msr_elem i m (nat n_combi)))
                 (\<lambda>v. upd (\<lambda>a. upd2 a (track_code t) (nat n_combi) v))) t s)"

definition set_private_prefix_by_rx :: "track \<Rightarrow> int \<Rightarrow> proto op" where
  "set_private_prefix_by_rx = set_private_tag_by_rx PrivatePrefix m_v_private_prefix_update"

definition set_private_postfix_by_rx :: "track \<Rightarrow> int \<Rightarrow> proto op" where
  "set_private_postfix_by_rx = set_private_tag_by_rx PrivatePostfix m_v_private_postfix_update"

section \<open>Blanks\<close>

definition store_blanks :: "bytes \<Rightarrow> proto \<Rightarrow> proto" where
  "store_blanks d s =
     (let c = (m_c_blank s)(0 := d ! 0, 1 := d ! 1, 2 := d ! 2, 3 := d ! 3) in
      s\<lparr>m_c_blank := c,
        m_b_mmd1100_is_iso_mode := (c 3 AND 0x08 \<noteq> 0),
        m_b_f12_ibutton := (c 2 AND 0x01 \<noteq> 0),
        m_b_zeros_ibutton := \<not> (c 2 AND 0x02 \<noteq> 0),
        m_b_zeros_7times_ibutton := (c 2 AND 0x04 \<noteq> 0),
        m_b_addmit_code_stick_ibutton := (c 2 AND 0x08 \<noteq> 0),
        m_c_ibutton_start_code_zero_base_index := drop_bit 4 (c 0),
        m_c_ibutton_stop_code_zero_base_index := 0x0F AND c 0,
        m_c_mmd1100_reset_interval := drop_bit 4 (c 1),
        m_b_indicate_success_if_any_trace_ok := (c 1 AND 0x01 \<noteq> 0),
        m_b_ignore_1track_if_12_is_equal := (c 1 AND 0x02 \<noteq> 0),
        m_b_ignore_3track_if_12_is_equal := (c 1 AND 0x04 \<noteq> 0),
        m_b_ignore_colron := (c 1 AND 0x08 \<noteq> 0)\<rparr>)"

definition set_blanks_by_rx :: "proto op" where
  "set_blanks_by_rx = set_value_by_rx (snd (reg_sys cBlank)) store_blanks"

section \<open>Dispatch\<close>

text \<open>\<open>b_result = is_success_rx();\<close>\<close>

definition success_by_rx :: "proto op" where
  "success_by_rx s = Some (is_success_rx True s)"

definition is_success_start_ibutton :: "proto op" where
  "is_success_start_ibutton = success_by_rx"
definition is_success_stop_ibutton :: "proto op" where
  "is_success_stop_ibutton = success_by_rx"
definition is_success_enter_opos_mode :: "proto op" where
  "is_success_enter_opos_mode = success_by_rx"
definition is_success_leave_opos_mode :: "proto op" where
  "is_success_leave_opos_mode = success_by_rx"
definition is_success_enter_config_mode :: "proto op" where
  "is_success_enter_config_mode = success_by_rx"
definition is_success_leave_config_mode :: "proto op" where
  "is_success_leave_config_mode = success_by_rx"
definition is_success_apply_config_mode :: "proto op" where
  "is_success_apply_config_mode = success_by_rx"
definition is_success_run_boot_loader :: "proto op" where
  "is_success_run_boot_loader = success_by_rx"

definition and_set :: "proto op \<Rightarrow> (proto \<Rightarrow> proto) \<Rightarrow> proto op" where
  "and_set f g s =
     map_option (\<lambda>(b_result, s'). if b_result then (True, g s') else (False, s')) (f s)"

text \<open>The cases of the ten per-combination members, lines 2535 to 2804 of the switch.\<close>

fun set_msr_item_by_rx :: "msr_item \<Rightarrow> track \<Rightarrow> nat \<Rightarrow> proto op" where
  "set_msr_item_by_rx max_size t n = set_msr_max_size_by_rx t (int n)"
| "set_msr_item_by_rx bit_size t n = set_msr_bit_size_by_rx t (int n)"
| "set_msr_item_by_rx data_mask t n = set_msr_data_mask_by_rx t (int n)"
| "set_msr_item_by_rx use_parity t n = set_msr_use_parity_by_rx t (int n)"
| "set_msr_item_by_rx parity_type t n = set_msr_parity_type_by_rx t (int n)"
| "set_msr_item_by_rx stxl t n = set_msr_stxl_by_rx t (int n)"
| "set_msr_item_by_rx etxl t n = set_msr_etxl_by_rx t (int n)"
| "set_msr_item_by_rx use_error_correct t n = set_msr_use_error_correct_by_rx t (int n)"
| "set_msr_item_by_rx ecm_type t n = set_msr_ecm_type_by_rx t (int n)"
| "set_msr_item_by_rx add_value t n = set_msr_add_value_by_rx t (int n)"

text \<open>The switch of \<open>set_from_rx\<close> over the kind of the request.\<close>

fun dispatch_rx :: "generated_tx \<Rightarrow> proto op" where
  "dispatch_rx gt_get_version = set_version_by_rx"
| "dispatch_rx gt_type_device =
     and_set set_device_type_by_rx
       (\<lambda>s. s\<lparr>m_device_function := (if \<not> m_b_device_is_standard s then fun_msr
                                      else fun_msr_ibutton)\<rparr>)"
| "dispatch_rx gt_type_ibutton_only =
     and_set set_device_ibutton_type_by_rx
       (\<lambda>s. if m_b_device_is_ibutton_only s then s\<lparr>m_device_function := fun_ibutton\<rparr> else s)"
| "dispatch_rx gt_get_version_structure = set_version_structure_by_rx"
| "dispatch_rx gt_read_uid = set_uid_by_rx"
| "dispatch_rx gt_change_authkey = success_by_rx"
| "dispatch_rx gt_change_status = success_by_rx"
| "dispatch_rx gt_change_sn = success_by_rx"
| "dispatch_rx gt_enter_config = is_success_enter_config_mode"
| "dispatch_rx gt_leave_config = is_success_leave_config_mode"
| "dispatch_rx gt_apply = is_success_apply_config_mode"
| "dispatch_rx gt_goto_boot = is_success_run_boot_loader"
| "dispatch_rx gt_enter_opos = is_success_enter_opos_mode"
| "dispatch_rx gt_leave_opos = is_success_leave_opos_mode"
| "dispatch_rx gt_start_ibutton = is_success_start_ibutton"
| "dispatch_rx gt_stop_ibutton = is_success_stop_ibutton"
| "dispatch_rx gt_support_mmd1000 = set_device_support_mmd1000_by_rx"
| "dispatch_rx gt_get_name = set_name_by_rx"
| "dispatch_rx gt_get_global_prepostfix_send_condition =
     set_global_pre_postfix_send_condition_by_rx"
| "dispatch_rx gt_get_interface = set_interface_by_rx"
| "dispatch_rx gt_get_language = set_language_by_rx"
| "dispatch_rx gt_get_buzzer_frequency = set_buzzer_frequency_by_rx"
| "dispatch_rx gt_get_boot_run_time = set_boot_run_time_by_rx"
| "dispatch_rx (gt_get_enable_iso t) = set_enable_track_by_rx t"
| "dispatch_rx (gt_get_direction t) = set_direction_by_rx t"
| "dispatch_rx gt_get_global_prefix = set_global_prefix_by_rx"
| "dispatch_rx gt_get_global_postfix = set_global_postfix_by_rx"
| "dispatch_rx gt_get_prefix_ibutton = set_ibutton_prefix_by_rx"
| "dispatch_rx gt_get_postfix_ibutton = set_ibutton_postfix_by_rx"
| "dispatch_rx gt_get_prefix_uart = set_uart_prefix_by_rx"
| "dispatch_rx gt_get_postfix_uart = set_uart_postfix_by_rx"
| "dispatch_rx gt_get_blanks = set_blanks_by_rx"
| "dispatch_rx gt_get_orders = set_track_of_orders_by_rx"
| "dispatch_rx (gt_get_combination t) = set_combination_by_rx t"
| "dispatch_rx (gt_get_msr it t n) = set_msr_item_by_rx it t n"
| "dispatch_rx (gt_get_private_prefix t n) = set_private_prefix_by_rx t (int n)"
| "dispatch_rx (gt_get_private_postfix t n) = set_private_postfix_by_rx t (int n)"
| "dispatch_rx gt_get_ibutton_remove = set_ibutton_remove_by_rx"
| "dispatch_rx gt_get_prefix_ibutton_remove = set_ibutton_prefix_remove_by_rx"
| "dispatch_rx gt_get_postfix_ibutton_remove = set_ibutton_postfix_remove_by_rx"
| "dispatch_rx gt_set_config = success_by_rx"
| "dispatch_rx gt_bypass_uart = success_by_rx"

definition set_from_rx :: "proto op" where
  "set_from_rx s =
     (case m_deque_generated_tx s of
        [] \<Rightarrow> Some (False, s)
      | tx_type # ts \<Rightarrow> dispatch_rx tx_type (s\<lparr>m_deque_generated_tx := ts\<rparr>))"

section \<open>What a response does to the queues\<close>

text \<open>
  Every function that looks at a response takes at most the front one from the queue, whatever it
  holds, and leaves the other queues alone.
\<close>

definition consumes_front :: "proto \<Rightarrow> proto \<Rightarrow> bool" where
  "consumes_front s s' =
     (m_dequeu_v_rx s' = tl (m_dequeu_v_rx s) \<and> m_dequeu_v_tx s' = m_dequeu_v_tx s
        \<and> m_deque_generated_tx s' = m_deque_generated_tx s
        \<and> m_set_change_parameter s' = m_set_change_parameter s)"

lemma is_success_rx_v_consumes:
  "is_success_rx_v True s = (r, s') \<Longrightarrow> consumes_front s (s' :: proto)"
  by (auto simp: is_success_rx_v_def consumes_front_def Let_def split: list.splits if_splits)

lemma is_success_rx_consumes:
  "is_success_rx True s = (b, s') \<Longrightarrow> consumes_front s (s' :: proto)"
  by (cases "m_dequeu_v_rx s") (auto simp: is_success_rx_def consumes_front_def Let_def)

lemma get_response_result_consumes:
  "get_response_result True s = (b, r, s') \<Longrightarrow> consumes_front s (s' :: proto)"
  by (cases "m_dequeu_v_rx s")
    (auto simp: get_response_result_def consumes_front_def Let_def split: prod.splits)

text \<open>A store that only writes parameters.\<close>

definition writes_parameters :: "(bytes \<Rightarrow> proto \<Rightarrow> proto) \<Rightarrow> bool" where
  "writes_parameters store =
     (\<forall>d s. m_dequeu_v_rx (store d s) = m_dequeu_v_rx s \<and>
            m_dequeu_v_tx (store d s) = m_dequeu_v_tx s \<and>
            m_deque_generated_tx (store d s) = m_deque_generated_tx s \<and>
            m_set_change_parameter (store d s) = m_set_change_parameter s)"

definition rx_step :: "proto op \<Rightarrow> bool" where
  "rx_step f = (\<forall>s b s'. f s = Some (b, s') \<longrightarrow> consumes_front s s')"

lemma rx_stepI: "(\<And>s b s'. f s = Some (b, s') \<Longrightarrow> consumes_front s s') \<Longrightarrow> rx_step f"
  by (auto simp: rx_step_def)

lemma rx_step_set_by_rx:
  assumes "\<And>d s s'. store d s = Some s' \<Longrightarrow>
      m_dequeu_v_rx s' = m_dequeu_v_rx s \<and> m_dequeu_v_tx s' = m_dequeu_v_tx s \<and>
      m_deque_generated_tx s' = m_deque_generated_tx s \<and>
      m_set_change_parameter s' = m_set_change_parameter s"
  shows "rx_step (set_by_rx n store)"
proof (rule rx_stepI)
  fix s b s'
  assume f: "set_by_rx n store s = Some (b, s')"
  obtain r s1 where r: "is_success_rx_v True s = (r, s1)" by fastforce
  then have "consumes_front s s1" by (rule is_success_rx_v_consumes)
  then show "consumes_front s s'"
    using f r assms
    by (auto simp: set_by_rx_def consumes_front_def split: option.splits if_splits)
qed

lemma rx_step_value: "writes_parameters store \<Longrightarrow> rx_step (set_value_by_rx n store)"
  unfolding set_value_by_rx_def by (rule rx_step_set_by_rx) (auto simp: writes_parameters_def)

lemma rx_step_tag: "writes_parameters store \<Longrightarrow> rx_step (set_tag_by_rx n store)"
  unfolding set_tag_by_rx_def by (rule rx_step_set_by_rx) (auto simp: writes_parameters_def)

lemma rx_step_success: "rx_step success_by_rx"
  by (rule rx_stepI) (simp add: success_by_rx_def is_success_rx_consumes)

text \<open>The kinds that the generators queue: an existing track, an existing combination.\<close>

fun wf_gt :: "generated_tx \<Rightarrow> bool" where
  "wf_gt (gt_get_enable_iso t) = is_iso_track t"
| "wf_gt (gt_get_direction t) = is_iso_track t"
| "wf_gt (gt_get_combination t) = is_iso_track t"
| "wf_gt (gt_get_msr it t n) = (is_iso_track t \<and> n \<le> 2)"
| "wf_gt (gt_get_private_prefix t n) = (is_iso_track t \<and> n \<le> 2)"
| "wf_gt (gt_get_private_postfix t n) = (is_iso_track t \<and> n \<le> 2)"
| "wf_gt _ = True"

lemma track_index_iso: "is_iso_track t \<Longrightarrow> track_index t = Some (track_code t)"
  by (cases t) simp_all

lemma switch_track_iso: "is_iso_track t \<Longrightarrow> switch_track f t = f (track_code t)"
  by (rule ext) (simp add: switch_track_def track_index_iso)

lemma set_elem_by_rx_iso:
  "is_iso_track t \<Longrightarrow> n \<le> 2 \<Longrightarrow>
     set_elem_by_rx m dec upd t (int n) =
       set_value_by_rx (snd (reg_msr_elem (track_code t) m n))
         (\<lambda>d. upd (\<lambda>a. upd2 a (track_code t) n (dec d)))"
  by (rule ext) (simp add: set_elem_by_rx_def switch_track_iso)

lemma set_private_tag_by_rx_iso:
  "is_iso_track t \<Longrightarrow> n \<le> 2 \<Longrightarrow>
     set_private_tag_by_rx m upd t (int n) =
       set_tag_by_rx (snd (reg_msr_elem (track_code t) m n))
         (\<lambda>v. upd (\<lambda>a. upd2 a (track_code t) n v))"
  by (rule ext) (simp add: set_private_tag_by_rx_def switch_track_iso)

lemmas value_by_rx_defs =
  set_version_by_rx_def set_version_structure_by_rx_def set_name_by_rx_def set_uid_by_rx_def
  set_global_pre_postfix_send_condition_by_rx_def set_interface_by_rx_def set_language_by_rx_def
  set_buzzer_frequency_by_rx_def set_boot_run_time_by_rx_def set_track_of_orders_by_rx_def

lemmas tag_by_rx_defs =
  set_global_prefix_by_rx_def set_global_postfix_by_rx_def set_ibutton_prefix_by_rx_def
  set_ibutton_postfix_by_rx_def set_uart_prefix_by_rx_def set_uart_postfix_by_rx_def
  set_ibutton_remove_by_rx_def set_ibutton_prefix_remove_by_rx_def
  set_ibutton_postfix_remove_by_rx_def

lemma rx_step_values:
  "rx_step set_version_by_rx" "rx_step set_version_structure_by_rx" "rx_step set_name_by_rx"
  "rx_step set_uid_by_rx" "rx_step set_global_pre_postfix_send_condition_by_rx"
  "rx_step set_interface_by_rx" "rx_step set_language_by_rx" "rx_step set_buzzer_frequency_by_rx"
  "rx_step set_boot_run_time_by_rx" "rx_step set_track_of_orders_by_rx"
  unfolding value_by_rx_defs by (rule rx_step_value; simp add: writes_parameters_def)+

lemma rx_step_tags:
  "rx_step set_global_prefix_by_rx" "rx_step set_global_postfix_by_rx"
  "rx_step set_ibutton_prefix_by_rx" "rx_step set_ibutton_postfix_by_rx"
  "rx_step set_uart_prefix_by_rx" "rx_step set_uart_postfix_by_rx"
  "rx_step set_ibutton_remove_by_rx" "rx_step set_ibutton_prefix_remove_by_rx"
  "rx_step set_ibutton_postfix_remove_by_rx"
  unfolding tag_by_rx_defs by (rule rx_step_tag; simp add: writes_parameters_def)+

lemma rx_step_blanks: "rx_step set_blanks_by_rx"
  unfolding set_blanks_by_rx_def
  by (rule rx_step_value) (simp add: writes_parameters_def store_blanks_def Let_def)

lemma consumes_front_simps:
  "consumes_front s (s'\<lparr>m_b_device_is_ibutton_only := b\<rparr>) = consumes_front s s'"
  "consumes_front s (s'\<lparr>m_b_device_is_standard := b\<rparr>) = consumes_front s s'"
  "consumes_front s (s'\<lparr>m_b_device_is_mmd1000 := b\<rparr>) = consumes_front s s'"
  "consumes_front s (s'\<lparr>m_device_function := f\<rparr>) = consumes_front s s'"
  by (simp_all add: consumes_front_def)

lemma rx_step_types:
  "rx_step set_device_ibutton_type_by_rx" "rx_step set_device_type_by_rx"
proof -
  have "consumes_front s s'"
    if "is_success_rx_v True s = (r, s1)" "(case r of None \<Rightarrow> Some (False, s1)
          | Some v \<Rightarrow> Some (True, g v s1)) = Some (b, s')"
      "\<And>v. consumes_front s (g v s1) = consumes_front s s1"
    for s s1 s' :: proto and r b and g :: "bytes \<Rightarrow> proto \<Rightarrow> proto"
    using that is_success_rx_v_consumes [OF that(1)] by (cases r) (simp_all, metis)
  from this [where g = "\<lambda>v s. s\<lparr>m_b_device_is_ibutton_only := (v ! 1 = response_good)\<rparr>"]
    this [where g = "\<lambda>v s. s\<lparr>m_b_device_is_standard := (v ! 1 = response_good)\<rparr>"]
  show "rx_step set_device_ibutton_type_by_rx" "rx_step set_device_type_by_rx"
    by (simp_all add: rx_step_def set_device_ibutton_type_by_rx_def set_device_type_by_rx_def
        consumes_front_simps split: prod.splits)
qed

lemma rx_step_mmd1000: "rx_step set_device_support_mmd1000_by_rx"
proof (rule rx_stepI)
  fix s b s'
  assume f: "set_device_support_mmd1000_by_rx s = Some (b, s')"
  obtain c r s1 where r: "get_response_result True s = (c, r, s1)"
    by (cases "get_response_result True s")
  then have "consumes_front s s1" by (rule get_response_result_consumes)
  then show "consumes_front s s'"
    using f r by (cases c) (simp_all add: set_device_support_mmd1000_by_rx_def,
        metis consumes_front_simps(3))
qed

lemma rx_step_and_set:
  assumes "rx_step f" "\<And>s s'. consumes_front s (g s') = consumes_front s s'"
  shows "rx_step (and_set f g)"
proof (rule rx_stepI)
  fix s b s'
  assume a: "and_set f g s = Some (b, s')"
  then obtain p where p: "f s = Some p" by (cases "f s") (simp_all add: and_set_def)
  then have "consumes_front s (snd p)" using assms(1) by (cases p) (simp add: rx_step_def)
  moreover have "s' = (if fst p then g (snd p) else snd p)"
    using a p by (cases "fst p") (simp_all add: and_set_def split_beta)
  ultimately show "consumes_front s s'" by (simp add: assms(2))
qed

lemma rx_step_tracks:
  assumes "is_iso_track t"
  shows "rx_step (set_enable_track_by_rx t)" "rx_step (set_direction_by_rx t)"
    "rx_step (set_combination_by_rx t)"
  unfolding set_enable_track_by_rx_def set_direction_by_rx_def set_combination_by_rx_def
    switch_track_iso [OF assms]
  by (rule rx_step_value; simp add: writes_parameters_def)+

lemma rx_step_items:
  assumes "is_iso_track t" "n \<le> 2"
  shows "rx_step (set_msr_item_by_rx it t n)"
  by (cases it;
      simp only: set_msr_item_by_rx.simps msr_by_rx_defs set_elem_by_rx_iso [OF assms];
      rule rx_step_value; simp add: writes_parameters_def)

lemma rx_step_private:
  assumes "is_iso_track t" "n \<le> 2"
  shows "rx_step (set_private_prefix_by_rx t (int n))" "rx_step (set_private_postfix_by_rx t (int n))"
  unfolding set_private_prefix_by_rx_def set_private_postfix_by_rx_def
    set_private_tag_by_rx_iso [OF assms]
  by (rule rx_step_tag; simp add: writes_parameters_def)+

lemmas rx_steps =
  rx_step_values rx_step_tags rx_step_blanks rx_step_types rx_step_mmd1000 rx_step_tracks
  rx_step_items rx_step_private rx_step_success

lemmas is_success_defs =
  is_success_start_ibutton_def is_success_stop_ibutton_def is_success_enter_opos_mode_def
  is_success_leave_opos_mode_def is_success_enter_config_mode_def
  is_success_leave_config_mode_def is_success_apply_config_mode_def
  is_success_run_boot_loader_def

lemma dispatch_rx_step: "wf_gt gt \<Longrightarrow> rx_step (dispatch_rx gt)"
  by (cases gt)
    (simp_all add: rx_steps is_success_defs rx_step_and_set consumes_front_simps)

text \<open>\<open>set_from_rx\<close> takes the oldest request kind and, with it, at most one response.\<close>

lemma set_from_rx_takes_one:
  assumes "m_deque_generated_tx s = gt # gts" "wf_gt gt" "set_from_rx s = Some (b, s')"
  shows "m_deque_generated_tx s' = gts" "m_dequeu_v_rx s' = tl (m_dequeu_v_rx s)"
    "m_dequeu_v_tx s' = m_dequeu_v_tx s"
    "m_set_change_parameter s' = m_set_change_parameter s"
proof -
  have "consumes_front (s\<lparr>m_deque_generated_tx := gts\<rparr>) s'"
    using assms dispatch_rx_step [OF assms(2)] by (simp add: set_from_rx_def rx_step_def)
  then show "m_deque_generated_tx s' = gts" "m_dequeu_v_rx s' = tl (m_dequeu_v_rx s)"
    "m_dequeu_v_tx s' = m_dequeu_v_tx s"
    "m_set_change_parameter s' = m_set_change_parameter s"
    by (simp_all add: consumes_front_def)
qed

section \<open>Reading a value back\<close>

text \<open>A complete response with a good result and the data \<open>d\<close>.\<close>

definition good_response :: "bytes \<Rightarrow> bytes \<Rightarrow> bool" where
  "good_response v d =
     (length v = rx_size \<and> v ! 0 = msr_response_prefix \<and> good_result (v ! 1)
        \<and> unat (v ! 2) = length d \<and> take (length d) (drop 3 v) = d)"

lemma good_response_rest:
  "good_response v d \<Longrightarrow> drop 3 v = d @ drop (length d + 3) v"
  by (metis append_take_drop_id drop_drop good_response_def)

lemma set_by_rx_good:
  assumes "m_dequeu_v_rx s = v # vs" "good_response v d"
  shows "set_by_rx (length d) store s =
     map_option (Pair True) (store (d @ drop (length d + 3) v) (s\<lparr>m_dequeu_v_rx := vs\<rparr>))"
proof -
  have "is_success_rx_v True s = (Some v, s\<lparr>m_dequeu_v_rx := vs\<rparr>)"
    using assms by (auto simp: is_success_rx_v_def good_response_def good_result_def Let_def)
  moreover have "unat (v ! 2) = length d" using assms(2) by (simp add: good_response_def)
  ultimately show ?thesis
    by (simp add: set_by_rx_def good_response_rest [OF assms(2), symmetric])
qed

text \<open>A response with an error result, or with the size of another parameter, is refused.\<close>

lemma set_by_rx_bad:
  assumes "m_dequeu_v_rx s = v # vs"
    and "length v \<noteq> rx_size \<or> v ! 0 \<noteq> msr_response_prefix \<or> \<not> good_result (v ! 1)
           \<or> unat (v ! 2) \<noteq> n"
  shows "set_by_rx n store s = Some (False, s\<lparr>m_dequeu_v_rx := vs\<rparr>)"
  using assms by (simp add: set_by_rx_def is_success_rx_v_def good_result_def Let_def) blast

lemma set_by_rx_empty: "m_dequeu_v_rx s = [] \<Longrightarrow> set_by_rx n store s = Some (False, s)"
  by (simp add: set_by_rx_def is_success_rx_v_def)

text \<open>
  A parameter with a codec: the value that was encoded is the value that ends up in the object.
\<close>

locale parameter_read = byte_codec +
  fixes f :: "proto op" and upd :: "'a \<Rightarrow> proto \<Rightarrow> proto"
  assumes f_store: "f = set_value_by_rx size (\<lambda>d. upd (dec d))"
begin

lemma reads:
  assumes "fits x" "m_dequeu_v_rx s = v # vs" "good_response v (enc x)"
  shows "f s = Some (True, upd x (s\<lparr>m_dequeu_v_rx := vs\<rparr>))"
  using set_by_rx_good [OF assms(2,3), of "\<lambda>d s. Some (upd (dec d) s)"] assms(1)
  by (simp add: f_store set_value_by_rx_def enc_length dec_enc)

lemma refuses:
  "m_dequeu_v_rx s = v # vs \<Longrightarrow> \<not> good_result (v ! 1) \<Longrightarrow>
     f s = Some (False, s\<lparr>m_dequeu_v_rx := vs\<rparr>)"
  by (simp add: f_store set_value_by_rx_def set_by_rx_bad)

end

interpretation read_send_condition: parameter_read enc_flag32 dec_flag32 4 "\<lambda>_. True"
  set_global_pre_postfix_send_condition_by_rx
  "\<lambda>b s. s\<lparr>m_b_global_pre_postfix_send_condition := b\<rparr>"
  by unfold_locales (simp add: value_by_rx_defs layout_simps)

interpretation read_interface: parameter_read enc_byte dec_byte 1 "\<lambda>_. True"
  set_interface_by_rx "\<lambda>b s. s\<lparr>m_interface := b\<rparr>"
  by unfold_locales (simp add: value_by_rx_defs layout_simps)

interpretation read_language: parameter_read enc_byte32 dec_byte32 4 "\<lambda>_. True"
  set_language_by_rx "\<lambda>b s. s\<lparr>m_language_index := b\<rparr>"
  by unfold_locales (simp add: value_by_rx_defs layout_simps)

interpretation read_buzzer: parameter_read le32 un_le32 4 "\<lambda>_. True"
  set_buzzer_frequency_by_rx "\<lambda>w s. s\<lparr>m_dw_buzzer_frequency := w\<rparr>"
  by unfold_locales (simp add: value_by_rx_defs layout_simps)

interpretation read_boot_run_time: parameter_read le32 un_le32 4 "\<lambda>_. True"
  set_boot_run_time_by_rx "\<lambda>w s. s\<lparr>m_dw_boot_run_time := w\<rparr>"
  by unfold_locales (simp add: value_by_rx_defs layout_simps)

text \<open>The order of the tracks and the blanks are codecs of their own.\<close>

definition enc_orders :: "u32 list \<Rightarrow> bytes" where
  "enc_orders ws = concat (map le32 ws)"

definition dec_orders :: "bytes \<Rightarrow> u32 list" where
  "dec_orders d = [un_le32 d, un_le32 (drop 4 d), un_le32 (drop 8 d)]"

lemma three_elements: "length ws = 3 \<Longrightarrow> ws = [ws ! 0, ws ! 1, ws ! 2]"
  by (auto simp: numeral_3_eq_3 length_Suc_conv)

interpretation orders_code: byte_codec enc_orders dec_orders 12 "\<lambda>ws. length ws = 3"
proof
  fix ws :: "u32 list" and rest
  assume "length ws = 3"
  then obtain a b c where ws: "ws = [a, b, c]" by (auto simp: numeral_3_eq_3 length_Suc_conv)
  show "length (enc_orders ws) = 12" by (simp add: ws enc_orders_def)
  show "dec_orders (enc_orders ws @ rest) = ws"
    by (simp add: ws enc_orders_def dec_orders_def un_le32_le32)
qed

interpretation read_orders: parameter_read enc_orders dec_orders 12 "\<lambda>ws. length ws = 3"
  set_track_of_orders_by_rx
  "\<lambda>ws s. s\<lparr>m_n_order_of_track := (m_n_order_of_track s)(0 := ws ! 0, 1 := ws ! 1, 2 := ws ! 2)\<rparr>"
  by unfold_locales
    (simp add: value_by_rx_defs layout_simps dec_orders_def numeral_2_eq_2)

definition enc_blanks :: "bytes \<Rightarrow> bytes" where "enc_blanks bs = bs"
definition dec_blanks :: "bytes \<Rightarrow> bytes" where "dec_blanks d = take 4 d"

interpretation blanks_code: byte_codec enc_blanks dec_blanks 4 "\<lambda>bs. length bs = 4"
  by unfold_locales (simp_all add: enc_blanks_def dec_blanks_def)

lemma store_blanks_take: "store_blanks (take 4 d) = store_blanks d"
  by (rule ext) (simp add: store_blanks_def)

interpretation read_blanks: parameter_read enc_blanks dec_blanks 4 "\<lambda>bs. length bs = 4"
  set_blanks_by_rx store_blanks
  by unfold_locales (simp add: set_blanks_by_rx_def layout_simps dec_blanks_def store_blanks_take)

text \<open>After the blanks were read, all the mirrors agree with them.\<close>

lemma store_blanks_mirrors:
  "ibutton_mirrors (store_blanks d s)" "code_index_mirrors (store_blanks d s)"
  "blank1_mirrors (store_blanks d s)" "iso_mode_mirror (store_blanks d s)"
  by (simp_all add: mirror_defs store_blanks_def Let_def and.commute)

section \<open>Reading tags\<close>

lemma set_tag_by_rx_good:
  assumes "m_dequeu_v_rx s = v # vs" "good_response v (enc_tag cap x)"
    and "length x \<le> cap" "cap < 256"
  shows "set_tag_by_rx (cap + 1) store s = Some (True, store x (s\<lparr>m_dequeu_v_rx := vs\<rparr>))"
proof -
  have "tag_from_rx (enc_tag cap x @ rest) = Some x" for rest
    using assms(3,4) dec_enc_tag [OF assms(3,4)]
    by (simp add: tag_from_rx_def) (simp add: enc_tag_def unat_of_nat_byte)
  then show ?thesis
    using set_by_rx_good [OF assms(1,2)] assms(3) by (simp add: set_tag_by_rx_def length_enc_tag)
qed

text \<open>A tag whose size byte is larger than the structure: the response still has that many bytes.\<close>

lemma set_tag_by_rx_long:
  assumes "m_dequeu_v_rx s = v # vs" "good_response v d" "length d = n" "0 < n"
    and "unat (d ! 0) \<le> rx_size - 4"
  shows "set_tag_by_rx n store s =
     Some (True, store (take (unat (d ! 0)) (drop 4 v)) (s\<lparr>m_dequeu_v_rx := vs\<rparr>))"
proof -
  have v: "drop 3 v = d @ drop (length d + 3) v" "length v = rx_size"
    using good_response_rest [OF assms(2)] assms(2) by (simp_all only: good_response_def)
  have "d ! 0 = drop 3 v ! 0" using assms(3,4) by (simp only: v(1) nth_append if_True)
  then have "tag_from_rx (drop 3 v) = Some (take (unat (d ! 0)) (drop 4 v))"
    using assms(5) v(2) by (simp add: tag_from_rx_def dec_tag_def rx_size_def)
  then show ?thesis
    using set_by_rx_good [OF assms(1,2)] assms(3) v(1) by (simp add: set_tag_by_rx_def)
qed

section \<open>A refused response\<close>

text \<open>An operation that answers false has done no more than take the front response.\<close>

definition refuses_cleanly :: "proto op \<Rightarrow> bool" where
  "refuses_cleanly f =
     (\<forall>s s'. f s = Some (False, s') \<longrightarrow> s' = s\<lparr>m_dequeu_v_rx := tl (m_dequeu_v_rx s)\<rparr>)"

lemma refuses_cleanlyI:
  "(\<And>s s'. f s = Some (False, s') \<Longrightarrow> s' = s\<lparr>m_dequeu_v_rx := tl (m_dequeu_v_rx s)\<rparr>)
     \<Longrightarrow> refuses_cleanly f"
  by (simp add: refuses_cleanly_def)

lemma is_success_rx_v_state:
  "snd (is_success_rx_v True s) = (s :: proto)\<lparr>m_dequeu_v_rx := tl (m_dequeu_v_rx s)\<rparr>"
  by (cases "m_dequeu_v_rx s") (simp_all add: is_success_rx_v_def Let_def)

lemma is_success_rx_state:
  "snd (is_success_rx True s) = (s :: proto)\<lparr>m_dequeu_v_rx := tl (m_dequeu_v_rx s)\<rparr>"
  by (cases "m_dequeu_v_rx s") (simp_all add: is_success_rx_def Let_def)

lemma get_response_result_state:
  "snd (snd (get_response_result True s)) = (s :: proto)\<lparr>m_dequeu_v_rx := tl (m_dequeu_v_rx s)\<rparr>"
  by (cases "m_dequeu_v_rx s") (simp_all add: get_response_result_def split_beta Let_def)

lemma refuses_set_by_rx: "refuses_cleanly (set_by_rx n store)"
proof (rule refuses_cleanlyI)
  fix s s'
  assume f: "set_by_rx n store s = Some (False, s')"
  have "s' = snd (is_success_rx_v True s)"
  proof (cases "fst (is_success_rx_v True s)")
    case None
    then show ?thesis using f by (simp add: set_by_rx_def split_beta)
  next
    case (Some v)
    then show ?thesis
      using f by (simp add: set_by_rx_def split_beta split: if_splits)
  qed
  then show "s' = s\<lparr>m_dequeu_v_rx := tl (m_dequeu_v_rx s)\<rparr>" by (simp only: is_success_rx_v_state)
qed

lemma refuses_value: "refuses_cleanly (set_value_by_rx n store)"
  unfolding set_value_by_rx_def by (rule refuses_set_by_rx)

lemma refuses_tag: "refuses_cleanly (set_tag_by_rx n store)"
  unfolding set_tag_by_rx_def by (rule refuses_set_by_rx)

lemma refuses_success: "refuses_cleanly success_by_rx"
proof (rule refuses_cleanlyI)
  fix s s'
  assume "success_by_rx s = Some (False, s')"
  then have "s' = snd (is_success_rx True s)" by (simp add: success_by_rx_def)
  then show "s' = s\<lparr>m_dequeu_v_rx := tl (m_dequeu_v_rx s)\<rparr>" by (simp only: is_success_rx_state)
qed

lemma refuses_stored_result:
  "refuses_cleanly (\<lambda>s. case is_success_rx_v True s of (None, s1) \<Rightarrow> Some (False, s1)
     | (Some v, s1) \<Rightarrow> Some (True, g v s1))"
proof (rule refuses_cleanlyI)
  fix s s'
  assume "(case is_success_rx_v True s of (None, s1) \<Rightarrow> Some (False, s1)
     | (Some v, s1) \<Rightarrow> Some (True, g v s1)) = Some (False, s')"
  then have "s' = snd (is_success_rx_v True s)"
    by (cases "fst (is_success_rx_v True s)") (simp_all add: split_beta)
  then show "s' = s\<lparr>m_dequeu_v_rx := tl (m_dequeu_v_rx s)\<rparr>" by (simp only: is_success_rx_v_state)
qed

lemma refuses_types:
  "refuses_cleanly set_device_ibutton_type_by_rx" "refuses_cleanly set_device_type_by_rx"
  unfolding set_device_ibutton_type_by_rx_def [abs_def] set_device_type_by_rx_def [abs_def]
  by (rule refuses_stored_result)+

lemma refuses_mmd1000: "refuses_cleanly set_device_support_mmd1000_by_rx"
proof (rule refuses_cleanlyI)
  fix s s'
  assume f: "set_device_support_mmd1000_by_rx s = Some (False, s')"
  have "s' = snd (snd (get_response_result True s))"
    using f by (cases "fst (get_response_result True s)")
      (simp_all add: set_device_support_mmd1000_by_rx_def split_beta)
  then show "s' = s\<lparr>m_dequeu_v_rx := tl (m_dequeu_v_rx s)\<rparr>"
    by (simp only: get_response_result_state)
qed

lemma refuses_and_set: "refuses_cleanly f \<Longrightarrow> refuses_cleanly (and_set f g)"
  by (rule refuses_cleanlyI)
    (auto simp: refuses_cleanly_def and_set_def split: if_splits)

lemma refuses_tracks:
  assumes "is_iso_track t"
  shows "refuses_cleanly (set_enable_track_by_rx t)" "refuses_cleanly (set_direction_by_rx t)"
    "refuses_cleanly (set_combination_by_rx t)"
  unfolding set_enable_track_by_rx_def set_direction_by_rx_def set_combination_by_rx_def
    switch_track_iso [OF assms]
  by (rule refuses_value)+

lemma refuses_items:
  assumes "is_iso_track t" "n \<le> 2"
  shows "refuses_cleanly (set_msr_item_by_rx it t n)"
  by (cases it;
      simp only: set_msr_item_by_rx.simps msr_by_rx_defs set_elem_by_rx_iso [OF assms];
      rule refuses_value)

lemma refuses_private:
  assumes "is_iso_track t" "n \<le> 2"
  shows "refuses_cleanly (set_private_prefix_by_rx t (int n))"
    "refuses_cleanly (set_private_postfix_by_rx t (int n))"
  unfolding set_private_prefix_by_rx_def set_private_postfix_by_rx_def
    set_private_tag_by_rx_iso [OF assms]
  by (rule refuses_tag)+

lemma dispatch_refuses: "wf_gt gt \<Longrightarrow> refuses_cleanly (dispatch_rx gt)"
  by (cases gt)
    (simp_all add: refuses_types refuses_mmd1000 refuses_success refuses_and_set refuses_tracks
      refuses_items refuses_private is_success_defs value_by_rx_defs tag_by_rx_defs
      set_blanks_by_rx_def refuses_value refuses_tag)

text \<open>A good response with the data \<open>d\<close> and zeros behind them.\<close>

definition answer :: "bytes \<Rightarrow> bytes" where
  "answer d = [msr_response_prefix, response_good, of_nat (length d)] @ d
     @ replicate (rx_size - 3 - length d) 0"

lemma good_response_answer: "length d \<le> 217 \<Longrightarrow> good_response (answer d) d"
  by (simp add: good_response_def answer_def rx_size_def good_result_def unat_of_nat_byte)

section \<open>Properties\<close>

text \<open>C24. \<open>set_from_rx\<close> takes the oldest queued kind and exactly the front response (when there is one),
  whatever the response says; transmit queue and change set stay as they are. So kinds and responses
  stay in step as long as the device answers each request once.\<close>

theorem one_request_one_response:
  assumes "m_deque_generated_tx s = gt # gts" "wf_gt gt" "set_from_rx s = Some (b, s')"
  shows "m_deque_generated_tx s' = gts \<and> m_dequeu_v_rx s' = tl (m_dequeu_v_rx s)
     \<and> m_dequeu_v_tx s' = m_dequeu_v_tx s \<and> m_set_change_parameter s' = m_set_change_parameter s"
  using set_from_rx_takes_one [OF assms] by simp

theorem one_request_one_response_witness:
  "m_deque_generated_tx (reset_state\<lparr>m_deque_generated_tx := []\<rparr>) = []
   \<and> m_dequeu_v_rx (reset_state\<lparr>m_deque_generated_tx := []\<rparr>)
       = tl (m_dequeu_v_rx (reset_state\<lparr>m_deque_generated_tx := [gt_get_interface]\<rparr>))
   \<and> m_dequeu_v_tx (reset_state\<lparr>m_deque_generated_tx := []\<rparr>)
       = m_dequeu_v_tx (reset_state\<lparr>m_deque_generated_tx := [gt_get_interface]\<rparr>)
   \<and> m_set_change_parameter (reset_state\<lparr>m_deque_generated_tx := []\<rparr>)
       = m_set_change_parameter (reset_state\<lparr>m_deque_generated_tx := [gt_get_interface]\<rparr>)"
  by (rule one_request_one_response [where gt = gt_get_interface and b = False])
    (simp_all add: set_from_rx_def value_by_rx_defs set_value_by_rx_def set_by_rx_empty reset_state_def)

text \<open>C26. A call of \<open>set_from_rx\<close> that answers false has changed no parameter: only the kind and the
  front response are gone.\<close>

theorem refused_response_changes_no_parameter:
  assumes "m_deque_generated_tx s = gt # gts" "wf_gt gt" "set_from_rx s = Some (False, s')"
  shows "s' = s\<lparr>m_deque_generated_tx := gts, m_dequeu_v_rx := tl (m_dequeu_v_rx s)\<rparr>"
proof -
  have "dispatch_rx gt (s\<lparr>m_deque_generated_tx := gts\<rparr>) = Some (False, s')"
    using assms(1,3) by (simp add: set_from_rx_def)
  then have "s' = (s\<lparr>m_deque_generated_tx := gts\<rparr>)
      \<lparr>m_dequeu_v_rx := tl (m_dequeu_v_rx (s\<lparr>m_deque_generated_tx := gts\<rparr>))\<rparr>"
    using dispatch_refuses [OF assms(2)] by (simp only: refuses_cleanly_def)
  then show ?thesis by simp
qed

theorem refused_response_changes_no_parameter_witness:
  "reset_state\<lparr>m_deque_generated_tx := [], m_dequeu_v_rx := []\<rparr> =
     (reset_state\<lparr>m_deque_generated_tx := [gt_get_language], m_dequeu_v_rx := [[0x52]]\<rparr>)
       \<lparr>m_deque_generated_tx := [],
        m_dequeu_v_rx := tl (m_dequeu_v_rx (reset_state\<lparr>m_deque_generated_tx := [gt_get_language],
                                                       m_dequeu_v_rx := [[0x52]]\<rparr>))\<rparr>"
  by (rule refused_response_changes_no_parameter [where gt = gt_get_language])
    (simp_all add: set_from_rx_def value_by_rx_defs set_value_by_rx_def set_by_rx_def
      is_success_rx_v_def rx_size_def)

text \<open>C2. A good response to a read request stores the value that its data encode, and nothing else:
  interface, language, buzzer frequency and a per-combination member of a track.\<close>

theorem good_response_stores_the_value:
  assumes "good_response vi (enc_byte i)" "good_response vl (enc_byte32 l)"
    and "good_response vb (le32 w)" "good_response vm (enc_byte c)" "is_iso_track t" "n \<le> 2"
  shows "set_from_rx (s\<lparr>m_deque_generated_tx := gt_get_interface # gts, m_dequeu_v_rx := vi # vs\<rparr>)
       = Some (True, s\<lparr>m_deque_generated_tx := gts, m_dequeu_v_rx := vs, m_interface := i\<rparr>)
   \<and> set_from_rx (s\<lparr>m_deque_generated_tx := gt_get_language # gts, m_dequeu_v_rx := vl # vs\<rparr>)
       = Some (True, s\<lparr>m_deque_generated_tx := gts, m_dequeu_v_rx := vs, m_language_index := l\<rparr>)
   \<and> set_from_rx (s\<lparr>m_deque_generated_tx := gt_get_buzzer_frequency # gts, m_dequeu_v_rx := vb # vs\<rparr>)
       = Some (True, s\<lparr>m_deque_generated_tx := gts, m_dequeu_v_rx := vs, m_dw_buzzer_frequency := w\<rparr>)
   \<and> set_from_rx (s\<lparr>m_deque_generated_tx := gt_get_msr stxl t n # gts, m_dequeu_v_rx := vm # vs\<rparr>)
       = Some (True, s\<lparr>m_deque_generated_tx := gts, m_dequeu_v_rx := vs,
           m_c_msr_stxl := upd2 (m_c_msr_stxl s) (track_code t) n c\<rparr>)"
proof (intro conjI)
  have "set_value_by_rx 1 (\<lambda>d. m_c_msr_stxl_update (\<lambda>a. upd2 a (track_code t) n (dec_byte d)))
      (s\<lparr>m_dequeu_v_rx := vm # vs, m_deque_generated_tx := gts\<rparr>)
    = Some (True, s\<lparr>m_deque_generated_tx := gts, m_dequeu_v_rx := vs,
           m_c_msr_stxl := upd2 (m_c_msr_stxl s) (track_code t) n c\<rparr>)"
    using set_by_rx_good [OF _ assms(4), of "s\<lparr>m_dequeu_v_rx := vm # vs, m_deque_generated_tx := gts\<rparr>"]
    by (simp add: set_value_by_rx_def byte_code.enc_length [OF TrueI] byte_code.dec_enc [OF TrueI])
  then show "set_from_rx (s\<lparr>m_deque_generated_tx := gt_get_msr stxl t n # gts, m_dequeu_v_rx := vm # vs\<rparr>)
       = Some (True, s\<lparr>m_deque_generated_tx := gts, m_dequeu_v_rx := vs,
           m_c_msr_stxl := upd2 (m_c_msr_stxl s) (track_code t) n c\<rparr>)"
    by (simp add: set_from_rx_def set_msr_stxl_by_rx_def set_elem_by_rx_iso [OF assms(5,6)] layout_simps)
qed (simp_all add: set_from_rx_def
    read_interface.reads [OF TrueI _ assms(1)] read_language.reads [OF TrueI _ assms(2)]
    read_buzzer.reads [OF TrueI _ assms(3)])

theorem good_response_stores_the_value_witness:
  "set_from_rx (reset_state\<lparr>m_deque_generated_tx := [gt_get_interface], m_dequeu_v_rx := [answer [1]]\<rparr>)
       = Some (True, reset_state\<lparr>m_deque_generated_tx := [], m_dequeu_v_rx := [], m_interface := 1\<rparr>)
   \<and> set_from_rx (reset_state\<lparr>m_deque_generated_tx := [gt_get_language],
                                 m_dequeu_v_rx := [answer [3, 0, 0, 0]]\<rparr>)
       = Some (True, reset_state\<lparr>m_deque_generated_tx := [], m_dequeu_v_rx := [], m_language_index := 3\<rparr>)
   \<and> set_from_rx (reset_state\<lparr>m_deque_generated_tx := [gt_get_buzzer_frequency],
                                 m_dequeu_v_rx := [answer (le32 16000)]\<rparr>)
       = Some (True, reset_state\<lparr>m_deque_generated_tx := [], m_dequeu_v_rx := [],
                                m_dw_buzzer_frequency := 16000\<rparr>)
   \<and> set_from_rx (reset_state\<lparr>m_deque_generated_tx := [gt_get_msr stxl iso2_track 1],
                                 m_dequeu_v_rx := [answer [0x45]]\<rparr>)
       = Some (True, reset_state\<lparr>m_deque_generated_tx := [], m_dequeu_v_rx := [],
           m_c_msr_stxl := upd2 (m_c_msr_stxl reset_state) (track_code iso2_track) 1 0x45\<rparr>)"
  by (rule good_response_stores_the_value)
    (use good_response_answer [of "[1]"] good_response_answer [of "[3, 0, 0, 0]"]
       good_response_answer [of "le32 16000"] good_response_answer [of "[0x45]"]
     in \<open>simp_all add: enc_byte_def enc_byte32_def le32_def\<close>)

text \<open>After the blanks were read from the device, the i-button, index, flag and decoder members
  agree with them, whatever state the setters left behind.\<close>

theorem blanks_read_restores_mirrors:
  assumes "m_deque_generated_tx s = gt_get_blanks # gts" "set_from_rx s = Some (True, s')"
  shows "ibutton_mirrors s' \<and> code_index_mirrors s' \<and> blank1_mirrors s' \<and> iso_mode_mirror s'"
proof -
  have "set_value_by_rx (snd (reg_sys cBlank)) store_blanks (s\<lparr>m_deque_generated_tx := gts\<rparr>)
      = Some (True, s')"
    using assms by (simp add: set_from_rx_def set_blanks_by_rx_def)
  then obtain d s1 where "s' = store_blanks d s1"
    by (auto simp: set_value_by_rx_def set_by_rx_def split: prod.splits option.splits if_splits)
  then show ?thesis by (simp add: store_blanks_mirrors)
qed

theorem blanks_read_restores_mirrors_witness:
  "ibutton_mirrors (store_blanks [1, 2, 3, 4] (reset_state\<lparr>m_dequeu_v_rx := []\<rparr>))
   \<and> code_index_mirrors (store_blanks [1, 2, 3, 4] (reset_state\<lparr>m_dequeu_v_rx := []\<rparr>))
   \<and> blank1_mirrors (store_blanks [1, 2, 3, 4] (reset_state\<lparr>m_dequeu_v_rx := []\<rparr>))
   \<and> iso_mode_mirror (store_blanks [1, 2, 3, 4] (reset_state\<lparr>m_dequeu_v_rx := []\<rparr>))"
proof (rule blanks_read_restores_mirrors)
  let ?s = "reset_state\<lparr>m_deque_generated_tx := [gt_get_blanks],
                       m_dequeu_v_rx := [answer [1, 2, 3, 4]]\<rparr>"
  show "m_deque_generated_tx ?s = [gt_get_blanks]" by simp
  have "good_response (answer [1, 2, 3, 4]) (enc_blanks [1, 2, 3, 4])"
    by (simp add: good_response_answer enc_blanks_def)
  from read_blanks.reads [OF _ _ this, of "?s\<lparr>m_deque_generated_tx := []\<rparr>" "[]"]
  show "set_from_rx ?s =
      Some (True, store_blanks [1, 2, 3, 4] (reset_state\<lparr>m_dequeu_v_rx := []\<rparr>))"
    by (simp add: set_from_rx_def reset_state_def)
qed

text \<open>The size byte of a tag in a response is not compared with the capacity of the tag. A device
  that answers with a size above 14 leaves a tag in the object that the next write copies over the
  end of its structure.\<close>

theorem long_tag_from_device_breaks_the_next_write:
  assumes "good_response v d" "length d = 15" "14 < unat (d ! 0)" "unat (d ! 0) \<le> rx_size - 4"
    and "m_deque_generated_tx s = gt_get_global_prefix # gts" "m_dequeu_v_rx s = v # vs"
  shows "\<exists>s'. set_from_rx s = Some (True, s')
     \<and> length (m_v_global_prefix s') = unat (d ! 0) \<and> generate_set_global_prefix s' = None"
proof -
  let ?s1 = "s\<lparr>m_deque_generated_tx := gts\<rparr>"
  have len: "length (take (unat (d ! 0)) (drop 4 v)) = unat (d ! 0)"
    using assms(1,4) by (simp add: good_response_def rx_size_def)
  have "set_tag_by_rx 15 (\<lambda>v s. s\<lparr>m_v_global_prefix := v\<rparr>) ?s1 =
     Some (True, (?s1\<lparr>m_dequeu_v_rx := vs\<rparr>)\<lparr>m_v_global_prefix := take (unat (d ! 0)) (drop 4 v)\<rparr>)"
    by (rule set_tag_by_rx_long [OF _ assms(1,2) _ assms(4)]) (simp_all add: assms(6))
  then show ?thesis
    using len assms(3,5)
    by (simp add: set_from_rx_def tag_by_rx_defs layout_simps generate_set_global_prefix_def
        generate_set_tag_def filled_tag_eq info_consts)
qed

theorem long_tag_from_device_breaks_the_next_write_witness:
  "\<exists>s'. set_from_rx (reset_state\<lparr>m_deque_generated_tx := [gt_get_global_prefix],
                               m_dequeu_v_rx := [answer (20 # replicate 14 0)]\<rparr>) = Some (True, s')
     \<and> length (m_v_global_prefix s') = unat ((20 # replicate 14 0 :: bytes) ! 0)
     \<and> generate_set_global_prefix s' = None"
  by (rule long_tag_from_device_breaks_the_next_write [where v = "answer (20 # replicate 14 0)"])
    (simp_all add: good_response_answer rx_size_def)

end
