(* ===== verification/TrackData.thy ===== *)
theory TrackData
  imports Prelude
begin

text \<open>
  \<open>cprotocol_lpu237::get_track_data_from_rx\<close>: taking the data of one ISO track out of a card
  report. The report starts with one signed length per track; a negative one is an error status. The
  data of the tracks follow one after the other, and a character is the byte plus an offset.
\<close>

text \<open>The switch: \<open>n_offset\<close>, \<open>n_size\<close>, \<open>b_result\<close> and \<open>cAdd\<close> for the lengths \<open>c0 c1 c2\<close>.\<close>

definition track_slice :: "int \<Rightarrow> int \<Rightarrow> int \<Rightarrow> int \<Rightarrow> int \<times> int \<times> bool \<times> nat" where
  "track_slice n_iso_track c0 c1 c2 =
     (if n_iso_track = 1 then
        (if c0 > 0 then (3, c0, True, 0x20)
         else if c0 = 0 then (0, 0, True, 0x20)
         else (0, 0, False, 0x20))
      else if n_iso_track = 2 then
        (if c1 > 0 then (3 + (if c0 > 0 then c0 else 0), c1, True, 0x30)
         else if c1 = 0 then (0, 0, True, 0x30)
         else (0, 0, False, 0x30))
      else if n_iso_track = 3 then
        (if c2 > 0 then
           (3 + (if c0 > 0 then c0 else 0) + (if c1 > 0 then c1 else 0), c2, True, 0x30)
         else if c2 = 0 then (0, 0, True, 0x30)
         else (0, 0, False, 0x30))
      else (0, 0, False, 0x30))"

text \<open>
  The result and the new value of \<open>s_track\<close> (the codes of its characters). A number or a report that
  is refused leaves \<open>s_track\<close> as it was; \<open>None\<close> is a read beyond the end of \<open>v_rx\<close>.
\<close>

definition get_track_data_from_rx ::
  "int \<Rightarrow> nat list \<Rightarrow> bytes \<Rightarrow> (bool \<times> nat list) option" where
  "get_track_data_from_rx n_iso_track s_track v_rx =
     (if n_iso_track < 1 \<or> n_iso_track > 3 then Some (False, s_track)
      else if length v_rx < 3 then Some (False, s_track)
      else
        let (n_offset, n_size, b_result, cAdd) =
              track_slice n_iso_track (sint (v_rx ! 0)) (sint (v_rx ! 1)) (sint (v_rx ! 2))
        in if n_size > 0 \<and> b_result then
             (if nat (n_offset + n_size) > length v_rx then None
              else Some (b_result,
                     map (\<lambda>cData. unat cData + cAdd) (subrange v_rx (nat n_offset) (nat n_size))))
           else Some (b_result, []))"

section \<open>Reports\<close>

text \<open>
  What the status byte of a track says: \<open>Inl\<close> an error code (negative), \<open>Inr\<close> the data.
\<close>

type_synonym track_state = "byte + bytes"

definition track_state_ok :: "track_state \<Rightarrow> bool" where
  "track_state_ok st = (case st of Inl e \<Rightarrow> sint e < 0 | Inr d \<Rightarrow> length d \<le> 127)"

definition status_byte :: "track_state \<Rightarrow> byte" where
  "status_byte st = (case st of Inl e \<Rightarrow> e | Inr d \<Rightarrow> of_nat (length d))"

definition track_bytes :: "track_state \<Rightarrow> bytes" where
  "track_bytes st = (case st of Inl e \<Rightarrow> [] | Inr d \<Rightarrow> d)"

definition card_report :: "track_state \<Rightarrow> track_state \<Rightarrow> track_state \<Rightarrow> bytes \<Rightarrow> bytes" where
  "card_report t1 t2 t3 pad =
     [status_byte t1, status_byte t2, status_byte t3]
     @ track_bytes t1 @ track_bytes t2 @ track_bytes t3 @ pad"

definition track_text :: "nat \<Rightarrow> track_state \<Rightarrow> nat list" where
  "track_text cAdd st = map (\<lambda>b. unat b + cAdd) (track_bytes st)"

definition track_is_ok :: "track_state \<Rightarrow> bool" where
  "track_is_ok st = (case st of Inl e \<Rightarrow> False | Inr d \<Rightarrow> True)"

lemma sint_of_nat_byte: "n \<le> 127 \<Longrightarrow> sint (of_nat n :: byte) = int n"
proof -
  assume "n \<le> 127"
  then have "take_bit 8 n = n" by (simp add: take_bit_nat_eq_self_iff)
  then show ?thesis
    using \<open>n \<le> 127\<close> by (simp add: sint_uint unsigned_of_nat signed_take_bit_int_eq_self)
qed

lemma drop_header: "drop (3 + k) (a # b # c # xs) = drop k xs"
  by (simp add: numeral_3_eq_3)

text \<open>The size a track takes, as the code computes it from its status byte.\<close>

lemma status_size:
  assumes "track_state_ok st"
  shows "(if sint (status_byte st) > 0 then sint (status_byte st) else 0)
      = int (length (track_bytes st))"
    "sint (status_byte st) \<ge> 0 \<longleftrightarrow> track_is_ok st"
  using assms
  by (cases st; simp add: track_state_ok_def status_byte_def track_bytes_def track_is_ok_def
      sint_of_nat_byte)+

lemma status_cases:
  assumes "track_state_ok st"
  shows "sint (status_byte st) > 0 \<Longrightarrow>
       track_is_ok st \<and> sint (status_byte st) = int (length (track_bytes st))"
    "sint (status_byte st) = 0 \<Longrightarrow> track_is_ok st \<and> track_bytes st = []"
    "sint (status_byte st) < 0 \<Longrightarrow> \<not> track_is_ok st \<and> track_bytes st = []"
  using assms
  by (cases st; simp add: track_state_ok_def status_byte_def track_bytes_def track_is_ok_def
      sint_of_nat_byte)+

text \<open>Each track is cut out at its place, whatever the state of the tracks before it.\<close>

lemma get_track_of_report:
  assumes "track_state_ok t1" "track_state_ok t2" "track_state_ok t3"
  shows "get_track_data_from_rx 1 old (card_report t1 t2 t3 pad) =
       Some (track_is_ok t1, track_text 0x20 t1)"
    "get_track_data_from_rx 2 old (card_report t1 t2 t3 pad) =
       Some (track_is_ok t2, track_text 0x30 t2)"
    "get_track_data_from_rx 3 old (card_report t1 t2 t3 pad) =
       Some (track_is_ok t3, track_text 0x30 t3)"
proof -
  note c = status_cases [OF assms(1)] status_cases [OF assms(2)] status_cases [OF assms(3)]
  show "get_track_data_from_rx 1 old (card_report t1 t2 t3 pad) =
       Some (track_is_ok t1, track_text 0x20 t1)"
    by (cases "sint (status_byte t1)" "0 :: int" rule: linorder_cases)
      (use c(1-3) in \<open>simp_all add: get_track_data_from_rx_def track_slice_def card_report_def
        track_text_def subrange_def nat_add_distrib drop_header add.assoc\<close>)
  show "get_track_data_from_rx 2 old (card_report t1 t2 t3 pad) =
       Some (track_is_ok t2, track_text 0x30 t2)"
    using status_size(1) [OF assms(1)]
    by (cases "sint (status_byte t2)" "0 :: int" rule: linorder_cases)
      (use c(4-6) in \<open>simp_all add: get_track_data_from_rx_def track_slice_def card_report_def
        track_text_def subrange_def nat_add_distrib drop_header add.assoc\<close>)
  show "get_track_data_from_rx 3 old (card_report t1 t2 t3 pad) =
       Some (track_is_ok t3, track_text 0x30 t3)"
    using status_size(1) [OF assms(1)] status_size(1) [OF assms(2)]
    by (cases "sint (status_byte t3)" "0 :: int" rule: linorder_cases)
      (use c(7-9) in \<open>simp_all add: get_track_data_from_rx_def track_slice_def card_report_def
        track_text_def subrange_def nat_add_distrib drop_header add.assoc\<close>)
qed

section \<open>Properties\<close>

text \<open>From a card report each track is read at its place, whatever the state of the others: a
  track with data gives true and its characters (the byte plus 0x20 for track 1, plus 0x30 for
  tracks 2 and 3), an empty track gives true and no characters, a track with an error status gives
  false and no characters.\<close>

theorem card_report_tracks:
  assumes "track_state_ok t1" "track_state_ok t2" "track_state_ok t3"
  shows "get_track_data_from_rx 1 old (card_report t1 t2 t3 pad) =
       Some (track_is_ok t1, track_text 0x20 t1)
   \<and> get_track_data_from_rx 2 old (card_report t1 t2 t3 pad) =
       Some (track_is_ok t2, track_text 0x30 t2)
   \<and> get_track_data_from_rx 3 old (card_report t1 t2 t3 pad) =
       Some (track_is_ok t3, track_text 0x30 t3)"
  using get_track_of_report [OF assms] by blast

theorem card_report_tracks_witness:
  "get_track_data_from_rx 1 [] (card_report (Inl 0xFF) (Inr [1, 2]) (Inr [3]) [0]) =
       Some (track_is_ok (Inl 0xFF), track_text 0x20 (Inl 0xFF))
   \<and> get_track_data_from_rx 2 [] (card_report (Inl 0xFF) (Inr [1, 2]) (Inr [3]) [0]) =
       Some (track_is_ok (Inr [1, 2]), track_text 0x30 (Inr [1, 2]))
   \<and> get_track_data_from_rx 3 [] (card_report (Inl 0xFF) (Inr [1, 2]) (Inr [3]) [0]) =
       Some (track_is_ok (Inr [3]), track_text 0x30 (Inr [3]))"
  by (rule card_report_tracks) (simp_all add: track_state_ok_def)

text \<open>The lengths in the report are not checked against its size: a report of 220 bytes that
  announces 127 bytes for tracks 1 and 2 is read beyond its end.\<close>

theorem track_lengths_unchecked:
  assumes "length v = 220" "v ! 0 = 127" "v ! 1 = 127"
  shows "get_track_data_from_rx 2 old v = None"
  using assms by (simp add: get_track_data_from_rx_def track_slice_def)

theorem track_lengths_unchecked_witness:
  "get_track_data_from_rx 2 [] ([127, 127, 0] @ replicate 217 0) = None"
  by (rule track_lengths_unchecked) simp_all

end
