(* ===== verification/RomFile.thy ===== *)
theory RomFile
  imports Codec "HOL-Library.Sublist"
begin

text \<open>
  The firmware image container: \<open>tg_rom_*\<close> of shared/projects/rom/dllmain.cpp with the structures of
  shared/projects/rom/inc/tg_rom.h. A rom file is a packed header with room for 45 items, followed by
  the firmware binaries. Modelled are the creation of the header, adding a binary, reading header,
  item and binary, and the choice of the item that updates a device. Files are byte lists in a map
  from paths; the SHA-256 routines (a vendored library) are the parameters \<open>sha_init\<close>,
  \<open>sha_process\<close>, \<open>sha_close\<close>.
\<close>

section \<open>Structures\<close>

datatype rom_result =
  result_success | result_error | result_error_not_found | result_error_invalid_parameter
| result_error_shorter_then_expected | result_error_not_loaded_dll | result_error_not_open_file
| result_error_greater_then_expected | result_error_over_capacity

definition condition_eq :: u32 where "condition_eq = 1"
definition condition_neq :: u32 where "condition_neq = 2"
definition condition_gt :: u32 where "condition_gt = 4"
definition condition_lt :: u32 where "condition_lt = 8"

definition MAX_ROMFILE_HEAD_ITEAM :: nat where "MAX_ROMFILE_HEAD_ITEAM = 45"
definition MAX_MODEL_NAME_SIZE :: nat where "MAX_MODEL_NAME_SIZE = 30"
definition MAX_RFU_SIZE :: nat where "MAX_RFU_SIZE = 128"
definition MAX_SIZE_APP :: u32 where "MAX_SIZE_APP = 95443539"

lemmas rom_consts =
  MAX_ROMFILE_HEAD_ITEAM_def MAX_MODEL_NAME_SIZE_def MAX_RFU_SIZE_def MAX_SIZE_APP_def

text \<open>\<open>ROMFILE_HEAD_ITEAM\<close>; the union is its 128 bytes, the hash their first 32.\<close>

record rom_item =
  dwItemSize :: u32
  dwItemOffset :: u32
  sVersion :: bytes
  sModel :: bytes
  dwUpdateCondition :: u32
  sItemRFU :: bytes

record rom_head =
  dwHeaderSize :: u32
  sFormatVersion :: bytes
  sHeadRFU :: bytes
  dwItem :: u32
  Item :: "rom_item list"

definition sHash :: "rom_item \<Rightarrow> bytes" where
  "sHash it = take 32 (sItemRFU it)"

text \<open>The packed layout: what \<open>read\<close> and \<open>write\<close> of the structure transfer.\<close>

definition enc_rom_item :: "rom_item \<Rightarrow> bytes" where
  "enc_rom_item it =
     le32 (dwItemSize it) @ le32 (dwItemOffset it) @ sVersion it @ sModel it
       @ le32 (dwUpdateCondition it) @ sItemRFU it"

definition dec_rom_item :: "bytes \<Rightarrow> rom_item" where
  "dec_rom_item d =
     \<lparr>dwItemSize = un_le32 d, dwItemOffset = un_le32 (drop 4 d), sVersion = subrange d 8 4,
      sModel = subrange d 12 31, dwUpdateCondition = un_le32 (drop 43 d),
      sItemRFU = subrange d 47 128\<rparr>"

definition sizeof_rom_item :: nat where "sizeof_rom_item = 4 + 4 + 4 + 31 + 4 + 128"

definition enc_rom_head :: "rom_head \<Rightarrow> bytes" where
  "enc_rom_head h =
     le32 (dwHeaderSize h) @ sFormatVersion h @ sHeadRFU h @ le32 (dwItem h)
       @ concat (map enc_rom_item (Item h))"

definition dec_rom_head :: "bytes \<Rightarrow> rom_head" where
  "dec_rom_head d =
     \<lparr>dwHeaderSize = un_le32 d, sFormatVersion = subrange d 4 4, sHeadRFU = subrange d 8 128,
      dwItem = un_le32 (drop 136 d),
      Item = map (\<lambda>i. dec_rom_item (drop (140 + i * sizeof_rom_item) d)) [0 ..< 45]\<rparr>"

definition sizeof_rom_head :: nat where
  "sizeof_rom_head = 4 + 4 + 128 + 4 + MAX_ROMFILE_HEAD_ITEAM * sizeof_rom_item"

lemma sizeof_rom: "sizeof_rom_item = 175" "sizeof_rom_head = 8015"
  by (simp_all add: sizeof_rom_item_def sizeof_rom_head_def rom_consts)

text \<open>The structures as \<open>memset(&x, 0, sizeof(x))\<close> leaves them.\<close>

definition zero_item :: rom_item where
  "zero_item =
     \<lparr>dwItemSize = 0, dwItemOffset = 0, sVersion = replicate 4 0, sModel = replicate 31 0,
      dwUpdateCondition = 0, sItemRFU = replicate 128 0\<rparr>"

definition zero_head :: rom_head where
  "zero_head =
     \<lparr>dwHeaderSize = 0, sFormatVersion = replicate 4 0, sHeadRFU = replicate 128 0, dwItem = 0,
      Item = replicate MAX_ROMFILE_HEAD_ITEAM zero_item\<rparr>"

section \<open>Files\<close>

text \<open>The contents of the files that exist, and the paths that can be opened for writing.\<close>

record 'p files =
  content :: "'p \<rightharpoonup> bytes"
  writable :: "'p \<Rightarrow> bool"

text \<open>\<open>NULL\<close> for a path is \<open>None\<close>; \<open>pHeader\<close> is given or \<open>NULL\<close>.\<close>

definition tg_rom_load_header ::
  "'p files \<Rightarrow> 'p option \<Rightarrow> bool \<Rightarrow> rom_result \<times> rom_head option" where
  "tg_rom_load_header fs lpctRomFile b_pHeader =
     (case lpctRomFile of
        None \<Rightarrow> (result_error_invalid_parameter, None)
      | Some f \<Rightarrow>
          if \<not> b_pHeader then (result_error_invalid_parameter, None)
          else
            case content fs f of
              None \<Rightarrow> (result_error_not_found, None)
            | Some d \<Rightarrow>
                if length d < sizeof_rom_head then (result_error_shorter_then_expected, None)
                else (result_success, Some (dec_rom_head d)))"

definition tg_rom_create_header :: "'p files \<Rightarrow> 'p option \<Rightarrow> rom_result \<times> 'p files" where
  "tg_rom_create_header fs lpctRomFile =
     (case lpctRomFile of
        None \<Rightarrow> (result_error_invalid_parameter, fs)
      | Some f \<Rightarrow>
          if \<not> writable fs f then (result_error_not_open_file, fs)
          else
            let header = zero_head\<lparr>dwHeaderSize := of_nat sizeof_rom_head,
                                   sFormatVersion := [1, 1, 0, 0]\<rparr>
            in (result_success, fs\<lparr>content := (content fs)(f \<mapsto> enc_rom_head header)\<rparr>))"

text \<open>
  \<open>nIndex > (pHeader->dwItem - 1)\<close> compares as unsigned 32-bit numbers: with no item the right side
  is the largest one.
\<close>

definition tg_rom_get_item :: "rom_head option \<Rightarrow> int \<Rightarrow> rom_result \<times> rom_item option" where
  "tg_rom_get_item pHeader nIndex =
     (case pHeader of
        None \<Rightarrow> (result_error_invalid_parameter, None)
      | Some h \<Rightarrow>
          if nIndex < 0 \<or> nIndex > int MAX_ROMFILE_HEAD_ITEAM - 1
          then (result_error_invalid_parameter, None)
          else if (of_int nIndex :: u32) > dwItem h - 1 then (result_error_invalid_parameter, None)
          else (result_success, Some (Item h ! nat nIndex)))"

text \<open>The bytes that \<open>read\<close> delivers (\<open>gcount\<close> is their number).\<close>

definition tg_rom_readBinary_of_item ::
  "'p files \<Rightarrow> u32 \<Rightarrow> u32 \<Rightarrow> rom_item option \<Rightarrow> 'p option \<Rightarrow> bytes" where
  "tg_rom_readBinary_of_item fs dwRead dwOffset pItem lpctRomFile =
     (case (pItem, lpctRomFile) of
        (Some it, Some f) \<Rightarrow>
          if dwRead = 0 then []
          else (case content fs f of
                  None \<Rightarrow> []
                | Some d \<Rightarrow> subrange d (unat (dwItemOffset it) + unat dwOffset) (unat dwRead))
      | _ \<Rightarrow> [])"

section \<open>Choosing the item for a device\<close>

text \<open>
  The loop that compares the model names up to the first zero of either. \<open>None\<close> is a read behind
  the end of one of the two buffers.
\<close>

fun models_agree :: "bytes \<Rightarrow> bytes \<Rightarrow> bool option" where
  "models_agree [] bs = None"
| "models_agree (a # as) bs =
     (if a = 0 then Some True
      else
        case bs of
          [] \<Rightarrow> None
        | b # bs' \<Rightarrow>
            if b = 0 then Some True
            else if b \<noteq> a then Some False
            else models_agree as bs')"

text \<open>The index of the first item whose model agrees, or -1.\<close>

fun find_model :: "bytes \<Rightarrow> rom_item list \<Rightarrow> int \<Rightarrow> int option" where
  "find_model sMod [] i = Some (- 1)"
| "find_model sMod (it # its) i =
     (case models_agree sMod (sModel it) of
        None \<Rightarrow> None
      | Some b \<Rightarrow> if b then Some i else find_model sMod its (i + 1))"

definition has_flag :: "u32 \<Rightarrow> u32 \<Rightarrow> bool" where
  "has_flag c m = (c AND m \<noteq> 0)"

text \<open>\<open>while (!bConditionOK && nVer < 3)\<close> over the minor, bug fix and build numbers.\<close>

fun condition_loop :: "u32 \<Rightarrow> (byte \<times> byte) list \<Rightarrow> bool \<Rightarrow> bool" where
  "condition_loop cond [] ok = ok"
| "condition_loop cond ((r, g) # vs) ok =
     (if ok then True
      else condition_loop cond vs
        (if r > g then has_flag cond condition_gt \<or> has_flag cond condition_neq
         else if r < g then has_flag cond condition_lt \<or> has_flag cond condition_neq
         else False))"

definition update_condition_ok :: "u32 \<Rightarrow> bytes \<Rightarrow> byte \<Rightarrow> byte \<Rightarrow> byte \<Rightarrow> byte \<Rightarrow> bool" where
  "update_condition_ok cond ver cMajor cMinor cBugFix cBuild =
     (let ok =
        (if ver ! 0 > cMajor then has_flag cond condition_gt \<or> has_flag cond condition_neq
         else if ver ! 0 < cMajor then has_flag cond condition_lt \<or> has_flag cond condition_neq
         else has_flag cond condition_eq \<and> ver ! 1 = cMinor \<and> ver ! 2 = cBugFix \<and> ver ! 3 = cBuild)
      in condition_loop cond [(ver ! 1, cMinor), (ver ! 2, cBugFix), (ver ! 3, cBuild)] ok)"

text \<open>
  \<open>dwUpdateCondition\<close> of \<open>Item[nIndex]\<close> is read before \<open>nIndex\<close> is tested: when no model agrees the
  read is at \<open>Item[-1]\<close>, outside the array.
\<close>

definition tg_rom_get_updatable_item_index ::
  "rom_head option \<Rightarrow> bytes option \<Rightarrow> byte \<Rightarrow> byte \<Rightarrow> byte \<Rightarrow> byte \<Rightarrow> int option" where
  "tg_rom_get_updatable_item_index pHeader sMod cMajor cMinor cBugFix cBuild =
     (case (pHeader, sMod) of
        (Some h, Some m) \<Rightarrow>
          if dwItem h = 0 \<or> unat (dwItem h) > MAX_ROMFILE_HEAD_ITEAM then Some (- 1)
          else
            (case find_model m (take (unat (dwItem h)) (Item h)) 0 of
               None \<Rightarrow> None
             | Some nIndex \<Rightarrow>
                 if nIndex < 0 then None
                 else
                   let it = Item h ! nat nIndex
                   in if update_condition_ok (dwUpdateCondition it) (sVersion it)
                           cMajor cMinor cBugFix cBuild
                      then Some nIndex else Some (- 1))
      | _ \<Rightarrow> Some (- 1))"

section \<open>Adding a binary\<close>

text \<open>The first block is changed before it is hashed: even bytes with 0xC0, odd bytes with 0xFF.\<close>

definition hash_mask :: "bytes \<Rightarrow> bytes" where
  "hash_mask buf =
     map (\<lambda>(j, b). if j mod 2 = 0 then b XOR 0xC0 else b XOR 0xFF) (zip [0 ..< length buf] buf)"

text \<open>
  \<open>while (Bin && !Bin.eof())\<close>: the blocks of at most 4 KiB; the end of the file is noticed by the
  read that delivers fewer bytes. Result: the bytes written and the state of the hash.
\<close>

function copy_loop ::
  "('h \<Rightarrow> bytes \<Rightarrow> 'h) \<Rightarrow> bytes \<Rightarrow> bool \<Rightarrow> 'h \<Rightarrow> bytes \<Rightarrow> bytes \<times> 'h" where
  "copy_loop sha_process bin b_first sha_info out =
     (let sBuffer = take 4096 bin;
          out' = out @ sBuffer;
          sha_info' = sha_process sha_info (if b_first then hash_mask sBuffer else sBuffer)
      in if length bin < 4096 then (out', sha_info')
         else copy_loop sha_process (drop 4096 bin) False sha_info' out')"
  by pat_completeness auto
termination
  by (relation "measure (\<lambda>(p, bin, b, h, out). length bin)") auto

declare copy_loop.simps [simp del]

text \<open>\<open>while (sModel[nModel]) nModel++\<close>; \<open>None\<close> without a terminating zero.\<close>

fun c_strlen :: "bytes \<Rightarrow> nat option" where
  "c_strlen [] = None"
| "c_strlen (b # bs) = (if b = 0 then Some 0 else map_option Suc (c_strlen bs))"

definition model_field :: "bytes \<Rightarrow> bytes" where
  "model_field m = m @ replicate (31 - length m) 0"

text \<open>
  The rom file is written in place: the blocks behind its end, then the header over its start. The
  binary and the rom are different files.
\<close>

definition tg_rom_add_item ::
  "'h \<Rightarrow> ('h \<Rightarrow> bytes \<Rightarrow> 'h) \<Rightarrow> ('h \<Rightarrow> bytes) \<Rightarrow> 'p files \<Rightarrow> 'p option \<Rightarrow> 'p option
     \<Rightarrow> byte \<Rightarrow> byte \<Rightarrow> byte \<Rightarrow> byte \<Rightarrow> bytes option \<Rightarrow> u32 \<Rightarrow> (rom_result \<times> 'p files) option" where
  "tg_rom_add_item sha_init sha_process sha_close fs lpctRomFile lpctBinFile
      cMajor cMinor cBugFix cBuild sMod cond =
    (case (lpctRomFile, lpctBinFile) of
       (Some rf, Some bf) \<Rightarrow>
         (case content fs rf of
            None \<Rightarrow> Some (result_error_not_found, fs)
          | Some rom \<Rightarrow>
              if unat (of_nat (length rom) :: u32) < sizeof_rom_head
              then Some (result_error_shorter_then_expected, fs)
              else
                let header = dec_rom_head rom in
                if unat (dwItem header) = MAX_ROMFILE_HEAD_ITEAM
                then Some (result_error_over_capacity, fs)
                else
                  (case content fs bf of
                     None \<Rightarrow> Some (result_error_not_found, fs)
                   | Some bin \<Rightarrow>
                       if (of_nat (length bin) :: u32) > MAX_SIZE_APP
                       then Some (result_error_greater_then_expected, fs)
                       else if \<not> writable fs rf then Some (result_error_not_open_file, fs)
                       else
                         (case (case sMod of None \<Rightarrow> Some 0 | Some m \<Rightarrow> c_strlen m) of
                            None \<Rightarrow> None
                          | Some nModel \<Rightarrow>
                              if nModel > MAX_MODEL_NAME_SIZE
                              then Some (result_error_greater_then_expected, fs)
                              else if unat (dwItem header) > MAX_ROMFILE_HEAD_ITEAM then None
                              else
                                let item = zero_item
                                      \<lparr>dwItemSize := of_nat (length bin),
                                       dwItemOffset := of_nat (length rom),
                                       sVersion := [cMajor, cMinor, cBugFix, cBuild],
                                       sModel := model_field (case sMod of None \<Rightarrow> []
                                                                | Some m \<Rightarrow> take nModel m),
                                       dwUpdateCondition := cond\<rparr>;
                                    (out, sha_info) = copy_loop sha_process bin True sha_init [];
                                    item' = item\<lparr>sItemRFU := sha_close sha_info
                                                   @ drop 32 (sItemRFU item)\<rparr>;
                                    header' = header
                                      \<lparr>dwItem := dwItem header + 1,
                                       Item := (Item header)[unat (dwItem header) := item']\<rparr>
                                in Some (result_success,
                                     fs\<lparr>content := (content fs)
                                          (rf \<mapsto> overlay (rom @ out) 0 (enc_rom_head header'))\<rparr>))))
     | _ \<Rightarrow> Some (result_error_invalid_parameter, fs))"

section \<open>The packed layout\<close>

definition wf_rom_item :: "rom_item \<Rightarrow> bool" where
  "wf_rom_item it = (length (sVersion it) = 4 \<and> length (sModel it) = 31 \<and> length (sItemRFU it) = 128)"

definition wf_rom_head :: "rom_head \<Rightarrow> bool" where
  "wf_rom_head h =
     (length (sFormatVersion h) = 4 \<and> length (sHeadRFU h) = 128 \<and> length (Item h) = 45
        \<and> list_all wf_rom_item (Item h))"

lemma un_le32_take: "4 \<le> length d \<Longrightarrow> un_le32 (take 4 d) = un_le32 d"
  by (simp add: un_le32_def)

lemma dec_enc_rom_item: "wf_rom_item it \<Longrightarrow> dec_rom_item (enc_rom_item it @ rest) = it"
  by (simp add: wf_rom_item_def dec_rom_item_def enc_rom_item_def un_le32_le32 subrange_def)

lemma length_enc_rom_item: "wf_rom_item it \<Longrightarrow> length (enc_rom_item it) = 175"
  by (simp add: wf_rom_item_def enc_rom_item_def)

interpretation rom_item_code: byte_codec enc_rom_item dec_rom_item 175 wf_rom_item
  by unfold_locales (simp_all add: dec_enc_rom_item length_enc_rom_item)

lemma length_concat_items:
  "list_all wf_rom_item its \<Longrightarrow> length (concat (map enc_rom_item its)) = 175 * length its"
  by (induction its) (simp_all add: length_enc_rom_item)

lemma dec_items:
  "list_all wf_rom_item its \<Longrightarrow> i < length its \<Longrightarrow>
     dec_rom_item (drop (i * 175) (concat (map enc_rom_item its) @ rest)) = its ! i"
proof (induction its arbitrary: i)
  case (Cons it its)
  show ?case
  proof (cases i)
    case 0
    then show ?thesis using Cons.prems by (simp add: dec_enc_rom_item)
  next
    case (Suc j)
    then have "drop (i * 175) (concat (map enc_rom_item (it # its)) @ rest)
        = drop (j * 175) (concat (map enc_rom_item its) @ rest)"
      using Cons.prems by (simp add: length_enc_rom_item)
    then show ?thesis using Cons Suc by simp
  qed
qed simp

interpretation rom_head_code: byte_codec enc_rom_head dec_rom_head 8015 wf_rom_head
proof
  fix h :: rom_head and rest
  assume wf: "wf_rom_head h"
  then show "length (enc_rom_head h) = 8015"
    by (simp add: wf_rom_head_def enc_rom_head_def length_concat_items)
  have items: "map (\<lambda>i. dec_rom_item (drop (140 + i * 175) (enc_rom_head h @ rest))) [0 ..< 45] = Item h"
  proof (rule nth_equalityI)
    fix i
    assume "i < length (map (\<lambda>i. dec_rom_item (drop (140 + i * 175) (enc_rom_head h @ rest))) [0 ..< 45])"
    then have i: "i < 45" by simp
    have "drop (140 + i * 175) (enc_rom_head h @ rest)
        = drop (i * 175) (concat (map enc_rom_item (Item h)) @ rest)"
      using wf by (simp add: wf_rom_head_def enc_rom_head_def)
    then show "map (\<lambda>i. dec_rom_item (drop (140 + i * 175) (enc_rom_head h @ rest))) [0 ..< 45] ! i
        = Item h ! i"
      using wf i dec_items [of "Item h" i rest] by (simp add: wf_rom_head_def)
  qed (use wf in \<open>simp add: wf_rom_head_def\<close>)
  show "dec_rom_head (enc_rom_head h @ rest) = h"
    using wf items
    by (simp add: dec_rom_head_def sizeof_rom)
      (simp add: wf_rom_head_def enc_rom_head_def un_le32_le32 subrange_def)
qed

lemma wf_dec_rom_item: "175 \<le> length d \<Longrightarrow> wf_rom_item (dec_rom_item d)"
  by (simp add: wf_rom_item_def dec_rom_item_def subrange_def)

lemma wf_dec_rom_head: "8015 \<le> length d \<Longrightarrow> wf_rom_head (dec_rom_head d)"
  by (auto simp: wf_rom_head_def dec_rom_head_def sizeof_rom subrange_def list_all_iff
      intro!: wf_dec_rom_item)

lemma wf_zero_item: "wf_rom_item zero_item"
  by (simp add: wf_rom_item_def zero_item_def)

section \<open>The copy loop\<close>

text \<open>The routine may be fed in pieces.\<close>

definition hash_stream :: "('h \<Rightarrow> bytes \<Rightarrow> 'h) \<Rightarrow> bool" where
  "hash_stream sha_process =
     (\<forall>h a b. sha_process (sha_process h a) b = sha_process h (a @ b))"

definition hashed_bytes :: "bytes \<Rightarrow> bytes" where
  "hashed_bytes bin = hash_mask (take 4096 bin) @ drop 4096 bin"

lemma copy_loop_rest:
  "hash_stream p \<Longrightarrow> copy_loop p bin False h out = (out @ bin, p h bin)"
proof (induction bin arbitrary: h out rule: length_induct)
  case (1 bin)
  show ?case
  proof (cases "length bin < 4096")
    case True
    then show ?thesis by (subst copy_loop.simps) (simp add: Let_def)
  next
    case False
    then have "length (drop 4096 bin) < length bin" by simp
    then show ?thesis
      using 1 False by (subst copy_loop.simps) (simp add: Let_def hash_stream_def)
  qed
qed

lemma copy_loop_all:
  assumes "hash_stream p"
  shows "copy_loop p bin True h [] = (bin, p h (hashed_bytes bin))"
  using copy_loop_rest [OF assms] assms
  by (subst copy_loop.simps) (simp add: Let_def hash_stream_def hashed_bytes_def)

text \<open>The bytes are copied whatever the hash routine does.\<close>

lemma copy_loop_bytes: "fst (copy_loop p bin b h out) = out @ bin"
proof (induction bin arbitrary: b h out rule: length_induct)
  case (1 bin)
  show ?case
  proof (cases "length bin < 4096")
    case True
    then show ?thesis by (subst copy_loop.simps) (simp add: Let_def)
  next
    case False
    then have "length (drop 4096 bin) < length bin" by simp
    then show ?thesis using 1 False by (subst copy_loop.simps) (simp add: Let_def)
  qed
qed

section \<open>Which device an item updates\<close>

lemma models_agree_prefix:
  assumes "0 \<notin> set a" "0 \<notin> set b"
  shows "models_agree (a @ 0 # x) (b @ 0 # y) = Some (prefix a b \<or> prefix b a)"
  using assms
proof (induction a arbitrary: b)
  case Nil
  then show ?case by (cases b) simp_all
next
  case (Cons c a)
  then show ?case by (cases b) auto
qed

lemma condition_loop_iff:
  "condition_loop cond vs ok \<longleftrightarrow> ok
     \<or> has_flag cond condition_neq \<and> (\<exists>(r, g)\<in>set vs. r \<noteq> g)
     \<or> has_flag cond condition_gt \<and> (\<exists>(r, g)\<in>set vs. r > g)
     \<or> has_flag cond condition_lt \<and> (\<exists>(r, g)\<in>set vs. r < g)"
proof (induction vs arbitrary: ok)
  case (Cons v vs)
  obtain r g where v: "v = (r, g)" by (cases v)
  show ?case using Cons by (cases r g rule: linorder_cases) (auto simp: v)
qed simp

lemma find_model_bound:
  "find_model m its i = Some n \<Longrightarrow> 0 \<le> i \<Longrightarrow> 0 \<le> n \<Longrightarrow>
     i \<le> n \<and> nat (n - i) < length its \<and> models_agree m (sModel (its ! nat (n - i))) = Some True
     \<and> (\<forall>k < nat (n - i). models_agree m (sModel (its ! k)) = Some False)"
proof (induction its arbitrary: i)
  case (Cons it its)
  then obtain b where b: "models_agree m (sModel it) = Some b"
    by (cases "models_agree m (sModel it)") simp_all
  show ?case
  proof (cases b)
    case True
    then show ?thesis using Cons.prems b by simp
  next
    case False
    then have IH: "i + 1 \<le> n \<and> nat (n - (i + 1)) < length its
        \<and> models_agree m (sModel (its ! nat (n - (i + 1)))) = Some True
        \<and> (\<forall>k < nat (n - (i + 1)). models_agree m (sModel (its ! k)) = Some False)"
      using Cons.IH [of "i + 1"] Cons.prems b by simp
    then have n: "nat (n - i) = Suc (nat (n - (i + 1)))" by linarith
    show ?thesis
      using IH b False unfolding n by (auto simp: less_Suc_eq_0_disj)
  qed
qed simp

text \<open>Position -1 is not the index of an item.\<close>

lemma find_model_none:
  "list_all (\<lambda>it. models_agree m (sModel it) = Some False) its \<Longrightarrow> find_model m its i = Some (- 1)"
  by (induction its arbitrary: i) simp_all

section \<open>A well-formed rom file\<close>

definition rom_ok :: "bytes \<Rightarrow> bool" where
  "rom_ok rom =
     (8015 \<le> length rom \<and> length rom < 2 ^ 32 \<and> unat (dwItem (dec_rom_head rom)) \<le> 45
      \<and> (\<forall>i < unat (dwItem (dec_rom_head rom)).
            8015 \<le> unat (dwItemOffset (Item (dec_rom_head rom) ! i))
            \<and> unat (dwItemOffset (Item (dec_rom_head rom) ! i))
              + unat (dwItemSize (Item (dec_rom_head rom) ! i)) \<le> length rom))"

text \<open>The header over the start of a file with something behind its end.\<close>

lemma dec_new_head:
  "wf_rom_head h \<Longrightarrow> 8015 \<le> length rom \<Longrightarrow> dec_rom_head (overlay rom 0 (enc_rom_head h)) = h"
  by (simp add: overlay_def rom_head_code.dec_enc)

lemma body_kept:
  assumes "wf_rom_head h" "8015 \<le> length rom" "8015 \<le> off" "off + n \<le> length rom"
  shows "subrange (overlay (rom @ out) 0 (enc_rom_head h)) off n = subrange rom off n"
proof -
  have "subrange (overlay (rom @ out) 0 (enc_rom_head h)) off n = subrange (rom @ out) off n"
    by (rule subrange_overlay_other) (use assms in \<open>simp_all add: rom_head_code.enc_length\<close>)
  also have "\<dots> = subrange rom off n" using assms(4) by (simp add: subrange_def)
  finally show ?thesis .
qed

lemma body_new:
  assumes "wf_rom_head h" "8015 \<le> length rom"
  shows "subrange (overlay (rom @ out) 0 (enc_rom_head h)) (length rom) (length out) = out"
proof -
  have "subrange (overlay (rom @ out) 0 (enc_rom_head h)) (length rom) (length out)
      = subrange (rom @ out) (length rom) (length out)"
    by (rule subrange_overlay_other) (use assms in \<open>simp_all add: rom_head_code.enc_length\<close>)
  then show ?thesis by (simp add: subrange_def)
qed

lemma unat_of_length: "n < 2 ^ 32 \<Longrightarrow> unat (of_nat n :: u32) = n"
  by (simp add: unat_of_nat take_bit_nat_eq_self_iff)

lemma c_strlen_bound: "c_strlen m = Some n \<Longrightarrow> n < length m"
  by (induction m arbitrary: n) (auto split: if_splits)

text \<open>What a successful call leaves behind.\<close>

definition new_item ::
  "bytes \<Rightarrow> bytes \<Rightarrow> bytes \<Rightarrow> bytes \<Rightarrow> bytes \<Rightarrow> u32 \<Rightarrow> rom_item" where
  "new_item rom bin ver m h cond =
     \<lparr>dwItemSize = of_nat (length bin), dwItemOffset = of_nat (length rom), sVersion = ver,
      sModel = model_field m, dwUpdateCondition = cond, sItemRFU = h @ replicate 96 0\<rparr>"

definition head_with :: "rom_head \<Rightarrow> rom_item \<Rightarrow> rom_head" where
  "head_with h it = h\<lparr>dwItem := dwItem h + 1, Item := (Item h)[unat (dwItem h) := it]\<rparr>"

lemma wf_head_with:
  assumes "wf_rom_head h" "wf_rom_item it"
  shows "wf_rom_head (head_with h it)"
  using assms set_update_subset_insert [of "Item h" "unat (dwItem h)" it]
  by (auto simp: wf_rom_head_def head_with_def list_all_iff)

lemma wf_new_item:
  "length ver = 4 \<Longrightarrow> length m \<le> 31 \<Longrightarrow> length h = 32 \<Longrightarrow> wf_rom_item (new_item rom bin ver m h cond)"
  by (simp add: wf_rom_item_def new_item_def model_field_def)

lemma add_item_run:
  assumes "content fs rf = Some rom" "rom_ok rom" "unat (dwItem (dec_rom_head rom)) < 45"
    and "content fs bf = Some bin" "length bin \<le> 95443539" "writable fs rf"
    and "c_strlen m = Some n" "n \<le> 30"
  shows "tg_rom_add_item si sp sc fs (Some rf) (Some bf) v0 v1 v2 v3 (Some m) cond =
     Some (result_success, fs\<lparr>content := (content fs)(rf \<mapsto>
        overlay (rom @ bin) 0 (enc_rom_head (head_with (dec_rom_head rom)
          (new_item rom bin [v0, v1, v2, v3] (take n m)
             (sc (snd (copy_loop sp bin True si []))) cond))))\<rparr>)"
proof -
  have rom: "unat (of_nat (length rom) :: u32) = length rom" "8015 \<le> length rom"
    using assms(2) by (simp_all add: rom_ok_def unat_of_length)
  have bin: "\<not> (of_nat (length bin) :: u32) > MAX_SIZE_APP"
    using assms(5) by (simp add: word_less_nat_alt unat_of_length MAX_SIZE_APP_def)
  obtain out h where c: "copy_loop sp bin True si [] = (out, h)"
    by (cases "copy_loop sp bin True si []")
  then have "out = bin" using copy_loop_bytes [of sp bin True si "[]"] by simp
  then show ?thesis
    using assms rom bin c
    by (simp add: tg_rom_add_item_def sizeof_rom Let_def rom_consts head_with_def new_item_def
        zero_item_def)
qed

lemma add_item_keeps_rom_ok:
  assumes "rom_ok rom" "unat (dwItem (dec_rom_head rom)) < 45" "length rom + length bin < 2 ^ 32"
    and "wf_rom_item it" "dwItemSize it = of_nat (length bin)" "dwItemOffset it = of_nat (length rom)"
  defines "h \<equiv> head_with (dec_rom_head rom) it"
  shows "rom_ok (overlay (rom @ bin) 0 (enc_rom_head h))"
    "dec_rom_head (overlay (rom @ bin) 0 (enc_rom_head h)) = h"
    "unat (dwItem h) = unat (dwItem (dec_rom_head rom)) + 1"
    "Item h ! unat (dwItem (dec_rom_head rom)) = it"
    "i < unat (dwItem (dec_rom_head rom)) \<Longrightarrow> Item h ! i = Item (dec_rom_head rom) ! i"
proof -
  let ?k = "unat (dwItem (dec_rom_head rom))"
  have len: "8015 \<le> length rom" "length rom < 2 ^ 32" using assms(1) by (simp_all add: rom_ok_def)
  have wf0: "wf_rom_head (dec_rom_head rom)" by (rule wf_dec_rom_head [OF len(1)])
  then have items: "length (Item (dec_rom_head rom)) = 45" by (simp add: wf_rom_head_def)
  have wf: "wf_rom_head h" unfolding h_def by (rule wf_head_with [OF wf0 assms(4)])
  show dec: "dec_rom_head (overlay (rom @ bin) 0 (enc_rom_head h)) = h"
    by (rule dec_new_head [OF wf]) (use len in simp)
  show k: "unat (dwItem h) = ?k + 1"
    using assms(2) by (simp add: h_def head_with_def unat_word_ariths)
  show new: "Item h ! ?k = it" using assms(2) items by (simp add: h_def head_with_def)
  show old: "Item h ! i = Item (dec_rom_head rom) ! i" if "i < ?k" for i
    using that by (simp add: h_def head_with_def)
  have total: "length (overlay (rom @ bin) 0 (enc_rom_head h)) = length rom + length bin"
    using len by (simp add: length_overlay rom_head_code.enc_length [OF wf])
  show "rom_ok (overlay (rom @ bin) 0 (enc_rom_head h))"
    unfolding rom_ok_def dec total k
  proof (intro conjI allI impI)
    fix i
    assume "i < ?k + 1"
    then consider "i = ?k" | "i < ?k" by linarith
    then show "8015 \<le> unat (dwItemOffset (Item h ! i))"
      "unat (dwItemOffset (Item h ! i)) + unat (dwItemSize (Item h ! i)) \<le> length rom + length bin"
      using assms(1,3,5,6) len new old [of i]
      by (cases; simp add: unat_of_length; fastforce simp: rom_ok_def)+
  qed (use len assms(2,3) in simp_all)
qed

lemma read_item:
  "content fs rf = Some d \<Longrightarrow> tg_rom_readBinary_of_item fs n 0 (Some it) (Some rf) =
     subrange d (unat (dwItemOffset it)) (unat n)"
  by (simp add: tg_rom_readBinary_of_item_def subrange_def)

section \<open>Properties\<close>

text \<open>Adding a binary to a well-formed rom file keeps it well-formed and reads back: the new item
  is the last, carries version, model and size, and its binary is delivered unchanged; the items that
  were there before and their binaries are the same as before.\<close>

theorem rom_add_item_roundtrip:
  assumes "content fs rf = Some rom" "rom_ok rom" "unat (dwItem (dec_rom_head rom)) < 45"
    and "content fs bf = Some bin" "length bin \<le> 95443539" "length rom + length bin < 2 ^ 32"
    and "writable fs rf" "c_strlen m = Some n" "n \<le> 30" "\<forall>h. length (sc h) = 32"
  shows "\<exists>fs' rom'. tg_rom_add_item si sp sc fs (Some rf) (Some bf) v0 v1 v2 v3 (Some m) cond
        = Some (result_success, fs')
     \<and> content fs' rf = Some rom' \<and> rom_ok rom'
     \<and> (let h = dec_rom_head rom; h' = dec_rom_head rom'; k = unat (dwItem h); it = Item h' ! k
        in unat (dwItem h') = k + 1 \<and> sVersion it = [v0, v1, v2, v3] \<and> take n (sModel it) = take n m
         \<and> dwItemSize it = of_nat (length bin)
         \<and> tg_rom_readBinary_of_item fs' (dwItemSize it) 0 (Some it) (Some rf) = bin
         \<and> (\<forall>i < k. Item h' ! i = Item h ! i
             \<and> tg_rom_readBinary_of_item fs' (dwItemSize (Item h ! i)) 0 (Some (Item h ! i)) (Some rf)
               = tg_rom_readBinary_of_item fs (dwItemSize (Item h ! i)) 0 (Some (Item h ! i)) (Some rf)))"
proof -
  let ?h = "dec_rom_head rom"
  define it where "it = new_item rom bin [v0, v1, v2, v3] (take n m)
     (sc (snd (copy_loop sp bin True si []))) cond"
  define rom' where "rom' = overlay (rom @ bin) 0 (enc_rom_head (head_with ?h it))"
  define fs' where "fs' = fs\<lparr>content := (content fs)(rf \<mapsto> rom')\<rparr>"
  have wf: "wf_rom_item it"
    unfolding it_def by (rule wf_new_item) (use assms(9,10) in simp_all)
  have it: "dwItemSize it = of_nat (length bin)" "dwItemOffset it = of_nat (length rom)"
    "sVersion it = [v0, v1, v2, v3]"
    by (simp_all add: it_def new_item_def)
  have "length m > n" by (rule c_strlen_bound [OF assms(8)])
  then have model: "take n (sModel it) = take n m" by (simp add: it_def new_item_def model_field_def)
  note keeps = add_item_keeps_rom_ok [OF assms(2,3,6) wf it(1,2), folded rom'_def]
  have len: "8015 \<le> length rom" "length rom < 2 ^ 32" using assms(2) by (simp_all add: rom_ok_def)
  have wfh: "wf_rom_head (head_with ?h it)"
    by (rule wf_head_with [OF wf_dec_rom_head [OF len(1)] wf])
  have rom': "content fs' rf = Some rom'" by (simp add: fs'_def)
  have bin: "tg_rom_readBinary_of_item fs' (dwItemSize it) 0 (Some it) (Some rf) = bin"
    using body_new [OF wfh len(1), of bin] len assms(5)
    by (simp add: read_item [OF rom'] it unat_of_length rom'_def)
  have old: "tg_rom_readBinary_of_item fs' (dwItemSize (Item ?h ! i)) 0 (Some (Item ?h ! i)) (Some rf)
      = tg_rom_readBinary_of_item fs (dwItemSize (Item ?h ! i)) 0 (Some (Item ?h ! i)) (Some rf)"
    if "i < unat (dwItem ?h)" for i
    using body_kept [OF wfh len(1)] that assms(2)
    by (simp add: read_item [OF rom'] read_item [OF assms(1)] rom'_def rom_ok_def)
  show ?thesis
    using add_item_run [OF assms(1-5) assms(7-9)] keeps it model bin old
    by (intro exI [of _ fs'] exI [of _ rom']) (simp add: Let_def fs'_def rom'_def it_def)
qed

definition new_rom_head :: rom_head where
  "new_rom_head = zero_head\<lparr>dwHeaderSize := of_nat sizeof_rom_head, sFormatVersion := [1, 1, 0, 0]\<rparr>"

lemma wf_new_rom_head: "wf_rom_head new_rom_head"
  by (simp add: wf_rom_head_def new_rom_head_def zero_head_def rom_consts list_all_iff wf_zero_item)

lemma rom_ok_new: "rom_ok (enc_rom_head new_rom_head)"
  "dec_rom_head (enc_rom_head new_rom_head) = new_rom_head" "unat (dwItem new_rom_head) = 0"
proof -
  show dec: "dec_rom_head (enc_rom_head new_rom_head) = new_rom_head"
    using rom_head_code.dec_enc [OF wf_new_rom_head, of "[]"] by simp
  show zero: "unat (dwItem new_rom_head) = 0" by (simp add: new_rom_head_def zero_head_def)
  show "rom_ok (enc_rom_head new_rom_head)"
    unfolding rom_ok_def dec zero by (simp add: rom_head_code.enc_length [OF wf_new_rom_head])
qed

text \<open>An empty rom file at path 0 and a binary at path 1.\<close>

definition example_files :: "nat files" where
  "example_files = \<lparr>content = [0 \<mapsto> enc_rom_head new_rom_head, 1 \<mapsto> [7, 8, 9]], writable = (\<lambda>_. True)\<rparr>"


theorem rom_add_item_roundtrip_witness:
  "\<exists>fs' rom'. tg_rom_add_item [] (@) (\<lambda>h. take 32 (h @ replicate 32 0)) example_files (Some 0) (Some 1)
        1 2 3 4 (Some [0x65, 0]) 5 = Some (result_success, fs')
     \<and> content fs' 0 = Some rom' \<and> rom_ok rom'
     \<and> (let h = dec_rom_head (enc_rom_head new_rom_head); h' = dec_rom_head rom';
            k = unat (dwItem h); it = Item h' ! k
        in unat (dwItem h') = k + 1 \<and> sVersion it = [1, 2, 3, 4]
         \<and> take 1 (sModel it) = take 1 [0x65, 0]
         \<and> dwItemSize it = of_nat (length [7 :: byte, 8, 9])
         \<and> tg_rom_readBinary_of_item fs' (dwItemSize it) 0 (Some it) (Some 0) = [7, 8, 9]
         \<and> (\<forall>i < k. Item h' ! i = Item h ! i
             \<and> tg_rom_readBinary_of_item fs' (dwItemSize (Item h ! i)) 0 (Some (Item h ! i)) (Some 0)
               = tg_rom_readBinary_of_item example_files (dwItemSize (Item h ! i)) 0
                   (Some (Item h ! i)) (Some 0)))"
  by (rule rom_add_item_roundtrip [where n = 1])
    (use rom_ok_new rom_head_code.enc_length [OF wf_new_rom_head]
     in \<open>auto simp: example_files_def min_def\<close>)

text \<open>The hash in the new item is that of the binary with the bytes of its first 4 KiB masked by
  0xC0 and 0xFF in turn, for every hash routine that may be fed in pieces.\<close>

theorem rom_item_hash:
  assumes "content fs rf = Some rom" "rom_ok rom" "unat (dwItem (dec_rom_head rom)) < 45"
    and "content fs bf = Some bin" "length bin \<le> 95443539" "length rom + length bin < 2 ^ 32"
    and "writable fs rf" "c_strlen m = Some n" "n \<le> 30" "\<forall>h. length (sc h) = 32"
    and "\<forall>h a b. sp (sp h a) b = sp h (a @ b)"
  shows "\<exists>fs' rom'. tg_rom_add_item si sp sc fs (Some rf) (Some bf) v0 v1 v2 v3 (Some m) cond
        = Some (result_success, fs') \<and> content fs' rf = Some rom'
     \<and> sHash (Item (dec_rom_head rom') ! unat (dwItem (dec_rom_head rom)))
       = sc (sp si (hash_mask (take 4096 bin) @ drop 4096 bin))"
proof -
  define it where "it = new_item rom bin [v0, v1, v2, v3] (take n m)
     (sc (snd (copy_loop sp bin True si []))) cond"
  have wf: "wf_rom_item it"
    unfolding it_def by (rule wf_new_item) (use assms(9,10) in simp_all)
  have it: "dwItemSize it = of_nat (length bin)" "dwItemOffset it = of_nat (length rom)"
    by (simp_all add: it_def new_item_def)
  have "hash_stream sp" using assms(11) by (simp add: hash_stream_def)
  then have "sHash it = sc (sp si (hash_mask (take 4096 bin) @ drop 4096 bin))"
    using assms(10) by (simp add: it_def new_item_def sHash_def copy_loop_all hashed_bytes_def)
  then show ?thesis
    using add_item_run [OF assms(1-5) assms(7-9), of si sp sc v0 v1 v2 v3 cond, folded it_def]
      add_item_keeps_rom_ok(2,4) [OF assms(2,3,6) wf it]
    by simp
qed

theorem rom_item_hash_witness:
  "\<exists>fs' rom'. tg_rom_add_item [] (@) (\<lambda>h. take 32 (h @ replicate 32 0)) example_files (Some 0) (Some 1)
        1 2 3 4 (Some [0x65, 0]) 5 = Some (result_success, fs') \<and> content fs' 0 = Some rom'
     \<and> sHash (Item (dec_rom_head rom') ! unat (dwItem (dec_rom_head (enc_rom_head new_rom_head))))
       = take 32 (([] @ (hash_mask (take 4096 [7, 8, 9]) @ drop 4096 [7, 8, 9])) @ replicate 32 0)"
  by (rule rom_item_hash [where n = 1])
    (use rom_ok_new rom_head_code.enc_length [OF wf_new_rom_head]
     in \<open>auto simp: example_files_def min_def\<close>)

text \<open>C40. What the update condition decides: "equal" holds for equal versions, "not equal" for
  different ones; but "greater" and "less" hold as soon as any one of the four numbers of the item is
  greater or less, whatever the numbers before it say.\<close>

theorem update_condition_decision:
  "update_condition_ok cond [r0, r1, r2, r3] g0 g1 g2 g3 \<longleftrightarrow>
     (let vs = [(r0, g0), (r1, g1), (r2, g2), (r3, g3)] in
      has_flag cond condition_eq \<and> [r0, r1, r2, r3] = [g0, g1, g2, g3]
      \<or> has_flag cond condition_neq \<and> [r0, r1, r2, r3] \<noteq> [g0, g1, g2, g3]
      \<or> has_flag cond condition_gt \<and> (\<exists>(r, g)\<in>set vs. r > g)
      \<or> has_flag cond condition_lt \<and> (\<exists>(r, g)\<in>set vs. r < g))"
  by (cases r0 g0 rule: linorder_cases)
    (auto simp: update_condition_ok_def Let_def condition_loop_iff simp del: condition_loop.simps)

text \<open>So an item that is to be used for newer versions only is chosen for a downgrade.\<close>

lemma downgrade_accepted: "update_condition_ok condition_gt [1, 5, 0, 0] 2 0 0 0"
  by (simp add: update_condition_ok_def has_flag_def condition_gt_def)

text \<open>The index that is returned is that of the first item whose model name agrees with that of
  the device (one name is a prefix of the other), and the update condition of that item holds.\<close>

theorem updatable_item_is_first_match:
  assumes "tg_rom_get_updatable_item_index (Some h) (Some m) v0 v1 v2 v3 = Some n" "0 \<le> n"
    and "unat (dwItem h) \<le> length (Item h)"
  shows "nat n < unat (dwItem h) \<and> models_agree m (sModel (Item h ! nat n)) = Some True
     \<and> (\<forall>k < nat n. models_agree m (sModel (Item h ! k)) = Some False)
     \<and> update_condition_ok (dwUpdateCondition (Item h ! nat n)) (sVersion (Item h ! nat n)) v0 v1 v2 v3"
proof -
  have find: "find_model m (take (unat (dwItem h)) (Item h)) 0 = Some n"
    and ok: "update_condition_ok (dwUpdateCondition (Item h ! nat n)) (sVersion (Item h ! nat n)) v0 v1 v2 v3"
    using assms(1,2)
    by (auto simp: tg_rom_get_updatable_item_index_def Let_def split: option.splits if_splits)
  from find_model_bound [OF find _ assms(2)] assms(3) ok show ?thesis
    by (auto simp: min_absorb2)
qed

theorem updatable_item_is_first_match_witness:
  "let h = new_rom_head\<lparr>dwItem := 1, Item := [zero_item\<lparr>sModel := model_field [0x65],
                        dwUpdateCondition := condition_gt, sVersion := [1, 0, 0, 0]\<rparr>]\<rparr> in
   nat 0 < unat (dwItem h) \<and> models_agree [0x65, 0] (sModel (Item h ! nat 0)) = Some True
     \<and> (\<forall>k < nat 0. models_agree [0x65, 0] (sModel (Item h ! k)) = Some False)
     \<and> update_condition_ok (dwUpdateCondition (Item h ! nat 0)) (sVersion (Item h ! nat 0)) 0 9 0 0"
  unfolding Let_def
  by (rule updatable_item_is_first_match)
    (simp_all add: tg_rom_get_updatable_item_index_def rom_consts model_field_def
      update_condition_ok_def has_flag_def condition_gt_def)

text \<open>When no model agrees, the condition is read in front of the array of items.\<close>

lemma no_model_reads_before_items:
  assumes "dwItem h \<noteq> 0" "unat (dwItem h) \<le> 45"
    and "list_all (\<lambda>it. models_agree m (sModel it) = Some False) (take (unat (dwItem h)) (Item h))"
  shows "tg_rom_get_updatable_item_index (Some h) (Some m) v0 v1 v2 v3 = None"
  using assms by (simp add: tg_rom_get_updatable_item_index_def rom_consts find_model_none)

text \<open>A rom file without items answers the request for any of the 45 with success.\<close>

lemma get_item_of_empty_rom:
  "i \<le> 44 \<Longrightarrow> tg_rom_get_item (Some new_rom_head) (int i) = (result_success, Some zero_item)"
  by (simp add: tg_rom_get_item_def rom_consts new_rom_head_def zero_head_def not_less)

end
