(* ===== verification/HidBootBuffer.thy ===== *)
theory HidBootBuffer
  imports RomFile
begin

text \<open>
  The boot loader side of the firmware updater, part one: the sizes and command codes of the HID boot
  loader protocol (\<open>protocol.h\<close>), its request layout, and the sector buffer \<open>CHidBootBuffer\<close>
  (\<open>HidBootBuffer.h\<close>) with its write order and erase order. C++ \<open>int\<close> members are \<open>int\<close>; the
  accesses that the source does not check (\<open>end() - 1\<close>, \<open>back()\<close>, an index) are \<open>None\<close>.
\<close>

section \<open>Sizes and codes\<close>

type_synonym u16 = "16 word"

definition C_SECTOR_SIZE :: nat where "C_SECTOR_SIZE = 4096"
definition C_SECTOR_BUFFER_SIZE :: nat where "C_SECTOR_BUFFER_SIZE = 4104"
definition C_PACKET_SIZE :: nat where "C_PACKET_SIZE = 64"
definition C_NUM_PACKET_PER_SECTOR :: nat where "C_NUM_PACKET_PER_SECTOR = 76"
definition C_LPC1343_NUM_TOTAL_SECTOR :: nat where "C_LPC1343_NUM_TOTAL_SECTOR = 7"
definition C_MAX_SIZE_FIRMWARE_BYTE :: nat where "C_MAX_SIZE_FIRMWARE_BYTE = 90 * 1024 * 1024"

definition HIDB_REQ_CMD_WRITE :: byte where "HIDB_REQ_CMD_WRITE = 10"
definition HIDB_REQ_CMD_ERASE :: byte where "HIDB_REQ_CMD_ERASE = 30"
definition HIDB_REQ_CMD_RUN :: byte where "HIDB_REQ_CMD_RUN = 40"
definition HIDB_REQ_CMD_GET_SECTOR_INFO :: byte where "HIDB_REQ_CMD_GET_SECTOR_INFO = 50"
definition HIDB_REP_RESULT_SUCCESS :: byte where "HIDB_REP_RESULT_SUCCESS = 0"

text \<open>
  \<open>HidBLRequest\<close>, packed: the command, a five byte union of which the first four are \<open>dwPara\<close>, the
  chain number, the length and the data. \<open>sizeof(HidBLRequest) - 1\<close> is the size of the header.
\<close>

record hid_request =
  cCmd :: byte
  dwPara :: u32
  wChain :: u16
  wLen :: u16
  sData :: bytes

definition le16 :: "u16 \<Rightarrow> bytes" where
  "le16 w = [ucast w, ucast (drop_bit 8 w)]"

definition un_le16 :: "bytes \<Rightarrow> u16" where
  "un_le16 bs = ucast (bs ! 0) OR push_bit 8 (ucast (bs ! 1))"

definition sizeof_request_header :: nat where "sizeof_request_header = 1 + 5 + 2 + 2"

definition C_DATA_SIZE_OF_ONE_PACKET :: nat where
  "C_DATA_SIZE_OF_ONE_PACKET = C_PACKET_SIZE - sizeof_request_header"

definition enc_request :: "hid_request \<Rightarrow> bytes" where
  "enc_request r = [cCmd r] @ le32 (dwPara r) @ [0] @ le16 (wChain r) @ le16 (wLen r) @ sData r"

definition packet_chain :: "bytes \<Rightarrow> u16" where "packet_chain p = un_le16 (drop 6 p)"
definition packet_sector :: "bytes \<Rightarrow> u32" where "packet_sector p = un_le32 (drop 1 p)"
definition packet_data :: "bytes \<Rightarrow> bytes" where "packet_data p = drop sizeof_request_header p"

text \<open>\<open>HidBLReplay\<close>: the result is the second byte, the chain number is at 6, the data start at 10.\<close>

definition replay_cReplay :: "bytes \<Rightarrow> byte" where "replay_cReplay v = v ! 0"
definition replay_cResult :: "bytes \<Rightarrow> byte" where "replay_cResult v = v ! 1"
definition replay_wChain :: "bytes \<Rightarrow> u16" where "replay_wChain v = un_le16 (drop 6 v)"
definition replay_sData :: "bytes \<Rightarrow> bytes" where "replay_sData v = drop 10 v"

lemmas hid_sizes =
  C_SECTOR_SIZE_def C_SECTOR_BUFFER_SIZE_def C_PACKET_SIZE_def C_NUM_PACKET_PER_SECTOR_def
  C_DATA_SIZE_OF_ONE_PACKET_def sizeof_request_header_def

lemma length_le16 [simp]: "length (le16 w) = 2"
  by (simp add: le16_def)

lemma un_le16_le16: "un_le16 (le16 w @ rest) = w"
  by (rule bit_word_eqI)
    (auto simp: un_le16_def le16_def bit_simps)

lemma length_enc_request [simp]: "length (enc_request r) = 10 + length (sData r)"
  by (simp add: enc_request_def)

lemma packet_fields:
  "packet_chain (enc_request r) = wChain r"
  "packet_sector (enc_request r) = dwPara r"
  "packet_data (enc_request r) = sData r"
  by (simp_all add: packet_chain_def packet_sector_def packet_data_def enc_request_def un_le16_le16
      un_le32_le32 hid_sizes)

section \<open>The sector buffer\<close>

record hid_boot_buffer =
  m_v_buffer :: "bytes list"
  m_n_cur_send_index :: int
  m_n_buffer_offset :: int
  m_n_app_area_size :: int
  m_n_file_size :: int
  m_n_packet_chain :: int
  m_n_app_start_sector :: int
  m_n_number_of_app_sector :: int
  m_n_erasing_sec_index :: int
  m_n_erase_start_sec :: int
  m_n_number_of_erase_sector :: int
  m_v_erase_sector :: "int list"
  m_b_sector_info :: bool
  m_v_send_orders :: "int list"

text \<open>
  \<open>reset(start, n, b_sector_info, b_adjust)\<close>. A negative \<open>n\<close> makes \<open>resize\<close> throw, \<open>n = 0\<close> writes
  before the beginning of the empty vector of send orders.
\<close>

definition send_orders :: "int \<Rightarrow> nat \<Rightarrow> int list" where
  "send_orders n_app_start_sector n =
     (map (\<lambda>i. (n_app_start_sector + 1) + int i) [0..<n])[n - 1 := n_app_start_sector]"

definition buffer_reset ::
  "int \<Rightarrow> int \<Rightarrow> bool \<Rightarrow> bool \<Rightarrow> hid_boot_buffer \<Rightarrow> hid_boot_buffer option" where
  "buffer_reset n_app_start_sector n_number_of_app_sector b_sector_info b_adjust s =
     (if n_number_of_app_sector \<le> 0 then None
      else if b_adjust \<and> m_v_erase_sector s = [] then None
      else
        let n = nat n_number_of_app_sector;
            n_sec_system_var = (if b_adjust then last (m_v_erase_sector s) else - 1)
        in Some \<lparr>m_v_buffer = replicate n (replicate C_SECTOR_BUFFER_SIZE 0xFF),
                 m_n_cur_send_index = 0,
                 m_n_buffer_offset = 0,
                 m_n_app_area_size = int C_SECTOR_SIZE * n_number_of_app_sector,
                 m_n_file_size = 0,
                 m_n_packet_chain = 0,
                 m_n_app_start_sector = n_app_start_sector,
                 m_n_number_of_app_sector = n_number_of_app_sector,
                 m_n_erasing_sec_index = 0,
                 m_n_erase_start_sec = n_app_start_sector,
                 m_n_number_of_erase_sector = n_number_of_app_sector,
                 m_v_erase_sector =
                   map (\<lambda>i. n_app_start_sector + int i) [0..<n]
                     @ (if n_sec_system_var \<ge> 0 then [n_sec_system_var] else []),
                 m_b_sector_info = (if b_adjust then m_b_sector_info s else b_sector_info),
                 m_v_send_orders = send_orders n_app_start_sector n\<rparr>)"

definition buffer_default_reset :: "hid_boot_buffer \<Rightarrow> hid_boot_buffer option" where
  "buffer_default_reset s = buffer_reset 1 (int C_LPC1343_NUM_TOTAL_SECTOR) False False s"

definition set_file_size_and_adjust_erase_write_area ::
  "int \<Rightarrow> hid_boot_buffer \<Rightarrow> (bool \<times> hid_boot_buffer) option" where
  "set_file_size_and_adjust_erase_write_area n_file_size s =
     (if n_file_size < 0 then Some (False, s)
      else if n_file_size > int C_MAX_SIZE_FIRMWARE_BYTE then Some (False, s)
      else if n_file_size > m_n_app_area_size s then Some (False, s)
      else
        let n_sec_num = n_file_size div int C_SECTOR_SIZE
                          + (if n_file_size mod int C_SECTOR_SIZE \<noteq> 0 then 1 else 0)
        in (case buffer_reset (m_n_app_start_sector s) n_sec_num (m_b_sector_info s) True s of
              None \<Rightarrow> None
            | Some s' \<Rightarrow> Some (True, s'\<lparr>m_n_file_size := n_file_size\<rparr>)))"

text \<open>\<open>size() - 1\<close> is unsigned: an empty vector passes the test and is then indexed.\<close>

definition get_next_send_sector_number :: "hid_boot_buffer \<Rightarrow> int option" where
  "get_next_send_sector_number s =
     (if m_n_cur_send_index s < 0 then Some (- 1)
      else if m_v_send_orders s = [] then None
      else if int (length (m_v_send_orders s)) - 1 < m_n_cur_send_index s then Some (- 1)
      else Some (m_v_send_orders s ! nat (m_n_cur_send_index s)))"

definition get_sending_sector_number :: "hid_boot_buffer \<Rightarrow> int" where
  "get_sending_sector_number s = m_n_cur_send_index s"

definition is_complete_send :: "hid_boot_buffer \<Rightarrow> bool" where
  "is_complete_send s = (\<not> m_n_cur_send_index s < m_n_number_of_app_sector s)"

text \<open>The index is compared as an unsigned number, so a negative one is out of range.\<close>

definition get_erasing_sector_number :: "hid_boot_buffer \<Rightarrow> int" where
  "get_erasing_sector_number s =
     (if 0 \<le> m_n_erasing_sec_index s \<and> m_n_erasing_sec_index s < int (length (m_v_erase_sector s))
      then m_v_erase_sector s ! nat (m_n_erasing_sec_index s) else - 1)"

definition increase_erasing_sector_number :: "hid_boot_buffer \<Rightarrow> int \<times> hid_boot_buffer" where
  "increase_erasing_sector_number s =
     (if 0 \<le> m_n_erasing_sec_index s \<and> m_n_erasing_sec_index s < int (length (m_v_erase_sector s))
      then (m_v_erase_sector s ! nat (m_n_erasing_sec_index s),
            s\<lparr>m_n_erasing_sec_index := m_n_erasing_sec_index s + 1\<rparr>)
      else (- 1, s))"

definition is_complete_erase :: "hid_boot_buffer \<Rightarrow> bool" where
  "is_complete_erase s =
     (if \<not> m_b_sector_info s then True
      else if m_v_erase_sector s = [] then m_n_erasing_sec_index s = - 1
      else \<not> (0 \<le> m_n_erasing_sec_index s
               \<and> m_n_erasing_sec_index s < int (length (m_v_erase_sector s)) - 1))"

text \<open>
  The two loaders. A stream is the bytes that are left in the file; a read that hits the end sets
  \<open>eof\<close>. The ROM loader reads at an offset of the item; \<open>n_read_offset < dwSize\<close> compares as unsigned
  numbers. What is not read keeps its \<open>0xFF\<close>.
\<close>

fun load_stream :: "bytes \<Rightarrow> bytes list \<Rightarrow> bytes list" where
  "load_stream f [] = []"
| "load_stream f (b # bs) =
     (let b' = overlay b 0 (take C_SECTOR_SIZE f)
      in if length f < C_SECTOR_SIZE then b' # bs
         else b' # load_stream (drop C_SECTOR_SIZE f) bs)"

definition load_to_buffer_from_stream :: "bytes \<Rightarrow> hid_boot_buffer \<Rightarrow> hid_boot_buffer" where
  "load_to_buffer_from_stream f s =
     (let n = nat (m_n_number_of_app_sector s)
      in s\<lparr>m_v_buffer := load_stream f (take n (m_v_buffer s)) @ drop n (m_v_buffer s)\<rparr>)"

fun load_item :: "(nat \<Rightarrow> bytes) \<Rightarrow> nat \<Rightarrow> nat \<Rightarrow> bytes list \<Rightarrow> bytes list \<times> nat" where
  "load_item readBinary dw_item n_offset [] = ([], n_offset)"
| "load_item readBinary dw_item n_offset (b # bs) =
     (if n_offset < dw_item then
        let (bs', n') = load_item readBinary dw_item (n_offset + C_SECTOR_SIZE) bs
        in (overlay b 0 (readBinary n_offset) # bs', n')
      else (b # bs, n_offset))"

definition load_to_buffer_from_rom ::
  "'p files \<Rightarrow> 'p option \<Rightarrow> rom_head \<Rightarrow> int \<Rightarrow> nat \<Rightarrow> hid_boot_buffer
     \<Rightarrow> (nat \<times> hid_boot_buffer) option" where
  "load_to_buffer_from_rom fs lpctRomFile rom_header n_rom_item_index n_read_offset s =
     (if n_rom_item_index < 0 then Some (n_read_offset, s)
      else if n_rom_item_index \<ge> int MAX_ROMFILE_HEAD_ITEAM then None
      else
        let it = Item rom_header ! nat n_rom_item_index;
            n = nat (m_n_number_of_app_sector s);
            (bs, n') =
              load_item (\<lambda>off. tg_rom_readBinary_of_item fs (of_nat C_SECTOR_SIZE) (of_nat off)
                                 (Some it) lpctRomFile)
                (unat (dwItemSize it)) n_read_offset (take n (m_v_buffer s))
        in Some (n', s\<lparr>m_v_buffer := bs @ drop n (m_v_buffer s)\<rparr>))"

definition get_app_area_size :: "hid_boot_buffer \<Rightarrow> int" where
  "get_app_area_size s =
     (if \<not> m_b_sector_info s then 0 else m_n_number_of_app_sector s * int C_SECTOR_SIZE)"

definition get_one_packet_data_from_buffer :: "int \<Rightarrow> hid_boot_buffer \<Rightarrow> bytes option" where
  "get_one_packet_data_from_buffer n_index s =
     (if n_index < 0 \<or> int (length (m_v_buffer s)) \<le> n_index \<or> m_n_buffer_offset s < 0 then None
      else
        let v = m_v_buffer s ! nat n_index; off = nat (m_n_buffer_offset s)
        in if off + C_DATA_SIZE_OF_ONE_PACKET > length v then None
           else Some (subrange v off C_DATA_SIZE_OF_ONE_PACKET))"

definition move_read_buffer_position_to_next :: "hid_boot_buffer \<Rightarrow> hid_boot_buffer" where
  "move_read_buffer_position_to_next s =
     (if m_n_buffer_offset s \<ge> int C_SECTOR_BUFFER_SIZE
      then s\<lparr>m_n_cur_send_index := m_n_cur_send_index s + 1, m_n_buffer_offset := 0,
             m_n_packet_chain := 0\<rparr>
      else s\<lparr>m_n_packet_chain := m_n_packet_chain s + 1\<rparr>)"

definition is_complete_get_one_sector_from_buffer :: "hid_boot_buffer \<Rightarrow> bool" where
  "is_complete_get_one_sector_from_buffer s =
     (m_n_buffer_offset s + int C_DATA_SIZE_OF_ONE_PACKET \<ge> int C_SECTOR_SIZE)"

definition increase_offset_in_one_sector :: "hid_boot_buffer \<Rightarrow> hid_boot_buffer" where
  "increase_offset_in_one_sector s =
     s\<lparr>m_n_buffer_offset := m_n_buffer_offset s + int C_DATA_SIZE_OF_ONE_PACKET\<rparr>"

definition get_zero_base_index_of_sector :: "int \<Rightarrow> hid_boot_buffer \<Rightarrow> int" where
  "get_zero_base_index_of_sector n_sector s = n_sector - m_n_app_start_sector s"

definition get_the_number_of_packet_for_app :: "hid_boot_buffer \<Rightarrow> int" where
  "get_the_number_of_packet_for_app s = m_n_number_of_app_sector s * int C_NUM_PACKET_PER_SECTOR"

section \<open>Write order\<close>

text \<open>
  Both the buffer and the manager write the sectors behind the first one in ascending order and the
  first one last, so that an interrupted update leaves no runnable first sector behind.
\<close>

definition write_order :: "int \<Rightarrow> nat \<Rightarrow> int list" where
  "write_order start n = map (\<lambda>i. start + int i) ([1..<n] @ [0])"

lemma length_write_order: "0 < n \<Longrightarrow> length (write_order start n) = n"
  by (simp add: write_order_def)

lemma write_order_nth:
  "i < n \<Longrightarrow> write_order start n ! i = (if i < n - 1 then start + int i + 1 else start)"
  by (cases "i < n - 1") (auto simp: write_order_def nth_append)

lemma send_orders_write_order: "0 < n \<Longrightarrow> send_orders start n = write_order start n"
  by (rule nth_equalityI)
    (auto simp: send_orders_def write_order_nth length_write_order nth_list_update)

lemma distinct_write_order: "distinct (write_order start n)"
  by (auto simp: write_order_def distinct_map inj_on_def)

lemma set_write_order: "0 < n \<Longrightarrow> set (write_order start n) = {start ..< start + int n}"
proof (rule set_eqI)
  fix x
  assume n: "0 < n"
  show "x \<in> set (write_order start n) \<longleftrightarrow> x \<in> {start ..< start + int n}"
  proof
    assume "x \<in> {start ..< start + int n}"
    then have "nat (x - start) < n" "x = start + int (nat (x - start))" by auto
    moreover have "nat (x - start) \<in> set ([1..<n] @ [0])" using calculation(1) by auto
    ultimately show "x \<in> set (write_order start n)"
      unfolding write_order_def set_map by (rule_tac image_eqI)
  qed (use n in \<open>auto simp: write_order_def\<close>)
qed

lemma last_write_order: "last (write_order start n) = start"
  by (simp add: write_order_def)

text \<open>Before a reset for the size of a file, the erase list ends with the sector of the variables.\<close>

definition wf_buffer :: "hid_boot_buffer \<Rightarrow> bool" where
  "wf_buffer s \<longleftrightarrow>
     0 < m_n_number_of_app_sector s
   \<and> m_v_send_orders s = write_order (m_n_app_start_sector s) (nat (m_n_number_of_app_sector s))
   \<and> m_n_app_area_size s = int C_SECTOR_SIZE * m_n_number_of_app_sector s
   \<and> length (m_v_buffer s) = nat (m_n_number_of_app_sector s)
   \<and> (\<forall>b\<in>set (m_v_buffer s). length b = C_SECTOR_BUFFER_SIZE)
   \<and> take (nat (m_n_number_of_app_sector s)) (m_v_erase_sector s)
       = map (\<lambda>i. m_n_app_start_sector s + int i) [0..<nat (m_n_number_of_app_sector s)]
   \<and> m_v_erase_sector s \<noteq> []"

lemma buffer_reset_wf:
  assumes "buffer_reset st n i adj s = Some s'"
  shows "wf_buffer s'"
  using assms
  by (auto simp: buffer_reset_def wf_buffer_def Let_def send_orders_write_order split: if_splits)

lemma buffer_reset_adjust_keeps_last:
  assumes "buffer_reset st n i True s = Some s'" "last (m_v_erase_sector s) \<ge> 0"
  shows "last (m_v_erase_sector s') = last (m_v_erase_sector s)"
  using assms by (auto simp: buffer_reset_def Let_def split: if_splits)

end
