(* ===== verification/DeviceSession.thy ===== *)
theory DeviceSession
  imports ProtoParam ProtoRx "HOL-Library.Monad_Syntax"
begin

text \<open>
  The request/response loops of \<open>cshare\<close> (\<open>src/shared/projects/lpu230_update/cshare.cpp\<close>): a function
  of \<open>cprotocol_lpu237\<close> queues the requests, the loop sends the front request to the device, hands the
  answer back to the protocol object and goes on until the queue is empty. The device and the
  operating system behind \<open>io_write_sync\<close>, \<open>io_read_sync\<close> and \<open>io_write_read_sync\<close> (a wait with a time
  limit for the completion of an asynchronous transfer) are a parameter: functions on a state \<open>'d\<close>
  that this theory does not look into. \<open>None\<close> for the received bytes is a time-out.
\<close>

section \<open>One transaction\<close>

record 'd hid_io =
  io_write_sync :: "'d \<Rightarrow> bytes \<Rightarrow> bool \<times> 'd"
  io_read_sync :: "'d \<Rightarrow> bytes option \<times> 'd"
  io_write_read_sync :: "'d \<Rightarrow> bytes \<Rightarrow> bytes option \<times> 'd"

text \<open>How the body of a loop ends: nothing to send (\<open>continue\<close>), done, or \<open>b_result = false; break\<close>.\<close>

datatype exchange = exch_empty | exch_ok | exch_fail

definition transact ::
  "'d hid_io \<Rightarrow> proto op \<Rightarrow> proto \<Rightarrow> 'd \<Rightarrow> (exchange \<times> nat \<times> proto \<times> 'd) option" where
  "transact io process_rx s d =
     (let (n_remainder_transaction, v_tx, s1) = get_tx_transaction s
      in if v_tx = [] then Some (exch_empty, n_remainder_transaction, s1, d)
         else
           (case io_write_read_sync io d v_tx of
              (None, d1) \<Rightarrow> Some (exch_fail, n_remainder_transaction, s1, d1)
            | (Some v_rx, d1) \<Rightarrow>
                let (b_set, s2) = set_rx_transaction v_rx s1
                in if \<not> b_set then Some (exch_fail, n_remainder_transaction, s2, d1)
                   else
                     (case process_rx s2 of
                        None \<Rightarrow> None
                      | Some (b, s3) \<Rightarrow>
                          Some (if b then exch_ok else exch_fail, n_remainder_transaction, s3, d1))))"

lemma set_from_rx_True_wf:
  assumes "set_from_rx s = Some (True, s')"
  shows "\<exists>gt gts. m_deque_generated_tx s = gt # gts \<and> wf_gt gt"
proof (cases "m_deque_generated_tx s")
  case (Cons gt gts)
  have "wf_gt gt"
  proof (rule ccontr)
    assume "\<not> wf_gt gt"
    then have "dispatch_rx gt (s\<lparr>m_deque_generated_tx := gts\<rparr>) =
        Some (False, s\<lparr>m_deque_generated_tx := gts\<rparr>)"
    proof (cases gt)
      case (gt_get_enable_iso t)
      with \<open>\<not> wf_gt gt\<close> show ?thesis
        by (cases t) (simp_all add: set_enable_track_by_rx_def switch_track_def)
    next
      case (gt_get_direction t)
      with \<open>\<not> wf_gt gt\<close> show ?thesis
        by (cases t) (simp_all add: set_direction_by_rx_def switch_track_def)
    next
      case (gt_get_combination t)
      with \<open>\<not> wf_gt gt\<close> show ?thesis
        by (cases t) (simp_all add: set_combination_by_rx_def switch_track_def)
    next
      case (gt_get_msr it t n)
      with \<open>\<not> wf_gt gt\<close> show ?thesis
        by (cases t; cases it)
          (simp_all add: msr_by_rx_defs set_elem_by_rx_def switch_track_def)
    next
      case (gt_get_private_prefix t n)
      with \<open>\<not> wf_gt gt\<close> show ?thesis
        by (cases t) (simp_all add: set_private_prefix_by_rx_def set_private_tag_by_rx_def
            switch_track_def)
    next
      case (gt_get_private_postfix t n)
      with \<open>\<not> wf_gt gt\<close> show ?thesis
        by (cases t) (simp_all add: set_private_postfix_by_rx_def set_private_tag_by_rx_def
            switch_track_def)
    qed simp_all
    with assms Cons show False by (simp add: set_from_rx_def)
  qed
  with Cons show ?thesis by blast
qed (use assms in \<open>simp add: set_from_rx_def\<close>)

lemma set_from_rx_keeps_tx:
  "set_from_rx s = Some (True, s') \<Longrightarrow> m_dequeu_v_tx s' = m_dequeu_v_tx s"
  using set_from_rx_True_wf set_from_rx_takes_one(3) by metis

lemma get_tx_transaction_pops:
  "get_tx_transaction s = (n, v, s1) \<Longrightarrow>
     m_dequeu_v_tx s1 = tl (m_dequeu_v_tx s) \<and> n = length (m_dequeu_v_tx s1)
       \<and> (v \<noteq> [] \<longrightarrow> m_dequeu_v_tx s \<noteq> [])"
  by (auto simp: get_tx_transaction_def split: list.splits)

lemma transact_ok_pops:
  assumes "transact io set_from_rx s d = Some (exch_ok, n, s', d')"
  shows "m_dequeu_v_tx s \<noteq> []" "m_dequeu_v_tx s' = tl (m_dequeu_v_tx s)"
    "n = length (m_dequeu_v_tx s')"
proof -
  obtain n1 v s1 where g: "get_tx_transaction s = (n1, v, s1)"
    by (cases "get_tx_transaction s") auto
  obtain r d1 where w: "io_write_read_sync io d v = (r, d1)"
    by (cases "io_write_read_sync io d v") auto
  obtain v_rx where r: "r = Some v_rx" and v: "v \<noteq> []"
    using assms g w by (cases r) (auto simp: transact_def split: if_splits)
  have rx: "v_rx \<noteq> []"
    using assms g w r v by (auto simp: transact_def set_rx_transaction_def split: if_splits)
  then have "set_from_rx (s1\<lparr>m_dequeu_v_rx := m_dequeu_v_rx s1 @ [v_rx]\<rparr>) = Some (True, s')" and "n = n1"
    using assms g w r v
    by (auto simp: transact_def set_rx_transaction_def split: option.splits if_splits)
  then show "m_dequeu_v_tx s \<noteq> []" "m_dequeu_v_tx s' = tl (m_dequeu_v_tx s)"
    "n = length (m_dequeu_v_tx s')"
    using get_tx_transaction_pops [OF g] set_from_rx_keeps_tx v by fastforce+
qed

lemma transact_ok_decreases:
  assumes "transact io set_from_rx s d = Some (e, n, s', d')" "e \<noteq> exch_empty" "e \<noteq> exch_fail"
  shows "length (m_dequeu_v_tx s') < length (m_dequeu_v_tx s)"
proof -
  have "e = exch_ok" using assms(2,3) by (cases e) simp_all
  then show ?thesis
    using transact_ok_pops [of io s d n s' d'] assms(1)
    by (cases "m_dequeu_v_tx s") simp_all
qed

lemma transact_remaining_decreases:
  assumes "transact io set_from_rx s d = Some (e, n, s', d')" "e \<noteq> exch_fail" "n \<noteq> 0"
  shows "length (m_dequeu_v_tx s') < length (m_dequeu_v_tx s)"
proof (cases e)
  case exch_empty
  obtain n1 v s1 where g: "get_tx_transaction s = (n1, v, s1)"
    by (cases "get_tx_transaction s") auto
  have "v = []" "n1 = n" "s1 = s'"
    using assms(1) g exch_empty
    by (auto simp: transact_def Let_def split: if_splits prod.splits option.splits)
  then show ?thesis
    using get_tx_transaction_pops [OF g] assms(3) by (cases "m_dequeu_v_tx s") auto
qed (use assms transact_ok_decreases [OF assms(1)] in simp_all)

section \<open>The loops\<close>

text \<open>\<open>do { ... } while (!b_complete)\<close>, where only an empty queue sets \<open>b_complete\<close>.\<close>

function drain :: "'d hid_io \<Rightarrow> proto \<Rightarrow> 'd \<Rightarrow> (bool \<times> nat \<times> proto \<times> 'd) option" where
  "drain io s d =
     (case transact io set_from_rx s d of
        None \<Rightarrow> None
      | Some (e, n, s', d') \<Rightarrow>
          if e = exch_empty then Some (True, n, s', d')
          else if e = exch_fail then Some (False, n, s', d')
          else drain io s' d')"
  by pat_completeness auto
termination
  by (relation "measure (\<lambda>(io, s, d). length (m_dequeu_v_tx s))")
    (rule wf_measure, hypsubst, unfold in_measure prod.case, rule transact_ok_decreases, assumption+)

declare drain.simps [simp del]

text \<open>\<open>do { ... } while (n_remainder_transaction > 0)\<close>; \<open>continue\<close> goes to the test.\<close>

function drain_remaining :: "'d hid_io \<Rightarrow> proto \<Rightarrow> 'd \<Rightarrow> (bool \<times> proto \<times> 'd) option" where
  "drain_remaining io s d =
     (case transact io set_from_rx s d of
        None \<Rightarrow> None
      | Some (e, n, s', d') \<Rightarrow>
          if e = exch_fail then Some (False, s', d')
          else if n = 0 then Some (True, s', d')
          else drain_remaining io s' d')"
  by pat_completeness auto
termination
  by (relation "measure (\<lambda>(io, s, d). length (m_dequeu_v_tx s))")
    (rule wf_measure, hypsubst, unfold in_measure prod.case, rule transact_remaining_decreases, assumption+)

declare drain_remaining.simps [simp del]

text \<open>\<open>if (n_remainder_transaction <= 0) clear_transaction()\<close>\<close>

definition clear_if_done :: "nat \<Rightarrow> proto \<Rightarrow> proto" where
  "clear_if_done n s = (if n = 0 then clear_transaction s else s)"

section \<open>The sessions of the updater\<close>

text \<open>
  \<open>b_ptr\<close> says that the device pointer is not null. The functions that do one transaction per call
  return \<open>b_result\<close> and \<open>b_complete\<close>.
\<close>

definition io_save_all_variable_sys_parameter ::
  "'d hid_io \<Rightarrow> bool \<Rightarrow> bool \<Rightarrow> proto \<Rightarrow> 'd \<Rightarrow> (bool \<times> bool \<times> proto \<times> 'd) option" where
  "io_save_all_variable_sys_parameter io b_ptr b_first s d =
     (if \<not> b_ptr then Some (False, True, s, d)
      else do {
        s1 \<leftarrow> (if b_first then map_option snd (generate_get_parameters (clear_transaction s))
               else Some s);
        (e, n, s2, d') \<leftarrow> transact io set_from_rx s1 d;
        let b_result = (e \<noteq> exch_fail);
        Some (b_result, \<not> (b_result \<and> n > 0), clear_if_done n s2, d')
      })"

definition io_recover_all_variable_sys_parameter ::
  "'d hid_io \<Rightarrow> bool \<Rightarrow> bool \<Rightarrow> proto \<Rightarrow> 'd \<Rightarrow> (bool \<times> bool \<times> proto \<times> 'd) option" where
  "io_recover_all_variable_sys_parameter io b_ptr b_first s d =
     (if \<not> b_ptr then Some (False, True, s, d)
      else do {
        (b, s1) \<leftarrow> (if b_first
                    then generate_set_parameters (set_all_parameter_to_changed (clear_transaction s))
                    else Some (True, s));
        if \<not> b then Some (False, True, s1, d)
        else do {
          (e, n, s2, d') \<leftarrow> transact io (\<lambda>s. Some (is_success_rx True s)) s1 d;
          let b_result = (e \<noteq> exch_fail);
          Some (b_result, \<not> (b_result \<and> n > 0), clear_if_done n s2, d')
        }
      })"

definition io_load_basic_sys_parameter ::
  "'d hid_io \<Rightarrow> bool \<Rightarrow> proto \<Rightarrow> 'd \<Rightarrow> (bool \<times> proto \<times> 'd) option" where
  "io_load_basic_sys_parameter io b_ptr s d =
     (if \<not> b_ptr then Some (False, s, d)
      else do {
        (_, s1) \<leftarrow> generate_get_system_information_with_name (clear_transaction s);
        (b_result, n, s2, d') \<leftarrow> drain io s1 d;
        Some (b_result, clear_if_done n s2, d')
      })"

definition io_set_interface ::
  "'d hid_io \<Rightarrow> bool \<Rightarrow> byte \<Rightarrow> proto \<Rightarrow> 'd \<Rightarrow> (bool \<times> proto \<times> 'd) option" where
  "io_set_interface io b_ptr m_lpu23x_interface_after_update s d =
     (if \<not> b_ptr then Some (False, s, d)
      else do {
        (b, s1) \<leftarrow> generate_set_interface
                    (clear_transaction (set_interface m_lpu23x_interface_after_update s));
        if \<not> b then Some (False, s1, d)
        else do {
          (b_result, n, s2, d') \<leftarrow> drain io s1 d;
          Some (b_result, clear_if_done n s2, d')
        }
      })"

definition io_set_mmd1100_to_iso_mode ::
  "'d hid_io \<Rightarrow> bool \<Rightarrow> proto \<Rightarrow> 'd \<Rightarrow> (bool \<times> proto \<times> 'd) option" where
  "io_set_mmd1100_to_iso_mode io b_ptr s d =
     (if \<not> b_ptr then Some (False, s, d)
      else do {
        (b, s1) \<leftarrow> generate_mmd1100_to_iso_mode
                    (clear_transaction (set_enable_mmd1100_iso_mode True s));
        if \<not> b then Some (False, s1, d)
        else do {
          (b_result, n, s2, d') \<leftarrow> drain io s1 d;
          Some (b_result, clear_if_done n s2, d')
        }
      })"

definition io_get_system_info_and_set_name_version ::
  "'d hid_io \<Rightarrow> bool \<Rightarrow> proto \<Rightarrow> 'd \<Rightarrow> (bool \<times> proto \<times> 'd) option" where
  "io_get_system_info_and_set_name_version io b_ptr s d =
     (if \<not> b_ptr then Some (False, s, d)
      else do {
        (_, s1) \<leftarrow> generate_get_system_information_with_name (reset s);
        (b_result, s2, d') \<leftarrow> drain_remaining io s1 d;
        Some (b_result, clear_transaction s2, d')
      })"

text \<open>The queue is not cleared before the two requests are added here.\<close>

definition io_run_bootloader ::
  "'d hid_io \<Rightarrow> bool \<Rightarrow> proto \<Rightarrow> 'd \<Rightarrow> (bool \<times> proto \<times> 'd) option" where
  "io_run_bootloader io b_ptr s d =
     (if \<not> b_ptr then Some (False, s, d)
      else do {
        (_, s1) \<leftarrow> generate_enter_config_mode s;
        (_, s2) \<leftarrow> generate_run_boot_loader s1;
        (b_result, s3, d') \<leftarrow> drain_remaining io s2 d;
        Some (b_result, clear_transaction s3, d')
      })"

section \<open>A device that answers\<close>

text \<open>The device takes the requests \<open>txs\<close> one after the other and answers with \<open>rxs\<close>.\<close>

inductive answers :: "'d hid_io \<Rightarrow> 'd \<Rightarrow> bytes list \<Rightarrow> bytes list \<Rightarrow> 'd \<Rightarrow> bool" for io where
  answers_Nil: "answers io d [] [] d"
| answers_Cons:
    "io_write_read_sync io d tx = (Some rx, d1) \<Longrightarrow> tx \<noteq> [] \<Longrightarrow> rx \<noteq> [] \<Longrightarrow>
       answers io d1 txs rxs d2 \<Longrightarrow> answers io d (tx # txs) (rx # rxs) d2"

inductive_cases answers_ConsE: "answers io d (tx # txs) rxs d2"
inductive_cases answers_NilE: "answers io d [] rxs d2"

text \<open>What the protocol object makes of the answers.\<close>

fun absorb :: "bytes list \<Rightarrow> proto op" where
  "absorb [] s = Some (True, s)"
| "absorb (rx # rxs) s =
     (case set_from_rx (s\<lparr>m_dequeu_v_tx := tl (m_dequeu_v_tx s),
                           m_dequeu_v_rx := m_dequeu_v_rx s @ [rx]\<rparr>) of
        None \<Rightarrow> None
      | Some (b, s') \<Rightarrow> if b then absorb rxs s' else Some (False, s'))"

lemma transact_answer:
  assumes "io_write_read_sync io d tx = (Some rx, d1)" "tx \<noteq> []" "rx \<noteq> []"
    and "m_dequeu_v_tx s = tx # txs"
  shows "transact io f s d =
     (case f (s\<lparr>m_dequeu_v_tx := txs, m_dequeu_v_rx := m_dequeu_v_rx s @ [rx]\<rparr>) of
        None \<Rightarrow> None
      | Some (b, s') \<Rightarrow> Some (if b then exch_ok else exch_fail, length txs, s', d1))"
  using assms by (simp add: transact_def get_tx_transaction_def set_rx_transaction_def)

lemma drain_absorb:
  assumes "answers io d txs rxs d'" "m_dequeu_v_tx s = txs" "absorb rxs s = Some (True, s')"
  shows "drain io s d = Some (True, 0, s', d')"
  using assms
proof (induction arbitrary: s rule: answers.induct)
  case (answers_Nil d)
  then show ?case
    by (subst drain.simps) (simp add: transact_def get_tx_transaction_def)
next
  case (answers_Cons d tx rx d1 txs rxs d2)
  let ?s = "s\<lparr>m_dequeu_v_tx := txs, m_dequeu_v_rx := m_dequeu_v_rx s @ [rx]\<rparr>"
  obtain s1 where s1: "set_from_rx ?s = Some (True, s1)" "absorb rxs s1 = Some (True, s')"
    using answers_Cons.prems by (auto split: option.splits if_splits)
  then have "m_dequeu_v_tx s1 = txs"
    using set_from_rx_keeps_tx [OF s1(1)] by simp
  then show ?case
    using answers_Cons.IH s1(2) answers_Cons.hyps(1-3) answers_Cons.prems(1)
    by (subst drain.simps) (simp add: transact_answer s1(1))
qed

lemma drain_remaining_absorb:
  assumes "answers io d txs rxs d'" "m_dequeu_v_tx s = txs" "txs \<noteq> []"
    and "absorb rxs s = Some (True, s')"
  shows "drain_remaining io s d = Some (True, s', d')"
  using assms
proof (induction arbitrary: s rule: answers.induct)
  case (answers_Cons d tx rx d1 txs rxs d2)
  let ?s = "s\<lparr>m_dequeu_v_tx := txs, m_dequeu_v_rx := m_dequeu_v_rx s @ [rx]\<rparr>"
  obtain s1 where s1: "set_from_rx ?s = Some (True, s1)" "absorb rxs s1 = Some (True, s')"
    using answers_Cons.prems by (auto split: option.splits if_splits)
  have tx: "m_dequeu_v_tx s1 = txs"
    using set_from_rx_keeps_tx [OF s1(1)] by simp
  have t: "transact io set_from_rx s d = Some (exch_ok, length txs, s1, d1)"
    using answers_Cons.hyps(1-3) answers_Cons.prems(1) by (simp add: transact_answer s1(1))
  show ?case
  proof (cases "txs = []")
    case True
    then show ?thesis
      using answers_Cons.hyps(4) s1(2) t
      by (subst drain_remaining.simps) (auto elim: answers_NilE)
  next
    case False
    then show ?thesis
      using answers_Cons.IH [OF tx False s1(2)] t by (subst drain_remaining.simps) simp
  qed
qed simp

section \<open>Identification\<close>

definition enc_version :: "version \<Rightarrow> bytes" where
  "enc_version v = [get_major v, get_minor v, get_fix v, get_build v]"

interpretation version_code: byte_codec enc_version version_of 4 "\<lambda>_. True"
  by unfold_locales (simp_all add: enc_version_def version_of_def)

interpretation read_version: parameter_read enc_version version_of 4 "\<lambda>_. True"
  set_version_by_rx "\<lambda>v s. s\<lparr>m_version := v\<rparr>"
  by unfold_locales (simp add: value_by_rx_defs layout_simps)

interpretation read_version_structure: parameter_read enc_version version_of 4 "\<lambda>_. True"
  set_version_structure_by_rx "\<lambda>v s. s\<lparr>m_version_structure := v\<rparr>"
  by unfold_locales (simp add: value_by_rx_defs layout_simps)

definition enc_name :: "bytes \<Rightarrow> bytes" where "enc_name bs = bs"
definition dec_name :: "bytes \<Rightarrow> bytes" where "dec_name d = take 16 d"

interpretation name_code: byte_codec enc_name dec_name 16 "\<lambda>bs. length bs = 16"
  by unfold_locales (simp_all add: enc_name_def dec_name_def)

interpretation read_name: parameter_read enc_name dec_name 16 "\<lambda>bs. length bs = 16"
  set_name_by_rx "\<lambda>bs s. s\<lparr>m_v_name := bs\<rparr>"
  by unfold_locales (simp add: value_by_rx_defs layout_simps dec_name_def)

lemma success_good:
  "m_dequeu_v_rx s = v # vs \<Longrightarrow> good_response v d \<Longrightarrow>
     success_by_rx s = Some (True, s\<lparr>m_dequeu_v_rx := vs\<rparr>)"
  by (auto simp: success_by_rx_def is_success_rx_def good_response_def good_result_def Let_def)

lemma device_type_good:
  "m_dequeu_v_rx s = v # vs \<Longrightarrow> good_response v d \<Longrightarrow>
     set_device_type_by_rx s =
       Some (True, s\<lparr>m_dequeu_v_rx := vs, m_b_device_is_standard := (v ! 1 = response_good)\<rparr>)"
  by (auto simp: set_device_type_by_rx_def is_success_rx_v_def good_response_def good_result_def
      Let_def)

lemmas identification_steps =
  success_good device_type_good read_version.reads [OF TrueI]
  read_version_structure.reads [OF TrueI] read_name.reads

text \<open>The six requests of the identification.\<close>

definition identification_requests :: "bytes list" where
  "identification_requests =
     [plain_request cmd_enter_cs 0 [], get_request (reg_sys sSysVer),
      plain_request cmd_hw_is_standard 0 [], get_request (reg_sys sStrucVer),
      get_request (reg_sys sName), plain_request cmd_leave_cs 0 []]"

definition identification_kinds :: "generated_tx list" where
  "identification_kinds =
     [gt_enter_config, gt_get_version, gt_type_device, gt_get_version_structure, gt_get_name,
      gt_leave_config]"

lemma identification_absorb:
  assumes "m_deque_generated_tx s = identification_kinds" "m_dequeu_v_rx s = []"
    and "good_response a0 x0" "good_response a1 (enc_version ver)" "good_response a2 x2"
    and "good_response a3 (enc_version struc)" "good_response a4 (enc_name name)"
    and "good_response a5 x5" "length name = 16"
  shows "absorb [a0, a1, a2, a3, a4, a5] s =
     Some (True, s\<lparr>m_deque_generated_tx := [], m_dequeu_v_rx := [],
       m_dequeu_v_tx := drop 6 (m_dequeu_v_tx s),
       m_version := ver, m_b_device_is_standard := (a2 ! 1 = response_good),
       m_device_function := (if a2 ! 1 = response_good then fun_msr_ibutton else fun_msr),
       m_version_structure := struc, m_v_name := name\<rparr>)"
proof -
  have tl6: "tl (tl (tl (tl (tl (tl xs))))) = drop 6 xs" for xs :: "bytes list"
    by (simp add: eval_nat_numeral drop_Suc)
  show ?thesis
    using assms
    by (simp add: set_from_rx_def identification_kinds_def identification_steps is_success_defs
        and_set_def tl6)
qed


text \<open>A device that answers every request with the same bytes, whatever was asked.\<close>

definition scripted_io :: "bytes list hid_io" where
  "scripted_io = \<lparr>io_write_sync = (\<lambda>d _. (True, d)),
     io_read_sync = (\<lambda>d. case d of [] \<Rightarrow> (None, d) | a # as \<Rightarrow> (Some a, as)),
     io_write_read_sync = (\<lambda>d _. case d of [] \<Rightarrow> (None, d) | a # as \<Rightarrow> (Some a, as))\<rparr>"

lemma scripted_answers:
  "length txs = length rxs \<Longrightarrow> list_all (\<lambda>v. v \<noteq> []) txs \<Longrightarrow> list_all (\<lambda>v. v \<noteq> []) rxs \<Longrightarrow>
     answers scripted_io (rxs @ rest) txs rxs rest"
  by (induction txs rxs rule: list_induct2)
    (auto intro!: answers.intros simp: scripted_io_def)

lemma answer_nonempty [simp]: "answer d \<noteq> []"
  by (simp add: answer_def)


section \<open>A device with a configuration block\<close>

text \<open>
  What the requests rely on: the device keeps a block of bytes, answers a read request with the bytes
  of the region and a write request by storing the bytes. The firmware of the reader is not part of
  the repository.
\<close>

definition block_device :: "'d hid_io \<Rightarrow> ('d \<Rightarrow> bytes) \<Rightarrow> bool" where
  "block_device io mem =
     ((\<forall>d r. region_end r \<le> length (mem d) \<longrightarrow> region_end r \<le> 0x400 \<longrightarrow> snd r \<le> 200 \<longrightarrow>
         (\<exists>rx d1. io_write_read_sync io d (get_request r) = (Some rx, d1) \<and> mem d1 = mem d
            \<and> good_response rx (subrange (mem d) (fst r) (snd r))))
    \<and> (\<forall>d r v. region_end r \<le> length (mem d) \<longrightarrow> region_end r \<le> 0x400 \<longrightarrow> snd r \<le> 200 \<longrightarrow>
         length v = snd r \<longrightarrow>
         (\<exists>rx d1. io_write_read_sync io d (set_request r v) = (Some rx, d1)
            \<and> mem d1 = overlay (mem d) (fst r) v \<and> good_response rx [])))"

lemma block_device_read:
  assumes "block_device io mem" "region_end r \<le> length (mem d)" "region_end r \<le> 0x400"
    "snd r \<le> 200"
  obtains rx d1 where "io_write_read_sync io d (get_request r) = (Some rx, d1)" "mem d1 = mem d"
    "good_response rx (subrange (mem d) (fst r) (snd r))"
  using assms unfolding block_device_def by blast

lemma block_device_write:
  assumes "block_device io mem" "region_end r \<le> length (mem d)" "region_end r \<le> 0x400"
    "snd r \<le> 200" "length v = snd r"
  obtains rx d1 where "io_write_read_sync io d (set_request r v) = (Some rx, d1)"
    "mem d1 = overlay (mem d) (fst r) v" "good_response rx []"
  using assms unfolding block_device_def by blast

lemma good_response_nonempty: "good_response rx x \<Longrightarrow> rx \<noteq> []"
  by (auto simp: good_response_def rx_size_def)

lemma request_nonempty [simp]: "get_request r \<noteq> []" "set_request r v \<noteq> []"
  by (simp_all add: get_request_def set_request_def plain_request_def)

lemma drain_single:
  assumes "io_write_read_sync io d tx = (Some rx, d1)" "tx \<noteq> []" "rx \<noteq> []"
    and "m_dequeu_v_tx s = [tx]"
    and "set_from_rx (s\<lparr>m_dequeu_v_tx := [], m_dequeu_v_rx := m_dequeu_v_rx s @ [rx]\<rparr>)
       = Some (True, s')"
  shows "drain io s d = Some (True, 0, s', d1)"
proof (rule drain_absorb)
  show "answers io d [tx] [rx] d1"
    using assms(1-3) by (auto intro: answers.intros)
qed (use assms(4,5) in simp_all)

text \<open>Writing a region and reading a region, each as a session of one request.\<close>

lemma write_session:
  assumes "block_device io mem" "region_end r \<le> length (mem d)" "region_end r \<le> 0x400"
    and "snd r \<le> 200" "length v = snd r"
    and "m_dequeu_v_tx s = []" "m_deque_generated_tx s = []" "m_dequeu_v_rx s = []"
  shows "\<exists>d1. drain io (push_all [(gt_set_config, set_request r v)] s) d
      = Some (True, 0, s, d1) \<and> mem d1 = overlay (mem d) (fst r) v"
proof -
  obtain rx d1 where w: "io_write_read_sync io d (set_request r v) = (Some rx, d1)"
    "mem d1 = overlay (mem d) (fst r) v" "good_response rx []"
    using block_device_write [OF assms(1-5)] .
  have "drain io (push_all [(gt_set_config, set_request r v)] s) d = Some (True, 0, s, d1)"
    by (rule drain_single [OF w(1) _ good_response_nonempty [OF w(3)]])
      (use w(3) assms(6-8) in \<open>simp_all add: push_all_def set_from_rx_def success_good\<close>)
  with w(2) show ?thesis by blast
qed

lemma read_session:
  assumes "block_device io mem" "region_end r \<le> length (mem d)" "region_end r \<le> 0x400"
    and "snd r \<le> 200"
    and "m_dequeu_v_tx s = []" "m_deque_generated_tx s = []" "m_dequeu_v_rx s = []"
    and "\<And>rx. good_response rx (subrange (mem d) (fst r) (snd r)) \<Longrightarrow>
        dispatch_rx gt (s\<lparr>m_dequeu_v_rx := [rx]\<rparr>) = Some (True, s')"
  shows "\<exists>d1. drain io (push_all [(gt, get_request r)] s) d = Some (True, 0, s', d1)
      \<and> mem d1 = mem d"
proof -
  obtain rx d1 where w: "io_write_read_sync io d (get_request r) = (Some rx, d1)"
    "mem d1 = mem d" "good_response rx (subrange (mem d) (fst r) (snd r))"
    using block_device_read [OF assms(1-4)] .
  have e: "s\<lparr>m_dequeu_v_tx := [], m_dequeu_v_rx := [rx], m_deque_generated_tx := []\<rparr>
      = s\<lparr>m_dequeu_v_rx := [rx]\<rparr>"
    using assms(5,6) by simp
  have f: "dispatch_rx gt (s\<lparr>m_dequeu_v_tx := [], m_dequeu_v_rx := [rx],
      m_deque_generated_tx := []\<rparr>) = Some (True, s')"
    unfolding e by (rule assms(8) [OF w(3)])
  have "drain io (push_all [(gt, get_request r)] s) d = Some (True, 0, s', d1)"
    by (rule drain_single [OF w(1) _ good_response_nonempty [OF w(3)]])
      (simp_all add: push_all_def set_from_rx_def assms(5-7) f)
  with w(2) show ?thesis by blast
qed

lemma max_size_response:
  assumes "is_iso_track t" "j \<le> 2" "good_response rx [b]" "m_dequeu_v_rx s = [rx]"
  shows "dispatch_rx (gt_get_msr max_size t j) s =
     Some (True, s\<lparr>m_dequeu_v_rx := [],
       m_n_msr_max_size := upd2 (m_n_msr_max_size s) (track_code t) j (ucast b)\<rparr>)"
proof -
  have "set_by_rx (length [b]) (\<lambda>d s. Some (m_n_msr_max_size_update
      (\<lambda>a. upd2 a (track_code t) j (dec_u32_byte d)) s)) s =
     Some (True, s\<lparr>m_dequeu_v_rx := [],
       m_n_msr_max_size := upd2 (m_n_msr_max_size s) (track_code t) j (ucast b)\<rparr>)"
    by (subst set_by_rx_good [OF assms(4,3)]) (simp add: dec_u32_byte_def)
  then show ?thesis
    using assms(1,2)
    by (simp add: set_msr_max_size_by_rx_def set_elem_by_rx_iso set_value_by_rx_def layout_simps)
qed

lemma max_size_requests:
  assumes "is_iso_track t" "j \<le> 2"
  shows "generate_set_msr_max_size t (int j) s = Some (True, push_all [(gt_set_config,
       set_request (msr_set_region cMaxSize (track_code t) j)
         (enc_u32_byte (m_n_msr_max_size s (track_code t) j)))] s)"
    and "generate_get_msr_max_size t (int j) (r :: proto) = Some (True, push_all
       [(gt_get_msr max_size t j, get_request (reg_msr_elem (track_code t) cMaxSize j))] r)"
proof -
  have "request_generator (generate_set_msr_elem cMaxSize m_n_msr_max_size enc_u32_byte t (int j))
      (\<lambda>_. True) (\<lambda>s. [(gt_set_config, set_request (msr_set_region cMaxSize (track_code t) (nat (int j)))
         (enc_u32_byte (m_n_msr_max_size s (track_code t) (nat (int j)))))])"
    by (rule msr_elem_generator)
      (use assms in \<open>simp_all add: msr_byte_members_def track_index_iso enc_u32_byte_def push_all_def\<close>)
  from request_generator.run [OF this, of s]
  show "generate_set_msr_max_size t (int j) s = Some (True, push_all [(gt_set_config,
       set_request (msr_set_region cMaxSize (track_code t) j)
         (enc_u32_byte (m_n_msr_max_size s (track_code t) j)))] s)"
    by (simp add: generate_set_msr_max_size_def)
  have "request_generator (generate_get_elem cMaxSize (gt_get_msr max_size) t (int j))
      (\<lambda>_ :: proto. True)
      (\<lambda>_. [(gt_get_msr max_size t (nat (int j)),
              get_request (reg_msr_elem (track_code t) cMaxSize (nat (int j))))])"
    by (rule elem_get_generator) (use assms in \<open>simp_all add: track_index_iso\<close>)
  from request_generator.run [OF this, of r]
  show "generate_get_msr_max_size t (int j) r = Some (True, push_all
       [(gt_get_msr max_size t j, get_request (reg_msr_elem (track_code t) cMaxSize j))] r)"
    by (simp add: generate_get_msr_max_size_def)
qed

lemma max_size_region:
  assumes "is_iso_track t" "j \<le> 2"
  shows "region_end (reg_msr_elem (track_code t) cMaxSize j) \<le> 953"
    "snd (reg_msr_elem (track_code t) cMaxSize j) = 1"
proof -
  have "j \<in> {0, 1, 2}" using assms(2) by auto
  then show "region_end (reg_msr_elem (track_code t) cMaxSize j) \<le> 953"
    "snd (reg_msr_elem (track_code t) cMaxSize j) = 1"
    using assms(1) by (cases t; auto simp: layout_simps region_end_def)+
qed

definition idle :: "proto \<Rightarrow> bool" where
  "idle s = (m_dequeu_v_tx s = [] \<and> m_deque_generated_tx s = [] \<and> m_dequeu_v_rx s = [])"


text \<open>A device that is nothing but its configuration block.\<close>

definition block_io :: "bytes hid_io" where
  "block_io = \<lparr>io_write_sync = (\<lambda>d _. (True, d)), io_read_sync = (\<lambda>d. (None, d)),
     io_write_read_sync = (\<lambda>d tx.
       let off = unat (un_le32 (drop 3 tx)); n = unat (un_le32 (drop 7 tx))
       in if tx ! 1 = request_config_get then (Some (answer (subrange d off n)), d)
          else (Some (answer []), overlay d off (drop 11 tx)))\<rparr>"

lemma unat_of_nat_u32: "n < 2 ^ 32 \<Longrightarrow> unat (of_nat n :: u32) = n"
  by (simp add: unat_of_nat take_bit_nat_eq_self)

lemma block_io_device: "block_device block_io (\<lambda>d. d)"
proof -
  have rd: "io_write_read_sync block_io d (get_request r) =
      (Some (answer (subrange d (fst r) (snd r))), d)"
    if "region_end r \<le> 0x400" for d r
    using that by (simp add: block_io_def get_request_def plain_request_def un_le32_le32
        un_le32_le32 [of _ "[]", simplified] unat_of_nat_u32 region_end_def)
  have wr: "io_write_read_sync block_io d (set_request r v) = (Some (answer []), overlay d (fst r) v)"
    if "region_end r \<le> 0x400" "length v = snd r" for d r v
    using that by (simp add: block_io_def set_request_def plain_request_def un_le32_le32
        unat_of_nat_u32 region_end_def request_config_get_def request_config_set_def)
  show ?thesis
    unfolding block_device_def
    using rd wr by (auto simp: good_response_answer length_subrange region_end_def)
qed


end
