(* ===== verification/UpdateShare.thy ===== *)
theory UpdateShare
  imports HidBootBuffer DeviceSession
begin

text \<open>
  The state that the parts of the firmware updater share, \<open>cshare\<close>
  (\<open>src/shared/projects/lpu230_update/cshare.cpp\<close>), with the choice of the firmware in a ROM file,
  the lists of the sectors to erase and to write, and the reader that delivers the firmware sector by
  sector in the order of the write list. A path that is empty is \<open>None\<close>; the contents of the files
  and the test for the extension \<open>.rom\<close> are parameters.
\<close>

section \<open>State\<close>

record 'p share =
  m_b_start_from_bootloader :: bool
  m_s_rom_file_abs_full_path :: "'p option"
  m_n_fw_index_by_user :: int
  m_b_enable_iso_mode_after_update :: bool
  m_lpu23x_interface_after_update :: byte
  m_v_firmware_list :: "(nat \<times> rom_item) list"
  m_n_selected_fw_in_firmware_list :: int
  m_n_index_updatable_fw_in_firmware_list :: int
  m_rom_header :: rom_head
  m_target_protocol_lpu237 :: proto
  m_b_ptr_dev :: bool
  m_n_size_fw :: nat
  m_v_erase_sec_index :: "int list"
  m_v_write_sec_index :: "int list"
  m_v_write_sec_index_for_bin_file :: "int list"

definition interface_nc :: byte where "interface_nc = 0xFF"

definition share_ini :: "'p share" where
  "share_ini =
     \<lparr>m_b_start_from_bootloader = False, m_s_rom_file_abs_full_path = None,
      m_n_fw_index_by_user = - 1, m_b_enable_iso_mode_after_update = False,
      m_lpu23x_interface_after_update = interface_nc, m_v_firmware_list = [],
      m_n_selected_fw_in_firmware_list = - 1, m_n_index_updatable_fw_in_firmware_list = - 1,
      m_rom_header = zero_head, m_target_protocol_lpu237 = reset_state, m_b_ptr_dev = False,
      m_n_size_fw = 0, m_v_erase_sec_index = [], m_v_write_sec_index = [],
      m_v_write_sec_index_for_bin_file = []\<rparr>"

text \<open>The function-local statics of \<open>get_one_sector_fw_data\<close>.\<close>

record fw_cursor =
  fw_dw_offset :: u32
  n_write_sector_index :: nat
  dw_last_readdone :: nat

definition fw_cursor_ini :: fw_cursor where
  "fw_cursor_ini = \<lparr>fw_dw_offset = 0, n_write_sector_index = 0, dw_last_readdone = C_SECTOR_SIZE\<rparr>"

text \<open>The class \<open>CRom\<close> keeps the header and the path of the file that was loaded last.\<close>

record 'p crom =
  m_Header :: rom_head
  m_sRomFileName :: "'p option"

definition LoadHeader ::
  "'p files \<Rightarrow> 'p \<Rightarrow> 'p crom \<Rightarrow> rom_result \<times> rom_head option \<times> 'p crom" where
  "LoadHeader fs lpctRomFile c =
     (case tg_rom_load_header fs (Some lpctRomFile) True of
        (result, None) \<Rightarrow> (result, None, c)
      | (result, Some h) \<Rightarrow>
          if result \<noteq> result_success then (result, None, c\<lparr>m_Header := h\<rparr>)
          else (result, Some h, \<lparr>m_Header = h, m_sRomFileName = Some lpctRomFile\<rparr>))"

section \<open>Setters\<close>

definition set_erase_sec_index :: "int list \<Rightarrow> 'p share \<Rightarrow> 'p share" where
  "set_erase_sec_index v sh = sh\<lparr>m_v_erase_sec_index := v\<rparr>"

text \<open>The list for raw files is extended, not replaced, unless the new list is empty.\<close>

definition set_write_sec_index :: "int list \<Rightarrow> 'p share \<Rightarrow> 'p share" where
  "set_write_sec_index v sh =
     sh\<lparr>m_v_write_sec_index := v,
        m_v_write_sec_index_for_bin_file :=
          (if v = [] then []
           else m_v_write_sec_index_for_bin_file sh @ map (\<lambda>n. n - last v) v)\<rparr>"

definition set_firmware_size :: "nat \<Rightarrow> 'p share \<Rightarrow> 'p share" where
  "set_firmware_size n sh = sh\<lparr>m_n_size_fw := n\<rparr>"

text \<open>\<open>m_rom_header.Item[n_fw_index]\<close> is not checked when a list is given.\<close>

definition header_item :: "'p share \<Rightarrow> int \<Rightarrow> rom_item option" where
  "header_item sh n =
     (if n < 0 \<or> n \<ge> int MAX_ROMFILE_HEAD_ITEAM then None else Some (Item (m_rom_header sh) ! nat n))"

definition set_firmware_list_of_rom_file ::
  "int \<Rightarrow> (nat \<times> rom_item) list \<Rightarrow> 'p share \<Rightarrow> 'p share option" where
  "set_firmware_list_of_rom_file n_fw_index v_s_fw sh =
     (let sh1 = sh\<lparr>m_n_selected_fw_in_firmware_list := n_fw_index\<rparr>
      in if v_s_fw \<noteq> [] then
           (let sh2 = sh1\<lparr>m_v_firmware_list := v_s_fw\<rparr>
            in map_option (\<lambda>it. set_firmware_size (unat (dwItemSize it)) sh2) (header_item sh2 n_fw_index))
         else if n_fw_index \<ge> 0 \<and> n_fw_index < int (length (m_v_firmware_list sh1)) then
           map_option (\<lambda>it. set_firmware_size (unat (dwItemSize it)) sh1) (header_item sh1 n_fw_index)
         else Some sh1)"

definition is_select_fw_updatable :: "'p share \<Rightarrow> bool" where
  "is_select_fw_updatable sh =
     (m_n_index_updatable_fw_in_firmware_list sh > 0
      \<and> m_n_selected_fw_in_firmware_list sh = m_n_index_updatable_fw_in_firmware_list sh)"

definition get_app_area_zero_based_start_sector_from_sector_number :: "int \<Rightarrow> 'p share \<Rightarrow> int" where
  "get_app_area_zero_based_start_sector_from_sector_number n_sector_number sh =
     (if n_sector_number < 0 then - 1
      else if m_v_write_sec_index sh = [] then - 1
      else n_sector_number - last (m_v_write_sec_index sh))"

section \<open>Choosing the firmware\<close>

text \<open>\<open>CHidBootManager::is_rom_file_format_ok\<close>: \<open>b_rom\<close> says that the ROM library is loaded.\<close>

definition is_rom_file_format_ok :: "'p files \<Rightarrow> bool \<Rightarrow> 'p option \<Rightarrow> bool" where
  "is_rom_file_format_ok fs b_rom s_rom_file =
     (if \<not> b_rom then False
      else case s_rom_file of
        None \<Rightarrow> False
      | Some f \<Rightarrow>
          (case content fs f of
             None \<Rightarrow> False
           | Some d \<Rightarrow>
               if length d < sizeof_rom_head then False
               else if length d > unat MAX_SIZE_APP + sizeof_rom_head then False
               else
                 let header = dec_rom_head d
                 in if unat (dwHeaderSize header) \<noteq> sizeof_rom_head then False
                    else if dwItem header = 0 \<or> unat (dwItem header) > MAX_ROMFILE_HEAD_ITEAM then False
                    else length d = sizeof_rom_head
                           + sum_list (map (unat \<circ> dwItemSize) (take (unat (dwItem header)) (Item header)))))"

text \<open>
  \<open>update_fw_list_of_selected_rom\<close>. The entries of the list are the index and the item, from which the
  source builds a line of text. \<open>None\<close> is a read beyond the model name.
\<close>

definition update_fw_list_of_selected_rom ::
  "'p files \<Rightarrow> ('p \<Rightarrow> bool) \<Rightarrow> bool \<Rightarrow> 'p crom \<Rightarrow> 'p share
     \<Rightarrow> ((int \<times> int) \<times> 'p crom \<times> 'p share) option" where
  "update_fw_list_of_selected_rom fs is_rom_extension b_rom c sh =
     (let finish = (\<lambda>n_total_fw n_updatable_fw_index c sh.
            let sh1 = sh\<lparr>m_n_index_updatable_fw_in_firmware_list := n_updatable_fw_index\<rparr>
            in if n_updatable_fw_index \<ge> 0 then
                 map_option (\<lambda>it. ((n_total_fw, n_updatable_fw_index), c,
                     set_firmware_size (unat (dwItemSize it))
                       (sh1\<lparr>m_n_selected_fw_in_firmware_list := n_updatable_fw_index\<rparr>)))
                   (header_item sh1 n_updatable_fw_index)
               else Some ((n_total_fw, n_updatable_fw_index), c, sh1))
      in if \<not> b_rom then finish 0 (- 1) c sh
         else case m_s_rom_file_abs_full_path sh of
           None \<Rightarrow> finish 0 (- 1) c sh
         | Some p \<Rightarrow>
             if \<not> is_rom_extension p then finish 0 (- 1) c sh
             else if \<not> is_rom_file_format_ok fs b_rom (Some p) then finish 0 (- 1) c sh
             else
               (case LoadHeader fs p c of
                  (result, None, c1) \<Rightarrow> finish 0 (- 1) c1 (sh\<lparr>m_rom_header := zero_head\<rparr>)
                | (result, Some h, c1) \<Rightarrow>
                    let items = take (unat (dwItem h)) (Item h);
                        sh1 = sh\<lparr>m_rom_header := h,
                                 m_v_firmware_list := zip [0..<length items] items\<rparr>;
                        n_total_fw = int (unat (dwItem h));
                        v_name = m_v_name (m_target_protocol_lpu237 sh);
                        version = m_version (m_target_protocol_lpu237 sh)
                    in if m_v_firmware_list sh1 = [] then finish n_total_fw (- 1) c1 sh1
                       else if v_name = [] then finish n_total_fw (- 1) c1 sh1
                       else
                         (case tg_rom_get_updatable_item_index (Some (m_Header c1)) (Some v_name)
                                 (get_major version) (get_minor version) (get_fix version)
                                 (get_build version) of
                            None \<Rightarrow> None
                          | Some n \<Rightarrow> finish n_total_fw n c1 sh1)))"

section \<open>Reading the firmware sector by sector\<close>

datatype fw_error =
  fw_no_error | fw_rom_library_is_null | fw_path_is_empty | fw_write_list_is_empty
| fw_all_read_done | fw_open_failed | fw_read_failed

text \<open>The number of bytes to read: only the sector before the last entry of the list can be short.\<close>

definition fw_dw_read :: "'p share \<Rightarrow> nat \<Rightarrow> u32" where
  "fw_dw_read sh i =
     (let cnt = length (m_v_write_sec_index sh)
      in if cnt > 1 then
           (if i = cnt - 2
            then of_int (int (m_n_size_fw sh) - int ((cnt - 1) * C_SECTOR_SIZE))
            else of_nat C_SECTOR_SIZE)
         else of_nat (m_n_size_fw sh))"

text \<open>The sector number relative to the application area; the list for raw files may be too short.\<close>

definition fw_n_write_sector :: "'p share \<Rightarrow> nat \<Rightarrow> int option" where
  "fw_n_write_sector sh i =
     (if m_n_selected_fw_in_firmware_list sh < 0 then
        (if i < length (m_v_write_sec_index_for_bin_file sh)
         then Some (m_v_write_sec_index_for_bin_file sh ! i) else None)
      else Some (m_v_write_sec_index sh ! i - last (m_v_write_sec_index sh)))"

text \<open>
  The bytes that the file or the ROM item delivers, \<open>Inl\<close> when the raw file cannot be opened. \<open>None\<close>:
  an item outside the header.
\<close>

definition fw_read ::
  "'p files \<Rightarrow> 'p crom \<Rightarrow> 'p share \<Rightarrow> 'p \<Rightarrow> u32 \<Rightarrow> u32 \<Rightarrow> (fw_error + bytes) option" where
  "fw_read fs c sh f dw_read dw_offset =
     (if m_n_selected_fw_in_firmware_list sh < 0 then
        (case content fs f of
           None \<Rightarrow> Some (Inl fw_open_failed)
         | Some d \<Rightarrow> Some (Inr (subrange d (unat dw_offset) (unat dw_read))))
      else
        (case header_item sh (m_n_selected_fw_in_firmware_list sh) of
           None \<Rightarrow> None
         | Some it \<Rightarrow>
             Some (Inr (tg_rom_readBinary_of_item fs dw_read dw_offset (Some it) (m_sRomFileName c)))))"

text \<open>
  \<open>get_one_sector_fw_data\<close>: the results are \<open>b_result\<close>, \<open>b_complete\<close> and the error, then the two
  reference parameters (the sector and its number), then the statics. More bytes than a sector holds
  are written behind the end of the buffer: \<open>None\<close>.
\<close>

type_synonym fw_out = "bytes \<times> int"

definition get_one_sector_fw_data ::
  "'p files \<Rightarrow> bool \<Rightarrow> 'p crom \<Rightarrow> 'p share \<Rightarrow> bool \<Rightarrow> fw_out \<Rightarrow> fw_cursor
     \<Rightarrow> ((bool \<times> bool \<times> fw_error) \<times> fw_out \<times> fw_cursor) option" where
  "get_one_sector_fw_data fs b_rom c sh b_first_read out cur =
     (case m_s_rom_file_abs_full_path sh of
        None \<Rightarrow> Some ((False, True, if b_rom then fw_path_is_empty else fw_rom_library_is_null), out, cur)
      | Some f \<Rightarrow>
          if \<not> b_rom then Some ((False, True, fw_rom_library_is_null), out, cur)
          else if m_v_write_sec_index sh = [] then
            Some ((False, True, fw_write_list_is_empty), out, cur)
          else
            let cur1 = (if b_first_read then fw_cursor_ini else cur);
                i = n_write_sector_index cur1
            in if i \<ge> length (m_v_write_sec_index sh) then
                 Some ((False, True, fw_all_read_done), out, cur1)
               else do {
                 n_write_sector \<leftarrow> fw_n_write_sector sh i;
                 let out1 = (replicate C_SECTOR_SIZE 0xFF, m_v_write_sec_index sh ! i);
                 let dw_offset = (if dw_last_readdone cur1 < C_SECTOR_SIZE then 0
                                  else of_int (n_write_sector * int C_SECTOR_SIZE));
                 let cur2 = cur1\<lparr>fw_dw_offset := dw_offset\<rparr>;
                 r \<leftarrow> fw_read fs c sh f (fw_dw_read sh i) dw_offset;
                 case r of
                   Inl e \<Rightarrow> Some ((False, True, e), out1, cur2)
                 | Inr d \<Rightarrow>
                     if length d > C_SECTOR_SIZE then None
                     else if d = [] then
                       Some ((False, True, fw_read_failed), out1, cur2\<lparr>dw_last_readdone := 0\<rparr>)
                     else
                       Some ((True, \<not> Suc i < length (m_v_write_sec_index sh), fw_no_error),
                             (overlay (fst out1) 0 d, snd out1),
                             cur2\<lparr>dw_last_readdone := length d, n_write_sector_index := Suc i\<rparr>)
               })"

section \<open>The reader delivers the firmware\<close>

text \<open>Sector \<open>k\<close> of a firmware: its bytes, filled up with \<open>0xFF\<close>.\<close>

definition fw_sector :: "bytes \<Rightarrow> nat \<Rightarrow> bytes" where
  "fw_sector fw k =
     (let d = subrange fw (k * C_SECTOR_SIZE) C_SECTOR_SIZE
      in d @ replicate (C_SECTOR_SIZE - length d) 0xFF)"

definition fw_sectors :: "bytes \<Rightarrow> nat" where
  "fw_sectors fw = (length fw + C_SECTOR_SIZE - 1) div C_SECTOR_SIZE"

text \<open>The share is set up to write the firmware \<open>fw\<close> from sector \<open>start\<close> on.\<close>

definition fw_selected :: "'p files \<Rightarrow> 'p crom \<Rightarrow> 'p share \<Rightarrow> int \<Rightarrow> bytes \<Rightarrow> bool" where
  "fw_selected fs c sh start fw =
     (fw \<noteq> [] \<and> length fw < 2 ^ 31 \<and> m_n_size_fw sh = length fw
      \<and> m_v_write_sec_index sh = write_order start (fw_sectors fw)
      \<and> (\<exists>f. m_s_rom_file_abs_full_path sh = Some f
          \<and> (if m_n_selected_fw_in_firmware_list sh < 0
             then content fs f = Some fw
                  \<and> m_v_write_sec_index_for_bin_file sh = write_order 0 (fw_sectors fw)
             else \<exists>it g d. header_item sh (m_n_selected_fw_in_firmware_list sh) = Some it
                  \<and> m_sRomFileName c = Some g \<and> content fs g = Some d
                  \<and> unat (dwItemSize it) = length fw
                  \<and> subrange d (unat (dwItemOffset it)) (length fw) = fw)))"

lemma fw_sectors_bounds:
  assumes "fw \<noteq> []"
  shows "0 < fw_sectors fw" "(fw_sectors fw - 1) * 4096 < length fw" "length fw \<le> fw_sectors fw * 4096"
proof -
  define q where "q = (length fw + 4095) div 4096"
  have "q * 4096 + (length fw + 4095) mod 4096 = length fw + 4095"
    unfolding q_def by (rule div_mult_mod_eq)
  moreover have "(length fw + 4095) mod 4096 < 4096" by simp
  moreover have "0 < length fw" using assms by simp
  ultimately have "0 < q" "q * 4096 < length fw + 4096" "length fw \<le> q * 4096" by linarith+
  moreover have "fw_sectors fw = q" by (simp add: fw_sectors_def C_SECTOR_SIZE_def q_def)
  ultimately show "0 < fw_sectors fw" "(fw_sectors fw - 1) * 4096 < length fw"
    "length fw \<le> fw_sectors fw * 4096"
    by (simp_all add: diff_mult_distrib)
qed

lemma length_fw_sector [simp]: "length (fw_sector fw k) = C_SECTOR_SIZE"
  by (simp add: fw_sector_def Let_def subrange_def C_SECTOR_SIZE_def)

lemma fw_sector_overlay:
  "overlay (replicate C_SECTOR_SIZE 0xFF) 0 (subrange fw (k * C_SECTOR_SIZE) C_SECTOR_SIZE) = fw_sector fw k"
  by (simp add: overlay_def fw_sector_def Let_def)

text \<open>Equal pieces of a list, put together.\<close>

lemma concat_subranges: "concat (map (\<lambda>k. subrange xs (k * w) w) [0..<m]) = take (m * w) xs"
  by (induction m) (simp_all add: subrange_def take_add add.commute [of w])

text \<open>The sectors put together are the firmware and its filling.\<close>

lemma concat_fw_sectors:
  assumes "length fw \<le> n * C_SECTOR_SIZE"
  shows "concat (map (fw_sector fw) [0..<n]) = fw @ replicate (n * C_SECTOR_SIZE - length fw) 0xFF"
proof -
  let ?p = "fw @ replicate (n * C_SECTOR_SIZE - length fw) 0xFF"
  have sector: "fw_sector fw k = subrange ?p (k * C_SECTOR_SIZE) C_SECTOR_SIZE" if "k < n" for k
  proof -
    have "Suc k * C_SECTOR_SIZE \<le> n * C_SECTOR_SIZE" using that by (intro mult_le_mono1) simp
    then show ?thesis
      using assms by (auto simp: fw_sector_def Let_def subrange_def min_def intro!: nth_equalityI
          simp: nth_append)
  qed
  have "map (fw_sector fw) [0..<n] = map (\<lambda>k. subrange ?p (k * C_SECTOR_SIZE) C_SECTOR_SIZE) [0..<n]"
    using sector by simp
  also have "concat \<dots> = take (n * C_SECTOR_SIZE) ?p" by (rule concat_subranges)
  finally show ?thesis using assms by simp
qed

lemma subrange_subrange:
  "off + n \<le> l \<Longrightarrow> subrange (subrange d b l) off n = subrange d (b + off) n"
  by (simp add: subrange_def drop_take min_def add.commute)

text \<open>The sector that entry \<open>i\<close> of the write list stands for.\<close>

definition sector_at :: "nat \<Rightarrow> nat \<Rightarrow> nat" where
  "sector_at n i = (if i < n - 1 then Suc i else 0)"

lemma write_order_sector_at: "i < n \<Longrightarrow> write_order start n ! i = start + int (sector_at n i)"
  by (simp add: write_order_nth sector_at_def)

lemma fw_dw_read_fits:
  assumes "fw_selected fs c sh start fw" "i < fw_sectors fw"
  defines "k \<equiv> sector_at (fw_sectors fw) i" and "n \<equiv> unat (fw_dw_read sh i)"
  shows "k * 4096 + n \<le> length fw" "0 < n" "n \<le> 4096"
    "subrange fw (k * 4096) n = subrange fw (k * 4096) 4096"
    "n < 4096 \<Longrightarrow> i + 2 = fw_sectors fw \<or> fw_sectors fw = 1"
proof -
  have fw: "fw \<noteq> []" "length fw < 2 ^ 31" "m_n_size_fw sh = length fw"
    and len: "length (m_v_write_sec_index sh) = fw_sectors fw"
    using assms(1) fw_sectors_bounds(1) by (auto simp: fw_selected_def length_write_order)
  note b = fw_sectors_bounds [OF fw(1)]
  let ?m = "fw_sectors fw"
  consider "?m = 1" | "1 < ?m" "i + 2 = ?m" | "1 < ?m" "i + 2 \<noteq> ?m" using b(1) by linarith
  then have "k * 4096 + n \<le> length fw \<and> 0 < n \<and> n \<le> 4096
      \<and> (n = 4096 \<or> k * 4096 + n = length fw)
      \<and> (n < 4096 \<longrightarrow> i + 2 = ?m \<or> ?m = 1)"
  proof cases
    case 1
    then have "n = length fw" "k = 0"
      using fw(2,3) len assms(2)
      by (simp_all add: n_def k_def fw_dw_read_def sector_at_def unat_of_nat_u32)
    then show ?thesis using 1 b by simp
  next
    case 2
    then have i: "i = ?m - 2" by simp
    have "int (length fw) - int ((?m - 1) * 4096) = int (length fw - (?m - 1) * 4096)"
      using b(2) by simp
    then have "fw_dw_read sh i = of_nat (length fw - (?m - 1) * 4096)"
      using 2 fw(3) len i by (simp add: fw_dw_read_def C_SECTOR_SIZE_def del: of_nat_diff of_nat_mult)
    then have "n = length fw - (?m - 1) * 4096"
      unfolding n_def using fw(2) unat_of_nat_u32 [of "length fw - (?m - 1) * 4096"] by simp
    moreover have "k = ?m - 1" unfolding k_def sector_at_def using 2 by arith
    moreover have "?m * 4096 = (?m - 1) * 4096 + 4096" using 2(1) by (simp add: diff_mult_distrib)
    ultimately show ?thesis using b 2 by simp
  next
    case 3
    then have "i \<noteq> ?m - 2" by arith
    then have "n = 4096"
      using len 3(1) by (simp add: n_def fw_dw_read_def C_SECTOR_SIZE_def Let_def)
    moreover have "k + 1 \<le> ?m - 1" using 3 assms(2) by (auto simp: k_def sector_at_def)
    then have "(k + 1) * 4096 \<le> (?m - 1) * 4096" by (rule mult_le_mono1)
    ultimately show ?thesis using b(2) by simp
  qed
  then show "k * 4096 + n \<le> length fw" "0 < n" "n \<le> 4096"
    "subrange fw (k * 4096) n = subrange fw (k * 4096) 4096"
    "n < 4096 \<Longrightarrow> i + 2 = ?m \<or> ?m = 1"
    by (auto simp: subrange_def)
qed

text \<open>One call of the reader, raw file or ROM item alike.\<close>

lemma fw_read_selected:
  assumes "fw_selected fs c sh start fw" "m_s_rom_file_abs_full_path sh = Some f"
    and "unat off + unat n \<le> length fw" "0 < unat n"
  shows "fw_read fs c sh f n off = Some (Inr (subrange fw (unat off) (unat n)))"
proof (cases "m_n_selected_fw_in_firmware_list sh < 0")
  case True
  then have "content fs f = Some fw" using assms(1,2) by (simp add: fw_selected_def)
  then show ?thesis using True by (simp add: fw_read_def)
next
  case False
  obtain it g d where it: "header_item sh (m_n_selected_fw_in_firmware_list sh) = Some it"
    and g: "m_sRomFileName c = Some g" "content fs g = Some d"
    and d: "subrange d (unat (dwItemOffset it)) (length fw) = fw"
    using assms(1,2) False by (auto simp: fw_selected_def)
  have "subrange d (unat (dwItemOffset it) + unat off) (unat n) = subrange fw (unat off) (unat n)"
    using subrange_subrange [OF assms(3), of d "unat (dwItemOffset it)"] d by simp
  moreover have "n \<noteq> 0" using assms(4) by auto
  ultimately show ?thesis
    using False it g by (simp add: fw_read_def tg_rom_readBinary_of_item_def)
qed

lemma fw_n_write_sector_selected:
  assumes "fw_selected fs c sh start fw" "i < fw_sectors fw"
  shows "fw_n_write_sector sh i = Some (int (sector_at (fw_sectors fw) i))"
  using assms
  by (auto simp: fw_selected_def fw_n_write_sector_def length_write_order write_order_sector_at
      last_write_order split: if_splits)

lemma get_one_sector_step:
  assumes sel: "fw_selected fs c sh start fw" and i: "n_write_sector_index cur = i" "i < fw_sectors fw"
    and short: "dw_last_readdone cur < 4096 \<longrightarrow> Suc i = fw_sectors fw"
  defines "k \<equiv> sector_at (fw_sectors fw) i"
  shows "\<exists>cur'. get_one_sector_fw_data fs True c sh False out cur =
       Some ((True, \<not> Suc i < fw_sectors fw, fw_no_error), (fw_sector fw k, start + int k), cur')
     \<and> n_write_sector_index cur' = Suc i
     \<and> (dw_last_readdone cur' < 4096 \<longrightarrow> Suc (Suc i) = fw_sectors fw \<or> fw_sectors fw = 1)"
proof -
  let ?m = "fw_sectors fw" and ?n = "fw_dw_read sh i"
  obtain f where f: "m_s_rom_file_abs_full_path sh = Some f"
    using sel by (auto simp: fw_selected_def)
  have w: "m_v_write_sec_index sh = write_order start ?m" and fw: "fw \<noteq> []" "length fw < 2 ^ 31"
    using sel by (simp_all add: fw_selected_def)
  have len: "length (write_order start ?m) = ?m" "write_order start ?m \<noteq> []"
    using fw_sectors_bounds(1) [OF fw(1)] by (simp_all add: length_write_order write_order_def)
  note fits = fw_dw_read_fits [OF sel i(2), folded k_def]
  define off :: u32 where
    "off = (if dw_last_readdone cur < C_SECTOR_SIZE then 0 else of_int (int k * int C_SECTOR_SIZE))"
  have "dw_last_readdone cur < 4096 \<Longrightarrow> k = 0" using short by (auto simp: k_def sector_at_def)
  moreover have "unat (of_nat (k * 4096) :: u32) = k * 4096"
    by (rule unat_of_nat_u32) (use fits(1) fw(2) in simp)
  ultimately have off: "unat off = k * 4096"
    by (auto simp: off_def C_SECTOR_SIZE_def)
  let ?d = "subrange fw (k * 4096) (unat ?n)"
  have r: "fw_read fs c sh f ?n off = Some (Inr ?d)"
    using fw_read_selected [OF sel f, of off ?n] fits off by simp
  have d: "length ?d = unat ?n" using fits(1) by (simp add: length_subrange)
  have nw: "fw_n_write_sector sh i = Some (int k)"
    using fw_n_write_sector_selected [OF sel i(2)] by (simp add: k_def)
  have sector: "overlay (replicate C_SECTOR_SIZE 0xFF) 0 ?d = fw_sector fw k"
    using fits(4) fw_sector_overlay [of fw k] by (simp add: C_SECTOR_SIZE_def)
  have offk: "(if dw_last_readdone cur < C_SECTOR_SIZE then 0
      else of_int (int k * int C_SECTOR_SIZE)) = off"
    by (simp only: off_def)
  have entry: "m_v_write_sec_index sh ! i = start + int k" "m_v_write_sec_index sh \<noteq> []"
    "length (m_v_write_sec_index sh) = ?m"
    using w len write_order_sector_at [OF i(2)] by (simp_all add: k_def)
  have le: "\<not> C_SECTOR_SIZE < unat ?n" using fits(3) by (simp add: C_SECTOR_SIZE_def)
  have "?d \<noteq> []" using d fits(2) by auto
  then have "get_one_sector_fw_data fs True c sh False out cur =
     Some ((True, \<not> Suc i < ?m, fw_no_error), (fw_sector fw k, start + int k),
       cur\<lparr>fw_dw_offset := off, dw_last_readdone := unat ?n, n_write_sector_index := Suc i\<rparr>)"
    using i(2) by (simp add: get_one_sector_fw_data_def i(1) f nw entry Let_def offk r d le sector
        del: of_int_mult)
  then show ?thesis
    using fits(5) by (intro exI [of _ "cur\<lparr>fw_dw_offset := off, dw_last_readdone := unat ?n,
          n_write_sector_index := Suc i\<rparr>"]) auto
qed

section \<open>The number of steps\<close>

text \<open>
  \<open>calculate_update_step\<close> counts the requests of a backup and of a full restore by generating them;
  the change set of the protocol object is what \<open>generate_set_parameters\<close> leaves.
\<close>

definition calculate_update_step :: "int \<Rightarrow> 'p share \<Rightarrow> (int \<times> 'p share) option" where
  "calculate_update_step n_erase sh =
     (if \<not> m_b_start_from_bootloader sh \<and> \<not> m_b_ptr_dev sh then Some (0, sh)
      else do {
        (n_step, sh1) \<leftarrow>
          (if \<not> m_b_start_from_bootloader sh then do {
             (_, p1) \<leftarrow> generate_get_parameters (clear_transaction (m_target_protocol_lpu237 sh));
             let n1 = get_generated_the_number_of_tx p1;
             (_, p2) \<leftarrow> generate_set_parameters (set_all_parameter_to_changed (clear_transaction p1));
             let n2 = get_generated_the_number_of_tx p2;
             Some (n1 + n2 + 3, sh\<lparr>m_target_protocol_lpu237 := clear_transaction p2\<rparr>)
           } else Some (0, sh));
        let n_sector_w = m_n_size_fw sh div C_SECTOR_SIZE
              + (if m_n_size_fw sh mod C_SECTOR_SIZE \<noteq> 0 then 1 else 0);
        Some (int n_step + int n_sector_w
                + (if n_erase < 0 then int n_sector_w + 1 else n_erase) + int n_sector_w + 3
                + (if m_b_enable_iso_mode_after_update sh then 1 else 0)
                + (if m_lpu23x_interface_after_update sh \<noteq> interface_nc then 1 else 0),
              sh1)
      })"

text \<open>The first firmware of a file is never offered as the updatable one: the index is compared with 0.\<close>

lemma first_firmware_not_updatable:
  "m_n_index_updatable_fw_in_firmware_list sh = 0 \<Longrightarrow> \<not> is_select_fw_updatable sh"
  by (simp add: is_select_fw_updatable_def)

text \<open>Setting the write list twice leaves the first list in front of the second one.\<close>

lemma raw_list_accumulates:
  assumes "v \<noteq> []" "w \<noteq> []" "m_v_write_sec_index_for_bin_file sh = []"
  shows "m_v_write_sec_index_for_bin_file (set_write_sec_index w (set_write_sec_index v sh)) =
     map (\<lambda>n. n - last v) v @ map (\<lambda>n. n - last w) w"
  using assms by (simp add: set_write_sec_index_def)

section \<open>Files that were built by the library\<close>

text \<open>A file that holds nothing but its header and its items, one behind the other.\<close>

definition packed_rom :: "bytes \<Rightarrow> bool" where
  "packed_rom rom =
     (rom_ok rom \<and> unat (dwHeaderSize (dec_rom_head rom)) = 8015
      \<and> length rom = 8015 + sum_list (map (unat \<circ> dwItemSize)
           (take (unat (dwItem (dec_rom_head rom))) (Item (dec_rom_head rom)))))"

lemma sum_list_take_update:
  fixes f :: "'x \<Rightarrow> nat"
  assumes "k < length xs"
  shows "sum_list (map f (take (k + 1) (xs[k := x]))) = sum_list (map f (take k xs)) + f x"
  using assms by (simp add: take_Suc_conv_app_nth)

lemma add_item_packed:
  assumes "packed_rom rom" "unat (dwItem (dec_rom_head rom)) < 45" "length rom + length bin < 2 ^ 32"
    and "wf_rom_item it" "dwItemSize it = of_nat (length bin)" "dwItemOffset it = of_nat (length rom)"
  shows "packed_rom (overlay (rom @ bin) 0 (enc_rom_head (head_with (dec_rom_head rom) it)))"
proof -
  let ?h = "dec_rom_head rom" and ?rom' = "overlay (rom @ bin) 0 (enc_rom_head (head_with (dec_rom_head rom) it))"
  have ok: "rom_ok rom" using assms(1) by (simp only: packed_rom_def)
  then have len: "8015 \<le> length rom" "length bin < 2 ^ 32"
    using assms(3) by (simp_all only: rom_ok_def)
  note keeps = add_item_keeps_rom_ok [OF ok assms(2-6)]
  have wf0: "wf_rom_head ?h" by (rule wf_dec_rom_head [OF len(1)])
  then have items: "length (Item ?h) = 45" by (simp add: wf_rom_head_def)
  have wf: "wf_rom_head (head_with ?h it)" by (rule wf_head_with [OF wf0 assms(4)])
  have "length ?rom' = length rom + length bin"
    using len by (simp add: length_overlay rom_head_code.enc_length [OF wf])
  moreover have "unat (dwItemSize it) = length bin" using assms(5) len(2) by (simp add: unat_of_length)
  moreover have "sum_list (map (unat \<circ> dwItemSize)
      (take (unat (dwItem ?h) + 1) (Item (head_with ?h it)))) =
      sum_list (map (unat \<circ> dwItemSize) (take (unat (dwItem ?h)) (Item ?h))) + (unat \<circ> dwItemSize) it"
    unfolding head_with_def using sum_list_take_update [of "unat (dwItem ?h)" "Item ?h"] assms(2) items
    by simp
  ultimately show ?thesis
    using assms(1) keeps(1-3)
    by (simp add: packed_rom_def) (simp add: head_with_def)
qed

lemma packed_rom_format_ok:
  assumes "content fs f = Some rom" "packed_rom rom" "0 < unat (dwItem (dec_rom_head rom))"
    and "length rom \<le> 95443539 + 8015"
  shows "is_rom_file_format_ok fs True (Some f)"
proof -
  have "dwItem (dec_rom_head rom) \<noteq> 0" using assms(3) by auto
  then show ?thesis
    using assms
    by (simp add: is_rom_file_format_ok_def sizeof_rom packed_rom_def rom_ok_def Let_def
        MAX_SIZE_APP_def MAX_ROMFILE_HEAD_ITEAM_def)
qed

text \<open>The files that the ROM library builds are the files that the updater accepts: adding a binary
  to a file of header and items leaves such a file, and the format check of the updater accepts it
  as long as the whole file stays within the size of one largest application and the header.\<close>

theorem built_rom_file_is_accepted:
  assumes "content fs rf = Some rom" "packed_rom rom" "unat (dwItem (dec_rom_head rom)) < 45"
    and "content fs bf = Some bin" "length rom + length bin \<le> 95443539 + 8015"
    and "writable fs rf" "c_strlen m = Some n" "n \<le> 30" "\<And>h. length (sc h) = 32"
  shows "\<exists>fs' rom'. tg_rom_add_item si sp sc fs (Some rf) (Some bf) v0 v1 v2 v3 (Some m) cond
        = Some (result_success, fs') \<and> content fs' rf = Some rom' \<and> packed_rom rom'
     \<and> is_rom_file_format_ok fs' True (Some rf)"
proof -
  define it where "it = new_item rom bin [v0, v1, v2, v3] (take n m)
     (sc (snd (copy_loop sp bin True si []))) cond"
  let ?h = "head_with (dec_rom_head rom) it"
  let ?rom' = "overlay (rom @ bin) 0 (enc_rom_head ?h)"
  have ok: "rom_ok rom" using assms(2) by (simp only: packed_rom_def)
  then have len: "8015 \<le> length rom" by (simp only: rom_ok_def)
  have wf: "wf_rom_item it"
    unfolding it_def by (rule wf_new_item) (use assms(8,9) in simp_all)
  have it: "dwItemSize it = of_nat (length bin)" "dwItemOffset it = of_nat (length rom)"
    by (simp_all add: it_def new_item_def)
  have total: "length rom + length bin < 2 ^ 32" "length bin \<le> 95443539" using assms(5) len by simp_all
  have packed: "packed_rom ?rom'" by (rule add_item_packed [OF assms(2,3) total(1) wf it])
  have items: "0 < unat (dwItem (dec_rom_head ?rom'))"
    using add_item_keeps_rom_ok(2,3) [OF ok assms(3) total(1) wf it] by simp
  have "wf_rom_head ?h" by (rule wf_head_with [OF wf_dec_rom_head [OF len] wf])
  then have "length ?rom' \<le> 95443539 + 8015"
    using len assms(5) by (simp add: length_overlay rom_head_code.enc_length)
  then have "is_rom_file_format_ok (fs\<lparr>content := (content fs)(rf \<mapsto> ?rom')\<rparr>) True (Some rf)"
    by (intro packed_rom_format_ok [OF _ packed items]) simp_all
  then show ?thesis
    using add_item_run [OF assms(1) ok assms(3,4) total(2) assms(6-8), of si sp sc v0 v1 v2 v3 cond,
        folded it_def] packed
    by simp
qed

lemma packed_new_rom: "packed_rom (enc_rom_head new_rom_head)"
proof -
  have "dwHeaderSize new_rom_head = 8015"
    by (simp add: new_rom_head_def sizeof_rom)
  then show ?thesis
    using rom_ok_new rom_head_code.enc_length [OF wf_new_rom_head]
    by (simp add: packed_rom_def)
qed

theorem built_rom_file_is_accepted_witness:
  "\<exists>fs' rom'. tg_rom_add_item [] (@) (\<lambda>h. take 32 (h @ replicate 32 0)) example_files (Some 0) (Some 1)
        1 2 3 4 (Some [0x65, 0]) 5 = Some (result_success, fs') \<and> content fs' 0 = Some rom'
     \<and> packed_rom rom' \<and> is_rom_file_format_ok fs' True (Some 0)"
  by (rule built_rom_file_is_accepted [where n = 1])
    (use rom_ok_new packed_new_rom rom_head_code.enc_length [OF wf_new_rom_head]
     in \<open>auto simp: example_files_def min_def\<close>)

end
