(* ===== verification/HidBootManager.thy ===== *)
theory HidBootManager
  imports UpdateShare
begin

text \<open>
  The HID boot loader protocol of the updater, \<open>CHidBootManager\<close>
  (\<open>src/shared/projects/lpu230_update/HidBootManager.cpp\<close>): packet exchange, erasing a sector, writing
  a sector in 76 packets, asking for the sector layout, selecting a device (which computes the erase
  and write lists) and starting the application. The transfers themselves are the parameter \<open>hid_io\<close>.
  The waiting for an answer that is not all zero has no bound in the source; it is a
  \<open>partial_function\<close>, whose \<open>None\<close> is a loop that does not end.
\<close>

section \<open>Packet exchange\<close>

record boot_manager =
  m_b_dev_open :: bool
  m_b_exist_sec_info :: bool
  m_listDev_size :: nat

text \<open>\<open>_DDL_write\<close> and \<open>_DDL_TxRx\<close> return the number of bytes, which the callers use as a truth value.
  The receive buffer has 64 bytes; what arrives is copied over its beginning.\<close>

definition DDL_write :: "'d hid_io \<Rightarrow> boot_manager \<Rightarrow> bytes \<Rightarrow> 'd \<Rightarrow> nat \<times> 'd" where
  "DDL_write io m lpData d =
     (if \<not> m_b_dev_open m then (0, d)
      else if lpData = [] then (0, d)
      else case io_write_sync io d lpData of
             (b, d') \<Rightarrow> if \<not> b then (0, d') else (length lpData, d'))"

definition DDL_read :: "'d hid_io \<Rightarrow> boot_manager \<Rightarrow> bytes \<Rightarrow> 'd \<Rightarrow> nat \<times> bytes \<times> 'd" where
  "DDL_read io m lpData d =
     (if \<not> m_b_dev_open m then (0, lpData, d)
      else case io_read_sync io d of
             (None, d') \<Rightarrow> (0, lpData, d')
           | (Some v_rx, d') \<Rightarrow> (length v_rx, overlay lpData 0 (take C_PACKET_SIZE v_rx), d'))"

definition DDL_TxRx :: "'d hid_io \<Rightarrow> boot_manager \<Rightarrow> bytes \<Rightarrow> bytes \<Rightarrow> 'd \<Rightarrow> nat \<times> bytes \<times> 'd" where
  "DDL_TxRx io m lpTxData lpRxData d =
     (if \<not> m_b_dev_open m then (0, lpRxData, d)
      else if lpTxData = [] then (0, lpRxData, d)
      else case io_write_read_sync io d lpTxData of
             (None, d') \<Rightarrow> (0, lpRxData, d')
           | (Some v_rx, d') \<Rightarrow> (length v_rx, overlay lpRxData 0 (take C_PACKET_SIZE v_rx), d'))"

definition is_zero_packet :: "bytes \<Rightarrow> bool" where
  "is_zero_packet vPacket = list_all (\<lambda>b. b = 0) vPacket"

text \<open>What went wrong, from which the source builds its message.\<close>

datatype boot_error =
  boot_ok | boot_rx_size nat | boot_rerx_size nat | boot_reply byte byte u16 | boot_write_read_io
| boot_write_io

definition reply_error :: "bytes \<Rightarrow> boot_error" where
  "reply_error v = boot_reply (replay_cReplay v) (replay_cResult v) (replay_wChain v)"

text \<open>
  \<open>while (_is_zero_packet(vReplay)) { nRx = _DDL_read(...); if (nRx != 64) { ...; break; } }\<close>: the
  result is \<open>None\<close> for the size of a short packet or the packet that ended the loop.
\<close>

partial_function (option) wait_reply ::
  "'d hid_io \<Rightarrow> boot_manager \<Rightarrow> bytes \<Rightarrow> 'd \<Rightarrow> (nat option \<times> bytes \<times> 'd) option" where
  "wait_reply io m vReplay d =
     (if is_zero_packet vReplay then
        (case DDL_read io m vReplay d of
           (nRx, vReplay', d') \<Rightarrow>
             if nRx \<noteq> C_PACKET_SIZE then Some (Some nRx, vReplay', d')
             else wait_reply io m vReplay' d')
      else Some (None, vReplay, d))"

section \<open>Erasing and writing\<close>

definition zero_packet :: bytes where "zero_packet = replicate C_PACKET_SIZE 0"

definition data_zero :: bytes where "data_zero = replicate C_DATA_SIZE_OF_ONE_PACKET 0"

definition do_erase_in_worker ::
  "'d hid_io \<Rightarrow> boot_manager \<Rightarrow> int \<Rightarrow> 'd \<Rightarrow> (bool \<times> boot_error \<times> 'd) option" where
  "do_erase_in_worker io m n_sec d =
     (if \<not> m_b_exist_sec_info m \<and> n_sec \<noteq> 1 then Some (True, boot_ok, d)
      else
        let vReq = enc_request \<lparr>cCmd = HIDB_REQ_CMD_ERASE, dwPara = of_int n_sec, wChain = 0, wLen = 0,
                                sData = data_zero\<rparr>
        in (case DDL_TxRx io m vReq zero_packet d of
              (n, vReplay, d1) \<Rightarrow>
                if n = 0 then Some (False, boot_write_read_io, d1)
                else do {
                  (r, vReplay1, d2) \<leftarrow> wait_reply io m vReplay d1;
                  case r of
                    Some nRx \<Rightarrow> Some (False, boot_rx_size nRx, d2)
                  | None \<Rightarrow>
                      if replay_cResult vReplay1 = HIDB_REP_RESULT_SUCCESS then Some (True, boot_ok, d2)
                      else
                        (case DDL_read io m vReplay1 d2 of
                           (nRx, vReplay2, d3) \<Rightarrow>
                             if nRx \<noteq> C_PACKET_SIZE then Some (False, boot_rerx_size nRx, d3)
                             else if replay_cResult vReplay2 = HIDB_REP_RESULT_SUCCESS
                             then Some (True, boot_ok, d3)
                             else Some (False, reply_error vReplay2, d3))
                }))"

text \<open>The number of packets for a sector, computed from the sizes.\<close>

definition n_loop :: nat where
  "n_loop = C_SECTOR_SIZE div C_DATA_SIZE_OF_ONE_PACKET
              + (if C_SECTOR_SIZE mod C_DATA_SIZE_OF_ONE_PACKET \<noteq> 0 then 1 else 0)"

definition write_packet :: "int \<Rightarrow> nat \<Rightarrow> bytes \<Rightarrow> bytes" where
  "write_packet n_sec w_chain v =
     enc_request \<lparr>cCmd = HIDB_REQ_CMD_WRITE, dwPara = of_int n_sec, wChain = of_nat w_chain,
                  wLen = of_nat C_SECTOR_SIZE,
                  sData = overlay (replicate C_DATA_SIZE_OF_ONE_PACKET 0xFF) 0 v\<rparr>"

text \<open>The last packet is sent with a read; its answer says whether the sector was written.\<close>

definition write_last ::
  "'d hid_io \<Rightarrow> boot_manager \<Rightarrow> bytes \<Rightarrow> 'd \<Rightarrow> (bool \<times> boot_error \<times> 'd) option" where
  "write_last io m vReq d =
     (case DDL_TxRx io m vReq zero_packet d of
        (n, vReplay, d1) \<Rightarrow>
          if n = 0 then Some (False, boot_write_read_io, d1)
          else do {
            (r, vReplay1, d2) \<leftarrow> wait_reply io m vReplay d1;
            case r of
              Some nRx \<Rightarrow> Some (False, boot_rx_size nRx, d2)
            | None \<Rightarrow>
                if replay_cResult vReplay1 \<noteq> HIDB_REP_RESULT_SUCCESS
                then Some (False, reply_error vReplay1, d2)
                else Some (True, boot_ok, d2)
          })"

text \<open>The loop over the chain numbers; a sector that is too short is read beyond its end (\<open>None\<close>).\<close>

function write_loop ::
  "'d hid_io \<Rightarrow> boot_manager \<Rightarrow> int \<Rightarrow> bytes \<Rightarrow> nat \<Rightarrow> nat \<Rightarrow> 'd \<Rightarrow> (bool \<times> boot_error \<times> 'd) option" where
  "write_loop io m n_sec v_sector w_chain n_off d =
     (if w_chain \<ge> n_loop then Some (True, boot_ok, d)
      else
        let n_copy = (if C_SECTOR_SIZE - n_off \<ge> C_DATA_SIZE_OF_ONE_PACKET
                      then C_DATA_SIZE_OF_ONE_PACKET else C_SECTOR_SIZE - n_off)
        in if n_off + n_copy > length v_sector then None
           else
             let vReq = write_packet n_sec w_chain (subrange v_sector n_off n_copy)
             in if w_chain = n_loop - 1 then write_last io m vReq d
                else
                  (case DDL_write io m vReq d of
                     (n, d') \<Rightarrow>
                       if n = 0 then Some (False, boot_write_io, d')
                       else write_loop io m n_sec v_sector (w_chain + 1) (n_off + n_copy) d'))"
  by pat_completeness auto
termination
  by (relation "measure (\<lambda>(io, m, n_sec, v, w_chain, n_off, d). n_loop - w_chain)") auto

declare write_loop.simps [simp del]

definition do_write_sector ::
  "'d hid_io \<Rightarrow> boot_manager \<Rightarrow> int \<Rightarrow> bytes \<Rightarrow> 'd \<Rightarrow> (bool \<times> boot_error \<times> 'd) option" where
  "do_write_sector io m n_sec v_sector d = write_loop io m n_sec v_sector 0 0 d"

section \<open>Selecting and leaving the device\<close>

text \<open>\<open>b_result\<close>, \<open>b_exist\<close>, the first sector of the application and the number of sectors.\<close>

definition get_sector_info_from_device ::
  "'d hid_io \<Rightarrow> boot_manager \<Rightarrow> 'd \<Rightarrow> ((bool \<times> bool \<times> u32 \<times> u32) \<times> 'd) option" where
  "get_sector_info_from_device io m d =
     (let vReq = enc_request \<lparr>cCmd = HIDB_REQ_CMD_GET_SECTOR_INFO, dwPara = 0, wChain = 0, wLen = 0,
                               sData = data_zero\<rparr>
      in (case DDL_TxRx io m vReq zero_packet d of
            (n, vReplay, d1) \<Rightarrow>
              if n = 0 then Some ((False, False, 0, 0), d1)
              else do {
                (r, vReplay1, d2) \<leftarrow> wait_reply io m vReplay d1;
                case r of
                  Some nRx \<Rightarrow> Some ((False, False, 0, 0), d2)
                | None \<Rightarrow>
                    if replay_cResult vReplay1 = HIDB_REP_RESULT_SUCCESS
                    then Some ((True, True, un_le32 (replay_sData vReplay1),
                                un_le32 (drop 4 (replay_sData vReplay1))), d2)
                    else Some ((True, False, 0, 0), d2)
              }))"

text \<open>The sectors of a firmware, \<open>uint32_t\<close>; \<open>vector<int>\<close> holds the numbers as signed.\<close>

definition n_need_fw_sec :: "nat \<Rightarrow> u32" where
  "n_need_fw_sec n_fw_size =
     of_nat (n_fw_size div C_SECTOR_SIZE) + (if n_fw_size mod C_SECTOR_SIZE \<noteq> 0 then 1 else 0)"

definition erase_list :: "u32 \<Rightarrow> u32 \<Rightarrow> u32 \<Rightarrow> int list" where
  "erase_list start area need =
     map (\<lambda>ui. sint (start + of_nat ui)) [0..<unat need] @ [sint (start + area - 1)]"

definition write_list :: "u32 \<Rightarrow> u32 \<Rightarrow> int list" where
  "write_list start need =
     map (\<lambda>ui. sint (start + of_nat ui + 1)) [0..<unat (need - 1)] @ [sint start]"

text \<open>
  \<open>SelectDevice\<close>. \<open>opened\<close> is what \<open>_DDL_open\<close> makes of the path. Two of the early ends come after
  \<open>b_result\<close> became true: a firmware of size 0 and one that is too large for the application area
  leave the lists empty and answer true.
\<close>

definition SelectDevice ::
  "'d hid_io \<Rightarrow> bool \<Rightarrow> nat \<Rightarrow> boot_manager \<Rightarrow> 'p share \<Rightarrow> 'd
     \<Rightarrow> (bool \<times> boot_manager \<times> 'p share \<times> 'd) option" where
  "SelectDevice io opened n_fw_size m sh d =
     (let finish = (\<lambda>b_result v_erase v_write m d.
            if b_result
            then Some (True, m, set_write_sec_index v_write (set_erase_sec_index v_erase sh), d)
            else Some (False, m, set_write_sec_index [] (set_erase_sec_index [] sh), d))
      in if m_listDev_size m = 0 then finish False [] [] m d
         else
           let m1 = m\<lparr>m_b_exist_sec_info := False, m_b_dev_open := opened\<rparr>
           in do {
             ((b_result, b_exist, start, area), d1) \<leftarrow> get_sector_info_from_device io m1 d;
             let m2 = m1\<lparr>m_b_exist_sec_info := b_exist\<rparr>;
             if \<not> b_result then finish False [] [] m2 d1
             else
               let need = n_need_fw_sec n_fw_size
               in if need = 0 then finish True [] [] m2 d1
                  else
                    let (start, area) = (if \<not> b_exist then (1, 7) else (start, area))
                    in if need > area - 1 then finish True [] [] m2 d1
                       else finish True (erase_list start area need) (write_list start need) m2 d1
           })"

definition UnselectDevice :: "boot_manager \<Rightarrow> bool \<times> boot_manager" where
  "UnselectDevice m = (True, m\<lparr>m_b_dev_open := False\<rparr>)"

definition GotoApp :: "'d hid_io \<Rightarrow> boot_manager \<Rightarrow> 'd \<Rightarrow> bool \<times> boot_manager \<times> 'd" where
  "GotoApp io m d =
     (if \<not> m_b_dev_open m then (False, m, d)
      else
        let sTx = enc_request \<lparr>cCmd = HIDB_REQ_CMD_RUN, dwPara = 0, wChain = 0, wLen = 0,
                               sData = data_zero\<rparr>
        in case DDL_write io m sTx d of
             (n, d') \<Rightarrow> if n \<noteq> 0 then (True, m\<lparr>m_b_dev_open := False\<rparr>, d') else (False, m, d'))"

section \<open>The packets of a sector\<close>

lemma n_loop_eq: "n_loop = C_NUM_PACKET_PER_SECTOR"
  by (simp add: n_loop_def hid_sizes)

lemma n_loop_76: "n_loop = 76"
  by (simp add: n_loop_eq hid_sizes)

text \<open>The 76 packets, each with its part of the sector, the last one filled up with \<open>0xFF\<close>.\<close>

definition sector_packet :: "int \<Rightarrow> bytes \<Rightarrow> nat \<Rightarrow> bytes" where
  "sector_packet n_sec v i = write_packet n_sec i (subrange v (i * 54) 54)"

definition sector_packets :: "int \<Rightarrow> bytes \<Rightarrow> bytes list" where
  "sector_packets n_sec v = map (sector_packet n_sec v) [0..<76]"

text \<open>A device that also keeps what was sent.\<close>

definition recording :: "'d hid_io \<Rightarrow> ('d \<times> bytes list) hid_io" where
  "recording io =
     \<lparr>io_write_sync = (\<lambda>(d, tr) tx. let (b, d') = io_write_sync io d tx in (b, d', tr @ [tx])),
      io_read_sync = (\<lambda>(d, tr). let (r, d') = io_read_sync io d in (r, d', tr)),
      io_write_read_sync = (\<lambda>(d, tr) tx. let (r, d') = io_write_read_sync io d tx in (r, d', tr @ [tx]))\<rparr>"

lemma write_packet_fields:
  assumes "length v \<le> 54"
  shows "length (write_packet n_sec i v) = 64"
    "packet_sector (write_packet n_sec i v) = of_int n_sec"
    "packet_chain (write_packet n_sec i v) = of_nat i"
    "packet_data (write_packet n_sec i v) = v @ replicate (54 - length v) 0xFF"
  using assms
  by (simp_all add: write_packet_def packet_fields hid_sizes overlay_def)

lemma packet_offset: "i < 76 \<Longrightarrow> i * 54 \<le> (4050 :: nat)"
  by simp

lemma sector_packets_data:
  assumes "length v = 4096"
  shows "concat (map packet_data (sector_packets n_sec v)) = v @ replicate 8 0xFF"
proof -
  have data: "packet_data (sector_packet n_sec v i) = subrange (v @ replicate 8 0xFF) (i * 54) 54"
    if "i < 76" for i
    using assms packet_offset [OF that]
    by (simp add: sector_packet_def write_packet_fields subrange_def min_def drop_replicate; arith)
  have "map packet_data (sector_packets n_sec v) =
      map (\<lambda>i. subrange (v @ replicate 8 0xFF) (i * 54) 54) [0..<76]"
    unfolding sector_packets_def map_map by (rule map_cong) (simp_all add: data)
  also have "concat \<dots> = take (76 * 54) (v @ replicate 8 0xFF)" by (rule concat_subranges)
  finally show ?thesis using assms by simp
qed

lemma wait_reply_keeps_trace:
  assumes "wait_reply (recording io) m v (d, tr) = Some (r, v', (d', tr'))"
  shows "tr' = tr"
proof -
  let ?P = "\<lambda>io' m v st res. io' = recording io \<longrightarrow> snd (snd (snd res)) = snd st"
  have "?P (recording io) m v (d, tr) (r, v', (d', tr'))"
  proof (rule wait_reply.raw_induct [where P = ?P, OF _ assms], rule impI)
    fix f io' m v and st :: "'a \<times> bytes list" and res
    assume ih: "\<And>io' m v st res. f io' m v st = Some res \<Longrightarrow> ?P io' m v st res"
      and body: "(if is_zero_packet v then
          case DDL_read io' m v st of (nRx, v', d') \<Rightarrow>
            if nRx \<noteq> C_PACKET_SIZE then Some (Some nRx, v', d') else f io' m v' d'
        else Some (None, v, st)) = Some res" and io: "io' = recording io"
    obtain n v1 st1 where r: "DDL_read io' m v st = (n, v1, st1)" by (cases "DDL_read io' m v st")
    then have "snd st1 = snd st"
      by (auto simp: io DDL_read_def recording_def split: if_splits prod.splits option.splits)
    then show "snd (snd (snd res)) = snd st"
      using body r ih [of io' m v1 st1 res] io by (auto split: if_splits)
  qed
  then show ?thesis by simp
qed

lemma recording_exchange:
  "DDL_write (recording io) m tx (d, tr) = (n, (d', tr')) \<Longrightarrow> n \<noteq> 0 \<Longrightarrow> tr' = tr @ [tx]"
  "DDL_TxRx (recording io) m tx rx (d, tr) = (n, rx', (d', tr')) \<Longrightarrow> n \<noteq> 0 \<Longrightarrow> tr' = tr @ [tx]"
  by (auto simp: DDL_write_def DDL_TxRx_def recording_def split: if_splits prod.splits option.splits)

lemma write_last_trace:
  assumes "write_last (recording io) m tx (d, tr) = Some (True, e, (d', tr'))"
  shows "tr' = tr @ [tx]"
proof -
  obtain n rx d1 tr1 where x: "DDL_TxRx (recording io) m tx zero_packet (d, tr) = (n, rx, d1, tr1)"
    by (cases "DDL_TxRx (recording io) m tx zero_packet (d, tr)") auto
  then have n: "n \<noteq> 0" using assms by (auto simp: write_last_def split: if_splits)
  obtain r v2 d2 tr2 where w: "wait_reply (recording io) m rx (d1, tr1) = Some (r, v2, d2, tr2)"
    using assms x n by (cases "wait_reply (recording io) m rx (d1, tr1)") (auto simp: write_last_def)
  then have "tr' = tr2"
    using assms x n by (auto simp: write_last_def split: option.splits if_splits)
  then show ?thesis using wait_reply_keeps_trace [OF w] recording_exchange(2) [OF x n] by simp
qed

text \<open>The loop, packet by packet.\<close>

lemma write_loop_packet:
  assumes "length v = 4096" "i < 75" "off = i * 54"
  shows "write_loop io m n_sec v i off d =
     (case DDL_write io m (sector_packet n_sec v i) d of
        (n, d') \<Rightarrow> if n = 0 then Some (False, boot_write_io, d')
                   else write_loop io m n_sec v (i + 1) (off + 54) d')"
proof -
  have "off \<le> 3996" using assms(2,3) by simp
  then have "54 \<le> 4096 - off" "\<not> 4096 < off + 54" by simp_all
  then show ?thesis
    using assms(1,2) by (subst write_loop.simps) (simp add: n_loop_76 hid_sizes sector_packet_def assms(3) Let_def)
qed

lemma write_loop_last:
  assumes "length v = 4096"
  shows "write_loop io m n_sec v 75 4050 d = write_last io m (sector_packet n_sec v 75) d"
proof -
  have "subrange v 4050 46 = subrange v 4050 54" using assms by (simp add: subrange_def)
  then show ?thesis
    using assms by (subst write_loop.simps) (simp add: n_loop_76 hid_sizes sector_packet_def Let_def)
qed

lemma write_loop_trace:
  assumes "write_loop (recording io) m n_sec v i off (d, tr) = Some (True, e, (d', tr'))"
    and "i < 76" "off = i * 54" "length v = 4096"
  shows "tr' = tr @ map (sector_packet n_sec v) [i..<76]"
  using assms
proof (induction "76 - i" arbitrary: i off d tr)
  case (Suc k)
  show ?case
  proof (cases "i = 75")
    case True
    then have "write_last (recording io) m (sector_packet n_sec v 75) (d, tr) = Some (True, e, (d', tr'))"
      using Suc.prems(1,3) write_loop_last [OF Suc.prems(4), of "recording io" m n_sec "(d, tr)"] by simp
    from write_last_trace [OF this] True show ?thesis by (simp add: upt_rec)
  next
    case False
    then have i: "i < 75" using Suc.prems(2) by simp
    obtain n d1 tr1 where x: "DDL_write (recording io) m (sector_packet n_sec v i) (d, tr) = (n, d1, tr1)"
      by (cases "DDL_write (recording io) m (sector_packet n_sec v i) (d, tr)") auto
    then have n: "n \<noteq> 0"
      and step: "write_loop (recording io) m n_sec v (i + 1) (off + 54) (d1, tr1) = Some (True, e, (d', tr'))"
      using Suc.prems(1) write_loop_packet [OF Suc.prems(4) i Suc.prems(3), of "recording io" m n_sec "(d, tr)"]
      by (simp_all split: if_splits)
    have "tr' = tr1 @ map (sector_packet n_sec v) [i + 1..<76]"
      by (rule Suc.hyps(1) [OF _ step]) (use Suc.hyps(2) Suc.prems i in simp_all)
    moreover have "tr1 = tr @ [sector_packet n_sec v i]" using recording_exchange(1) [OF x n] .
    moreover have "[i..<76] = i # [i + 1..<76]" using i by (simp add: upt_rec)
    ultimately show ?thesis by simp
  qed
qed simp

text \<open>When writing a sector reports success, exactly the 76 packets of the sector were sent, in the
  order of their chain numbers: 64 bytes each, all for this sector, and their data put together are
  the sector followed by eight filling bytes. This holds for every device behind the transfers.\<close>

theorem written_packets_are_the_sector:
  assumes "do_write_sector (recording io) m n_sec v (d, []) = Some (True, e, (d', tr))"
    and "length v = 4096"
  shows "tr = sector_packets n_sec v
   \<and> map packet_chain tr = map of_nat [0..<76]
   \<and> concat (map packet_data tr) = v @ replicate 8 0xFF
   \<and> list_all (\<lambda>p. length p = 64 \<and> packet_sector p = of_int n_sec) tr"
proof -
  have tr: "tr = sector_packets n_sec v"
    using write_loop_trace [of io m n_sec v 0 0 d "[]"] assms
    by (simp add: do_write_sector_def sector_packets_def)
  have "length (subrange v (i * 54) 54) \<le> 54" for i by (simp add: subrange_def)
  then show ?thesis
    using sector_packets_data [OF assms(2), of n_sec] write_packet_fields
    by (simp add: tr sector_packets_def sector_packet_def list_all_iff)
qed

text \<open>A device that takes everything and answers with success.\<close>

definition accepting_io :: "unit hid_io" where
  "accepting_io =
     \<lparr>io_write_sync = (\<lambda>d _. (True, d)), io_read_sync = (\<lambda>d. (None, d)),
      io_write_read_sync = (\<lambda>d tx. (Some (tx ! 0 # 0 # replicate 62 0), d))\<rparr>"

definition open_manager :: boot_manager where
  "open_manager = \<lparr>m_b_dev_open = True, m_b_exist_sec_info = True, m_listDev_size = 1\<rparr>"

lemma accepting_packets: "i < 76 \<Longrightarrow> write_loop (recording accepting_io) open_manager n_sec v i (i * 54) ((), tr) =
    Some (True, boot_ok, (), tr @ map (sector_packet n_sec v) [i..<76])"
  if "length v = 4096" for v
proof (induction "76 - i" arbitrary: i tr)
  case (Suc k)
  have nonempty: "sector_packet n_sec v i \<noteq> []" for i
    using write_packet_fields(1) [of "subrange v (i * 54) 54" n_sec i]
    by (auto simp: sector_packet_def subrange_def)
  have result: "replay_cResult (tx ! 0 # 0 # xs) = 0" for tx xs :: bytes by (simp add: replay_cResult_def)
  show ?case
  proof (cases "i = 75")
    case True
    have cmd: "sector_packet n_sec v 75 ! 0 \<noteq> 0"
      by (simp add: sector_packet_def write_packet_def enc_request_def HIDB_REQ_CMD_WRITE_def)
    have "write_last (recording accepting_io) open_manager (sector_packet n_sec v 75) ((), tr) =
        Some (True, boot_ok, (), tr @ [sector_packet n_sec v 75])"
      using nonempty [of 75] cmd
      by (simp add: write_last_def DDL_TxRx_def recording_def accepting_io_def open_manager_def
          wait_reply.simps is_zero_packet_def overlay_def zero_packet_def C_PACKET_SIZE_def
          result HIDB_REP_RESULT_SUCCESS_def)
    then show ?thesis using True by (simp add: upt_rec write_loop_last [OF that])
  next
    case False
    then have i: "i < 75" using Suc.prems by simp
    have "DDL_write (recording accepting_io) open_manager (sector_packet n_sec v i) ((), tr) =
        (length (sector_packet n_sec v i), (), tr @ [sector_packet n_sec v i])"
      using nonempty [of i] by (simp add: DDL_write_def recording_def accepting_io_def open_manager_def)
    then show ?thesis
      using Suc.hyps(1) [of "i + 1" "tr @ [sector_packet n_sec v i]"] Suc.hyps(2) i nonempty [of i]
      by (simp add: write_loop_packet [OF that i refl] upt_rec [of i] add.commute)
  qed
qed simp

theorem written_packets_are_the_sector_witness:
  "\<exists>tr. do_write_sector (recording accepting_io) open_manager 5 (replicate 4096 0x41) ((), []) =
       Some (True, boot_ok, (), tr)
     \<and> (tr = sector_packets 5 (replicate 4096 0x41)
     \<and> map packet_chain tr = map of_nat [0..<76]
     \<and> concat (map packet_data tr) = replicate 4096 0x41 @ replicate 8 0xFF
     \<and> list_all (\<lambda>p. length p = 64 \<and> packet_sector p = of_int 5) tr)"
proof -
  have run: "do_write_sector (recording accepting_io) open_manager 5 (replicate 4096 0x41) ((), []) =
      Some (True, boot_ok, (), map (sector_packet 5 (replicate 4096 0x41)) [0..<76])"
    using accepting_packets [of "replicate 4096 0x41" 0 5 "[]"] by (simp add: do_write_sector_def)
  show ?thesis
    by (intro exI [of _ "map (sector_packet 5 (replicate 4096 0x41)) [0..<76]"] conjI [OF run]
        written_packets_are_the_sector [OF run]) simp
qed

section \<open>Waiting for the answer\<close>

text \<open>What is in the buffer after \<open>k\<close> more reads.\<close>

primrec poll :: "'d hid_io \<Rightarrow> boot_manager \<Rightarrow> nat \<Rightarrow> bytes \<Rightarrow> 'd \<Rightarrow> bytes \<times> 'd" where
  "poll io m 0 v d = (v, d)"
| "poll io m (Suc k) v d = (case DDL_read io m v d of (n, v', d') \<Rightarrow> poll io m k v' d')"

text \<open>The loop goes round once more: the packet is all zero and a whole packet is read.\<close>

definition keeps_waiting :: "'d hid_io \<Rightarrow> boot_manager \<Rightarrow> bytes \<times> 'd \<Rightarrow> bool" where
  "keeps_waiting io m p =
     (is_zero_packet (fst p) \<and> fst (DDL_read io m (fst p) (snd p)) = C_PACKET_SIZE)"

lemma wait_reply_stops:
  "\<not> keeps_waiting io m (poll io m k v d) \<Longrightarrow> \<exists>r. wait_reply io m v d = Some r"
proof (induction k arbitrary: v d)
  case 0
  then show ?case
    by (subst wait_reply.simps) (auto simp: keeps_waiting_def split: prod.splits)
next
  case (Suc k)
  obtain n v' d' where r: "DDL_read io m v d = (n, v', d')" by (cases "DDL_read io m v d")
  then show ?case
    using Suc by (subst wait_reply.simps) auto
qed

text \<open>The wait for an answer ends if and only if the device at some point delivers a packet that is
  not all zero, or fails to deliver a whole packet: nothing else bounds the loop.\<close>

theorem wait_reply_ends_iff:
  "(\<exists>r. wait_reply io m v d = Some r) \<longleftrightarrow> (\<exists>k. \<not> keeps_waiting io m (poll io m k v d))"
proof
  let ?P = "\<lambda>io m v d (res :: nat option \<times> bytes \<times> 'a). \<exists>k. \<not> keeps_waiting io m (poll io m k v d)"
  assume "\<exists>r. wait_reply io m v d = Some r"
  then obtain r where r: "wait_reply io m v d = Some r" by blast
  show "\<exists>k. \<not> keeps_waiting io m (poll io m k v d)"
  proof (rule wait_reply.raw_induct [where P = ?P, OF _ r])
    fix f io m v and d :: 'a and res
    assume ih: "\<And>io m v d res. f io m v d = Some res \<Longrightarrow> ?P io m v d res"
      and body: "(if is_zero_packet v then
          case DDL_read io m v d of (nRx, v', d') \<Rightarrow>
            if nRx \<noteq> C_PACKET_SIZE then Some (Some nRx, v', d') else f io m v' d'
        else Some (None, v, d)) = Some res"
    obtain n v' d' where rd: "DDL_read io m v d = (n, v', d')" by (cases "DDL_read io m v d")
    show "\<exists>k. \<not> keeps_waiting io m (poll io m k v d)"
    proof (cases "is_zero_packet v \<and> n = C_PACKET_SIZE")
      case True
      then obtain k where "\<not> keeps_waiting io m (poll io m k v' d')"
        using body rd ih [of io m v' d' res] by auto
      then show ?thesis using rd by (intro exI [of _ "Suc k"]) simp
    next
      case False
      then show ?thesis using rd by (intro exI [of _ 0]) (auto simp: keeps_waiting_def)
    qed
  qed
next
  assume "\<exists>k. \<not> keeps_waiting io m (poll io m k v d)"
  then obtain k where "\<not> keeps_waiting io m (poll io m k v d)" ..
  then show "\<exists>r. wait_reply io m v d = Some r" by (rule wait_reply_stops)
qed

section \<open>The lists of the sectors\<close>

lemma sint_of_nat_u32: "n < 2 ^ 31 \<Longrightarrow> sint (of_nat n :: u32) = int n"
proof -
  assume "n < 2 ^ 31"
  then have "take_bit 32 n = n" by (simp add: take_bit_nat_eq_self_iff)
  then show ?thesis
    using \<open>n < 2 ^ 31\<close> by (simp add: sint_uint unsigned_of_nat signed_take_bit_int_eq_self)
qed

lemma need_sectors:
  assumes "length fw < 2 ^ 31"
  shows "n_need_fw_sec (length fw) = of_nat (fw_sectors fw)"
proof -
  have "fw_sectors fw = length fw div 4096 + (if length fw mod 4096 \<noteq> 0 then 1 else 0)"
  proof -
    define q r where "q = length fw div 4096" and "r = length fw mod 4096"
    have "length fw = 4096 * q + r" by (simp add: q_def r_def)
    then have "length fw + 4096 - 1 = (r + 4095) + q * 4096" by simp
    then have "(length fw + 4096 - 1) div 4096 = q + (r + 4095) div 4096"
      by (simp only: div_mult_self1)
    moreover have "(r + 4095) div 4096 = (if r \<noteq> 0 then 1 else 0)"
    proof (cases "r = 0")
      case False
      have "r < 4096" by (simp add: r_def)
      with False have "4096 * 1 \<le> r + 4095" "r + 4095 < 4096 * Suc 1" by simp_all
      then have "(r + 4095) div 4096 = 1" by (rule div_nat_eqI)
      with False show ?thesis by simp
    qed simp
    ultimately show ?thesis by (simp add: fw_sectors_def C_SECTOR_SIZE_def q_def r_def)
  qed
  then show ?thesis by (simp add: n_need_fw_sec_def C_SECTOR_SIZE_def)
qed

lemma sint_sum: "unat (start :: u32) + n < 2 ^ 31 \<Longrightarrow> sint (start + of_nat n) = int (unat start) + int n"
  using sint_of_nat_u32 [of "unat start + n"] by simp

lemma write_list_order:
  assumes "0 < n" "unat (start :: u32) + n < 2 ^ 31"
  shows "write_list start (of_nat n) = write_order (int (unat start)) n"
proof -
  have n: "unat (of_nat n - 1 :: u32) = n - 1"
  proof -
    have "(of_nat n - 1 :: u32) = of_nat (n - 1)" using assms(1) by simp
    then show ?thesis using assms(2) unat_of_nat_u32 [of "n - 1"] by simp
  qed
  have "sint (start + of_nat ui + 1) = int (unat start) + int (Suc ui)" if "ui < n - 1" for ui
    using sint_sum [of start "Suc ui"] that assms(2) by (simp add: ac_simps)
  then have "map (\<lambda>ui. sint (start + of_nat ui + 1)) [0..<n - 1] =
      map (\<lambda>i. int (unat start) + int i) [1..<n]"
    by (intro nth_equalityI) simp_all
  moreover have "sint start = int (unat start)" using sint_sum [of start 0] assms(2) by simp
  ultimately show ?thesis by (simp add: write_list_def write_order_def n)
qed

lemma erase_list_order:
  assumes "unat (start :: u32) + unat area < 2 ^ 31" "n < unat area"
  shows "erase_list start area (of_nat n) =
     map (\<lambda>i. int (unat start) + int i) [0..<n] @ [int (unat start) + int (unat area) - 1]"
proof -
  have n: "unat (of_nat n :: u32) = n" using assms by (intro unat_of_nat_u32) simp
  have "sint (start + of_nat ui) = int (unat start) + int ui" if "ui < n" for ui
    using that assms by (intro sint_sum) simp
  moreover have "sint (start + area - 1) = int (unat start) + int (unat area - 1)"
  proof -
    have "unat start + (unat area - 1) < 2 ^ 31" using assms(1) by simp
    from sint_sum [OF this] have "sint (start + of_nat (unat area - 1)) = int (unat start) + int (unat area - 1)" .
    moreover have "start + area - 1 = start + of_nat (unat area - 1)" using assms(2) by simp
    ultimately show ?thesis by (simp only:)
  qed
  ultimately show ?thesis using assms(2) by (simp add: erase_list_def n)
qed

text \<open>The layout that the device reports, or the one of the LPC1343 when it reports none.\<close>

definition layout_start :: "bool \<Rightarrow> u32 \<Rightarrow> u32" where
  "layout_start b_exist start = (if b_exist then start else 1)"

definition layout_area :: "bool \<Rightarrow> u32 \<Rightarrow> u32" where
  "layout_area b_exist area = (if b_exist then area else 7)"

lemma select_device_fits:
  assumes "m_listDev_size m \<noteq> 0"
    and "get_sector_info_from_device io (m\<lparr>m_b_exist_sec_info := False, m_b_dev_open := opened\<rparr>) d
           = Some ((True, b, start, area), d')"
    and "n_need_fw_sec sz \<noteq> 0" "n_need_fw_sec sz \<le> layout_area b area - 1"
  shows "SelectDevice io opened sz m sh d =
     Some (True, m\<lparr>m_b_exist_sec_info := b, m_b_dev_open := opened\<rparr>,
       set_write_sec_index (write_list (layout_start b start) (n_need_fw_sec sz))
         (set_erase_sec_index (erase_list (layout_start b start) (layout_area b area) (n_need_fw_sec sz)) sh),
       d')"
  using assms
  by (cases b) (simp_all add: SelectDevice_def Let_def layout_start_def layout_area_def)

lemma unat_minus_one: "0 < unat (a :: u32) \<Longrightarrow> unat (a - 1) = unat a - 1"
  by (simp add: unat_sub_if')

text \<open>When the device reports its layout and the firmware fits in front of the last sector of the
  application area, selecting the device succeeds with these lists: the write list names each sector
  of the firmware once and the first one last; everything that is written is erased before; beyond
  that only the last sector of the area, which holds the system variables, is erased, and it is not
  written.\<close>

theorem selected_sectors:
  assumes "m_listDev_size m \<noteq> 0"
    and "get_sector_info_from_device io (m\<lparr>m_b_exist_sec_info := False, m_b_dev_open := opened\<rparr>) d
           = Some ((True, b, start, area), d')"
    and "fw \<noteq> []" "length fw < 2 ^ 31" "fw_sectors fw < unat (layout_area b area)"
    and "unat (layout_start b start) + unat (layout_area b area) < 2 ^ 31"
  defines "s \<equiv> int (unat (layout_start b start))" and "a \<equiv> int (unat (layout_area b area))"
  shows "\<exists>m' sh'. SelectDevice io opened (length fw) m sh d = Some (True, m', sh', d')
     \<and> m_v_write_sec_index sh' = write_order s (fw_sectors fw)
     \<and> distinct (m_v_write_sec_index sh')
     \<and> set (m_v_write_sec_index sh') = {s ..< s + int (fw_sectors fw)}
     \<and> last (m_v_write_sec_index sh') = s
     \<and> set (m_v_erase_sec_index sh') = insert (s + a - 1) (set (m_v_write_sec_index sh'))
     \<and> s + a - 1 \<notin> set (m_v_write_sec_index sh')"
proof -
  let ?n = "fw_sectors fw" and ?s = "layout_start b start" and ?a = "layout_area b area"
  have n: "0 < ?n" using fw_sectors_bounds(1) [OF assms(3)] .
  have need: "n_need_fw_sec (length fw) = of_nat ?n" by (rule need_sectors [OF assms(4)])
  have un: "unat (of_nat ?n :: u32) = ?n" using assms(5,6) by (intro unat_of_nat_u32) simp
  have "of_nat ?n \<noteq> (0 :: u32)" using un n by auto
  moreover have "of_nat ?n \<le> ?a - 1"
    using assms(5) n by (simp add: word_le_nat_alt un unat_minus_one)
  moreover have "write_list ?s (of_nat ?n) = write_order s ?n"
    unfolding s_def by (rule write_list_order [OF n]) (use assms(5,6) in simp)
  moreover have "erase_list ?s ?a (of_nat ?n) = map (\<lambda>i. s + int i) [0..<?n] @ [s + a - 1]"
    unfolding s_def a_def by (rule erase_list_order [OF assms(6,5)])
  moreover have "set [0..<?n] = set ([1..<?n] @ [0])" using n by auto
  then have "set (map (\<lambda>i. s + int i) [0..<?n]) = set (write_order s ?n)"
    unfolding write_order_def by (simp only: set_map)
  moreover have "int ?n < a" using assms(5) by (simp only: a_def of_nat_less_iff)
  then have "s + a - 1 \<notin> {s ..< s + int ?n}" by simp
  ultimately show ?thesis
    using select_device_fits [OF assms(1,2), of "length fw" sh]
    by (simp add: need set_write_sec_index_def set_erase_sec_index_def distinct_write_order
        set_write_order [OF n] last_write_order)
qed

text \<open>A device that reports its layout.\<close>

definition layout_io :: "u32 \<Rightarrow> u32 \<Rightarrow> unit hid_io" where
  "layout_io start area =
     \<lparr>io_write_sync = (\<lambda>d _. (True, d)), io_read_sync = (\<lambda>d. (None, d)),
      io_write_read_sync = (\<lambda>d tx. (Some ([tx ! 0, 0] @ replicate 8 0 @ le32 start @ le32 area
          @ replicate 46 0), d))\<rparr>"

theorem selected_sectors_witness:
  "\<exists>m' sh'. SelectDevice (layout_io 2 30) True (length (replicate 5000 (0x41 :: byte)))
       open_manager (share_ini :: nat share) () = Some (True, m', sh', ())
     \<and> m_v_write_sec_index sh' = write_order (int (unat (layout_start True 2))) (fw_sectors (replicate 5000 0x41))
     \<and> distinct (m_v_write_sec_index sh')
     \<and> set (m_v_write_sec_index sh') = {int (unat (layout_start True 2)) ..<
         int (unat (layout_start True 2)) + int (fw_sectors (replicate 5000 0x41))}
     \<and> last (m_v_write_sec_index sh') = int (unat (layout_start True 2))
     \<and> set (m_v_erase_sec_index sh') =
         insert (int (unat (layout_start True 2)) + int (unat (layout_area True 30)) - 1)
           (set (m_v_write_sec_index sh'))
     \<and> int (unat (layout_start True 2)) + int (unat (layout_area True 30)) - 1
         \<notin> set (m_v_write_sec_index sh')"
proof (rule selected_sectors)
  show "get_sector_info_from_device (layout_io 2 30)
      (open_manager\<lparr>m_b_exist_sec_info := False, m_b_dev_open := True\<rparr>) () = Some ((True, True, 2, 30), ())"
    by (simp add: get_sector_info_from_device_def Let_def DDL_TxRx_def layout_io_def open_manager_def
        enc_request_def overlay_def zero_packet_def C_PACKET_SIZE_def wait_reply.simps is_zero_packet_def
        HIDB_REQ_CMD_GET_SECTOR_INFO_def replay_cResult_def HIDB_REP_RESULT_SUCCESS_def
        replay_sData_def un_le32_le32 le32_def un_le32_def)
qed (simp_all add: open_manager_def layout_start_def layout_area_def fw_sectors_def C_SECTOR_SIZE_def)

text \<open>A firmware that does not fit, or is empty, is no error: the device counts as selected and both
  lists are empty.\<close>

lemma too_large_is_selected:
  assumes "m_listDev_size m \<noteq> 0"
    and "get_sector_info_from_device io (m\<lparr>m_b_exist_sec_info := False, m_b_dev_open := opened\<rparr>) d
           = Some ((True, b, start, area), d')"
    and "n_need_fw_sec sz = 0 \<or> n_need_fw_sec sz > layout_area b area - 1"
  shows "\<exists>m' sh'. SelectDevice io opened sz m sh d = Some (True, m', sh', d')
     \<and> m_v_write_sec_index sh' = [] \<and> m_v_erase_sec_index sh' = []"
  using assms
  by (auto simp: SelectDevice_def Let_def layout_area_def set_write_sec_index_def
      set_erase_sec_index_def split: if_splits)

end
