(* ===== verification/UpdaterState.thy ===== *)
theory UpdaterState
  imports HidBootManager
begin

text \<open>
  The states of the firmware updater (\<open>src/shared/projects/lpu230_update/cupdater.cpp\<close>): the transition
  table of \<open>_update_state\<close> with its special cases, the handlers of the buttons of each dialog, the
  message queue and the progress counter, and the invariant of everything a user and the update
  thread can do. The extension of a path, whether it names a directory and the directory of the
  program are parameters, as is the content of the files.
\<close>

section \<open>The transition table\<close>

datatype app_state = s_ini | s_selfile | s_selfirm | s_sellast | s_ing | s_com

datatype app_event =
  e_start | e_sfile_or | e_sfile_ob | e_sfile_c | e_sfirm_o | e_sfirm_c | e_slast_o | e_slast_c
| e_ustep_s | e_ustep_e | e_ulstep_s | e_ulstep_e | e_exit

text \<open>\<open>None\<close> is the \<open>-1\<close> of an impossible event.\<close>

definition state_table :: "app_state \<Rightarrow> app_event \<Rightarrow> app_state option \<times> string" where
  "state_table st event =
     (case st of
        s_ini \<Rightarrow>
          if event = e_start then (Some s_selfile, '''')
          else if event = e_exit then (None, ''Terminate program'')
          else (None, '''')
      | s_selfile \<Rightarrow>
          if event = e_sfile_or then (Some s_selfirm, '''')
          else if event = e_sfile_ob then (Some s_sellast, '''')
          else if event = e_sfile_c then (Some s_ini, '''')
          else (None, '''')
      | s_selfirm \<Rightarrow>
          if event = e_sfirm_o then (Some s_sellast, ''get the last confirm'')
          else if event = e_sfirm_c then (Some s_selfile, ''select a rom file'')
          else (None, '''')
      | s_sellast \<Rightarrow>
          if event = e_slast_o then (Some s_ing, ''start the first step'')
          else if event = e_slast_c then (Some s_selfirm, '''')
          else (None, '''')
      | s_ing \<Rightarrow>
          if event = e_ustep_s then (Some s_ing, ''the current step success, go the next step.'')
          else if event = e_ustep_e then (Some s_com, ''complete with error'')
          else if event = e_ulstep_s then (Some s_com, ''complete with success'')
          else if event = e_ulstep_e then (Some s_com, ''complete with error at last'')
          else (None, '''')
      | s_com \<Rightarrow>
          if event = e_exit then (None, ''Terminate program'') else (None, ''''))"

datatype file_ext = ext_rom | ext_bin | ext_other

record 'p file_env =
  env_files :: "'p files"
  env_rom :: bool
  env_ext :: "'p \<Rightarrow> file_ext"
  env_has_parent :: "'p \<Rightarrow> bool"
  env_in_exe_dir :: "'p \<Rightarrow> 'p"

definition rom_format_ok :: "'p file_env \<Rightarrow> 'p \<Rightarrow> bool" where
  "rom_format_ok env p = is_rom_file_format_ok (env_files env) (env_rom env) (Some p)"

text \<open>\<open>m_thread_started\<close> stands for a thread pointer that is not null.\<close>

record 'p app =
  m_state :: app_state
  m_n_tab_index :: nat
  m_b_is_running :: bool
  m_thread_started :: bool
  m_n_progress_cur :: int
  m_n_progress_min :: int
  m_n_progress_max :: int
  m_n_selected_fw_for_ui :: int
  m_share :: "'p share"
  m_crom :: "'p crom"

definition tab_of :: "'p share \<Rightarrow> app_state \<Rightarrow> nat" where
  "tab_of sh st =
     (case st of s_ini \<Rightarrow> 0 | s_selfile \<Rightarrow> 1 | s_selfirm \<Rightarrow> 2
      | s_sellast \<Rightarrow> if is_select_fw_updatable sh then 3 else 4
      | s_ing \<Rightarrow> 5 | s_com \<Rightarrow> 6)"

text \<open>\<open>None\<close> as the first value is the \<open>continue\<close> that leaves everything as it is.\<close>

definition new_value ::
  "'p file_env \<Rightarrow> app_event \<Rightarrow> 'p option \<Rightarrow> app_state \<Rightarrow> (app_state option \<times> string) option" where
  "new_value env event s_rom_or_bin_file old_state =
     (if old_state = s_ini \<and> event = e_start then
        (case s_rom_or_bin_file of
           None \<Rightarrow> Some (state_table old_state event)
         | Some fp \<Rightarrow>
             (case env_ext env fp of
                ext_rom \<Rightarrow>
                  if rom_format_ok env fp
                  then Some (Some s_selfirm, ''select a firmware in the selected rom file'')
                  else Some (Some s_sellast, ''confirm the selected firmware'')
              | ext_bin \<Rightarrow> Some (Some s_sellast, ''confirm the selected firmware'')
              | ext_other \<Rightarrow> None))
      else Some (state_table old_state event))"

definition update_state ::
  "'p file_env \<Rightarrow> app_event \<Rightarrow> 'p option \<Rightarrow> 'p app \<Rightarrow> (bool \<times> app_state option \<times> string) \<times> 'p app" where
  "update_state env event s_rom_or_bin_file a =
     (if m_state a = s_ini \<and> event = e_slast_o then
        ((True, Some s_ing, ''run by auto''), a\<lparr>m_state := s_ing, m_n_tab_index := 5\<rparr>)
      else case new_value env event s_rom_or_bin_file (m_state a) of
        None \<Rightarrow> ((False, Some (m_state a), ''''), a)
      | Some (None, s_message) \<Rightarrow> ((False, None, s_message), a)
      | Some (Some new_state, s_message) \<Rightarrow>
          if new_state \<noteq> m_state a
          then ((True, Some new_state, s_message),
                a\<lparr>m_state := new_state, m_n_tab_index := tab_of (m_share a) new_state\<rparr>)
          else ((False, Some new_state, s_message), a))"

section \<open>The handlers of the buttons\<close>

definition start_update_with_thread :: "'p app \<Rightarrow> bool \<times> 'p app" where
  "start_update_with_thread a =
     (if m_thread_started a then (False, a)
      else (True, a\<lparr>m_b_is_running := True, m_thread_started := True\<rparr>))"

text \<open>
  \<open>set_rom_file_abs_full_path\<close>: a path without directory is taken to be in the directory of the
  program, but its size is read under the name that was given. \<open>None\<close>: the size of a file that does
  not exist, for which \<open>std::filesystem::file_size\<close> throws.
\<close>

definition set_rom_file_abs_full_path :: "'p file_env \<Rightarrow> 'p option \<Rightarrow> 'p share \<Rightarrow> 'p share option" where
  "set_rom_file_abs_full_path env s_abs_full_rom_file sh =
     (case s_abs_full_rom_file of
        None \<Rightarrow> Some (sh\<lparr>m_s_rom_file_abs_full_path := None\<rparr>)
      | Some p \<Rightarrow>
          let sh1 = sh\<lparr>m_s_rom_file_abs_full_path :=
                         Some (if env_has_parent env p then p else env_in_exe_dir env p)\<rparr>
          in if env_ext env p = ext_rom \<and> rom_format_ok env p
             then Some (set_firmware_size 0 sh1)
             else map_option (\<lambda>d. set_firmware_size (length d) sh1) (content (env_files env) p))"

definition press_update :: "'p file_env \<Rightarrow> 'p app \<Rightarrow> 'p app option" where
  "press_update env a = Some (snd (update_state env e_start (m_s_rom_file_abs_full_path (m_share a)) a))"

definition press_exit :: "'p file_env \<Rightarrow> 'p app \<Rightarrow> 'p app option" where
  "press_exit env a = Some (snd (update_state env e_exit None (a\<lparr>m_b_is_running := False\<rparr>)))"

definition step_count :: "'p app \<Rightarrow> 'p app option" where
  "step_count a =
     map_option (\<lambda>(n, sh). a\<lparr>m_n_progress_max := n, m_share := sh\<rparr>)
       (calculate_update_step (- 1) (m_share a))"

definition press_select_file :: "'p file_env \<Rightarrow> 'p \<Rightarrow> 'p app \<Rightarrow> 'p app option" where
  "press_select_file env p a = do {
     sh1 \<leftarrow> set_rom_file_abs_full_path env (Some p) (m_share a);
     a1 \<leftarrow> step_count (a\<lparr>m_share := sh1\<rparr>);
     if env_ext env p = ext_rom \<and> rom_format_ok env p then do {
       (_, c, sh2) \<leftarrow> update_fw_list_of_selected_rom (env_files env) (\<lambda>p. env_ext env p = ext_rom)
                        (env_rom env) (m_crom a1) (m_share a1);
       a2 \<leftarrow> step_count (a1\<lparr>m_share := sh2, m_crom := c\<rparr>);
       let a3 = a2\<lparr>m_n_selected_fw_for_ui := m_n_selected_fw_in_firmware_list (m_share a2)\<rparr>;
       Some (snd (update_state env e_sfile_or (Some p) a3))
     } else Some (snd (update_state env e_sfile_ob (Some p) a1))
   }"

definition press_cancel_file :: "'p file_env \<Rightarrow> 'p app \<Rightarrow> 'p app option" where
  "press_cancel_file env a = Some (snd (update_state env e_sfile_c None a))"

text \<open>\<open>n\<close> is the entry that the menu has selected.\<close>

definition press_ok_fw :: "'p file_env \<Rightarrow> int \<Rightarrow> 'p app \<Rightarrow> 'p app option" where
  "press_ok_fw env n a = do {
     sh1 \<leftarrow> set_firmware_list_of_rom_file n (m_v_firmware_list (m_share a)) (m_share a);
     a1 \<leftarrow> step_count (a\<lparr>m_n_selected_fw_for_ui := n, m_share := sh1\<rparr>);
     Some (snd (update_state env e_sfirm_o None a1))
   }"

definition press_cancel_fw :: "'p file_env \<Rightarrow> 'p app \<Rightarrow> 'p app option" where
  "press_cancel_fw env a = Some (snd (update_state env e_sfirm_c None a))"

definition press_ok_last :: "'p file_env \<Rightarrow> 'p app \<Rightarrow> 'p app option" where
  "press_ok_last env a =
     Some (snd (start_update_with_thread (snd (update_state env e_slast_o None a))))"

definition press_cancel_last :: "'p file_env \<Rightarrow> 'p app \<Rightarrow> 'p app option" where
  "press_cancel_last env a = Some (snd (update_state env e_slast_c None a))"

text \<open>\<open>initial_update\<close>, after the constructor has succeeded.\<close>

definition initial_update :: "'p file_env \<Rightarrow> bool \<Rightarrow> bool \<Rightarrow> 'p app \<Rightarrow> bool \<times> 'p app" where
  "initial_update env b_run_by_cf b_display a =
     (if b_run_by_cf \<or> \<not> b_display
      then start_update_with_thread (snd (update_state env e_slast_o None a))
      else (True, a))"

section \<open>Messages and progress\<close>

type_synonym 'm message = "int \<times> bool \<times> 'm"

definition push_message :: "int \<Rightarrow> bool \<Rightarrow> 'm \<Rightarrow> 'm message list \<Rightarrow> 'm message list" where
  "push_message n_in_step b_in_step_result s_in_msg q = q @ [(n_in_step, b_in_step_result, s_in_msg)]"

definition pop_message :: "bool \<Rightarrow> 'm message list \<Rightarrow> 'm message option \<times> 'm message list" where
  "pop_message b_remove_after_pop q =
     (case q of [] \<Rightarrow> (None, []) | m # q' \<Rightarrow> (Some m, if b_remove_after_pop then q' else q))"

definition process_progress_data :: "'p app \<Rightarrow> 'p app" where
  "process_progress_data a =
     (let cur = m_n_progress_cur a + 1
      in a\<lparr>m_n_progress_cur := (if cur \<ge> m_n_progress_max a then m_n_progress_max a else cur)\<rparr>)"

definition set_range_of_progress :: "int \<Rightarrow> int \<Rightarrow> 'p app \<Rightarrow> 'p app" where
  "set_range_of_progress n_min n_max a =
     a\<lparr>m_n_progress_cur := n_min, m_n_progress_min := n_min, m_n_progress_max := n_max\<rparr>"

definition set_pos_of_progress :: "int \<Rightarrow> 'p app \<Rightarrow> 'p app" where
  "set_pos_of_progress n a = a\<lparr>m_n_progress_cur := n\<rparr>"

text \<open>
  \<open>_queueed_message_process\<close>: the parts of the status line, \<open>[min.cur.max] step n : (ERROR - ) text\<close>, and
  the position, the maximum and the result that are sent to the server.
\<close>

definition queued_message_process ::
  "'m message \<Rightarrow> 'p app \<Rightarrow> ((int \<times> int \<times> int) \<times> int \<times> bool \<times> 'm) option \<times> (int \<times> int \<times> bool \<times> 'm) option" where
  "queued_message_process msg a =
     (case msg of (n_step, b_step_result, s_msg) \<Rightarrow>
        if n_step < 0 then (None, None)
        else (Some ((m_n_progress_min a, m_n_progress_cur a, m_n_progress_max a), n_step,
                    \<not> b_step_result, s_msg),
              Some (m_n_progress_cur a, m_n_progress_max a, b_step_result, s_msg)))"

section \<open>What can happen\<close>

text \<open>
  A button can only be pressed in the dialog that is shown; the update thread reports an error or the
  end while it is running; the event loop advances the progress. A menu selects one of its entries.
\<close>

inductive app_step :: "'p file_env \<Rightarrow> 'p app \<Rightarrow> 'p app \<Rightarrow> bool" for env where
  step_update: "m_n_tab_index a = 0 \<Longrightarrow> press_update env a = Some a' \<Longrightarrow> app_step env a a'"
| step_exit: "m_n_tab_index a \<in> {0, 6} \<Longrightarrow> press_exit env a = Some a' \<Longrightarrow> app_step env a a'"
| step_select_file: "m_n_tab_index a = 1 \<Longrightarrow> press_select_file env p a = Some a' \<Longrightarrow> app_step env a a'"
| step_cancel_file: "m_n_tab_index a = 1 \<Longrightarrow> press_cancel_file env a = Some a' \<Longrightarrow> app_step env a a'"
| step_ok_fw: "m_n_tab_index a = 2 \<Longrightarrow> press_ok_fw env n a = Some a' \<Longrightarrow> app_step env a a'"
| step_cancel_fw: "m_n_tab_index a = 2 \<Longrightarrow> press_cancel_fw env a = Some a' \<Longrightarrow> app_step env a a'"
| step_ok_last: "m_n_tab_index a \<in> {3, 4} \<Longrightarrow> press_ok_last env a = Some a' \<Longrightarrow> app_step env a a'"
| step_cancel_last: "m_n_tab_index a \<in> {3, 4} \<Longrightarrow> press_cancel_last env a = Some a' \<Longrightarrow> app_step env a a'"
| step_thread: "m_thread_started a \<Longrightarrow> ev \<in> {e_ustep_e, e_ulstep_s, e_ulstep_e} \<Longrightarrow>
     app_step env a ((snd (update_state env ev None a))\<lparr>m_b_is_running := False\<rparr>)"
| step_progress: "m_state a = s_ing \<Longrightarrow> app_step env a (process_progress_data a)"

inductive app_reach :: "'p file_env \<Rightarrow> 'p app \<Rightarrow> 'p app \<Rightarrow> bool" for env a0 where
  reach_refl: "app_reach env a0 a0"
| reach_step: "app_reach env a0 a \<Longrightarrow> app_step env a a' \<Longrightarrow> app_reach env a0 a'"

text \<open>The object after a successful constructor and \<open>initial_update\<close>.\<close>

definition app_ini :: "'p crom \<Rightarrow> 'p share \<Rightarrow> int \<Rightarrow> 'p app" where
  "app_ini c sh n_steps =
     \<lparr>m_state = s_ini, m_n_tab_index = 0, m_b_is_running = False, m_thread_started = False,
      m_n_progress_cur = 0, m_n_progress_min = 0, m_n_progress_max = n_steps,
      m_n_selected_fw_for_ui = - 1, m_share = sh, m_crom = c\<rparr>"

section \<open>The invariant\<close>

lemma update_state_share [simp]:
  "m_share (snd (update_state env ev f a)) = m_share a"
  "m_thread_started (snd (update_state env ev f a)) = m_thread_started a"
  by (auto simp: update_state_def split: option.splits)

lemma update_state_tab:
  assumes "m_n_tab_index a = tab_of (m_share a) (m_state a)"
  shows "m_n_tab_index (snd (update_state env ev f a)) =
     tab_of (m_share a) (m_state (snd (update_state env ev f a)))"
  using assms by (auto simp: update_state_def tab_of_def split: option.splits)

lemma header_item_simps [simp]:
  "map_option f (header_item sh n) = Some x \<longleftrightarrow> (\<exists>it. header_item sh n = Some it \<and> f it = x)"
  by (auto simp: map_option_case split: option.splits)

lemma set_firmware_list_path:
  assumes "set_firmware_list_of_rom_file n v sh = Some sh'"
  shows "m_s_rom_file_abs_full_path sh' = m_s_rom_file_abs_full_path sh"
  using assms by (auto simp: set_firmware_list_of_rom_file_def Let_def set_firmware_size_def split: if_splits)

lemma step_count_keeps:
  assumes "step_count a = Some a'"
  shows "m_state a' = m_state a" "m_n_tab_index a' = m_n_tab_index a"
    "m_thread_started a' = m_thread_started a"
    "m_s_rom_file_abs_full_path (m_share a') = m_s_rom_file_abs_full_path (m_share a)"
    "is_select_fw_updatable (m_share a') = is_select_fw_updatable (m_share a)"
  using assms
  by (auto simp: step_count_def calculate_update_step_def Let_def is_select_fw_updatable_def
      split: if_splits option.splits bind_splits)

lemma set_rom_file_path:
  "set_rom_file_abs_full_path env (Some p) sh = Some sh' \<Longrightarrow> m_s_rom_file_abs_full_path sh' \<noteq> None"
  by (auto simp: set_rom_file_abs_full_path_def Let_def set_firmware_size_def split: if_splits)

lemma update_fw_list_path:
  assumes "update_fw_list_of_selected_rom fs e b c sh = Some (r, c', sh')"
  shows "m_s_rom_file_abs_full_path sh' = m_s_rom_file_abs_full_path sh"
  using assms
  by (auto simp: update_fw_list_of_selected_rom_def Let_def set_firmware_size_def
      split: if_splits option.splits prod.splits)

text \<open>The dialog on the screen belongs to the state, the update thread exists from the confirmation on,
  and the dialogs behind the choice of a file have a file.\<close>

definition app_inv :: "'p app \<Rightarrow> bool" where
  "app_inv a =
     (m_n_tab_index a = tab_of (m_share a) (m_state a)
      \<and> (m_thread_started a \<longleftrightarrow> m_state a \<in> {s_ing, s_com})
      \<and> (m_state a \<in> {s_selfirm, s_sellast} \<longrightarrow> m_s_rom_file_abs_full_path (m_share a) \<noteq> None))"

lemma app_inv_state:
  assumes "app_inv a"
  shows "m_n_tab_index a = 0 \<Longrightarrow> m_state a = s_ini" "m_n_tab_index a = 1 \<Longrightarrow> m_state a = s_selfile"
    "m_n_tab_index a = 2 \<Longrightarrow> m_state a = s_selfirm" "m_n_tab_index a \<in> {3, 4} \<Longrightarrow> m_state a = s_sellast"
    "m_n_tab_index a \<in> {0, 6} \<Longrightarrow> m_state a \<in> {s_ini, s_com}"
  using assms by (cases "m_state a"; simp add: app_inv_def tab_of_def split: if_splits)+

lemma press_update_inv:
  assumes "app_inv a" "m_state a = s_ini" "press_update env a = Some a'"
  shows "app_inv a'" "m_thread_started a' = m_thread_started a"
  using assms
  by (auto simp: app_inv_def press_update_def update_state_def new_value_def state_table_def tab_of_def
      split: option.splits file_ext.splits if_splits)

lemma press_select_file_inv:
  assumes "app_inv a" "m_state a = s_selfile" "press_select_file env p a = Some a'"
  shows "app_inv a'" "m_thread_started a' = m_thread_started a"
proof -
  obtain sh1 a1 where sh1: "set_rom_file_abs_full_path env (Some p) (m_share a) = Some sh1"
    and a1: "step_count (a\<lparr>m_share := sh1\<rparr>) = Some a1"
    using assms(3) by (auto simp: press_select_file_def split: bind_splits)
  note k1 = step_count_keeps [OF a1] and path = set_rom_file_path [OF sh1]
  have "app_inv a' \<and> m_thread_started a' = m_thread_started a"
  proof (cases "env_ext env p = ext_rom \<and> rom_format_ok env p")
    case True
    then obtain r c sh2 a2 where
      u: "update_fw_list_of_selected_rom (env_files env) (\<lambda>p. env_ext env p = ext_rom) (env_rom env)
            (m_crom a1) (m_share a1) = Some (r, c, sh2)"
      and a2: "step_count (a1\<lparr>m_share := sh2, m_crom := c\<rparr>) = Some a2"
      and a': "a' = snd (update_state env e_sfile_or (Some p)
                 (a2\<lparr>m_n_selected_fw_for_ui := m_n_selected_fw_in_firmware_list (m_share a2)\<rparr>))"
      using assms(3) sh1 a1
      by (auto simp: press_select_file_def Let_def split: bind_splits prod.splits option.splits)
    note k2 = step_count_keeps [OF a2]
    show ?thesis
      using assms(1,2) k1 k2 path update_fw_list_path [OF u]
      by (auto simp: app_inv_def a' update_state_def new_value_def state_table_def tab_of_def)
  next
    case False
    then have "a' = snd (update_state env e_sfile_ob (Some p) a1)"
      using assms(3) sh1 a1 by (auto simp: press_select_file_def)
    then show ?thesis
      using assms(1,2) k1 path
      by (auto simp: app_inv_def update_state_def new_value_def state_table_def tab_of_def)
  qed
  then show "app_inv a'" "m_thread_started a' = m_thread_started a" by simp_all
qed

lemma press_ok_fw_inv:
  assumes "app_inv a" "m_state a = s_selfirm" "press_ok_fw env n a = Some a'"
  shows "app_inv a'" "m_thread_started a' = m_thread_started a"
proof -
  obtain sh1 a1 where sh1: "set_firmware_list_of_rom_file n (m_v_firmware_list (m_share a)) (m_share a) = Some sh1"
    and a1: "step_count (a\<lparr>m_n_selected_fw_for_ui := n, m_share := sh1\<rparr>) = Some a1"
    and a': "a' = snd (update_state env e_sfirm_o None a1)"
    using assms(3) by (auto simp: press_ok_fw_def split: bind_splits)
  show "app_inv a'" "m_thread_started a' = m_thread_started a"
    using assms(1,2) step_count_keeps [OF a1] set_firmware_list_path [OF sh1]
    by (auto simp: app_inv_def a' update_state_def new_value_def state_table_def tab_of_def)
qed

lemmas press_simple_defs =
  press_exit_def press_cancel_file_def press_cancel_fw_def press_ok_last_def press_cancel_last_def
  update_state_def new_value_def state_table_def start_update_with_thread_def process_progress_data_def

text \<open>The other buttons, each in its state.\<close>

lemma press_simple:
  "m_state a \<in> {s_ini, s_com} \<Longrightarrow> press_exit env a = Some (a\<lparr>m_b_is_running := False\<rparr>)"
  "m_state a = s_selfile \<Longrightarrow> press_cancel_file env a = Some (a\<lparr>m_state := s_ini, m_n_tab_index := 0\<rparr>)"
  "m_state a = s_selfirm \<Longrightarrow> press_cancel_fw env a = Some (a\<lparr>m_state := s_selfile, m_n_tab_index := 1\<rparr>)"
  "m_state a = s_sellast \<Longrightarrow>
     press_cancel_last env a = Some (a\<lparr>m_state := s_selfirm, m_n_tab_index := 2\<rparr>)"
  "m_state a = s_sellast \<Longrightarrow> \<not> m_thread_started a \<Longrightarrow>
     press_ok_last env a = Some (a\<lparr>m_state := s_ing, m_n_tab_index := 5, m_b_is_running := True,
       m_thread_started := True\<rparr>)"
  by (auto simp: press_simple_defs tab_of_def)

lemma thread_event:
  "m_state a \<in> {s_ing, s_com} \<Longrightarrow> ev \<in> {e_ustep_e, e_ulstep_s, e_ulstep_e} \<Longrightarrow>
     snd (update_state env ev None a) = (if m_state a = s_ing then a\<lparr>m_state := s_com, m_n_tab_index := 6\<rparr> else a)"
  by (auto simp: press_simple_defs tab_of_def)

lemma app_step_inv:
  assumes "app_step env a a'" "app_inv a"
  shows "app_inv a' \<and> (m_thread_started a' \<and> \<not> m_thread_started a \<longrightarrow>
           m_state a = s_sellast \<and> m_state a' = s_ing \<and> m_share a' = m_share a)"
  using assms(1)
proof (cases rule: app_step.cases)
  case step_update
  then show ?thesis using press_update_inv [OF assms(2) app_inv_state(1) [OF assms(2)]] by simp
next
  case (step_select_file p)
  then show ?thesis using press_select_file_inv [OF assms(2) app_inv_state(2) [OF assms(2)]] by simp
next
  case (step_ok_fw n)
  then show ?thesis using press_ok_fw_inv [OF assms(2) app_inv_state(3) [OF assms(2)]] by simp
next
  case step_exit
  then have "a' = a\<lparr>m_b_is_running := False\<rparr>"
    using press_simple(1) [OF app_inv_state(5) [OF assms(2)], of env] by simp
  then show ?thesis using assms(2) by (simp add: app_inv_def) argo
next
  case step_cancel_file
  then have st: "m_state a = s_selfile" using app_inv_state(2) [OF assms(2)] by simp
  have "a' = a\<lparr>m_state := s_ini, m_n_tab_index := 0\<rparr>" using step_cancel_file press_simple(2) [OF st, of env] by simp
  then show ?thesis using assms(2) st by (simp add: app_inv_def tab_of_def)
next
  case step_cancel_fw
  then have st: "m_state a = s_selfirm" using app_inv_state(3) [OF assms(2)] by simp
  have "a' = a\<lparr>m_state := s_selfile, m_n_tab_index := 1\<rparr>" using step_cancel_fw press_simple(3) [OF st, of env] by simp
  then show ?thesis using assms(2) st by (simp add: app_inv_def tab_of_def)
next
  case step_ok_last
  then have st: "m_state a = s_sellast" using app_inv_state(4) [OF assms(2)] by simp
  then have th: "\<not> m_thread_started a" using assms(2) by (simp add: app_inv_def)
  have "a' = a\<lparr>m_state := s_ing, m_n_tab_index := 5, m_b_is_running := True, m_thread_started := True\<rparr>"
    using step_ok_last press_simple(5) [OF st th, of env] by simp
  then show ?thesis using assms(2) st by (simp add: app_inv_def tab_of_def)
next
  case step_cancel_last
  then have st: "m_state a = s_sellast" using app_inv_state(4) [OF assms(2)] by simp
  have "a' = a\<lparr>m_state := s_selfirm, m_n_tab_index := 2\<rparr>" using step_cancel_last press_simple(4) [OF st, of env] by simp
  then show ?thesis using assms(2) st by (simp add: app_inv_def tab_of_def)
next
  case (step_thread ev)
  then have "m_state a \<in> {s_ing, s_com}" using assms(2) by (simp add: app_inv_def)
  then show ?thesis using assms(2) step_thread thread_event [of a ev env]
    by (auto simp: app_inv_def tab_of_def)
next
  case step_progress
  then show ?thesis using assms(2) by (simp add: app_inv_def process_progress_data_def Let_def)
qed

lemma app_reach_inv: "app_reach env a0 a \<Longrightarrow> app_inv a0 \<Longrightarrow> app_inv a"
  by (induction rule: app_reach.induct) (auto dest: app_step_inv)

lemma app_ini_inv: "app_inv (snd (initial_update env cf disp (app_ini c sh n)))"
  by (auto simp: initial_update_def app_ini_def app_inv_def press_simple_defs tab_of_def)

section \<open>Properties of the dialogs\<close>

text \<open>In every state the program can reach, in interactive and in automatic mode, the dialog on the
  screen is the one of the state (for the last confirmation: the one without the warning exactly when
  the selected firmware is the one whose condition matched the device), and the update thread exists
  exactly while updating and after it.\<close>

theorem reachable_dialogs:
  assumes "app_reach env (snd (initial_update env b_run_by_cf b_display (app_ini c sh n))) a"
  shows "m_n_tab_index a = tab_of (m_share a) (m_state a)
     \<and> (m_thread_started a \<longleftrightarrow> m_state a \<in> {s_ing, s_com})"
  using app_reach_inv [OF assms app_ini_inv] by (simp add: app_inv_def)

definition raw_env :: "nat file_env" where
  "raw_env = \<lparr>env_files = \<lparr>content = (\<lambda>_. Some [1, 2, 3]), writable = (\<lambda>_. False)\<rparr>, env_rom = True,
     env_ext = (\<lambda>_. ext_bin), env_has_parent = (\<lambda>_. True), env_in_exe_dir = id\<rparr>"

definition raw_start :: "nat app" where
  "raw_start = app_ini \<lparr>m_Header = zero_head, m_sRomFileName = None\<rparr>
     (share_ini\<lparr>m_s_rom_file_abs_full_path := Some 7\<rparr>) 10"

definition raw_confirm :: "nat app" where
  "raw_confirm = raw_start\<lparr>m_state := s_sellast, m_n_tab_index := 4\<rparr>"

lemma raw_confirm_reached: "app_reach raw_env raw_start raw_confirm"
proof (rule reach_step [OF reach_refl], rule step_update)
  show "press_update raw_env raw_start = Some raw_confirm"
    by (simp add: press_update_def raw_start_def raw_confirm_def app_ini_def share_ini_def raw_env_def
        update_state_def new_value_def tab_of_def is_select_fw_updatable_def)
qed (simp add: raw_start_def app_ini_def)

theorem reachable_dialogs_witness:
  "m_n_tab_index raw_confirm = tab_of (m_share raw_confirm) (m_state raw_confirm)
     \<and> (m_thread_started raw_confirm \<longleftrightarrow> m_state raw_confirm \<in> {s_ing, s_com})"
proof (rule reachable_dialogs)
  show "app_reach raw_env (snd (initial_update raw_env False True
      (app_ini \<lparr>m_Header = zero_head, m_sRomFileName = None\<rparr>
         (share_ini\<lparr>m_s_rom_file_abs_full_path := Some 7\<rparr>) 10))) raw_confirm"
    using raw_confirm_reached by (simp add: initial_update_def raw_start_def)
qed

text \<open>With dialogs, the update thread is only ever started by the OK button of the last confirmation:
  then a file is selected, the state becomes updating, and what the confirmation was about is
  unchanged. Without the match of the condition, the dialog was the one with the warning.\<close>

theorem update_starts_from_confirmation:
  assumes "app_reach env (app_ini c sh n) a" "app_step env a a'"
    and "\<not> m_thread_started a" "m_thread_started a'"
  shows "m_state a = s_sellast \<and> m_state a' = s_ing \<and> m_share a' = m_share a
     \<and> m_s_rom_file_abs_full_path (m_share a) \<noteq> None
     \<and> m_n_tab_index a = (if is_select_fw_updatable (m_share a) then 3 else 4)"
proof -
  have "app_inv (app_ini c sh n)" by (simp add: app_inv_def app_ini_def tab_of_def)
  from app_reach_inv [OF assms(1) this] have inv: "app_inv a" .
  from app_step_inv [OF assms(2) this] assms(3,4) have "m_state a = s_sellast" "m_state a' = s_ing"
    "m_share a' = m_share a" by simp_all
  with inv show ?thesis by (simp add: app_inv_def tab_of_def)
qed

theorem update_starts_from_confirmation_witness:
  "m_state raw_confirm = s_sellast
     \<and> m_state (raw_confirm\<lparr>m_state := s_ing, m_n_tab_index := 5, m_b_is_running := True,
         m_thread_started := True\<rparr>) = s_ing
     \<and> m_share (raw_confirm\<lparr>m_state := s_ing, m_n_tab_index := 5, m_b_is_running := True,
         m_thread_started := True\<rparr>) = m_share raw_confirm
     \<and> m_s_rom_file_abs_full_path (m_share raw_confirm) \<noteq> None
     \<and> m_n_tab_index raw_confirm = (if is_select_fw_updatable (m_share raw_confirm) then 3 else 4)"
proof (rule update_starts_from_confirmation)
  show "app_reach raw_env (app_ini \<lparr>m_Header = zero_head, m_sRomFileName = None\<rparr>
      (share_ini\<lparr>m_s_rom_file_abs_full_path := Some 7\<rparr>) 10) raw_confirm"
    using raw_confirm_reached by (simp add: raw_start_def)
  have st: "m_state raw_confirm = s_sellast" "\<not> m_thread_started raw_confirm"
    by (simp_all add: raw_confirm_def raw_start_def app_ini_def)
  show "app_step raw_env raw_confirm (raw_confirm\<lparr>m_state := s_ing, m_n_tab_index := 5,
      m_b_is_running := True, m_thread_started := True\<rparr>)"
    by (rule step_ok_last [OF _ press_simple(5) [OF st]]) (simp add: raw_confirm_def)
qed (simp_all add: raw_confirm_def raw_start_def app_ini_def)

text \<open>Cancelling the confirmation of a raw file leads to the list of the firmwares of a ROM file.\<close>

lemma cancel_of_raw_file_goes_to_firmware_list:
  "press_cancel_last raw_env raw_confirm = Some (raw_confirm\<lparr>m_state := s_selfirm, m_n_tab_index := 2\<rparr>)"
  by (rule press_simple(4)) (simp add: raw_confirm_def)

end
