(* ===== verification/UpdaterSteps.thy ===== *)
theory UpdaterSteps
  imports UpdaterState HidDevSet
begin

text \<open>
  The steps of the update thread (\<open>_updates_sub_thread_*\<close> of
  \<open>src/shared/projects/lpu230_update/cupdater.cpp\<close>): the backup of the parameters, the change to the
  boot loader, erasing, reading and writing sector by sector, the start of the application and the
  restoring of the parameters. The operating system is a parameter: the transfers to the three
  devices involved, the enumeration, opening a device, the request to the server. Another thread may
  clear \<open>m_b_is_running\<close> at any time; \<open>u_stops\<close> holds what the successive reads of the flag find.
  Sleeping is left out. By-reference parameters and locals that the steps share are fields.
\<close>

section \<open>State\<close>

record 'd platform =
  pf_lpu_io :: "'d hid_io"
  pf_boot_io :: "'d hid_io"
  pf_after_io :: "'d hid_io"
  pf_enumerate :: "'d \<Rightarrow> enum_item list \<times> 'd"
  pf_open :: "dev_info \<Rightarrow> 'd \<Rightarrow> bool \<times> 'd"
  pf_request_stop :: "dev_info \<Rightarrow> 'd \<Rightarrow> bool \<times> 'd"

datatype step_text =
  txt_none | txt_backup | txt_run_bootloader | txt_wait_plugout_lpu | txt_plugout_lpu
| txt_plugout_lpu_plugin_boot | txt_wait_plugin_boot | txt_plugin_boot | txt_setup
| txt_erase int | txt_erase_error int boot_error | txt_read int fw_error | txt_write int
| txt_write_error int boot_error | txt_run_app | txt_wait_plugout_boot | txt_plugout_boot
| txt_wait_plugin_lpu | txt_plugin_lpu | txt_recover_start | txt_recovering | txt_recovered
| txt_no_recovery | txt_recover_error | txt_open_error | txt_load_error | txt_interface_start
| txt_interface_changed | txt_interface_error | txt_iso_start | txt_iso_changed | txt_iso_already
| txt_iso_error | txt_complete

record ('p, 'd) updater =
  u_app :: "'p app"
  u_q_messages :: "step_text message list"
  u_cursor :: fw_cursor
  u_boot :: boot_manager
  u_lib :: clibhid
  u_dev :: 'd
  u_stops :: "bool list"
  u_device_path :: bytes
  u_bootloader_path :: bytes
  u_possible_exit :: bool
  u_plugin_device :: "dev_info option"
  u_step :: int
  u_sector :: fw_out
  u_need_close_lpu23x :: bool
  u_need_close_bootloader :: bool

abbreviation u_share :: "('p, 'd) updater \<Rightarrow> 'p share" where
  "u_share u \<equiv> m_share (u_app u)"

abbreviation u_proto :: "('p, 'd) updater \<Rightarrow> proto" where
  "u_proto u \<equiv> m_target_protocol_lpu237 (u_share u)"

definition on_app :: "('p app \<Rightarrow> 'p app) \<Rightarrow> ('p, 'd) updater \<Rightarrow> ('p, 'd) updater" where
  "on_app f u = u\<lparr>u_app := f (u_app u)\<rparr>"

definition on_share :: "('p share \<Rightarrow> 'p share) \<Rightarrow> ('p, 'd) updater \<Rightarrow> ('p, 'd) updater" where
  "on_share f u = u\<lparr>u_app := (u_app u)\<lparr>m_share := f (u_share u)\<rparr>\<rparr>"

definition set_proto :: "proto \<Rightarrow> 'd \<Rightarrow> ('p, 'd) updater \<Rightarrow> ('p, 'd) updater" where
  "set_proto p d u = (on_share (\<lambda>sh. sh\<lparr>m_target_protocol_lpu237 := p\<rparr>) u)\<lparr>u_dev := d\<rparr>"

text \<open>\<open>set_target_lpu23x\<close> with a null pointer.\<close>

definition clear_target_lpu23x :: "('p, 'd) updater \<Rightarrow> ('p, 'd) updater" where
  "clear_target_lpu23x u = on_share (\<lambda>sh. sh\<lparr>m_b_ptr_dev := False\<rparr>) u"

definition push_msg :: "bool \<Rightarrow> step_text \<Rightarrow> ('p, 'd) updater \<Rightarrow> ('p, 'd) updater" where
  "push_msg b txt u = u\<lparr>u_q_messages := push_message (u_step u) b txt (u_q_messages u)\<rparr>"

definition next_step :: "('p, 'd) updater \<Rightarrow> ('p, 'd) updater" where
  "next_step u = u\<lparr>u_step := u_step u + 1\<rparr>"

text \<open>One read of \<open>m_b_is_running\<close>.\<close>

definition running :: "('p, 'd) updater \<Rightarrow> bool \<times> ('p, 'd) updater" where
  "running u =
     (case u_stops u of
        [] \<Rightarrow> (m_b_is_running (u_app u), u)
      | b # bs \<Rightarrow>
          let r = (m_b_is_running (u_app u) \<and> \<not> b)
          in (r, on_app (\<lambda>a. a\<lparr>m_b_is_running := r\<rparr>) (u\<lparr>u_stops := bs\<rparr>)))"

section \<open>Backup and start of the boot loader\<close>

definition save_step :: "'d platform \<Rightarrow> bool \<Rightarrow> ('p, 'd) updater \<Rightarrow> (bool \<times> bool \<times> ('p, 'd) updater) option" where
  "save_step pf b_first u =
     map_option (\<lambda>(b_result, b_complete, p, d). (b_result, b_complete, set_proto p d u))
       (io_save_all_variable_sys_parameter (pf_lpu_io pf) (m_b_ptr_dev (u_share u)) b_first (u_proto u) (u_dev u))"

lemma u_proto_simps [simp]:
  "u_proto (next_step u) = u_proto u" "u_proto (push_msg b t u) = u_proto u"
  "u_proto (set_proto p d u) = p" "u_proto (snd (running u)) = u_proto u"
  by (simp_all add: next_step_def push_msg_def set_proto_def on_share_def on_app_def running_def Let_def
      split: list.splits)

lemma save_step_decreases:
  assumes "save_step pf False u = Some (True, False, u')"
  shows "length (m_dequeu_v_tx (u_proto u')) < length (m_dequeu_v_tx (u_proto u))"
proof -
  obtain e n p d where t: "transact (pf_lpu_io pf) set_from_rx (u_proto u) (u_dev u) = Some (e, n, p, d)"
    and e: "e \<noteq> exch_fail" "n \<noteq> 0" and u': "u' = set_proto (clear_if_done n p) d u"
    using assms
    by (auto simp: save_step_def io_save_all_variable_sys_parameter_def Let_def split: if_splits bind_splits)
  then have "u_proto u' = p" by (simp add: clear_if_done_def)
  then show ?thesis using transact_remaining_decreases [OF t e] by simp
qed

function backup_loop :: "'d platform \<Rightarrow> bool \<Rightarrow> ('p, 'd) updater \<Rightarrow> (bool \<times> ('p, 'd) updater) option" where
  "backup_loop pf b_first u =
     (case save_step pf b_first (next_step u) of
        None \<Rightarrow> None
      | Some (b_result, b_complete, u1) \<Rightarrow>
          if \<not> b_result then Some (False, push_msg False txt_backup u1)
          else
            let u2 = push_msg True txt_backup u1
            in if b_complete then Some (True, u2)
               else
                 (case running u2 of
                    (r, u3) \<Rightarrow> if r then backup_loop pf False u3 else Some (True, u3)))"
  by pat_completeness auto
termination
proof (relation "measures [\<lambda>(pf, b_first, u). if b_first then 1 else 0,
    \<lambda>(pf, b_first, u). length (m_dequeu_v_tx (u_proto u))]", goal_cases)
  case (2 pf b_first u x b_result y b_complete u1 u2 r u3)
  then have "u_proto u3 = u_proto u1" using u_proto_simps(4) [of u2] by (metis snd_conv u_proto_simps(2))
  then show ?case using 2 save_step_decreases [of pf "next_step u" u1] by (cases b_first) auto
qed simp

declare backup_loop.simps [simp del]

definition sub_backup_system_param :: "'d platform \<Rightarrow> ('p, 'd) updater op" where
  "sub_backup_system_param pf u =
     (if m_b_start_from_bootloader (u_share u) then Some (True, u)
      else map_option (\<lambda>(b_result, u1). (b_result, if b_result then u1 else clear_target_lpu23x u1))
             (backup_loop pf True u))"

definition update_devs :: "'d platform \<Rightarrow> ('p, 'd) updater \<Rightarrow> ('p, 'd) updater" where
  "update_devs pf u =
     (case pf_enumerate pf (u_dev u) of
        (es, d) \<Rightarrow> u\<lparr>u_lib := snd (update_dev_set es (u_lib u)), u_dev := d\<rparr>)"

definition use_filter :: "usb_filter list \<Rightarrow> ('p, 'd) updater \<Rightarrow> ('p, 'd) updater" where
  "use_filter f u = u\<lparr>u_lib := set_usb_filter f (u_lib u)\<rparr>"

definition sub_run_bootloader :: "'d platform \<Rightarrow> ('p, 'd) updater op" where
  "sub_run_bootloader pf u =
     (if m_b_start_from_bootloader (u_share u) then Some (True, u)
      else
        let u1 = update_devs pf (use_filter default_usb_filter (next_step u))
        in do {
          (b_result, p, d) \<leftarrow> io_run_bootloader (pf_lpu_io pf) (m_b_ptr_dev (u_share u1)) (u_proto u1) (u_dev u1);
          Some (b_result, clear_target_lpu23x (push_msg b_result txt_run_bootloader (set_proto p d u1)))
        })"

section \<open>Waiting for the boot loader\<close>

text \<open>The counter of the time limit bounds the loops; \<open>n\<close> rounds are left after the current one.\<close>

primrec wait_plugout_lpu23x_loop ::
  "'d platform \<Rightarrow> nat \<Rightarrow> ('p, 'd) updater \<Rightarrow> (bool \<times> bool) \<times> ('p, 'd) updater" where
  "wait_plugout_lpu23x_loop pf 0 u = ((False, False), u)"
| "wait_plugout_lpu23x_loop pf (Suc n) u =
     (let u1 = update_devs pf u
      in case find_path (m_set_removed_dev_info (u_lib u1)) (u_device_path u1) of
           Some _ \<Rightarrow>
             (let u2 = clear_target_lpu23x u1
              in case find_id (m_set_inserted_dev_info (u_lib u2)) const_usb_vid const_usb_pid_hidbl of
                   Some i \<Rightarrow> ((True, True), u2\<lparr>u_bootloader_path := path_chars (get_path i)\<rparr>)
                 | None \<Rightarrow> ((True, False), u2))
         | None \<Rightarrow>
             (case running u1 of
                (r, u2) \<Rightarrow> if \<not> r then ((False, False), u2) else wait_plugout_lpu23x_loop pf n u2))"

definition sub_wait_plugout_lpu23x ::
  "'d platform \<Rightarrow> ('p, 'd) updater \<Rightarrow> (bool \<times> bool) \<times> ('p, 'd) updater" where
  "sub_wait_plugout_lpu23x pf u =
     (if m_b_start_from_bootloader (u_share u) then ((True, False), u)
      else
        (case wait_plugout_lpu23x_loop pf 9 (push_msg True txt_wait_plugout_lpu (next_step u)) of
           ((b_result, b_detect), u1) \<Rightarrow>
             ((b_result, b_detect),
              if \<not> b_result then push_msg False txt_plugout_lpu u1
              else if b_detect then push_msg True txt_plugout_lpu_plugin_boot u1
              else u1)))"

primrec wait_plugin_bootloader_loop ::
  "'d platform \<Rightarrow> nat \<Rightarrow> ('p, 'd) updater \<Rightarrow> bool \<times> ('p, 'd) updater" where
  "wait_plugin_bootloader_loop pf 0 u = (False, u)"
| "wait_plugin_bootloader_loop pf (Suc n) u =
     (let u1 = update_devs pf u
      in case find_id (m_set_inserted_dev_info (u_lib u1)) const_usb_vid const_usb_pid_hidbl of
           Some i \<Rightarrow> (True, u1\<lparr>u_bootloader_path := path_chars (get_path i)\<rparr>)
         | None \<Rightarrow>
             (case running u1 of
                (r, u2) \<Rightarrow> if \<not> r then (False, u2) else wait_plugin_bootloader_loop pf n u2))"

definition sub_wait_plugin_bootloader :: "'d platform \<Rightarrow> ('p, 'd) updater \<Rightarrow> bool \<times> ('p, 'd) updater" where
  "sub_wait_plugin_bootloader pf u =
     (if m_b_start_from_bootloader (u_share u) then (True, u)
      else
        (case wait_plugin_bootloader_loop pf 34 (push_msg True txt_wait_plugin_boot (next_step u)) of
           (b_result, u1) \<Rightarrow> (b_result, if \<not> b_result then push_msg False txt_plugin_boot u1 else u1)))"

text \<open>The result of asking the server to leave the boot loaders alone is ignored by the thread.\<close>

definition request_stop_all_hidboot :: "'d platform \<Rightarrow> ('p, 'd) updater \<Rightarrow> (bool \<times> int) \<times> ('p, 'd) updater" where
  "request_stop_all_hidboot pf u =
     (let u1 = update_devs pf (use_filter [(const_usb_vid, const_usb_pid_hidbl, const_usb_inf_hidbl)] u);
          devs = m_set_cur_dev_info (u_lib u1)
      in if devs = [] then ((False, 0), u1)
         else
           (case fold (\<lambda>i ((b, n), d). case pf_request_stop pf i d of
                         (ok, d') \<Rightarrow> (if ok then (b, n + 1) else (False, n), d'))
                   devs ((True, 0), u_dev u1) of
              (r, d) \<Rightarrow> (r, u1\<lparr>u_dev := d\<rparr>)))"

section \<open>Boot loader\<close>

definition GetDeviceList :: "'d platform \<Rightarrow> ('p, 'd) updater \<Rightarrow> ('p, 'd) updater" where
  "GetDeviceList pf u =
     (let u1 = update_devs pf (use_filter [(0x134b, 0x0243, - 1)] u)
      in u1\<lparr>u_boot := (u_boot u1)\<lparr>m_listDev_size := length (m_set_cur_dev_info (u_lib u1))\<rparr>\<rparr>)"

definition DDL_open :: "'d platform \<Rightarrow> bytes \<Rightarrow> ('p, 'd) updater \<Rightarrow> bool \<times> 'd" where
  "DDL_open pf s u =
     (case find_path (m_set_cur_dev_info (u_lib u)) s of
        None \<Rightarrow> (False, u_dev u)
      | Some i \<Rightarrow> pf_open pf i (u_dev u))"

definition select_boot :: "'d platform \<Rightarrow> bytes \<Rightarrow> ('p, 'd) updater op" where
  "select_boot pf s u =
     (case (if m_listDev_size (u_boot u) = 0 then (False, u_dev u) else DDL_open pf s u) of
        (opened, d) \<Rightarrow>
          map_option (\<lambda>(b, m, sh, d'). (b, (on_share (\<lambda>_. sh) u)\<lparr>u_boot := m, u_dev := d'\<rparr>))
            (SelectDevice (pf_boot_io pf) opened (m_n_size_fw (u_share u)) (u_boot u) (u_share u) d))"

definition close_boot :: "('p, 'd) updater \<Rightarrow> ('p, 'd) updater" where
  "close_boot u = u\<lparr>u_boot := snd (UnselectDevice (u_boot u))\<rparr>"

definition sub_setup_bootloader :: "'d platform \<Rightarrow> ('p, 'd) updater op" where
  "sub_setup_bootloader pf u =
     (if u_bootloader_path u = [] then Some (False, push_msg False txt_setup u)
      else do {
        (b, u1) \<leftarrow> select_boot pf (u_bootloader_path u) (GetDeviceList pf u);
        if \<not> b then Some (False, push_msg False txt_setup (close_boot u1))
        else Some (True, push_msg True txt_setup u1)
      })"

definition erase_one :: "'d platform \<Rightarrow> int \<Rightarrow> ('p, 'd) updater op" where
  "erase_one pf n_sec u =
     (let u1 = next_step u
      in map_option (\<lambda>(b_result, s_error, d).
           (b_result, push_msg b_result (if b_result then txt_erase n_sec else txt_erase_error n_sec s_error)
                        (u1\<lparr>u_dev := d\<rparr>)))
           (do_erase_in_worker (pf_boot_io pf) (u_boot u1) n_sec (u_dev u1)))"

definition sub_erase_sector :: "'d platform \<Rightarrow> ('p, 'd) updater op" where
  "sub_erase_sector pf u = run_all (map (erase_one pf) (m_v_erase_sec_index (u_share u))) u"

section \<open>Reading and writing\<close>

definition sub_read_one_sector_from_file ::
  "'p file_env \<Rightarrow> bool \<Rightarrow> ('p, 'd) updater \<Rightarrow> (bool \<times> bool \<times> ('p, 'd) updater) option" where
  "sub_read_one_sector_from_file env b_first_read u =
     (let u1 = next_step u
      in map_option (\<lambda>((b_result, b_complete, s_error), out, cur).
           (b_result, b_complete,
            push_msg b_result (txt_read (snd out) s_error) (u1\<lparr>u_sector := out, u_cursor := cur\<rparr>)))
           (get_one_sector_fw_data (env_files env) (env_rom env) (m_crom (u_app u1)) (u_share u1)
              b_first_read (u_sector u1) (u_cursor u1)))"

definition sub_write_one_sector :: "'d platform \<Rightarrow> ('p, 'd) updater op" where
  "sub_write_one_sector pf u =
     (let n = snd (u_sector u); u1 = push_msg True (txt_write n) (next_step u)
      in map_option (\<lambda>(b_result, s_error, d).
           (b_result, if b_result then u1\<lparr>u_dev := d\<rparr>
                      else push_msg False (txt_write_error n s_error) (u1\<lparr>u_dev := d\<rparr>)))
           (do_write_sector (pf_boot_io pf) (u_boot u1) n (fst (u_sector u1)) (u_dev u1)))"

text \<open>What decides whether the loop goes on: the cursor and the write list.\<close>

lemma read_step_progress:
  assumes "sub_read_one_sector_from_file env b_first u = Some (True, False, u')"
  shows "n_write_sector_index (u_cursor u') = Suc (if b_first then 0 else n_write_sector_index (u_cursor u))"
    "n_write_sector_index (u_cursor u') < length (m_v_write_sec_index (u_share u'))"
    "m_v_write_sec_index (u_share u') = m_v_write_sec_index (u_share u)"
  using assms
  by (auto simp: sub_read_one_sector_from_file_def get_one_sector_fw_data_def next_step_def push_msg_def
      fw_cursor_ini_def Let_def split: option.splits if_splits sum.splits bind_splits)

lemma frame_running [simp]:
  "u_cursor (snd (running u)) = u_cursor u" "u_share (snd (running u)) = u_share u"
  by (simp_all add: running_def on_app_def Let_def split: list.splits)

lemma frame_write:
  "sub_write_one_sector pf u = Some (b, u') \<Longrightarrow> u_cursor u' = u_cursor u \<and> u_share u' = u_share u"
  by (auto simp: sub_write_one_sector_def next_step_def push_msg_def Let_def)

function read_write_loop ::
  "'d platform \<Rightarrow> 'p file_env \<Rightarrow> bool \<Rightarrow> ('p, 'd) updater \<Rightarrow> (bool \<times> ('p, 'd) updater) option" where
  "read_write_loop pf env b_first_read u =
     (case sub_read_one_sector_from_file env b_first_read u of
        None \<Rightarrow> None
      | Some (b_result, b_complete, u1) \<Rightarrow>
          if \<not> b_result then Some (False, u1)
          else
            (case running u1 of
               (r1, u2) \<Rightarrow>
                 if \<not> r1 then Some (True, u2)
                 else
                   (case sub_write_one_sector pf u2 of
                      None \<Rightarrow> None
                    | Some (b_written, u3) \<Rightarrow>
                        if \<not> b_written then Some (False, u3)
                        else
                          (case running u3 of
                             (r2, u4) \<Rightarrow>
                               if \<not> r2 then Some (True, u4)
                               else if b_complete then Some (True, u4)
                               else
                                 (case running u4 of
                                    (r3, u5) \<Rightarrow>
                                      if r3 then read_write_loop pf env False u5 else Some (True, u5))))))"
  by pat_completeness auto
termination
proof (relation "measures [\<lambda>(pf, env, b_first, u). if b_first then 1 else 0,
    \<lambda>(pf, env, b_first, u). length (m_v_write_sec_index (u_share u)) - n_write_sector_index (u_cursor u)]",
    goal_cases)
  case (2 pf env b_first u x b_result y b_complete u1 r1 u2 z b_written u3 r2 u4 r3 u5)
  then have read: "sub_read_one_sector_from_file env b_first u = Some (True, False, u1)" by auto
  have u2: "u2 = snd (running u1)" and u4: "u4 = snd (running u3)" and u5: "u5 = snd (running u4)"
    using 2 by (metis snd_conv)+
  have w: "sub_write_one_sector pf u2 = Some (True, u3)" using 2 by auto
  have "u_cursor u5 = u_cursor u1" "u_share u5 = u_share u1"
    using frame_write [OF w] by (simp_all add: u2 u4 u5)
  then show ?case using 2 read_step_progress [OF read] by (cases b_first) auto
qed simp

declare read_write_loop.simps [simp del]

section \<open>Back to the application\<close>

definition sub_run_app :: "'d platform \<Rightarrow> ('p, 'd) updater op" where
  "sub_run_app pf u =
     (case GotoApp (pf_boot_io pf) (u_boot u) (u_dev u) of
        (b_result, m, d) \<Rightarrow> Some (b_result, push_msg b_result txt_run_app (u\<lparr>u_boot := m, u_dev := d\<rparr>)))"

text \<open>The third entry of this filter has the product of the LPU237 and, as interface, the product of the
  boot loader.\<close>

definition plugout_bootloader_filter :: "usb_filter list" where
  "plugout_bootloader_filter =
     [(const_usb_vid, lpu237_usb_pid, lpu237_usb_inf_hid),
      (const_usb_vid, lpu238_usb_pid, lpu238_usb_inf_hid),
      (const_usb_vid, lpu237_usb_pid, const_usb_pid_hidbl)]"

primrec wait_plugout_bootloader_loop ::
  "'d platform \<Rightarrow> nat \<Rightarrow> ('p, 'd) updater \<Rightarrow> bool \<times> ('p, 'd) updater" where
  "wait_plugout_bootloader_loop pf 0 u = (False, u)"
| "wait_plugout_bootloader_loop pf (Suc n) u =
     (let u1 = update_devs pf u
      in case find_path (m_set_removed_dev_info (u_lib u1)) (u_bootloader_path u1) of
           Some _ \<Rightarrow> (True, u1\<lparr>u_bootloader_path := []\<rparr>)
         | None \<Rightarrow>
             (case running u1 of
                (r, u2) \<Rightarrow> if \<not> r then (False, u2) else wait_plugout_bootloader_loop pf n u2))"

definition sub_wait_plugout_bootloader :: "'d platform \<Rightarrow> ('p, 'd) updater op" where
  "sub_wait_plugout_bootloader pf u =
     (case wait_plugout_bootloader_loop pf 17
             (push_msg True txt_wait_plugout_boot (use_filter plugout_bootloader_filter (next_step u))) of
        (b_result, u1) \<Rightarrow> Some (b_result, if \<not> b_result then push_msg False txt_plugout_boot u1 else u1))"

primrec wait_plugin_lpu23x_loop ::
  "'d platform \<Rightarrow> nat \<Rightarrow> ('p, 'd) updater \<Rightarrow> dev_info option \<times> ('p, 'd) updater" where
  "wait_plugin_lpu23x_loop pf 0 u = (None, u)"
| "wait_plugin_lpu23x_loop pf (Suc n) u =
     (let u1 = update_devs pf u; set_i = m_set_inserted_dev_info (u_lib u1)
      in case find_id set_i const_usb_vid lpu237_usb_pid of
           Some i \<Rightarrow> (Some i, u1)
         | None \<Rightarrow>
             (case find_id set_i const_usb_vid lpu238_usb_pid of
                Some i \<Rightarrow> (Some i, u1)
              | None \<Rightarrow>
                  (case running u1 of
                     (r, u2) \<Rightarrow> if \<not> r then (None, u2) else wait_plugin_lpu23x_loop pf n u2)))"

text \<open>A device that was found becomes the plug-in device of the share when the thread goes on.\<close>

definition sub_wait_plugin_lpu23x ::
  "'d platform \<Rightarrow> ('p, 'd) updater \<Rightarrow> (dev_info option \<times> ('p, 'd) updater) option" where
  "sub_wait_plugin_lpu23x pf u =
     (case wait_plugin_lpu23x_loop pf 30 (push_msg True txt_wait_plugin_lpu (next_step u)) of
        (dev, u1) \<Rightarrow> Some (dev, push_msg (dev \<noteq> None) txt_plugin_lpu u1))"

section \<open>Restoring the parameters\<close>

definition load_basic :: "'d platform \<Rightarrow> ('p, 'd) updater op" where
  "load_basic pf u =
     map_option (\<lambda>(b, p, d). (b, set_proto p d u))
       (io_load_basic_sys_parameter (pf_after_io pf) True (u_proto u) (u_dev u))"

definition open_after :: "'d platform \<Rightarrow> dev_info \<Rightarrow> ('p, 'd) updater \<Rightarrow> bool \<times> ('p, 'd) updater" where
  "open_after pf dev u = (case pf_open pf dev (u_dev u) of (b, d) \<Rightarrow> (b, u\<lparr>u_dev := d\<rparr>))"

definition recover_step :: "'d platform \<Rightarrow> bool \<Rightarrow> ('p, 'd) updater \<Rightarrow> (bool \<times> bool \<times> ('p, 'd) updater) option" where
  "recover_step pf b_first u =
     map_option (\<lambda>(b_result, b_complete, p, d). (b_result, b_complete, set_proto p d u))
       (io_recover_all_variable_sys_parameter (pf_after_io pf) True b_first (u_proto u) (u_dev u))"

lemma transact_success_decreases:
  assumes "transact io (\<lambda>s. Some (is_success_rx b s)) s d = Some (e, n, s', d')" "n \<noteq> 0"
  shows "length (m_dequeu_v_tx s') < length (m_dequeu_v_tx s)"
proof -
  obtain n1 v s1 where g: "get_tx_transaction s = (n1, v, s1)" by (cases "get_tx_transaction s") auto
  have "m_dequeu_v_tx s' = m_dequeu_v_tx s1 \<and> n = n1"
    using assms(1) g
    by (auto simp: transact_def Let_def set_rx_transaction_def is_success_rx_def
        split: if_splits prod.splits option.splits list.splits)
  then show ?thesis using get_tx_transaction_pops [OF g] assms(2) by (cases "m_dequeu_v_tx s") auto
qed

lemma recover_step_decreases:
  assumes "recover_step pf False u = Some (b, False, u')"
  shows "length (m_dequeu_v_tx (u_proto u')) < length (m_dequeu_v_tx (u_proto u))"
proof -
  obtain e n p d where
    t: "transact (pf_after_io pf) (\<lambda>s. Some (is_success_rx True s)) (u_proto u) (u_dev u) = Some (e, n, p, d)"
    and n: "n \<noteq> 0" and u': "u' = set_proto (clear_if_done n p) d u"
    using assms
    by (auto simp: recover_step_def io_recover_all_variable_sys_parameter_def Let_def
        split: if_splits bind_splits)
  then have "u_proto u' = p" by (simp add: clear_if_done_def)
  then show ?thesis using transact_success_decreases [OF t n] by simp
qed

text \<open>An error does not leave this loop by itself; it ends because an error also completes the transfer.\<close>

function recover_loop :: "'d platform \<Rightarrow> bool \<Rightarrow> ('p, 'd) updater \<Rightarrow> (bool \<times> ('p, 'd) updater) option" where
  "recover_loop pf b_first u =
     (case recover_step pf b_first (next_step u) of
        None \<Rightarrow> None
      | Some (b_result, b_complete, u1) \<Rightarrow>
          let u2 = push_msg b_result txt_recovering u1
          in if b_complete then Some (b_result, u2)
             else
               (case running u2 of
                  (r, u3) \<Rightarrow> if r then recover_loop pf False u3 else Some (b_result, u3)))"
  by pat_completeness auto
termination
proof (relation "measures [\<lambda>(pf, b_first, u). if b_first then 1 else 0,
    \<lambda>(pf, b_first, u). length (m_dequeu_v_tx (u_proto u))]", goal_cases)
  case (2 pf b_first u x b_result y b_complete u1 u2 r u3)
  then have "u_proto u3 = u_proto u1" using u_proto_simps(4) [of u2] by (metis snd_conv u_proto_simps(2))
  then show ?case using 2 recover_step_decreases [of pf "next_step u" b_result u1] by (cases b_first) auto
qed simp

declare recover_loop.simps [simp del]

definition sub_recover_system_param :: "'d platform \<Rightarrow> dev_info \<Rightarrow> ('p, 'd) updater op" where
  "sub_recover_system_param pf dev u =
     (let u1 = push_msg True txt_recover_start u;
          finish = (\<lambda>b txt u. Some (b, push_msg b txt u))
      in if m_b_start_from_bootloader (u_share u1) then finish True txt_no_recovery u1
         else
           (case open_after pf dev u1 of
              (opened, u2) \<Rightarrow>
                if \<not> opened then finish False txt_open_error u2
                else do {
                  (b, u3) \<leftarrow> load_basic pf u2;
                  if \<not> b then finish False txt_load_error u3
                  else do {
                    (b_result, u4) \<leftarrow> recover_loop pf True u3;
                    finish b_result (if b_result then txt_recovered else txt_recover_error) u4
                  }
                }))"

definition sub_change_interface_after_update :: "'d platform \<Rightarrow> dev_info \<Rightarrow> ('p, 'd) updater op" where
  "sub_change_interface_after_update pf dev u =
     (if m_lpu23x_interface_after_update (u_share u) = interface_nc then Some (True, u)
      else
        let u1 = next_step (push_msg True txt_interface_start u);
            finish = (\<lambda>b txt u. Some (b, push_msg b txt u))
        in (case open_after pf dev u1 of
              (opened, u2) \<Rightarrow>
                if \<not> opened then finish False txt_open_error u2
                else do {
                  (b, u3) \<leftarrow> load_basic pf u2;
                  if \<not> b then finish False txt_load_error u3
                  else do {
                    (b_set, p, d) \<leftarrow> io_set_interface (pf_after_io pf) True
                       (m_lpu23x_interface_after_update (u_share u3)) (u_proto u3) (u_dev u3);
                    finish b_set (if b_set then txt_interface_changed else txt_interface_error)
                      (set_proto p d u3)
                  }
                }))"

definition sub_set_iso_mode_after_update :: "'d platform \<Rightarrow> dev_info \<Rightarrow> ('p, 'd) updater op" where
  "sub_set_iso_mode_after_update pf dev u =
     (if \<not> m_b_enable_iso_mode_after_update (u_share u) then Some (True, u)
      else
        let u1 = next_step (push_msg True txt_iso_start u);
            finish = (\<lambda>b txt u. Some (b, push_msg b txt u))
        in (case open_after pf dev u1 of
              (opened, u2) \<Rightarrow>
                if \<not> opened then finish False txt_open_error u2
                else do {
                  (b, u3) \<leftarrow> load_basic pf u2;
                  if \<not> b then finish False txt_load_error u3
                  else if m_b_mmd1100_is_iso_mode (u_proto u3) then finish True txt_iso_already u3
                  else do {
                    (b_set, p, d) \<leftarrow> io_set_mmd1100_to_iso_mode (pf_after_io pf) True (u_proto u3) (u_dev u3);
                    finish b_set (if b_set then txt_iso_changed else txt_iso_error) (set_proto p d u3)
                  }
                }))"

end
