(* ===== verification/UpdaterThread.thy ===== *)
theory UpdaterThread
  imports UpdaterSteps
begin

text \<open>
  The update thread (\<open>_updates_thread_function\<close> of
  \<open>src/shared/projects/lpu230_update/cupdater.cpp\<close>), composed of the steps of \<open>UpdaterSteps\<close>, and what
  an update as a whole does: which packets reach the boot loader, in which state the thread ends.
\<close>

section \<open>The thread\<close>

text \<open>How a part of the loop body ends: it goes on, with \<open>break\<close>, or with \<open>continue\<close>.\<close>

datatype 'u flow = flow_on 'u | flow_break 'u | flow_continue 'u

fun flow_seq :: "('u \<Rightarrow> 'u flow option) list \<Rightarrow> 'u \<Rightarrow> 'u flow option" where
  "flow_seq [] u = Some (flow_on u)"
| "flow_seq (f # fs) u =
     (case f u of
        Some (flow_on u1) \<Rightarrow> flow_seq fs u1
      | r \<Rightarrow> r)"

text \<open>\<open>if (!m_b_is_running) break;\<close>\<close>

definition check_running :: "('p, 'd) updater \<Rightarrow> ('p, 'd) updater flow option" where
  "check_running u = (case running u of (r, u1) \<Rightarrow> Some (if r then flow_on u1 else flow_break u1))"

definition end_with :: "'p file_env \<Rightarrow> app_event \<Rightarrow> ('p, 'd) updater \<Rightarrow> ('p, 'd) updater" where
  "end_with env ev u =
     (let u1 = on_app (\<lambda>a. snd (update_state env ev None a)) u;
          u2 = u1\<lparr>u_q_messages := push_message (- 1) False txt_none (u_q_messages u1)\<rparr>
      in on_app (\<lambda>a. a\<lparr>m_b_is_running := False\<rparr>) u2)"

text \<open>\<open>if (!step()) { _update_state(ev); _push_message(); m_b_is_running = false; continue; }\<close> and the check.\<close>

definition flow_step ::
  "'p file_env \<Rightarrow> app_event \<Rightarrow> ('p, 'd) updater op \<Rightarrow> ('p, 'd) updater \<Rightarrow> ('p, 'd) updater flow option" where
  "flow_step env ev f u =
     (case f u of
        None \<Rightarrow> None
      | Some (b, u1) \<Rightarrow> if \<not> b then Some (flow_continue (end_with env ev u1)) else check_running u1)"

definition step_backup :: "'d platform \<Rightarrow> ('p, 'd) updater op" where
  "step_backup pf u =
     map_option (\<lambda>(b, u1). (b, if b then u1\<lparr>u_need_close_lpu23x := True\<rparr> else u1)) (sub_backup_system_param pf u)"

definition step_run_bootloader :: "'d platform \<Rightarrow> ('p, 'd) updater op" where
  "step_run_bootloader pf u = sub_run_bootloader pf (u\<lparr>u_need_close_lpu23x := False\<rparr>)"

text \<open>The results of the two waits are not looked at.\<close>

definition step_wait_bootloader :: "'d platform \<Rightarrow> ('p, 'd) updater \<Rightarrow> ('p, 'd) updater flow option" where
  "step_wait_bootloader pf u =
     (case sub_wait_plugout_lpu23x pf u of
        ((_, b_in), u1) \<Rightarrow>
          (case running u1 of
             (r, u2) \<Rightarrow>
               if \<not> r then Some (flow_break u2)
               else if b_in then Some (flow_on (next_step u2))
               else check_running (snd (sub_wait_plugin_bootloader pf u2))))"

definition step_request_stop :: "'d platform \<Rightarrow> ('p, 'd) updater \<Rightarrow> ('p, 'd) updater flow option" where
  "step_request_stop pf u = Some (flow_on (snd (request_stop_all_hidboot pf u)))"

definition step_setup :: "'d platform \<Rightarrow> ('p, 'd) updater op" where
  "step_setup pf u =
     map_option (\<lambda>(b, u1). (b, if b then u1\<lparr>u_need_close_bootloader := True\<rparr> else u1)) (sub_setup_bootloader pf u)"

text \<open>An index given by the user replaces the selected firmware and its size here, after the lists of the
  sectors have been computed and the sectors have been erased.\<close>

definition step_user_index :: "('p, 'd) updater \<Rightarrow> ('p, 'd) updater flow option" where
  "step_user_index u =
     (if m_n_fw_index_by_user (u_share u) \<ge> 0 then
        map_option (\<lambda>sh. flow_on (on_share (\<lambda>_. sh) u))
          (set_firmware_list_of_rom_file (m_n_fw_index_by_user (u_share u)) [] (u_share u))
      else Some (flow_on u))"

definition step_read_write :: "'d platform \<Rightarrow> 'p file_env \<Rightarrow> ('p, 'd) updater op" where
  "step_read_write pf env u = read_write_loop pf env True (u\<lparr>u_sector := ([], 0)\<rparr>)"

definition step_run_app :: "'d platform \<Rightarrow> ('p, 'd) updater op" where
  "step_run_app pf u = sub_run_app pf (u\<lparr>u_need_close_bootloader := False\<rparr>)"

definition step_wait_lpu23x :: "'d platform \<Rightarrow> 'p file_env \<Rightarrow> ('p, 'd) updater \<Rightarrow> ('p, 'd) updater flow option" where
  "step_wait_lpu23x pf env u =
     (case sub_wait_plugin_lpu23x pf u of
        None \<Rightarrow> None
      | Some (None, u1) \<Rightarrow> Some (flow_continue (end_with env e_ustep_e u1))
      | Some (Some dev, u1) \<Rightarrow>
          (case running u1 of
             (r, u2) \<Rightarrow> Some (if \<not> r then flow_break u2 else flow_on (u2\<lparr>u_plugin_device := Some dev\<rparr>))))"

text \<open>The steps for the device that was found; without one they are not reached.\<close>

definition with_device :: "(dev_info \<Rightarrow> ('p, 'd) updater op) \<Rightarrow> ('p, 'd) updater op" where
  "with_device f u = (case u_plugin_device u of None \<Rightarrow> None | Some dev \<Rightarrow> f dev u)"

definition step_recover :: "'d platform \<Rightarrow> ('p, 'd) updater op" where
  "step_recover pf u =
     map_option (\<lambda>(b, u1). (b, if b then u1\<lparr>u_need_close_lpu23x := True\<rparr> else u1))
       (with_device (sub_recover_system_param pf) u)"

definition step_finish :: "'p file_env \<Rightarrow> ('p, 'd) updater \<Rightarrow> ('p, 'd) updater flow option" where
  "step_finish env u =
     (let u1 = push_msg True txt_complete (on_app (\<lambda>a. snd (update_state env e_ulstep_s None a)) u)
      in Some (flow_continue (on_app (\<lambda>a. a\<lparr>m_b_is_running := False\<rparr>) u1)))"

definition updates_pass :: "'d platform \<Rightarrow> 'p file_env \<Rightarrow> ('p, 'd) updater \<Rightarrow> ('p, 'd) updater flow option" where
  "updates_pass pf env u =
     flow_seq
       [flow_step env e_ustep_e (step_backup pf),
        flow_step env e_ustep_e (step_run_bootloader pf),
        step_wait_bootloader pf,
        step_request_stop pf,
        flow_step env e_ustep_e (step_setup pf),
        flow_step env e_ustep_e (sub_erase_sector pf),
        step_user_index,
        flow_step env e_ustep_e (step_read_write pf env),
        flow_step env e_ustep_e (step_run_app pf),
        flow_step env e_ustep_e (sub_wait_plugout_bootloader pf),
        step_wait_lpu23x pf env,
        flow_step env e_ustep_e (step_recover pf),
        flow_step env e_ustep_e (with_device (sub_change_interface_after_update pf)),
        flow_step env e_ulstep_e (with_device (sub_set_iso_mode_after_update pf)),
        step_finish env]
       (u\<lparr>u_possible_exit := False, u_step := 1\<rparr>)"

text \<open>The loop sleeps until the state is the one of an update; nothing bounds that.\<close>

partial_function (option) updates_loop ::
  "'d platform \<Rightarrow> 'p file_env \<Rightarrow> ('p, 'd) updater \<Rightarrow> ('p, 'd) updater option" where
  "updates_loop pf env u =
     (case running u of
        (r, u1) \<Rightarrow>
          if \<not> r then Some u1
          else if m_state (u_app u1) \<noteq> s_ing then updates_loop pf env u1
          else
            (case running u1 of
               (r', u2) \<Rightarrow>
                 if \<not> r' then Some u2
                 else
                   (case updates_pass pf env u2 of
                      None \<Rightarrow> None
                    | Some (flow_break u3) \<Rightarrow> Some u3
                    | Some (flow_continue u3) \<Rightarrow> updates_loop pf env u3
                    | Some (flow_on u3) \<Rightarrow> updates_loop pf env u3)))"

definition updates_thread_function ::
  "'d platform \<Rightarrow> 'p file_env \<Rightarrow> ('p, 'd) updater \<Rightarrow> ('p, 'd) updater option" where
  "updates_thread_function pf env u =
     map_option (\<lambda>u1.
       let u2 = (if u_need_close_lpu23x u1 then clear_target_lpu23x u1 else u1);
           u3 = (if u_need_close_bootloader u2 then close_boot u2 else u2)
       in u3\<lparr>u_possible_exit := True\<rparr>)
       (updates_loop pf env (u\<lparr>u_need_close_lpu23x := False, u_need_close_bootloader := False\<rparr>))"

section \<open>Nothing but the thread and the stop flag\<close>

text \<open>
  What every step leaves alone: the state, and the stop flag unless another thread clears it.
\<close>

definition calm :: "('p, 'd) updater \<Rightarrow> ('p, 'd) updater \<Rightarrow> bool" where
  "calm u u' =
     (m_state (u_app u') = m_state (u_app u)
      \<and> set (u_stops u') \<subseteq> set (u_stops u)
      \<and> (True \<notin> set (u_stops u) \<longrightarrow> m_b_is_running (u_app u') = m_b_is_running (u_app u)))"

named_theorems calms "steps that leave the state and the stop flag alone"

lemma calm_refl [simp]: "calm u u"
  by (simp add: calm_def)

lemma calm_trans [trans]: "calm u v \<Longrightarrow> calm v w \<Longrightarrow> calm u w"
  by (auto simp: calm_def)

lemma calm_simple [simp]:
  "calm u (push_msg b t u)" "calm u (next_step u)" "calm u (use_filter fl u)"
  "calm u (clear_target_lpu23x u)" "calm u (close_boot u)" "calm u (set_proto p d u)"
  "calm u (on_share f u)" "calm u (update_devs pf u)"
  by (simp_all add: calm_def push_msg_def next_step_def use_filter_def clear_target_lpu23x_def
      close_boot_def set_proto_def on_share_def update_devs_def split: prod.splits)

lemma calm_fields [simp]:
  "calm u (u\<lparr>u_dev := d\<rparr>)" "calm u (u\<lparr>u_boot := m\<rparr>)" "calm u (u\<lparr>u_bootloader_path := p\<rparr>)"
  "calm u (u\<lparr>u_need_close_lpu23x := b\<rparr>)" "calm u (u\<lparr>u_need_close_bootloader := b\<rparr>)"
  "calm u (u\<lparr>u_plugin_device := i\<rparr>)" "calm u (u\<lparr>u_possible_exit := b\<rparr>)"
  "calm u (u\<lparr>u_sector := out, u_cursor := cur\<rparr>)" "calm u (u\<lparr>u_sector := out\<rparr>)"
  "calm u (u\<lparr>u_possible_exit := b, u_step := k\<rparr>)" "calm u (u\<lparr>u_boot := m, u_dev := d\<rparr>)"
  by (simp_all add: calm_def)

lemma calm_running: "calm u (snd (running u))"
  by (auto simp: calm_def running_def on_app_def Let_def split: list.splits)

lemma calm_running_eq: "running u = (r, u') \<Longrightarrow> calm u u'"
  using calm_running [of u] by simp

text \<open>Without a request to stop, the flag is found set.\<close>

lemma running_no_stop:
  assumes "running u = (r, u')" "True \<notin> set (u_stops u)" "m_b_is_running (u_app u)"
  shows "r"
  using assms by (auto simp: running_def on_app_def Let_def split: list.splits)

lemma backup_loop_calm [calms]: "backup_loop pf b_first u = Some (b, u') \<Longrightarrow> calm u u'"
proof (induction pf b_first u rule: backup_loop.induct)
  case (1 pf b_first u)
  obtain b_result b_complete u1 where s: "save_step pf b_first (next_step u) = Some (b_result, b_complete, u1)"
    using "1.prems" by (subst (asm) backup_loop.simps) (auto split: option.splits)
  have "calm u (next_step u)" by simp
  also have "calm (next_step u) u1" using s by (auto simp: save_step_def)
  also have "calm u1 u'"
  proof (cases "b_result \<and> \<not> b_complete")
    case True
    obtain r u3 where r: "running (push_msg True txt_backup u1) = (r, u3)"
      by (cases "running (push_msg True txt_backup u1)")
    have "calm u1 u3" using calm_trans [OF calm_simple(1) calm_running_eq [OF r]] .
    moreover have "calm u3 u'"
    proof (cases r)
      case rt: True
      then have "backup_loop pf False u3 = Some (b, u')"
        using "1.prems" s r True by (subst (asm) backup_loop.simps) (simp add: Let_def)
      then show ?thesis using "1.IH" [OF s refl refl _ refl _ r [symmetric]] True rt by simp
    next
      case False
      then show ?thesis using "1.prems" s r True by (subst (asm) backup_loop.simps) (simp add: Let_def)
    qed
    ultimately show ?thesis by (rule calm_trans)
  next
    case False
    then show ?thesis using "1.prems" s by (subst (asm) backup_loop.simps) (auto simp: Let_def split: if_splits)
  qed
  finally show ?case .
qed

lemma recover_loop_calm [calms]: "recover_loop pf b_first u = Some (b, u') \<Longrightarrow> calm u u'"
proof (induction pf b_first u rule: recover_loop.induct)
  case (1 pf b_first u)
  obtain b_result b_complete u1 where s: "recover_step pf b_first (next_step u) = Some (b_result, b_complete, u1)"
    using "1.prems" by (subst (asm) recover_loop.simps) (auto split: option.splits)
  let ?u2 = "push_msg b_result txt_recovering u1"
  have "calm u (next_step u)" by simp
  also have "calm (next_step u) u1" using s by (auto simp: recover_step_def)
  also have "calm u1 u'"
  proof (cases b_complete)
    case False
    obtain r u3 where r: "running ?u2 = (r, u3)" by (cases "running ?u2")
    have "calm u1 u3" using calm_trans [OF calm_simple(1) calm_running_eq [OF r]] .
    moreover have "calm u3 u'"
    proof (cases r)
      case rt: True
      then have "recover_loop pf False u3 = Some (b, u')"
        using "1.prems" s r False by (subst (asm) recover_loop.simps) (simp add: Let_def)
      then show ?thesis using "1.IH" [OF s refl refl refl _ r [symmetric]] False rt by simp
    next
      case rf: False
      then show ?thesis using "1.prems" s r False by (subst (asm) recover_loop.simps) (simp add: Let_def)
    qed
    ultimately show ?thesis by (rule calm_trans)
  next
    case True
    then show ?thesis using "1.prems" s by (subst (asm) recover_loop.simps) (auto simp: Let_def)
  qed
  finally show ?case .
qed

lemma wait_plugout_lpu_calm [calms]: "wait_plugout_lpu23x_loop pf n u = (r, u') \<Longrightarrow> calm u u'"
proof (induction n arbitrary: u)
  case (Suc n)
  let ?u1 = "update_devs pf u"
  obtain q u2 where q: "running ?u1 = (q, u2)" by (cases "running ?u1")
  have u2: "calm u u2" using calm_trans [OF calm_simple(8) calm_running_eq [OF q]] .
  show ?case
  proof (cases "find_path (m_set_removed_dev_info (u_lib ?u1)) (u_device_path ?u1)")
    case None
    then show ?thesis using Suc q u2 by (auto simp: Let_def split: if_splits intro: calm_trans)
  next
    case (Some i)
    have "calm u (clear_target_lpu23x ?u1)" using calm_trans [OF calm_simple(8) calm_simple(4)] .
    then show ?thesis
      using Suc.prems Some calm_trans [OF _ calm_fields(3)] by (auto simp: Let_def split: option.splits)
  qed
qed simp

lemma wait_plugin_boot_calm [calms]: "wait_plugin_bootloader_loop pf n u = (r, u') \<Longrightarrow> calm u u'"
proof (induction n arbitrary: u)
  case (Suc n)
  let ?u1 = "update_devs pf u"
  obtain q u2 where q: "running ?u1 = (q, u2)" by (cases "running ?u1")
  have u2: "calm u u2" using calm_trans [OF calm_simple(8) calm_running_eq [OF q]] .
  show ?case
    using Suc q u2 calm_trans [OF calm_simple(8) calm_fields(3)]
    by (auto simp: Let_def split: if_splits option.splits intro: calm_trans)
qed simp

lemma wait_plugout_boot_calm [calms]: "wait_plugout_bootloader_loop pf n u = (r, u') \<Longrightarrow> calm u u'"
proof (induction n arbitrary: u)
  case (Suc n)
  let ?u1 = "update_devs pf u"
  obtain q u2 where q: "running ?u1 = (q, u2)" by (cases "running ?u1")
  have u2: "calm u u2" using calm_trans [OF calm_simple(8) calm_running_eq [OF q]] .
  show ?case
    using Suc q u2 calm_trans [OF calm_simple(8) calm_fields(3)]
    by (auto simp: Let_def split: if_splits option.splits intro: calm_trans)
qed simp

lemma wait_plugin_lpu_calm [calms]: "wait_plugin_lpu23x_loop pf n u = (r, u') \<Longrightarrow> calm u u'"
proof (induction n arbitrary: u)
  case (Suc n)
  let ?u1 = "update_devs pf u"
  obtain q u2 where q: "running ?u1 = (q, u2)" by (cases "running ?u1")
  have u2: "calm u u2" using calm_trans [OF calm_simple(8) calm_running_eq [OF q]] .
  show ?case
    using Suc q u2 by (auto simp: Let_def split: if_splits option.splits intro: calm_trans)
qed simp

lemma run_all_calm:
  assumes "\<And>f u b u'. f \<in> set fs \<Longrightarrow> f u = Some (b, u') \<Longrightarrow> calm u u'"
  shows "run_all fs u = Some (b, u') \<Longrightarrow> calm u u'"
  using assms
proof (induction fs arbitrary: u)
  case (Cons f fs)
  obtain b1 u1 where f: "f u = Some (b1, u1)" using Cons.prems(1) by (auto split: option.splits)
  have "calm u u1" using Cons.prems(2) [of f u b1 u1] f by simp
  moreover have "calm u1 u'"
  proof (cases b1)
    case True
    then have "run_all fs u1 = Some (b, u')" using Cons.prems(1) f by simp
    then show ?thesis
    proof (rule Cons.IH)
      fix f u b u'
      assume "f \<in> set fs" "f u = Some (b, u')"
      then show "calm u u'" using Cons.prems(2) [of f u b u'] by simp
    qed
  next
    case False
    then show ?thesis using Cons.prems(1) f by simp
  qed
  ultimately show ?case by (rule calm_trans)
qed simp

lemma read_calm: "sub_read_one_sector_from_file env b_first u = Some (b, c, u') \<Longrightarrow> calm u u'"
  by (auto simp: sub_read_one_sector_from_file_def calm_def next_step_def push_msg_def)

lemma write_calm: "sub_write_one_sector pf u = Some (b, u') \<Longrightarrow> calm u u'"
  by (auto simp: sub_write_one_sector_def calm_def next_step_def push_msg_def Let_def split: if_splits)

lemma read_write_calm [calms]: "read_write_loop pf env b_first u = Some (b, u') \<Longrightarrow> calm u u'"
proof (induction pf env b_first u rule: read_write_loop.induct)
  case (1 pf env b_first u)
  obtain b1 c u1 where rd: "sub_read_one_sector_from_file env b_first u = Some (b1, c, u1)"
    using "1.prems" by (subst (asm) read_write_loop.simps) (auto split: option.splits)
  obtain r1 u2 where r1: "running u1 = (r1, u2)" by (cases "running u1")
  note c2 = calm_trans [OF read_calm [OF rd] calm_running_eq [OF r1]]
  show ?case
  proof (cases "b1 \<and> r1")
    case False
    then show ?thesis
      using "1.prems" rd r1 c2 read_calm [OF rd] by (subst (asm) read_write_loop.simps) (auto split: if_splits)
  next
    case t: True
    then obtain b3 u3 where w: "sub_write_one_sector pf u2 = Some (b3, u3)"
      using "1.prems" rd r1 by (subst (asm) read_write_loop.simps) (auto split: option.splits)
    obtain r2 u4 where r2: "running u3 = (r2, u4)" by (cases "running u3")
    obtain r3 u5 where r3: "running u4 = (r3, u5)" by (cases "running u4")
    note c3 = calm_trans [OF c2 write_calm [OF w]]
    note c4 = calm_trans [OF c3 calm_running_eq [OF r2]]
    note c5 = calm_trans [OF c4 calm_running_eq [OF r3]]
    show ?thesis
    proof (cases "b3 \<and> r2 \<and> \<not> c \<and> r3")
      case True
      then have "read_write_loop pf env False u5 = Some (b, u')"
        using "1.prems" rd r1 w r2 r3 t by (subst (asm) read_write_loop.simps) simp
      then have "calm u5 u'"
        using "1.IH" [OF rd refl refl _ r1 [symmetric] _ w refl _ r2 [symmetric] _ _ r3 [symmetric]] t True
        by simp
      then show ?thesis by (rule calm_trans [OF c5])
    next
      case False
      then show ?thesis
        using "1.prems" rd r1 w r2 r3 t c3 c4 c5
        by (subst (asm) read_write_loop.simps) (auto split: if_splits)
    qed
  qed
qed

lemma calm_stack [simp]:
  "calm u (push_msg b t v) = calm u v" "calm u (next_step v) = calm u v"
  "calm u (use_filter fl v) = calm u v" "calm u (clear_target_lpu23x v) = calm u v"
  "calm u (close_boot v) = calm u v" "calm u (set_proto p d v) = calm u v"
  "calm u (on_share f v) = calm u v" "calm u (update_devs pf v) = calm u v"
  "calm u (v\<lparr>u_dev := d\<rparr>) = calm u v" "calm u (v\<lparr>u_boot := m\<rparr>) = calm u v"
  "calm u (v\<lparr>u_bootloader_path := path\<rparr>) = calm u v"
  "calm u (v\<lparr>u_need_close_lpu23x := b\<rparr>) = calm u v"
  "calm u (v\<lparr>u_need_close_bootloader := b\<rparr>) = calm u v"
  "calm u (v\<lparr>u_plugin_device := i\<rparr>) = calm u v"
  by (simp_all add: calm_def push_msg_def next_step_def use_filter_def clear_target_lpu23x_def
      close_boot_def set_proto_def on_share_def update_devs_def split: prod.splits)

lemma calm_stack_left [simp]:
  "calm (push_msg b t v) u = calm v u" "calm (next_step v) u = calm v u"
  "calm (use_filter fl v) u = calm v u" "calm (v\<lparr>u_need_close_lpu23x := b\<rparr>) u = calm v u"
  "calm (v\<lparr>u_need_close_bootloader := b\<rparr>) u = calm v u" "calm (v\<lparr>u_sector := out\<rparr>) u = calm v u"
  by (simp_all add: calm_def push_msg_def next_step_def use_filter_def)

lemma open_after_calm: "open_after pf dev u = (b, u') \<Longrightarrow> calm u u'"
  by (auto simp: open_after_def calm_def split: prod.splits)

lemma load_basic_calm: "load_basic pf u = Some (b, u') \<Longrightarrow> calm u u'"
  by (auto simp: load_basic_def)

lemma backup_calm [calms]: "step_backup pf u = Some (b, u') \<Longrightarrow> calm u u'"
  by (auto simp: step_backup_def sub_backup_system_param_def dest: backup_loop_calm split: if_splits)

lemma run_bootloader_calm [calms]: "step_run_bootloader pf u = Some (b, u') \<Longrightarrow> calm u u'"
  by (auto simp: step_run_bootloader_def sub_run_bootloader_def Let_def split: if_splits bind_splits)

lemma select_boot_calm: "select_boot pf s u = Some (b, u') \<Longrightarrow> calm u u'"
  by (auto simp: select_boot_def calm_def on_share_def split: prod.splits)

lemma GetDeviceList_calm: "calm u (GetDeviceList pf u)"
  by (simp add: GetDeviceList_def Let_def)

lemma setup_calm [calms]: "step_setup pf u = Some (b, u') \<Longrightarrow> calm u u'"
  using GetDeviceList_calm [of u pf]
  by (auto simp: step_setup_def sub_setup_bootloader_def split: if_splits bind_splits
      dest!: select_boot_calm) (blast intro: calm_trans)+

lemma erase_one_calm: "erase_one pf n u = Some (b, u') \<Longrightarrow> calm u u'"
  by (auto simp: erase_one_def Let_def)

lemma erase_calm [calms]: "sub_erase_sector pf u = Some (b, u') \<Longrightarrow> calm u u'"
  unfolding sub_erase_sector_def by (erule run_all_calm [rotated]) (auto dest: erase_one_calm)

lemma step_read_write_calm [calms]: "step_read_write pf env u = Some (b, u') \<Longrightarrow> calm u u'"
  using read_write_calm [of pf env True "u\<lparr>u_sector := ([], 0)\<rparr>"] by (simp add: step_read_write_def)

lemma run_app_calm [calms]: "step_run_app pf u = Some (b, u') \<Longrightarrow> calm u u'"
  by (auto simp: step_run_app_def sub_run_app_def calm_def push_msg_def split: prod.splits)

lemma plugout_boot_calm [calms]: "sub_wait_plugout_bootloader pf u = Some (b, u') \<Longrightarrow> calm u u'"
  by (auto simp: sub_wait_plugout_bootloader_def split: prod.splits dest!: wait_plugout_boot_calm)

lemma recover_calm [calms]: "step_recover pf u = Some (b, u') \<Longrightarrow> calm u u'"
  by (auto simp: step_recover_def with_device_def sub_recover_system_param_def Let_def
      split: option.splits prod.splits if_splits bind_splits
      dest!: open_after_calm load_basic_calm recover_loop_calm) (blast intro: calm_trans)+

lemma interface_calm [calms]: "with_device (sub_change_interface_after_update pf) u = Some (b, u') \<Longrightarrow> calm u u'"
  by (auto simp: with_device_def sub_change_interface_after_update_def Let_def
      split: option.splits prod.splits if_splits bind_splits
      dest!: open_after_calm load_basic_calm) (blast intro: calm_trans)+

lemma iso_calm [calms]: "with_device (sub_set_iso_mode_after_update pf) u = Some (b, u') \<Longrightarrow> calm u u'"
  by (auto simp: with_device_def sub_set_iso_mode_after_update_def Let_def
      split: option.splits prod.splits if_splits bind_splits
      dest!: open_after_calm load_basic_calm) (blast intro: calm_trans)+

section \<open>How the thread ends\<close>

text \<open>A part of the loop body goes on calmly; a \<open>break\<close> only comes from a request to stop; a \<open>continue\<close> leaves the
  final state and clears the flag.\<close>

definition flow_ok :: "('p, 'd) updater \<Rightarrow> ('p, 'd) updater flow \<Rightarrow> bool" where
  "flow_ok u r =
     (case r of
        flow_on u' \<Rightarrow> calm u u'
      | flow_break u' \<Rightarrow> m_state (u_app u') = m_state (u_app u) \<and> \<not> m_b_is_running (u_app u')
          \<and> (m_b_is_running (u_app u) \<longrightarrow> True \<in> set (u_stops u))
      | flow_continue u' \<Rightarrow> (m_state (u_app u) = s_ing \<longrightarrow> m_state (u_app u') = s_com)
          \<and> \<not> m_b_is_running (u_app u'))"

lemma flow_ok_trans: "calm u v \<Longrightarrow> flow_ok v r \<Longrightarrow> flow_ok u r"
  by (auto simp: flow_ok_def calm_def split: flow.splits)

lemma running_cleared: "running u = (False, u') \<Longrightarrow> \<not> m_b_is_running (u_app u')"
  by (auto simp: running_def on_app_def Let_def split: list.splits)

lemma break_ok: "running u = (False, u') \<Longrightarrow> flow_ok u (flow_break u')"
  using running_cleared [of u u'] calm_running_eq [of u False u'] running_no_stop [of u False u']
  by (auto simp: flow_ok_def calm_def)

lemma check_running_ok: "check_running u = Some r \<Longrightarrow> flow_ok u r"
  using break_ok [of u] calm_running_eq [of u]
  by (auto simp: check_running_def flow_ok_def split: prod.splits if_splits)

lemma end_with_ok: "ev \<in> {e_ustep_e, e_ulstep_e} \<Longrightarrow> flow_ok u (flow_continue (end_with env ev u))"
  using thread_event [of "u_app u" ev env] by (auto simp: flow_ok_def end_with_def on_app_def Let_def)

lemma flow_step_ok:
  assumes "\<And>u b u'. f u = Some (b, u') \<Longrightarrow> calm u u'" "ev \<in> {e_ustep_e, e_ulstep_e}"
    and "flow_step env ev f u = Some r"
  shows "flow_ok u r"
proof -
  obtain b u1 where f: "f u = Some (b, u1)" using assms(3) by (auto simp: flow_step_def split: option.splits)
  have "flow_ok u1 r"
    using assms(3) f end_with_ok [OF assms(2)] check_running_ok by (auto simp: flow_step_def split: if_splits)
  then show ?thesis by (rule flow_ok_trans [OF assms(1) [OF f]])
qed

lemma flow_seq_ok:
  assumes "\<And>f u r. f \<in> set fs \<Longrightarrow> f u = Some r \<Longrightarrow> flow_ok u r" "flow_seq fs u = Some r"
  shows "flow_ok u r"
  using assms
proof (induction fs arbitrary: u)
  case Nil
  then show ?case by (auto simp: flow_ok_def)
next
  case (Cons f fs)
  obtain r1 where f: "f u = Some r1" using Cons.prems(2) by (auto split: option.splits)
  have r1: "flow_ok u r1" using Cons.prems(1) [of f u r1] f by simp
  show ?case
  proof (cases r1)
    case (flow_on u1)
    then have "flow_seq fs u1 = Some r" using Cons.prems(2) f by simp
    then have "flow_ok u1 r"
    proof (rule Cons.IH [rotated])
      fix f u r
      assume "f \<in> set fs" "f u = Some r"
      then show "flow_ok u r" using Cons.prems(1) [of f u r] by simp
    qed
    then show ?thesis using flow_ok_trans r1 flow_on by (auto simp: flow_ok_def [of u "flow_on u1"])
  qed (use Cons.prems(2) f r1 in auto)
qed

lemma wait_bootloader_ok: "step_wait_bootloader pf u = Some r \<Longrightarrow> flow_ok u r"
proof -
  assume a: "step_wait_bootloader pf u = Some r"
  obtain b b_in u1 where w: "sub_wait_plugout_lpu23x pf u = ((b, b_in), u1)"
    by (cases "sub_wait_plugout_lpu23x pf u") auto
  obtain q u2 where q: "running u1 = (q, u2)" by (cases "running u1")
  have c1: "calm u u1"
    using w by (auto simp: sub_wait_plugout_lpu23x_def split: prod.splits if_splits dest!: wait_plugout_lpu_calm)
  have c2: "calm u u2" by (rule calm_trans [OF c1 calm_running_eq [OF q]])
  have c3: "calm u2 (snd (sub_wait_plugin_bootloader pf u2))"
    by (auto simp: sub_wait_plugin_bootloader_def split: prod.splits dest!: wait_plugin_boot_calm)
  show ?thesis
  proof (cases q)
    case False
    then show ?thesis using a w q flow_ok_trans [OF c1 break_ok [of u1 u2]] by (simp add: step_wait_bootloader_def)
  next
    case True
    then show ?thesis
      using a w q c2 flow_ok_trans [OF calm_trans [OF c2 c3] check_running_ok]
      by (auto simp: step_wait_bootloader_def flow_ok_def [of u "flow_on (next_step u2)"] split: if_splits)
  qed
qed

lemma wait_lpu_ok: "step_wait_lpu23x pf env u = Some r \<Longrightarrow> flow_ok u r"
proof -
  assume a: "step_wait_lpu23x pf env u = Some r"
  obtain dev u1 where w: "sub_wait_plugin_lpu23x pf u = Some (dev, u1)"
    using a by (auto simp: step_wait_lpu23x_def split: option.splits)
  obtain q u2 where q: "running u1 = (q, u2)" by (cases "running u1")
  have c1: "calm u u1"
    using w by (auto simp: sub_wait_plugin_lpu23x_def split: prod.splits dest!: wait_plugin_lpu_calm)
  have "flow_ok u1 r"
    using a w q end_with_ok [of e_ustep_e u1 env] break_ok [of u1 u2] calm_running_eq [OF q]
    by (cases q; cases dev)
      (auto simp: step_wait_lpu23x_def flow_ok_def [of u1 "flow_on (u2\<lparr>u_plugin_device := x\<rparr>)" for x])
  then show ?thesis by (rule flow_ok_trans [OF c1])
qed

lemma pass_ok:
  assumes "updates_pass pf env u = Some r"
  shows "flow_ok u r"
proof -
  let ?u = "u\<lparr>u_possible_exit := False, u_step := 1\<rparr>"
  have "flow_ok ?u r"
    using assms unfolding updates_pass_def
  proof (rule flow_seq_ok [rotated])
    fix f v q
    assume f: "f \<in> set [flow_step env e_ustep_e (step_backup pf),
        flow_step env e_ustep_e (step_run_bootloader pf), step_wait_bootloader pf, step_request_stop pf,
        flow_step env e_ustep_e (step_setup pf), flow_step env e_ustep_e (sub_erase_sector pf),
        step_user_index, flow_step env e_ustep_e (step_read_write pf env),
        flow_step env e_ustep_e (step_run_app pf),
        flow_step env e_ustep_e (sub_wait_plugout_bootloader pf), step_wait_lpu23x pf env,
        flow_step env e_ustep_e (step_recover pf),
        flow_step env e_ustep_e (with_device (sub_change_interface_after_update pf)),
        flow_step env e_ulstep_e (with_device (sub_set_iso_mode_after_update pf)), step_finish env]"
      and q: "f v = Some q"
    have finish: "step_finish env v = Some q \<Longrightarrow> flow_ok v q"
      using thread_event [of "u_app v" e_ulstep_s env]
      by (auto simp: step_finish_def flow_ok_def on_app_def push_msg_def Let_def)
    have request: "step_request_stop pf v = Some q \<Longrightarrow> flow_ok v q"
      by (auto simp: step_request_stop_def request_stop_all_hidboot_def flow_ok_def Let_def
          split: prod.splits if_splits)
    have index: "step_user_index v = Some q \<Longrightarrow> flow_ok v q"
      by (auto simp: step_user_index_def flow_ok_def split: if_splits)
    have subs: "flow_step env ev g v = Some q \<Longrightarrow> (\<And>u b u'. g u = Some (b, u') \<Longrightarrow> calm u u') \<Longrightarrow>
        ev \<in> {e_ustep_e, e_ulstep_e} \<Longrightarrow> flow_ok v q" for ev g
      by (rule flow_step_ok)
    show "flow_ok v q"
      using f q finish request index wait_bootloader_ok [of pf v q] wait_lpu_ok [of pf env v q]
      by (auto intro: subs calms)
  qed
  then show ?thesis by (rule flow_ok_trans [rotated]) simp
qed

section \<open>The end of the thread\<close>

lemma updates_loop_done:
  assumes "updates_loop pf env u = Some u'"
  shows "\<not> m_b_is_running (u_app u')
     \<and> (m_state (u_app u) = s_ing \<longrightarrow> m_state (u_app u') \<in> {s_ing, s_com})
     \<and> (m_state (u_app u) = s_ing \<and> m_b_is_running (u_app u) \<and> True \<notin> set (u_stops u)
          \<longrightarrow> m_state (u_app u') = s_com)"
proof -
  let ?P = "\<lambda>pf env u u'. \<not> m_b_is_running (u_app u')
     \<and> (m_state (u_app u) \<in> {s_ing, s_com} \<longrightarrow> m_state (u_app u') \<in> {s_ing, s_com})
     \<and> (m_state (u_app u) = s_com \<longrightarrow> m_state (u_app u') = s_com)
     \<and> (m_state (u_app u) = s_ing \<and> m_b_is_running (u_app u) \<and> True \<notin> set (u_stops u)
          \<longrightarrow> m_state (u_app u') = s_com)"
  have "?P pf env u u'"
  proof (rule updates_loop.raw_induct [where P = ?P, OF _ assms])
    fix f pf env and u u' :: "('a, 'b) updater"
    assume ih: "\<And>pf env u u'. f pf env u = Some u' \<Longrightarrow> ?P pf env u u'"
      and body: "(case running u of
          (r, u1) \<Rightarrow>
            if \<not> r then Some u1
            else if m_state (u_app u1) \<noteq> s_ing then f pf env u1
            else (case running u1 of
                (r', u2) \<Rightarrow>
                  if \<not> r' then Some u2
                  else (case updates_pass pf env u2 of
                      None \<Rightarrow> None
                    | Some (flow_break u3) \<Rightarrow> Some u3
                    | Some (flow_continue u3) \<Rightarrow> f pf env u3
                    | Some (flow_on u3) \<Rightarrow> f pf env u3))) = Some u'"
    obtain r u1 where r: "running u = (r, u1)" by (cases "running u")
    obtain r' u2 where r': "running u1 = (r', u2)" by (cases "running u1")
    note c1 = calm_running_eq [OF r] and c2 = calm_running_eq [OF r']
    show "?P pf env u u'"
    proof (cases "r \<and> m_state (u_app u1) = s_ing \<and> r'")
      case False
      then show ?thesis
        using body r r' c1 c2 ih [of pf env u1 u'] running_cleared [of u u1] running_cleared [of u1 u2]
          running_no_stop [OF r] running_no_stop [OF r']
        by (auto simp: calm_def split: if_splits)
    next
      case True
      then obtain q where q: "updates_pass pf env u2 = Some q"
        using body r r' by (auto split: option.splits)
      note ok = flow_ok_trans [OF calm_trans [OF c1 c2] pass_ok [OF q]]
      have st: "m_state (u_app u) = s_ing" using True c1 by (simp add: calm_def)
      show ?thesis
      proof (cases q)
        case (flow_on u3)
        then have "f pf env u3 = Some u'" using body r r' q True by simp
        from ih [OF this] ok st flow_on show ?thesis by (auto simp: flow_ok_def calm_def)
      next
        case (flow_break u3)
        then have "u' = u3" using body r r' q True by simp
        then show ?thesis using ok st flow_break by (auto simp: flow_ok_def)
      next
        case (flow_continue u3)
        then have "f pf env u3 = Some u'" using body r r' q True by simp
        from ih [OF this] ok st flow_continue show ?thesis by (auto simp: flow_ok_def)
      qed
    qed
  qed
  then show ?thesis by blast
qed

text \<open>Whether the thread of an undisturbed update ends is whether one pass of its loop ends: the
  loop is never entered twice.\<close>

lemma pass_never_goes_on:
  assumes "updates_pass pf env u = Some r"
  shows "\<exists>v. r = flow_break v \<or> r = flow_continue v"
proof -
  have "flow_seq (fs @ [step_finish env]) v = Some r \<Longrightarrow> \<exists>w. r = flow_break w \<or> r = flow_continue w" for fs v
    by (induction fs arbitrary: v) (auto simp: step_finish_def Let_def split: option.splits flow.splits)
  from this [of "[flow_step env e_ustep_e (step_backup pf),
        flow_step env e_ustep_e (step_run_bootloader pf), step_wait_bootloader pf, step_request_stop pf,
        flow_step env e_ustep_e (step_setup pf), flow_step env e_ustep_e (sub_erase_sector pf),
        step_user_index, flow_step env e_ustep_e (step_read_write pf env),
        flow_step env e_ustep_e (step_run_app pf),
        flow_step env e_ustep_e (sub_wait_plugout_bootloader pf), step_wait_lpu23x pf env,
        flow_step env e_ustep_e (step_recover pf),
        flow_step env e_ustep_e (with_device (sub_change_interface_after_update pf)),
        flow_step env e_ulstep_e (with_device (sub_set_iso_mode_after_update pf))]"]
  show ?thesis using assms by (simp add: updates_pass_def)
qed

lemma stopped_loop_ends: "\<not> m_b_is_running (u_app u) \<Longrightarrow> updates_loop pf env u \<noteq> None"
  by (subst updates_loop.simps) (auto simp: running_def Let_def split: list.splits)

lemma thread_ends_if_pass_ends:
  assumes "updates_pass pf env (u\<lparr>u_need_close_lpu23x := False, u_need_close_bootloader := False\<rparr>) = Some r"
    and "m_state (u_app u) = s_ing" "m_b_is_running (u_app u)" "u_stops u = []"
  shows "\<exists>u'. updates_thread_function pf env u = Some u'"
proof -
  let ?u = "u\<lparr>u_need_close_lpu23x := False, u_need_close_bootloader := False\<rparr>"
  have run: "running ?u = (True, ?u)" using assms(3,4) by (simp add: running_def)
  have "updates_loop pf env ?u \<noteq> None"
  proof -
    obtain v where v: "r = flow_break v \<or> r = flow_continue v" using pass_never_goes_on [OF assms(1)] by blast
    have "flow_ok ?u r" by (rule pass_ok [OF assms(1)])
    then have "\<not> m_b_is_running (u_app v)" using v by (auto simp: flow_ok_def)
    then show ?thesis
      using v stopped_loop_ends [of v pf env] run assms(1,2) by (subst updates_loop.simps) auto
  qed
  then show ?thesis by (auto simp: updates_thread_function_def)
qed


end
