(* ===== verification/UpdateSession.thy ===== *)
theory UpdateSession
  imports UpdaterThread
begin

text \<open>
  What an update does to the boot loader: the reading and writing loop of the thread against a device
  that keeps what was sent to it, refined down to the packets of the sectors of the firmware, and the
  progress of the loop with a device that accepts everything.
\<close>

section \<open>One round of the loop\<close>

text \<open>No other thread asks to stop.\<close>

definition undisturbed :: "('p, 'd) updater \<Rightarrow> bool" where
  "undisturbed u = (u_stops u = [] \<and> m_b_is_running (u_app u))"

lemma running_undisturbed [simp]: "undisturbed u \<Longrightarrow> running u = (True, u)"
  by (simp add: undisturbed_def running_def)

text \<open>The cursor stands at entry \<open>i\<close> of the write list.\<close>

definition reader_at :: "bytes \<Rightarrow> bool \<Rightarrow> nat \<Rightarrow> ('p, 'd) updater \<Rightarrow> bool" where
  "reader_at fw b_first i u =
     (if b_first then i = 0
      else n_write_sector_index (u_cursor u) = i
        \<and> (dw_last_readdone (u_cursor u) < 4096 \<longrightarrow> Suc i = fw_sectors fw))"

definition update_of ::
  "'p file_env \<Rightarrow> ('p, 'd) updater \<Rightarrow> int \<Rightarrow> bytes \<Rightarrow> bool" where
  "update_of env u start fw =
     (env_rom env \<and> undisturbed u
      \<and> fw_selected (env_files env) (m_crom (u_app u)) (u_share u) start fw)"

definition sector_of :: "int \<Rightarrow> bytes \<Rightarrow> nat \<Rightarrow> fw_out" where
  "sector_of start fw i =
     (let k = sector_at (fw_sectors fw) i in (fw_sector fw k, start + int k))"

lemma first_read_resets:
  assumes "fw_selected fs c sh start fw"
  shows "get_one_sector_fw_data fs True c sh True out cur = get_one_sector_fw_data fs True c sh False out fw_cursor_ini"
proof -
  obtain f where "m_s_rom_file_abs_full_path sh = Some f" using assms by (auto simp: fw_selected_def)
  moreover have "m_v_write_sec_index sh \<noteq> []" using assms by (simp add: fw_selected_def write_order_def)
  ultimately show ?thesis by (simp add: get_one_sector_fw_data_def)
qed

lemma read_sector:
  assumes "update_of env u start fw" "reader_at fw b_first i u" "i < fw_sectors fw"
  shows "\<exists>u1. sub_read_one_sector_from_file env b_first u = Some (True, \<not> Suc i < fw_sectors fw, u1)
     \<and> u_sector u1 = sector_of start fw i
     \<and> n_write_sector_index (u_cursor u1) = Suc i
     \<and> (dw_last_readdone (u_cursor u1) < 4096 \<longrightarrow> Suc (Suc i) = fw_sectors fw \<or> fw_sectors fw = 1)
     \<and> u_app u1 = u_app u \<and> u_boot u1 = u_boot u \<and> u_dev u1 = u_dev u \<and> u_stops u1 = u_stops u"
proof -
  define cur where "cur = (if b_first then fw_cursor_ini else u_cursor u)"
  have "n_write_sector_index cur = i" "dw_last_readdone cur < 4096 \<longrightarrow> Suc i = fw_sectors fw"
    using assms(2) by (auto simp: cur_def reader_at_def fw_cursor_ini_def C_SECTOR_SIZE_def split: if_splits)
  with assms(1,3) obtain cur' where
    g: "get_one_sector_fw_data (env_files env) True (m_crom (u_app u)) (u_share u) False (u_sector u) cur =
       Some ((True, \<not> Suc i < fw_sectors fw, fw_no_error), sector_of start fw i, cur')"
    and cur': "n_write_sector_index cur' = Suc i"
      "dw_last_readdone cur' < 4096 \<longrightarrow> Suc (Suc i) = fw_sectors fw \<or> fw_sectors fw = 1"
    using get_one_sector_step [of "env_files env" "m_crom (u_app u)" "u_share u" start fw cur i "u_sector u"]
    by (auto simp: update_of_def sector_of_def Let_def)
  then have "get_one_sector_fw_data (env_files env) (env_rom env) (m_crom (u_app u)) (u_share u) b_first
      (u_sector u) (u_cursor u) = Some ((True, \<not> Suc i < fw_sectors fw, fw_no_error), sector_of start fw i, cur')"
    using assms(1) first_read_resets [of "env_files env" "m_crom (u_app u)" "u_share u" start fw]
    by (cases b_first) (simp_all add: cur_def update_of_def)
  then show ?thesis
    using cur' by (simp add: sub_read_one_sector_from_file_def next_step_def push_msg_def Let_def)
qed

lemma update_of_same:
  assumes "update_of env u start fw" "u_app u1 = u_app u" "u_stops u1 = u_stops u"
  shows "update_of env u1 start fw"
  using assms by (simp add: update_of_def undisturbed_def)

lemma loop_round:
  assumes "update_of env u start fw" "reader_at fw b_first i u" "i < fw_sectors fw"
  shows "\<exists>u1. u_sector u1 = sector_of start fw i \<and> u_boot u1 = u_boot u \<and> u_dev u1 = u_dev u
     \<and> read_write_loop pf env b_first u =
         (case do_write_sector (pf_boot_io pf) (u_boot u) (start + int (sector_at (fw_sectors fw) i))
                 (fw_sector fw (sector_at (fw_sectors fw) i)) (u_dev u) of
            None \<Rightarrow> None
          | Some (b, e, d) \<Rightarrow>
              if \<not> b then Some (False, push_msg False (txt_write_error (snd (sector_of start fw i)) e)
                                 ((push_msg True (txt_write (snd (sector_of start fw i))) (next_step u1))\<lparr>u_dev := d\<rparr>))
              else
                let u3 = (push_msg True (txt_write (snd (sector_of start fw i))) (next_step u1))\<lparr>u_dev := d\<rparr>
                in if Suc i = fw_sectors fw then Some (True, u3) else read_write_loop pf env False u3)
     \<and> (\<forall>d t. let u3 = (push_msg True t (next_step u1))\<lparr>u_dev := d\<rparr>
              in update_of env u3 start fw \<and> u_boot u3 = u_boot u \<and> u_share u3 = u_share u
                 \<and> (Suc i < fw_sectors fw \<longrightarrow> reader_at fw False (Suc i) u3))"
proof -
  obtain u1 where rd: "sub_read_one_sector_from_file env b_first u = Some (True, \<not> Suc i < fw_sectors fw, u1)"
    and s: "u_sector u1 = sector_of start fw i"
    and cur: "n_write_sector_index (u_cursor u1) = Suc i"
      "dw_last_readdone (u_cursor u1) < 4096 \<longrightarrow> Suc (Suc i) = fw_sectors fw \<or> fw_sectors fw = 1"
    and same: "u_app u1 = u_app u" "u_boot u1 = u_boot u" "u_dev u1 = u_dev u" "u_stops u1 = u_stops u"
    using read_sector [OF assms] by blast
  have up: "update_of env u1 start fw" by (rule update_of_same [OF assms(1) same(1,4)])
  have q1: "running u1 = (True, u1)" using up by (simp add: update_of_def)
  let ?u3 = "\<lambda>t d. (push_msg True t (next_step u1))\<lparr>u_dev := d\<rparr>"
  have up3: "update_of env (?u3 t d) start fw" for t d
    using up by (simp add: update_of_def undisturbed_def push_msg_def next_step_def)
  then have q3: "running (?u3 t d) = (True, ?u3 t d)" for t d by (simp add: update_of_def)
  have at: "reader_at fw False (Suc i) (?u3 t d)" if "Suc i < fw_sectors fw" for t d
    using cur that by (auto simp: reader_at_def push_msg_def next_step_def)
  have n: "snd (u_sector u1) = start + int (sector_at (fw_sectors fw) i)"
    "fst (u_sector u1) = fw_sector fw (sector_at (fw_sectors fw) i)"
    by (simp_all add: s sector_of_def Let_def)
  have boot: "u_boot (push_msg True t (next_step u1)) = u_boot u" "u_dev (push_msg True t (next_step u1)) = u_dev u"
    "u_sector (push_msg True t (next_step u1)) = u_sector u1"
    for t by (simp_all add: push_msg_def next_step_def same)
  have sn: "snd (sector_of start fw i) = start + int (sector_at (fw_sectors fw) i)"
    by (simp add: sector_of_def Let_def)
  have eq: "Suc i = fw_sectors fw \<longleftrightarrow> \<not> Suc i < fw_sectors fw" using assms(3) by auto
  have "read_write_loop pf env b_first u =
      (case do_write_sector (pf_boot_io pf) (u_boot u) (start + int (sector_at (fw_sectors fw) i))
              (fw_sector fw (sector_at (fw_sectors fw) i)) (u_dev u) of
         None \<Rightarrow> None
       | Some (b, e, d) \<Rightarrow>
           if \<not> b then Some (False, push_msg False (txt_write_error (snd (sector_of start fw i)) e)
                              (?u3 (txt_write (snd (sector_of start fw i))) d))
           else
             let u3 = ?u3 (txt_write (snd (sector_of start fw i))) d
             in if Suc i = fw_sectors fw then Some (True, u3) else read_write_loop pf env False u3)"
    unfolding sn
    by (subst read_write_loop.simps)
      (auto simp: rd q1 q3 sub_write_one_sector_def n boot Let_def eq split: option.splits)
  then show ?thesis
    using s same up3 at by (intro exI [of _ u1]) (simp add: Let_def push_msg_def next_step_def)
qed

section \<open>The packets of the whole loop\<close>

text \<open>The boot loader behind a recorder; the other devices do not see the record.\<close>

definition lift_io :: "'d hid_io \<Rightarrow> ('d \<times> bytes list) hid_io" where
  "lift_io io =
     \<lparr>io_write_sync = (\<lambda>(d, tr) tx. let (b, d') = io_write_sync io d tx in (b, d', tr)),
      io_read_sync = (\<lambda>(d, tr). let (r, d') = io_read_sync io d in (r, d', tr)),
      io_write_read_sync = (\<lambda>(d, tr) tx. let (r, d') = io_write_read_sync io d tx in (r, d', tr))\<rparr>"

definition recorded :: "'d platform \<Rightarrow> ('d \<times> bytes list) platform" where
  "recorded pf =
     \<lparr>pf_lpu_io = lift_io (pf_lpu_io pf), pf_boot_io = recording (pf_boot_io pf),
      pf_after_io = lift_io (pf_after_io pf),
      pf_enumerate = (\<lambda>(d, tr). let (es, d') = pf_enumerate pf d in (es, d', tr)),
      pf_open = (\<lambda>i (d, tr). let (b, d') = pf_open pf i d in (b, d', tr)),
      pf_request_stop = (\<lambda>i (d, tr). let (b, d') = pf_request_stop pf i d in (b, d', tr))\<rparr>"

lemma recorded_boot_io [simp]: "pf_boot_io (recorded pf) = recording (pf_boot_io pf)"
  by (simp add: recorded_def)

definition packets_of :: "int \<Rightarrow> bytes \<Rightarrow> nat \<Rightarrow> bytes list" where
  "packets_of start fw k = sector_packets (start + int k) (fw_sector fw k)"

lemma do_write_sector_trace:
  assumes "do_write_sector (recording io) m n v (d, tr) = Some (True, e, d', tr')" "length v = 4096"
  shows "tr' = tr @ sector_packets n v"
  using write_loop_trace [of io m n v 0 0 d tr e d' tr'] assms
  by (simp add: do_write_sector_def sector_packets_def)

lemma read_write_trace:
  assumes "read_write_loop pf env b_first u = Some (True, u')" "pf_boot_io pf = recording io"
    and "update_of env u start fw" "reader_at fw b_first i u" "i < fw_sectors fw"
  shows "snd (u_dev u') = snd (u_dev u) @
     concat (map (\<lambda>j. packets_of start fw (sector_at (fw_sectors fw) j)) [i..<fw_sectors fw])"
  using assms
proof (induction "fw_sectors fw - i" arbitrary: b_first u i)
  case (Suc m)
  let ?n = "fw_sectors fw"
  let ?k = "sector_at ?n i"
  define t where "t = txt_write (snd (sector_of start fw i))"
  obtain u1 where loop: "read_write_loop pf env b_first u =
         (case do_write_sector (pf_boot_io pf) (u_boot u) (start + int ?k) (fw_sector fw ?k) (u_dev u) of
            None \<Rightarrow> None
          | Some (b, e, d) \<Rightarrow>
              if \<not> b then Some (False, push_msg False (txt_write_error (snd (sector_of start fw i)) e)
                                 ((push_msg True t (next_step u1))\<lparr>u_dev := d\<rparr>))
              else
                let u3 = (push_msg True t (next_step u1))\<lparr>u_dev := d\<rparr>
                in if Suc i = ?n then Some (True, u3) else read_write_loop pf env False u3)"
    and next_u: "\<And>d t. update_of env ((push_msg True t (next_step u1))\<lparr>u_dev := d\<rparr>) start fw
        \<and> (Suc i < ?n \<longrightarrow> reader_at fw False (Suc i) ((push_msg True t (next_step u1))\<lparr>u_dev := d\<rparr>))"
    using loop_round [OF Suc.prems(3-5), of pf] unfolding t_def Let_def by blast
  obtain b e d where w: "do_write_sector (pf_boot_io pf) (u_boot u) (start + int ?k) (fw_sector fw ?k)
      (u_dev u) = Some (b, e, d)" and b: "b"
    using Suc.prems(1) loop by (auto split: option.splits if_splits)
  let ?u3 = "(push_msg True t (next_step u1))\<lparr>u_dev := d\<rparr>"
  obtain d0 tr d1 tr1 where d: "u_dev u = (d0, tr)" "d = (d1, tr1)" by (cases "u_dev u"; cases d) auto
  have "tr1 = tr @ packets_of start fw ?k"
    using do_write_sector_trace [of io "u_boot u" "start + int ?k" "fw_sector fw ?k" d0 tr e d1 tr1] w b d
      Suc.prems(2) by (simp add: packets_of_def C_SECTOR_SIZE_def)
  then have tr: "snd (u_dev ?u3) = snd (u_dev u) @ packets_of start fw ?k" using d by simp
  show ?case
  proof (cases "Suc i = ?n")
    case True
    then have "u' = ?u3" using Suc.prems(1) loop w b by simp
    moreover have "[i..<?n] = [i]" using True Suc.prems(5) by (simp add: upt_rec)
    ultimately show ?thesis using tr by simp
  next
    case False
    then have i: "Suc i < ?n" using Suc.prems(5) by simp
    have "read_write_loop pf env False ?u3 = Some (True, u')" using Suc.prems(1) loop w b False by (simp add: Let_def)
    then have "snd (u_dev u') = snd (u_dev ?u3) @
        concat (map (\<lambda>j. packets_of start fw (sector_at ?n j)) [Suc i..<?n])"
      by (rule Suc.hyps(1) [rotated]) (use Suc.hyps(2) Suc.prems(2) next_u [of d t] i in auto)
    moreover have "[i..<?n] = i # [Suc i..<?n]" using i by (simp add: upt_rec)
    ultimately show ?thesis using tr by simp
  qed
qed simp

text \<open>What a packet sequence carries for a sector, in the order of the packets.\<close>

definition sent_to :: "bytes list \<Rightarrow> u32 \<Rightarrow> bytes" where
  "sent_to ps s = concat (map packet_data (filter (\<lambda>p. packet_sector p = s) ps))"

lemma packets_of_sector:
  "p \<in> set (packets_of start fw k) \<Longrightarrow> packet_sector p = of_int (start + int k)"
proof -
  have "length (subrange (fw_sector fw k) (i * 54) 54) \<le> 54" for i by (simp add: subrange_def)
  then show "p \<in> set (packets_of start fw k) \<Longrightarrow> packet_sector p = of_int (start + int k)"
    by (auto simp: packets_of_def sector_packets_def sector_packet_def write_packet_fields)
qed

lemma sent_to_packets_of:
  "sent_to (packets_of start fw k) s =
     (if s = of_int (start + int k) then fw_sector fw k @ replicate 8 0xFF else [])"
proof -
  have "filter (\<lambda>p. packet_sector p = s) (packets_of start fw k) =
      (if s = of_int (start + int k) then packets_of start fw k else [])"
    using packets_of_sector [of _ start fw k] by (auto simp: filter_empty_conv intro!: filter_True)
  moreover have "concat (map packet_data (packets_of start fw k)) = fw_sector fw k @ replicate 8 0xFF"
    unfolding packets_of_def by (rule sector_packets_data) (simp add: C_SECTOR_SIZE_def)
  ultimately show ?thesis by (simp add: sent_to_def)
qed

lemma sent_to_append: "sent_to (ps @ qs) s = sent_to ps s @ sent_to qs s"
  by (simp add: sent_to_def)

lemma sent_to_sectors:
  assumes "distinct ks" "\<forall>k\<in>set ks. k < n" "0 \<le> start" "start + int n \<le> 2 ^ 32" "k < n"
  shows "sent_to (concat (map (packets_of start fw) ks)) (of_int (start + int k)) =
     (if k \<in> set ks then fw_sector fw k @ replicate 8 0xFF else [])"
  using assms(1,2)
proof (induction ks)
  case (Cons j ks)
  have "(of_int (start + int k) :: u32) = of_int (start + int j) \<longleftrightarrow> k = j"
  proof
    assume eq: "(of_int (start + int k) :: u32) = of_int (start + int j)"
    have "uint (of_int (start + int l) :: u32) = start + int l" if "l < n" for l
    proof -
      have "0 \<le> start + int l" "start + int l < 2 ^ 32" using that assms(3,4) by simp_all
      then show ?thesis unfolding uint_word_of_int by (intro mod_pos_pos_trivial) simp_all
    qed
    then show "k = j" using eq assms(5) Cons.prems(2) by (metis add_left_cancel list.set_intros(1) of_nat_eq_iff)
  qed simp
  then show ?case using Cons by (auto simp: sent_to_append sent_to_packets_of)
qed (simp add: sent_to_def)

lemma sector_at_order: "0 < n \<Longrightarrow> map (sector_at n) [0..<n] = [1..<n] @ [0]"
  by (rule nth_equalityI) (auto simp: sector_at_def nth_append)

lemma update_of_fw: "update_of env u start fw \<Longrightarrow> fw \<noteq> []"
  by (simp add: update_of_def fw_selected_def)

lemma whole_firmware:
  assumes "fw \<noteq> []" "0 \<le> start" "start + int (fw_sectors fw) \<le> 2 ^ 32"
  defines "ps \<equiv> concat (map (packets_of start fw) ([1..<fw_sectors fw] @ [0]))"
  shows "take (length fw) (concat (map (\<lambda>k. take 4096 (sent_to ps (of_int (start + int k)))) [0..<fw_sectors fw])) = fw"
proof -
  let ?n = "fw_sectors fw"
  have n: "0 < ?n" "length fw \<le> ?n * 4096" using fw_sectors_bounds [OF assms(1)] by simp_all
  have "sent_to ps (of_int (start + int k)) = fw_sector fw k @ replicate 8 0xFF" if "k < ?n" for k
    using sent_to_sectors [of "[1..<?n] @ [0]" ?n start k fw] that n assms(2,3) by (auto simp: ps_def)
  then have "map (\<lambda>k. take 4096 (sent_to ps (of_int (start + int k)))) [0..<?n] = map (fw_sector fw) [0..<?n]"
    by (intro map_cong) (simp_all add: C_SECTOR_SIZE_def)
  moreover have "concat (map (fw_sector fw) [0..<?n]) = fw @ replicate (?n * 4096 - length fw) 0xFF"
    using concat_fw_sectors [of fw ?n] n by (simp add: C_SECTOR_SIZE_def)
  ultimately show ?thesis by (simp only: append_eq_conv_conj take_append) simp
qed


text \<open>A boot loader that takes every sector.\<close>

definition device_accepts :: "'d hid_io \<Rightarrow> boot_manager \<Rightarrow> bool" where
  "device_accepts io m =
     (\<forall>n v d. length v = 4096 \<longrightarrow> (\<exists>e d'. do_write_sector io m n v d = Some (True, e, d')))"

lemma read_write_succeeds:
  assumes "device_accepts (pf_boot_io pf) (u_boot u)" "update_of env u start fw"
    and "reader_at fw b_first i u" "i < fw_sectors fw"
  shows "\<exists>u'. read_write_loop pf env b_first u = Some (True, u') \<and> u_boot u' = u_boot u \<and> undisturbed u'
     \<and> u_share u' = u_share u"
  using assms
proof (induction "fw_sectors fw - i" arbitrary: b_first u i)
  case (Suc m)
  let ?n = "fw_sectors fw"
  let ?k = "sector_at ?n i"
  define t where "t = txt_write (snd (sector_of start fw i))"
  have "length (fw_sector fw ?k) = 4096" by (simp add: C_SECTOR_SIZE_def)
  then obtain e d where w: "do_write_sector (pf_boot_io pf) (u_boot u) (start + int ?k) (fw_sector fw ?k)
      (u_dev u) = Some (True, e, d)"
    using Suc.prems(1) unfolding device_accepts_def by blast
  obtain u1 where loop: "read_write_loop pf env b_first u =
         (case do_write_sector (pf_boot_io pf) (u_boot u) (start + int ?k) (fw_sector fw ?k) (u_dev u) of
            None \<Rightarrow> None
          | Some (b, e, d) \<Rightarrow>
              if \<not> b then Some (False, push_msg False (txt_write_error (snd (sector_of start fw i)) e)
                                 ((push_msg True t (next_step u1))\<lparr>u_dev := d\<rparr>))
              else
                let u3 = (push_msg True t (next_step u1))\<lparr>u_dev := d\<rparr>
                in if Suc i = ?n then Some (True, u3) else read_write_loop pf env False u3)"
    and next_u: "\<And>d t. update_of env ((push_msg True t (next_step u1))\<lparr>u_dev := d\<rparr>) start fw
        \<and> u_boot ((push_msg True t (next_step u1))\<lparr>u_dev := d\<rparr>) = u_boot u
        \<and> u_share ((push_msg True t (next_step u1))\<lparr>u_dev := d\<rparr>) = u_share u
        \<and> (Suc i < ?n \<longrightarrow> reader_at fw False (Suc i) ((push_msg True t (next_step u1))\<lparr>u_dev := d\<rparr>))"
    using loop_round [OF Suc.prems(2-4), of pf] unfolding t_def Let_def by blast
  let ?u3 = "(push_msg True t (next_step u1))\<lparr>u_dev := d\<rparr>"
  note nu = next_u [of d t]
  show ?case
  proof (cases "Suc i = ?n")
    case True
    then show ?thesis using loop w nu by (simp add: Let_def update_of_def)
  next
    case False
    then have i: "Suc i < ?n" using Suc.prems(4) by simp
    have "\<exists>u'. read_write_loop pf env False ?u3 = Some (True, u') \<and> u_boot u' = u_boot ?u3 \<and> undisturbed u'
        \<and> u_share u' = u_share ?u3"
      by (rule Suc.hyps(1)) (use Suc.hyps(2) Suc.prems(1) nu i in auto)
    then show ?thesis using loop w nu False by (simp add: Let_def)
  qed
qed simp

text \<open>C38. With a boot loader that takes every sector, and without a request to stop, the reading and
  writing loop ends with success: no firmware that was selected and fits is refused by the reader.\<close>

theorem update_succeeds:
  assumes "device_accepts (pf_boot_io pf) (u_boot u)" "update_of env u start fw"
  shows "\<exists>u'. read_write_loop pf env True u = Some (True, u')"
proof -
  have "0 < fw_sectors fw" using fw_sectors_bounds(1) [OF update_of_fw [OF assms(2)]] .
  from read_write_succeeds [OF assms, of True 0] this show ?thesis by (auto simp: reader_at_def)
qed

section \<open>The whole dialogue with the boot loader\<close>

definition request_packet :: "byte \<Rightarrow> u32 \<Rightarrow> bytes" where
  "request_packet cmd para =
     enc_request \<lparr>cCmd = cmd, dwPara = para, wChain = 0, wLen = 0, sData = data_zero\<rparr>"

definition info_packet :: bytes where "info_packet = request_packet HIDB_REQ_CMD_GET_SECTOR_INFO 0"
definition erase_packet :: "int \<Rightarrow> bytes" where "erase_packet n = request_packet HIDB_REQ_CMD_ERASE (of_int n)"
definition run_packet :: bytes where "run_packet = request_packet HIDB_REQ_CMD_RUN 0"

lemma sector_info_trace:
  assumes "get_sector_info_from_device (recording io) m st = Some ((True, b, s, a), st')"
  shows "snd st' = snd st @ [info_packet]"
proof -
  obtain n v d1 tr1 where x: "DDL_TxRx (recording io) m info_packet zero_packet st = (n, v, (d1, tr1))"
    by (cases "DDL_TxRx (recording io) m info_packet zero_packet st") auto
  obtain d tr where st: "st = (d, tr)" by (cases st)
  have n: "n \<noteq> 0"
    using assms x
    by (auto simp: get_sector_info_from_device_def info_packet_def request_packet_def split: if_splits)
  then obtain r v1 d2 tr2 where w: "wait_reply (recording io) m v (d1, tr1) = Some (r, v1, (d2, tr2))"
    and st': "st' = (d2, tr2)"
    using assms x
    by (auto simp: get_sector_info_from_device_def info_packet_def request_packet_def Let_def
        split: bind_splits option.splits if_splits)
  show ?thesis
    using wait_reply_keeps_trace [OF w] recording_exchange(2) [OF x [unfolded st] n] st st' by simp
qed

lemma erase_trace:
  assumes "do_erase_in_worker (recording io) m k st = Some (True, e, st')"
  shows "snd st' = snd st @ (if \<not> m_b_exist_sec_info m \<and> k \<noteq> 1 then [] else [erase_packet k])"
proof (cases "\<not> m_b_exist_sec_info m \<and> k \<noteq> 1")
  case True
  then show ?thesis using assms by (simp add: do_erase_in_worker_def)
next
  case False
  obtain n v d1 tr1 where x: "DDL_TxRx (recording io) m (erase_packet k) zero_packet st = (n, v, (d1, tr1))"
    by (cases "DDL_TxRx (recording io) m (erase_packet k) zero_packet st") auto
  obtain d tr where st: "st = (d, tr)" by (cases st)
  have body: "do_erase_in_worker (recording io) m k st =
      (if n = 0 then Some (False, boot_write_read_io, (d1, tr1))
       else do {
         (r, v1, d2) \<leftarrow> wait_reply (recording io) m v (d1, tr1);
         case r of
           Some nRx \<Rightarrow> Some (False, boot_rx_size nRx, d2)
         | None \<Rightarrow>
             if replay_cResult v1 = HIDB_REP_RESULT_SUCCESS then Some (True, boot_ok, d2)
             else
               (case DDL_read (recording io) m v1 d2 of
                  (nRx, v2, d3) \<Rightarrow>
                    if nRx \<noteq> C_PACKET_SIZE then Some (False, boot_rerx_size nRx, d3)
                    else if replay_cResult v2 = HIDB_REP_RESULT_SUCCESS then Some (True, boot_ok, d3)
                    else Some (False, reply_error v2, d3))
       })"
    using False x by (auto simp: do_erase_in_worker_def erase_packet_def request_packet_def Let_def)
  then have n: "n \<noteq> 0" using assms by (auto split: if_splits)
  obtain r v1 d2 tr2 where w: "wait_reply (recording io) m v (d1, tr1) = Some (r, v1, (d2, tr2))"
    using assms body n by (auto split: bind_splits)
  have rd: "DDL_read (recording io) m v1 (d2, tr2) = (nRx, v2, (d3, tr3)) \<Longrightarrow> tr3 = tr2" for nRx v2 d3 tr3
    by (auto simp: DDL_read_def recording_def split: if_splits prod.splits option.splits)
  have "snd st' = tr2"
    using assms body n w rd by (cases st') (auto split: option.splits if_splits prod.splits)
  then show ?thesis
    using wait_reply_keeps_trace [OF w] recording_exchange(2) [OF x [unfolded st] n] st False by auto
qed

lemma erase_one_frame:
  assumes "erase_one pf k u = Some (b, u')"
  shows "u_app u' = u_app u" "u_boot u' = u_boot u" "u_stops u' = u_stops u"
  using assms by (auto simp: erase_one_def next_step_def push_msg_def Let_def)

lemma erase_all_trace:
  assumes "run_all (map (erase_one (recorded pf)) ks) u = Some (True, u')"
  shows "snd (u_dev u') = snd (u_dev u) @
     map erase_packet (filter (\<lambda>k. m_b_exist_sec_info (u_boot u) \<or> k = 1) ks)
     \<and> u_app u' = u_app u \<and> u_boot u' = u_boot u \<and> u_stops u' = u_stops u"
  using assms
proof (induction ks arbitrary: u)
  case (Cons k ks)
  obtain b u1 where e: "erase_one (recorded pf) k u = Some (b, u1)" and b: "b"
    using Cons.prems by (auto split: option.splits if_splits)
  obtain err d where w: "do_erase_in_worker (recording (pf_boot_io pf)) (u_boot u) k (u_dev u) = Some (True, err, d)"
    and u1: "u_dev u1 = d"
    using e b by (auto simp: erase_one_def recorded_def next_step_def push_msg_def Let_def)
  have "snd (u_dev u1) = snd (u_dev u) @ (if \<not> m_b_exist_sec_info (u_boot u) \<and> k \<noteq> 1 then [] else [erase_packet k])"
    using erase_trace [OF w] u1 by simp
  moreover have "run_all (map (erase_one (recorded pf)) ks) u1 = Some (True, u')" using Cons.prems e b by simp
  ultimately show ?case using Cons.IH erase_one_frame [OF e] by auto
qed simp

lemma run_app_trace:
  assumes "step_run_app (recorded pf) u = Some (True, u')"
  shows "snd (u_dev u') = snd (u_dev u) @ [run_packet]"
proof -
  let ?io = "recording (pf_boot_io pf)"
  obtain n d1 tr1 where x: "DDL_write ?io (u_boot u) run_packet (u_dev u) = (n, (d1, tr1))"
    by (cases "DDL_write ?io (u_boot u) run_packet (u_dev u)") auto
  obtain d tr where d: "u_dev u = (d, tr)" by (cases "u_dev u")
  have "n \<noteq> 0 \<and> u_dev u' = (d1, tr1)"
    using assms x
    by (auto simp: step_run_app_def sub_run_app_def GotoApp_def recorded_def push_msg_def run_packet_def
        request_packet_def Let_def split: if_splits prod.splits)
  then show ?thesis using recording_exchange(1) [of "pf_boot_io pf" "u_boot u" run_packet d tr n d1 tr1] x d by simp
qed

text \<open>Selecting the device: the question for the layout, and the lists that follow from the answer.\<close>

lemma select_trace:
  assumes "SelectDevice (recording io) opened n_size m sh st = Some (True, m', sh', st')"
  shows "snd st' = snd st @ [info_packet]
     \<and> (\<exists>b start area. m_b_exist_sec_info m' = b
         \<and> get_sector_info_from_device (recording io)
             (m\<lparr>m_b_exist_sec_info := False, m_b_dev_open := opened\<rparr>) st = Some ((True, b, start, area), st')
         \<and> (m_v_write_sec_index sh' = []
            \<or> (n_need_fw_sec n_size \<noteq> 0 \<and> n_need_fw_sec n_size \<le> layout_area b area - 1
               \<and> sh' = set_write_sec_index (write_list (layout_start b start) (n_need_fw_sec n_size))
                   (set_erase_sec_index (erase_list (layout_start b start) (layout_area b area)
                      (n_need_fw_sec n_size)) sh))))"
proof -
  have l: "m_listDev_size m \<noteq> 0" using assms by (auto simp: SelectDevice_def Let_def split: if_splits)
  let ?m1 = "m\<lparr>m_b_exist_sec_info := False, m_b_dev_open := opened\<rparr>"
  obtain r b start area st1 where
    g: "get_sector_info_from_device (recording io) ?m1 st = Some ((r, b, start, area), st1)"
    using assms l by (auto simp: SelectDevice_def Let_def split: bind_splits)
  have r: "r" using assms l g by (auto simp: SelectDevice_def Let_def split: if_splits)
  show ?thesis
  proof (cases "n_need_fw_sec n_size \<noteq> 0 \<and> n_need_fw_sec n_size \<le> layout_area b area - 1")
    case True
    then show ?thesis
      using assms select_device_fits [OF l, of "recording io" opened st b start area st1 n_size sh]
        g r sector_info_trace [of io ?m1 st b start area st1] by auto
  next
    case False
    then have "m_b_exist_sec_info m' = b \<and> st' = st1 \<and> m_v_write_sec_index sh' = []"
      using assms l g r
      by (auto simp: SelectDevice_def Let_def layout_area_def set_write_sec_index_def split: if_splits)
    then show ?thesis using g r sector_info_trace [of io ?m1 st b start area st1] by auto
  qed
qed

text \<open>The firmware that is selected before the boot loader is: its size and where it comes from.\<close>

definition firmware_ready :: "'p file_env \<Rightarrow> ('p, 'd) updater \<Rightarrow> bytes \<Rightarrow> bool" where
  "firmware_ready env u fw =
     (env_rom env \<and> undisturbed u \<and> m_n_fw_index_by_user (u_share u) < 0
      \<and> fw \<noteq> [] \<and> length fw < 2 ^ 31 \<and> m_n_size_fw (u_share u) = length fw
      \<and> m_v_write_sec_index_for_bin_file (u_share u) = []
      \<and> (\<exists>f. m_s_rom_file_abs_full_path (u_share u) = Some f
          \<and> (if m_n_selected_fw_in_firmware_list (u_share u) < 0
             then content (env_files env) f = Some fw
             else \<exists>it g d. header_item (u_share u) (m_n_selected_fw_in_firmware_list (u_share u)) = Some it
                  \<and> m_sRomFileName (m_crom (u_app u)) = Some g \<and> content (env_files env) g = Some d
                  \<and> unat (dwItemSize it) = length fw
                  \<and> subrange d (unat (dwItemOffset it)) (length fw) = fw)))"

lemma write_order_relative: "map (\<lambda>n. n - s) (write_order s n) = write_order 0 n"
  by (simp add: write_order_def)

lemma ready_selected:
  assumes "firmware_ready env u fw"
    and "u_share v = set_write_sec_index (write_order s (fw_sectors fw)) (set_erase_sec_index es (u_share u))"
    and "m_crom (u_app v) = m_crom (u_app u)" "undisturbed v"
  shows "update_of env v s fw"
proof -
  let ?w = "write_order s (fw_sectors fw)"
  have w: "?w \<noteq> []" "last ?w = s" by (simp_all add: write_order_def)
  have "m_v_write_sec_index (u_share v) = ?w" "m_v_write_sec_index_for_bin_file (u_share v) = write_order 0 (fw_sectors fw)"
    "m_n_size_fw (u_share v) = m_n_size_fw (u_share u)"
    "m_s_rom_file_abs_full_path (u_share v) = m_s_rom_file_abs_full_path (u_share u)"
    "m_n_selected_fw_in_firmware_list (u_share v) = m_n_selected_fw_in_firmware_list (u_share u)"
    "header_item (u_share v) k = header_item (u_share u) k" for k
    using assms(1,2) w write_order_relative
    by (simp_all add: set_write_sec_index_def set_erase_sec_index_def firmware_ready_def header_item_def)
  then show ?thesis
    using assms(1,3,4) unfolding update_of_def fw_selected_def firmware_ready_def by auto
qed

text \<open>Without a write list, nothing is read.\<close>

lemma no_list_no_success:
  assumes "m_v_write_sec_index (u_share u) = []"
  shows "read_write_loop pf env True u \<noteq> Some (True, u')"
proof -
  have "sub_read_one_sector_from_file env True u = Some (b, c, u1) \<Longrightarrow> \<not> b" for b c u1
    using assms
    by (auto simp: sub_read_one_sector_from_file_def get_one_sector_fw_data_def next_step_def Let_def
        split: option.splits if_splits)
  then show ?thesis
    by (subst read_write_loop.simps) (auto split: option.splits prod.splits)
qed

lemma GetDeviceList_frame:
  "u_app (GetDeviceList (recorded pf) u) = u_app u" "u_stops (GetDeviceList (recorded pf) u) = u_stops u"
  "snd (u_dev (GetDeviceList (recorded pf) u)) = snd (u_dev u)"
  "u_bootloader_path (GetDeviceList (recorded pf) u) = u_bootloader_path u"
  by (auto simp: GetDeviceList_def update_devs_def use_filter_def recorded_def Let_def split: prod.splits)

lemma DDL_open_trace: "DDL_open (recorded pf) s u = (b, d) \<Longrightarrow> snd d = snd (u_dev u)"
  by (auto simp: DDL_open_def recorded_def Let_def split: option.splits prod.splits)

lemma setup_trace:
  assumes "step_setup (recorded pf) u = Some (True, u')"
  shows "\<exists>opened m sh m' sh' st st'. snd st = snd (u_dev u) \<and> sh = u_share u
     \<and> SelectDevice (recording (pf_boot_io pf)) opened (m_n_size_fw (u_share u)) m sh st = Some (True, m', sh', st')
     \<and> u_boot u' = m' \<and> u_dev u' = st' \<and> u_app u' = (u_app u)\<lparr>m_share := sh'\<rparr> \<and> u_stops u' = u_stops u"
proof -
  let ?g = "GetDeviceList (recorded pf) u"
  obtain v where v: "sub_setup_bootloader (recorded pf) u = Some (True, v)"
    and u'v: "u' = v\<lparr>u_need_close_bootloader := True\<rparr>"
    using assms by (cases "sub_setup_bootloader (recorded pf) u") (auto simp: step_setup_def split: if_splits)
  have p: "u_bootloader_path u \<noteq> []" using v by (auto simp: sub_setup_bootloader_def)
  obtain b u1 where sb: "select_boot (recorded pf) (u_bootloader_path u) ?g = Some (b, u1)"
    using v p by (cases "select_boot (recorded pf) (u_bootloader_path u) ?g") (auto simp: sub_setup_bootloader_def)
  have b: "b" and vv: "v = push_msg True txt_setup u1"
    using v p sb by (cases b; simp add: sub_setup_bootloader_def)+
  note s = sb [unfolded eqTrueI [OF b]]
  have u': "u' = (push_msg True txt_setup u1)\<lparr>u_need_close_bootloader := True\<rparr>" by (simp only: u'v vv)
  obtain opened st where o: "(if m_listDev_size (u_boot ?g) = 0 then (False, u_dev ?g)
      else DDL_open (recorded pf) (u_bootloader_path u) ?g) = (opened, st)"
    by (metis surj_pair)
  then have st: "snd st = snd (u_dev u)"
    using DDL_open_trace [of pf "u_bootloader_path u" ?g] GetDeviceList_frame(3) [of pf u]
    by (auto split: if_splits)
  obtain m' sh' st' where sel: "SelectDevice (recording (pf_boot_io pf)) opened (m_n_size_fw (u_share ?g))
      (u_boot ?g) (u_share ?g) st = Some (True, m', sh', st')"
    and u1: "u1 = (on_share (\<lambda>_. sh') ?g)\<lparr>u_boot := m', u_dev := st'\<rparr>"
    using s o
    by (cases "SelectDevice (recording (pf_boot_io pf)) opened (m_n_size_fw (u_share ?g)) (u_boot ?g) (u_share ?g) st")
      (auto simp: select_boot_def recorded_boot_io)
  show ?thesis
    using sel st GetDeviceList_frame [of pf u]
    by (intro exI conjI) (auto simp: u' u1 push_msg_def on_share_def)
qed

lemma flow_step_on:
  assumes "flow_step env ev f u = Some (flow_on u2)" "undisturbed u" "\<And>b u1. f u = Some (b, u1) \<Longrightarrow> calm u u1"
  shows "f u = Some (True, u2)" "undisturbed u2"
proof -
  obtain b u1 where f: "f u = Some (b, u1)" using assms(1) by (auto simp: flow_step_def split: option.splits)
  have b: "b" and c: "check_running u1 = Some (flow_on u2)"
    using assms(1) f by (auto simp: flow_step_def split: if_splits)
  have q: "undisturbed u1"
    using assms(2) assms(3) [OF f] by (simp add: undisturbed_def calm_def)
  then have "u2 = u1" using c by (simp add: check_running_def)
  with f b q show "f u = Some (True, u2)" "undisturbed u2" by simp_all
qed

text \<open>The part of the loop body between opening the boot loader and starting the application.\<close>

definition boot_phase :: "'d platform \<Rightarrow> 'p file_env \<Rightarrow> (('p, 'd) updater \<Rightarrow> ('p, 'd) updater flow option) list" where
  "boot_phase pf env =
     [flow_step env e_ustep_e (step_setup pf),
      flow_step env e_ustep_e (sub_erase_sector pf),
      step_user_index,
      flow_step env e_ustep_e (step_read_write pf env),
      flow_step env e_ustep_e (step_run_app pf)]"

lemma pass_contains_boot_phase:
  "updates_pass pf env u = flow_seq
     ([flow_step env e_ustep_e (step_backup pf), flow_step env e_ustep_e (step_run_bootloader pf),
       step_wait_bootloader pf, step_request_stop pf] @ boot_phase pf env @
      [flow_step env e_ustep_e (sub_wait_plugout_bootloader pf), step_wait_lpu23x pf env,
       flow_step env e_ustep_e (step_recover pf),
       flow_step env e_ustep_e (with_device (sub_change_interface_after_update pf)),
       flow_step env e_ulstep_e (with_device (sub_set_iso_mode_after_update pf)), step_finish env])
     (u\<lparr>u_possible_exit := False, u_step := 1\<rparr>)"
  unfolding updates_pass_def boot_phase_def by simp

lemma flow_seq_ConsE:
  assumes "flow_seq (f # fs) u = Some (flow_on u')"
  obtains u1 where "f u = Some (flow_on u1)" "flow_seq fs u1 = Some (flow_on u')"
  using assms that by (auto split: option.splits flow.splits)

text \<open>The layout that the boot loader reports is not empty and stays within the range of \<open>int\<close>.\<close>

definition small_layout :: "'d hid_io \<Rightarrow> bool" where
  "small_layout io =
     (\<forall>m d b start area d'. get_sector_info_from_device io m d = Some ((True, b, start, area), d') \<longrightarrow>
        0 < unat (layout_area b area) \<and> unat (layout_start b start) + unat (layout_area b area) < 2 ^ 31)"

text \<open>The five steps of a phase that went through.\<close>

lemma boot_phase_steps:
  assumes "flow_seq (boot_phase pf env) u = Some (flow_on u')" "undisturbed u"
  obtains u1 u2 u3 u4 where
    "step_setup pf u = Some (True, u1)" "sub_erase_sector pf u1 = Some (True, u2)" "undisturbed u2"
    "step_user_index u2 = Some (flow_on u3)" "step_read_write pf env u3 = Some (True, u4)"
    "step_run_app pf u4 = Some (True, u')"
proof -
  obtain u1 where f1: "flow_step env e_ustep_e (step_setup pf) u = Some (flow_on u1)"
    and r1: "flow_seq (tl (boot_phase pf env)) u1 = Some (flow_on u')"
    using assms(1) unfolding boot_phase_def list.sel by (rule flow_seq_ConsE)
  obtain u2 where f2: "flow_step env e_ustep_e (sub_erase_sector pf) u1 = Some (flow_on u2)"
    and r2: "flow_seq (tl (tl (boot_phase pf env))) u2 = Some (flow_on u')"
    using r1 unfolding boot_phase_def list.sel by (rule flow_seq_ConsE)
  obtain u3 where f3: "step_user_index u2 = Some (flow_on u3)"
    and r3: "flow_seq (tl (tl (tl (boot_phase pf env)))) u3 = Some (flow_on u')"
    using r2 unfolding boot_phase_def list.sel by (rule flow_seq_ConsE)
  obtain u4 where f4: "flow_step env e_ustep_e (step_read_write pf env) u3 = Some (flow_on u4)"
    and r4: "flow_seq (tl (tl (tl (tl (boot_phase pf env))))) u4 = Some (flow_on u')"
    using r3 unfolding boot_phase_def list.sel by (rule flow_seq_ConsE)
  have f5: "flow_step env e_ustep_e (step_run_app pf) u4 = Some (flow_on u')"
    using r4 unfolding boot_phase_def list.sel by (rule flow_seq_ConsE) simp
  have s1: "step_setup pf u = Some (True, u1)" "undisturbed u1"
    by (rule flow_step_on [OF f1 assms(2)], erule setup_calm)+
  have s2: "sub_erase_sector pf u1 = Some (True, u2)" "undisturbed u2"
    by (rule flow_step_on [OF f2 s1(2)], erule erase_calm)+
  have q3: "undisturbed u3" using s2(2) f3 by (auto simp: step_user_index_def undisturbed_def on_share_def split: if_splits)
  have s4: "step_read_write pf env u3 = Some (True, u4)" "undisturbed u4"
    by (rule flow_step_on [OF f4 q3], erule step_read_write_calm)+
  have "step_run_app pf u4 = Some (True, u')" by (rule flow_step_on [OF f5 s4(2)], erule run_app_calm)
  with s1(1) s2 f3 s4(1) that show ?thesis by blast
qed

text \<open>After a successful setup either the write list is empty or both lists fit the firmware.\<close>

lemma setup_lists:
  assumes "step_setup (recorded pf) u = Some (True, u1)" "firmware_ready env u fw"
    and "small_layout (recording (pf_boot_io pf))"
  shows "snd (u_dev u1) = snd (u_dev u) @ [info_packet] \<and> m_crom (u_app u1) = m_crom (u_app u)
     \<and> (m_v_write_sec_index (u_share u1) = []
        \<or> (\<exists>s a. int (fw_sectors fw) < a \<and> u_share u1 = set_write_sec_index (write_order s (fw_sectors fw))
              (set_erase_sec_index (map (\<lambda>i. s + int i) [0..<fw_sectors fw] @ [s + a - 1]) (u_share u))))"
proof -
  let ?n = "fw_sectors fw"
  have ready: "fw \<noteq> []" "length fw < 2 ^ 31" "m_n_size_fw (u_share u) = length fw"
    using assms(2) by (simp_all add: firmware_ready_def)
  have n: "0 < ?n" by (rule fw_sectors_bounds(1) [OF ready(1)])
  have need: "n_need_fw_sec (m_n_size_fw (u_share u)) = of_nat ?n"
    using need_sectors [OF ready(2)] ready(3) by simp
  have "length fw \<le> ?n * 4096" "(?n - 1) * 4096 < length fw"
    using fw_sectors_bounds [OF ready(1)] by simp_all
  then have un: "unat (of_nat ?n :: u32) = ?n" using ready(2) by (intro unat_of_nat_u32) simp
  obtain opened m sh m' sh' st st' where st: "snd st = snd (u_dev u)" "sh = u_share u"
    and sel: "SelectDevice (recording (pf_boot_io pf)) opened (m_n_size_fw (u_share u)) m sh st = Some (True, m', sh', st')"
    and u1: "u_dev u1 = st'" "u_app u1 = (u_app u)\<lparr>m_share := sh'\<rparr>"
    using setup_trace [OF assms(1)] by (elim exE conjE) (rule that)
  obtain b start area where tr: "snd st' = snd st @ [info_packet]"
    and info: "get_sector_info_from_device (recording (pf_boot_io pf))
      (m\<lparr>m_b_exist_sec_info := False, m_b_dev_open := opened\<rparr>) st = Some ((True, b, start, area), st')"
    and lists: "m_v_write_sec_index sh' = [] \<or>
      (of_nat ?n \<noteq> (0 :: u32) \<and> of_nat ?n \<le> layout_area b area - 1
       \<and> sh' = set_write_sec_index (write_list (layout_start b start) (of_nat ?n))
           (set_erase_sec_index (erase_list (layout_start b start) (layout_area b area) (of_nat ?n)) sh))"
    using select_trace [OF sel] unfolding need by (elim exE conjE) (rule that)
  let ?s = "int (unat (layout_start b start))" and ?a = "int (unat (layout_area b area))"
  have small: "0 < unat (layout_area b area)" "unat (layout_start b start) + unat (layout_area b area) < 2 ^ 31"
    using assms(3) info unfolding small_layout_def by blast+
  have "m_v_write_sec_index sh' = [] \<or> (int ?n < ?a \<and> sh' = set_write_sec_index (write_order ?s ?n)
      (set_erase_sec_index (map (\<lambda>i. ?s + int i) [0..<?n] @ [?s + ?a - 1]) sh))"
    using lists
  proof (elim disjE conjE)
    assume le: "of_nat ?n \<le> layout_area b area - 1"
      and sh': "sh' = set_write_sec_index (write_list (layout_start b start) (of_nat ?n))
           (set_erase_sec_index (erase_list (layout_start b start) (layout_area b area) (of_nat ?n)) sh)"
    have area: "?n < unat (layout_area b area)"
      using le small by (simp add: word_le_nat_alt un unat_minus_one del: unsigned_less)
    then have small2: "unat (layout_start b start) + ?n < 2 ^ 31" using small(2) by simp
    have "int ?n < ?a" using area by (simp only: of_nat_less_iff)
    then show ?thesis
      unfolding sh' write_list_order [OF n small2] erase_list_order [OF small(2) area] by simp
  qed simp
  then show ?thesis using u1 st tr by auto
qed


text \<open>The same phase with a boot loader that takes everything.\<close>

definition accepting_loader :: "'d hid_io \<Rightarrow> boot_manager \<Rightarrow> bool" where
  "accepting_loader io m =
     (device_accepts io m
      \<and> (\<forall>k d. \<exists>d'. do_erase_in_worker io m k d = Some (True, boot_ok, d'))
      \<and> (\<forall>d. fst (GotoApp io m d)))"

lemma erase_succeeds:
  assumes "accepting_loader (pf_boot_io pf) (u_boot u)"
  shows "\<exists>u'. run_all (map (erase_one pf) ks) u = Some (True, u') \<and> u_app u' = u_app u
     \<and> u_boot u' = u_boot u \<and> u_stops u' = u_stops u"
  using assms
proof (induction ks arbitrary: u)
  case (Cons k ks)
  obtain d where d: "do_erase_in_worker (pf_boot_io pf) (u_boot u) k (u_dev u) = Some (True, boot_ok, d)"
    using Cons.prems unfolding accepting_loader_def by blast
  define u1 where "u1 = push_msg True (txt_erase k) ((next_step u)\<lparr>u_dev := d\<rparr>)"
  have e: "erase_one pf k u = Some (True, u1)"
    using d by (simp add: erase_one_def u1_def next_step_def)
  have "\<exists>u'. run_all (map (erase_one pf) ks) u1 = Some (True, u') \<and> u_app u' = u_app u1
     \<and> u_boot u' = u_boot u1 \<and> u_stops u' = u_stops u1"
    by (rule Cons.IH) (use Cons.prems erase_one_frame [OF e] in simp)
  then show ?case using e erase_one_frame [OF e] by auto
qed simp

lemma flow_step_Some:
  "f u = Some (True, u1) \<Longrightarrow> undisturbed u1 \<Longrightarrow> flow_step env ev f u = Some (flow_on u1)"
  by (simp add: flow_step_def check_running_def)

lemma boot_phase_succeeds:
  assumes "step_setup pf u = Some (True, u1)" "update_of env u1 s fw"
    and "accepting_loader (pf_boot_io pf) (u_boot u1)" "m_n_fw_index_by_user (u_share u1) < 0"
  shows "\<exists>u'. flow_seq (boot_phase pf env) u = Some (flow_on u')"
proof -
  obtain u2 where e: "sub_erase_sector pf u1 = Some (True, u2)" and u2: "u_app u2 = u_app u1"
    "u_boot u2 = u_boot u1" "u_stops u2 = u_stops u1"
    using erase_succeeds [OF assms(3)] unfolding sub_erase_sector_def by blast
  let ?v = "u2\<lparr>u_sector := ([], 0)\<rparr>"
  have up2: "update_of env u2 s fw" and upv: "update_of env ?v s fw"
    by (rule update_of_same [OF assms(2)]; simp add: u2)+
  have acc: "device_accepts (pf_boot_io pf) (u_boot ?v)" using assms(3) u2 by (simp add: accepting_loader_def)
  have n: "0 < fw_sectors fw" using fw_sectors_bounds(1) [OF update_of_fw [OF assms(2)]] .
  obtain u4 where w: "read_write_loop pf env True ?v = Some (True, u4)" and u4: "u_boot u4 = u_boot u1" "undisturbed u4"
    using read_write_succeeds [OF acc upv, of True 0] n u2(2) by (auto simp: reader_at_def)
  have "fst (GotoApp (pf_boot_io pf) (u_boot u1) (u_dev u4))" using assms(3) by (simp add: accepting_loader_def)
  then obtain u5 where r: "step_run_app pf u4 = Some (True, u5)" and q5: "undisturbed u5"
    using u4 by (cases "GotoApp (pf_boot_io pf) (u_boot u1) (u_dev u4)")
      (auto simp: step_run_app_def sub_run_app_def undisturbed_def push_msg_def)
  have "undisturbed u1" "undisturbed u2" using assms(2) up2 by (simp_all add: update_of_def)
  moreover have "step_user_index u2 = Some (flow_on u2)" using assms(4) u2 by (simp add: step_user_index_def)
  ultimately have "flow_seq (boot_phase pf env) u = Some (flow_on u5)"
    using assms(1) e w r u4(2) q5 by (simp add: boot_phase_def flow_step_Some step_read_write_def)
  then show ?thesis by blast
qed

section \<open>The end of the boot loader\<close>

text \<open>The wait for the boot loader to leave the bus does not wait: its filter lets no boot loader
  through, so a boot loader among the known devices counts as removed in the first round although
  the enumeration still shows it.\<close>

theorem boot_loader_plugout_not_awaited:
  assumes "wf_dev_set (m_set_cur_dev_info (u_lib u))" "i \<in> set (m_set_cur_dev_info (u_lib u))"
    and "path_chars (get_path i) = u_bootloader_path u" "pf_enumerate pf (u_dev u) = (es, d)"
    and "\<forall>j\<in>set (enumerated_set (u_lib u) es). get_path j = get_path i \<longrightarrow> m_w_pid j = of_int const_usb_pid_hidbl"
  shows "\<exists>u'. sub_wait_plugout_bootloader pf u = Some (True, u') \<and> u_bootloader_path u' = []"
proof -
  let ?u = "push_msg True txt_wait_plugout_boot (use_filter plugout_bootloader_filter (next_step u))"
  let ?lib = "set_usb_filter plugout_bootloader_filter (u_lib u)"
  have cur: "m_set_cur_dev_info ?lib = m_set_cur_dev_info (u_lib u)"
    "m_set_usb_filter ?lib = plugout_bootloader_filter" "enumerated_set ?lib es = enumerated_set (u_lib u) es"
    by (simp_all add: set_usb_filter_def plugout_bootloader_filter_def enumerated_set_def considered_removed_def
        split: prod.splits)
  have pid: "\<not> list_ex (\<lambda>f. passes_filter f j) plugout_bootloader_filter"
    if "m_w_pid j = of_int const_usb_pid_hidbl" for j
    using that by (simp add: plugout_bootloader_filter_def usb_ids)
  obtain b lib' where l: "update_dev_set es ?lib = (b, lib')" by (cases "update_dev_set es ?lib")
  have "get_path i \<in> dev_paths (m_set_removed_dev_info lib')"
    by (rule unfiltered_device_is_removed [OF _ _ _ _ l])
      (use assms(1,2,5) pid in \<open>simp_all add: cur\<close>, simp_all add: plugout_bootloader_filter_def)
  then obtain k where k: "find_path (m_set_removed_dev_info lib') (u_bootloader_path u) = Some k"
    using assms(3) by (cases "find_path (m_set_removed_dev_info lib') (u_bootloader_path u)")
      (auto simp: dev_paths_def find_path_def find_None_iff)
  have "u_lib (update_devs pf ?u) = lib'" "u_bootloader_path (update_devs pf ?u) = u_bootloader_path u"
    using assms(4) l by (simp_all add: update_devs_def push_msg_def use_filter_def next_step_def)
  then show ?thesis
    using k by (simp add: sub_wait_plugout_bootloader_def numeral_eq_Suc)
qed

section \<open>An update that happens\<close>

text \<open>The loader that reports the sectors 2 to 31 and takes everything, recorded.\<close>

definition example_platform :: "unit platform" where
  "example_platform =
     \<lparr>pf_lpu_io = layout_io 2 30, pf_boot_io = layout_io 2 30, pf_after_io = layout_io 2 30,
      pf_enumerate = (\<lambda>d. ([loader_item], d)), pf_open = (\<lambda>_ d. (True, d)),
      pf_request_stop = (\<lambda>_ d. (False, d))\<rparr>"

abbreviation example_io :: "(unit \<times> bytes list) hid_io" where
  "example_io \<equiv> recording (layout_io 2 30)"

definition layout_reply :: "bytes \<Rightarrow> bytes" where
  "layout_reply tx = [tx ! 0, 0] @ replicate 8 0 @ le32 2 @ le32 30 @ replicate 46 0"

lemma layout_TxRx:
  assumes "m_b_dev_open m" "tx \<noteq> []"
  shows "DDL_TxRx example_io m tx zero_packet (d, tr) = (64, layout_reply tx, (d, tr @ [tx]))"
proof -
  have "length (layout_reply tx) = 64" by (simp add: layout_reply_def)
  moreover have "io_write_read_sync example_io (d, tr) tx = (Some (layout_reply tx), (d, tr @ [tx]))"
    by (simp add: recording_def layout_io_def layout_reply_def)
  ultimately show ?thesis
    using assms by (simp add: DDL_TxRx_def overlay_def zero_packet_def C_PACKET_SIZE_def)
qed

lemma layout_wait:
  assumes "tx ! 0 \<noteq> 0"
  shows "wait_reply example_io m (layout_reply tx) st = Some (None, layout_reply tx, st)"
  using assms by (simp add: wait_reply.simps is_zero_packet_def layout_reply_def)

lemma layout_result [simp]: "replay_cResult (layout_reply tx) = HIDB_REP_RESULT_SUCCESS"
  by (simp add: replay_cResult_def layout_reply_def HIDB_REP_RESULT_SUCCESS_def)

lemma packet_cmd [simp]:
  "enc_request r \<noteq> []" "enc_request r ! 0 = cCmd r"
  by (simp_all add: enc_request_def)

lemma layout_write_loop:
  assumes "m_b_dev_open m" "length v = 4096" "i < 76"
  shows "\<exists>d'. write_loop example_io m k v i (i * 54) d = Some (True, boot_ok, d')"
  using assms(3)
proof (induction "76 - i" arbitrary: i d)
  case (Suc j)
  have cmd: "sector_packet k v i \<noteq> []" "sector_packet k v i ! 0 \<noteq> 0" for i
    by (simp_all add: sector_packet_def write_packet_def HIDB_REQ_CMD_WRITE_def)
  obtain d0 tr where d: "d = (d0, tr)" by (cases d)
  show ?case
  proof (cases "i = 75")
    case True
    then show ?thesis
      using cmd layout_TxRx [OF assms(1) cmd(1) [of 75], of d0 tr] layout_wait
      by (simp add: write_loop_last [OF assms(2)] write_last_def d)
  next
    case False
    then have i: "i < 75" using Suc.prems by simp
    have "DDL_write example_io m (sector_packet k v i) d =
        (length (sector_packet k v i), (d0, tr @ [sector_packet k v i]))"
      using assms(1) cmd by (simp add: DDL_write_def recording_def layout_io_def d)
    then show ?thesis
      using Suc.hyps(1) [of "i + 1" "(d0, tr @ [sector_packet k v i])"] Suc.hyps(2) i cmd
      by (simp add: write_loop_packet [OF assms(2) i refl] add.commute)
  qed
qed simp

lemma layout_accepts:
  assumes "m_b_dev_open m"
  shows "accepting_loader example_io m"
proof -
  have w: "device_accepts example_io m"
    unfolding device_accepts_def do_write_sector_def
    using layout_write_loop [OF assms, of _ 0] by (metis mult_zero_left zero_less_numeral)
  have e: "\<exists>d'. do_erase_in_worker example_io m k d = Some (True, boot_ok, d')" for k d
  proof -
    obtain d0 tr where d: "d = (d0, tr)" by (cases d)
    show ?thesis
      using layout_TxRx [OF assms, of "enc_request \<lparr>cCmd = HIDB_REQ_CMD_ERASE, dwPara = of_int k, wChain = 0,
          wLen = 0, sData = data_zero\<rparr>" d0 tr]
        layout_wait [of "enc_request \<lparr>cCmd = HIDB_REQ_CMD_ERASE, dwPara = of_int k, wChain = 0,
          wLen = 0, sData = data_zero\<rparr>"]
      by (simp add: do_erase_in_worker_def d Let_def HIDB_REQ_CMD_ERASE_def)
  qed
  have "fst (GotoApp example_io m d)" for d
    using assms by (cases d) (simp add: GotoApp_def DDL_write_def recording_def layout_io_def Let_def)
  with w e show ?thesis by (simp add: accepting_loader_def)
qed

text \<open>The firmware of 5000 bytes in a raw file.\<close>

definition example_fw :: bytes where "example_fw = replicate 5000 0x41"

definition example_env :: "nat file_env" where
  "example_env = raw_env\<lparr>env_files := \<lparr>content = (\<lambda>_. Some example_fw), writable = (\<lambda>_. False)\<rparr>\<rparr>"

definition example_share :: "nat share" where
  "example_share = share_ini\<lparr>m_s_rom_file_abs_full_path := Some 7, m_n_size_fw := 5000,
     m_b_start_from_bootloader := True\<rparr>"

definition example_lib :: clibhid where
  "example_lib = clibhid_ini (\<lambda>_. True) default_usb_filter []"

definition example_updater :: "(nat, unit \<times> bytes list) updater" where
  "example_updater =
     \<lparr>u_app = (app_ini \<lparr>m_Header = zero_head, m_sRomFileName = None\<rparr> example_share 10)
                \<lparr>m_state := s_ing, m_n_tab_index := 5, m_b_is_running := True, m_thread_started := True\<rparr>,
      u_q_messages = [], u_cursor = fw_cursor_ini,
      u_boot = \<lparr>m_b_dev_open = False, m_b_exist_sec_info = False, m_listDev_size = 0\<rparr>,
      u_lib = example_lib, u_dev = ((), []), u_stops = [], u_device_path = [0x2F, 0x62],
      u_bootloader_path = [0x2F, 0x62], u_possible_exit = True, u_plugin_device = None, u_step = 1,
      u_sector = ([], 0), u_need_close_lpu23x = False, u_need_close_bootloader = False\<rparr>"

lemma example_ready: "firmware_ready example_env example_updater example_fw"
  by (simp add: firmware_ready_def example_env_def example_updater_def example_share_def app_ini_def
      share_ini_def undisturbed_def example_fw_def raw_env_def)

lemma example_sectors: "fw_sectors example_fw = 2"
  by (simp add: fw_sectors_def example_fw_def C_SECTOR_SIZE_def)

lemma loader_path: "get_path (new_dev_info loader_item) = dev_path [0x2F, 0x62]"
  by (simp add: get_path_def new_dev_info_def loader_item_def Let_def)

lemma example_open:
  assumes "m_set_cur_dev_info (u_lib u) = [new_dev_info loader_item]"
  shows "DDL_open (recorded example_platform) [0x2F, 0x62] u = (True, u_dev u)"
  using assms
  by (cases "u_dev u") (simp add: DDL_open_def find_path_def loader_path recorded_def example_platform_def)

lemma example_devices:
  "GetDeviceList (recorded example_platform) example_updater =
     example_updater\<lparr>u_lib := snd (update_dev_set [loader_item] (set_usb_filter [(0x134b, 0x0243, - 1)] example_lib)),
       u_boot := \<lparr>m_b_dev_open = False, m_b_exist_sec_info = False, m_listDev_size = 1\<rparr>\<rparr>"
  "m_set_cur_dev_info (snd (update_dev_set [loader_item] (set_usb_filter [(0x134b, 0x0243, - 1)] example_lib)))
     = [new_dev_info loader_item]"
  by (simp_all add: GetDeviceList_def update_devs_def use_filter_def recorded_def example_platform_def
      example_updater_def Let_def example_lib_def update_dev_set_def set_usb_filter_def get_device_set_def
      enumerated_set_def loader_item_def considered_removed_def clibhid_ini_def set_emplace_def
      must_be_removed_def subtract_def filter_dev_info_set_def new_dev_info_def usb_ids)

text \<open>The state after the boot loader has been opened.\<close>

definition example_boot :: boot_manager where
  "example_boot = \<lparr>m_b_dev_open = True, m_b_exist_sec_info = True, m_listDev_size = 1\<rparr>"

definition example_setup :: "(nat, unit \<times> bytes list) updater" where
  "example_setup = (push_msg True txt_setup
     ((on_share (\<lambda>_. set_write_sec_index (write_order 2 2)
        (set_erase_sec_index [2, 3, 31] example_share)) (GetDeviceList (recorded example_platform) example_updater))
      \<lparr>u_boot := example_boot, u_dev := ((), [info_packet])\<rparr>))\<lparr>u_need_close_bootloader := True\<rparr>"

lemma example_info:
  assumes "m_b_dev_open m"
  shows "get_sector_info_from_device example_io m (d, tr) = Some ((True, True, 2, 30), (d, tr @ [info_packet]))"
proof -
  have cmd: "info_packet \<noteq> []" "info_packet ! 0 \<noteq> 0"
    by (simp_all add: info_packet_def request_packet_def HIDB_REQ_CMD_GET_SECTOR_INFO_def)
  have "un_le32 (replay_sData (layout_reply info_packet)) = 2"
    "un_le32 (drop 4 (replay_sData (layout_reply info_packet))) = 30"
    by (simp_all add: replay_sData_def layout_reply_def le32_def un_le32_def)
  then show ?thesis
    using layout_TxRx [OF assms cmd(1), of d tr] layout_wait [OF cmd(2), of m "(d, tr @ [info_packet])"]
    by (simp add: get_sector_info_from_device_def info_packet_def request_packet_def Let_def)
qed

lemma example_setup_step: "step_setup (recorded example_platform) example_updater = Some (True, example_setup)"
proof -
  let ?g = "GetDeviceList (recorded example_platform) example_updater"
  let ?m = "\<lparr>m_b_dev_open = False, m_b_exist_sec_info = False, m_listDev_size = Suc 0\<rparr> :: boot_manager"
  have need: "n_need_fw_sec 5000 = (2 :: u32)" by (simp add: n_need_fw_sec_def C_SECTOR_SIZE_def)
  have lists: "write_list 2 2 = write_order 2 2" "erase_list 2 30 2 = [2, 3, 31]"
    using write_list_order [of 2 2] erase_list_order [of 2 30 2] by (simp_all add: upt_rec)
  have "get_sector_info_from_device example_io
      (?m\<lparr>m_b_exist_sec_info := False, m_b_dev_open := True\<rparr>) ((), []) = Some ((True, True, 2, 30), ((), [info_packet]))"
    using example_info [of "?m\<lparr>m_b_exist_sec_info := False, m_b_dev_open := True\<rparr>" "()" "[]"] by simp
  from select_device_fits [OF _ this, of 5000 example_share]
  have sel: "SelectDevice example_io True 5000 ?m example_share ((), []) =
      Some (True, example_boot, set_write_sec_index (write_order 2 2)
        (set_erase_sec_index [2, 3, 31] example_share), ((), [info_packet]))"
    by (simp add: need layout_start_def layout_area_def example_boot_def lists)
  have "DDL_open (recorded example_platform) [0x2F, 0x62] ?g = (True, ((), []))"
    using example_open [of ?g] by (simp add: example_devices) (simp add: example_updater_def)
  moreover have "u_boot ?g = ?m" "u_share ?g = example_share" "u_dev ?g = ((), [])"
    "u_bootloader_path example_updater = [0x2F, 0x62]" "m_n_size_fw example_share = 5000"
    by (simp_all add: example_devices(1)) (simp_all add: example_updater_def app_ini_def example_share_def)
  moreover have "pf_boot_io (recorded example_platform) = example_io" by (simp add: example_platform_def)
  ultimately show ?thesis
    by (simp add: step_setup_def sub_setup_bootloader_def select_boot_def sel example_setup_def)
qed

lemma example_app:
  "u_app example_setup = (u_app example_updater)\<lparr>m_share := set_write_sec_index (write_order 2 2)
        (set_erase_sec_index [2, 3, 31] example_share)\<rparr>" "u_stops example_setup = []"
  by (simp_all add: example_setup_def push_msg_def on_share_def example_devices(1))
    (simp_all add: example_updater_def)

lemma example_runs:
  "\<exists>u'. flow_seq (boot_phase (recorded example_platform) example_env) example_updater = Some (flow_on u')"
proof (rule boot_phase_succeeds [OF example_setup_step, where fw = example_fw])
  show "update_of example_env example_setup 2 example_fw"
    by (rule ready_selected [OF example_ready, where es = "[2, 3, 31]"])
      (simp_all add: example_app example_sectors, simp_all add: example_updater_def app_ini_def undisturbed_def example_app)
  show "accepting_loader (pf_boot_io (recorded example_platform)) (u_boot example_setup)"
    using layout_accepts [of example_boot]
    by (simp add: example_platform_def example_setup_def push_msg_def example_boot_def)
  show "m_n_fw_index_by_user (u_share example_setup) < 0"
    by (simp add: example_app set_write_sec_index_def set_erase_sec_index_def example_share_def share_ini_def)
qed

text \<open>The loader reports a layout of 30 sectors from sector 2 on, whatever was sent before.\<close>

lemma example_layout: "small_layout example_io"
  unfolding small_layout_def
proof (intro allI impI)
  fix m and d :: "unit \<times> bytes list" and b start area d'
  assume g: "get_sector_info_from_device example_io m d = Some ((True, b, start, area), d')"
  have "m_b_dev_open m" using g by (rule contrapos_pp) (simp add: get_sector_info_from_device_def DDL_TxRx_def Let_def)
  then show "0 < unat (layout_area b area) \<and> unat (layout_start b start) + unat (layout_area b area) < 2 ^ 31"
    using g example_info [of m] by (cases d) (simp add: layout_area_def layout_start_def)
qed


text \<open>The loop alone, after the setup.\<close>

lemma example_update_of: "update_of example_env example_setup 2 example_fw"
  by (rule ready_selected [OF example_ready, where es = "[2, 3, 31]"])
    (simp_all add: example_app example_sectors, simp_all add: example_updater_def app_ini_def undisturbed_def example_app)

lemma example_accepts: "device_accepts (pf_boot_io (recorded example_platform)) (u_boot example_setup)"
  using layout_accepts [of example_boot]
  by (simp add: example_platform_def example_setup_def push_msg_def example_boot_def accepting_loader_def)

theorem update_succeeds_witness:
  "\<exists>u'. read_write_loop (recorded example_platform) example_env True example_setup = Some (True, u')"
  by (rule update_succeeds [OF example_accepts example_update_of])


text \<open>Without a boot loader to open, the setup fails and the thread ends in the state of a finished update.\<close>

definition example_lost :: "(nat, unit \<times> bytes list) updater" where
  "example_lost = example_updater\<lparr>u_bootloader_path := []\<rparr>"

lemma request_stop_path: "u_bootloader_path (snd (request_stop_all_hidboot pf u)) = u_bootloader_path u"
  by (simp add: request_stop_all_hidboot_def update_devs_def use_filter_def Let_def split: prod.splits)

lemma example_lost_pass: "\<exists>r. updates_pass pf env example_lost = Some r"
proof -
  let ?f = "flow_step env e_ustep_e"
  define u where "u = example_lost\<lparr>u_possible_exit := False, u_step := 1, u_need_close_lpu23x := True\<rparr>"
  have st: "undisturbed u" "m_b_start_from_bootloader (u_share u)" "u_bootloader_path u = []"
    by (simp_all add: u_def example_lost_def example_updater_def app_ini_def example_share_def undisturbed_def)
  have "step_backup pf (example_lost\<lparr>u_possible_exit := False, u_step := 1\<rparr>) = Some (True, u)"
    using st(2) by (simp add: step_backup_def sub_backup_system_param_def u_def)
  then have 1: "?f (step_backup pf) (example_lost\<lparr>u_possible_exit := False, u_step := 1\<rparr>) = Some (flow_on u)"
    by (rule flow_step_Some [OF _ st(1)])
  let ?v = "u\<lparr>u_need_close_lpu23x := False\<rparr>"
  have v: "undisturbed ?v" using st(1) by (simp add: undisturbed_def)
  have "step_run_bootloader pf u = Some (True, ?v)"
    using st(2) by (simp add: step_run_bootloader_def sub_run_bootloader_def)
  then have 2: "?f (step_run_bootloader pf) u = Some (flow_on ?v)" by (rule flow_step_Some [OF _ v])
  have "running ?v = (True, ?v)" using v by (simp add: undisturbed_def running_def)
  then have 3: "step_wait_bootloader pf ?v = Some (flow_on ?v)"
    using st(2) by (simp add: step_wait_bootloader_def sub_wait_plugout_lpu23x_def
        sub_wait_plugin_bootloader_def check_running_def)
  let ?w = "snd (request_stop_all_hidboot pf ?v)"
  have 5: "?f (step_setup pf) ?w = Some (flow_continue (end_with env e_ustep_e (push_msg False txt_setup ?w)))"
    using st(3) by (simp add: flow_step_def step_setup_def sub_setup_bootloader_def request_stop_path)
  show ?thesis
    by (simp add: updates_pass_def 1 2 3 step_request_stop_def 5)
qed

lemma example_lost_state:
  "m_state (u_app example_lost) = s_ing" "m_b_is_running (u_app example_lost)" "u_stops example_lost = []"
  by (simp_all add: example_lost_def example_updater_def)


theorem boot_loader_plugout_not_awaited_witness:
  "enumerated_set (u_lib example_setup) [loader_item] = [new_dev_info loader_item]
   \<and> (\<exists>u'. sub_wait_plugout_bootloader (recorded example_platform) example_setup = Some (True, u')
        \<and> u_bootloader_path u' = [])"
proof -
  have lib: "u_lib example_setup = snd (update_dev_set [loader_item] (set_usb_filter [(0x134b, 0x0243, - 1)] example_lib))"
    "u_bootloader_path example_setup = [0x2F, 0x62]" "u_dev example_setup = ((), [info_packet])"
    by (simp_all add: example_setup_def push_msg_def on_share_def example_devices(1))
      (simp add: example_updater_def)
  have en: "enumerated_set (u_lib example_setup) [loader_item] = [new_dev_info loader_item]"
    by (simp add: Let_def lib example_lib_def update_dev_set_def set_usb_filter_def get_device_set_def
      enumerated_set_def loader_item_def considered_removed_def clibhid_ini_def set_emplace_def
      must_be_removed_def subtract_def filter_dev_info_set_def new_dev_info_def usb_ids)
  have "\<exists>u'. sub_wait_plugout_bootloader (recorded example_platform) example_setup = Some (True, u')
        \<and> u_bootloader_path u' = []"
  proof (rule boot_loader_plugout_not_awaited [where i = "new_dev_info loader_item" and es = "[loader_item]"
        and d = "((), [info_packet])"])
    show "pf_enumerate (recorded example_platform) (u_dev example_setup) = ([loader_item], (), [info_packet])"
      by (simp add: lib recorded_def example_platform_def)
    show "\<forall>j\<in>set (enumerated_set (u_lib example_setup) [loader_item]).
       get_path j = get_path (new_dev_info loader_item) \<longrightarrow> m_w_pid j = of_int const_usb_pid_hidbl"
      unfolding en by (simp add: new_dev_info_def loader_item_def usb_ids)
  qed (simp_all add: lib example_devices(2) wf_dev_set_def loader_path)
  then show ?thesis using en by simp
qed

end
