(* ===== verification/WsSession.thy ===== *)
theory WsSession
  imports MainCtl
begin

text \<open>
  The sessions of the web server (\<open>cws_server::csession\<close> and \<open>cws_server\<close> in
  \<open>src/shared/lib/inc/websocket/mp_cws_server.h\<close>) without the network: what happens when an asynchronous
  operation of Boost.Beast ends, in the order in which its executor runs the handlers of one session. The state
  says which operations are under way: the handlers that are posted, the write, the read, the opening
  handshakes. The calls of the callbacks are events.
\<close>

section \<open>A session\<close>

record ws_session =
  w_number :: u32
  w_ssl :: bool
  w_setup :: bool
  w_removed :: bool
  w_posted :: "bytes list"
  w_queue :: "bytes list"
  w_writing :: "bytes option"
  w_reading :: bool
  w_accepting :: bool
  w_handshaking :: bool

text \<open>How a read ends: well, because the connection was closed, or with another error; then the stream is open or not.\<close>

datatype ws_error = err_none | err_closed | err_other bool

datatype ws_event =
  ev_handshake bool | ev_accept bool | ev_read ws_error bytes | ev_write bool bytes | ev_close bool | ev_close_files

definition new_ws_session :: "u32 \<Rightarrow> bool \<Rightarrow> ws_session" where
  "new_ws_session n b_ssl =
     \<lparr>w_number = n, w_ssl = b_ssl, w_setup = False, w_removed = False, w_posted = [], w_queue = [], w_writing = None,
      w_reading = False, w_accepting = False, w_handshaking = False\<rparr>"

definition ws_run :: "ws_session \<Rightarrow> ws_session" where
  "ws_run s = (if w_ssl s then s\<lparr>w_handshaking := True\<rparr> else s\<lparr>w_accepting := True\<rparr>)"

definition ws_do_read :: "ws_session \<Rightarrow> ws_session" where
  "ws_do_read s = s\<lparr>w_reading := True\<rparr>"

definition ws_write :: "bytes \<Rightarrow> ws_session \<Rightarrow> ws_session" where
  "ws_write v_tx s = (if v_tx = [] then s else s\<lparr>w_writing := Some v_tx\<rparr>)"

text \<open>\<open>do_send\<close> posts the handler \<open>_on_send\<close>.\<close>

definition do_send :: "bytes \<Rightarrow> ws_session \<Rightarrow> bool \<times> ws_session" where
  "do_send v_data s =
     (if w_removed s then (False, s)
      else if v_data = [] then (False, s)
      else if \<not> w_setup s then (False, s)
      else (True, s\<lparr>w_posted := w_posted s @ [v_data]\<rparr>))"

definition on_send :: "bytes \<Rightarrow> ws_session \<Rightarrow> ws_session" where
  "on_send v_data s =
     (let s' = s\<lparr>w_queue := w_queue s @ [v_data]\<rparr> in
      if length (w_queue s') > 1 then s' else ws_write (hd (w_queue s')) s')"

text \<open>The write has ended, with an error or with a number of bytes.\<close>

definition on_write :: "bool \<Rightarrow> nat \<Rightarrow> ws_session \<Rightarrow> ws_event list \<times> ws_session" where
  "on_write ec bytes_transferred s =
     (let v_buffer = (case w_writing s of None \<Rightarrow> [] | Some v \<Rightarrow> v); s0 = s\<lparr>w_writing := None\<rparr> in
      if ec then ([ev_write True []], s0)
      else (let s1 = s0\<lparr>w_queue := tl (w_queue s0)\<rparr> in
            ([ev_write False (take bytes_transferred v_buffer)],
             if w_queue s1 \<noteq> [] then ws_write (hd (w_queue s1)) s1 else s1)))"

definition on_read :: "ws_error \<Rightarrow> bytes \<Rightarrow> ws_session \<Rightarrow> ws_event list \<times> ws_session" where
  "on_read ec v_data s =
     (let s0 = s\<lparr>w_reading := False\<rparr>; e = ev_read ec v_data in
      case ec of
        err_closed \<Rightarrow> ([e, ev_close_files], s0\<lparr>w_removed := True\<rparr>)
      | err_other b_open \<Rightarrow>
          (if \<not> b_open then ([e, ev_close_files, ev_close True], s0\<lparr>w_removed := True\<rparr>) else ([e], s0))
      | err_none \<Rightarrow> ([e], ws_do_read s0))"

definition ws_on_accept :: "bool \<Rightarrow> ws_session \<Rightarrow> ws_event list \<times> ws_session" where
  "ws_on_accept ec s =
     (let s0 = s\<lparr>w_accepting := False\<rparr> in
      if ec then ([ev_accept True], s0) else ([ev_accept False], ws_do_read (s0\<lparr>w_setup := True\<rparr>)))"

definition on_handshake :: "bool \<Rightarrow> ws_session \<Rightarrow> ws_event list \<times> ws_session" where
  "on_handshake ec s =
     (let s0 = s\<lparr>w_handshaking := False\<rparr> in
      if \<not> w_ssl s then ([], s0)
      else if ec then ([ev_handshake True, ev_close_files], s0\<lparr>w_removed := True\<rparr>)
      else ([ev_handshake False], s0\<lparr>w_accepting := True\<rparr>))"

text \<open>A control frame of the client; only the one that closes counts.\<close>

definition on_callback_control :: "bool \<Rightarrow> ws_session \<Rightarrow> ws_event list \<times> ws_session" where
  "on_callback_control b_close s =
     (if b_close then ([ev_close_files, ev_close True], s\<lparr>w_setup := False, w_removed := True\<rparr>) else ([], s))"

text \<open>The end of a close that the server began. Nothing calls \<open>_do_close\<close>, so it is no step of a session below.\<close>

definition on_close :: "bool \<Rightarrow> ws_session \<Rightarrow> ws_event list \<times> ws_session" where
  "on_close ec s = ([ev_close_files, ev_close ec], s\<lparr>w_removed := True\<rparr>)"

section \<open>The server\<close>

text \<open>The sessions by number, the number of the next one, and how many random numbers were drawn.\<close>

record ws_server =
  ws_map :: "(u32, ws_session) ordered_map"
  ws_next :: u32
  ws_drawn :: nat

text \<open>The numbers come from a random generator, which is a sequence. Both loops may not end.\<close>

partial_function (option) generate_session_number :: "(nat \<Rightarrow> u32) \<Rightarrow> nat \<Rightarrow> (u32 \<times> nat) option" where
  "generate_session_number gen k =
     (if gen k = invalid_session_number then generate_session_number gen (k + 1) else Some (gen k, k + 1))"

partial_function (option) fresh_number :: "(nat \<Rightarrow> u32) \<Rightarrow> nat \<Rightarrow> (u32, ws_session) ordered_map \<Rightarrow> (u32 \<times> nat) option" where
  "fresh_number gen k m =
     (case generate_session_number gen k of
        None \<Rightarrow> None
      | Some (n, k') \<Rightarrow> if map_of m n \<noteq> None then fresh_number gen k' m else Some (n, k'))"

definition create_session_and_insert_to_map ::
  "(nat \<Rightarrow> u32) \<Rightarrow> bool \<Rightarrow> ws_server \<Rightarrow> (u32 option \<times> ws_server) option" where
  "create_session_and_insert_to_map gen b_ssl srv =
     (if map_of (ws_map srv) (ws_next srv) \<noteq> None then Some (None, srv)
      else let m = map_put (ws_next srv) (new_ws_session (ws_next srv) b_ssl) (ws_map srv) in
           map_option (\<lambda>(n, k). (Some (ws_next srv), \<lparr>ws_map = m, ws_next = n, ws_drawn = k\<rparr>))
             (fresh_number gen (ws_drawn srv) m))"

definition remove_remove_reserved_sesssion :: "ws_server \<Rightarrow> ws_server" where
  "remove_remove_reserved_sesssion srv = srv\<lparr>ws_map := filter (\<lambda>e. \<not> w_removed (snd e)) (ws_map srv)\<rparr>"

definition server_on_accept :: "(nat \<Rightarrow> u32) \<Rightarrow> bool \<Rightarrow> bool \<Rightarrow> ws_server \<Rightarrow> ws_server option" where
  "server_on_accept gen b_ssl ec srv =
     (let srv' = remove_remove_reserved_sesssion srv in
      if ec then Some srv'
      else map_option (\<lambda>(n, srv2). case n of
               None \<Rightarrow> srv2
             | Some x \<Rightarrow> srv2\<lparr>ws_map := map_put x (ws_run (the (map_of (ws_map srv2) x))) (ws_map srv2)\<rparr>)
             (create_session_and_insert_to_map gen b_ssl srv'))"

definition ws_get_session :: "u32 \<Rightarrow> ws_server \<Rightarrow> ws_session option" where
  "ws_get_session n srv =
     (case map_of (ws_map srv) n of None \<Rightarrow> None | Some s \<Rightarrow> if w_removed s then None else Some s)"

text \<open>Sending to one session and to all but one, with the messages that were accepted.\<close>

definition server_send :: "bytes \<Rightarrow> u32 \<Rightarrow> ws_server \<Rightarrow> (u32 \<times> bytes) list \<times> ws_server" where
  "server_send v_data n srv =
     (if v_data = [] then ([], srv)
      else case ws_get_session n srv of
        None \<Rightarrow> ([], srv)
      | Some s \<Rightarrow> (case do_send v_data s of
          (b, s') \<Rightarrow> (if b then [(n, v_data)] else [], srv\<lparr>ws_map := map_put n s' (ws_map srv)\<rparr>)))"

definition server_broadcast :: "u32 \<Rightarrow> bytes \<Rightarrow> ws_server \<Rightarrow> (u32 \<times> bytes) list \<times> ws_server" where
  "server_broadcast n_owner_session v_data srv =
     (if v_data = [] then ([], srv)
      else (let told = (\<lambda>s. w_number s \<noteq> n_owner_session) in
            (concat (map (\<lambda>(n, s). if told s \<and> fst (do_send v_data s) then [(n, v_data)] else []) (ws_map srv)),
             srv\<lparr>ws_map := map (\<lambda>(n, s). (n, if told s then snd (do_send v_data s) else s)) (ws_map srv)\<rparr>)))"

section \<open>The messages of a session\<close>

text \<open>
  What can happen to a session, with what was accepted for sending, what was written, whether a write has failed, and
  the events.
\<close>

inductive ws_steps :: "ws_session \<Rightarrow> bytes list \<Rightarrow> bytes list \<Rightarrow> bool \<Rightarrow> ws_event list \<Rightarrow> bool" where
  w_start: "ws_steps (ws_run (new_ws_session n b_ssl)) [] [] False []"
| w_send: "ws_steps s acc wr f ev \<Longrightarrow> do_send v s = (b, s') \<Longrightarrow> ws_steps s' (if b then acc @ [v] else acc) wr f ev"
| w_run_posted: "ws_steps s acc wr f ev \<Longrightarrow> w_posted s = v # vs \<Longrightarrow> ws_steps (on_send v (s\<lparr>w_posted := vs\<rparr>)) acc wr f ev"
| w_wrote: "ws_steps s acc wr f ev \<Longrightarrow> w_writing s = Some v \<Longrightarrow> on_write False (length v) s = (es, s')
    \<Longrightarrow> ws_steps s' acc (wr @ [v]) f (ev @ es)"
| w_write_failed: "ws_steps s acc wr f ev \<Longrightarrow> w_writing s = Some v \<Longrightarrow> on_write True n s = (es, s')
    \<Longrightarrow> ws_steps s' acc wr True (ev @ es)"
| w_read: "ws_steps s acc wr f ev \<Longrightarrow> w_reading s \<Longrightarrow> on_read ec v s = (es, s') \<Longrightarrow> ws_steps s' acc wr f (ev @ es)"
| w_control: "ws_steps s acc wr f ev \<Longrightarrow> w_reading s \<Longrightarrow> on_callback_control b s = (es, s') \<Longrightarrow> ws_steps s' acc wr f (ev @ es)"
| w_accepted: "ws_steps s acc wr f ev \<Longrightarrow> w_accepting s \<Longrightarrow> ws_on_accept b s = (es, s') \<Longrightarrow> ws_steps s' acc wr f (ev @ es)"
| w_handshake: "ws_steps s acc wr f ev \<Longrightarrow> w_handshaking s \<Longrightarrow> on_handshake b s = (es, s') \<Longrightarrow> ws_steps s' acc wr f (ev @ es)"

text \<open>The messages that the write callback was told of.\<close>

fun told_written :: "ws_event list \<Rightarrow> bytes list" where
  "told_written [] = []"
| "told_written (ev_write False v # es) = v # told_written es"
| "told_written (_ # es) = told_written es"

definition ws_ok :: "ws_session \<Rightarrow> bytes list \<Rightarrow> bytes list \<Rightarrow> bool \<Rightarrow> ws_event list \<Rightarrow> bool" where
  "ws_ok s acc wr f ev =
     (acc = wr @ w_queue s @ w_posted s \<and> told_written ev = wr \<and> [] \<notin> set (wr @ w_queue s @ w_posted s)
      \<and> (w_writing s = (if f \<or> w_queue s = [] then None else Some (hd (w_queue s))))
      \<and> (f \<longrightarrow> w_queue s \<noteq> []) \<and> (w_removed s \<longleftrightarrow> ev_close_files \<in> set ev))"

lemma told_written_append: "told_written (a @ b) = told_written a @ told_written b"
  by (induction a rule: told_written.induct) simp_all

text \<open>A step that leaves the messages alone.\<close>

lemma ws_ok_frame:
  assumes "ws_ok s acc wr f ev" "w_queue s' = w_queue s" "w_posted s' = w_posted s" "w_writing s' = w_writing s"
    "told_written es = []" "w_removed s' \<longleftrightarrow> w_removed s \<or> ev_close_files \<in> set es"
  shows "ws_ok s' acc wr f (ev @ es)"
  using assms(1) assms(2-) by (simp add: ws_ok_def told_written_append)

lemma on_send_ok:
  assumes "ws_ok s acc wr f ev" "w_posted s = v # vs"
  shows "ws_ok (on_send v (s\<lparr>w_posted := vs\<rparr>)) acc wr f ev"
proof (cases "w_queue s")
  case Nil
  with assms have "\<not> f" "v \<noteq> []" by (auto simp: ws_ok_def)
  with Nil assms show ?thesis by (simp add: ws_ok_def on_send_def ws_write_def)
next
  case (Cons u q)
  with assms show ?thesis by (simp add: ws_ok_def on_send_def)
qed

lemma on_write_ok:
  assumes "ws_ok s acc wr f ev" "w_writing s = Some v"
  shows "ws_ok (snd (on_write False (length v) s)) acc (wr @ [v]) f (ev @ fst (on_write False (length v) s))"
    and "ws_ok (snd (on_write True n s)) acc wr True (ev @ fst (on_write True n s))"
proof -
  obtain q where q: "w_queue s = v # q" "\<not> f"
    using assms by (cases "w_queue s") (simp_all add: ws_ok_def split: if_splits)
  have "q = [] \<or> hd q \<noteq> []" using assms(1) q by (cases q) (auto simp: ws_ok_def)
  then show "ws_ok (snd (on_write False (length v) s)) acc (wr @ [v]) f (ev @ fst (on_write False (length v) s))"
    using assms q by (cases "q = []") (simp_all add: ws_ok_def on_write_def ws_write_def told_written_append)
  show "ws_ok (snd (on_write True n s)) acc wr True (ev @ fst (on_write True n s))"
    using assms q by (simp add: ws_ok_def on_write_def told_written_append)
qed

lemma ws_steps_ok: "ws_steps s acc wr f ev \<Longrightarrow> ws_ok s acc wr f ev"
proof (induction rule: ws_steps.induct)
  case (w_start n b_ssl)
  then show ?case by (simp add: ws_ok_def ws_run_def new_ws_session_def)
next
  case (w_send s acc wr f ev v b s')
  from w_send.hyps(2) consider "\<not> b" "s' = s" | "b" "v \<noteq> []" "s' = s\<lparr>w_posted := w_posted s @ [v]\<rparr>"
    by (auto simp: do_send_def split: if_splits)
  then show ?case using w_send.IH by cases (simp_all add: ws_ok_def)
next
  case (w_run_posted s acc wr f ev v vs)
  then show ?case by (simp add: on_send_ok)
next
  case (w_wrote s acc wr f ev v es s')
  with on_write_ok(1) [OF w_wrote.IH w_wrote.hyps(2)] show ?case by simp
next
  case (w_write_failed s acc wr f ev v n es s')
  with on_write_ok(2) [OF w_write_failed.IH w_write_failed.hyps(2), of n] show ?case by simp
next
  case (w_read s acc wr f ev ec v es s')
  show ?case by (rule ws_ok_frame [OF w_read.IH])
      (use w_read.hyps(3) in \<open>auto simp: on_read_def Let_def ws_do_read_def split: ws_error.splits if_splits\<close>)
next
  case (w_control s acc wr f ev b es s')
  show ?case by (rule ws_ok_frame [OF w_control.IH])
      (use w_control.hyps(3) in \<open>auto simp: on_callback_control_def split: if_splits\<close>)
next
  case (w_accepted s acc wr f ev b es s')
  show ?case by (rule ws_ok_frame [OF w_accepted.IH])
      (use w_accepted.hyps(3) in \<open>auto simp: ws_on_accept_def Let_def ws_do_read_def split: if_splits\<close>)
next
  case (w_handshake s acc wr f ev b es s')
  show ?case by (rule ws_ok_frame [OF w_handshake.IH])
      (use w_handshake.hyps(3) in \<open>auto simp: on_handshake_def Let_def split: if_splits\<close>)
qed

text \<open>C14. The messages of a session leave in the order in which they were accepted, each one once, and one at a time:
  at any moment what was accepted is what was written, then what waits behind the message that is being written
  (the first of the queue), then what is posted; the write callback was told of exactly what was written; a
  session that is to be removed has closed its files.\<close>

theorem messages_leave_in_order:
  assumes "ws_steps s acc wr f ev"
  shows "acc = wr @ w_queue s @ w_posted s \<and> told_written ev = wr
    \<and> w_writing s = (if f \<or> w_queue s = [] then None else Some (hd (w_queue s)))
    \<and> (w_removed s \<longleftrightarrow> ev_close_files \<in> set ev)"
  using ws_steps_ok [OF assms] by (auto simp: ws_ok_def)

text \<open>As long as no write fails, everything that was accepted can be written without anything else happening.\<close>

lemma ws_run_posted:
  "ws_steps s acc wr False ev \<Longrightarrow> \<exists>s'. ws_steps s' acc wr False ev \<and> w_posted s' = []"
proof (induction "w_posted s" arbitrary: s)
  case Nil
  then show ?case by metis
next
  case (Cons v vs)
  from Cons.hyps(2) have p: "w_posted s = v # vs" by simp
  have "w_posted (on_send v (s\<lparr>w_posted := vs\<rparr>)) = vs" by (simp add: on_send_def Let_def ws_write_def)
  with Cons.hyps(1) [OF _ w_run_posted [OF Cons.prems p]] show ?case by simp
qed

lemma ws_write_all:
  "ws_steps s acc wr False ev \<Longrightarrow> w_posted s = [] \<Longrightarrow> \<exists>s' ev'. ws_steps s' acc acc False ev' \<and> w_queue s' = []"
proof (induction "w_queue s" arbitrary: s wr ev)
  case Nil
  then have "acc = wr" using ws_steps_ok [OF Nil.prems(1)] by (simp add: ws_ok_def)
  then show ?case using Nil by metis
next
  case (Cons v q)
  have w: "w_writing s = Some v" using ws_steps_ok [OF Cons.prems(1)] Cons.hyps(2) [symmetric] by (simp add: ws_ok_def)
  let ?r = "on_write False (length v) s"
  have r: "on_write False (length v) s = (fst ?r, snd ?r)" by simp
  have "w_queue (snd ?r) = q \<and> w_posted (snd ?r) = []"
    using Cons.hyps(2) [symmetric] Cons.prems(2) by (simp add: on_write_def Let_def ws_write_def)
  with Cons.hyps(1) [OF _ w_wrote [OF Cons.prems(1) w r]] show ?case by simp
qed


text \<open>After a write has failed, messages are still accepted, but none is written any more.\<close>

lemma nothing_written_after_failure:
  assumes "ws_steps s acc wr True ev" "w_setup s" "\<not> w_removed s" "v \<noteq> []"
  shows "w_writing s = None \<and> fst (do_send v s) \<and> w_writing (on_send v s) = None"
  using ws_steps_ok [OF assms(1)] assms(2-4)
  by (cases "w_queue s") (auto simp: ws_ok_def do_send_def on_send_def Let_def)

text \<open>
  A client whose opening handshake fails leaves a session with nothing under way that is not marked for removal: it
  stays in the map of the server.
\<close>

lemma failed_accept_stays:
  assumes "s = snd (ws_on_accept True (ws_run (new_ws_session n False)))"
  shows "\<not> w_removed s \<and> \<not> w_setup s \<and> \<not> w_reading s \<and> \<not> w_accepting s \<and> w_writing s = None \<and> w_posted s = []"
  using assms by (simp add: ws_on_accept_def ws_run_def new_ws_session_def)

section \<open>The numbers of the sessions\<close>

definition server_ok :: "ws_server \<Rightarrow> bool" where
  "server_ok srv =
     (map_ok (ws_map srv) \<and> map_of (ws_map srv) (ws_next srv) = None \<and> ws_next srv \<noteq> invalid_session_number
      \<and> list_all (\<lambda>(n, s). w_number s = n \<and> n \<noteq> invalid_session_number) (ws_map srv))"

lemma generate_valid: "generate_session_number gen k = Some (n, k') \<Longrightarrow> n \<noteq> invalid_session_number"
proof -
  have "fst r \<noteq> invalid_session_number" if "generate_session_number gen k = Some r" for r
    using that by (rule generate_session_number.raw_induct [rotated]) (auto split: if_splits)
  then show "generate_session_number gen k = Some (n, k') \<Longrightarrow> n \<noteq> invalid_session_number" by fastforce
qed

lemma fresh_valid: "fresh_number gen k m = Some r \<Longrightarrow> map_of m (fst r) = None \<and> fst r \<noteq> invalid_session_number"
  by (erule fresh_number.raw_induct [rotated]) (fastforce split: if_splits option.splits prod.splits dest: generate_valid)

lemma fresh_returns:
  assumes "k \<le> j" "gen j \<noteq> invalid_session_number" "map_of m (gen j) = None"
  shows "\<exists>r. fresh_number gen k m = Some r"
proof -
  let ?free = "\<lambda>j. gen j \<noteq> invalid_session_number \<and> map_of m (gen j) = None"
  have "\<exists>r. fresh_number gen i m = Some r" if "k \<le> i" "i \<le> j" for i
    using that(2)
  proof (induction rule: inc_induct)
    case base
    have "generate_session_number gen j = Some (gen j, j + 1)" using assms(2) by (simp add: generate_session_number.simps)
    then show ?case using assms(3) by (simp add: fresh_number.simps [of gen j])
  next
    case (step i)
    show ?case
    proof (cases "gen i = invalid_session_number")
      case True
      then have "generate_session_number gen i = generate_session_number gen (Suc i)"
        by (simp add: generate_session_number.simps [of gen i])
      then have "fresh_number gen i m = fresh_number gen (Suc i) m"
        by (simp add: fresh_number.simps [of gen i] fresh_number.simps [of gen "Suc i"])
      then show ?thesis using step(3) by simp
    next
      case False
      then have "generate_session_number gen i = Some (gen i, Suc i)" by (simp add: generate_session_number.simps)
      then show ?thesis using step(3) by (simp add: fresh_number.simps [of gen i] split: option.split)
    qed
  qed
  from this [OF order.refl assms(1)] show ?thesis .
qed

lemma removed_ok: "server_ok srv \<Longrightarrow> server_ok (remove_remove_reserved_sesssion srv)"
  by (auto simp: server_ok_def remove_remove_reserved_sesssion_def filter_map_ok map_of_eq_None_iff list_all_iff)

lemma removed_map:
  assumes "map_ok (ws_map srv)"
  shows "map_of (ws_map (remove_remove_reserved_sesssion srv)) n = ws_get_session n srv"
proof -
  have "map_of (filter (\<lambda>e. P (snd e)) m) n = (case map_of m n of None \<Rightarrow> None | Some s \<Rightarrow> if P s then Some s else None)"
    if "distinct (map fst m)" for P and m :: "(u32 \<times> ws_session) list"
    using that by (induction m) (auto simp: map_of_eq_None_iff split: option.splits dest: map_of_SomeD)
  from this [OF map_ok_distinct [OF assms], of "\<lambda>s. \<not> w_removed s"] show ?thesis
    by (auto simp: remove_remove_reserved_sesssion_def ws_get_session_def split: option.splits)
qed

text \<open>C17. Every connection gets a session of its own: accepting one ends when the random numbers reach an unused one, the
  new session has a number that no session had and that is not the reserved one, and the server keeps exactly the
  sessions that are not to be removed, as they were.\<close>

theorem connection_gets_its_session:
  assumes "server_ok srv" "ws_drawn srv \<le> j" "gen j \<noteq> invalid_session_number" "gen j \<noteq> ws_next srv"
    "ws_get_session (gen j) srv = None"
  shows "\<exists>srv'. server_on_accept gen b_ssl False srv = Some srv' \<and> server_ok srv'
    \<and> map_of (ws_map srv) (ws_next srv) = None \<and> ws_next srv \<noteq> invalid_session_number
    \<and> (\<forall>n. map_of (ws_map srv') n = (if n = ws_next srv then Some (ws_run (new_ws_session n b_ssl)) else ws_get_session n srv))"
proof -
  let ?x = "ws_next srv" let ?srv = "remove_remove_reserved_sesssion srv"
  have n: "ws_next ?srv = ?x" "ws_drawn ?srv = ws_drawn srv" by (simp_all add: remove_remove_reserved_sesssion_def)
  have o: "map_ok (ws_map srv)" "map_of (ws_map srv) ?x = None" "?x \<noteq> invalid_session_number"
    using assms(1) by (simp_all add: server_ok_def)
  note m = removed_map [OF o(1)] and r = removed_ok [OF assms(1)]
  have free: "map_of (ws_map ?srv) ?x = None" using o(2) by (simp add: m ws_get_session_def)
  let ?m = "map_put ?x (new_ws_session ?x b_ssl) (ws_map ?srv)"
  have "map_of ?m (gen j) = None" using assms(4,5) m by (simp add: map_of_map_put)
  from fresh_returns [of "ws_drawn srv" j gen ?m, OF assms(2,3) this] obtain n' k' where f: "fresh_number gen (ws_drawn srv) ?m = Some (n', k')" by auto
  let ?m' = "map_put ?x (ws_run (new_ws_session ?x b_ssl)) ?m"
  have a: "server_on_accept gen b_ssl False srv = Some \<lparr>ws_map = ?m', ws_next = n', ws_drawn = k'\<rparr>"
    by (simp add: server_on_accept_def create_session_and_insert_to_map_def n free f map_of_map_put)
  have e: "map_of ?m' n = (if n = ?x then Some (ws_run (new_ws_session n b_ssl)) else ws_get_session n srv)" for n
    by (simp add: map_of_map_put m)
  have "w_number (ws_run (new_ws_session ?x b_ssl)) = ?x" "w_number (new_ws_session ?x b_ssl) = ?x"
    by (simp_all add: ws_run_def new_ws_session_def)
  then have "list_all (\<lambda>(n, s). w_number s = n \<and> n \<noteq> invalid_session_number) ?m'"
    using r o(3) by (intro list_all_put) (simp_all add: server_ok_def)
  then have "server_ok \<lparr>ws_map = ?m', ws_next = n', ws_drawn = k'\<rparr>"
    using fresh_valid [OF f] r by (simp add: server_ok_def map_put_ok map_of_map_put split: if_splits)
  then show ?thesis using a e o(2,3) by auto
qed


section \<open>The daemon and its sockets\<close>

text \<open>The sessions of the daemon are those that are set up and not to be removed.\<close>

definition is_open_session :: "ws_session \<Rightarrow> bool" where
  "is_open_session s = (w_setup s \<and> \<not> w_removed s)"

definition open_sessions :: "(u32, ws_session) ordered_map \<Rightarrow> u32 list" where
  "open_sessions m = map fst (filter (\<lambda>e. is_open_session (snd e)) m)"

definition server_rel :: "ws_server \<Rightarrow> daemon \<Rightarrow> bool" where
  "server_rel srv d = (server_ok srv \<and> open_sessions (ws_map srv) = map fst (dm_sessions d))"

lemma do_send_same:
  "is_open_session (snd (do_send v s)) = is_open_session s" "w_number (snd (do_send v s)) = w_number s"
  "fst (do_send v s) = (v \<noteq> [] \<and> is_open_session s)"
  by (auto simp: do_send_def is_open_session_def)

lemma open_sessions_put:
  "map_ok m \<Longrightarrow> map_of m k = Some s \<Longrightarrow> is_open_session s' = is_open_session s \<Longrightarrow> open_sessions (map_put k s' m) = open_sessions m"
proof (induction m)
  case (Cons e m)
  obtain k' t where e: "e = (k', t)" by force
  show ?case
  proof (cases "k = k'")
    case False
    then have "map_of m k = Some s" using Cons.prems(2) by (simp add: e)
    moreover have "k' < k" using Cons.prems(1) map_of_in_map [OF calculation] by (fastforce simp: e)
    ultimately show ?thesis using Cons False less_not_sym [of k' k] by (simp add: e open_sessions_def)
  qed (use Cons.prems in \<open>simp add: e open_sessions_def\<close>)
qed simp

lemma open_sessions_in:
  "map_ok m \<Longrightarrow> x \<in> set (open_sessions m) \<longleftrightarrow> (\<exists>s. map_of m x = Some s \<and> is_open_session s)"
  using map_ok_distinct [of m] by (force simp: open_sessions_def dest: map_of_in_map)

lemma send_rel:
  assumes "server_rel srv d"
  shows "dm_sent (send_data_to_client_by_ip4 v x d) = dm_sent d @ fst (server_send v x srv)"
    and "server_rel (snd (server_send v x srv)) (send_data_to_client_by_ip4 v x d)"
proof -
  have o: "map_ok (ws_map srv)" "open_sessions (ws_map srv) = map fst (dm_sessions d)"
    using assms by (simp_all add: server_rel_def server_ok_def)
  have i: "map_of (dm_sessions d) x \<noteq> None \<longleftrightarrow> (\<exists>s. map_of (ws_map srv) x = Some s \<and> is_open_session s)"
    using open_sessions_in [OF o(1), of x] by (auto simp: o(2) map_of_eq_None_iff)
  have d: "dm_sessions (send_data_to_client_by_ip4 v x d) = dm_sessions d" by (simp add: send_data_to_client_by_ip4_def)
  have "(dm_sent (send_data_to_client_by_ip4 v x d) = dm_sent d @ fst (server_send v x srv))
      \<and> server_rel (snd (server_send v x srv)) (send_data_to_client_by_ip4 v x d)"
  proof (cases "v = [] \<or> ws_get_session x srv = None")
    case True
    then have "v = [] \<or> map_of (dm_sessions d) x = None"
      using i by (auto simp: ws_get_session_def is_open_session_def split: option.splits if_splits)
    then show ?thesis using True assms by (auto simp: server_send_def send_data_to_client_by_ip4_def)
  next
    case False
    then obtain s where s: "map_of (ws_map srv) x = Some s" "ws_get_session x srv = Some s"
      by (auto simp: ws_get_session_def split: option.splits if_splits)
    let ?r = "do_send v s"
    have r: "server_send v x srv = (if fst ?r then [(x, v)] else [], srv\<lparr>ws_map := map_put x (snd ?r) (ws_map srv)\<rparr>)"
      using False s(2) by (simp add: server_send_def case_prod_unfold)
    have "server_rel (srv\<lparr>ws_map := map_put x (snd ?r) (ws_map srv)\<rparr>) d"
    proof -
      have "w_number s = x" "x \<noteq> invalid_session_number"
        using assms map_of_in_map [OF s(1)] by (auto simp: server_rel_def server_ok_def list_all_iff)
      moreover have "ws_next srv \<noteq> x" using assms s(1) by (auto simp: server_rel_def server_ok_def)
      ultimately show ?thesis
        using assms open_sessions_put [OF o(1) s(1) do_send_same(1)]
        by (simp add: server_rel_def server_ok_def map_put_ok map_of_map_put list_all_put do_send_same(2))
    qed
    then show ?thesis
      using r i s(1) False by (auto simp: send_data_to_client_by_ip4_def do_send_same(3) server_rel_def)
  qed
  then show "dm_sent (send_data_to_client_by_ip4 v x d) = dm_sent d @ fst (server_send v x srv)"
    "server_rel (snd (server_send v x srv)) (send_data_to_client_by_ip4 v x d)" by blast+
qed

lemma broadcast_rel:
  assumes "server_rel srv d"
  shows "dm_sent (broadcast_by_ip4 x v d) = dm_sent d @ fst (server_broadcast x v srv)"
    and "server_rel (snd (server_broadcast x v srv)) (broadcast_by_ip4 x v d)"
proof -
  let ?f = "\<lambda>(n :: u32, s). (n, if w_number s \<noteq> x then snd (do_send v s) else s)"
  have "concat (map (\<lambda>(n, s). if w_number s \<noteq> x \<and> fst (do_send v s) then [(n, v)] else []) m)
      = map (\<lambda>n. (n, v)) (filter (\<lambda>n. n \<noteq> x) (open_sessions m))"
    if "list_all (\<lambda>(n, s). w_number s = n \<and> n \<noteq> invalid_session_number) m" "v \<noteq> []" for m
    using that by (induction m) (auto simp: open_sessions_def do_send_same(3))
  then show "dm_sent (broadcast_by_ip4 x v d) = dm_sent d @ fst (server_broadcast x v srv)"
    using assms by (simp add: broadcast_by_ip4_def server_broadcast_def server_rel_def server_ok_def)
  have k: "map fst (map ?f m) = map fst m" "open_sessions (map ?f m) = open_sessions m"
      "list_all (\<lambda>(n, s). w_number s = n \<and> n \<noteq> invalid_session_number) (map ?f m)
         = list_all (\<lambda>(n, s). w_number s = n \<and> n \<noteq> invalid_session_number) m" for m
    by (induction m) (auto simp: open_sessions_def do_send_same split: if_splits)
  have "map_of (map ?f m) n = None \<longleftrightarrow> map_of m n = None" for m n
    unfolding map_of_eq_None_iff using k(1) [of m] by (metis list.set_map)
  then show "server_rel (snd (server_broadcast x v srv)) (broadcast_by_ip4 x v d)"
    using assms by (simp add: broadcast_by_ip4_def server_broadcast_def server_rel_def server_ok_def k del: map_map)
qed



section \<open>Examples\<close>

text \<open>A client connects, two messages are sent to it, and the first is written.\<close>

definition example_set_up :: ws_session where
  "example_set_up = (new_ws_session 7 False)\<lparr>w_setup := True, w_reading := True\<rparr>"

lemma example_ws_steps:
  "ws_steps (example_set_up\<lparr>w_queue := [[2]], w_writing := Some [2]\<rparr>) [[1], [2]] [[1]] False [ev_accept False, ev_write False [1]]"
proof -
  have a: "ws_steps example_set_up [] [] False [ev_accept False]"
    using w_accepted [OF w_start, of 7 False False "[ev_accept False]" example_set_up]
    by (simp add: ws_run_def new_ws_session_def ws_on_accept_def ws_do_read_def example_set_up_def)
  have b: "ws_steps (example_set_up\<lparr>w_posted := [[1]]\<rparr>) [[1]] [] False [ev_accept False]"
    using w_send [OF a, of "[1]" True] by (simp add: do_send_def example_set_up_def new_ws_session_def)
  have c: "ws_steps (example_set_up\<lparr>w_queue := [[1]], w_writing := Some [1]\<rparr>) [[1]] [] False [ev_accept False]"
    using w_run_posted [OF b, of "[1]" "[]"] by (simp add: on_send_def ws_write_def example_set_up_def new_ws_session_def)
  have d: "ws_steps (example_set_up\<lparr>w_posted := [[2]], w_queue := [[1]], w_writing := Some [1]\<rparr>) [[1], [2]] [] False [ev_accept False]"
    using w_send [OF c, of "[2]" True] by (simp add: do_send_def example_set_up_def new_ws_session_def)
  have e: "ws_steps (example_set_up\<lparr>w_queue := [[1], [2]], w_writing := Some [1]\<rparr>) [[1], [2]] [] False [ev_accept False]"
    using w_run_posted [OF d, of "[2]" "[]"] by (simp add: on_send_def example_set_up_def new_ws_session_def)
  show ?thesis
    using w_wrote [OF e, of "[1]"] by (simp add: on_write_def ws_write_def example_set_up_def new_ws_session_def)
qed

theorem messages_leave_in_order_witness:
  "told_written [ev_accept False, ev_write False [1]] = [[1]] \<and> w_writing (example_set_up\<lparr>w_queue := [[2]], w_writing := Some [2]\<rparr>) = Some [2]"
  using messages_leave_in_order [OF example_ws_steps] by simp


text \<open>The server with this session, the second number of the generator being in use.\<close>

definition example_server :: ws_server where
  "example_server = \<lparr>ws_map = [(7, example_set_up)], ws_next = 9, ws_drawn = 1\<rparr>"

lemma example_server_ok: "server_ok example_server"
  by (simp add: server_ok_def example_server_def example_set_up_def new_ws_session_def)

theorem connection_gets_its_session_witness:
  "\<exists>srv'. server_on_accept (\<lambda>k. if k < 3 then 7 else 8) True False example_server = Some srv'
     \<and> map_of (ws_map srv') 9 = Some (ws_run (new_ws_session 9 True)) \<and> map_of (ws_map srv') 7 = Some example_set_up"
proof -
  have "ws_get_session 8 example_server = None" by (simp add: ws_get_session_def example_server_def)
  with connection_gets_its_session [OF example_server_ok, of 5 "\<lambda>k. if k < 3 then 7 else 8" True]
  obtain srv' where "server_on_accept (\<lambda>k. if k < 3 then 7 else 8) True False example_server = Some srv'"
      "\<forall>n. map_of (ws_map srv') n = (if n = 9 then Some (ws_run (new_ws_session n True)) else ws_get_session n example_server)"
    by (auto simp: example_server_def)
  then show ?thesis by (auto simp: ws_get_session_def example_server_def example_set_up_def new_ws_session_def)
qed

definition example_daemon_of_server :: daemon where
  "example_daemon_of_server =
     \<lparr>dm_ctl = ctl_svr_ini, dm_sessions = [(7, new_session_files)], dm_files = empty_store, dm_params = [], dm_sent = []\<rparr>"


end
