(* ===== verification/Spec2Isabelle.thy ===== *)
theory Spec2Isabelle
  imports Answers Decimal DevSessions FunLpu237 IoJson KeyMapPs2 ProtoBypass ProtoParam ProtoRx TrackData UpdateSession WsSession
begin

text \<open>
  \<^bold>\<open>What the program is.\<close> The repository holds the software around the magnetic card readers of the LPU237
  family: the protocol of the device (\<open>src/shared/common/inc\<close>), the daemon that shares the devices between
  client programs (\<open>src/shared/lib\<close>), the firmware updater with its boot loader protocol and its container of
  firmware images (\<open>src/shared/projects/lpu230_update\<close>, \<open>src/shared/projects/rom\<close>), client libraries and OPOS
  service objects. A client sends packets to the daemon over a web socket; the daemon passes them to the worker
  of a device, which talks to the device in reports of 65 bytes; what the reports say is the business of
  \<open>cprotocol_lpu237\<close> on the client's side and in the updater. The updater asks the device to start its boot
  loader and then erases and writes the sectors of an image from the container.

  \<^bold>\<open>How it is modelled.\<close> A class is a record with the names of its members, a member function is a function
  from the record to the record and its result, in the order of the source. Failing is a value: \<open>bool\<close>, a sum
  or an \<open>option\<close>. In the functions that may wait without end \<open>None\<close> is a wait that does not end; in the
  functions that read memory it is an access outside the object. Bytes and 32-bit numbers are words, so that
  additions wrap around as in the code. Objects of other libraries are arguments: the device (a function from the
  written to the read report, with its state), SHA-256, the text conversions of the locale, the parser of JSON,
  the file system.

  \<^bold>\<open>Shared.\<close> \<open>Prelude\<close>: words, the \<open>do { ... continue ... } while (false)\<close> idiom, lists. \<open>Codec\<close>: the byte layouts
  of parameters as the locale \<open>byte_codec\<close> (encoding, decoding, the law that decoding inverts encoding),
  interpreted for every layout in use. \<open>Convert\<close> and \<open>Decimal\<close>: \<open>mp_cconvert.h\<close>, \<open>mp_cstring.h\<close>,
  \<open>mp_coperation.h\<close>, with the lemmas that hexadecimal text, multi-strings and BCD are read back as written, and when
  the check for UTF-8 ends. \<open>Version\<close>: \<open>mp_cversion.h\<close>, with the order of versions an instance of \<open>linorder\<close>.

  \<^bold>\<open>The protocol\<close> (\<open>cprotocol_lpu237.h\<close>). \<open>ProtoState\<close> has the members, queues and counters; \<open>ProtoTx\<close> the cutting of
  requests into reports and the joining of reports into responses; \<open>ProtoBypass\<close> the chained requests for the
  serial port; \<open>ProtoSetter\<close> the setters and the set of changes, under the locale \<open>change_tracked\<close>; \<open>ProtoGet\<close>
  and \<open>ProtoSet\<close> one request for every parameter and the download of the key maps; \<open>ProtoParam\<close> the sequences that
  read or write all parameters; \<open>ProtoRx\<close> the processing of responses, with the locale \<open>parameter_read\<close> for what a
  response stores; \<open>TrackData\<close> the data of a card. \<open>SysInfo\<close> is the configuration block of the device, \<open>FunLpu237\<close>
  the table of features (\<open>cfun_lpu237.h\<close>, locale \<open>threshold_feature\<close>), \<open>KeyMapHid\<close> and \<open>KeyMapPs2\<close> the key maps
  (\<open>ckey_map.h\<close>). The lemmas show that a request is recovered from its reports, that a good response stores the
  value the device has and a bad one stores nothing, that requests and responses pair up, that a changed
  parameter is sent, and that a write request touches one region of the block.

  \<^bold>\<open>The updater.\<close> \<open>RomFile\<close>: the container (\<open>dllmain.cpp\<close> of \<open>rom\<close>), with the round trip of an image and the
  decision whether an image is an update. \<open>HidBootBuffer\<close> and \<open>HidBootManager\<close>
  (\<open>HidBootManager.cpp\<close>), with the packets that a sector becomes. \<open>DeviceSession\<close> and \<open>UpdateShare\<close>: \<open>cshare.cpp\<close>,
  the dialogues with the device and the data of the update. \<open>UpdaterState\<close>, \<open>UpdaterSteps\<close>, \<open>UpdaterThread\<close>:
  \<open>cupdater.cpp\<close>, the dialogs as a state machine with the reachable states, the steps of the update thread and the
  thread. \<open>UpdateSession\<close> composes them: against a boot loader that keeps what it receives, the update is refined
  down to the packets of the sectors, and it succeeds when the devices do. \<open>HidDevSet\<close>: the set of the connected
  devices (\<open>mp_clibhid.cpp\<close>, \<open>mp_clibhid_dev_info.cpp\<close>) and what is told of its changes.

  \<^bold>\<open>The daemon.\<close> \<open>IoPacket\<close>, \<open>IoData\<close>, \<open>IoText\<close>, \<open>IoJson\<close>: the packets (\<open>mp_cio_packet.h\<close>), their validity, their
  data field, text, errors, and JSON in both directions. \<open>CtlBase\<close>: what the handlers share (\<open>mp_cbase_ctl_fn_.cpp\<close>,
  \<open>mp_cqitem_dev.h\<close>). \<open>DevQueue\<close> and \<open>DevState\<close>: \<open>mp_cdev_ctl_fn_.cpp\<close>, the queues of a device and the requests of
  the sessions that share it. \<open>DevCtl\<close>: its worker (\<open>mp_cdev_ctl_.cpp\<close>) as the step relation \<open>dev_steps\<close>. \<open>DevOnce\<close>
  and \<open>DevSessions\<close> hold its invariants: every request is answered once or waits, and a session does not change
  the state of another. \<open>UpdaterParam\<close>: the updates that clients start (\<open>cupdater_param_.cpp\<close>,
  \<open>cupdater_mgmt_.cpp\<close>). \<open>CtlSvr\<close>: the control of the daemon
  (\<open>mp_cctl_svr_.cpp\<close>), which leads a request to the queue of its worker. \<open>SessionFile\<close>: the files of a session
  (\<open>csession\<close> in \<open>mp_cws_server.h\<close>). \<open>VHidInfo\<close> and \<open>DevList\<close>: the virtual devices of a reader
  (\<open>_vhid_info.h\<close>) and the list that a client asks for (\<open>mp_cdev_util.h\<close>). \<open>MainCtl\<close>: the management requests
  (\<open>mp_cmain_ctl_fn_.cpp\<close>, \<open>mp_cmain_ctl_.cpp\<close>, \<open>mp_ckernel_ctl_.cpp\<close>) on the state of the whole daemon. \<open>Daemon\<close>:
  the callbacks of the web server (\<open>mp_cserver_.cpp\<close>), the workers and the devices that come and go as the step
  relation \<open>daemon_steps\<close>. \<open>DaemonSafe\<close> and \<open>Answers\<close>, with \<open>PacketHeader\<close>, hold what is true of it: the workers
  and names belong to the open sessions, a text of a client has one effect and only on behalf of its own
  session, and every request that is taken from a queue gets one answer, which goes to its session. \<open>WsSession\<close>: the
  sessions of the web server (\<open>csession\<close> and \<open>cws_server\<close> in \<open>mp_cws_server.h\<close>), what they have to write and
  the handlers of their operations as the step relation \<open>ws_steps\<close>: messages leave in order and are written in
  the end, a connection gets a session of its own, and what \<open>Daemon\<close> sends is what the sessions accept.

  \<^bold>\<open>Loops and fuel.\<close> Loops are structural recursions or functions with a termination proof. Seven of them may not
  end in the code and are \<open>partial_function (option)\<close> or a sequence of steps. The wait for an answer of the boot
  loader (\<open>HidBootManager\<close>), the check for UTF-8 (\<open>Convert\<close>), the search for an unused name (\<open>CtlSvr\<close>) and the two
  loops that draw the number of a session (\<open>WsSession\<close>) come with lemmas that say when they return. For the loop of
  the update thread, \<open>UpdateSession\<close> shows that it returns when the devices answer. The worker of a device runs as
  long as the daemon and is an \<open>inductive\<close> relation, as are the dialogs. The waits of the updater for the device
  list have the number of rounds of the code as argument.

  \<^bold>\<open>Not modelled.\<close> The text forms of tags, which nothing calls. The network below the web sockets, which is
  asynchronous calls of Boost.Beast (\<open>WsSession\<close> has the handlers that run when they end), the client of the web
  socket (\<open>mp_cws_client.h\<close>), and the creation and settings of the server. The access to the devices over hidapi.
  The exported functions of the client libraries, which forward to the daemon. The OPOS service objects with
  their COM and window procedures. Logging, certificates and the start of the daemon, which are calls of the
  operating system and of OpenSSL. Drawing, sleeping and tracing are left out of the functions that are modelled.
  Threads are interleavings of whole steps.
\<close>

end
